(* ===== verification/Prelude.thy ===== *)
theory Prelude
  imports Complex_Main "HOL-Library.Sublist" "HOL-Library.Multiset"
begin

text \<open>
  Shared vocabulary of the development: the JavaScript primitives the frontend relies on
  (numbers, strings, arrays, objects used as dictionaries), and the generic lemmas the
  component theories use.

  Numbers. A JavaScript number is an IEEE double: a finite value, one of the infinities or
  NaN. Every finite double is a rational, so a finite number is modelled by its exact
  rational value; the two zeros are identified (the code never distinguishes them).

  Strings. A string is the list of the bytes of its UTF-8 encoding, so the model ranges over
  the well-formed JavaScript strings (no lone surrogates). \<open>utf16_length\<close> is the
  \<open>.length\<close> the code reads: the number of UTF-16 code units.

  Dictionaries. \<open>Record<string, T>\<close> objects are maps from keys to values. The keys the
  stores use are server, project, placement and artifact ids, twelve hexadecimal digits
  minted by the backend, so the names inherited from \<open>Object.prototype\<close> do not occur.
\<close>

named_theorems js_defs \<open>definitions of the JavaScript primitives\<close>

subsection \<open>Numbers\<close>

datatype js_number = Fin rat | PosInf | NegInf | NaN

fun is_finite :: "js_number \<Rightarrow> bool" where
  "is_finite (Fin q) = True"
| "is_finite _ = False"

fun is_integer :: "js_number \<Rightarrow> bool" where
  "is_integer (Fin q) = (snd (quotient_of q) = 1)"
| "is_integer _ = False"

text \<open>The comparison \<open>a <= b\<close>: false as soon as one side is NaN.\<close>

fun num_le :: "js_number \<Rightarrow> js_number \<Rightarrow> bool" where
  "num_le (Fin p) (Fin q) = (p \<le> q)"
| "num_le NaN _ = False"
| "num_le _ NaN = False"
| "num_le NegInf _ = True"
| "num_le _ PosInf = True"
| "num_le _ _ = False"

definition num_of_nat :: "nat \<Rightarrow> js_number" where
  "num_of_nat n = Fin (of_nat n)"

definition num_of_int :: "int \<Rightarrow> js_number" where
  "num_of_int i = Fin (of_int i)"

lemma is_integer_finite [simp]: "is_integer x \<Longrightarrow> is_finite x"
  by (cases x) auto

lemma is_finite_iff: "is_finite x \<longleftrightarrow> (\<exists>q. x = Fin q)"
  by (cases x) auto

lemma is_integer_num_of_int [simp]: "is_integer (num_of_int i)"
  by (simp add: num_of_int_def)

lemma is_integer_num_of_nat [simp]: "is_integer (num_of_nat n)"
  using is_integer_num_of_int [of "int n"] by (simp add: num_of_nat_def num_of_int_def)

lemma is_integer_iff: "is_integer x \<longleftrightarrow> (\<exists>i. x = num_of_int i)"
proof
  assume "is_integer x"
  then obtain q where x: "x = Fin q" and d: "snd (quotient_of q) = 1"
    by (cases x) auto
  obtain a where "quotient_of q = (a, 1)" using d by (cases "quotient_of q") auto
  then have "q = of_int a" using quotient_of_div [of q a 1] by simp
  then show "\<exists>i. x = num_of_int i" using x by (auto simp: num_of_int_def)
qed auto

text \<open>
  \<open>Math.round\<close> rounds to the nearest integer, ties upwards; \<open>Math.floor\<close> is
  \<open>floor\<close>.
\<close>

definition math_round :: "rat \<Rightarrow> int" where
  "math_round q = \<lfloor>q + 1 / 2\<rfloor>"

lemma math_round_of_int [simp]: "math_round (of_int i) = i"
  unfolding math_round_def by (rule floor_unique) auto

lemma math_round_mono: "p \<le> q \<Longrightarrow> math_round p \<le> math_round q"
  by (simp add: math_round_def floor_mono)

lemma math_round_nonneg: "0 \<le> q \<Longrightarrow> 0 \<le> math_round q"
  using math_round_mono [of 0 q] math_round_of_int [of 0] by simp

subsection \<open>Decimal printing of integers\<close>

fun digit_char :: "nat \<Rightarrow> char" where
  "digit_char n = char_of (48 + n)"

fun show_nat :: "nat \<Rightarrow> string" where
  "show_nat n = (if n < 10 then [digit_char n] else show_nat (n div 10) @ [digit_char (n mod 10)])"

declare show_nat.simps [simp del]

definition show_int :: "int \<Rightarrow> string" where
  "show_int i = (if i < 0 then CHR ''-'' # show_nat (nat (- i)) else show_nat (nat i))"

definition is_digit :: "char \<Rightarrow> bool" where
  "is_digit c \<longleftrightarrow> 48 \<le> (of_char c :: nat) \<and> (of_char c :: nat) \<le> 57"

definition digit_value :: "char \<Rightarrow> nat" where
  "digit_value c = of_char c - 48"

text \<open>\<open>Number.parseInt(s, 10)\<close> on a string of decimal digits.\<close>

definition parse_nat :: "string \<Rightarrow> nat" where
  "parse_nat s = foldl (\<lambda>n c. 10 * n + digit_value c) 0 s"

lemma is_digit_digit_char [simp]: "n < 10 \<Longrightarrow> is_digit (digit_char n)"
  by (simp add: is_digit_def)

lemma digit_value_digit_char [simp]: "n < 10 \<Longrightarrow> digit_value (digit_char n) = n"
  by (simp add: digit_value_def)

lemma show_nat_digits: "list_all is_digit (show_nat n)"
proof (induction n rule: show_nat.induct)
  case (1 n)
  then show ?case
    by (subst show_nat.simps) (auto simp del: digit_char.simps)
qed

lemma show_nat_nonempty [simp]: "show_nat n \<noteq> []"
  by (subst show_nat.simps) simp

lemma parse_show_nat [simp]: "parse_nat (show_nat n) = n"
proof (induction n rule: show_nat.induct)
  case (1 n)
  show ?case
  proof (cases "n < 10")
    case True
    then show ?thesis
      by (subst show_nat.simps) (simp add: parse_nat_def del: digit_char.simps)
  next
    case False
    then have "parse_nat (show_nat (n div 10)) = n div 10" using 1 by simp
    with False show ?thesis
      by (subst show_nat.simps) (simp add: parse_nat_def del: digit_char.simps)
  qed
qed

subsection \<open>Strings\<close>

definition byte :: "char \<Rightarrow> nat" where
  "byte c = of_char c"

lemma byte_bound [simp]: "byte c < 256"
  by (simp add: byte_def)

text \<open>
  UTF-16 length of a UTF-8 string: one unit per lead byte of one to three bytes, two (a
  surrogate pair) per lead byte of four, none for a continuation byte.
\<close>

definition byte_units :: "char \<Rightarrow> nat" where
  "byte_units c = (if byte c < 128 then 1 else if byte c < 192 then 0 else if byte c < 240 then 1 else 2)"

definition utf16_length :: "string \<Rightarrow> nat" where
  "utf16_length s = sum_list (map byte_units s)"

lemma utf16_length_Nil [simp]: "utf16_length [] = 0"
  by (simp add: utf16_length_def)

lemma utf16_length_append [simp]: "utf16_length (s @ t) = utf16_length s + utf16_length t"
  by (simp add: utf16_length_def)

definition is_ascii :: "string \<Rightarrow> bool" where
  "is_ascii s \<longleftrightarrow> list_all (\<lambda>c. byte c < 128) s"

lemma utf16_length_ascii: "is_ascii s \<Longrightarrow> utf16_length s = length s"
  by (induction s) (auto simp: is_ascii_def utf16_length_def byte_units_def)

fun split_on :: "char \<Rightarrow> string \<Rightarrow> string list" where
  "split_on d [] = [[]]"
| "split_on d (c # s) =
     (if c = d then [] # split_on d s
      else case split_on d s of [] \<Rightarrow> [[c]] | x # xs \<Rightarrow> (c # x) # xs)"

fun join :: "string \<Rightarrow> string list \<Rightarrow> string" where
  "join sep [] = []"
| "join sep [x] = x"
| "join sep (x # y # xs) = x @ sep @ join sep (y # xs)"

lemma split_on_nonempty [simp]: "split_on d s \<noteq> []"
  by (induction s) (auto split: list.splits)

lemma split_on_no_sep: "d \<notin> set s \<Longrightarrow> split_on d s = [s]"
  by (induction s) auto

lemma split_on_append: "d \<notin> set s \<Longrightarrow> split_on d (s @ d # t) = s # split_on d t"
  by (induction s) auto

lemma split_on_join:
  "xs \<noteq> [] \<Longrightarrow> list_all (\<lambda>x. d \<notin> set x) xs \<Longrightarrow> split_on d (join [d] xs) = xs"
proof (induction "[d]" xs rule: join.induct)
  case (3 x y xs)
  then show ?case using split_on_append [of d x "join [d] (y # xs)"] by simp
qed (auto simp: split_on_no_sep)

lemma join_split_on [simp]: "join [d] (split_on d s) = s"
proof (induction s)
  case (Cons c s)
  obtain x xs where "split_on d s = x # xs" by (cases "split_on d s") auto
  with Cons show ?case by (cases xs) auto
qed simp

lemma split_on_no_sep_elems: "x \<in> set (split_on d s) \<Longrightarrow> d \<notin> set x"
  by (induction s arbitrary: x) (auto split: if_splits list.splits)

text \<open>\<open>hay.includes(needle)\<close>, \<open>s.startsWith(p)\<close> and \<open>s.replaceAll(c, d)\<close> for
  single characters.\<close>

fun str_includes :: "string \<Rightarrow> string \<Rightarrow> bool" where
  "str_includes [] needle = (needle = [])"
| "str_includes (c # s) needle = (prefix needle (c # s) \<or> str_includes s needle)"

definition replace_all_char :: "char \<Rightarrow> char \<Rightarrow> string \<Rightarrow> string" where
  "replace_all_char c d s = map (\<lambda>x. if x = c then d else x) s"

lemma str_includes_iff: "str_includes s needle \<longleftrightarrow> (\<exists>a b. s = a @ needle @ b)"
proof (induction s)
  case (Cons c s)
  show ?case
  proof
    assume "str_includes (c # s) needle"
    then consider "prefix needle (c # s)" | "str_includes s needle" by auto
    then show "\<exists>a b. c # s = a @ needle @ b"
    proof cases
      case 1
      then obtain b where "c # s = [] @ needle @ b" by (auto simp: prefix_def)
      then show ?thesis by blast
    next
      case 2
      then obtain a b where "s = a @ needle @ b" using Cons.IH by blast
      then have "c # s = (c # a) @ needle @ b" by simp
      then show ?thesis by blast
    qed
  next
    assume "\<exists>a b. c # s = a @ needle @ b"
    then obtain a b where e: "c # s = a @ needle @ b" by blast
    show "str_includes (c # s) needle"
    proof (cases a)
      case Nil
      then have "prefix needle (c # s)" using e by (simp add: prefix_def)
      then show ?thesis by simp
    next
      case (Cons x a')
      then have "s = a' @ needle @ b" using e by simp
      then have "str_includes s needle" using Cons.IH by blast
      then show ?thesis by simp
    qed
  qed
qed auto

text \<open>\<open>s.toLowerCase()\<close> on the ASCII letters; other characters are left alone.\<close>

definition ascii_lower :: "string \<Rightarrow> string" where
  "ascii_lower s = map (\<lambda>c. if 65 \<le> byte c \<and> byte c \<le> 90 then char_of (byte c + 32) else c) s"

subsection \<open>Trimming\<close>

text \<open>
  \<open>s.trim()\<close> removes, at both ends, the characters ECMAScript calls WhiteSpace or
  LineTerminator; \<open>ws_chars\<close> lists them by their UTF-8 bytes.
\<close>

definition bytes :: "nat list \<Rightarrow> string" where
  "bytes ns = map char_of ns"

definition ws_chars :: "string list" where
  "ws_chars = map bytes
     ([[9], [10], [11], [12], [13], [32], [194, 160], [225, 154, 128]]
      @ map (\<lambda>k. [226, 128, k]) [128, 129, 130, 131, 132, 133, 134, 135, 136, 137, 138, 168, 169, 175]
      @ [[226, 129, 159], [227, 128, 128], [239, 187, 191]])"

function strip_units :: "string list \<Rightarrow> string \<Rightarrow> string" where
  "strip_units us s =
     (case find (\<lambda>u. u \<noteq> [] \<and> prefix u s) us of
        None \<Rightarrow> s
      | Some u \<Rightarrow> strip_units us (drop (length u) s))"
  by pat_completeness auto
termination
proof (relation "measure (\<lambda>(us, s). length s)", goal_cases)
  case (2 us s u)
  then have "u \<noteq> [] \<and> prefix u s" by (auto simp: find_Some_iff)
  then show ?case by (auto simp: prefix_def)
qed simp

declare strip_units.simps [simp del]

definition trim_start :: "string \<Rightarrow> string" where
  "trim_start s = strip_units ws_chars s"

definition trim_end :: "string \<Rightarrow> string" where
  "trim_end s = rev (strip_units (map rev ws_chars) (rev s))"

definition trim :: "string \<Rightarrow> string" where
  "trim s = trim_end (trim_start s)"

lemma strip_units_suffix: "\<exists>p. s = p @ strip_units us s"
proof (induction us s rule: strip_units.induct)
  case (1 us s)
  show ?case
  proof (cases "find (\<lambda>u. u \<noteq> [] \<and> prefix u s) us")
    case None
    then show ?thesis by (subst strip_units.simps) simp
  next
    case (Some u)
    then obtain p where "drop (length u) s = p @ strip_units us (drop (length u) s)"
      using 1 by blast
    then have "s = (take (length u) s @ p) @ strip_units us s"
      using Some by (subst strip_units.simps) (metis append_assoc append_take_drop_id option.simps(5))
    then show ?thesis by blast
  qed
qed

lemma strip_units_idem [simp]: "strip_units us (strip_units us s) = strip_units us s"
proof (induction us s rule: strip_units.induct)
  case (1 us s)
  show ?case
  proof (cases "find (\<lambda>u. u \<noteq> [] \<and> prefix u s) us")
    case None
    then show ?thesis by (simp add: strip_units.simps [of us s])
  next
    case (Some u)
    then show ?thesis using 1 by (simp add: strip_units.simps [of us s])
  qed
qed

lemma strip_units_id: "list_all (\<lambda>u. u = [] \<or> \<not> prefix u s) us \<Longrightarrow> strip_units us s = s"
  by (subst strip_units.simps) (auto simp: find_Some_iff list_all_iff split: option.splits)

lemma trim_Nil [simp]: "trim [] = []"
  by (simp add: trim_def trim_start_def trim_end_def strip_units_id ws_chars_def bytes_def)

lemma trim_infix: "\<exists>p q. s = p @ trim s @ q"
proof -
  obtain p where p: "s = p @ trim_start s"
    using strip_units_suffix [of s ws_chars] by (auto simp: trim_start_def)
  obtain q where "rev (trim_start s) = q @ strip_units (map rev ws_chars) (rev (trim_start s))"
    using strip_units_suffix by blast
  then have "trim_start s = trim s @ rev q"
    by (metis rev_append rev_rev_ident trim_def trim_end_def)
  then show ?thesis using p by metis
qed

lemma set_trim: "set (trim s) \<subseteq> set s"
proof -
  obtain p q where "s = p @ trim s @ q" using trim_infix by blast
  then have "set s = set p \<union> set (trim s) \<union> set q" by (metis set_append sup_assoc)
  then show ?thesis by blast
qed

subsection \<open>Lists\<close>

text \<open>\<open>xs.map(f).filter(x => x !== null)\<close>.\<close>

definition map_non_null :: "('a \<Rightarrow> 'b option) \<Rightarrow> 'a list \<Rightarrow> 'b list" where
  "map_non_null f xs = map the (filter (\<lambda>y. y \<noteq> None) (map f xs))"

lemma map_non_null_Nil [simp]: "map_non_null f [] = []"
  by (simp add: map_non_null_def)

lemma map_non_null_Cons [simp]:
  "map_non_null f (x # xs) = (case f x of None \<Rightarrow> map_non_null f xs | Some y \<Rightarrow> y # map_non_null f xs)"
  by (simp add: map_non_null_def split: option.splits)

lemma map_non_null_append [simp]: "map_non_null f (xs @ ys) = map_non_null f xs @ map_non_null f ys"
  by (simp add: map_non_null_def)

lemma length_map_non_null: "length (map_non_null f xs) \<le> length xs"
  by (induction xs) (auto split: option.splits)

lemma set_map_non_null: "set (map_non_null f xs) = {y. \<exists>x \<in> set xs. f x = Some y}"
  by (induction xs) (auto split: option.splits)

lemma map_non_null_map: "(\<And>x. x \<in> set xs \<Longrightarrow> f (g x) = Some x) \<Longrightarrow> map_non_null f (map g xs) = xs"
  by (induction xs) auto

text \<open>The last \<open>n\<close> elements of a list.\<close>

definition lastn :: "nat \<Rightarrow> 'a list \<Rightarrow> 'a list" where
  "lastn n xs = drop (length xs - n) xs"

lemma length_lastn [simp]: "length (lastn n xs) = min n (length xs)"
  by (simp add: lastn_def)

lemma lastn_all [simp]: "length xs \<le> n \<Longrightarrow> lastn n xs = xs"
  by (simp add: lastn_def)

lemma lastn_lastn: "m \<le> n \<Longrightarrow> lastn m (lastn n xs) = lastn m xs"
  by (cases "n \<le> length xs") (auto simp: lastn_def)

lemma set_lastn: "set (lastn n xs) \<subseteq> set xs"
  by (simp add: lastn_def set_drop_subset)

lemma lastn_snoc: "0 < n \<Longrightarrow> lastn n (xs @ [x]) = lastn (n - 1) xs @ [x]"
  by (auto simp: lastn_def Suc_diff_le not_le)

text \<open>The distinct elements in order of first occurrence: \<open>[...new Set(xs)]\<close>.\<close>

fun js_set :: "'a list \<Rightarrow> 'a list" where
  "js_set [] = []"
| "js_set (x # xs) = x # filter (\<lambda>y. y \<noteq> x) (js_set xs)"

lemma set_js_set [simp]: "set (js_set xs) = set xs"
  by (induction xs) auto

lemma distinct_js_set [simp]: "distinct (js_set xs)"
  by (induction xs) auto

lemma js_set_distinct: "distinct xs \<Longrightarrow> js_set xs = xs"
  by (induction xs) (auto simp: filter_id_conv)

end
