(* ===== verification/Json.thy ===== *)
theory Json
  imports Prelude "HOL-Library.AList"
begin

text \<open>
  Untrusted wire values and the primitive guards of \<open>services/normalize.ts\<close>, with the two
  contracts the normalizers are proved against.

  A wire value is what \<open>JSON.parse\<close> returns: objects are lists of properties in
  insertion order, with distinct keys. The TypeScript type \<open>unknown\<close> of a guard's
  argument is \<open>json option\<close>, \<open>None\<close> for \<open>undefined\<close> (an absent property, or
  the missing body of a 204 response). \<open>JSON.parse\<close> never returns NaN, but reads
  \<open>1e999\<close> as infinity, so the finiteness tests of the guards matter.

  \<open>wire_enum\<close> is the contract of the guards for string enumerations, \<open>wire_model\<close> that
  of the object normalizers: what they return is well formed (numbers finite, integers
  integral, nested records normalized), a payload that is not an object is refused, and a
  well-formed model, read back as an untrusted value, is returned unchanged. \<open>wire\<close> is
  that reading back: the TypeScript object itself, seen as a wire value.
\<close>

datatype json =
    JNull
  | JBool bool
  | JNum js_number
  | JStr string
  | JArr "json list"
  | JObj "(string \<times> json) list"

type_synonym unknown = "json option"

subsection \<open>Primitive guards\<close>

definition isRecord :: "unknown \<Rightarrow> bool" where
  "isRecord value = (case value of Some (JObj _) \<Rightarrow> True | _ \<Rightarrow> False)"

text \<open>Property access \<open>raw.key\<close> on a value \<open>isRecord\<close> has accepted.\<close>

definition get :: "string \<Rightarrow> unknown \<Rightarrow> unknown" where
  "get key raw = (case raw of Some (JObj kvs) \<Rightarrow> map_of kvs key | _ \<Rightarrow> None)"

definition str :: "unknown \<Rightarrow> string option" where
  "str value = (case value of Some (JStr s) \<Rightarrow> Some s | _ \<Rightarrow> None)"

definition num :: "unknown \<Rightarrow> js_number option" where
  "num value = (case value of Some (JNum x) \<Rightarrow> (if is_finite x then Some x else None) | _ \<Rightarrow> None)"

definition int_guard :: "unknown \<Rightarrow> js_number option" where
  "int_guard value =
     (case value of Some (JNum x) \<Rightarrow> (if is_integer x then Some x else None) | _ \<Rightarrow> None)"

definition bool_guard :: "unknown \<Rightarrow> bool \<Rightarrow> bool" where
  "bool_guard value fallback = (case value of Some (JBool b) \<Rightarrow> b | _ \<Rightarrow> fallback)"

definition in_interval :: "js_number \<Rightarrow> bool" where
  "in_interval x \<longleftrightarrow> is_finite x \<and> num_le (Fin (1 / 2)) x \<and> num_le x (Fin 600)"

definition interval :: "unknown \<Rightarrow> js_number option" where
  "interval value =
     (case value of Some (JNum x) \<Rightarrow> (if in_interval x then Some x else None) | _ \<Rightarrow> None)"

definition arrayOf :: "unknown \<Rightarrow> json list" where
  "arrayOf value = (case value of Some (JArr xs) \<Rightarrow> xs | _ \<Rightarrow> [])"

definition strList :: "unknown \<Rightarrow> string list" where
  "strList value = map_non_null (\<lambda>item. str (Some item)) (arrayOf value)"

text \<open>
  \<open>out[key] = item\<close> on a plain object: the key \<open>__proto__\<close> names the prototype
  accessor, which ignores a primitive value; any other key is replaced in place or added at
  the end.
\<close>

definition js_assign :: "string \<Rightarrow> 'v \<Rightarrow> (string \<times> 'v) list \<Rightarrow> (string \<times> 'v) list" where
  "js_assign key item out = (if key = ''__proto__'' then out else AList.update key item out)"

definition entries :: "unknown \<Rightarrow> (string \<times> json) list" where
  "entries value = (case value of Some (JObj kvs) \<Rightarrow> kvs | _ \<Rightarrow> [])"

fun collect_str :: "(string \<times> json) list \<Rightarrow> (string \<times> string) list \<Rightarrow> (string \<times> string) list" where
  "collect_str [] out = out"
| "collect_str ((key, item) # rest) out =
     collect_str rest (case item of JStr s \<Rightarrow> js_assign key s out | _ \<Rightarrow> out)"

definition recordOf :: "unknown \<Rightarrow> (string \<times> string) list" where
  "recordOf value = (if \<not> isRecord value then [] else collect_str (entries value) [])"

definition str_or :: "string \<Rightarrow> unknown \<Rightarrow> string" where
  "str_or fallback value = (case str value of Some s \<Rightarrow> s | None \<Rightarrow> fallback)"

definition bool_opt :: "unknown \<Rightarrow> bool option" where
  "bool_opt value = (case value of Some (JBool b) \<Rightarrow> Some b | _ \<Rightarrow> None)"

definition int_or_zero :: "unknown \<Rightarrow> js_number" where
  "int_or_zero value = (case int_guard value of Some x \<Rightarrow> x | None \<Rightarrow> Fin 0)"

lemmas guard_defs = str_def num_def int_guard_def bool_guard_def interval_def arrayOf_def
  str_or_def bool_opt_def int_or_zero_def

lemma isRecord_JObj [simp]: "isRecord (Some (JObj kvs))"
  by (simp add: isRecord_def)

lemma isRecord_iff: "isRecord raw \<longleftrightarrow> (\<exists>kvs. raw = Some (JObj kvs))"
  by (auto simp: isRecord_def split: option.splits json.splits)

lemma get_JObj [simp]: "get key (Some (JObj kvs)) = map_of kvs key"
  by (simp add: get_def)

text \<open>What each guard guarantees of its result.\<close>

lemma num_Some: "num raw = Some x \<Longrightarrow> is_finite x"
  by (auto simp: num_def split: option.splits json.splits if_splits)

lemma int_guard_Some: "int_guard raw = Some x \<Longrightarrow> is_integer x"
  by (auto simp: int_guard_def split: option.splits json.splits if_splits)

lemma interval_Some: "interval raw = Some x \<Longrightarrow> in_interval x"
  by (auto simp: interval_def split: option.splits json.splits if_splits)

lemma is_integer_int_or_zero [simp]: "is_integer (int_or_zero raw)"
  using is_integer_num_of_int [of 0]
  by (auto simp: int_or_zero_def num_of_int_def dest: int_guard_Some split: option.splits)

text \<open>A guard reads back what a typed field holds.\<close>

definition wire_opt :: "('a \<Rightarrow> json) \<Rightarrow> 'a option \<Rightarrow> json" where
  "wire_opt f x = (case x of None \<Rightarrow> JNull | Some v \<Rightarrow> f v)"

definition wire_strs :: "string list \<Rightarrow> json" where
  "wire_strs xs = JArr (map JStr xs)"

definition wire_record :: "(string \<times> string) list \<Rightarrow> json" where
  "wire_record kvs = JObj (map (\<lambda>(k, s). (k, JStr s)) kvs)"

definition opt_ok :: "('a \<Rightarrow> bool) \<Rightarrow> 'a option \<Rightarrow> bool" where
  "opt_ok P x = (case x of None \<Rightarrow> True | Some v \<Rightarrow> P v)"

lemma opt_ok_simps [simp]: "opt_ok P None" "opt_ok P (Some v) = P v"
  by (simp_all add: opt_ok_def)

lemma str_JStr [simp]: "str (Some (JStr s)) = Some s"
  by (simp add: str_def)

lemma str_opt [simp]: "str (Some (wire_opt JStr x)) = x"
  by (cases x) (simp_all add: str_def wire_opt_def)

lemma num_opt [simp]: "opt_ok is_finite x \<Longrightarrow> num (Some (wire_opt JNum x)) = x"
  by (cases x) (simp_all add: num_def wire_opt_def)

lemma num_JNum [simp]: "is_finite x \<Longrightarrow> num (Some (JNum x)) = Some x"
  by (simp add: num_def)

lemma int_opt [simp]: "opt_ok is_integer x \<Longrightarrow> int_guard (Some (wire_opt JNum x)) = x"
  by (cases x) (simp_all add: int_guard_def wire_opt_def)

lemma int_JNum [simp]: "is_integer x \<Longrightarrow> int_guard (Some (JNum x)) = Some x"
  by (simp add: int_guard_def)

lemma int_or_zero_JNum [simp]: "is_integer x \<Longrightarrow> int_or_zero (Some (JNum x)) = x"
  by (simp add: int_or_zero_def)

lemma interval_opt [simp]: "opt_ok in_interval x \<Longrightarrow> interval (Some (wire_opt JNum x)) = x"
  by (cases x) (simp_all add: interval_def wire_opt_def)

lemma bool_JBool [simp]: "bool_guard (Some (JBool b)) d = b"
  by (simp add: bool_guard_def)

lemma bool_opt_JBool [simp]: "bool_opt (Some (JBool b)) = Some b"
  by (simp add: bool_opt_def)

lemma bool_opt_opt [simp]: "bool_opt (Some (wire_opt JBool x)) = x"
  by (cases x) (simp_all add: bool_opt_def wire_opt_def)

lemma str_or_JStr [simp]: "str_or d (Some (JStr s)) = s"
  by (simp add: str_or_def)

lemma strList_strs [simp]: "strList (Some (wire_strs xs)) = xs"
  by (simp add: strList_def arrayOf_def wire_strs_def map_non_null_map)

lemma opt_ok_num [simp]: "opt_ok is_finite (num raw)"
  by (cases "num raw") (simp_all add: num_Some)

lemma opt_ok_int [simp]: "opt_ok is_integer (int_guard raw)"
  by (cases "int_guard raw") (simp_all add: int_guard_Some)

lemma opt_ok_interval [simp]: "opt_ok in_interval (interval raw)"
  by (cases "interval raw") (simp_all add: interval_Some)

text \<open>The dictionary guard: distinct keys, never \<open>__proto__\<close>.\<close>

definition record_ok :: "(string \<times> 'v) list \<Rightarrow> bool" where
  "record_ok out \<longleftrightarrow> distinct (map fst out) \<and> ''__proto__'' \<notin> fst ` set out"

lemma record_ok_Nil [simp]: "record_ok []"
  by (simp add: record_ok_def)

lemma record_ok_assign: "record_ok out \<Longrightarrow> record_ok (js_assign key item out)"
  by (auto simp: record_ok_def js_assign_def distinct_update dom_update)

lemma record_ok_collect_str: "record_ok out \<Longrightarrow> record_ok (collect_str kvs out)"
  by (induction kvs out rule: collect_str.induct) (auto simp: record_ok_assign split: json.splits)

lemma record_ok_recordOf [simp]: "record_ok (recordOf raw)"
  by (simp add: recordOf_def record_ok_collect_str)

lemma update_new_key: "key \<notin> fst ` set out \<Longrightarrow> AList.update key item out = out @ [(key, item)]"
  by (induction out) auto

lemma collect_str_strs:
  "record_ok (out @ kvs) \<Longrightarrow> collect_str (map (\<lambda>(k, s). (k, JStr s)) kvs) out = out @ kvs"
proof (induction kvs arbitrary: out)
  case (Cons kv kvs)
  obtain k s where kv: "kv = (k, s)" by (cases kv)
  have "js_assign k s out = out @ [(k, s)]"
    using Cons.prems kv by (auto simp: js_assign_def record_ok_def update_new_key)
  then show ?case using Cons kv by simp
qed simp

lemma recordOf_record [simp]: "record_ok kvs \<Longrightarrow> recordOf (Some (wire_record kvs)) = kvs"
  using collect_str_strs [of "[]" kvs] by (simp add: recordOf_def wire_record_def entries_def)

subsection \<open>String enumerations\<close>

text \<open>
  \<open>typeof value === "string" && NAMES.includes(value) ? value : fallback\<close>, with the
  table of names as an association list to the model's constructors.
\<close>

definition enum_opt :: "(string \<times> 'a) list \<Rightarrow> unknown \<Rightarrow> 'a option" where
  "enum_opt table value = (case str value of Some s \<Rightarrow> map_of table s | None \<Rightarrow> None)"

definition enum_guard :: "(string \<times> 'a) list \<Rightarrow> 'a \<Rightarrow> unknown \<Rightarrow> 'a" where
  "enum_guard table fallback value =
     (case enum_opt table value of Some x \<Rightarrow> x | None \<Rightarrow> fallback)"

fun name_in :: "(string \<times> 'a) list \<Rightarrow> 'a \<Rightarrow> string" where
  "name_in [] x = []"
| "name_in ((s, y) # t) x = (if y = x then s else name_in t x)"

lemma map_of_name_in:
  "distinct (map fst table) \<Longrightarrow> x \<in> snd ` set table \<Longrightarrow> map_of table (name_in table x) = Some x"
proof (induction table x rule: name_in.induct)
  case (2 s y t x)
  show ?case
  proof (cases "y = x")
    case False
    then have "map_of t (name_in t x) = Some x" using 2 by auto
    moreover from this have "name_in t x \<in> fst ` set t"
      by (metis domI dom_map_of_conv_image_fst)
    ultimately show ?thesis using 2 False by auto
  qed simp
qed simp

locale wire_enum =
  fixes table :: "(string \<times> 'a) list"
  assumes names_distinct: "distinct (map fst table)"
    and table_complete: "x \<in> snd ` set table"
begin

lemma enum_opt_name [simp]: "enum_opt table (Some (JStr (name_in table x))) = Some x"
  by (simp add: enum_opt_def map_of_name_in names_distinct table_complete)

lemma enum_guard_name [simp]: "enum_guard table d (Some (JStr (name_in table x))) = x"
  by (simp add: enum_guard_def)

lemma enum_opt_wire [simp]: "enum_opt table (Some (wire_opt (\<lambda>x. JStr (name_in table x)) v)) = v"
  by (cases v) (simp_all add: wire_opt_def, simp add: enum_opt_def str_def)

lemma enum_opt_unknown:
  assumes "str raw = None \<or> the (str raw) \<notin> fst ` set table"
  shows "enum_opt table raw = None"
proof (cases "str raw")
  case None
  then show ?thesis by (simp add: enum_opt_def)
next
  case (Some a)
  then have "a \<notin> fst ` set table" using assms by auto
  then have "map_of table a = None" by (simp only: map_of_eq_None_iff not_False_eq_True)
  then show ?thesis using Some by (simp add: enum_opt_def)
qed

lemma enum_guard_unknown:
  assumes "str raw = None \<or> the (str raw) \<notin> fst ` set table"
  shows "enum_guard table d raw = d"
  unfolding enum_guard_def enum_opt_unknown [OF assms] by simp

lemma name_inj: "name_in table x = name_in table y \<longleftrightarrow> x = y"
  by (metis enum_opt_name option.inject)

end

subsection \<open>Object normalizers\<close>

definition norm_list :: "(unknown \<Rightarrow> 'a option) \<Rightarrow> unknown \<Rightarrow> 'a list" where
  "norm_list nrm raw = map_non_null (\<lambda>item. nrm (Some item)) (arrayOf raw)"

locale wire_model =
  fixes nrm :: "unknown \<Rightarrow> 'a option"
    and wire :: "'a \<Rightarrow> json"
    and wf :: "'a \<Rightarrow> bool"
  assumes norm_non_record: "\<not> isRecord raw \<Longrightarrow> nrm raw = None"
    and norm_wf: "nrm raw = Some x \<Longrightarrow> wf x"
    and norm_wire: "wf x \<Longrightarrow> nrm (Some (wire x)) = Some x"
begin

lemma norm_idem: "nrm raw = Some x \<Longrightarrow> nrm (Some (wire x)) = Some x"
  by (simp add: norm_wf norm_wire)

lemma norm_wire_opt: "opt_ok wf v \<Longrightarrow> nrm (Some (wire_opt wire v)) = v"
  by (cases v) (simp_all add: wire_opt_def norm_wire, simp add: norm_non_record isRecord_def)

lemma opt_ok_norm: "opt_ok wf (nrm raw)"
  by (cases "nrm raw") (simp_all add: norm_wf)

lemma norm_list_wf: "list_all wf (norm_list nrm raw)"
  by (auto simp: norm_list_def list_all_iff set_map_non_null norm_wf)

lemma norm_list_wire: "list_all wf xs \<Longrightarrow> norm_list nrm (Some (JArr (map wire xs))) = xs"
  by (auto simp: norm_list_def arrayOf_def list_all_iff norm_wire intro!: map_non_null_map)

lemma norm_list_drops:
  "nrm (Some j) = None \<Longrightarrow>
   norm_list nrm (Some (JArr (xs @ j # ys))) = norm_list nrm (Some (JArr (xs @ ys)))"
  by (simp add: norm_list_def arrayOf_def)

lemma norm_list_length: "length (norm_list nrm (Some (JArr js))) \<le> length js"
  by (simp add: norm_list_def arrayOf_def length_map_non_null)

end

text \<open>
  Models that carry a mandatory identifier: without it the payload is refused, and the id of
  the result is the one on the wire.
\<close>

locale identified_model = wire_model nrm wire wf
  for nrm :: "unknown \<Rightarrow> 'a option" and wire :: "'a \<Rightarrow> json" and wf :: "'a \<Rightarrow> bool" +
  fixes id_field :: string and ident :: "'a \<Rightarrow> string"
  assumes norm_ident: "nrm raw = Some x \<Longrightarrow> str (get id_field raw) = Some (ident x)"
begin

lemma norm_needs_id: "str (get id_field raw) = None \<Longrightarrow> nrm raw = None"
  using norm_ident by (cases "nrm raw") auto

lemma norm_list_idents:
  "subseq (map ident (norm_list nrm (Some (JArr js))))
          (map_non_null (\<lambda>j. str (get id_field (Some j))) js)"
proof (induction js)
  case (Cons j js)
  then show ?case
    by (cases "nrm (Some j)")
      (auto simp: norm_list_def arrayOf_def dest!: norm_ident split: option.splits)
qed (simp add: norm_list_def arrayOf_def)

end

end
