(* ===== verification/TransferTypes.thy ===== *)
theory TransferTypes
  imports Json
begin

text \<open>
  \<open>types/transfers.ts\<close>: transfer jobs, plans, batches and requests, the state predicates
  the polling law is stated with, and the row-level transfer kind.
\<close>

datatype transfer_strategy =
    TS_Auto
  | TS_Direct_rsync
  | TS_Local_relay

datatype transfer_state =
    J_Queued
  | J_Planning
  | J_Running
  | J_Verifying
  | J_Completed
  | J_Failed
  | J_Cancelled

datatype verify_mode = VM_Quick

definition ACTIVE_TRANSFER_STATES :: "transfer_state list" where
  "ACTIVE_TRANSFER_STATES = [J_Queued, J_Planning, J_Running, J_Verifying]"

definition isActiveTransferState :: "transfer_state \<Rightarrow> bool" where
  "isActiveTransferState state \<longleftrightarrow> state \<in> set ACTIVE_TRANSFER_STATES"

record transfer_plan =
  pln_artifact_id :: "string"
  pln_source_server_id :: "string"
  pln_source_path :: "string"
  pln_target_server_id :: "string"
  pln_target_path :: "string"
  pln_strategy_requested :: "transfer_strategy"
  pln_strategy_available :: "(string \<times> bool) list"
  pln_strategy_selected :: "transfer_strategy option"
  pln_reason :: "string"
  pln_excludes :: "string list"
  pln_source_exists :: "bool option"
  pln_source_size_b :: "js_number option"
  pln_target_free_b :: "js_number option"
  pln_space_warning :: "string"
  pln_direct_auth_reason :: "string option"

record transfer_request =
  trq_artifact_id :: string
  trq_source_placement_id :: string
  trq_target_server_id :: string
  trq_target_path :: string
  trq_strategy :: transfer_strategy
  trq_verify_mode :: verify_mode

record transfer_job =
  job_job_id :: "string"
  job_artifact_id :: "string"
  job_artifact_label :: "string"
  job_source_server_id :: "string"
  job_source_path :: "string"
  job_target_server_id :: "string"
  job_target_path :: "string"
  job_strategy_requested :: "transfer_strategy"
  job_strategy_used :: "transfer_strategy option"
  job_state :: "transfer_state"
  job_excludes :: "string list"
  job_immutable :: "bool"
  job_strategy_reason :: "string"
  job_resumed_bytes :: "js_number"
  job_files_skipped :: "js_number"
  job_bytes_skipped :: "js_number"
  job_warnings :: "string list"
  job_bytes_total :: "js_number option"
  job_bytes_done :: "js_number"
  job_files_total :: "js_number option"
  job_files_done :: "js_number"
  job_rate_bps :: "js_number option"
  job_eta_s :: "js_number option"
  job_current_path :: "string option"
  job_created_at :: "string"
  job_started_at :: "string option"
  job_finished_at :: "string option"
  job_error_code :: "string option"
  job_error_message :: "string"

datatype transfer_kind = K_Fresh | K_Resumed | K_Incremental

definition num_pos :: "js_number \<Rightarrow> bool" where
  "num_pos x \<longleftrightarrow> num_le (Fin 0) x \<and> x \<noteq> Fin 0"

definition transferKind :: "transfer_job \<Rightarrow> transfer_kind" where
  "transferKind job =
     (if num_pos (job_bytes_skipped job) then K_Incremental
      else if num_pos (job_resumed_bytes job) then K_Resumed
      else K_Fresh)"

record transfer_prefill =
  pre_artifactId :: "string option"
  pre_sourcePlacementId :: "string option"

datatype transfer_batch_state =
    B_Queued
  | B_Running
  | B_Completed
  | B_Partial_failed
  | B_Failed
  | B_Cancelled

record transfer_batch =
  bat_batch_id :: "string"
  bat_project_id :: "string"
  bat_target_server_id :: "string"
  bat_job_ids :: "string list"
  bat_created_at :: "string"
  bat_state :: "transfer_batch_state"
  bat_total_jobs :: "js_number"
  bat_queued_jobs :: "js_number"
  bat_running_jobs :: "js_number"
  bat_completed_jobs :: "js_number"
  bat_failed_jobs :: "js_number"
  bat_cancelled_jobs :: "js_number"

definition isActiveBatchState :: "transfer_batch_state \<Rightarrow> bool" where
  "isActiveBatchState state \<longleftrightarrow> state = B_Queued \<or> state = B_Running"

definition isTerminalBatchState :: "transfer_batch_state \<Rightarrow> bool" where
  "isTerminalBatchState state \<longleftrightarrow> \<not> isActiveBatchState state"

lemma isActiveTransferState_iff:
  "isActiveTransferState state \<longleftrightarrow> state \<notin> {J_Completed, J_Failed, J_Cancelled}"
  by (cases state) (simp_all add: isActiveTransferState_def ACTIVE_TRANSFER_STATES_def)

lemma isTerminalBatchState_iff:
  "isTerminalBatchState state \<longleftrightarrow> state \<in> {B_Completed, B_Partial_failed, B_Failed, B_Cancelled}"
  by (cases state) (simp_all add: isTerminalBatchState_def isActiveBatchState_def)

end
