(* ===== verification/WorkspaceTypes.thy ===== *)
theory WorkspaceTypes
  imports TransferTypes
begin

text \<open>
  \<open>types/workspace.ts\<close>: the catalog records (projects, artifacts, placements, launch
  configurations, server roots), the runtime observations (inspections, distributions) and the
  project sync plan, with the bodies of the mutating requests.
\<close>

datatype artifact_kind =
    Kind_Code
  | Kind_Dataset
  | Kind_Model

datatype inspection_state =
    I_Declared
  | I_Verified
  | I_Missing
  | I_Unavailable

datatype distribution_state =
    D_Declared
  | D_Verified
  | D_Missing
  | D_Unavailable
  | D_Syncing

record distribution_item =
  dit_artifact_id :: "string"
  dit_artifact_label :: "string"
  dit_artifact_kind :: "string"
  dit_server_id :: "string"
  dit_placement_id :: "string option"
  dit_remote_path :: "string"
  dit_state :: "distribution_state"
  dit_checked_at :: "string option"
  dit_detail :: "string option"
  dit_active_transfer_job_id :: "string option"

record project_distribution =
  pdi_project_id :: "string"
  pdi_generated_at :: "string"
  pdi_items :: "distribution_item list"

datatype sync_action =
    Act_Skip
  | Act_Transfer
  | Act_Unresolved

record sync_plan_request =
  spr_target_server_id :: string
  spr_artifact_ids :: "string list option option"
  spr_refresh_code :: "bool option"
  spr_strategy :: "transfer_strategy option"

record artifact_sync_item =
  asi_artifact_id :: "string"
  asi_artifact_label :: "string"
  asi_artifact_kind :: "string"
  asi_target_status :: "distribution_state"
  asi_action :: "sync_action"
  asi_reason :: "string"
  asi_source_placement_id :: "string option"
  asi_source_server_id :: "string option"
  asi_source_path :: "string option"
  asi_target_path :: "string option"
  asi_strategy_selected :: "transfer_strategy option"
  asi_alternatives :: "string list"
  asi_warnings :: "string list"

record project_sync_plan =
  psp_project_id :: "string"
  psp_target_server_id :: "string"
  psp_generated_at :: "string"
  psp_refresh_code :: "bool"
  psp_items :: "artifact_sync_item list"
  psp_valid :: "bool"
  psp_error :: "string"

record project_record =
  prj_project_id :: "string"
  prj_name :: "string"
  prj_description :: "string"
  prj_artifact_ids :: "string list"
  prj_launch_config_ids :: "string list"
  prj_tags :: "string list"
  prj_transfer_excludes :: "string list"
  prj_created_at :: "string"
  prj_updated_at :: "string"

record project_create =
  pjc_name :: string
  pjc_description :: "string option"
  pjc_artifact_ids :: "string list option"
  pjc_tags :: "string list option"

record project_patch =
  pjp_name :: "string option"
  pjp_description :: "string option"
  pjp_artifact_ids :: "string list option"
  pjp_tags :: "string list option"
  pjp_transfer_excludes :: "string list option"

record artifact_record =
  art_artifact_id :: "string"
  art_kind :: "artifact_kind"
  art_name :: "string"
  art_version :: "string option"
  art_description :: "string"
  art_immutable :: "bool"
  art_created_at :: "string"
  art_updated_at :: "string"

record artifact_create =
  arc_kind :: artifact_kind
  arc_name :: string
  arc_version :: "string option option"
  arc_description :: "string option"
  arc_immutable :: "bool option option"

record artifact_patch =
  arp_name :: "string option"
  arp_version :: "string option option"
  arp_description :: "string option"
  arp_immutable :: "bool option option"

record placement_record =
  plc_placement_id :: "string"
  plc_artifact_id :: "string"
  plc_server_id :: "string"
  plc_remote_path :: "string"
  plc_created_at :: "string"
  plc_updated_at :: "string"

record placement_create =
  plk_artifact_id :: string
  plk_server_id :: string
  plk_remote_path :: string

record placement_patch =
  plp_remote_path :: "string option"

record placement_inspection =
  ins_placement_id :: "string"
  ins_state :: "inspection_state"
  ins_file_type :: "string option"
  ins_size_b :: "js_number option"
  ins_file_count :: "js_number option"
  ins_checked_at :: "string"
  ins_detail :: "string"

record launch_config_record =
  lch_launch_config_id :: "string"
  lch_project_id :: "string"
  lch_name :: "string"
  lch_working_dir :: "string option"
  lch_program :: "string"
  lch_args :: "string list"
  lch_environment :: "string option"
  lch_env_vars :: "(string \<times> string) list"
  lch_required_artifact_ids :: "string list"
  lch_gpu_count :: "js_number option"
  lch_min_vram_b :: "js_number option"
  lch_created_at :: "string"
  lch_updated_at :: "string"

record launch_config_create =
  lcc_project_id :: string
  lcc_name :: string
  lcc_working_dir :: "string option option"
  lcc_program :: string
  lcc_args :: "string list option"
  lcc_environment :: "string option option"
  lcc_env_vars :: "(string \<times> string) list option"
  lcc_required_artifact_ids :: "string list option"
  lcc_gpu_count :: "js_number option option"
  lcc_min_vram_b :: "js_number option option"

record launch_config_patch =
  lcp_name :: "string option"
  lcp_working_dir :: "string option option"
  lcp_program :: "string option"
  lcp_args :: "string list option"
  lcp_environment :: "string option option"
  lcp_env_vars :: "(string \<times> string) list option"
  lcp_required_artifact_ids :: "string list option"
  lcp_gpu_count :: "js_number option option"
  lcp_min_vram_b :: "js_number option option"

record server_roots =
  rts_project_root :: "string option"
  rts_dataset_root :: "string option"
  rts_model_root :: "string option"
  rts_output_root :: "string option"

record server_roots_update =
  sru_project_root :: "string option option"
  sru_dataset_root :: "string option option"
  sru_model_root :: "string option option"
  sru_output_root :: "string option option"

record suggest_target_path =
  stp_target_path :: "string option"
  stp_reason :: "string option"

end
