(* ===== verification/Models.thy ===== *)
theory Models
  imports Json
begin

text \<open>
  The wire contracts of \<open>types/models.ts\<close>: one datatype per string union, one record per
  interface, with the source's field names behind a short prefix per record (Isabelle's field
  names are global). \<open>T | null\<close> is \<open>T option\<close>; an optional field the normalizers
  always fill has the type of its value. \<open>number\<close> is \<open>js_number\<close> everywhere:
  that a field holds a finite number or an integer is what the normalizers are proved to give.
\<close>

subsection \<open>Server registry\<close>

datatype server_status =
    S_Unknown
  | S_Connecting
  | S_Online
  | S_Reconnecting
  | S_Offline
  | S_Timeout
  | S_Authentication_failed
  | S_Host_key_error
  | S_Degraded

record server_record =
  srv_server_id :: "string"
  srv_display_name :: "string"
  srv_ssh_host :: "string"
  srv_username :: "string option"
  srv_port :: "js_number option"
  srv_tags :: "string list"
  srv_enabled :: "bool"
  srv_sample_interval_s :: "js_number option"

text \<open>Request bodies: \<open>T option option\<close> is an optional nullable field, \<open>None\<close> when it
  is omitted from the body.\<close>

record server_create =
  sc_display_name :: string
  sc_ssh_host :: string
  sc_username :: "string option option"
  sc_port :: "js_number option option"
  sc_tags :: "string list option"
  sc_enabled :: "bool option"
  sc_sample_interval_s :: "js_number option option"

record server_patch =
  sp_display_name :: "string option option"
  sp_ssh_host :: "string option option"
  sp_username :: "string option option"
  sp_port :: "js_number option option"
  sp_tags :: "string list option option"
  sp_enabled :: "bool option option"
  sp_sample_interval_s :: "js_number option option"

record alias_entry =
  ali_alias :: "string"
  ali_host :: "string option"
  ali_user :: "string option"
  ali_port :: "js_number option"

record host_key_prompt =
  hkp_host :: "string"
  hkp_port :: "js_number option"
  hkp_key_type :: "string"
  hkp_fingerprint :: "string"

record connection_test_result =
  ctr_ok :: "bool"
  ctr_status :: "server_status"
  ctr_detail :: "string"
  ctr_latency_ms :: "js_number option"
  ctr_pending_host_key :: "host_key_prompt option"

subsection \<open>Server authentication and direct transfer\<close>

datatype password_storage =
    P_System_keyring
  | P_Session_only

record server_auth_status =
  sas_ssh_config_used :: "bool"
  sas_effective_host :: "string"
  sas_effective_user :: "string option"
  sas_effective_port :: "js_number"
  sas_identity_files :: "js_number"
  sas_agent_available :: "bool"
  sas_proxy_jump_configured :: "bool"
  sas_password_configured :: "bool"
  sas_password_storage :: "password_storage option"

datatype direct_auth_method =
    M_Native
  | M_Sgc_key

record direct_auth_peer =
  dap_target_server_id :: "string"
  dap_configured :: "bool"
  dap_method :: "direct_auth_method option"
  dap_available :: "bool option"
  dap_reason :: "string option"
  dap_checked_at :: "string option"

record direct_auth_pair =
  dpr_source_server_id :: "string"
  dpr_target_server_id :: "string"
  dpr_configured :: "bool"
  dpr_method :: "direct_auth_method option"
  dpr_available :: "bool option"
  dpr_reason :: "string option"
  dpr_checked_at :: "string option"

record direct_auth_list =
  dal_server_id :: "string"
  dal_pairs :: "direct_auth_pair list"

record password_credential_status =
  pcs_configured :: bool
  pcs_storage :: password_storage

subsection \<open>Telemetry\<close>

datatype gpu_availability =
    A_Free
  | A_Active
  | A_Saturated
  | A_Unavailable

record cpu_info =
  cpu_percent :: "js_number option"
  cpu_load_1 :: "js_number option"
  cpu_load_5 :: "js_number option"
  cpu_load_15 :: "js_number option"
  cpu_cores_logical :: "js_number option"

record memory_info =
  mem_total_b :: "js_number option"
  mem_used_b :: "js_number option"
  mem_available_b :: "js_number option"
  mem_percent :: "js_number option"

record gpu_info =
  gpu_index :: "js_number"
  gpu_uuid :: "string option"
  gpu_name :: "string option"
  gpu_utilization_percent :: "js_number option"
  gpu_vram_used_b :: "js_number option"
  gpu_vram_total_b :: "js_number option"
  gpu_vram_percent :: "js_number option"
  gpu_temperature_c :: "js_number option"
  gpu_power_watts :: "js_number option"
  gpu_power_limit_watts :: "js_number option"
  gpu_fan_percent :: "js_number option"
  gpu_availability :: "gpu_availability"
  gpu_process_count :: "js_number"

record gpu_process_info =
  gpp_pid :: "js_number"
  gpp_gpu_uuid :: "string option"
  gpp_gpu_index :: "js_number option"
  gpp_used_memory_b :: "js_number option"
  gpp_process_name :: "string option"
  gpp_user :: "string option"
  gpp_command :: "string option"

record process_info =
  prc_pid :: "js_number"
  prc_user :: "string option"
  prc_name :: "string option"
  prc_cpu_percent :: "js_number option"
  prc_mem_percent :: "js_number option"
  prc_rss_b :: "js_number option"
  prc_state :: "string option"
  prc_command :: "string option"
  prc_gpu_indexes :: "js_number list"
  prc_gpu_vram_b :: "js_number option"

record storage_mount =
  mnt_device :: "string"
  mnt_fstype :: "string option"
  mnt_mount :: "string"
  mnt_total_b :: "js_number option"
  mnt_used_b :: "js_number option"
  mnt_free_b :: "js_number option"
  mnt_percent :: "js_number option"

record network_interface_info =
  nif_name :: "string"
  nif_ip :: "string option"
  nif_rx_bps :: "js_number option"
  nif_tx_bps :: "js_number option"
  nif_rx_total_b :: "js_number option"
  nif_tx_total_b :: "js_number option"

record system_info =
  sys_hostname :: "string option"
  sys_os_pretty :: "string option"
  sys_kernel :: "string option"
  sys_uptime_s :: "js_number option"
  sys_cpu_model :: "string option"
  sys_cores_physical :: "js_number option"
  sys_cores_logical :: "js_number option"
  sys_driver_version :: "string option"

record server_snapshot =
  snap_server_id :: "string"
  snap_status :: "server_status"
  snap_generated_at :: "string option"
  snap_cpu :: "cpu_info option"
  snap_memory :: "memory_info option"
  snap_gpus :: "gpu_info list"
  snap_gpu_processes :: "gpu_process_info list"
  snap_processes :: "process_info list"
  snap_storage :: "storage_mount list"
  snap_network :: "network_interface_info list"
  snap_system :: "system_info option"
  snap_errors :: "(string \<times> string) list"
  snap_stale :: "bool"

record fleet_gpu =
  fgp_index :: "js_number"
  fgp_utilization_percent :: "js_number option"
  fgp_vram_used_b :: "js_number option"
  fgp_vram_total_b :: "js_number option"
  fgp_temperature_c :: "js_number option"
  fgp_power_watts :: "js_number option"
  fgp_power_limit_watts :: "js_number option"
  fgp_users :: "string list"
  fgp_availability :: "gpu_availability"

record fleet_entry =
  fle_server_id :: "string"
  fle_display_name :: "string"
  fle_ssh_endpoint :: "string option"
  fle_status :: "server_status"
  fle_enabled :: "bool"
  fle_os_pretty :: "string option"
  fle_gpu_model :: "string option"
  fle_gpu_count :: "js_number"
  fle_gpu_busy :: "js_number"
  fle_gpu_free :: "js_number"
  fle_cpu_percent :: "js_number option"
  fle_memory_percent :: "js_number option"
  fle_vram_used_b :: "js_number option"
  fle_vram_total_b :: "js_number option"
  fle_disk_warning :: "bool"
  fle_gpus :: "fleet_gpu list"
  fle_updated_at :: "string option"

record fleet_summary =
  fls_generated_at :: "string"
  fls_servers :: "fleet_entry list"

record history_point =
  hpt_t :: "string"
  hpt_v :: "js_number"

subsection \<open>Realtime frames\<close>

datatype server_frame =
    FHello "string list"
  | FFleet fleet_summary
  | FServer string server_snapshot
  | FStatus string server_status

datatype client_frame =
    CSelect "string option"
  | CPing

end
