(* ===== verification/Http.thy ===== *)
theory Http
  imports Json
begin

text \<open>
  The transport the three REST clients share: \<open>ApiError\<close>, the outcome of a
  \<open>fetch\<close>, and the \<open>request\<close> helpers of \<open>services/api.ts\<close>,
  \<open>services/transfersApi.ts\<close> and \<open>services/workspaceApi.ts\<close>, which differ in how they
  read an error body and a 204.

  The network is a parameter of every client operation, a function from the request to the
  outcome the browser delivers; \<open>js_runtime\<close> collects the engine functions whose result
  is data the code only passes on (JSON text, shortest decimal of a double, date parsing).
\<close>

record js_runtime =
  rt_json_parse :: "string \<Rightarrow> json option"
  rt_json_stringify :: "json \<Rightarrow> string"
  rt_number_string :: "js_number \<Rightarrow> string"
  rt_date_parse :: "string \<Rightarrow> js_number"

datatype http_method = GET | POST | PUT | PATCH | DELETE

record http_request =
  rq_path :: string
  rq_method :: http_method
  rq_body :: "json option"

text \<open>
  A rejected \<open>fetch\<close> carries the message of the cause when it is an \<open>Error\<close>; a
  response has a status, a status text and a body, \<open>None\<close> when it is not JSON.
\<close>

datatype http_outcome =
    NetworkError "string option"
  | Response nat string unknown

type_synonym network = "http_request \<Rightarrow> http_outcome"

record api_error =
  ae_status :: nat
  ae_detail :: string

type_synonym 'a result = "api_error + 'a"

definition API_BASE :: string where
  "API_BASE = ''/api/v1''"

definition ApiError :: "nat \<Rightarrow> string \<Rightarrow> api_error" where
  "ApiError status detail = \<lparr>ae_status = status, ae_detail = detail\<rparr>"

definition invalidPayload :: "string \<Rightarrow> api_error" where
  "invalidPayload what = ApiError 502 (''invalid '' @ what @ '' payload'')"

definition response_ok :: "nat \<Rightarrow> bool" where
  "response_ok status \<longleftrightarrow> 200 \<le> status \<and> status \<le> 299"

definition status_line :: "nat \<Rightarrow> string \<Rightarrow> string" where
  "status_line status statusText = trim (show_nat status @ '' '' @ statusText)"

definition network_error :: "string option \<Rightarrow> api_error" where
  "network_error cause =
     ApiError 0 (case cause of Some message \<Rightarrow> message | None \<Rightarrow> ''network error'')"

subsection \<open>services/api.ts\<close>

definition api_error_detail :: "unknown \<Rightarrow> string \<Rightarrow> string" where
  "api_error_detail payload fallback =
     (if isRecord payload
      then (case get ''detail'' payload of Some (JStr detail) \<Rightarrow> detail | _ \<Rightarrow> fallback)
      else fallback)"

definition api_request :: "network \<Rightarrow> http_request \<Rightarrow> unknown result" where
  "api_request net rq =
     (case net rq of
        NetworkError cause \<Rightarrow> Inl (network_error cause)
      | Response status statusText body \<Rightarrow>
          if \<not> response_ok status
          then Inl (ApiError status (api_error_detail body (status_line status statusText)))
          else if status = 204 then Inr None
          else case body of
                 None \<Rightarrow> Inl (ApiError status ''malformed response body'')
               | Some json \<Rightarrow> Inr (Some json))"

subsection \<open>services/transfersApi.ts and services/workspaceApi.ts\<close>

text \<open>\<open>Array.prototype.join\<close> on wire values, as \<open>String(x)\<close> renders them.\<close>

function json_string :: "js_runtime \<Rightarrow> json \<Rightarrow> string" where
  "json_string rt JNull = ''''"
| "json_string rt (JBool b) = (if b then ''true'' else ''false'')"
| "json_string rt (JNum x) = rt_number_string rt x"
| "json_string rt (JStr s) = s"
| "json_string rt (JArr xs) = join '','' (map (json_string rt) xs)"
| "json_string rt (JObj _) = ''[object Object]''"
  by pat_completeness auto
termination
  by (relation "measure (\<lambda>(rt, j). size j)") (auto simp: less_Suc_eq_le size_list_estimation')

definition detailFromErrorBody :: "js_runtime \<Rightarrow> unknown \<Rightarrow> string \<Rightarrow> string" where
  "detailFromErrorBody rt raw fallback =
     (if \<not> isRecord raw then fallback
      else if str_or '''' (get ''message'' raw) \<noteq> '''' then str_or '''' (get ''message'' raw)
      else case get ''detail'' raw of
        Some (JStr detail) \<Rightarrow> (if detail \<noteq> '''' then detail else fallback)
      | Some (JArr items) \<Rightarrow>
          (let first = (case items of [] \<Rightarrow> None | item # _ \<Rightarrow> Some item) in
           case (isRecord first, str (get ''msg'' first)) of
             (True, Some msg) \<Rightarrow>
               (let loc = (case get ''loc'' first of
                             Some (JArr parts) \<Rightarrow> join ''.'' (map (json_string rt) parts)
                           | _ \<Rightarrow> '''')
                in if loc \<noteq> '''' then loc @ '': '' @ msg else msg)
           | _ \<Rightarrow> rt_json_stringify rt (JArr items))
      | _ \<Rightarrow> fallback)"

definition error_detail :: "js_runtime \<Rightarrow> unknown \<Rightarrow> string \<Rightarrow> string" where
  "error_detail rt body fallback =
     (case body of None \<Rightarrow> fallback | Some json \<Rightarrow> detailFromErrorBody rt (Some json) fallback)"

definition transfers_request :: "js_runtime \<Rightarrow> network \<Rightarrow> http_request \<Rightarrow> unknown result" where
  "transfers_request rt net rq =
     (case net rq of
        NetworkError cause \<Rightarrow> Inl (network_error cause)
      | Response status statusText body \<Rightarrow>
          if \<not> response_ok status
          then Inl (ApiError status (error_detail rt body (status_line status statusText)))
          else case body of
                 None \<Rightarrow> Inl (ApiError status ''malformed response body'')
               | Some json \<Rightarrow> Inr (Some json))"

definition workspace_request :: "js_runtime \<Rightarrow> network \<Rightarrow> http_request \<Rightarrow> unknown result" where
  "workspace_request rt net rq =
     (case net rq of
        NetworkError cause \<Rightarrow> Inl (network_error cause)
      | Response status statusText body \<Rightarrow>
          if \<not> response_ok status
          then Inl (ApiError status (error_detail rt body (status_line status statusText)))
          else if status = 204 then Inr None
          else case body of
                 None \<Rightarrow> Inl (ApiError status ''malformed response body'')
               | Some json \<Rightarrow> Inr (Some json))"

subsection \<open>Reading a model from a response\<close>

text \<open>
  The three shapes of a client operation: one model (\<open>null\<close> from the normalizer is an
  invalid payload), a list of models (a non-array body is one), or nothing.
\<close>

definition read_model :: "(unknown \<Rightarrow> 'a option) \<Rightarrow> string \<Rightarrow> unknown result \<Rightarrow> 'a result" where
  "read_model nrm what response =
     (case response of
        Inl e \<Rightarrow> Inl e
      | Inr raw \<Rightarrow> (case nrm raw of None \<Rightarrow> Inl (invalidPayload what) | Some x \<Rightarrow> Inr x))"

definition read_list :: "(unknown \<Rightarrow> 'a option) \<Rightarrow> string \<Rightarrow> unknown result \<Rightarrow> 'a list result" where
  "read_list nrm what response =
     (case response of
        Inl e \<Rightarrow> Inl e
      | Inr raw \<Rightarrow>
          (case raw of
             Some (JArr _) \<Rightarrow> Inr (norm_list nrm raw)
           | _ \<Rightarrow> Inl (invalidPayload what)))"

definition read_nothing :: "unknown result \<Rightarrow> unit result" where
  "read_nothing response = (case response of Inl e \<Rightarrow> Inl e | Inr _ \<Rightarrow> Inr ())"

text \<open>
  The contract of a request helper, with what every client operation inherits from it: a
  rejected fetch is status 0, a refused request keeps its status, an unreadable body is an
  error, and a model is only ever returned from a successful response.
\<close>

locale transport =
  fixes send :: "network \<Rightarrow> http_request \<Rightarrow> unknown result"
  assumes send_network: "net rq = NetworkError cause \<Longrightarrow> send net rq = Inl (network_error cause)"
    and send_refused:
      "net rq = Response status reason body \<Longrightarrow> \<not> response_ok status \<Longrightarrow>
       \<exists>detail. send net rq = Inl (ApiError status detail)"
    and send_unreadable:
      "net rq = Response status reason None \<Longrightarrow> response_ok status \<Longrightarrow> status \<noteq> 204 \<Longrightarrow>
       send net rq = Inl (ApiError status ''malformed response body'')"
    and send_body:
      "net rq = Response status reason (Some json) \<Longrightarrow> response_ok status \<Longrightarrow> status \<noteq> 204 \<Longrightarrow>
       send net rq = Inr (Some json)"
begin

lemma send_Inr:
  assumes "send net rq = Inr raw"
  shows "\<exists>status reason body. net rq = Response status reason body \<and> response_ok status"
proof (cases "net rq")
  case (NetworkError cause)
  then show ?thesis using assms send_network by simp
next
  case (Response status reason body)
  then have "response_ok status" using assms send_refused by fastforce
  then show ?thesis using Response by blast
qed

lemma read_model_Inr:
  "read_model nrm what (send net rq) = Inr x \<Longrightarrow>
   \<exists>status reason body raw. net rq = Response status reason body \<and> response_ok status \<and> nrm raw = Some x"
  using send_Inr by (fastforce simp: read_model_def split: sum.splits option.splits)

lemma read_model_refused:
  "net rq = Response status reason body \<Longrightarrow> \<not> response_ok status \<Longrightarrow>
   \<exists>detail. read_model nrm what (send net rq) = Inl (ApiError status detail)"
  using send_refused [of net rq status reason body] by (auto simp: read_model_def)

lemma read_model_json:
  "net rq = Response 200 reason (Some json) \<Longrightarrow>
   read_model nrm what (send net rq) =
     (case nrm (Some json) of None \<Rightarrow> Inl (invalidPayload what) | Some x \<Rightarrow> Inr x)"
  using send_body [of net rq 200 reason json] by (simp add: read_model_def response_ok_def)

end

interpretation api_transport: transport api_request
  by unfold_locales (auto simp: api_request_def)

interpretation transfers_transport: transport "transfers_request rt"
  by unfold_locales (auto simp: transfers_request_def)

interpretation workspace_transport: transport "workspace_request rt"
  by unfold_locales (auto simp: workspace_request_def)

lemma read_list_Inr:
  "read_list nrm what response = Inr xs \<longleftrightarrow>
   (\<exists>js. response = Inr (Some (JArr js)) \<and> xs = norm_list nrm (Some (JArr js)))"
  by (auto simp: read_list_def split: sum.splits option.splits json.splits)

lemma read_model_Inr_iff:
  "read_model nrm what response = Inr x \<longleftrightarrow> (\<exists>raw. response = Inr raw \<and> nrm raw = Some x)"
  by (auto simp: read_model_def split: sum.splits option.splits)

text \<open>What a normalizer guarantees of its models, the operation that reads with it guarantees too.\<close>

context wire_model
begin

lemma read_model_wf: "read_model nrm what response = Inr x \<Longrightarrow> wf x"
  by (auto simp: read_model_Inr_iff norm_wf)

lemma read_list_wf: "read_list nrm what response = Inr xs \<Longrightarrow> list_all wf xs"
  by (auto simp: read_list_Inr norm_list_wf)

lemma read_list_wire:
  "list_all wf xs \<Longrightarrow> read_list nrm what (Inr (Some (JArr (map wire xs)))) = Inr xs"
  by (simp add: read_list_def norm_list_wire)

end

end
