(* ===== verification/Normalize.thy ===== *)
theory Normalize
  imports Models Http
begin

text \<open>
  \<open>services/normalize.ts\<close>: every normalizer of the REST bodies and of the WebSocket
  frames, each with its interpretation of the contracts of theory Json. For each model,
  \<open>wire\<dots>\<close> reads the typed object back as an untrusted value and \<open>wf\<dots>\<close> is
  what its declared type means beyond the HOL types: which numbers are finite, which are
  integers, which nested records are themselves well formed.
\<close>

subsection \<open>Enumerations\<close>

definition SERVER_STATUSES :: "(string \<times> server_status) list" where
  "SERVER_STATUSES =
     [(''unknown'', S_Unknown),
      (''connecting'', S_Connecting),
      (''online'', S_Online),
      (''reconnecting'', S_Reconnecting),
      (''offline'', S_Offline),
      (''timeout'', S_Timeout),
      (''authentication_failed'', S_Authentication_failed),
      (''host_key_error'', S_Host_key_error),
      (''degraded'', S_Degraded)]"

definition serverStatus :: "unknown \<Rightarrow> server_status" where
  "serverStatus = enum_guard SERVER_STATUSES S_Unknown"

interpretation status_names: wire_enum SERVER_STATUSES
proof (unfold_locales, goal_cases)
  case 1
  then show ?case by (simp add: SERVER_STATUSES_def)
next
  case (2 x)
  then show ?case by (cases x) (simp_all add: SERVER_STATUSES_def)
qed

definition GPU_AVAILABILITIES :: "(string \<times> gpu_availability) list" where
  "GPU_AVAILABILITIES =
     [(''free'', A_Free),
      (''active'', A_Active),
      (''saturated'', A_Saturated),
      (''unavailable'', A_Unavailable)]"

definition gpuAvailability :: "unknown \<Rightarrow> gpu_availability" where
  "gpuAvailability = enum_guard GPU_AVAILABILITIES A_Unavailable"

interpretation availability_names: wire_enum GPU_AVAILABILITIES
proof (unfold_locales, goal_cases)
  case 1
  then show ?case by (simp add: GPU_AVAILABILITIES_def)
next
  case (2 x)
  then show ?case by (cases x) (simp_all add: GPU_AVAILABILITIES_def)
qed

definition DIRECT_AUTH_METHODS :: "(string \<times> direct_auth_method) list" where
  "DIRECT_AUTH_METHODS =
     [(''native'', M_Native),
      (''sgc_key'', M_Sgc_key)]"

definition directAuthMethod :: "unknown \<Rightarrow> direct_auth_method option" where
  "directAuthMethod = enum_opt DIRECT_AUTH_METHODS"

interpretation method_names: wire_enum DIRECT_AUTH_METHODS
proof (unfold_locales, goal_cases)
  case 1
  then show ?case by (simp add: DIRECT_AUTH_METHODS_def)
next
  case (2 x)
  then show ?case by (cases x) (simp_all add: DIRECT_AUTH_METHODS_def)
qed

definition PASSWORD_STORAGES :: "(string \<times> password_storage) list" where
  "PASSWORD_STORAGES =
     [(''system_keyring'', P_System_keyring),
      (''session_only'', P_Session_only)]"

definition passwordStorage :: "unknown \<Rightarrow> password_storage option" where
  "passwordStorage = enum_opt PASSWORD_STORAGES"

interpretation storage_names: wire_enum PASSWORD_STORAGES
proof (unfold_locales, goal_cases)
  case 1
  then show ?case by (simp add: PASSWORD_STORAGES_def)
next
  case (2 x)
  then show ?case by (cases x) (simp_all add: PASSWORD_STORAGES_def)
qed

definition DIRECT_AUTH_REASONS :: "string list" where
  "DIRECT_AUTH_REASONS =
     [''route_unreachable'', ''host_key_unknown'', ''host_key_mismatch'',
      ''authentication_failed'', ''rsync_missing_source'', ''rsync_missing_target'',
      ''dedicated_key_missing'', ''authorized_key_missing'', ''remote_key_invalid'',
      ''source_known_hosts_missing'', ''keygen_missing_source'', ''unknown'']"

text \<open>A known reason code, or any other non-empty string verbatim.\<close>

definition directAuthReason :: "unknown \<Rightarrow> string option" where
  "directAuthReason value =
     (case str value of
        None \<Rightarrow> None
      | Some s \<Rightarrow> (if s \<in> set DIRECT_AUTH_REASONS then Some s else if s \<noteq> [] then Some s else None))"

lemma directAuthReason_eq:
  "directAuthReason value = (case str value of Some s \<Rightarrow> (if s = [] then None else Some s) | None \<Rightarrow> None)"
proof -
  have "[] \<notin> set DIRECT_AUTH_REASONS" by (simp add: DIRECT_AUTH_REASONS_def)
  then show ?thesis by (auto simp: directAuthReason_def split: option.split)
qed

lemma directAuthReason_wire [simp]:
  "opt_ok (\<lambda>s. s \<noteq> []) x \<Longrightarrow> directAuthReason (Some (wire_opt JStr x)) = x"
  by (cases x) (simp_all add: directAuthReason_eq)

lemma directAuthReason_ok [simp]: "opt_ok (\<lambda>s. s \<noteq> []) (directAuthReason raw)"
  by (auto simp: directAuthReason_eq split: option.splits)

text \<open>The list guards written inline: integer GPU indexes, non-empty user names.\<close>

definition intList :: "unknown \<Rightarrow> js_number list" where
  "intList value = map_non_null (\<lambda>item. int_guard (Some item)) (arrayOf value)"

definition nonEmptyStr :: "json \<Rightarrow> string option" where
  "nonEmptyStr item = (case item of JStr s \<Rightarrow> (if s \<noteq> [] then Some s else None) | _ \<Rightarrow> None)"

definition nonEmptyStrs :: "unknown \<Rightarrow> string list" where
  "nonEmptyStrs value = map_non_null nonEmptyStr (arrayOf value)"

lemma intList_wire [simp]: "list_all is_integer xs \<Longrightarrow> intList (Some (JArr (map JNum xs))) = xs"
  by (auto simp: intList_def arrayOf_def list_all_iff intro!: map_non_null_map)

lemma intList_ok [simp]: "list_all is_integer (intList raw)"
  by (auto simp: intList_def list_all_iff set_map_non_null dest: int_guard_Some)

lemma nonEmptyStrs_wire [simp]:
  "list_all (\<lambda>u. u \<noteq> []) xs \<Longrightarrow> nonEmptyStrs (Some (wire_strs xs)) = xs"
  by (auto simp: nonEmptyStrs_def nonEmptyStr_def arrayOf_def wire_strs_def list_all_iff
      intro!: map_non_null_map)

lemma nonEmptyStr_Some: "nonEmptyStr item = Some u \<Longrightarrow> u \<noteq> []"
  by (cases item) (auto simp: nonEmptyStr_def split: if_splits)

lemma nonEmptyStrs_ok [simp]: "list_all (\<lambda>u. u \<noteq> []) (nonEmptyStrs raw)"
  by (auto simp: nonEmptyStrs_def list_all_iff set_map_non_null dest: nonEmptyStr_Some)

lemmas wire_facts = serverStatus_def gpuAvailability_def directAuthMethod_def passwordStorage_def

subsection \<open>Registry models\<close>

definition normalizeServerRecord :: "unknown \<Rightarrow> server_record option" where
  "normalizeServerRecord raw =
     (if \<not> isRecord raw then None
      else case (str (get ''server_id'' raw), str (get ''display_name'' raw), str (get ''ssh_host'' raw)) of
        (Some serverId, Some displayName, Some sshHost) \<Rightarrow>
          Some \<lparr>srv_server_id = serverId,
             srv_display_name = displayName,
             srv_ssh_host = sshHost,
             srv_username = str (get ''username'' raw),
             srv_port = int_guard (get ''port'' raw),
             srv_tags = strList (get ''tags'' raw),
             srv_enabled = bool_guard (get ''enabled'' raw) True,
             srv_sample_interval_s = interval (get ''sample_interval_s'' raw)\<rparr>
      | _ \<Rightarrow> None)"

definition wireServerRecord :: "server_record \<Rightarrow> json" where
  "wireServerRecord x = JObj
     [(''server_id'', JStr (srv_server_id x)),
      (''display_name'', JStr (srv_display_name x)),
      (''ssh_host'', JStr (srv_ssh_host x)),
      (''username'', wire_opt JStr (srv_username x)),
      (''port'', wire_opt JNum (srv_port x)),
      (''tags'', wire_strs (srv_tags x)),
      (''enabled'', JBool (srv_enabled x)),
      (''sample_interval_s'', wire_opt JNum (srv_sample_interval_s x))]"

definition wfServerRecord :: "server_record \<Rightarrow> bool" where
  "wfServerRecord x \<longleftrightarrow>
     opt_ok is_integer (srv_port x) \<and>
     opt_ok in_interval (srv_sample_interval_s x)"

interpretation wire_server_record: identified_model normalizeServerRecord wireServerRecord wfServerRecord "''server_id''" srv_server_id
proof (unfold_locales, goal_cases)
  case (1 raw)
  then show ?case by (simp add: normalizeServerRecord_def)
next
  case (2 raw x)
  then show ?case
    by (auto simp: normalizeServerRecord_def wfServerRecord_def wire_facts  dest: int_guard_Some num_Some split: if_splits option.splits)
next
  case (3 x)
  then show ?case
    by (cases x) (simp add: normalizeServerRecord_def wfServerRecord_def wireServerRecord_def wire_facts )
next
  case (4 raw x)
  then show ?case
    by (auto simp: normalizeServerRecord_def split: if_splits option.splits)
qed

definition normalizeAliasEntry :: "unknown \<Rightarrow> alias_entry option" where
  "normalizeAliasEntry raw =
     (if \<not> isRecord raw then None
      else case str (get ''alias'' raw) of
        Some alias' \<Rightarrow>
          Some \<lparr>ali_alias = alias',
             ali_host = str (get ''host'' raw),
             ali_user = str (get ''user'' raw),
             ali_port = int_guard (get ''port'' raw)\<rparr>
      | None \<Rightarrow> None)"

definition wireAliasEntry :: "alias_entry \<Rightarrow> json" where
  "wireAliasEntry x = JObj
     [(''alias'', JStr (ali_alias x)),
      (''host'', wire_opt JStr (ali_host x)),
      (''user'', wire_opt JStr (ali_user x)),
      (''port'', wire_opt JNum (ali_port x))]"

definition wfAliasEntry :: "alias_entry \<Rightarrow> bool" where
  "wfAliasEntry x \<longleftrightarrow>
     opt_ok is_integer (ali_port x)"

interpretation wire_alias_entry: identified_model normalizeAliasEntry wireAliasEntry wfAliasEntry "''alias''" ali_alias
proof (unfold_locales, goal_cases)
  case (1 raw)
  then show ?case by (simp add: normalizeAliasEntry_def)
next
  case (2 raw x)
  then show ?case
    by (auto simp: normalizeAliasEntry_def wfAliasEntry_def wire_facts  dest: int_guard_Some num_Some split: if_splits option.splits)
next
  case (3 x)
  then show ?case
    by (cases x) (simp add: normalizeAliasEntry_def wfAliasEntry_def wireAliasEntry_def wire_facts )
next
  case (4 raw x)
  then show ?case
    by (auto simp: normalizeAliasEntry_def split: if_splits option.splits)
qed

definition normalizeHostKeyPrompt :: "unknown \<Rightarrow> host_key_prompt option" where
  "normalizeHostKeyPrompt raw =
     (if \<not> isRecord raw then None
      else case (str (get ''host'' raw), str (get ''key_type'' raw), str (get ''fingerprint'' raw)) of
        (Some host', Some keyType, Some fingerprint) \<Rightarrow>
          Some \<lparr>hkp_host = host',
             hkp_port = int_guard (get ''port'' raw),
             hkp_key_type = keyType,
             hkp_fingerprint = fingerprint\<rparr>
      | _ \<Rightarrow> None)"

definition wireHostKeyPrompt :: "host_key_prompt \<Rightarrow> json" where
  "wireHostKeyPrompt x = JObj
     [(''host'', JStr (hkp_host x)),
      (''port'', wire_opt JNum (hkp_port x)),
      (''key_type'', JStr (hkp_key_type x)),
      (''fingerprint'', JStr (hkp_fingerprint x))]"

definition wfHostKeyPrompt :: "host_key_prompt \<Rightarrow> bool" where
  "wfHostKeyPrompt x \<longleftrightarrow>
     opt_ok is_integer (hkp_port x)"

interpretation wire_host_key_prompt: wire_model normalizeHostKeyPrompt wireHostKeyPrompt wfHostKeyPrompt
proof (unfold_locales, goal_cases)
  case (1 raw)
  then show ?case by (simp add: normalizeHostKeyPrompt_def)
next
  case (2 raw x)
  then show ?case
    by (auto simp: normalizeHostKeyPrompt_def wfHostKeyPrompt_def wire_facts  dest: int_guard_Some num_Some split: if_splits option.splits)
next
  case (3 x)
  then show ?case
    by (cases x) (simp add: normalizeHostKeyPrompt_def wfHostKeyPrompt_def wireHostKeyPrompt_def wire_facts )
qed

definition normalizeConnectionTestResult :: "unknown \<Rightarrow> connection_test_result option" where
  "normalizeConnectionTestResult raw =
     (if \<not> isRecord raw then None
      else case (bool_opt (get ''ok'' raw), str (get ''detail'' raw)) of
        (Some ok', Some detail') \<Rightarrow>
          Some \<lparr>ctr_ok = ok',
             ctr_status = serverStatus (get ''status'' raw),
             ctr_detail = detail',
             ctr_latency_ms = num (get ''latency_ms'' raw),
             ctr_pending_host_key = normalizeHostKeyPrompt (get ''pending_host_key'' raw)\<rparr>
      | _ \<Rightarrow> None)"

definition wireConnectionTestResult :: "connection_test_result \<Rightarrow> json" where
  "wireConnectionTestResult x = JObj
     [(''ok'', JBool (ctr_ok x)),
      (''status'', JStr (name_in SERVER_STATUSES (ctr_status x))),
      (''detail'', JStr (ctr_detail x)),
      (''latency_ms'', wire_opt JNum (ctr_latency_ms x)),
      (''pending_host_key'', wire_opt wireHostKeyPrompt (ctr_pending_host_key x))]"

definition wfConnectionTestResult :: "connection_test_result \<Rightarrow> bool" where
  "wfConnectionTestResult x \<longleftrightarrow>
     opt_ok is_finite (ctr_latency_ms x) \<and>
     opt_ok wfHostKeyPrompt (ctr_pending_host_key x)"

interpretation wire_connection_test_result: wire_model normalizeConnectionTestResult wireConnectionTestResult wfConnectionTestResult
proof (unfold_locales, goal_cases)
  case (1 raw)
  then show ?case by (simp add: normalizeConnectionTestResult_def)
next
  case (2 raw x)
  then show ?case
    by (auto simp: normalizeConnectionTestResult_def wfConnectionTestResult_def wire_facts wire_host_key_prompt.norm_list_wf wire_host_key_prompt.opt_ok_norm dest: int_guard_Some num_Some split: if_splits option.splits)
next
  case (3 x)
  then show ?case
    by (cases x) (simp add: normalizeConnectionTestResult_def wfConnectionTestResult_def wireConnectionTestResult_def wire_facts wire_host_key_prompt.norm_list_wire wire_host_key_prompt.norm_wire_opt)
qed

subsection \<open>Server authentication and direct transfer\<close>

definition normalizeServerAuthStatus :: "unknown \<Rightarrow> server_auth_status option" where
  "normalizeServerAuthStatus raw =
     (if \<not> isRecord raw then None
      else case (str (get ''effective_host'' raw), int_guard (get ''effective_port'' raw)) of
        (Some effectiveHost, Some effectivePort) \<Rightarrow>
          Some \<lparr>sas_ssh_config_used = bool_guard (get ''ssh_config_used'' raw) False,
             sas_effective_host = effectiveHost,
             sas_effective_user = str (get ''effective_user'' raw),
             sas_effective_port = effectivePort,
             sas_identity_files = int_or_zero (get ''identity_files'' raw),
             sas_agent_available = bool_guard (get ''agent_available'' raw) False,
             sas_proxy_jump_configured = bool_guard (get ''proxy_jump_configured'' raw) False,
             sas_password_configured = bool_guard (get ''password_configured'' raw) False,
             sas_password_storage = passwordStorage (get ''password_storage'' raw)\<rparr>
      | _ \<Rightarrow> None)"

definition wireServerAuthStatus :: "server_auth_status \<Rightarrow> json" where
  "wireServerAuthStatus x = JObj
     [(''ssh_config_used'', JBool (sas_ssh_config_used x)),
      (''effective_host'', JStr (sas_effective_host x)),
      (''effective_user'', wire_opt JStr (sas_effective_user x)),
      (''effective_port'', JNum (sas_effective_port x)),
      (''identity_files'', JNum (sas_identity_files x)),
      (''agent_available'', JBool (sas_agent_available x)),
      (''proxy_jump_configured'', JBool (sas_proxy_jump_configured x)),
      (''password_configured'', JBool (sas_password_configured x)),
      (''password_storage'', wire_opt (\<lambda>e. JStr (name_in PASSWORD_STORAGES e)) (sas_password_storage x))]"

definition wfServerAuthStatus :: "server_auth_status \<Rightarrow> bool" where
  "wfServerAuthStatus x \<longleftrightarrow>
     is_integer (sas_effective_port x) \<and>
     is_integer (sas_identity_files x)"

interpretation wire_server_auth_status: wire_model normalizeServerAuthStatus wireServerAuthStatus wfServerAuthStatus
proof (unfold_locales, goal_cases)
  case (1 raw)
  then show ?case by (simp add: normalizeServerAuthStatus_def)
next
  case (2 raw x)
  then show ?case
    by (auto simp: normalizeServerAuthStatus_def wfServerAuthStatus_def wire_facts  dest: int_guard_Some num_Some split: if_splits option.splits)
next
  case (3 x)
  then show ?case
    by (cases x) (simp add: normalizeServerAuthStatus_def wfServerAuthStatus_def wireServerAuthStatus_def wire_facts )
qed

definition normalizeDirectAuthPeer :: "unknown \<Rightarrow> direct_auth_peer option" where
  "normalizeDirectAuthPeer raw =
     (if \<not> isRecord raw then None
      else case str (get ''target_server_id'' raw) of
        Some targetServerId \<Rightarrow>
          Some \<lparr>dap_target_server_id = targetServerId,
             dap_configured = bool_guard (get ''configured'' raw) False,
             dap_method = directAuthMethod (get ''method'' raw),
             dap_available = bool_opt (get ''available'' raw),
             dap_reason = directAuthReason (get ''reason'' raw),
             dap_checked_at = str (get ''checked_at'' raw)\<rparr>
      | None \<Rightarrow> None)"

definition wireDirectAuthPeer :: "direct_auth_peer \<Rightarrow> json" where
  "wireDirectAuthPeer x = JObj
     [(''target_server_id'', JStr (dap_target_server_id x)),
      (''configured'', JBool (dap_configured x)),
      (''method'', wire_opt (\<lambda>e. JStr (name_in DIRECT_AUTH_METHODS e)) (dap_method x)),
      (''available'', wire_opt JBool (dap_available x)),
      (''reason'', wire_opt JStr (dap_reason x)),
      (''checked_at'', wire_opt JStr (dap_checked_at x))]"

definition wfDirectAuthPeer :: "direct_auth_peer \<Rightarrow> bool" where
  "wfDirectAuthPeer x \<longleftrightarrow>
     opt_ok (\<lambda>s. s \<noteq> []) (dap_reason x)"

interpretation wire_direct_auth_peer: identified_model normalizeDirectAuthPeer wireDirectAuthPeer wfDirectAuthPeer "''target_server_id''" dap_target_server_id
proof (unfold_locales, goal_cases)
  case (1 raw)
  then show ?case by (simp add: normalizeDirectAuthPeer_def)
next
  case (2 raw x)
  then show ?case
    by (auto simp: normalizeDirectAuthPeer_def wfDirectAuthPeer_def wire_facts  dest: int_guard_Some num_Some split: if_splits option.splits)
next
  case (3 x)
  then show ?case
    by (cases x) (simp add: normalizeDirectAuthPeer_def wfDirectAuthPeer_def wireDirectAuthPeer_def wire_facts )
next
  case (4 raw x)
  then show ?case
    by (auto simp: normalizeDirectAuthPeer_def split: if_splits option.splits)
qed

definition normalizeDirectAuthPair :: "unknown \<Rightarrow> direct_auth_pair option" where
  "normalizeDirectAuthPair raw =
     (if \<not> isRecord raw then None
      else case (str (get ''source_server_id'' raw), str (get ''target_server_id'' raw)) of
        (Some sourceServerId, Some targetServerId) \<Rightarrow>
          Some \<lparr>dpr_source_server_id = sourceServerId,
             dpr_target_server_id = targetServerId,
             dpr_configured = bool_guard (get ''configured'' raw) False,
             dpr_method = directAuthMethod (get ''method'' raw),
             dpr_available = bool_opt (get ''available'' raw),
             dpr_reason = directAuthReason (get ''reason'' raw),
             dpr_checked_at = str (get ''checked_at'' raw)\<rparr>
      | _ \<Rightarrow> None)"

definition wireDirectAuthPair :: "direct_auth_pair \<Rightarrow> json" where
  "wireDirectAuthPair x = JObj
     [(''source_server_id'', JStr (dpr_source_server_id x)),
      (''target_server_id'', JStr (dpr_target_server_id x)),
      (''configured'', JBool (dpr_configured x)),
      (''method'', wire_opt (\<lambda>e. JStr (name_in DIRECT_AUTH_METHODS e)) (dpr_method x)),
      (''available'', wire_opt JBool (dpr_available x)),
      (''reason'', wire_opt JStr (dpr_reason x)),
      (''checked_at'', wire_opt JStr (dpr_checked_at x))]"

definition wfDirectAuthPair :: "direct_auth_pair \<Rightarrow> bool" where
  "wfDirectAuthPair x \<longleftrightarrow>
     opt_ok (\<lambda>s. s \<noteq> []) (dpr_reason x)"

interpretation wire_direct_auth_pair: identified_model normalizeDirectAuthPair wireDirectAuthPair wfDirectAuthPair "''source_server_id''" dpr_source_server_id
proof (unfold_locales, goal_cases)
  case (1 raw)
  then show ?case by (simp add: normalizeDirectAuthPair_def)
next
  case (2 raw x)
  then show ?case
    by (auto simp: normalizeDirectAuthPair_def wfDirectAuthPair_def wire_facts  dest: int_guard_Some num_Some split: if_splits option.splits)
next
  case (3 x)
  then show ?case
    by (cases x) (simp add: normalizeDirectAuthPair_def wfDirectAuthPair_def wireDirectAuthPair_def wire_facts )
next
  case (4 raw x)
  then show ?case
    by (auto simp: normalizeDirectAuthPair_def split: if_splits option.splits)
qed

definition normalizeDirectAuthList :: "unknown \<Rightarrow> direct_auth_list option" where
  "normalizeDirectAuthList raw =
     (if \<not> isRecord raw then None
      else case str (get ''server_id'' raw) of
        Some serverId \<Rightarrow>
          Some \<lparr>dal_server_id = serverId,
             dal_pairs = norm_list normalizeDirectAuthPair (get ''pairs'' raw)\<rparr>
      | None \<Rightarrow> None)"

definition wireDirectAuthList :: "direct_auth_list \<Rightarrow> json" where
  "wireDirectAuthList x = JObj
     [(''server_id'', JStr (dal_server_id x)),
      (''pairs'', JArr (map wireDirectAuthPair (dal_pairs x)))]"

definition wfDirectAuthList :: "direct_auth_list \<Rightarrow> bool" where
  "wfDirectAuthList x \<longleftrightarrow>
     list_all wfDirectAuthPair (dal_pairs x)"

interpretation wire_direct_auth_list: identified_model normalizeDirectAuthList wireDirectAuthList wfDirectAuthList "''server_id''" dal_server_id
proof (unfold_locales, goal_cases)
  case (1 raw)
  then show ?case by (simp add: normalizeDirectAuthList_def)
next
  case (2 raw x)
  then show ?case
    by (auto simp: normalizeDirectAuthList_def wfDirectAuthList_def wire_facts wire_direct_auth_pair.norm_list_wf wire_direct_auth_pair.opt_ok_norm dest: int_guard_Some num_Some split: if_splits option.splits)
next
  case (3 x)
  then show ?case
    by (cases x) (simp add: normalizeDirectAuthList_def wfDirectAuthList_def wireDirectAuthList_def wire_facts wire_direct_auth_pair.norm_list_wire wire_direct_auth_pair.norm_wire_opt)
next
  case (4 raw x)
  then show ?case
    by (auto simp: normalizeDirectAuthList_def split: if_splits option.splits)
qed

subsection \<open>Telemetry models\<close>

definition normalizeCpu :: "unknown \<Rightarrow> cpu_info option" where
  "normalizeCpu raw =
     (if \<not> isRecord raw then None
      else Some \<lparr>cpu_percent = num (get ''percent'' raw),
             cpu_load_1 = num (get ''load_1'' raw),
             cpu_load_5 = num (get ''load_5'' raw),
             cpu_load_15 = num (get ''load_15'' raw),
             cpu_cores_logical = int_guard (get ''cores_logical'' raw)\<rparr>)"

definition wireCpu :: "cpu_info \<Rightarrow> json" where
  "wireCpu x = JObj
     [(''percent'', wire_opt JNum (cpu_percent x)),
      (''load_1'', wire_opt JNum (cpu_load_1 x)),
      (''load_5'', wire_opt JNum (cpu_load_5 x)),
      (''load_15'', wire_opt JNum (cpu_load_15 x)),
      (''cores_logical'', wire_opt JNum (cpu_cores_logical x))]"

definition wfCpu :: "cpu_info \<Rightarrow> bool" where
  "wfCpu x \<longleftrightarrow>
     opt_ok is_finite (cpu_percent x) \<and>
     opt_ok is_finite (cpu_load_1 x) \<and>
     opt_ok is_finite (cpu_load_5 x) \<and>
     opt_ok is_finite (cpu_load_15 x) \<and>
     opt_ok is_integer (cpu_cores_logical x)"

interpretation wire_cpu_info: wire_model normalizeCpu wireCpu wfCpu
proof (unfold_locales, goal_cases)
  case (1 raw)
  then show ?case by (simp add: normalizeCpu_def)
next
  case (2 raw x)
  then show ?case
    by (auto simp: normalizeCpu_def wfCpu_def wire_facts  dest: int_guard_Some num_Some split: if_splits option.splits)
next
  case (3 x)
  then show ?case
    by (cases x) (simp add: normalizeCpu_def wfCpu_def wireCpu_def wire_facts )
qed

definition normalizeMemory :: "unknown \<Rightarrow> memory_info option" where
  "normalizeMemory raw =
     (if \<not> isRecord raw then None
      else Some \<lparr>mem_total_b = int_guard (get ''total_b'' raw),
             mem_used_b = int_guard (get ''used_b'' raw),
             mem_available_b = int_guard (get ''available_b'' raw),
             mem_percent = num (get ''percent'' raw)\<rparr>)"

definition wireMemory :: "memory_info \<Rightarrow> json" where
  "wireMemory x = JObj
     [(''total_b'', wire_opt JNum (mem_total_b x)),
      (''used_b'', wire_opt JNum (mem_used_b x)),
      (''available_b'', wire_opt JNum (mem_available_b x)),
      (''percent'', wire_opt JNum (mem_percent x))]"

definition wfMemory :: "memory_info \<Rightarrow> bool" where
  "wfMemory x \<longleftrightarrow>
     opt_ok is_integer (mem_total_b x) \<and>
     opt_ok is_integer (mem_used_b x) \<and>
     opt_ok is_integer (mem_available_b x) \<and>
     opt_ok is_finite (mem_percent x)"

interpretation wire_memory_info: wire_model normalizeMemory wireMemory wfMemory
proof (unfold_locales, goal_cases)
  case (1 raw)
  then show ?case by (simp add: normalizeMemory_def)
next
  case (2 raw x)
  then show ?case
    by (auto simp: normalizeMemory_def wfMemory_def wire_facts  dest: int_guard_Some num_Some split: if_splits option.splits)
next
  case (3 x)
  then show ?case
    by (cases x) (simp add: normalizeMemory_def wfMemory_def wireMemory_def wire_facts )
qed

definition normalizeGpu :: "unknown \<Rightarrow> gpu_info option" where
  "normalizeGpu raw =
     (if \<not> isRecord raw then None
      else case int_guard (get ''index'' raw) of
        Some index' \<Rightarrow>
          Some \<lparr>gpu_index = index',
             gpu_uuid = str (get ''uuid'' raw),
             gpu_name = str (get ''name'' raw),
             gpu_utilization_percent = num (get ''utilization_percent'' raw),
             gpu_vram_used_b = int_guard (get ''vram_used_b'' raw),
             gpu_vram_total_b = int_guard (get ''vram_total_b'' raw),
             gpu_vram_percent = num (get ''vram_percent'' raw),
             gpu_temperature_c = num (get ''temperature_c'' raw),
             gpu_power_watts = num (get ''power_watts'' raw),
             gpu_power_limit_watts = num (get ''power_limit_watts'' raw),
             gpu_fan_percent = num (get ''fan_percent'' raw),
             gpu_availability = gpuAvailability (get ''availability'' raw),
             gpu_process_count = int_or_zero (get ''process_count'' raw)\<rparr>
      | None \<Rightarrow> None)"

definition wireGpu :: "gpu_info \<Rightarrow> json" where
  "wireGpu x = JObj
     [(''index'', JNum (gpu_index x)),
      (''uuid'', wire_opt JStr (gpu_uuid x)),
      (''name'', wire_opt JStr (gpu_name x)),
      (''utilization_percent'', wire_opt JNum (gpu_utilization_percent x)),
      (''vram_used_b'', wire_opt JNum (gpu_vram_used_b x)),
      (''vram_total_b'', wire_opt JNum (gpu_vram_total_b x)),
      (''vram_percent'', wire_opt JNum (gpu_vram_percent x)),
      (''temperature_c'', wire_opt JNum (gpu_temperature_c x)),
      (''power_watts'', wire_opt JNum (gpu_power_watts x)),
      (''power_limit_watts'', wire_opt JNum (gpu_power_limit_watts x)),
      (''fan_percent'', wire_opt JNum (gpu_fan_percent x)),
      (''availability'', JStr (name_in GPU_AVAILABILITIES (gpu_availability x))),
      (''process_count'', JNum (gpu_process_count x))]"

definition wfGpu :: "gpu_info \<Rightarrow> bool" where
  "wfGpu x \<longleftrightarrow>
     is_integer (gpu_index x) \<and>
     opt_ok is_finite (gpu_utilization_percent x) \<and>
     opt_ok is_integer (gpu_vram_used_b x) \<and>
     opt_ok is_integer (gpu_vram_total_b x) \<and>
     opt_ok is_finite (gpu_vram_percent x) \<and>
     opt_ok is_finite (gpu_temperature_c x) \<and>
     opt_ok is_finite (gpu_power_watts x) \<and>
     opt_ok is_finite (gpu_power_limit_watts x) \<and>
     opt_ok is_finite (gpu_fan_percent x) \<and>
     is_integer (gpu_process_count x)"

interpretation wire_gpu_info: wire_model normalizeGpu wireGpu wfGpu
proof (unfold_locales, goal_cases)
  case (1 raw)
  then show ?case by (simp add: normalizeGpu_def)
next
  case (2 raw x)
  then show ?case
    by (auto simp: normalizeGpu_def wfGpu_def wire_facts  dest: int_guard_Some num_Some split: if_splits option.splits)
next
  case (3 x)
  then show ?case
    by (cases x) (simp add: normalizeGpu_def wfGpu_def wireGpu_def wire_facts )
qed

definition normalizeGpuProcess :: "unknown \<Rightarrow> gpu_process_info option" where
  "normalizeGpuProcess raw =
     (if \<not> isRecord raw then None
      else case int_guard (get ''pid'' raw) of
        Some pid \<Rightarrow>
          Some \<lparr>gpp_pid = pid,
             gpp_gpu_uuid = str (get ''gpu_uuid'' raw),
             gpp_gpu_index = int_guard (get ''gpu_index'' raw),
             gpp_used_memory_b = int_guard (get ''used_memory_b'' raw),
             gpp_process_name = str (get ''process_name'' raw),
             gpp_user = str (get ''user'' raw),
             gpp_command = str (get ''command'' raw)\<rparr>
      | None \<Rightarrow> None)"

definition wireGpuProcess :: "gpu_process_info \<Rightarrow> json" where
  "wireGpuProcess x = JObj
     [(''pid'', JNum (gpp_pid x)),
      (''gpu_uuid'', wire_opt JStr (gpp_gpu_uuid x)),
      (''gpu_index'', wire_opt JNum (gpp_gpu_index x)),
      (''used_memory_b'', wire_opt JNum (gpp_used_memory_b x)),
      (''process_name'', wire_opt JStr (gpp_process_name x)),
      (''user'', wire_opt JStr (gpp_user x)),
      (''command'', wire_opt JStr (gpp_command x))]"

definition wfGpuProcess :: "gpu_process_info \<Rightarrow> bool" where
  "wfGpuProcess x \<longleftrightarrow>
     is_integer (gpp_pid x) \<and>
     opt_ok is_integer (gpp_gpu_index x) \<and>
     opt_ok is_integer (gpp_used_memory_b x)"

interpretation wire_gpu_process_info: wire_model normalizeGpuProcess wireGpuProcess wfGpuProcess
proof (unfold_locales, goal_cases)
  case (1 raw)
  then show ?case by (simp add: normalizeGpuProcess_def)
next
  case (2 raw x)
  then show ?case
    by (auto simp: normalizeGpuProcess_def wfGpuProcess_def wire_facts  dest: int_guard_Some num_Some split: if_splits option.splits)
next
  case (3 x)
  then show ?case
    by (cases x) (simp add: normalizeGpuProcess_def wfGpuProcess_def wireGpuProcess_def wire_facts )
qed

definition normalizeProcess :: "unknown \<Rightarrow> process_info option" where
  "normalizeProcess raw =
     (if \<not> isRecord raw then None
      else case int_guard (get ''pid'' raw) of
        Some pid \<Rightarrow>
          Some \<lparr>prc_pid = pid,
             prc_user = str (get ''user'' raw),
             prc_name = str (get ''name'' raw),
             prc_cpu_percent = num (get ''cpu_percent'' raw),
             prc_mem_percent = num (get ''mem_percent'' raw),
             prc_rss_b = int_guard (get ''rss_b'' raw),
             prc_state = str (get ''state'' raw),
             prc_command = str (get ''command'' raw),
             prc_gpu_indexes = intList (get ''gpu_indexes'' raw),
             prc_gpu_vram_b = int_guard (get ''gpu_vram_b'' raw)\<rparr>
      | None \<Rightarrow> None)"

definition wireProcess :: "process_info \<Rightarrow> json" where
  "wireProcess x = JObj
     [(''pid'', JNum (prc_pid x)),
      (''user'', wire_opt JStr (prc_user x)),
      (''name'', wire_opt JStr (prc_name x)),
      (''cpu_percent'', wire_opt JNum (prc_cpu_percent x)),
      (''mem_percent'', wire_opt JNum (prc_mem_percent x)),
      (''rss_b'', wire_opt JNum (prc_rss_b x)),
      (''state'', wire_opt JStr (prc_state x)),
      (''command'', wire_opt JStr (prc_command x)),
      (''gpu_indexes'', JArr (map JNum (prc_gpu_indexes x))),
      (''gpu_vram_b'', wire_opt JNum (prc_gpu_vram_b x))]"

definition wfProcess :: "process_info \<Rightarrow> bool" where
  "wfProcess x \<longleftrightarrow>
     is_integer (prc_pid x) \<and>
     opt_ok is_finite (prc_cpu_percent x) \<and>
     opt_ok is_finite (prc_mem_percent x) \<and>
     opt_ok is_integer (prc_rss_b x) \<and>
     list_all is_integer (prc_gpu_indexes x) \<and>
     opt_ok is_integer (prc_gpu_vram_b x)"

interpretation wire_process_info: wire_model normalizeProcess wireProcess wfProcess
proof (unfold_locales, goal_cases)
  case (1 raw)
  then show ?case by (simp add: normalizeProcess_def)
next
  case (2 raw x)
  then show ?case
    by (auto simp: normalizeProcess_def wfProcess_def wire_facts  dest: int_guard_Some num_Some split: if_splits option.splits)
next
  case (3 x)
  then show ?case
    by (cases x) (simp add: normalizeProcess_def wfProcess_def wireProcess_def wire_facts )
qed

definition normalizeStorageMount :: "unknown \<Rightarrow> storage_mount option" where
  "normalizeStorageMount raw =
     (if \<not> isRecord raw then None
      else case (str (get ''device'' raw), str (get ''mount'' raw)) of
        (Some device', Some mount') \<Rightarrow>
          Some \<lparr>mnt_device = device',
             mnt_fstype = str (get ''fstype'' raw),
             mnt_mount = mount',
             mnt_total_b = int_guard (get ''total_b'' raw),
             mnt_used_b = int_guard (get ''used_b'' raw),
             mnt_free_b = int_guard (get ''free_b'' raw),
             mnt_percent = num (get ''percent'' raw)\<rparr>
      | _ \<Rightarrow> None)"

definition wireStorageMount :: "storage_mount \<Rightarrow> json" where
  "wireStorageMount x = JObj
     [(''device'', JStr (mnt_device x)),
      (''fstype'', wire_opt JStr (mnt_fstype x)),
      (''mount'', JStr (mnt_mount x)),
      (''total_b'', wire_opt JNum (mnt_total_b x)),
      (''used_b'', wire_opt JNum (mnt_used_b x)),
      (''free_b'', wire_opt JNum (mnt_free_b x)),
      (''percent'', wire_opt JNum (mnt_percent x))]"

definition wfStorageMount :: "storage_mount \<Rightarrow> bool" where
  "wfStorageMount x \<longleftrightarrow>
     opt_ok is_integer (mnt_total_b x) \<and>
     opt_ok is_integer (mnt_used_b x) \<and>
     opt_ok is_integer (mnt_free_b x) \<and>
     opt_ok is_finite (mnt_percent x)"

interpretation wire_storage_mount: wire_model normalizeStorageMount wireStorageMount wfStorageMount
proof (unfold_locales, goal_cases)
  case (1 raw)
  then show ?case by (simp add: normalizeStorageMount_def)
next
  case (2 raw x)
  then show ?case
    by (auto simp: normalizeStorageMount_def wfStorageMount_def wire_facts  dest: int_guard_Some num_Some split: if_splits option.splits)
next
  case (3 x)
  then show ?case
    by (cases x) (simp add: normalizeStorageMount_def wfStorageMount_def wireStorageMount_def wire_facts )
qed

definition normalizeNetworkInterface :: "unknown \<Rightarrow> network_interface_info option" where
  "normalizeNetworkInterface raw =
     (if \<not> isRecord raw then None
      else case str (get ''name'' raw) of
        Some name' \<Rightarrow>
          Some \<lparr>nif_name = name',
             nif_ip = str (get ''ip'' raw),
             nif_rx_bps = num (get ''rx_bps'' raw),
             nif_tx_bps = num (get ''tx_bps'' raw),
             nif_rx_total_b = int_guard (get ''rx_total_b'' raw),
             nif_tx_total_b = int_guard (get ''tx_total_b'' raw)\<rparr>
      | None \<Rightarrow> None)"

definition wireNetworkInterface :: "network_interface_info \<Rightarrow> json" where
  "wireNetworkInterface x = JObj
     [(''name'', JStr (nif_name x)),
      (''ip'', wire_opt JStr (nif_ip x)),
      (''rx_bps'', wire_opt JNum (nif_rx_bps x)),
      (''tx_bps'', wire_opt JNum (nif_tx_bps x)),
      (''rx_total_b'', wire_opt JNum (nif_rx_total_b x)),
      (''tx_total_b'', wire_opt JNum (nif_tx_total_b x))]"

definition wfNetworkInterface :: "network_interface_info \<Rightarrow> bool" where
  "wfNetworkInterface x \<longleftrightarrow>
     opt_ok is_finite (nif_rx_bps x) \<and>
     opt_ok is_finite (nif_tx_bps x) \<and>
     opt_ok is_integer (nif_rx_total_b x) \<and>
     opt_ok is_integer (nif_tx_total_b x)"

interpretation wire_network_interface_info: wire_model normalizeNetworkInterface wireNetworkInterface wfNetworkInterface
proof (unfold_locales, goal_cases)
  case (1 raw)
  then show ?case by (simp add: normalizeNetworkInterface_def)
next
  case (2 raw x)
  then show ?case
    by (auto simp: normalizeNetworkInterface_def wfNetworkInterface_def wire_facts  dest: int_guard_Some num_Some split: if_splits option.splits)
next
  case (3 x)
  then show ?case
    by (cases x) (simp add: normalizeNetworkInterface_def wfNetworkInterface_def wireNetworkInterface_def wire_facts )
qed

definition normalizeSystem :: "unknown \<Rightarrow> system_info option" where
  "normalizeSystem raw =
     (if \<not> isRecord raw then None
      else Some \<lparr>sys_hostname = str (get ''hostname'' raw),
             sys_os_pretty = str (get ''os_pretty'' raw),
             sys_kernel = str (get ''kernel'' raw),
             sys_uptime_s = num (get ''uptime_s'' raw),
             sys_cpu_model = str (get ''cpu_model'' raw),
             sys_cores_physical = int_guard (get ''cores_physical'' raw),
             sys_cores_logical = int_guard (get ''cores_logical'' raw),
             sys_driver_version = str (get ''driver_version'' raw)\<rparr>)"

definition wireSystem :: "system_info \<Rightarrow> json" where
  "wireSystem x = JObj
     [(''hostname'', wire_opt JStr (sys_hostname x)),
      (''os_pretty'', wire_opt JStr (sys_os_pretty x)),
      (''kernel'', wire_opt JStr (sys_kernel x)),
      (''uptime_s'', wire_opt JNum (sys_uptime_s x)),
      (''cpu_model'', wire_opt JStr (sys_cpu_model x)),
      (''cores_physical'', wire_opt JNum (sys_cores_physical x)),
      (''cores_logical'', wire_opt JNum (sys_cores_logical x)),
      (''driver_version'', wire_opt JStr (sys_driver_version x))]"

definition wfSystem :: "system_info \<Rightarrow> bool" where
  "wfSystem x \<longleftrightarrow>
     opt_ok is_finite (sys_uptime_s x) \<and>
     opt_ok is_integer (sys_cores_physical x) \<and>
     opt_ok is_integer (sys_cores_logical x)"

interpretation wire_system_info: wire_model normalizeSystem wireSystem wfSystem
proof (unfold_locales, goal_cases)
  case (1 raw)
  then show ?case by (simp add: normalizeSystem_def)
next
  case (2 raw x)
  then show ?case
    by (auto simp: normalizeSystem_def wfSystem_def wire_facts  dest: int_guard_Some num_Some split: if_splits option.splits)
next
  case (3 x)
  then show ?case
    by (cases x) (simp add: normalizeSystem_def wfSystem_def wireSystem_def wire_facts )
qed

definition normalizeServerSnapshot :: "unknown \<Rightarrow> server_snapshot option" where
  "normalizeServerSnapshot raw =
     (if \<not> isRecord raw then None
      else case str (get ''server_id'' raw) of
        Some serverId \<Rightarrow>
          Some \<lparr>snap_server_id = serverId,
             snap_status = serverStatus (get ''status'' raw),
             snap_generated_at = str (get ''generated_at'' raw),
             snap_cpu = normalizeCpu (get ''cpu'' raw),
             snap_memory = normalizeMemory (get ''memory'' raw),
             snap_gpus = norm_list normalizeGpu (get ''gpus'' raw),
             snap_gpu_processes = norm_list normalizeGpuProcess (get ''gpu_processes'' raw),
             snap_processes = norm_list normalizeProcess (get ''processes'' raw),
             snap_storage = norm_list normalizeStorageMount (get ''storage'' raw),
             snap_network = norm_list normalizeNetworkInterface (get ''network'' raw),
             snap_system = normalizeSystem (get ''system'' raw),
             snap_errors = recordOf (get ''errors'' raw),
             snap_stale = bool_guard (get ''stale'' raw) False\<rparr>
      | None \<Rightarrow> None)"

definition wireServerSnapshot :: "server_snapshot \<Rightarrow> json" where
  "wireServerSnapshot x = JObj
     [(''server_id'', JStr (snap_server_id x)),
      (''status'', JStr (name_in SERVER_STATUSES (snap_status x))),
      (''generated_at'', wire_opt JStr (snap_generated_at x)),
      (''cpu'', wire_opt wireCpu (snap_cpu x)),
      (''memory'', wire_opt wireMemory (snap_memory x)),
      (''gpus'', JArr (map wireGpu (snap_gpus x))),
      (''gpu_processes'', JArr (map wireGpuProcess (snap_gpu_processes x))),
      (''processes'', JArr (map wireProcess (snap_processes x))),
      (''storage'', JArr (map wireStorageMount (snap_storage x))),
      (''network'', JArr (map wireNetworkInterface (snap_network x))),
      (''system'', wire_opt wireSystem (snap_system x)),
      (''errors'', wire_record (snap_errors x)),
      (''stale'', JBool (snap_stale x))]"

definition wfServerSnapshot :: "server_snapshot \<Rightarrow> bool" where
  "wfServerSnapshot x \<longleftrightarrow>
     opt_ok wfCpu (snap_cpu x) \<and>
     opt_ok wfMemory (snap_memory x) \<and>
     list_all wfGpu (snap_gpus x) \<and>
     list_all wfGpuProcess (snap_gpu_processes x) \<and>
     list_all wfProcess (snap_processes x) \<and>
     list_all wfStorageMount (snap_storage x) \<and>
     list_all wfNetworkInterface (snap_network x) \<and>
     opt_ok wfSystem (snap_system x) \<and>
     record_ok (snap_errors x)"

interpretation wire_server_snapshot: identified_model normalizeServerSnapshot wireServerSnapshot wfServerSnapshot "''server_id''" snap_server_id
proof (unfold_locales, goal_cases)
  case (1 raw)
  then show ?case by (simp add: normalizeServerSnapshot_def)
next
  case (2 raw x)
  then show ?case
    by (auto simp: normalizeServerSnapshot_def wfServerSnapshot_def wire_facts wire_cpu_info.norm_list_wf wire_cpu_info.opt_ok_norm wire_memory_info.norm_list_wf wire_memory_info.opt_ok_norm wire_gpu_info.norm_list_wf wire_gpu_info.opt_ok_norm wire_gpu_process_info.norm_list_wf wire_gpu_process_info.opt_ok_norm wire_process_info.norm_list_wf wire_process_info.opt_ok_norm wire_storage_mount.norm_list_wf wire_storage_mount.opt_ok_norm wire_network_interface_info.norm_list_wf wire_network_interface_info.opt_ok_norm wire_system_info.norm_list_wf wire_system_info.opt_ok_norm dest: int_guard_Some num_Some split: if_splits option.splits)
next
  case (3 x)
  then show ?case
    by (cases x) (simp add: normalizeServerSnapshot_def wfServerSnapshot_def wireServerSnapshot_def wire_facts wire_cpu_info.norm_list_wire wire_cpu_info.norm_wire_opt wire_memory_info.norm_list_wire wire_memory_info.norm_wire_opt wire_gpu_info.norm_list_wire wire_gpu_info.norm_wire_opt wire_gpu_process_info.norm_list_wire wire_gpu_process_info.norm_wire_opt wire_process_info.norm_list_wire wire_process_info.norm_wire_opt wire_storage_mount.norm_list_wire wire_storage_mount.norm_wire_opt wire_network_interface_info.norm_list_wire wire_network_interface_info.norm_wire_opt wire_system_info.norm_list_wire wire_system_info.norm_wire_opt)
next
  case (4 raw x)
  then show ?case
    by (auto simp: normalizeServerSnapshot_def split: if_splits option.splits)
qed

definition normalizeFleetGpu :: "unknown \<Rightarrow> fleet_gpu option" where
  "normalizeFleetGpu raw =
     (if \<not> isRecord raw then None
      else case int_guard (get ''index'' raw) of
        Some index' \<Rightarrow>
          Some \<lparr>fgp_index = index',
             fgp_utilization_percent = num (get ''utilization_percent'' raw),
             fgp_vram_used_b = int_guard (get ''vram_used_b'' raw),
             fgp_vram_total_b = int_guard (get ''vram_total_b'' raw),
             fgp_temperature_c = num (get ''temperature_c'' raw),
             fgp_power_watts = num (get ''power_watts'' raw),
             fgp_power_limit_watts = num (get ''power_limit_watts'' raw),
             fgp_users = nonEmptyStrs (get ''users'' raw),
             fgp_availability = gpuAvailability (get ''availability'' raw)\<rparr>
      | None \<Rightarrow> None)"

definition wireFleetGpu :: "fleet_gpu \<Rightarrow> json" where
  "wireFleetGpu x = JObj
     [(''index'', JNum (fgp_index x)),
      (''utilization_percent'', wire_opt JNum (fgp_utilization_percent x)),
      (''vram_used_b'', wire_opt JNum (fgp_vram_used_b x)),
      (''vram_total_b'', wire_opt JNum (fgp_vram_total_b x)),
      (''temperature_c'', wire_opt JNum (fgp_temperature_c x)),
      (''power_watts'', wire_opt JNum (fgp_power_watts x)),
      (''power_limit_watts'', wire_opt JNum (fgp_power_limit_watts x)),
      (''users'', wire_strs (fgp_users x)),
      (''availability'', JStr (name_in GPU_AVAILABILITIES (fgp_availability x)))]"

definition wfFleetGpu :: "fleet_gpu \<Rightarrow> bool" where
  "wfFleetGpu x \<longleftrightarrow>
     is_integer (fgp_index x) \<and>
     opt_ok is_finite (fgp_utilization_percent x) \<and>
     opt_ok is_integer (fgp_vram_used_b x) \<and>
     opt_ok is_integer (fgp_vram_total_b x) \<and>
     opt_ok is_finite (fgp_temperature_c x) \<and>
     opt_ok is_finite (fgp_power_watts x) \<and>
     opt_ok is_finite (fgp_power_limit_watts x) \<and>
     list_all (\<lambda>u. u \<noteq> []) (fgp_users x)"

interpretation wire_fleet_gpu: wire_model normalizeFleetGpu wireFleetGpu wfFleetGpu
proof (unfold_locales, goal_cases)
  case (1 raw)
  then show ?case by (simp add: normalizeFleetGpu_def)
next
  case (2 raw x)
  then show ?case
    by (auto simp: normalizeFleetGpu_def wfFleetGpu_def wire_facts  dest: int_guard_Some num_Some split: if_splits option.splits)
next
  case (3 x)
  then show ?case
    by (cases x) (simp add: normalizeFleetGpu_def wfFleetGpu_def wireFleetGpu_def wire_facts )
qed

definition normalizeFleetEntry :: "unknown \<Rightarrow> fleet_entry option" where
  "normalizeFleetEntry raw =
     (if \<not> isRecord raw then None
      else case (str (get ''server_id'' raw), str (get ''display_name'' raw)) of
        (Some serverId, Some displayName) \<Rightarrow>
          Some \<lparr>fle_server_id = serverId,
             fle_display_name = displayName,
             fle_ssh_endpoint = str (get ''ssh_endpoint'' raw),
             fle_status = serverStatus (get ''status'' raw),
             fle_enabled = bool_guard (get ''enabled'' raw) True,
             fle_os_pretty = str (get ''os_pretty'' raw),
             fle_gpu_model = str (get ''gpu_model'' raw),
             fle_gpu_count = int_or_zero (get ''gpu_count'' raw),
             fle_gpu_busy = int_or_zero (get ''gpu_busy'' raw),
             fle_gpu_free = int_or_zero (get ''gpu_free'' raw),
             fle_cpu_percent = num (get ''cpu_percent'' raw),
             fle_memory_percent = num (get ''memory_percent'' raw),
             fle_vram_used_b = int_guard (get ''vram_used_b'' raw),
             fle_vram_total_b = int_guard (get ''vram_total_b'' raw),
             fle_disk_warning = bool_guard (get ''disk_warning'' raw) False,
             fle_gpus = norm_list normalizeFleetGpu (get ''gpus'' raw),
             fle_updated_at = str (get ''updated_at'' raw)\<rparr>
      | _ \<Rightarrow> None)"

definition wireFleetEntry :: "fleet_entry \<Rightarrow> json" where
  "wireFleetEntry x = JObj
     [(''server_id'', JStr (fle_server_id x)),
      (''display_name'', JStr (fle_display_name x)),
      (''ssh_endpoint'', wire_opt JStr (fle_ssh_endpoint x)),
      (''status'', JStr (name_in SERVER_STATUSES (fle_status x))),
      (''enabled'', JBool (fle_enabled x)),
      (''os_pretty'', wire_opt JStr (fle_os_pretty x)),
      (''gpu_model'', wire_opt JStr (fle_gpu_model x)),
      (''gpu_count'', JNum (fle_gpu_count x)),
      (''gpu_busy'', JNum (fle_gpu_busy x)),
      (''gpu_free'', JNum (fle_gpu_free x)),
      (''cpu_percent'', wire_opt JNum (fle_cpu_percent x)),
      (''memory_percent'', wire_opt JNum (fle_memory_percent x)),
      (''vram_used_b'', wire_opt JNum (fle_vram_used_b x)),
      (''vram_total_b'', wire_opt JNum (fle_vram_total_b x)),
      (''disk_warning'', JBool (fle_disk_warning x)),
      (''gpus'', JArr (map wireFleetGpu (fle_gpus x))),
      (''updated_at'', wire_opt JStr (fle_updated_at x))]"

definition wfFleetEntry :: "fleet_entry \<Rightarrow> bool" where
  "wfFleetEntry x \<longleftrightarrow>
     is_integer (fle_gpu_count x) \<and>
     is_integer (fle_gpu_busy x) \<and>
     is_integer (fle_gpu_free x) \<and>
     opt_ok is_finite (fle_cpu_percent x) \<and>
     opt_ok is_finite (fle_memory_percent x) \<and>
     opt_ok is_integer (fle_vram_used_b x) \<and>
     opt_ok is_integer (fle_vram_total_b x) \<and>
     list_all wfFleetGpu (fle_gpus x)"

interpretation wire_fleet_entry: identified_model normalizeFleetEntry wireFleetEntry wfFleetEntry "''server_id''" fle_server_id
proof (unfold_locales, goal_cases)
  case (1 raw)
  then show ?case by (simp add: normalizeFleetEntry_def)
next
  case (2 raw x)
  then show ?case
    by (auto simp: normalizeFleetEntry_def wfFleetEntry_def wire_facts wire_fleet_gpu.norm_list_wf wire_fleet_gpu.opt_ok_norm dest: int_guard_Some num_Some split: if_splits option.splits)
next
  case (3 x)
  then show ?case
    by (cases x) (simp add: normalizeFleetEntry_def wfFleetEntry_def wireFleetEntry_def wire_facts wire_fleet_gpu.norm_list_wire wire_fleet_gpu.norm_wire_opt)
next
  case (4 raw x)
  then show ?case
    by (auto simp: normalizeFleetEntry_def split: if_splits option.splits)
qed

definition normalizeFleetSummary :: "unknown \<Rightarrow> fleet_summary option" where
  "normalizeFleetSummary raw =
     (if \<not> isRecord raw then None
      else case str (get ''generated_at'' raw) of
        Some generatedAt \<Rightarrow>
          Some \<lparr>fls_generated_at = generatedAt,
             fls_servers = norm_list normalizeFleetEntry (get ''servers'' raw)\<rparr>
      | None \<Rightarrow> None)"

definition wireFleetSummary :: "fleet_summary \<Rightarrow> json" where
  "wireFleetSummary x = JObj
     [(''generated_at'', JStr (fls_generated_at x)),
      (''servers'', JArr (map wireFleetEntry (fls_servers x)))]"

definition wfFleetSummary :: "fleet_summary \<Rightarrow> bool" where
  "wfFleetSummary x \<longleftrightarrow>
     list_all wfFleetEntry (fls_servers x)"

interpretation wire_fleet_summary: wire_model normalizeFleetSummary wireFleetSummary wfFleetSummary
proof (unfold_locales, goal_cases)
  case (1 raw)
  then show ?case by (simp add: normalizeFleetSummary_def)
next
  case (2 raw x)
  then show ?case
    by (auto simp: normalizeFleetSummary_def wfFleetSummary_def wire_facts wire_fleet_entry.norm_list_wf wire_fleet_entry.opt_ok_norm dest: int_guard_Some num_Some split: if_splits option.splits)
next
  case (3 x)
  then show ?case
    by (cases x) (simp add: normalizeFleetSummary_def wfFleetSummary_def wireFleetSummary_def wire_facts wire_fleet_entry.norm_list_wire wire_fleet_entry.norm_wire_opt)
qed

definition normalizeHistoryPoint :: "unknown \<Rightarrow> history_point option" where
  "normalizeHistoryPoint raw =
     (if \<not> isRecord raw then None
      else case (str (get ''t'' raw), num (get ''v'' raw)) of
        (Some t, Some v) \<Rightarrow>
          Some \<lparr>hpt_t = t,
             hpt_v = v\<rparr>
      | _ \<Rightarrow> None)"

definition wireHistoryPoint :: "history_point \<Rightarrow> json" where
  "wireHistoryPoint x = JObj
     [(''t'', JStr (hpt_t x)),
      (''v'', JNum (hpt_v x))]"

definition wfHistoryPoint :: "history_point \<Rightarrow> bool" where
  "wfHistoryPoint x \<longleftrightarrow>
     is_finite (hpt_v x)"

interpretation wire_history_point: wire_model normalizeHistoryPoint wireHistoryPoint wfHistoryPoint
proof (unfold_locales, goal_cases)
  case (1 raw)
  then show ?case by (simp add: normalizeHistoryPoint_def)
next
  case (2 raw x)
  then show ?case
    by (auto simp: normalizeHistoryPoint_def wfHistoryPoint_def wire_facts  dest: int_guard_Some num_Some split: if_splits option.splits)
next
  case (3 x)
  then show ?case
    by (cases x) (simp add: normalizeHistoryPoint_def wfHistoryPoint_def wireHistoryPoint_def wire_facts )
qed

definition normalizeHistoryPoints :: "unknown \<Rightarrow> history_point list" where
  "normalizeHistoryPoints raw = norm_list normalizeHistoryPoint raw"

subsection \<open>WebSocket frames\<close>

definition normalizeFrame :: "unknown \<Rightarrow> server_frame option" where
  "normalizeFrame raw =
     (if \<not> isRecord raw then None
      else case str (get ''type'' raw) of
        None \<Rightarrow> None
      | Some ty \<Rightarrow>
          if ty = ''hello'' then Some (FHello (strList (get ''server_ids'' raw)))
          else if ty = ''fleet'' then
            (case normalizeFleetSummary (get ''summary'' raw) of
               None \<Rightarrow> None | Some summary \<Rightarrow> Some (FFleet summary))
          else if ty = ''server'' then
            (case (str (get ''server_id'' raw), normalizeServerSnapshot (get ''snapshot'' raw)) of
               (Some serverId, Some snapshot) \<Rightarrow> Some (FServer serverId snapshot)
             | _ \<Rightarrow> None)
          else if ty = ''status'' then
            (case str (get ''server_id'' raw) of
               None \<Rightarrow> None
             | Some serverId \<Rightarrow> Some (FStatus serverId (serverStatus (get ''status'' raw))))
          else None)"

fun wireFrame :: "server_frame \<Rightarrow> json" where
  "wireFrame (FHello ids) = JObj [(''type'', JStr ''hello''), (''server_ids'', wire_strs ids)]"
| "wireFrame (FFleet summary) =
     JObj [(''type'', JStr ''fleet''), (''summary'', wireFleetSummary summary)]"
| "wireFrame (FServer serverId snapshot) =
     JObj [(''type'', JStr ''server''), (''server_id'', JStr serverId),
           (''snapshot'', wireServerSnapshot snapshot)]"
| "wireFrame (FStatus serverId status) =
     JObj [(''type'', JStr ''status''), (''server_id'', JStr serverId),
           (''status'', JStr (name_in SERVER_STATUSES status))]"

fun wfFrame :: "server_frame \<Rightarrow> bool" where
  "wfFrame (FFleet summary) = wfFleetSummary summary"
| "wfFrame (FServer _ snapshot) = wfServerSnapshot snapshot"
| "wfFrame _ = True"

interpretation wire_frame: wire_model normalizeFrame wireFrame wfFrame
proof (unfold_locales, goal_cases)
  case (1 raw)
  then show ?case by (simp add: normalizeFrame_def)
next
  case (2 raw x)
  then show ?case
    by (auto simp: normalizeFrame_def wire_fleet_summary.norm_wf wire_server_snapshot.norm_wf
        split: if_splits option.splits)
next
  case (3 x)
  then show ?case
    by (cases x) (simp_all add: normalizeFrame_def serverStatus_def
        wire_fleet_summary.norm_wire wire_server_snapshot.norm_wire)
qed

end
