(* ===== verification/Uri.thy ===== *)
theory Uri
  imports Prelude
begin

text \<open>
  \<open>encodeURIComponent\<close> and \<open>decodeURIComponent\<close> of ECMAScript, on UTF-8 strings: the
  first escapes every byte that is not an unreserved ASCII character, the second reads the
  escapes back and throws a URIError (here \<open>None\<close>) on a malformed escape or on bytes that
  are not UTF-8. \<open>valid_utf8\<close> is the well-formedness of the strings of the model.
\<close>

subsection \<open>UTF-8\<close>

definition seq_len :: "char \<Rightarrow> nat" where
  "seq_len c =
     (let b = byte c in
      if b < 128 then 1
      else if 194 \<le> b \<and> b \<le> 223 then 2
      else if 224 \<le> b \<and> b \<le> 239 then 3
      else if 240 \<le> b \<and> b \<le> 244 then 4
      else 0)"

definition cont :: "char \<Rightarrow> bool" where
  "cont c \<longleftrightarrow> 128 \<le> byte c \<and> byte c \<le> 191"

text \<open>The second byte excludes overlong forms, surrogates and values above U+10FFFF.\<close>

definition second_ok :: "char \<Rightarrow> char \<Rightarrow> bool" where
  "second_ok a c \<longleftrightarrow> cont c \<and>
     (byte a = 224 \<longrightarrow> 160 \<le> byte c) \<and> (byte a = 237 \<longrightarrow> byte c \<le> 159) \<and>
     (byte a = 240 \<longrightarrow> 144 \<le> byte c) \<and> (byte a = 244 \<longrightarrow> byte c \<le> 143)"

text \<open>One encoded character.\<close>

fun seq_ok :: "string \<Rightarrow> bool" where
  "seq_ok [a] = (seq_len a = 1)"
| "seq_ok [a, b] = (seq_len a = 2 \<and> second_ok a b)"
| "seq_ok [a, b, c] = (seq_len a = 3 \<and> second_ok a b \<and> cont c)"
| "seq_ok [a, b, c, d] = (seq_len a = 4 \<and> second_ok a b \<and> cont c \<and> cont d)"
| "seq_ok _ = False"

function valid_utf8 :: "string \<Rightarrow> bool" where
  "valid_utf8 [] = True"
| "valid_utf8 (a # s) =
     (let n = seq_len a in
      if 0 < n \<and> n \<le> length (a # s) \<and> seq_ok (take n (a # s))
      then valid_utf8 (drop n (a # s)) else False)"
  by pat_completeness auto
termination
  by (relation "measure length") auto

declare valid_utf8.simps(2) [simp del]

lemma seq_ok_cases:
  assumes "seq_ok cs"
  obtains a where "cs = [a]" "byte a < 128"
  | "2 \<le> length cs" "list_all (\<lambda>c. 128 \<le> byte c) cs"
  using assms
  by (cases cs rule: seq_ok.cases)
    (auto simp: seq_len_def second_ok_def cont_def Let_def split: if_splits)

lemma seq_ok_nonempty: "seq_ok cs \<Longrightarrow> cs \<noteq> []"
  by (cases cs rule: seq_ok.cases) auto

lemma seq_ok_len: "seq_ok (a # t) \<Longrightarrow> seq_len a = Suc (length t)"
  by (cases "a # t" rule: seq_ok.cases) auto

lemma valid_utf8_append: "seq_ok cs \<Longrightarrow> valid_utf8 (cs @ s) = valid_utf8 s"
proof -
  assume ok: "seq_ok cs"
  then obtain a t where cs: "cs = a # t" and n: "seq_len a = Suc (length t)"
    using ok seq_ok_nonempty seq_ok_len by (cases cs) auto
  show "valid_utf8 (cs @ s) = valid_utf8 s"
    using ok by (simp add: cs n valid_utf8.simps(2))
qed

lemma valid_utf8_decomp:
  assumes "valid_utf8 s" and "s \<noteq> []"
  obtains cs t where "s = cs @ t" "seq_ok cs" "valid_utf8 t"
proof -
  obtain a r where s: "s = a # r" using assms(2) by (cases s) auto
  let ?n = "seq_len a"
  have "s = take ?n s @ drop ?n s" by simp
  moreover have "seq_ok (take ?n s)" and "valid_utf8 (drop ?n s)"
    using assms(1) by (simp_all add: s Let_def valid_utf8.simps(2) split: if_splits)
  ultimately show ?thesis using that by blast
qed

lemma valid_utf8_induct [consumes 1, case_names Nil Seq]:
  assumes "valid_utf8 s" and "P []"
    and "\<And>cs t. seq_ok cs \<Longrightarrow> valid_utf8 t \<Longrightarrow> P t \<Longrightarrow> P (cs @ t)"
  shows "P s"
  using assms(1)
proof (induction "length s" arbitrary: s rule: less_induct)
  case less
  show ?case
  proof (cases "s = []")
    case True
    then show ?thesis using assms(2) by simp
  next
    case False
    then obtain cs t where st: "s = cs @ t" "seq_ok cs" "valid_utf8 t"
      using less.prems valid_utf8_decomp by blast
    then have "length t < length s" using seq_ok_nonempty [of cs] by simp
    then show ?thesis using less.hyps assms(3) st by blast
  qed
qed

lemma valid_utf8_concat: "valid_utf8 s \<Longrightarrow> valid_utf8 (s @ t) = valid_utf8 t"
  by (induction s rule: valid_utf8_induct) (simp_all add: valid_utf8_append)

lemma valid_utf8_Cons_ascii [simp]: "byte c < 128 \<Longrightarrow> valid_utf8 (c # s) = valid_utf8 s"
  using valid_utf8_append [of "[c]" s] by (simp add: seq_len_def)

lemma valid_utf8_ascii: "is_ascii s \<Longrightarrow> valid_utf8 s"
  by (induction s) (auto simp: is_ascii_def)

text \<open>A suffix that starts after an ASCII character of a valid string is valid.\<close>

lemma valid_utf8_prefix:
  "valid_utf8 (s @ d # t) \<Longrightarrow> byte d < 128 \<Longrightarrow> valid_utf8 s \<and> valid_utf8 t"
proof (induction "length s" arbitrary: s rule: less_induct)
  case less
  show ?case
  proof (cases "s = []")
    case True
    then show ?thesis using less.prems by simp
  next
    case False
    obtain cs r where cr: "s @ d # t = cs @ r" and ok: "seq_ok cs" and vr: "valid_utf8 r"
      using valid_utf8_decomp less.prems(1) by blast
    have "length cs \<le> length s"
    proof (rule ccontr)
      assume "\<not> length cs \<le> length s"
      then have "cs ! length s = d" and len: "length s < length cs"
        using arg_cong [OF cr, of "\<lambda>xs. xs ! length s"] by (simp_all add: nth_append)
      from ok show False
      proof (cases rule: seq_ok_cases)
        case (1 a)
        then show ?thesis using len False by simp
      next
        case 2
        then have "128 \<le> byte d"
          using \<open>cs ! length s = d\<close> len by (metis list_all_length)
        then show ?thesis using less.prems(2) by simp
      qed
    qed
    then obtain s' where s': "s = cs @ s'" and r: "r = s' @ d # t"
      using cr by (auto simp: append_eq_append_conv2)
    have "length s' < length s" using s' seq_ok_nonempty [OF ok] by simp
    then have "valid_utf8 s' \<and> valid_utf8 t"
      using less.hyps less.prems(2) vr r by blast
    then show ?thesis using s' ok by (simp add: valid_utf8_append)
  qed
qed

lemma valid_utf8_split_on:
  "valid_utf8 s \<Longrightarrow> byte d < 128 \<Longrightarrow> x \<in> set (split_on d s) \<Longrightarrow> valid_utf8 x"
proof (induction "length s" arbitrary: s rule: less_induct)
  case less
  show ?case
  proof (cases "d \<in> set s")
    case False
    then show ?thesis using less.prems by (simp add: split_on_no_sep)
  next
    case True
    then obtain a b where s: "s = a @ d # b" and a: "d \<notin> set a"
      by (meson split_list_first)
    have ab: "valid_utf8 a" "valid_utf8 b"
      using less.prems(1,2) valid_utf8_prefix unfolding s by blast+
    have "x = a \<or> x \<in> set (split_on d b)"
      using less.prems(3) split_on_append [OF a] by (simp add: s)
    then show ?thesis using ab less.hyps [of b] less.prems(2) s by auto
  qed
qed

subsection \<open>Percent encoding\<close>

definition hex_digit :: "nat \<Rightarrow> char" where
  "hex_digit n = (if n < 10 then char_of (48 + n) else char_of (55 + n))"

definition hex_value :: "char \<Rightarrow> nat option" where
  "hex_value c =
     (let b = byte c in
      if 48 \<le> b \<and> b \<le> 57 then Some (b - 48)
      else if 65 \<le> b \<and> b \<le> 70 then Some (b - 55)
      else if 97 \<le> b \<and> b \<le> 102 then Some (b - 87)
      else None)"

definition unreserved :: "char \<Rightarrow> bool" where
  "unreserved c \<longleftrightarrow>
     (let b = byte c in
      48 \<le> b \<and> b \<le> 57 \<or> 65 \<le> b \<and> b \<le> 90 \<or> 97 \<le> b \<and> b \<le> 122 \<or>
      c \<in> set ''-_.!~*()'' \<or> b = 39)"

definition escape :: "char \<Rightarrow> string" where
  "escape c = [CHR ''%'', hex_digit (byte c div 16), hex_digit (byte c mod 16)]"

definition encodeURIComponent :: "string \<Rightarrow> string" where
  "encodeURIComponent s = concat (map (\<lambda>c. if unreserved c then [c] else escape c) s)"

text \<open>\<open>unescape n s\<close> reads \<open>n\<close> consecutive escapes at the start of \<open>s\<close>.\<close>

fun unescape :: "nat \<Rightarrow> string \<Rightarrow> (string \<times> string) option" where
  "unescape 0 s = Some ([], s)"
| "unescape (Suc n) (p # h # l # s) =
     (if p = CHR ''%''
      then (case (hex_value h, hex_value l) of
              (Some x, Some y) \<Rightarrow>
                map_option (\<lambda>(cs, rest). (char_of (16 * x + y) # cs, rest)) (unescape n s)
            | _ \<Rightarrow> None)
      else None)"
| "unescape (Suc n) _ = None"

lemma unescape_length: "unescape n s = Some (cs, rest) \<Longrightarrow> length s = 3 * n + length rest"
  by (induction n s arbitrary: cs rule: unescape.induct) (auto split: if_splits option.splits)

function decodeURIComponent :: "string \<Rightarrow> string option" where
  "decodeURIComponent [] = Some []"
| "decodeURIComponent (c # s) =
     (if c \<noteq> CHR ''%'' then map_option ((#) c) (decodeURIComponent s)
      else case unescape 1 (c # s) of
        None \<Rightarrow> None
      | Some (lead, _) \<Rightarrow>
          (if seq_len (hd lead) = 0 then None
           else case unescape (seq_len (hd lead)) (c # s) of
             None \<Rightarrow> None
           | Some (cs, rest) \<Rightarrow>
               (if seq_ok cs then map_option ((@) cs) (decodeURIComponent rest) else None)))"
  by pat_completeness auto
termination
proof (relation "measure length", goal_cases)
  case (3 c s p lead r q cs rest)
  then have "length (c # s) = 3 * seq_len (hd lead) + length rest"
    using unescape_length [of "seq_len (hd lead)" "c # s"] by auto
  then show ?case using 3 by simp
qed auto

declare decodeURIComponent.simps(2) [simp del]

lemma byte_hex_digit: "n < 16 \<Longrightarrow> hex_value (hex_digit n) = Some n"
  by (auto simp: hex_value_def hex_digit_def byte_def Let_def)

lemma char_of_byte [simp]: "char_of (byte c) = c"
  by (simp add: byte_def)

lemma unescape_escape: "unescape (length cs) (concat (map escape cs) @ s) = Some (cs, s)"
proof (induction cs)
  case (Cons c cs)
  have "byte c div 16 < 16" using byte_bound [of c] by linarith
  then show ?case using Cons
    by (simp add: escape_def byte_hex_digit)
qed simp

lemma unreserved_not_pct: "unreserved c \<Longrightarrow> c \<noteq> CHR ''%''"
  by (auto simp: unreserved_def byte_def Let_def)

lemma unreserved_ascii: "unreserved c \<Longrightarrow> byte c < 128"
  by (auto simp: unreserved_def byte_def Let_def)

lemma encode_append: "encodeURIComponent (s @ t) = encodeURIComponent s @ encodeURIComponent t"
  by (simp add: encodeURIComponent_def)

lemma encode_non_ascii:
  "list_all (\<lambda>c. 128 \<le> byte c) cs \<Longrightarrow> encodeURIComponent cs = concat (map escape cs)"
  by (induction cs) (auto simp: encodeURIComponent_def dest: unreserved_ascii)

lemma decode_pct:
  assumes lead: "unescape 1 s = Some ([a], r)" and n: "seq_len a \<noteq> 0"
    and all: "unescape (seq_len a) s = Some (cs, rest)" and ok: "seq_ok cs"
  shows "decodeURIComponent s = map_option ((@) cs) (decodeURIComponent rest)"
proof -
  obtain t where s: "s = CHR ''%'' # t"
    using lead by (cases "(1::nat, s)" rule: unescape.cases) (auto split: if_splits)
  show ?thesis
    using lead all n ok unfolding s by (simp add: decodeURIComponent.simps(2))
qed

lemma decode_escaped:
  assumes "seq_ok cs"
  shows "decodeURIComponent (concat (map escape cs) @ s) =
    map_option ((@) cs) (decodeURIComponent s)"
proof -
  obtain a t where cs: "cs = a # t" and n: "seq_len a = length cs"
    using assms seq_ok_nonempty seq_ok_len by (cases cs) auto
  let ?e = "concat (map escape cs) @ s"
  have "unescape 1 ?e = Some ([a], concat (map escape t) @ s)"
    using unescape_escape [of "[a]" "concat (map escape t) @ s"] by (simp add: cs)
  moreover have "unescape (seq_len a) ?e = Some (cs, s)"
    unfolding n by (rule unescape_escape)
  ultimately show ?thesis using assms n cs by (intro decode_pct) auto
qed

theorem decode_encode: "valid_utf8 s \<Longrightarrow> decodeURIComponent (encodeURIComponent s) = Some s"
proof (induction s rule: valid_utf8_induct)
  case Nil
  then show ?case by (simp add: encodeURIComponent_def)
next
  case (Seq cs t)
  have esc: "decodeURIComponent (concat (map escape cs) @ encodeURIComponent t) = Some (cs @ t)"
    using Seq by (simp add: decode_escaped)
  from Seq.hyps(1) show ?case
  proof (cases rule: seq_ok_cases)
    case (1 a)
    show ?thesis
    proof (cases "unreserved a")
      case True
      then show ?thesis
        using 1 Seq.IH unreserved_not_pct [of a]
          by (auto simp: encodeURIComponent_def decodeURIComponent.simps(2))
    next
      case False
      then show ?thesis using esc 1 by (simp add: encodeURIComponent_def)
    qed
  next
    case 2
    then show ?thesis using esc by (simp add: encode_append encode_non_ascii)
  qed
qed

lemma escape_ascii: "list_all (\<lambda>c. byte c < 128 \<and> c \<noteq> CHR ''/'' \<and> c \<noteq> CHR ''#'') (escape c)"
proof -
  have "n < 16 \<Longrightarrow> byte (hex_digit n) < 128 \<and> hex_digit n \<noteq> CHR ''/'' \<and> hex_digit n \<noteq> CHR ''#''" for n
    using byte_hex_digit [of n] by (auto simp: hex_digit_def byte_def hex_value_def)
  moreover have "byte c div 16 < 16" using byte_bound [of c] by linarith
  ultimately show ?thesis by (simp add: escape_def byte_def)
qed

lemma unreserved_not_delim: "unreserved c \<Longrightarrow> c \<noteq> CHR ''/'' \<and> c \<noteq> CHR ''#''"
  by (auto simp: unreserved_def byte_def Let_def)

lemma encode_chars:
  assumes "c \<in> set (encodeURIComponent s)"
  shows "byte c < 128 \<and> c \<noteq> CHR ''/'' \<and> c \<noteq> CHR ''#''"
proof -
  obtain x where "c \<in> set (if unreserved x then [x] else escape x)"
    using assms unfolding encodeURIComponent_def set_concat set_map by blast
  then show ?thesis
    using escape_ascii [of x] unreserved_ascii [of x] unreserved_not_delim [of x]
    by (auto simp: list_all_iff split: if_splits)
qed

lemma encode_eq_Nil [simp]: "encodeURIComponent s = [] \<longleftrightarrow> s = []"
  by (cases s) (auto simp: encodeURIComponent_def escape_def)

lemma decode_Nil_iff: "decodeURIComponent s = Some [] \<longleftrightarrow> s = []"
  by (cases s)
    (auto simp: decodeURIComponent.simps(2) dest!: seq_ok_nonempty split: if_splits option.splits)

lemma is_ascii_append [simp]: "is_ascii (s @ t) \<longleftrightarrow> is_ascii s \<and> is_ascii t"
  by (simp add: is_ascii_def)

lemma hex_value_ascii: "hex_value c = Some x \<Longrightarrow> byte c < 128"
  by (auto simp: hex_value_def Let_def split: if_splits)

lemma unescape_prefix: "unescape n s = Some (cs, rest) \<Longrightarrow> \<exists>p. s = p @ rest \<and> is_ascii p"
proof (induction n s arbitrary: cs rule: unescape.induct)
  case (2 n p h l s)
  then obtain x y cs' where p: "p = CHR ''%''" and h: "hex_value h = Some x"
      and l: "hex_value l = Some y" and s: "unescape n s = Some (cs', rest)"
    by (auto split: if_splits option.splits)
  obtain q where "s = q @ rest" "is_ascii q" using 2 p h l s by blast
  moreover have "byte p < 128" "byte h < 128" "byte l < 128"
    using p hex_value_ascii [OF h] hex_value_ascii [OF l] by (auto simp: byte_def)
  ultimately have "p # h # l # s = (p # h # l # q) @ rest \<and> is_ascii (p # h # l # q)"
    by (simp add: is_ascii_def)
  then show ?case by blast
qed (auto simp: is_ascii_def)

text \<open>What the decoder returns is well formed when its input is.\<close>

lemma decode_literal:
  "CHR ''%'' \<notin> set cs \<Longrightarrow> decodeURIComponent (cs @ s) = map_option ((@) cs) (decodeURIComponent s)"
  by (induction cs; cases "decodeURIComponent s") (auto simp: decodeURIComponent.simps(2))

lemma valid_decode: "decodeURIComponent s = Some t \<Longrightarrow> valid_utf8 s \<Longrightarrow> valid_utf8 t"
proof (induction "length s" arbitrary: s t rule: less_induct)
  case less
  show ?case
  proof (cases "s = []")
    case True
    then show ?thesis using less.prems by simp
  next
    case False
    then obtain cs r where s: "s = cs @ r" and ok: "seq_ok cs" and r: "valid_utf8 r"
      using valid_utf8_decomp less.prems(2) by blast
    have IH: "decodeURIComponent u = Some v \<Longrightarrow> valid_utf8 u \<Longrightarrow> length u < length s \<Longrightarrow> valid_utf8 v"
      for u v using less.hyps by blast
    have len: "length r < length s" using s ok seq_ok_nonempty by auto
    show ?thesis
    proof (cases "CHR ''%'' \<in> set cs")
      case False
      then obtain v where "decodeURIComponent r = Some v" "t = cs @ v"
        using less.prems(1) s by (auto simp: decode_literal)
      then show ?thesis using IH r len ok by (simp add: valid_utf8_append)
    next
      case True
      have "cs = [CHR ''%'']"
        using ok by (cases rule: seq_ok_cases) (use True in \<open>auto simp: list_all_iff byte_def\<close>)
      then obtain ds rest v n where ds: "unescape n s = Some (ds, rest)" "seq_ok ds"
          "decodeURIComponent rest = Some v" "t = ds @ v" "n \<noteq> 0"
        using less.prems(1) s
        by (auto simp: decodeURIComponent.simps(2) split: if_splits option.splits)
      obtain p where "s = p @ rest" "is_ascii p" using unescape_prefix ds(1) by blast
      then have "valid_utf8 rest"
        using less.prems(2) valid_utf8_ascii valid_utf8_concat by blast
      moreover have "length rest < length s" using unescape_length [OF ds(1)] ds(5) by simp
      ultimately show ?thesis using IH ds by (simp add: valid_utf8_append)
    qed
  qed
qed

end
