(* ===== verification/Api.thy ===== *)
theory Api
  imports Normalize Http Uri
begin

text \<open>
  \<open>services/api.ts\<close>: the typed client of the control plane. Every operation is a function of
  the network: it sends one request and reads the response with the normalizers of theory
  Normalize. Ids go into the path through \<open>encodeURIComponent\<close>.
\<close>

subsection \<open>Requests\<close>

definition http :: "string \<Rightarrow> http_method \<Rightarrow> json option \<Rightarrow> http_request" where
  "http path method body = \<lparr>rq_path = API_BASE @ path, rq_method = method, rq_body = body\<rparr>"

definition empty_body :: "json option" where
  "empty_body = Some (JObj [])"

text \<open>A field of a body that \<open>JSON.stringify\<close> omits when it is undefined.\<close>

definition opt_field :: "string \<Rightarrow> ('a \<Rightarrow> json) \<Rightarrow> 'a option \<Rightarrow> (string \<times> json) list" where
  "opt_field key enc x = (case x of None \<Rightarrow> [] | Some v \<Rightarrow> [(key, enc v)])"

definition server_create_body :: "server_create \<Rightarrow> json" where
  "server_create_body b = JObj
     ([(''display_name'', JStr (sc_display_name b)), (''ssh_host'', JStr (sc_ssh_host b))]
      @ opt_field ''username'' (wire_opt JStr) (sc_username b)
      @ opt_field ''port'' (wire_opt JNum) (sc_port b)
      @ opt_field ''tags'' wire_strs (sc_tags b)
      @ opt_field ''enabled'' JBool (sc_enabled b)
      @ opt_field ''sample_interval_s'' (wire_opt JNum) (sc_sample_interval_s b))"

definition server_patch_body :: "server_patch \<Rightarrow> json" where
  "server_patch_body b = JObj
     (opt_field ''display_name'' (wire_opt JStr) (sp_display_name b)
      @ opt_field ''ssh_host'' (wire_opt JStr) (sp_ssh_host b)
      @ opt_field ''username'' (wire_opt JStr) (sp_username b)
      @ opt_field ''port'' (wire_opt JNum) (sp_port b)
      @ opt_field ''tags'' (wire_opt wire_strs) (sp_tags b)
      @ opt_field ''enabled'' (wire_opt JBool) (sp_enabled b)
      @ opt_field ''sample_interval_s'' (wire_opt JNum) (sp_sample_interval_s b))"

definition server_path :: "string \<Rightarrow> string \<Rightarrow> string" where
  "server_path serverId tail = ''/servers/'' @ encodeURIComponent serverId @ tail"

subsection \<open>Registry\<close>

definition listServers :: "network \<Rightarrow> server_record list result" where
  "listServers net =
     read_list normalizeServerRecord ''servers'' (api_request net (http ''/servers'' GET None))"

definition createServer :: "network \<Rightarrow> server_create \<Rightarrow> server_record result" where
  "createServer net body =
     read_model normalizeServerRecord ''server''
       (api_request net (http ''/servers'' POST (Some (server_create_body body))))"

definition patchServer :: "network \<Rightarrow> string \<Rightarrow> server_patch \<Rightarrow> server_record result" where
  "patchServer net serverId patch =
     read_model normalizeServerRecord ''server''
       (api_request net (http (server_path serverId '''') PATCH (Some (server_patch_body patch))))"

definition deleteServer :: "network \<Rightarrow> string \<Rightarrow> unit result" where
  "deleteServer net serverId =
     read_nothing (api_request net (http (server_path serverId '''') DELETE None))"

definition listSshAliases :: "network \<Rightarrow> alias_entry list result" where
  "listSshAliases net =
     read_list normalizeAliasEntry ''aliases''
       (api_request net (http ''/servers/ssh-config/aliases'' GET None))"

definition testConnection :: "network \<Rightarrow> string \<Rightarrow> connection_test_result result" where
  "testConnection net serverId =
     read_model normalizeConnectionTestResult ''connection test result''
       (api_request net (http (server_path serverId ''/test'') POST empty_body))"

definition trustHostKey :: "network \<Rightarrow> string \<Rightarrow> host_key_prompt \<Rightarrow> unknown result" where
  "trustHostKey net serverId prompt =
     api_request net
       (http (server_path serverId ''/host-key/trust'') POST (Some (wireHostKeyPrompt prompt)))"

subsection \<open>Server authentication and direct transfer\<close>

definition getServerAuth :: "network \<Rightarrow> string \<Rightarrow> server_auth_status result" where
  "getServerAuth net serverId =
     read_model normalizeServerAuthStatus ''server auth status''
       (api_request net (http (server_path serverId ''/auth'') GET None))"

text \<open>The password response is checked field by field and passed on as it is.\<close>

definition readCredentialStatus :: "unknown \<Rightarrow> password_credential_status option" where
  "readCredentialStatus raw =
     (if \<not> isRecord raw \<or> get ''configured'' raw \<noteq> Some (JBool True) then None
      else case get ''storage'' raw of
        Some (JStr s) \<Rightarrow>
          (if s = ''system_keyring'' then Some \<lparr>pcs_configured = True, pcs_storage = P_System_keyring\<rparr>
           else if s = ''session_only'' then Some \<lparr>pcs_configured = True, pcs_storage = P_Session_only\<rparr>
           else None)
      | _ \<Rightarrow> None)"

definition setPassword :: "network \<Rightarrow> string \<Rightarrow> string \<Rightarrow> password_credential_status result" where
  "setPassword net serverId password =
     read_model readCredentialStatus ''password credential status''
       (api_request net
          (http (server_path serverId ''/credentials/password'') PUT
             (Some (JObj [(''password'', JStr password)]))))"

definition deletePassword :: "network \<Rightarrow> string \<Rightarrow> unit result" where
  "deletePassword net serverId =
     read_nothing
       (api_request net (http (server_path serverId ''/credentials/password'') DELETE None))"

definition getDirectAuth :: "network \<Rightarrow> string \<Rightarrow> direct_auth_list result" where
  "getDirectAuth net serverId =
     read_model normalizeDirectAuthList ''direct-auth list''
       (api_request net (http (server_path serverId ''/direct-auth'') GET None))"

definition checkDirectAuth :: "network \<Rightarrow> string \<Rightarrow> string \<Rightarrow> direct_auth_peer result" where
  "checkDirectAuth net sourceId targetId =
     read_model normalizeDirectAuthPeer ''direct-auth peer''
       (api_request net
          (http (server_path sourceId (''/direct-auth/'' @ encodeURIComponent targetId @ ''/check''))
             POST empty_body))"

definition setupDirectKey :: "network \<Rightarrow> string \<Rightarrow> string \<Rightarrow> direct_auth_peer result" where
  "setupDirectKey net sourceId targetId =
     read_model normalizeDirectAuthPeer ''direct-auth peer''
       (api_request net
          (http (server_path sourceId (''/direct-auth/'' @ encodeURIComponent targetId @ ''/setup-key''))
             POST empty_body))"

definition revokeDirectAuth :: "network \<Rightarrow> string \<Rightarrow> string \<Rightarrow> unit result" where
  "revokeDirectAuth net sourceId targetId =
     read_nothing
       (api_request net
          (http (server_path sourceId (''/direct-auth/'' @ encodeURIComponent targetId)) DELETE None))"

subsection \<open>Health and telemetry\<close>

record health_info =
  hlt_status :: string
  hlt_scheduler_mode :: "string option"
  hlt_realtime_clients :: "js_number option"

definition readHealth :: "unknown \<Rightarrow> health_info option" where
  "readHealth raw =
     (if \<not> isRecord raw then None
      else Some \<lparr>hlt_status = str_or ''unknown'' (get ''status'' raw),
                 hlt_scheduler_mode = str (get ''scheduler_mode'' raw),
                 hlt_realtime_clients = num (get ''realtime_clients'' raw)\<rparr>)"

definition getHealth :: "network \<Rightarrow> health_info result" where
  "getHealth net =
     read_model readHealth ''health'' (api_request net (http ''/health'' GET None))"

definition getFleet :: "network \<Rightarrow> fleet_summary result" where
  "getFleet net =
     read_model normalizeFleetSummary ''fleet summary''
       (api_request net (http ''/telemetry/fleet'' GET None))"

definition getSnapshot :: "network \<Rightarrow> string \<Rightarrow> server_snapshot result" where
  "getSnapshot net serverId =
     read_model normalizeServerSnapshot ''snapshot''
       (api_request net (http (''/telemetry/servers/'' @ encodeURIComponent serverId) GET None))"

datatype gpu_history_metric = GH_Utilization | GH_Vram | GH_Temperature | GH_Power

fun metric_name :: "gpu_history_metric \<Rightarrow> string" where
  "metric_name GH_Utilization = ''utilization''"
| "metric_name GH_Vram = ''vram''"
| "metric_name GH_Temperature = ''temperature''"
| "metric_name GH_Power = ''power''"

text \<open>\<open>URLSearchParams.toString\<close> on ASCII values.\<close>

definition form_encode :: "string \<Rightarrow> string" where
  "form_encode s =
     concat (map (\<lambda>c. if is_digit c \<or> 65 \<le> byte c \<and> byte c \<le> 90 \<or> 97 \<le> byte c \<and> byte c \<le> 122
                          \<or> c \<in> set ''*-._'' then [c]
                      else if c = CHR '' '' then ''+'' else escape c) s)"

definition getGpuHistory ::
  "js_runtime \<Rightarrow> network \<Rightarrow> string \<Rightarrow> js_number \<Rightarrow> gpu_history_metric \<Rightarrow> history_point list result" where
  "getGpuHistory rt net serverId gpu metric =
     (case api_request net
            (http (''/telemetry/servers/'' @ encodeURIComponent serverId @ ''/gpu-history?gpu=''
                   @ form_encode (rt_number_string rt gpu) @ ''&metric='' @ form_encode (metric_name metric))
               GET None) of
        Inl e \<Rightarrow> Inl e
      | Inr raw \<Rightarrow> Inr (normalizeHistoryPoints raw))"

definition pid_body :: "js_number \<Rightarrow> json option" where
  "pid_body pid = Some (JObj [(''pid'', JNum pid)])"

definition terminateProcess :: "network \<Rightarrow> string \<Rightarrow> js_number \<Rightarrow> unit result" where
  "terminateProcess net serverId pid =
     read_nothing
       (api_request net (http (server_path serverId ''/actions/terminate-process'') POST (pid_body pid)))"

definition killProcess :: "network \<Rightarrow> string \<Rightarrow> js_number \<Rightarrow> unit result" where
  "killProcess net serverId pid =
     read_nothing
       (api_request net (http (server_path serverId ''/actions/kill-process'') POST (pid_body pid)))"

subsection \<open>What the operations guarantee\<close>

lemmas api_ops = listServers_def createServer_def patchServer_def deleteServer_def
  listSshAliases_def testConnection_def trustHostKey_def getServerAuth_def setPassword_def
  deletePassword_def getDirectAuth_def checkDirectAuth_def setupDirectKey_def
  revokeDirectAuth_def getHealth_def getFleet_def getSnapshot_def getGpuHistory_def
  terminateProcess_def killProcess_def

lemma listServers_wf: "listServers net = Inr xs \<Longrightarrow> list_all wfServerRecord xs"
  unfolding listServers_def by (rule wire_server_record.read_list_wf)

lemma getSnapshot_wf: "getSnapshot net i = Inr s \<Longrightarrow> wfServerSnapshot s"
  unfolding getSnapshot_def by (rule wire_server_snapshot.read_model_wf)

lemma getFleet_wf: "getFleet net = Inr s \<Longrightarrow> wfFleetSummary s"
  unfolding getFleet_def by (rule wire_fleet_summary.read_model_wf)

text \<open>
  The interface the console store uses: what a telemetry source may return. The store's
  invariants hold for any source with these laws.
\<close>

locale telemetry_source =
  fixes list_servers :: "network \<Rightarrow> server_record list result"
    and get_fleet :: "network \<Rightarrow> fleet_summary result"
    and get_snapshot :: "network \<Rightarrow> string \<Rightarrow> server_snapshot result"
  assumes servers_wf: "list_servers net = Inr xs \<Longrightarrow> list_all wfServerRecord xs"
    and fleet_wf: "get_fleet net = Inr s \<Longrightarrow> wfFleetSummary s"
    and snapshot_wf: "get_snapshot net i = Inr snap \<Longrightarrow> wfServerSnapshot snap"
begin

lemma gpu_values_finite:
  "get_snapshot net i = Inr snap \<Longrightarrow> gpu \<in> set (snap_gpus snap) \<Longrightarrow>
   opt_ok is_finite (gpu_utilization_percent gpu) \<and> is_integer (gpu_index gpu)"
  using snapshot_wf by (auto simp: wfServerSnapshot_def wfGpu_def list_all_iff)

end

interpretation rest: telemetry_source listServers getFleet getSnapshot
  by unfold_locales (simp_all add: listServers_wf getFleet_wf getSnapshot_wf)

text \<open>An id never leaves its path segment.\<close>

lemma server_path_segments:
  "split_on (CHR ''/'') (server_path i '''') = ['''', ''servers'', encodeURIComponent i]"
proof -
  have "CHR ''/'' \<notin> set (encodeURIComponent i)" using encode_chars by blast
  then show ?thesis by (simp add: server_path_def split_on_no_sep)
qed

end
