(* ===== verification/TransfersApi.thy ===== *)
theory TransfersApi
  imports TransferTypes Api
begin

text \<open>
  \<open>services/transfersApi.ts\<close>: its own copies of the primitive guards (equal to those of
  theory Json), the normalizers of jobs, plans and batches with their interpretation of the
  wire contracts.
\<close>

subsection \<open>Guards\<close>

definition STRATEGIES :: "(string \<times> transfer_strategy) list" where
  "STRATEGIES =
     [(''auto'', TS_Auto),
      (''direct_rsync'', TS_Direct_rsync),
      (''local_relay'', TS_Local_relay)]"

interpretation strategy_names: wire_enum STRATEGIES
proof (unfold_locales, goal_cases)
  case 1
  then show ?case by (simp add: STRATEGIES_def)
next
  case (2 x)
  then show ?case by (cases x) (simp_all add: STRATEGIES_def)
qed

definition STATES :: "(string \<times> transfer_state) list" where
  "STATES =
     [(''queued'', J_Queued),
      (''planning'', J_Planning),
      (''running'', J_Running),
      (''verifying'', J_Verifying),
      (''completed'', J_Completed),
      (''failed'', J_Failed),
      (''cancelled'', J_Cancelled)]"

interpretation state_names: wire_enum STATES
proof (unfold_locales, goal_cases)
  case 1
  then show ?case by (simp add: STATES_def)
next
  case (2 x)
  then show ?case by (cases x) (simp_all add: STATES_def)
qed

definition BATCH_STATES :: "(string \<times> transfer_batch_state) list" where
  "BATCH_STATES =
     [(''queued'', B_Queued),
      (''running'', B_Running),
      (''completed'', B_Completed),
      (''partial_failed'', B_Partial_failed),
      (''failed'', B_Failed),
      (''cancelled'', B_Cancelled)]"

interpretation batch_state_names: wire_enum BATCH_STATES
proof (unfold_locales, goal_cases)
  case 1
  then show ?case by (simp add: BATCH_STATES_def)
next
  case (2 x)
  then show ?case by (cases x) (simp_all add: BATCH_STATES_def)
qed

definition transferStrategy :: "unknown \<Rightarrow> transfer_strategy \<Rightarrow> transfer_strategy" where
  "transferStrategy value fallback = enum_guard STRATEGIES fallback value"

definition transferState :: "unknown \<Rightarrow> transfer_state" where
  "transferState = enum_guard STATES J_Queued"

definition batchState :: "unknown \<Rightarrow> transfer_batch_state" where
  "batchState = enum_guard BATCH_STATES B_Queued"

definition tr_str :: "unknown \<Rightarrow> string option" where
  "tr_str value = (case value of Some (JStr s) \<Rightarrow> Some s | _ \<Rightarrow> None)"

definition tr_optionalStr :: "unknown \<Rightarrow> string option" where
  "tr_optionalStr value = (case value of Some (JStr s) \<Rightarrow> Some s | _ \<Rightarrow> None)"

definition intOrNull :: "unknown \<Rightarrow> js_number option" where
  "intOrNull value =
     (case value of Some (JNum x) \<Rightarrow> (if is_integer x then Some x else None) | _ \<Rightarrow> None)"

definition numOrNull :: "unknown \<Rightarrow> js_number option" where
  "numOrNull value =
     (case value of Some (JNum x) \<Rightarrow> (if is_finite x then Some x else None) | _ \<Rightarrow> None)"

definition finiteOrZero :: "unknown \<Rightarrow> js_number" where
  "finiteOrZero value =
     (case value of Some (JNum x) \<Rightarrow> (if is_finite x then x else Fin 0) | _ \<Rightarrow> Fin 0)"

definition tr_strList :: "unknown \<Rightarrow> string list" where
  "tr_strList value =
     (case value of Some (JArr xs) \<Rightarrow> map_non_null (\<lambda>item. tr_str (Some item)) xs | _ \<Rightarrow> [])"

fun collect_bool :: "(string \<times> json) list \<Rightarrow> (string \<times> bool) list \<Rightarrow> (string \<times> bool) list" where
  "collect_bool [] out = out"
| "collect_bool ((key, item) # rest) out =
     collect_bool rest (case item of JBool b \<Rightarrow> js_assign key b out | _ \<Rightarrow> out)"

definition boolRecord :: "unknown \<Rightarrow> (string \<times> bool) list" where
  "boolRecord value = (if \<not> isRecord value then [] else collect_bool (entries value) [])"

definition is_true :: "unknown \<Rightarrow> bool" where
  "is_true value \<longleftrightarrow> value = Some (JBool True)"

lemma tr_str_eq [simp]: "tr_str = str" and tr_optionalStr_eq [simp]: "tr_optionalStr = str"
  and intOrNull_eq [simp]: "intOrNull = int_guard" and numOrNull_eq [simp]: "numOrNull = num"
  by (rule ext, simp add: tr_str_def tr_optionalStr_def intOrNull_def numOrNull_def guard_defs)+

lemma tr_strList_eq [simp]: "tr_strList = strList"
  by (rule ext) (auto simp: tr_strList_def strList_def arrayOf_def split: option.splits json.splits)

lemma finiteOrZero_JNum [simp]: "is_finite x \<Longrightarrow> finiteOrZero (Some (JNum x)) = x"
  by (simp add: finiteOrZero_def)

lemma is_finite_finiteOrZero [simp]: "is_finite (finiteOrZero raw)"
  by (auto simp: finiteOrZero_def split: option.splits json.splits)

lemma is_true_JBool [simp]: "is_true (Some (JBool b)) = b"
  by (simp add: is_true_def)

definition wire_bools :: "(string \<times> bool) list \<Rightarrow> json" where
  "wire_bools kvs = JObj (map (\<lambda>(k, b). (k, JBool b)) kvs)"

lemma record_ok_boolRecord [simp]: "record_ok (boolRecord raw)"
proof -
  have "record_ok out \<Longrightarrow> record_ok (collect_bool kvs out)" for kvs out
    by (induction kvs out rule: collect_bool.induct) (auto simp: record_ok_assign split: json.splits)
  then show ?thesis by (simp add: boolRecord_def)
qed

lemma collect_bool_bools:
  "record_ok (out @ kvs) \<Longrightarrow> collect_bool (map (\<lambda>(k, b). (k, JBool b)) kvs) out = out @ kvs"
proof (induction kvs arbitrary: out)
  case (Cons kv kvs)
  obtain k b where kv: "kv = (k, b)" by (cases kv)
  have "js_assign k b out = out @ [(k, b)]"
    using Cons.prems kv by (auto simp: js_assign_def record_ok_def update_new_key)
  then show ?case using Cons kv by simp
qed simp

lemma boolRecord_bools [simp]: "record_ok kvs \<Longrightarrow> boolRecord (Some (wire_bools kvs)) = kvs"
  using collect_bool_bools [of "[]" kvs] by (simp add: boolRecord_def wire_bools_def entries_def)

lemmas wire_facts = transferStrategy_def transferState_def batchState_def

lemma wire_opt_not_null [simp]: "(wire_opt (\<lambda>e. JStr (f e)) x = JNull) = (x = None)"
  by (cases x) (simp_all add: wire_opt_def)

lemma strategy_opt [simp]:
  "enum_guard STRATEGIES d (Some (wire_opt (\<lambda>e. JStr (name_in STRATEGIES e)) x)) =
     (case x of None \<Rightarrow> d | Some y \<Rightarrow> y)"
  by (cases x) (simp_all add: wire_opt_def, simp add: enum_guard_def enum_opt_def str_def)

subsection \<open>Normalizers\<close>

definition normalizeTransferJob :: "unknown \<Rightarrow> transfer_job option" where
  "normalizeTransferJob raw =
     (if \<not> isRecord raw then None
      else case (tr_str (get ''job_id'' raw), tr_str (get ''artifact_id'' raw), tr_str (get ''source_server_id'' raw), tr_str (get ''source_path'' raw), tr_str (get ''target_server_id'' raw), tr_str (get ''target_path'' raw)) of
        (Some jobId, Some artifactId, Some sourceServerId, Some sourcePath, Some targetServerId, Some targetPath) \<Rightarrow>
          Some \<lparr>job_job_id = jobId,
             job_artifact_id = artifactId,
             job_artifact_label = str_or '''' (get ''artifact_label'' raw),
             job_source_server_id = sourceServerId,
             job_source_path = sourcePath,
             job_target_server_id = targetServerId,
             job_target_path = targetPath,
             job_strategy_requested = transferStrategy (get ''strategy_requested'' raw) TS_Auto,
             job_strategy_used = (if get ''strategy_used'' raw = Some JNull then None
               else Some (transferStrategy (get ''strategy_used'' raw) TS_Auto)),
             job_state = transferState (get ''state'' raw),
             job_excludes = tr_strList (get ''excludes'' raw),
             job_immutable = is_true (get ''immutable'' raw),
             job_strategy_reason = str_or '''' (get ''strategy_reason'' raw),
             job_resumed_bytes = finiteOrZero (get ''resumed_bytes'' raw),
             job_files_skipped = finiteOrZero (get ''files_skipped'' raw),
             job_bytes_skipped = finiteOrZero (get ''bytes_skipped'' raw),
             job_warnings = tr_strList (get ''warnings'' raw),
             job_bytes_total = intOrNull (get ''bytes_total'' raw),
             job_bytes_done = finiteOrZero (get ''bytes_done'' raw),
             job_files_total = intOrNull (get ''files_total'' raw),
             job_files_done = finiteOrZero (get ''files_done'' raw),
             job_rate_bps = numOrNull (get ''rate_bps'' raw),
             job_eta_s = numOrNull (get ''eta_s'' raw),
             job_current_path = tr_optionalStr (get ''current_path'' raw),
             job_created_at = str_or '''' (get ''created_at'' raw),
             job_started_at = tr_optionalStr (get ''started_at'' raw),
             job_finished_at = tr_optionalStr (get ''finished_at'' raw),
             job_error_code = tr_optionalStr (get ''error_code'' raw),
             job_error_message = str_or '''' (get ''error_message'' raw)\<rparr>
      | _ \<Rightarrow> None)"

definition wireTransferJob :: "transfer_job \<Rightarrow> json" where
  "wireTransferJob x = JObj
     [(''job_id'', JStr (job_job_id x)),
      (''artifact_id'', JStr (job_artifact_id x)),
      (''artifact_label'', JStr (job_artifact_label x)),
      (''source_server_id'', JStr (job_source_server_id x)),
      (''source_path'', JStr (job_source_path x)),
      (''target_server_id'', JStr (job_target_server_id x)),
      (''target_path'', JStr (job_target_path x)),
      (''strategy_requested'', JStr (name_in STRATEGIES (job_strategy_requested x))),
      (''strategy_used'', wire_opt (\<lambda>e. JStr (name_in STRATEGIES e)) (job_strategy_used x)),
      (''state'', JStr (name_in STATES (job_state x))),
      (''excludes'', wire_strs (job_excludes x)),
      (''immutable'', JBool (job_immutable x)),
      (''strategy_reason'', JStr (job_strategy_reason x)),
      (''resumed_bytes'', JNum (job_resumed_bytes x)),
      (''files_skipped'', JNum (job_files_skipped x)),
      (''bytes_skipped'', JNum (job_bytes_skipped x)),
      (''warnings'', wire_strs (job_warnings x)),
      (''bytes_total'', wire_opt JNum (job_bytes_total x)),
      (''bytes_done'', JNum (job_bytes_done x)),
      (''files_total'', wire_opt JNum (job_files_total x)),
      (''files_done'', JNum (job_files_done x)),
      (''rate_bps'', wire_opt JNum (job_rate_bps x)),
      (''eta_s'', wire_opt JNum (job_eta_s x)),
      (''current_path'', wire_opt JStr (job_current_path x)),
      (''created_at'', JStr (job_created_at x)),
      (''started_at'', wire_opt JStr (job_started_at x)),
      (''finished_at'', wire_opt JStr (job_finished_at x)),
      (''error_code'', wire_opt JStr (job_error_code x)),
      (''error_message'', JStr (job_error_message x))]"

definition wfTransferJob :: "transfer_job \<Rightarrow> bool" where
  "wfTransferJob x \<longleftrightarrow>
     is_finite (job_resumed_bytes x) \<and>
     is_finite (job_files_skipped x) \<and>
     is_finite (job_bytes_skipped x) \<and>
     opt_ok is_integer (job_bytes_total x) \<and>
     is_finite (job_bytes_done x) \<and>
     opt_ok is_integer (job_files_total x) \<and>
     is_finite (job_files_done x) \<and>
     opt_ok is_finite (job_rate_bps x) \<and>
     opt_ok is_finite (job_eta_s x)"

interpretation wire_transfer_job: identified_model normalizeTransferJob wireTransferJob wfTransferJob "''job_id''" job_job_id
proof (unfold_locales, goal_cases)
  case (1 raw)
  then show ?case by (simp add: normalizeTransferJob_def)
next
  case (2 raw x)
  then show ?case
    by (auto simp: normalizeTransferJob_def wfTransferJob_def wire_facts  dest: int_guard_Some num_Some split: if_splits option.splits)
next
  case (3 x)
  then show ?case
    by (cases x) (simp add: normalizeTransferJob_def wfTransferJob_def wireTransferJob_def wire_facts  split: option.split)
next
  case (4 raw x)
  then show ?case
    by (auto simp: normalizeTransferJob_def split: if_splits option.splits)
qed

definition normalizeTransferPlan :: "unknown \<Rightarrow> transfer_plan option" where
  "normalizeTransferPlan raw =
     (if \<not> isRecord raw then None
      else case (tr_str (get ''artifact_id'' raw), tr_str (get ''source_server_id'' raw), tr_str (get ''source_path'' raw), tr_str (get ''target_server_id'' raw), tr_str (get ''target_path'' raw)) of
        (Some artifactId, Some sourceServerId, Some sourcePath, Some targetServerId, Some targetPath) \<Rightarrow>
          Some \<lparr>pln_artifact_id = artifactId,
             pln_source_server_id = sourceServerId,
             pln_source_path = sourcePath,
             pln_target_server_id = targetServerId,
             pln_target_path = targetPath,
             pln_strategy_requested = transferStrategy (get ''strategy_requested'' raw) TS_Auto,
             pln_strategy_available = boolRecord (get ''strategy_available'' raw),
             pln_strategy_selected = (if get ''strategy_selected'' raw = Some JNull then None
               else Some (transferStrategy (get ''strategy_selected'' raw) TS_Auto)),
             pln_reason = str_or '''' (get ''reason'' raw),
             pln_excludes = tr_strList (get ''excludes'' raw),
             pln_source_exists = bool_opt (get ''source_exists'' raw),
             pln_source_size_b = intOrNull (get ''source_size_b'' raw),
             pln_target_free_b = intOrNull (get ''target_free_b'' raw),
             pln_space_warning = str_or '''' (get ''space_warning'' raw),
             pln_direct_auth_reason = tr_optionalStr (get ''direct_auth_reason'' raw)\<rparr>
      | _ \<Rightarrow> None)"

definition wireTransferPlan :: "transfer_plan \<Rightarrow> json" where
  "wireTransferPlan x = JObj
     [(''artifact_id'', JStr (pln_artifact_id x)),
      (''source_server_id'', JStr (pln_source_server_id x)),
      (''source_path'', JStr (pln_source_path x)),
      (''target_server_id'', JStr (pln_target_server_id x)),
      (''target_path'', JStr (pln_target_path x)),
      (''strategy_requested'', JStr (name_in STRATEGIES (pln_strategy_requested x))),
      (''strategy_available'', wire_bools (pln_strategy_available x)),
      (''strategy_selected'', wire_opt (\<lambda>e. JStr (name_in STRATEGIES e)) (pln_strategy_selected x)),
      (''reason'', JStr (pln_reason x)),
      (''excludes'', wire_strs (pln_excludes x)),
      (''source_exists'', wire_opt JBool (pln_source_exists x)),
      (''source_size_b'', wire_opt JNum (pln_source_size_b x)),
      (''target_free_b'', wire_opt JNum (pln_target_free_b x)),
      (''space_warning'', JStr (pln_space_warning x)),
      (''direct_auth_reason'', wire_opt JStr (pln_direct_auth_reason x))]"

definition wfTransferPlan :: "transfer_plan \<Rightarrow> bool" where
  "wfTransferPlan x \<longleftrightarrow>
     record_ok (pln_strategy_available x) \<and>
     opt_ok is_integer (pln_source_size_b x) \<and>
     opt_ok is_integer (pln_target_free_b x)"

interpretation wire_transfer_plan: wire_model normalizeTransferPlan wireTransferPlan wfTransferPlan
proof (unfold_locales, goal_cases)
  case (1 raw)
  then show ?case by (simp add: normalizeTransferPlan_def)
next
  case (2 raw x)
  then show ?case
    by (auto simp: normalizeTransferPlan_def wfTransferPlan_def wire_facts  dest: int_guard_Some num_Some split: if_splits option.splits)
next
  case (3 x)
  then show ?case
    by (cases x) (simp add: normalizeTransferPlan_def wfTransferPlan_def wireTransferPlan_def wire_facts  split: option.split)
qed

definition normalizeTransferBatch :: "unknown \<Rightarrow> transfer_batch option" where
  "normalizeTransferBatch raw =
     (if \<not> isRecord raw then None
      else case (tr_str (get ''batch_id'' raw), tr_str (get ''project_id'' raw), tr_str (get ''target_server_id'' raw)) of
        (Some batchId, Some projectId, Some targetServerId) \<Rightarrow>
          Some \<lparr>bat_batch_id = batchId,
             bat_project_id = projectId,
             bat_target_server_id = targetServerId,
             bat_job_ids = tr_strList (get ''job_ids'' raw),
             bat_created_at = str_or '''' (get ''created_at'' raw),
             bat_state = batchState (get ''state'' raw),
             bat_total_jobs = finiteOrZero (get ''total_jobs'' raw),
             bat_queued_jobs = finiteOrZero (get ''queued_jobs'' raw),
             bat_running_jobs = finiteOrZero (get ''running_jobs'' raw),
             bat_completed_jobs = finiteOrZero (get ''completed_jobs'' raw),
             bat_failed_jobs = finiteOrZero (get ''failed_jobs'' raw),
             bat_cancelled_jobs = finiteOrZero (get ''cancelled_jobs'' raw)\<rparr>
      | _ \<Rightarrow> None)"

definition wireTransferBatch :: "transfer_batch \<Rightarrow> json" where
  "wireTransferBatch x = JObj
     [(''batch_id'', JStr (bat_batch_id x)),
      (''project_id'', JStr (bat_project_id x)),
      (''target_server_id'', JStr (bat_target_server_id x)),
      (''job_ids'', wire_strs (bat_job_ids x)),
      (''created_at'', JStr (bat_created_at x)),
      (''state'', JStr (name_in BATCH_STATES (bat_state x))),
      (''total_jobs'', JNum (bat_total_jobs x)),
      (''queued_jobs'', JNum (bat_queued_jobs x)),
      (''running_jobs'', JNum (bat_running_jobs x)),
      (''completed_jobs'', JNum (bat_completed_jobs x)),
      (''failed_jobs'', JNum (bat_failed_jobs x)),
      (''cancelled_jobs'', JNum (bat_cancelled_jobs x))]"

definition wfTransferBatch :: "transfer_batch \<Rightarrow> bool" where
  "wfTransferBatch x \<longleftrightarrow>
     is_finite (bat_total_jobs x) \<and>
     is_finite (bat_queued_jobs x) \<and>
     is_finite (bat_running_jobs x) \<and>
     is_finite (bat_completed_jobs x) \<and>
     is_finite (bat_failed_jobs x) \<and>
     is_finite (bat_cancelled_jobs x)"

interpretation wire_transfer_batch: identified_model normalizeTransferBatch wireTransferBatch wfTransferBatch "''batch_id''" bat_batch_id
proof (unfold_locales, goal_cases)
  case (1 raw)
  then show ?case by (simp add: normalizeTransferBatch_def)
next
  case (2 raw x)
  then show ?case
    by (auto simp: normalizeTransferBatch_def wfTransferBatch_def wire_facts  dest: int_guard_Some num_Some split: if_splits option.splits)
next
  case (3 x)
  then show ?case
    by (cases x) (simp add: normalizeTransferBatch_def wfTransferBatch_def wireTransferBatch_def wire_facts )
next
  case (4 raw x)
  then show ?case
    by (auto simp: normalizeTransferBatch_def split: if_splits option.splits)
qed

subsection \<open>Client\<close>

definition transfer_request_body :: "transfer_request \<Rightarrow> json" where
  "transfer_request_body b = JObj
     [(''artifact_id'', JStr (trq_artifact_id b)),
      (''source_placement_id'', JStr (trq_source_placement_id b)),
      (''target_server_id'', JStr (trq_target_server_id b)),
      (''target_path'', JStr (trq_target_path b)),
      (''strategy'', JStr (name_in STRATEGIES (trq_strategy b))),
      (''verify_mode'', JStr ''quick'')]"

definition readJobId :: "unknown \<Rightarrow> string option" where
  "readJobId raw = (if isRecord raw then tr_str (get ''job_id'' raw) else None)"

definition readCleared :: "unknown \<Rightarrow> js_number option" where
  "readCleared raw = (if isRecord raw then intOrNull (get ''cleared'' raw) else None)"

definition job_path :: "string \<Rightarrow> string \<Rightarrow> string" where
  "job_path jobId tail = ''/transfers/'' @ encodeURIComponent jobId @ tail"

definition listJobs :: "js_runtime \<Rightarrow> network \<Rightarrow> transfer_job list result" where
  "listJobs rt net =
     read_list normalizeTransferJob ''transfers''
       (transfers_request rt net (http ''/transfers'' GET None))"

definition getJob :: "js_runtime \<Rightarrow> network \<Rightarrow> string \<Rightarrow> transfer_job result" where
  "getJob rt net jobId =
     read_model normalizeTransferJob ''transfer job''
       (transfers_request rt net (http (job_path jobId '''') GET None))"

definition planTransfer :: "js_runtime \<Rightarrow> network \<Rightarrow> transfer_request \<Rightarrow> transfer_plan result" where
  "planTransfer rt net requestBody =
     read_model normalizeTransferPlan ''transfer plan''
       (transfers_request rt net
          (http ''/transfers/plan'' POST (Some (transfer_request_body requestBody))))"

definition createJob :: "js_runtime \<Rightarrow> network \<Rightarrow> transfer_request \<Rightarrow> string result" where
  "createJob rt net requestBody =
     read_model readJobId ''transfer job id''
       (transfers_request rt net
          (http ''/transfers'' POST (Some (transfer_request_body requestBody))))"

definition cancelTransfer :: "js_runtime \<Rightarrow> network \<Rightarrow> string \<Rightarrow> unit result" where
  "cancelTransfer rt net jobId =
     read_nothing (transfers_request rt net (http (job_path jobId ''/cancel'') POST empty_body))"

definition retryTransfer :: "js_runtime \<Rightarrow> network \<Rightarrow> string \<Rightarrow> string result" where
  "retryTransfer rt net jobId =
     read_model readJobId ''transfer job id''
       (transfers_request rt net (http (job_path jobId ''/retry'') POST empty_body))"

definition clearTransferHistory :: "js_runtime \<Rightarrow> network \<Rightarrow> js_number result" where
  "clearTransferHistory rt net =
     read_model readCleared ''cleared count''
       (transfers_request rt net (http ''/transfers'' DELETE None))"

definition listBatches :: "js_runtime \<Rightarrow> network \<Rightarrow> transfer_batch list result" where
  "listBatches rt net =
     read_list normalizeTransferBatch ''transfer batches''
       (transfers_request rt net (http ''/transfer-batches'' GET None))"

definition getBatch :: "js_runtime \<Rightarrow> network \<Rightarrow> string \<Rightarrow> transfer_batch result" where
  "getBatch rt net batchId =
     read_model normalizeTransferBatch ''transfer batch''
       (transfers_request rt net
          (http (''/transfer-batches/'' @ encodeURIComponent batchId) GET None))"

lemma listJobs_wf: "listJobs rt net = Inr xs \<Longrightarrow> list_all wfTransferJob xs"
  unfolding listJobs_def by (rule wire_transfer_job.read_list_wf)

lemma listBatches_wf: "listBatches rt net = Inr xs \<Longrightarrow> list_all wfTransferBatch xs"
  unfolding listBatches_def by (rule wire_transfer_batch.read_list_wf)

lemma planTransfer_wf: "planTransfer rt net b = Inr x \<Longrightarrow> wfTransferPlan x"
  unfolding planTransfer_def by (rule wire_transfer_plan.read_model_wf)

end
