(* ===== verification/WorkspaceApi.thy ===== *)
theory WorkspaceApi
  imports WorkspaceTypes TransfersApi
begin

text \<open>
  \<open>services/workspaceApi.ts\<close>: the guards and normalizers of the workspace catalog, with
  their interpretation of the wire contracts, and the typed client. A payload whose action is
  unknown degrades to \<open>unresolved\<close>, so a plan is never executed on a guess. Where the fields of a
  record have no constraint beyond their type, the wire contract is taken for every record of the type.
\<close>

subsection \<open>Guards\<close>

definition ARTIFACT_KINDS :: "(string \<times> artifact_kind) list" where
  "ARTIFACT_KINDS =
     [(''code'', Kind_Code),
      (''dataset'', Kind_Dataset),
      (''model'', Kind_Model)]"

definition artifactKind :: "unknown \<Rightarrow> artifact_kind" where
  "artifactKind = enum_guard ARTIFACT_KINDS Kind_Code"

interpretation kind_names: wire_enum ARTIFACT_KINDS
proof (unfold_locales, goal_cases)
  case 1
  then show ?case by (simp add: ARTIFACT_KINDS_def)
next
  case (2 x)
  then show ?case by (cases x) (simp_all add: ARTIFACT_KINDS_def)
qed

definition INSPECTION_STATES :: "(string \<times> inspection_state) list" where
  "INSPECTION_STATES =
     [(''declared'', I_Declared),
      (''verified'', I_Verified),
      (''missing'', I_Missing),
      (''unavailable'', I_Unavailable)]"

definition inspectionState :: "unknown \<Rightarrow> inspection_state" where
  "inspectionState = enum_guard INSPECTION_STATES I_Declared"

interpretation inspection_names: wire_enum INSPECTION_STATES
proof (unfold_locales, goal_cases)
  case 1
  then show ?case by (simp add: INSPECTION_STATES_def)
next
  case (2 x)
  then show ?case by (cases x) (simp_all add: INSPECTION_STATES_def)
qed

definition DISTRIBUTION_STATES :: "(string \<times> distribution_state) list" where
  "DISTRIBUTION_STATES =
     [(''declared'', D_Declared),
      (''verified'', D_Verified),
      (''missing'', D_Missing),
      (''unavailable'', D_Unavailable),
      (''syncing'', D_Syncing)]"

definition distributionState :: "unknown \<Rightarrow> distribution_state" where
  "distributionState = enum_guard DISTRIBUTION_STATES D_Declared"

interpretation distribution_names: wire_enum DISTRIBUTION_STATES
proof (unfold_locales, goal_cases)
  case 1
  then show ?case by (simp add: DISTRIBUTION_STATES_def)
next
  case (2 x)
  then show ?case by (cases x) (simp_all add: DISTRIBUTION_STATES_def)
qed

definition SYNC_ACTIONS :: "(string \<times> sync_action) list" where
  "SYNC_ACTIONS =
     [(''skip'', Act_Skip),
      (''transfer'', Act_Transfer),
      (''unresolved'', Act_Unresolved)]"

definition syncAction :: "unknown \<Rightarrow> sync_action" where
  "syncAction = enum_guard SYNC_ACTIONS Act_Unresolved"

interpretation action_names: wire_enum SYNC_ACTIONS
proof (unfold_locales, goal_cases)
  case 1
  then show ?case by (simp add: SYNC_ACTIONS_def)
next
  case (2 x)
  then show ?case by (cases x) (simp_all add: SYNC_ACTIONS_def)
qed

definition STRATEGY_VALUES :: "(string \<times> transfer_strategy) list" where
  "STRATEGY_VALUES =
     [(''auto'', TS_Auto),
      (''direct_rsync'', TS_Direct_rsync),
      (''local_relay'', TS_Local_relay)]"

definition strategyOrNull :: "unknown \<Rightarrow> transfer_strategy option" where
  "strategyOrNull = enum_opt STRATEGY_VALUES"

interpretation strategy_value_names: wire_enum STRATEGY_VALUES
proof (unfold_locales, goal_cases)
  case 1
  then show ?case by (simp add: STRATEGY_VALUES_def)
next
  case (2 x)
  then show ?case by (cases x) (simp_all add: STRATEGY_VALUES_def)
qed

definition ws_str :: "unknown \<Rightarrow> string option" where
  "ws_str value = (case value of Some (JStr s) \<Rightarrow> Some s | _ \<Rightarrow> None)"

definition ws_intOrNull :: "unknown \<Rightarrow> js_number option" where
  "ws_intOrNull value =
     (case value of Some (JNum x) \<Rightarrow> (if is_integer x then Some x else None) | _ \<Rightarrow> None)"

definition ws_bool :: "unknown \<Rightarrow> bool \<Rightarrow> bool" where
  "ws_bool value fallback = (case value of Some (JBool b) \<Rightarrow> b | _ \<Rightarrow> fallback)"

definition ws_strList :: "unknown \<Rightarrow> string list" where
  "ws_strList value =
     (case value of Some (JArr xs) \<Rightarrow> map_non_null (\<lambda>item. ws_str (Some item)) xs | _ \<Rightarrow> [])"

definition strRecord :: "unknown \<Rightarrow> (string \<times> string) list" where
  "strRecord value = (if \<not> isRecord value then [] else collect_str (entries value) [])"

definition ws_optionalStr :: "unknown \<Rightarrow> string option" where
  "ws_optionalStr value = (case value of Some (JStr s) \<Rightarrow> Some s | _ \<Rightarrow> None)"

definition not_false :: "unknown \<Rightarrow> bool" where
  "not_false value \<longleftrightarrow> value \<noteq> Some (JBool False)"

lemma ws_str_eq [simp]: "ws_str = str" and ws_optionalStr_eq [simp]: "ws_optionalStr = str"
  and ws_intOrNull_eq [simp]: "ws_intOrNull = int_guard" and ws_bool_eq [simp]: "ws_bool = bool_guard"
  by (intro ext, simp add: ws_str_def ws_optionalStr_def ws_intOrNull_def ws_bool_def guard_defs)+

lemma ws_strList_eq [simp]: "ws_strList = strList"
  by (rule ext) (auto simp: ws_strList_def strList_def arrayOf_def split: option.splits json.splits)

lemma strRecord_eq [simp]: "strRecord = recordOf"
  by (rule ext) (simp add: strRecord_def recordOf_def)

lemma not_false_JBool [simp]: "not_false (Some (JBool b)) = b"
  by (simp add: not_false_def)

lemmas workspace_facts = artifactKind_def inspectionState_def distributionState_def
  syncAction_def strategyOrNull_def

subsection \<open>Normalizers\<close>

definition normalizeProjectRecord :: "unknown \<Rightarrow> project_record option" where
  "normalizeProjectRecord raw =
     (if \<not> isRecord raw then None
      else case (ws_str (get ''project_id'' raw), ws_str (get ''name'' raw)) of
        (Some projectId, Some name') \<Rightarrow>
          Some \<lparr>prj_project_id = projectId,
             prj_name = name',
             prj_description = str_or '''' (get ''description'' raw),
             prj_artifact_ids = ws_strList (get ''artifact_ids'' raw),
             prj_launch_config_ids = ws_strList (get ''launch_config_ids'' raw),
             prj_tags = ws_strList (get ''tags'' raw),
             prj_transfer_excludes = ws_strList (get ''transfer_excludes'' raw),
             prj_created_at = str_or '''' (get ''created_at'' raw),
             prj_updated_at = str_or '''' (get ''updated_at'' raw)\<rparr>
      | _ \<Rightarrow> None)"

definition wireProjectRecord :: "project_record \<Rightarrow> json" where
  "wireProjectRecord x = JObj
     [(''project_id'', JStr (prj_project_id x)),
      (''name'', JStr (prj_name x)),
      (''description'', JStr (prj_description x)),
      (''artifact_ids'', wire_strs (prj_artifact_ids x)),
      (''launch_config_ids'', wire_strs (prj_launch_config_ids x)),
      (''tags'', wire_strs (prj_tags x)),
      (''transfer_excludes'', wire_strs (prj_transfer_excludes x)),
      (''created_at'', JStr (prj_created_at x)),
      (''updated_at'', JStr (prj_updated_at x))]"

interpretation wire_project_record: identified_model normalizeProjectRecord wireProjectRecord "\<lambda>_. True" "''project_id''" prj_project_id
proof (unfold_locales, goal_cases)
  case (1 raw)
  then show ?case by (simp add: normalizeProjectRecord_def)
next
  case (2 raw x)
  then show ?case
    by (auto simp: normalizeProjectRecord_def workspace_facts  dest: int_guard_Some num_Some split: if_splits option.splits)
next
  case (3 x)
  then show ?case
    by (cases x) (simp add: normalizeProjectRecord_def wireProjectRecord_def workspace_facts )
next
  case (4 raw x)
  then show ?case
    by (auto simp: normalizeProjectRecord_def split: if_splits option.splits)
qed

definition normalizeArtifactRecord :: "unknown \<Rightarrow> artifact_record option" where
  "normalizeArtifactRecord raw =
     (if \<not> isRecord raw then None
      else case (ws_str (get ''artifact_id'' raw), ws_str (get ''name'' raw)) of
        (Some artifactId, Some name') \<Rightarrow>
          Some \<lparr>art_artifact_id = artifactId,
             art_kind = artifactKind (get ''kind'' raw),
             art_name = name',
             art_version = ws_optionalStr (get ''version'' raw),
             art_description = str_or '''' (get ''description'' raw),
             art_immutable = ws_bool (get ''immutable'' raw) True,
             art_created_at = str_or '''' (get ''created_at'' raw),
             art_updated_at = str_or '''' (get ''updated_at'' raw)\<rparr>
      | _ \<Rightarrow> None)"

definition wireArtifactRecord :: "artifact_record \<Rightarrow> json" where
  "wireArtifactRecord x = JObj
     [(''artifact_id'', JStr (art_artifact_id x)),
      (''kind'', JStr (name_in ARTIFACT_KINDS (art_kind x))),
      (''name'', JStr (art_name x)),
      (''version'', wire_opt JStr (art_version x)),
      (''description'', JStr (art_description x)),
      (''immutable'', JBool (art_immutable x)),
      (''created_at'', JStr (art_created_at x)),
      (''updated_at'', JStr (art_updated_at x))]"

interpretation wire_artifact_record: identified_model normalizeArtifactRecord wireArtifactRecord "\<lambda>_. True" "''artifact_id''" art_artifact_id
proof (unfold_locales, goal_cases)
  case (1 raw)
  then show ?case by (simp add: normalizeArtifactRecord_def)
next
  case (2 raw x)
  then show ?case
    by (auto simp: normalizeArtifactRecord_def workspace_facts  dest: int_guard_Some num_Some split: if_splits option.splits)
next
  case (3 x)
  then show ?case
    by (cases x) (simp add: normalizeArtifactRecord_def wireArtifactRecord_def workspace_facts )
next
  case (4 raw x)
  then show ?case
    by (auto simp: normalizeArtifactRecord_def split: if_splits option.splits)
qed

definition normalizePlacementRecord :: "unknown \<Rightarrow> placement_record option" where
  "normalizePlacementRecord raw =
     (if \<not> isRecord raw then None
      else case (ws_str (get ''placement_id'' raw), ws_str (get ''artifact_id'' raw), ws_str (get ''server_id'' raw), ws_str (get ''remote_path'' raw)) of
        (Some placementId, Some artifactId, Some serverId, Some remotePath) \<Rightarrow>
          Some \<lparr>plc_placement_id = placementId,
             plc_artifact_id = artifactId,
             plc_server_id = serverId,
             plc_remote_path = remotePath,
             plc_created_at = str_or '''' (get ''created_at'' raw),
             plc_updated_at = str_or '''' (get ''updated_at'' raw)\<rparr>
      | _ \<Rightarrow> None)"

definition wirePlacementRecord :: "placement_record \<Rightarrow> json" where
  "wirePlacementRecord x = JObj
     [(''placement_id'', JStr (plc_placement_id x)),
      (''artifact_id'', JStr (plc_artifact_id x)),
      (''server_id'', JStr (plc_server_id x)),
      (''remote_path'', JStr (plc_remote_path x)),
      (''created_at'', JStr (plc_created_at x)),
      (''updated_at'', JStr (plc_updated_at x))]"

interpretation wire_placement_record: identified_model normalizePlacementRecord wirePlacementRecord "\<lambda>_. True" "''placement_id''" plc_placement_id
proof (unfold_locales, goal_cases)
  case (1 raw)
  then show ?case by (simp add: normalizePlacementRecord_def)
next
  case (2 raw x)
  then show ?case
    by (auto simp: normalizePlacementRecord_def workspace_facts  dest: int_guard_Some num_Some split: if_splits option.splits)
next
  case (3 x)
  then show ?case
    by (cases x) (simp add: normalizePlacementRecord_def wirePlacementRecord_def workspace_facts )
next
  case (4 raw x)
  then show ?case
    by (auto simp: normalizePlacementRecord_def split: if_splits option.splits)
qed

definition normalizePlacementInspection :: "unknown \<Rightarrow> placement_inspection option" where
  "normalizePlacementInspection raw =
     (if \<not> isRecord raw then None
      else case ws_str (get ''placement_id'' raw) of
        Some placementId \<Rightarrow>
          Some \<lparr>ins_placement_id = placementId,
             ins_state = inspectionState (get ''state'' raw),
             ins_file_type = ws_optionalStr (get ''file_type'' raw),
             ins_size_b = ws_intOrNull (get ''size_b'' raw),
             ins_file_count = ws_intOrNull (get ''file_count'' raw),
             ins_checked_at = str_or '''' (get ''checked_at'' raw),
             ins_detail = str_or '''' (get ''detail'' raw)\<rparr>
      | None \<Rightarrow> None)"

definition wirePlacementInspection :: "placement_inspection \<Rightarrow> json" where
  "wirePlacementInspection x = JObj
     [(''placement_id'', JStr (ins_placement_id x)),
      (''state'', JStr (name_in INSPECTION_STATES (ins_state x))),
      (''file_type'', wire_opt JStr (ins_file_type x)),
      (''size_b'', wire_opt JNum (ins_size_b x)),
      (''file_count'', wire_opt JNum (ins_file_count x)),
      (''checked_at'', JStr (ins_checked_at x)),
      (''detail'', JStr (ins_detail x))]"

definition wfPlacementInspection :: "placement_inspection \<Rightarrow> bool" where
  "wfPlacementInspection x \<longleftrightarrow>
     opt_ok is_integer (ins_size_b x) \<and>
     opt_ok is_integer (ins_file_count x)"

interpretation wire_placement_inspection: identified_model normalizePlacementInspection wirePlacementInspection wfPlacementInspection "''placement_id''" ins_placement_id
proof (unfold_locales, goal_cases)
  case (1 raw)
  then show ?case by (simp add: normalizePlacementInspection_def)
next
  case (2 raw x)
  then show ?case
    by (auto simp: normalizePlacementInspection_def wfPlacementInspection_def workspace_facts  dest: int_guard_Some num_Some split: if_splits option.splits)
next
  case (3 x)
  then show ?case
    by (cases x) (simp add: normalizePlacementInspection_def wfPlacementInspection_def wirePlacementInspection_def workspace_facts )
next
  case (4 raw x)
  then show ?case
    by (auto simp: normalizePlacementInspection_def split: if_splits option.splits)
qed

definition normalizeLaunchConfigRecord :: "unknown \<Rightarrow> launch_config_record option" where
  "normalizeLaunchConfigRecord raw =
     (if \<not> isRecord raw then None
      else case (ws_str (get ''launch_config_id'' raw), ws_str (get ''project_id'' raw), ws_str (get ''name'' raw), ws_str (get ''program'' raw)) of
        (Some launchConfigId, Some projectId, Some name', Some program') \<Rightarrow>
          Some \<lparr>lch_launch_config_id = launchConfigId,
             lch_project_id = projectId,
             lch_name = name',
             lch_working_dir = ws_optionalStr (get ''working_dir'' raw),
             lch_program = program',
             lch_args = ws_strList (get ''args'' raw),
             lch_environment = ws_optionalStr (get ''environment'' raw),
             lch_env_vars = strRecord (get ''env_vars'' raw),
             lch_required_artifact_ids = ws_strList (get ''required_artifact_ids'' raw),
             lch_gpu_count = ws_intOrNull (get ''gpu_count'' raw),
             lch_min_vram_b = ws_intOrNull (get ''min_vram_b'' raw),
             lch_created_at = str_or '''' (get ''created_at'' raw),
             lch_updated_at = str_or '''' (get ''updated_at'' raw)\<rparr>
      | _ \<Rightarrow> None)"

definition wireLaunchConfigRecord :: "launch_config_record \<Rightarrow> json" where
  "wireLaunchConfigRecord x = JObj
     [(''launch_config_id'', JStr (lch_launch_config_id x)),
      (''project_id'', JStr (lch_project_id x)),
      (''name'', JStr (lch_name x)),
      (''working_dir'', wire_opt JStr (lch_working_dir x)),
      (''program'', JStr (lch_program x)),
      (''args'', wire_strs (lch_args x)),
      (''environment'', wire_opt JStr (lch_environment x)),
      (''env_vars'', wire_record (lch_env_vars x)),
      (''required_artifact_ids'', wire_strs (lch_required_artifact_ids x)),
      (''gpu_count'', wire_opt JNum (lch_gpu_count x)),
      (''min_vram_b'', wire_opt JNum (lch_min_vram_b x)),
      (''created_at'', JStr (lch_created_at x)),
      (''updated_at'', JStr (lch_updated_at x))]"

definition wfLaunchConfigRecord :: "launch_config_record \<Rightarrow> bool" where
  "wfLaunchConfigRecord x \<longleftrightarrow>
     record_ok (lch_env_vars x) \<and>
     opt_ok is_integer (lch_gpu_count x) \<and>
     opt_ok is_integer (lch_min_vram_b x)"

interpretation wire_launch_config_record: identified_model normalizeLaunchConfigRecord wireLaunchConfigRecord wfLaunchConfigRecord "''launch_config_id''" lch_launch_config_id
proof (unfold_locales, goal_cases)
  case (1 raw)
  then show ?case by (simp add: normalizeLaunchConfigRecord_def)
next
  case (2 raw x)
  then show ?case
    by (auto simp: normalizeLaunchConfigRecord_def wfLaunchConfigRecord_def workspace_facts  dest: int_guard_Some num_Some split: if_splits option.splits)
next
  case (3 x)
  then show ?case
    by (cases x) (simp add: normalizeLaunchConfigRecord_def wfLaunchConfigRecord_def wireLaunchConfigRecord_def workspace_facts )
next
  case (4 raw x)
  then show ?case
    by (auto simp: normalizeLaunchConfigRecord_def split: if_splits option.splits)
qed

text \<open>The roots normalizer is total: a payload that is not an object has no roots.\<close>

definition normalizeServerRoots :: "unknown \<Rightarrow> server_roots" where
  "normalizeServerRoots raw =
     (if \<not> isRecord raw
      then \<lparr>rts_project_root = None, rts_dataset_root = None, rts_model_root = None,
            rts_output_root = None\<rparr>
      else \<lparr>rts_project_root = ws_optionalStr (get ''project_root'' raw),
            rts_dataset_root = ws_optionalStr (get ''dataset_root'' raw),
            rts_model_root = ws_optionalStr (get ''model_root'' raw),
            rts_output_root = ws_optionalStr (get ''output_root'' raw)\<rparr>)"

definition wireServerRoots :: "server_roots \<Rightarrow> json" where
  "wireServerRoots x = JObj
     [(''project_root'', wire_opt JStr (rts_project_root x)),
      (''dataset_root'', wire_opt JStr (rts_dataset_root x)),
      (''model_root'', wire_opt JStr (rts_model_root x)),
      (''output_root'', wire_opt JStr (rts_output_root x))]"

lemma normalizeServerRoots_wire [simp]: "normalizeServerRoots (Some (wireServerRoots x)) = x"
  by (cases x) (simp add: normalizeServerRoots_def wireServerRoots_def)

definition normalizeDistributionItem :: "unknown \<Rightarrow> distribution_item option" where
  "normalizeDistributionItem raw =
     (if \<not> isRecord raw then None
      else case (ws_str (get ''artifact_id'' raw), ws_str (get ''server_id'' raw), ws_str (get ''remote_path'' raw)) of
        (Some artifactId, Some serverId, Some remotePath) \<Rightarrow>
          Some \<lparr>dit_artifact_id = artifactId,
             dit_artifact_label = str_or '''' (get ''artifact_label'' raw),
             dit_artifact_kind = str_or ''code'' (get ''artifact_kind'' raw),
             dit_server_id = serverId,
             dit_placement_id = ws_optionalStr (get ''placement_id'' raw),
             dit_remote_path = remotePath,
             dit_state = distributionState (get ''state'' raw),
             dit_checked_at = ws_optionalStr (get ''checked_at'' raw),
             dit_detail = ws_optionalStr (get ''detail'' raw),
             dit_active_transfer_job_id = ws_optionalStr (get ''active_transfer_job_id'' raw)\<rparr>
      | _ \<Rightarrow> None)"

definition wireDistributionItem :: "distribution_item \<Rightarrow> json" where
  "wireDistributionItem x = JObj
     [(''artifact_id'', JStr (dit_artifact_id x)),
      (''artifact_label'', JStr (dit_artifact_label x)),
      (''artifact_kind'', JStr (dit_artifact_kind x)),
      (''server_id'', JStr (dit_server_id x)),
      (''placement_id'', wire_opt JStr (dit_placement_id x)),
      (''remote_path'', JStr (dit_remote_path x)),
      (''state'', JStr (name_in DISTRIBUTION_STATES (dit_state x))),
      (''checked_at'', wire_opt JStr (dit_checked_at x)),
      (''detail'', wire_opt JStr (dit_detail x)),
      (''active_transfer_job_id'', wire_opt JStr (dit_active_transfer_job_id x))]"

interpretation wire_distribution_item: wire_model normalizeDistributionItem wireDistributionItem "\<lambda>_. True"
proof (unfold_locales, goal_cases)
  case (1 raw)
  then show ?case by (simp add: normalizeDistributionItem_def)
next
  case (2 raw x)
  then show ?case
    by (auto simp: normalizeDistributionItem_def workspace_facts  dest: int_guard_Some num_Some split: if_splits option.splits)
next
  case (3 x)
  then show ?case
    by (cases x) (simp add: normalizeDistributionItem_def wireDistributionItem_def workspace_facts )
qed

definition normalizeProjectDistribution :: "unknown \<Rightarrow> project_distribution option" where
  "normalizeProjectDistribution raw =
     (if \<not> isRecord raw then None
      else case ws_str (get ''project_id'' raw) of
        Some projectId \<Rightarrow>
          Some \<lparr>pdi_project_id = projectId,
             pdi_generated_at = str_or '''' (get ''generated_at'' raw),
             pdi_items = norm_list normalizeDistributionItem (get ''items'' raw)\<rparr>
      | None \<Rightarrow> None)"

definition wireProjectDistribution :: "project_distribution \<Rightarrow> json" where
  "wireProjectDistribution x = JObj
     [(''project_id'', JStr (pdi_project_id x)),
      (''generated_at'', JStr (pdi_generated_at x)),
      (''items'', JArr (map wireDistributionItem (pdi_items x)))]"

interpretation wire_project_distribution: identified_model normalizeProjectDistribution wireProjectDistribution "\<lambda>_. True" "''project_id''" pdi_project_id
proof (unfold_locales, goal_cases)
  case (1 raw)
  then show ?case by (simp add: normalizeProjectDistribution_def)
next
  case (2 raw x)
  then show ?case
    by (auto simp: normalizeProjectDistribution_def workspace_facts wire_distribution_item.norm_list_wf wire_distribution_item.opt_ok_norm dest: int_guard_Some num_Some split: if_splits option.splits)
next
  case (3 x)
  then show ?case
    by (cases x) (simp add: normalizeProjectDistribution_def wireProjectDistribution_def workspace_facts wire_distribution_item.norm_list_wire list.pred_True wire_distribution_item.norm_wire_opt)
next
  case (4 raw x)
  then show ?case
    by (auto simp: normalizeProjectDistribution_def split: if_splits option.splits)
qed

definition normalizeArtifactSyncItem :: "unknown \<Rightarrow> artifact_sync_item option" where
  "normalizeArtifactSyncItem raw =
     (if \<not> isRecord raw then None
      else case ws_str (get ''artifact_id'' raw) of
        Some artifactId \<Rightarrow>
          Some \<lparr>asi_artifact_id = artifactId,
             asi_artifact_label = str_or '''' (get ''artifact_label'' raw),
             asi_artifact_kind = str_or ''code'' (get ''artifact_kind'' raw),
             asi_target_status = distributionState (get ''target_status'' raw),
             asi_action = syncAction (get ''action'' raw),
             asi_reason = str_or '''' (get ''reason'' raw),
             asi_source_placement_id = ws_optionalStr (get ''source_placement_id'' raw),
             asi_source_server_id = ws_optionalStr (get ''source_server_id'' raw),
             asi_source_path = ws_optionalStr (get ''source_path'' raw),
             asi_target_path = ws_optionalStr (get ''target_path'' raw),
             asi_strategy_selected = strategyOrNull (get ''strategy_selected'' raw),
             asi_alternatives = ws_strList (get ''alternatives'' raw),
             asi_warnings = ws_strList (get ''warnings'' raw)\<rparr>
      | None \<Rightarrow> None)"

definition wireArtifactSyncItem :: "artifact_sync_item \<Rightarrow> json" where
  "wireArtifactSyncItem x = JObj
     [(''artifact_id'', JStr (asi_artifact_id x)),
      (''artifact_label'', JStr (asi_artifact_label x)),
      (''artifact_kind'', JStr (asi_artifact_kind x)),
      (''target_status'', JStr (name_in DISTRIBUTION_STATES (asi_target_status x))),
      (''action'', JStr (name_in SYNC_ACTIONS (asi_action x))),
      (''reason'', JStr (asi_reason x)),
      (''source_placement_id'', wire_opt JStr (asi_source_placement_id x)),
      (''source_server_id'', wire_opt JStr (asi_source_server_id x)),
      (''source_path'', wire_opt JStr (asi_source_path x)),
      (''target_path'', wire_opt JStr (asi_target_path x)),
      (''strategy_selected'', wire_opt (\<lambda>e. JStr (name_in STRATEGY_VALUES e)) (asi_strategy_selected x)),
      (''alternatives'', wire_strs (asi_alternatives x)),
      (''warnings'', wire_strs (asi_warnings x))]"

interpretation wire_artifact_sync_item: identified_model normalizeArtifactSyncItem wireArtifactSyncItem "\<lambda>_. True" "''artifact_id''" asi_artifact_id
proof (unfold_locales, goal_cases)
  case (1 raw)
  then show ?case by (simp add: normalizeArtifactSyncItem_def)
next
  case (2 raw x)
  then show ?case
    by (auto simp: normalizeArtifactSyncItem_def workspace_facts  dest: int_guard_Some num_Some split: if_splits option.splits)
next
  case (3 x)
  then show ?case
    by (cases x) (simp add: normalizeArtifactSyncItem_def wireArtifactSyncItem_def workspace_facts )
next
  case (4 raw x)
  then show ?case
    by (auto simp: normalizeArtifactSyncItem_def split: if_splits option.splits)
qed

definition normalizeProjectSyncPlan :: "unknown \<Rightarrow> project_sync_plan option" where
  "normalizeProjectSyncPlan raw =
     (if \<not> isRecord raw then None
      else case (ws_str (get ''project_id'' raw), ws_str (get ''target_server_id'' raw)) of
        (Some projectId, Some targetServerId) \<Rightarrow>
          Some \<lparr>psp_project_id = projectId,
             psp_target_server_id = targetServerId,
             psp_generated_at = str_or '''' (get ''generated_at'' raw),
             psp_refresh_code = is_true (get ''refresh_code'' raw),
             psp_items = norm_list normalizeArtifactSyncItem (get ''items'' raw),
             psp_valid = not_false (get ''valid'' raw),
             psp_error = str_or '''' (get ''error'' raw)\<rparr>
      | _ \<Rightarrow> None)"

definition wireProjectSyncPlan :: "project_sync_plan \<Rightarrow> json" where
  "wireProjectSyncPlan x = JObj
     [(''project_id'', JStr (psp_project_id x)),
      (''target_server_id'', JStr (psp_target_server_id x)),
      (''generated_at'', JStr (psp_generated_at x)),
      (''refresh_code'', JBool (psp_refresh_code x)),
      (''items'', JArr (map wireArtifactSyncItem (psp_items x))),
      (''valid'', JBool (psp_valid x)),
      (''error'', JStr (psp_error x))]"

interpretation wire_project_sync_plan: identified_model normalizeProjectSyncPlan wireProjectSyncPlan "\<lambda>_. True" "''project_id''" psp_project_id
proof (unfold_locales, goal_cases)
  case (1 raw)
  then show ?case by (simp add: normalizeProjectSyncPlan_def)
next
  case (2 raw x)
  then show ?case
    by (auto simp: normalizeProjectSyncPlan_def workspace_facts wire_artifact_sync_item.norm_list_wf wire_artifact_sync_item.opt_ok_norm dest: int_guard_Some num_Some split: if_splits option.splits)
next
  case (3 x)
  then show ?case
    by (cases x) (simp add: normalizeProjectSyncPlan_def wireProjectSyncPlan_def workspace_facts wire_artifact_sync_item.norm_list_wire list.pred_True wire_artifact_sync_item.norm_wire_opt)
next
  case (4 raw x)
  then show ?case
    by (auto simp: normalizeProjectSyncPlan_def split: if_splits option.splits)
qed

subsection \<open>Request bodies\<close>

definition project_create_body :: "project_create \<Rightarrow> json" where
  "project_create_body b = JObj
     ([(''name'', JStr (pjc_name b))]
      @ opt_field ''description'' JStr (pjc_description b)
      @ opt_field ''artifact_ids'' wire_strs (pjc_artifact_ids b)
      @ opt_field ''tags'' wire_strs (pjc_tags b))"

definition project_patch_body :: "project_patch \<Rightarrow> json" where
  "project_patch_body b = JObj
     (opt_field ''name'' JStr (pjp_name b)
      @ opt_field ''description'' JStr (pjp_description b)
      @ opt_field ''artifact_ids'' wire_strs (pjp_artifact_ids b)
      @ opt_field ''tags'' wire_strs (pjp_tags b)
      @ opt_field ''transfer_excludes'' wire_strs (pjp_transfer_excludes b))"

definition artifact_create_body :: "artifact_create \<Rightarrow> json" where
  "artifact_create_body b = JObj
     ([(''kind'', JStr (name_in ARTIFACT_KINDS (arc_kind b))), (''name'', JStr (arc_name b))]
      @ opt_field ''version'' (wire_opt JStr) (arc_version b)
      @ opt_field ''description'' JStr (arc_description b)
      @ opt_field ''immutable'' (wire_opt JBool) (arc_immutable b))"

definition artifact_patch_body :: "artifact_patch \<Rightarrow> json" where
  "artifact_patch_body b = JObj
     (opt_field ''name'' JStr (arp_name b)
      @ opt_field ''version'' (wire_opt JStr) (arp_version b)
      @ opt_field ''description'' JStr (arp_description b)
      @ opt_field ''immutable'' (wire_opt JBool) (arp_immutable b))"

definition placement_create_body :: "placement_create \<Rightarrow> json" where
  "placement_create_body b = JObj
     ([(''artifact_id'', JStr (plk_artifact_id b)), (''server_id'', JStr (plk_server_id b)), (''remote_path'', JStr (plk_remote_path b))])"

definition placement_patch_body :: "placement_patch \<Rightarrow> json" where
  "placement_patch_body b = JObj
     (opt_field ''remote_path'' JStr (plp_remote_path b))"

definition launch_config_create_body :: "launch_config_create \<Rightarrow> json" where
  "launch_config_create_body b = JObj
     ([(''project_id'', JStr (lcc_project_id b)), (''name'', JStr (lcc_name b)), (''program'', JStr (lcc_program b))]
      @ opt_field ''working_dir'' (wire_opt JStr) (lcc_working_dir b)
      @ opt_field ''args'' wire_strs (lcc_args b)
      @ opt_field ''environment'' (wire_opt JStr) (lcc_environment b)
      @ opt_field ''env_vars'' wire_record (lcc_env_vars b)
      @ opt_field ''required_artifact_ids'' wire_strs (lcc_required_artifact_ids b)
      @ opt_field ''gpu_count'' (wire_opt JNum) (lcc_gpu_count b)
      @ opt_field ''min_vram_b'' (wire_opt JNum) (lcc_min_vram_b b))"

definition launch_config_patch_body :: "launch_config_patch \<Rightarrow> json" where
  "launch_config_patch_body b = JObj
     (opt_field ''name'' JStr (lcp_name b)
      @ opt_field ''working_dir'' (wire_opt JStr) (lcp_working_dir b)
      @ opt_field ''program'' JStr (lcp_program b)
      @ opt_field ''args'' wire_strs (lcp_args b)
      @ opt_field ''environment'' (wire_opt JStr) (lcp_environment b)
      @ opt_field ''env_vars'' wire_record (lcp_env_vars b)
      @ opt_field ''required_artifact_ids'' wire_strs (lcp_required_artifact_ids b)
      @ opt_field ''gpu_count'' (wire_opt JNum) (lcp_gpu_count b)
      @ opt_field ''min_vram_b'' (wire_opt JNum) (lcp_min_vram_b b))"

definition server_roots_update_body :: "server_roots_update \<Rightarrow> json" where
  "server_roots_update_body b = JObj
     (opt_field ''project_root'' (wire_opt JStr) (sru_project_root b)
      @ opt_field ''dataset_root'' (wire_opt JStr) (sru_dataset_root b)
      @ opt_field ''model_root'' (wire_opt JStr) (sru_model_root b)
      @ opt_field ''output_root'' (wire_opt JStr) (sru_output_root b))"

definition sync_plan_request_body :: "sync_plan_request \<Rightarrow> json" where
  "sync_plan_request_body b = JObj
     ([(''target_server_id'', JStr (spr_target_server_id b))]
      @ opt_field ''artifact_ids'' (wire_opt wire_strs) (spr_artifact_ids b)
      @ opt_field ''refresh_code'' JBool (spr_refresh_code b)
      @ opt_field ''strategy'' (\<lambda>e. JStr (name_in STRATEGY_VALUES e)) (spr_strategy b))"

subsection \<open>Client\<close>

definition ws_path :: "string \<Rightarrow> string \<Rightarrow> string \<Rightarrow> string" where
  "ws_path collection i tail = ''/workspace/'' @ collection @ ''/'' @ encodeURIComponent i @ tail"

definition listProjects :: "js_runtime \<Rightarrow> network \<Rightarrow> project_record list result" where
  "listProjects rt net =
     read_list normalizeProjectRecord ''projects''
       (workspace_request rt net (http ''/workspace/projects'' GET None))"

definition createProject ::
  "js_runtime \<Rightarrow> network \<Rightarrow> project_create \<Rightarrow> project_record result" where
  "createProject rt net body =
     read_model normalizeProjectRecord ''project''
       (workspace_request rt net (http ''/workspace/projects'' POST (Some (project_create_body body))))"

definition patchProject ::
  "js_runtime \<Rightarrow> network \<Rightarrow> string \<Rightarrow> project_patch \<Rightarrow> project_record result" where
  "patchProject rt net projectId patch =
     read_model normalizeProjectRecord ''project''
       (workspace_request rt net (http (ws_path ''projects'' projectId '''') PATCH (Some (project_patch_body patch))))"

definition deleteProject ::
  "js_runtime \<Rightarrow> network \<Rightarrow> string \<Rightarrow> unit result" where
  "deleteProject rt net projectId =
     read_nothing
       (workspace_request rt net (http (ws_path ''projects'' projectId '''') DELETE None))"

definition listArtifacts ::
  "js_runtime \<Rightarrow> network \<Rightarrow> artifact_kind option \<Rightarrow> artifact_record list result" where
  "listArtifacts rt net kind =
     read_list normalizeArtifactRecord ''artifacts''
       (workspace_request rt net (http (''/workspace/artifacts'' @ (case kind of None \<Rightarrow> '''' | Some k \<Rightarrow> ''?kind='' @ encodeURIComponent (name_in ARTIFACT_KINDS k))) GET None))"

definition createArtifact ::
  "js_runtime \<Rightarrow> network \<Rightarrow> artifact_create \<Rightarrow> artifact_record result" where
  "createArtifact rt net body =
     read_model normalizeArtifactRecord ''artifact''
       (workspace_request rt net (http ''/workspace/artifacts'' POST (Some (artifact_create_body body))))"

definition patchArtifact ::
  "js_runtime \<Rightarrow> network \<Rightarrow> string \<Rightarrow> artifact_patch \<Rightarrow> artifact_record result" where
  "patchArtifact rt net artifactId patch =
     read_model normalizeArtifactRecord ''artifact''
       (workspace_request rt net (http (ws_path ''artifacts'' artifactId '''') PATCH (Some (artifact_patch_body patch))))"

definition deleteArtifact ::
  "js_runtime \<Rightarrow> network \<Rightarrow> string \<Rightarrow> unit result" where
  "deleteArtifact rt net artifactId =
     read_nothing
       (workspace_request rt net (http (ws_path ''artifacts'' artifactId '''') DELETE None))"

definition readSuggestion :: "unknown \<Rightarrow> suggest_target_path option" where
  "readSuggestion raw =
     (if \<not> isRecord raw then None
      else Some \<lparr>stp_target_path = ws_optionalStr (get ''target_path'' raw),
                 stp_reason = ws_optionalStr (get ''reason'' raw)\<rparr>)"

definition suggestTargetPath ::
  "js_runtime \<Rightarrow> network \<Rightarrow> string \<Rightarrow> string \<Rightarrow> suggest_target_path result" where
  "suggestTargetPath rt net artifactId serverId =
     read_model readSuggestion ''target path suggestion''
       (workspace_request rt net (http (ws_path ''artifacts'' artifactId (''/suggest-target-path?server_id='' @ encodeURIComponent serverId)) GET None))"

definition listPlacements ::
  "js_runtime \<Rightarrow> network \<Rightarrow> placement_record list result" where
  "listPlacements rt net =
     read_list normalizePlacementRecord ''placements''
       (workspace_request rt net (http ''/workspace/placements'' GET None))"

definition createPlacement ::
  "js_runtime \<Rightarrow> network \<Rightarrow> placement_create \<Rightarrow> placement_record result" where
  "createPlacement rt net body =
     read_model normalizePlacementRecord ''placement''
       (workspace_request rt net (http ''/workspace/placements'' POST (Some (placement_create_body body))))"

definition patchPlacement ::
  "js_runtime \<Rightarrow> network \<Rightarrow> string \<Rightarrow> placement_patch \<Rightarrow> placement_record result" where
  "patchPlacement rt net placementId patch =
     read_model normalizePlacementRecord ''placement''
       (workspace_request rt net (http (ws_path ''placements'' placementId '''') PATCH (Some (placement_patch_body patch))))"

definition deletePlacement ::
  "js_runtime \<Rightarrow> network \<Rightarrow> string \<Rightarrow> unit result" where
  "deletePlacement rt net placementId =
     read_nothing
       (workspace_request rt net (http (ws_path ''placements'' placementId '''') DELETE None))"

definition inspectPlacement ::
  "js_runtime \<Rightarrow> network \<Rightarrow> string \<Rightarrow> placement_inspection result" where
  "inspectPlacement rt net placementId =
     read_model normalizePlacementInspection ''placement inspection''
       (workspace_request rt net (http (ws_path ''placements'' placementId ''/inspect'') POST empty_body))"

definition listLaunchConfigs ::
  "js_runtime \<Rightarrow> network \<Rightarrow> launch_config_record list result" where
  "listLaunchConfigs rt net =
     read_list normalizeLaunchConfigRecord ''launch configs''
       (workspace_request rt net (http ''/workspace/launch-configs'' GET None))"

definition createLaunchConfig ::
  "js_runtime \<Rightarrow> network \<Rightarrow> launch_config_create \<Rightarrow> launch_config_record result" where
  "createLaunchConfig rt net body =
     read_model normalizeLaunchConfigRecord ''launch config''
       (workspace_request rt net (http ''/workspace/launch-configs'' POST (Some (launch_config_create_body body))))"

definition patchLaunchConfig ::
  "js_runtime \<Rightarrow> network \<Rightarrow> string \<Rightarrow> launch_config_patch \<Rightarrow> launch_config_record result" where
  "patchLaunchConfig rt net launchConfigId patch =
     read_model normalizeLaunchConfigRecord ''launch config''
       (workspace_request rt net (http (ws_path ''launch-configs'' launchConfigId '''') PATCH (Some (launch_config_patch_body patch))))"

definition deleteLaunchConfig ::
  "js_runtime \<Rightarrow> network \<Rightarrow> string \<Rightarrow> unit result" where
  "deleteLaunchConfig rt net launchConfigId =
     read_nothing
       (workspace_request rt net (http (ws_path ''launch-configs'' launchConfigId '''') DELETE None))"

definition getServerRoots ::
  "js_runtime \<Rightarrow> network \<Rightarrow> string \<Rightarrow> server_roots result" where
  "getServerRoots rt net serverId =
     map_sum id normalizeServerRoots
       (workspace_request rt net (http (ws_path ''server-roots'' serverId '''') GET None))"

definition putServerRoots ::
  "js_runtime \<Rightarrow> network \<Rightarrow> string \<Rightarrow> server_roots_update \<Rightarrow> server_roots result" where
  "putServerRoots rt net serverId update =
     map_sum id normalizeServerRoots
       (workspace_request rt net (http (ws_path ''server-roots'' serverId '''') PUT (Some (server_roots_update_body update))))"

definition getProjectDistribution ::
  "js_runtime \<Rightarrow> network \<Rightarrow> string \<Rightarrow> project_distribution result" where
  "getProjectDistribution rt net projectId =
     read_model normalizeProjectDistribution ''project distribution''
       (workspace_request rt net (http (ws_path ''projects'' projectId ''/distribution'') GET None))"

definition inspectProject ::
  "js_runtime \<Rightarrow> network \<Rightarrow> string \<Rightarrow> project_distribution result" where
  "inspectProject rt net projectId =
     read_model normalizeProjectDistribution ''project distribution''
       (workspace_request rt net (http (ws_path ''projects'' projectId ''/inspect'') POST empty_body))"

definition buildSyncPlan ::
  "js_runtime \<Rightarrow> network \<Rightarrow> string \<Rightarrow> sync_plan_request \<Rightarrow> project_sync_plan result" where
  "buildSyncPlan rt net projectId body =
     read_model normalizeProjectSyncPlan ''project sync plan''
       (workspace_request rt net (http (ws_path ''projects'' projectId ''/sync-plan'') POST (Some (sync_plan_request_body body))))"

definition syncProject ::
  "js_runtime \<Rightarrow> network \<Rightarrow> string \<Rightarrow> sync_plan_request \<Rightarrow> transfer_batch result" where
  "syncProject rt net projectId body =
     read_model normalizeTransferBatch ''transfer batch''
       (workspace_request rt net (http (ws_path ''projects'' projectId ''/sync'') POST (Some (sync_plan_request_body body))))"

end
