(* ===== verification/Routes.thy ===== *)
theory Routes
  imports Uri Json
begin

text \<open>
  \<open>shell/routes.ts\<close>: the hash routes of the single-page application, with the parser the
  store applies to \<open>window.location.hash\<close> and the printer the links use. The main result
  is that printing and parsing are inverse on the routes the parser produces.
\<close>

datatype server_tab = Tab_Overview | Tab_Gpus | Tab_Processes | Tab_System | Tab_Storage | Tab_Network

definition SERVER_TABS :: "(string \<times> server_tab) list" where
  "SERVER_TABS =
     [(''overview'', Tab_Overview), (''gpus'', Tab_Gpus), (''processes'', Tab_Processes),
      (''system'', Tab_System), (''storage'', Tab_Storage), (''network'', Tab_Network)]"

definition DEFAULT_TAB :: server_tab where
  "DEFAULT_TAB = Tab_Overview"

fun SERVER_TAB_LABELS :: "server_tab \<Rightarrow> string" where
  "SERVER_TAB_LABELS Tab_Overview = ''Overview''"
| "SERVER_TAB_LABELS Tab_Gpus = ''GPUs''"
| "SERVER_TAB_LABELS Tab_Processes = ''Processes''"
| "SERVER_TAB_LABELS Tab_System = ''System''"
| "SERVER_TAB_LABELS Tab_Storage = ''Storage''"
| "SERVER_TAB_LABELS Tab_Network = ''Network''"

datatype workspace_section = Sec_Projects | Sec_Datasets | Sec_Models | Sec_Launches

definition WORKSPACE_SECTIONS :: "(string \<times> workspace_section) list" where
  "WORKSPACE_SECTIONS =
     [(''projects'', Sec_Projects), (''datasets'', Sec_Datasets), (''models'', Sec_Models),
      (''launches'', Sec_Launches)]"

definition DEFAULT_WORKSPACE_SECTION :: workspace_section where
  "DEFAULT_WORKSPACE_SECTION = Sec_Projects"

datatype route =
    RFleet
  | RServer string server_tab
  | RWorkspace workspace_section "string option" "string option"
  | RTransfers
  | RSettings
  | RPreview

definition tab_name :: "server_tab \<Rightarrow> string" where
  "tab_name = name_in SERVER_TABS"

definition section_name :: "workspace_section \<Rightarrow> string" where
  "section_name = name_in WORKSPACE_SECTIONS"

text \<open>\<open>segments[i] ?? ""\<close> and \<open>segments[i]\<close> read out of range give undefined.\<close>

definition segment :: "string list \<Rightarrow> nat \<Rightarrow> string option" where
  "segment segments i = (if i < length segments then Some (segments ! i) else None)"

definition segment_or_empty :: "string list \<Rightarrow> nat \<Rightarrow> string" where
  "segment_or_empty segments i = (case segment segments i of Some s \<Rightarrow> s | None \<Rightarrow> '''')"

definition decodeSegment :: "string option \<Rightarrow> string option" where
  "decodeSegment raw =
     (case raw of
        None \<Rightarrow> None
      | Some s \<Rightarrow>
          if s = '''' then None
          else (case decodeURIComponent s of Some t \<Rightarrow> Some t | None \<Rightarrow> Some s))"

text \<open>\<open>hash.replace(/^#\/?/, "")\<close>.\<close>

fun strip_hash :: "string \<Rightarrow> string" where
  "strip_hash (c # s) =
     (if c = CHR ''#'' then (case s of d # t \<Rightarrow> (if d = CHR ''/'' then t else s) | [] \<Rightarrow> [])
      else c # s)"
| "strip_hash [] = []"

definition parseHash :: "string \<Rightarrow> route" where
  "parseHash hash =
     (let segments = split_on (CHR ''/'') (strip_hash hash);
          head = segment_or_empty segments 0 in
      if head = ''server'' \<and> segment_or_empty segments 1 \<noteq> '''' then
        (let rawTab = segment_or_empty segments 2;
             tab = (case map_of SERVER_TABS rawTab of Some t \<Rightarrow> t | None \<Rightarrow> DEFAULT_TAB);
             raw = segment_or_empty segments 1;
             serverId = (case decodeSegment (Some raw) of Some s \<Rightarrow> s | None \<Rightarrow> raw)
         in RServer serverId tab)
      else if head = ''workspace'' then
        (let rawSection = segment_or_empty segments 1;
             section = (case map_of WORKSPACE_SECTIONS rawSection of
                          Some s \<Rightarrow> s | None \<Rightarrow> DEFAULT_WORKSPACE_SECTION);
             projectId = (if section = Sec_Projects then decodeSegment (segment segments 2) else None);
             artifactId = (if section = Sec_Datasets \<or> section = Sec_Models
                           then decodeSegment (segment segments 2) else None)
         in RWorkspace section projectId artifactId)
      else if head = ''transfers'' then RTransfers
      else if head = ''settings'' then RSettings
      else if head = ''preview'' then RPreview
      else RFleet)"

fun routeToHash :: "route \<Rightarrow> string" where
  "routeToHash (RServer serverId tab) =
     ''#/server/'' @ encodeURIComponent serverId @ ''/'' @ tab_name tab"
| "routeToHash (RWorkspace section projectId artifactId) =
     (case (case projectId of Some i \<Rightarrow> Some i | None \<Rightarrow> artifactId) of
        None \<Rightarrow> ''#/workspace/'' @ section_name section
      | Some i \<Rightarrow> ''#/workspace/'' @ section_name section @ ''/'' @ encodeURIComponent i)"
| "routeToHash RTransfers = ''#/transfers''"
| "routeToHash RSettings = ''#/settings''"
| "routeToHash RPreview = ''#/preview''"
| "routeToHash RFleet = ''#/fleet''"

definition FLEET_HASH :: string where
  "FLEET_HASH = ''#/fleet''"

definition WORKSPACE_HASH :: string where
  "WORKSPACE_HASH = ''#/workspace/projects''"

definition TRANSFERS_HASH :: string where
  "TRANSFERS_HASH = ''#/transfers''"

subsection \<open>Printing and parsing\<close>

text \<open>The routes an object id makes sense for: the id is a non-empty well-formed string, and
  only the sections that carry one of the two ids have it.\<close>

definition id_ok :: "string \<Rightarrow> bool" where
  "id_ok i \<longleftrightarrow> i \<noteq> '''' \<and> valid_utf8 i"

fun route_ok :: "route \<Rightarrow> bool" where
  "route_ok (RServer serverId tab) = id_ok serverId"
| "route_ok (RWorkspace section projectId artifactId) =
     ((\<forall>i. projectId = Some i \<longrightarrow> section = Sec_Projects \<and> id_ok i) \<and>
      (\<forall>i. artifactId = Some i \<longrightarrow> (section = Sec_Datasets \<or> section = Sec_Models) \<and> id_ok i))"
| "route_ok _ = True"

lemma tab_lookup [simp]: "map_of SERVER_TABS (tab_name tab) = Some tab"
  by (cases tab) (simp_all add: SERVER_TABS_def tab_name_def)

lemma section_lookup [simp]: "map_of WORKSPACE_SECTIONS (section_name sec) = Some sec"
  by (cases sec) (simp_all add: WORKSPACE_SECTIONS_def section_name_def)

lemma tab_name_no_slash [simp]: "CHR ''/'' \<notin> set (tab_name tab)"
  by (cases tab) (simp_all add: SERVER_TABS_def tab_name_def)

lemma section_name_no_slash [simp]: "CHR ''/'' \<notin> set (section_name sec)"
  by (cases sec) (simp_all add: WORKSPACE_SECTIONS_def section_name_def)

lemma encode_no_slash [simp]: "CHR ''/'' \<notin> set (encodeURIComponent s)"
  using encode_chars by blast

lemma decodeSegment_encode [simp]:
  "id_ok i \<Longrightarrow> decodeSegment (Some (encodeURIComponent i)) = Some i"
  by (simp add: decodeSegment_def id_ok_def decode_encode)

lemma split_path:
  "CHR ''/'' \<notin> set a \<Longrightarrow> split_on (CHR ''/'') (a @ CHR ''/'' # s) = a # split_on (CHR ''/'') s"
  by (rule split_on_append)

lemma id_neq: "id_ok i \<Longrightarrow> i \<noteq> []"
  by (simp add: id_ok_def)

lemma parse_server:
  assumes "id_ok i"
  shows "parseHash (''#/server/'' @ encodeURIComponent i @ ''/'' @ tab_name tab) = RServer i tab"
proof -
  have "split_on (CHR ''/'') (''server/'' @ encodeURIComponent i @ ''/'' @ tab_name tab)
      = [''server'', encodeURIComponent i, tab_name tab]"
    using split_path [of "''server''" "encodeURIComponent i @ ''/'' @ tab_name tab"]
    by (simp add: split_on_append split_on_no_sep)
  then show ?thesis
    using assms by (simp add: parseHash_def segment_or_empty_def segment_def Let_def id_neq)
qed

lemma parse_section:
  "parseHash (''#/workspace/'' @ section_name sec) = RWorkspace sec None None"
proof -
  have "split_on (CHR ''/'') (''workspace/'' @ section_name sec) = [''workspace'', section_name sec]"
    using split_path [of "''workspace''" "section_name sec"] by (simp add: split_on_no_sep)
  then show ?thesis
    by (simp add: parseHash_def segment_or_empty_def segment_def decodeSegment_def Let_def)
qed

lemma parse_object:
  assumes "id_ok i"
  shows "parseHash (''#/workspace/'' @ section_name sec @ ''/'' @ encodeURIComponent i) =
    RWorkspace sec (if sec = Sec_Projects then Some i else None)
      (if sec = Sec_Datasets \<or> sec = Sec_Models then Some i else None)"
proof -
  have "split_on (CHR ''/'') (''workspace/'' @ section_name sec @ ''/'' @ encodeURIComponent i)
      = [''workspace'', section_name sec, encodeURIComponent i]"
    using split_path [of "''workspace''" "section_name sec @ ''/'' @ encodeURIComponent i"]
    by (simp add: split_on_append split_on_no_sep)
  then show ?thesis
    using assms by (simp add: parseHash_def segment_or_empty_def segment_def Let_def)
qed

lemma parse_constant_hashes:
  "parseHash ''#/transfers'' = RTransfers" "parseHash ''#/settings'' = RSettings"
  "parseHash ''#/preview'' = RPreview" "parseHash ''#/fleet'' = RFleet"
  by (simp_all add: parseHash_def segment_or_empty_def segment_def)

lemma parse_print: "route_ok r \<Longrightarrow> parseHash (routeToHash r) = r"
proof (induction r rule: routeToHash.induct)
  case (2 sec projectId artifactId)
  then show ?case
    using parse_section parse_object by (auto split: option.splits)
qed (simp_all add: parse_server [simplified] parse_constant_hashes)

text \<open>The parser only produces such routes.\<close>

lemma decodeSegment_ok:
  "decodeSegment raw = Some i \<Longrightarrow> (\<And>s. raw = Some s \<Longrightarrow> valid_utf8 s) \<Longrightarrow> id_ok i"
  by (auto simp: decodeSegment_def id_ok_def valid_decode decode_Nil_iff split: option.splits if_splits)

lemma strip_hash_valid: "valid_utf8 s \<Longrightarrow> valid_utf8 (strip_hash s)"
  by (cases s rule: strip_hash.cases) (auto simp: byte_def split: list.splits)

lemma segment_valid:
  assumes "valid_utf8 h" "segment (split_on (CHR ''/'') (strip_hash h)) i = Some s"
  shows "valid_utf8 s"
proof -
  have "s \<in> set (split_on (CHR ''/'') (strip_hash h))"
    using assms(2) by (auto simp: segment_def split: if_splits)
  then show ?thesis
    using valid_utf8_split_on [OF strip_hash_valid [OF assms(1)], of "CHR ''/''" s]
    by (simp add: byte_def)
qed

lemma decodeSegment_segment_ok:
  "valid_utf8 h \<Longrightarrow> decodeSegment (segment (split_on (CHR ''/'') (strip_hash h)) n) = Some i \<Longrightarrow> id_ok i"
  using segment_valid decodeSegment_ok by blast

lemma route_ok_parseHash:
  assumes "valid_utf8 h"
  shows "route_ok (parseHash h)"
proof -
  let ?segs = "split_on (CHR ''/'') (strip_hash h)"
  have "id_ok (case decodeSegment (Some (segment_or_empty ?segs (Suc 0))) of
      Some s \<Rightarrow> s | None \<Rightarrow> segment_or_empty ?segs (Suc 0))" if ne: "segment_or_empty ?segs (Suc 0) \<noteq> ''''"
  proof -
    obtain raw where raw: "segment ?segs (Suc 0) = Some raw" "segment_or_empty ?segs (Suc 0) = raw" "raw \<noteq> ''''"
      using ne by (cases "segment ?segs (Suc 0)") (auto simp: segment_or_empty_def)
    then obtain i where i: "decodeSegment (Some raw) = Some i"
      by (cases "decodeURIComponent raw") (auto simp: decodeSegment_def)
    then show ?thesis using decodeSegment_segment_ok [OF assms, of "Suc 0" i] raw by simp
  qed
  then show ?thesis
    by (auto simp: parseHash_def Let_def decodeSegment_segment_ok [OF assms])
qed

lemma parse_print_parse: "valid_utf8 h \<Longrightarrow> parseHash (routeToHash (parseHash h)) = parseHash h"
  by (simp add: parse_print route_ok_parseHash)

subsection \<open>The location hash\<close>

text \<open>
  The setter of \<open>location.hash\<close>: one leading \<open>#\<close> is dropped, tabs and newlines are
  removed and the fragment percent-encode set is encoded; an unchanged fragment fires no event.
\<close>

definition fragment_special :: string where
  "fragment_special = [CHR 0x22, CHR ''<'', CHR ''>'', CHR 0x60]"

definition fragment_char :: "char \<Rightarrow> string" where
  "fragment_char c =
     (if byte c \<le> 32 \<or> 127 \<le> byte c \<or> c \<in> set fragment_special
      then escape c else [c])"

definition normal_hash :: "string \<Rightarrow> string" where
  "normal_hash hash =
     (let body = (case hash of c # t \<Rightarrow> (if c = CHR ''#'' then t else hash) | [] \<Rightarrow> []);
          body = filter (\<lambda>c. byte c \<notin> {9, 10, 13}) body
      in if body = [] then [] else CHR ''#'' # concat (map fragment_char body))"

text \<open>A hash the application prints is stored as it is.\<close>

lemma fragment_char_plain:
  "33 \<le> byte c \<Longrightarrow> byte c \<le> 126 \<Longrightarrow> c \<notin> set fragment_special \<Longrightarrow>
   fragment_char c = [c]"
  by (simp add: fragment_char_def)

definition hash_char :: "char \<Rightarrow> bool" where
  "hash_char c \<longleftrightarrow> 33 \<le> byte c \<and> byte c \<le> 126 \<and> c \<notin> set fragment_special"

lemma normal_hash_plain:
  assumes "body \<noteq> []" "list_all hash_char body"
  shows "normal_hash (CHR ''#'' # body) = CHR ''#'' # body"
proof -
  have plain: "byte c \<notin> {9, 10, 13} \<and> fragment_char c = [c]" if "c \<in> set body" for c
  proof -
    have "hash_char c" using that assms(2) by (simp add: list_all_iff)
    then have c: "33 \<le> byte c" "byte c \<le> 126" "c \<notin> set fragment_special"
      by (simp_all add: hash_char_def)
    then show ?thesis using fragment_char_plain [OF c] by auto
  qed
  then have f: "filter (\<lambda>c. byte c \<notin> {9, 10, 13}) body = body"
    by (intro filter_True) blast
  have m: "map fragment_char body = map (\<lambda>c. [c]) body" using plain by (intro map_cong refl) blast
  have "concat (map (\<lambda>c. [c]) body) = body" by simp
  then show ?thesis using assms(1) unfolding normal_hash_def Let_def by (simp add: f m del: insert_iff)
qed

end
