(* ===== verification/Realtime.thy ===== *)
theory Realtime
  imports Normalize Http
begin

text \<open>
  \<open>services/realtime.ts\<close>: the WebSocket client that keeps one live connection, reconnects
  with exponential backoff and replays the selection. A state is the client object together
  with every socket it created: the handlers close over their own socket, so sockets are named
  by their position in \<open>rc_sockets\<close> and outlive the client's reference to them. Steps are
  the methods and the events the browser delivers; the frames and states handed to listeners
  are logged.
\<close>

datatype realtime_state = RT_Connecting | RT_Live | RT_Reconnecting

text \<open>\<open>readyState\<close>: the code reads only whether it is OPEN.\<close>

datatype ready_state = CONNECTING | OPEN | CLOSING | CLOSED

record realtime_socket =
  sk_readyState :: ready_state
  sk_sent :: "client_frame list"

definition BACKOFF_BASE_MS :: nat where
  "BACKOFF_BASE_MS = 1000"

definition BACKOFF_MAX_MS :: nat where
  "BACKOFF_MAX_MS = 30000"

definition MAX_ATTEMPT :: nat where
  "MAX_ATTEMPT = 10"

definition backoffDelay :: "nat \<Rightarrow> nat" where
  "backoffDelay attempt = min BACKOFF_MAX_MS (BACKOFF_BASE_MS * 2 ^ attempt)"

definition defaultRealtimeUrl :: "string \<Rightarrow> string \<Rightarrow> string" where
  "defaultRealtimeUrl protocol host =
     (let scheme = (if protocol = ''https:'' then ''wss'' else ''ws'')
      in scheme @ ''://'' @ host @ ''/api/v1/realtime'')"

text \<open>
  Listeners are named by numbers; a \<open>Set\<close> keeps each once, in order of insertion. The
  timer holds the delay it was armed with.
\<close>

record realtime_client =
  rc_url :: string
  rc_socket :: "nat option"
  rc_attempt :: nat
  rc_stopped :: bool
  rc_reconnectTimer :: "nat option"
  rc_frameListeners :: "nat list"
  rc_stateListeners :: "nat list"
  rc_intent :: "string option"
  rc_hasIntent :: bool
  rc_sockets :: "realtime_socket list"
  rc_frameLog :: "(nat \<times> server_frame) list"
  rc_stateLog :: "(nat \<times> realtime_state) list"

definition RealtimeClient :: "string option \<Rightarrow> string \<Rightarrow> realtime_client" where
  "RealtimeClient url default_url =
     \<lparr>rc_url = (case url of Some u \<Rightarrow> u | None \<Rightarrow> default_url), rc_socket = None, rc_attempt = 0,
      rc_stopped = True, rc_reconnectTimer = None, rc_frameListeners = [], rc_stateListeners = [],
      rc_intent = None, rc_hasIntent = False, rc_sockets = [], rc_frameLog = [], rc_stateLog = []\<rparr>"

definition set_add :: "'a \<Rightarrow> 'a list \<Rightarrow> 'a list" where
  "set_add x xs = (if x \<in> set xs then xs else xs @ [x])"

definition onFrame :: "nat \<Rightarrow> realtime_client \<Rightarrow> realtime_client" where
  "onFrame listener c = c\<lparr>rc_frameListeners := set_add listener (rc_frameListeners c)\<rparr>"

definition offFrame :: "nat \<Rightarrow> realtime_client \<Rightarrow> realtime_client" where
  "offFrame listener c = c\<lparr>rc_frameListeners := removeAll listener (rc_frameListeners c)\<rparr>"

definition onState :: "nat \<Rightarrow> realtime_client \<Rightarrow> realtime_client" where
  "onState listener c = c\<lparr>rc_stateListeners := set_add listener (rc_stateListeners c)\<rparr>"

definition offState :: "nat \<Rightarrow> realtime_client \<Rightarrow> realtime_client" where
  "offState listener c = c\<lparr>rc_stateListeners := removeAll listener (rc_stateListeners c)\<rparr>"

definition emitState :: "realtime_state \<Rightarrow> realtime_client \<Rightarrow> realtime_client" where
  "emitState state c =
     c\<lparr>rc_stateLog := rc_stateLog c @ map (\<lambda>l. (l, state)) (rc_stateListeners c)\<rparr>"

definition clearTimer :: "realtime_client \<Rightarrow> realtime_client" where
  "clearTimer c = (if rc_reconnectTimer c \<noteq> None then c\<lparr>rc_reconnectTimer := None\<rparr> else c)"

definition scheduleReconnect :: "realtime_client \<Rightarrow> realtime_client" where
  "scheduleReconnect c =
     (let c = clearTimer c;
          delay = backoffDelay (rc_attempt c)
      in c\<lparr>rc_attempt := min (rc_attempt c + 1) MAX_ATTEMPT, rc_reconnectTimer := Some delay\<rparr>)"

text \<open>Reading and writing the socket with number \<open>i\<close>.\<close>

definition ready :: "realtime_client \<Rightarrow> nat \<Rightarrow> ready_state" where
  "ready c i = sk_readyState (rc_sockets c ! i)"

definition set_ready :: "nat \<Rightarrow> ready_state \<Rightarrow> realtime_client \<Rightarrow> realtime_client" where
  "set_ready i r c = c\<lparr>rc_sockets := (rc_sockets c)[i := (rc_sockets c ! i)\<lparr>sk_readyState := r\<rparr>]\<rparr>"

definition socket_send :: "nat \<Rightarrow> client_frame \<Rightarrow> realtime_client \<Rightarrow> realtime_client" where
  "socket_send i frame c =
     c\<lparr>rc_sockets := (rc_sockets c)
         [i := (rc_sockets c ! i)\<lparr>sk_sent := sk_sent (rc_sockets c ! i) @ [frame]\<rparr>]\<rparr>"

text \<open>\<open>close()\<close> moves a socket that is not already closing or closed to CLOSING.\<close>

definition socket_close :: "nat \<Rightarrow> realtime_client \<Rightarrow> realtime_client" where
  "socket_close i c = (if ready c i = CLOSED then c else set_ready i CLOSING c)"

definition send :: "client_frame \<Rightarrow> realtime_client \<Rightarrow> realtime_client" where
  "send frame c =
     (case rc_socket c of
        Some i \<Rightarrow> (if ready c i = OPEN then socket_send i frame c else c)
      | None \<Rightarrow> c)"

text \<open>
  \<open>open()\<close>; \<open>throws\<close> says whether the socket factory throws. A new socket is
  CONNECTING, and its handlers are the \<open>socket_\<dots>\<close> functions below with its number.
\<close>

definition open_socket :: "bool \<Rightarrow> realtime_client \<Rightarrow> realtime_client" where
  "open_socket throws c =
     (if rc_stopped c then c
      else if throws then scheduleReconnect c
      else c\<lparr>rc_socket := Some (length (rc_sockets c)),
             rc_sockets := rc_sockets c @ [\<lparr>sk_readyState = CONNECTING, sk_sent = []\<rparr>]\<rparr>)"

definition start :: "bool \<Rightarrow> realtime_client \<Rightarrow> realtime_client" where
  "start throws c =
     (if \<not> rc_stopped c then c
      else open_socket throws (emitState RT_Connecting (c\<lparr>rc_stopped := False, rc_attempt := 0\<rparr>)))"

definition stop :: "realtime_client \<Rightarrow> realtime_client" where
  "stop c =
     (let c = clearTimer (c\<lparr>rc_stopped := True\<rparr>);
          socket = rc_socket c;
          c = c\<lparr>rc_socket := None\<rparr>
      in case socket of Some i \<Rightarrow> socket_close i c | None \<Rightarrow> c)"

definition sendSelect :: "string option \<Rightarrow> realtime_client \<Rightarrow> realtime_client" where
  "sendSelect serverId c = send (CSelect serverId) (c\<lparr>rc_intent := serverId, rc_hasIntent := True\<rparr>)"

definition sendPing :: "realtime_client \<Rightarrow> realtime_client" where
  "sendPing c = send CPing c"

definition socket_onopen :: "nat \<Rightarrow> realtime_client \<Rightarrow> realtime_client" where
  "socket_onopen i c =
     (if rc_socket c \<noteq> Some i then c
      else (let c = emitState RT_Live (c\<lparr>rc_attempt := 0\<rparr>)
            in if rc_hasIntent c then send (CSelect (rc_intent c)) c else c))"

text \<open>A message's data is a text or something else (a blob).\<close>

definition parse_message :: "js_runtime \<Rightarrow> string option \<Rightarrow> server_frame option" where
  "parse_message rt data =
     (case data of
        None \<Rightarrow> None
      | Some text \<Rightarrow>
          (case rt_json_parse rt text of None \<Rightarrow> None | Some raw \<Rightarrow> normalizeFrame (Some raw)))"

definition socket_onmessage :: "js_runtime \<Rightarrow> string option \<Rightarrow> realtime_client \<Rightarrow> realtime_client" where
  "socket_onmessage rt data c =
     (case parse_message rt data of
        None \<Rightarrow> c
      | Some frame \<Rightarrow>
          c\<lparr>rc_frameLog := rc_frameLog c @ map (\<lambda>l. (l, frame)) (rc_frameListeners c)\<rparr>)"

definition socket_onclose :: "nat \<Rightarrow> realtime_client \<Rightarrow> realtime_client" where
  "socket_onclose i c =
     (if rc_socket c \<noteq> Some i then c
      else (let c = c\<lparr>rc_socket := None\<rparr>
            in if \<not> rc_stopped c then scheduleReconnect (emitState RT_Reconnecting c) else c))"

definition timer_fired :: "bool \<Rightarrow> realtime_client \<Rightarrow> realtime_client" where
  "timer_fired throws c = open_socket throws (c\<lparr>rc_reconnectTimer := None\<rparr>)"

subsection \<open>The step relation\<close>

text \<open>
  Methods can be called at any time. The browser opens a CONNECTING socket, delivers a message
  of an OPEN one, starts to close a live one, closes any that is not yet closed, and fires an
  armed timer; it sets \<open>readyState\<close> before it calls the handler.
\<close>

datatype realtime_event =
    EvStart bool
  | EvStop
  | EvSelect "string option"
  | EvPing
  | EvOnFrame nat
  | EvOffFrame nat
  | EvOnState nat
  | EvOffState nat
  | EvOpened nat
  | EvMessage nat "string option"
  | EvClosing nat
  | EvClosed nat
  | EvTimer bool

fun rt_enabled :: "realtime_event \<Rightarrow> realtime_client \<Rightarrow> bool" where
  "rt_enabled (EvOpened i) c = (i < length (rc_sockets c) \<and> ready c i = CONNECTING)"
| "rt_enabled (EvMessage i data) c = (i < length (rc_sockets c) \<and> ready c i = OPEN)"
| "rt_enabled (EvClosing i) c = (i < length (rc_sockets c) \<and> (ready c i = OPEN \<or> ready c i = CONNECTING))"
| "rt_enabled (EvClosed i) c = (i < length (rc_sockets c) \<and> ready c i \<noteq> CLOSED)"
| "rt_enabled (EvTimer throws) c = (rc_reconnectTimer c \<noteq> None)"
| "rt_enabled _ c = True"

fun rt_apply :: "js_runtime \<Rightarrow> realtime_event \<Rightarrow> realtime_client \<Rightarrow> realtime_client" where
  "rt_apply rt (EvStart throws) c = start throws c"
| "rt_apply rt EvStop c = stop c"
| "rt_apply rt (EvSelect s) c = sendSelect s c"
| "rt_apply rt EvPing c = sendPing c"
| "rt_apply rt (EvOnFrame l) c = onFrame l c"
| "rt_apply rt (EvOffFrame l) c = offFrame l c"
| "rt_apply rt (EvOnState l) c = onState l c"
| "rt_apply rt (EvOffState l) c = offState l c"
| "rt_apply rt (EvOpened i) c = socket_onopen i (set_ready i OPEN c)"
| "rt_apply rt (EvMessage i data) c = socket_onmessage rt data c"
| "rt_apply rt (EvClosing i) c = set_ready i CLOSING c"
| "rt_apply rt (EvClosed i) c = socket_onclose i (set_ready i CLOSED c)"
| "rt_apply rt (EvTimer throws) c = timer_fired throws c"

inductive rt_step :: "js_runtime \<Rightarrow> realtime_client \<Rightarrow> realtime_event \<Rightarrow> realtime_client \<Rightarrow> bool"
  for rt :: js_runtime where
  rt_stepI: "rt_enabled e c \<Longrightarrow> rt_step rt c e (rt_apply rt e c)"

inductive_cases rt_stepE: "rt_step rt c e c'"

inductive rt_reach :: "js_runtime \<Rightarrow> string \<Rightarrow> realtime_client \<Rightarrow> bool"
  for rt :: js_runtime and url :: string where
  rt_init: "rt_reach rt url (RealtimeClient None url)"
| rt_next: "rt_reach rt url c \<Longrightarrow> rt_step rt c e c' \<Longrightarrow> rt_reach rt url c'"

subsection \<open>The invariant\<close>

fun last_select :: "client_frame list \<Rightarrow> string option option" where
  "last_select [] = None"
| "last_select (f # fs) =
     (case last_select fs of
        Some s \<Rightarrow> Some s
      | None \<Rightarrow> (case f of CSelect s \<Rightarrow> Some s | CPing \<Rightarrow> None))"

lemma last_select_snoc [simp]:
  "last_select (fs @ [f]) = (case f of CSelect s \<Rightarrow> Some s | CPing \<Rightarrow> last_select fs)"
  by (induction fs) (auto split: client_frame.splits option.splits)

definition sent :: "realtime_client \<Rightarrow> nat \<Rightarrow> client_frame list" where
  "sent c i = sk_sent (rc_sockets c ! i)"

definition live :: "ready_state \<Rightarrow> bool" where
  "live r \<longleftrightarrow> r = CONNECTING \<or> r = OPEN"

definition inv_socket :: "realtime_client \<Rightarrow> bool" where
  "inv_socket c \<longleftrightarrow>
     (case rc_socket c of None \<Rightarrow> True | Some i \<Rightarrow> i < length (rc_sockets c) \<and> ready c i \<noteq> CLOSED)
     \<and> (\<forall>i < length (rc_sockets c). live (ready c i) \<longrightarrow> rc_socket c = Some i)"

definition inv_progress :: "realtime_client \<Rightarrow> bool" where
  "inv_progress c \<longleftrightarrow>
     (if rc_stopped c then rc_socket c = None \<and> rc_reconnectTimer c = None
      else (rc_socket c = None) \<noteq> (rc_reconnectTimer c = None))"

definition inv_backoff :: "realtime_client \<Rightarrow> bool" where
  "inv_backoff c \<longleftrightarrow>
     rc_attempt c \<le> MAX_ATTEMPT
     \<and> (case rc_reconnectTimer c of None \<Rightarrow> True
        | Some d \<Rightarrow> BACKOFF_BASE_MS \<le> d \<and> d \<le> BACKOFF_MAX_MS)"

definition inv_intent :: "realtime_client \<Rightarrow> bool" where
  "inv_intent c \<longleftrightarrow>
     (case rc_socket c of None \<Rightarrow> True
      | Some i \<Rightarrow> ready c i = OPEN \<longrightarrow> rc_hasIntent c \<longrightarrow> last_select (sent c i) = Some (rc_intent c))"

definition inv_listeners :: "realtime_client \<Rightarrow> bool" where
  "inv_listeners c \<longleftrightarrow> distinct (rc_frameListeners c) \<and> distinct (rc_stateListeners c)"

definition rt_inv :: "realtime_client \<Rightarrow> bool" where
  "rt_inv c \<longleftrightarrow> inv_socket c \<and> inv_progress c \<and> inv_backoff c \<and> inv_intent c \<and> inv_listeners c"

lemmas rt_inv_defs = rt_inv_def inv_socket_def inv_progress_def inv_backoff_def inv_intent_def
  inv_listeners_def

lemmas rt_ops = onFrame_def offFrame_def onState_def offState_def emitState_def clearTimer_def
  scheduleReconnect_def set_ready_def socket_send_def socket_close_def send_def
  open_socket_def start_def stop_def sendSelect_def sendPing_def socket_onopen_def
  socket_onmessage_def socket_onclose_def timer_fired_def ready_def sent_def Let_def

lemma backoffDelay_ge: "BACKOFF_BASE_MS \<le> backoffDelay n"
  by (simp add: backoffDelay_def BACKOFF_BASE_MS_def BACKOFF_MAX_MS_def)

lemma backoffDelay_le: "backoffDelay n \<le> BACKOFF_MAX_MS"
  by (simp add: backoffDelay_def)

lemma backoffDelay_mono: "m \<le> n \<Longrightarrow> backoffDelay m \<le> backoffDelay n"
  by (auto simp: backoffDelay_def BACKOFF_BASE_MS_def power_increasing min_le_iff_disj)


text \<open>
  A frame sent is appended to the socket's log and changes nothing else; each operation keeps
  the invariant.
\<close>

lemma length_sockets_send [simp]: "length (rc_sockets (send f c)) = length (rc_sockets c)"
  by (auto simp: rt_ops split: option.splits)

lemma send_same [simp]:
  "rc_socket (send f c) = rc_socket c" "rc_stopped (send f c) = rc_stopped c"
  "rc_reconnectTimer (send f c) = rc_reconnectTimer c" "rc_attempt (send f c) = rc_attempt c"
  "rc_intent (send f c) = rc_intent c" "rc_hasIntent (send f c) = rc_hasIntent c"
  "rc_frameListeners (send f c) = rc_frameListeners c"
  "rc_stateListeners (send f c) = rc_stateListeners c"
  "rc_frameLog (send f c) = rc_frameLog c" "rc_stateLog (send f c) = rc_stateLog c"
  by (auto simp: rt_ops split: option.splits)

lemma nth_update_fields:
  "sk_readyState (xs[j := (xs ! j)\<lparr>sk_sent := y\<rparr>] ! i) = sk_readyState (xs ! i)"
  "sk_sent (xs[j := (xs ! j)\<lparr>sk_sent := y\<rparr>] ! i) =
     (if i = j \<and> j < length xs then y else sk_sent (xs ! i))"
  by (cases "j < length xs"; cases "i = j"; simp add: list_update_beyond)+

lemma ready_send [simp]: "ready (send f c) i = ready c i"
  by (auto simp: send_def socket_send_def ready_def nth_update_fields split: option.splits)

lemma sent_send:
  "i < length (rc_sockets c) \<Longrightarrow>
   sent (send f c) i = (if rc_socket c = Some i \<and> ready c i = OPEN then sent c i @ [f] else sent c i)"
  by (auto simp: send_def socket_send_def sent_def nth_update_fields split: option.splits)

lemma ready_set_ready:
  "i < length (rc_sockets c) \<Longrightarrow> ready (set_ready i r c) j = (if j = i then r else ready c j)"
  by (auto simp: set_ready_def ready_def nth_list_update)

lemma sent_set_ready [simp]: "i < length (rc_sockets c) \<Longrightarrow> sent (set_ready i r c) j = sent c j"
  by (auto simp: set_ready_def sent_def nth_list_update)

lemma set_ready_same [simp]:
  "rc_socket (set_ready i r c) = rc_socket c" "rc_stopped (set_ready i r c) = rc_stopped c"
  "rc_reconnectTimer (set_ready i r c) = rc_reconnectTimer c"
  "rc_attempt (set_ready i r c) = rc_attempt c" "rc_intent (set_ready i r c) = rc_intent c"
  "rc_hasIntent (set_ready i r c) = rc_hasIntent c"
  "rc_frameListeners (set_ready i r c) = rc_frameListeners c"
  "rc_stateListeners (set_ready i r c) = rc_stateListeners c"
  "rc_frameLog (set_ready i r c) = rc_frameLog c" "rc_stateLog (set_ready i r c) = rc_stateLog c"
  "length (rc_sockets (set_ready i r c)) = length (rc_sockets c)"
  by (simp_all add: set_ready_def)

lemma rt_inv_send:
  assumes "rt_inv c" and "\<And>s. f = CSelect s \<Longrightarrow> s = rc_intent c"
  shows "rt_inv (send f c)"
  using assms by (auto simp: rt_inv_defs sent_send split: option.splits client_frame.splits)

lemma rt_inv_sendPing: "rt_inv c \<Longrightarrow> rt_inv (sendPing c)"
  unfolding sendPing_def by (rule rt_inv_send) simp_all

lemma rt_inv_sendSelect:
  assumes "rt_inv c"
  shows "rt_inv (sendSelect s c)"
proof -
  let ?c = "c\<lparr>rc_intent := s, rc_hasIntent := True\<rparr>"
  have r: "ready ?c i = ready c i" "sent ?c i = sent c i" for i by (simp_all add: ready_def sent_def)
  show ?thesis
    using assms unfolding sendSelect_def
    by (auto simp: rt_inv_defs sent_send r split: option.splits)
qed

lemma rt_inv_listener_ops:
  assumes "rt_inv c"
  shows "rt_inv (onFrame l c)" "rt_inv (offFrame l c)" "rt_inv (onState l c)" "rt_inv (offState l c)"
  using assms by (auto simp: rt_inv_defs rt_ops set_add_def distinct_removeAll split: option.splits)

lemma rt_inv_emitState [simp]: "rt_inv (emitState s c) = rt_inv c"
  by (cases "rc_socket c") (simp_all add: rt_inv_defs rt_ops)

lemma rt_inv_log [simp]: "rt_inv (c\<lparr>rc_frameLog := x\<rparr>) = rt_inv c"
  by (cases "rc_socket c") (simp_all add: rt_inv_defs ready_def sent_def)

lemma rt_inv_onmessage: "rt_inv c \<Longrightarrow> rt_inv (socket_onmessage rt data c)"
  by (simp add: socket_onmessage_def split: option.splits)

lemma backoff_bounds [simp]:
  "BACKOFF_BASE_MS \<le> backoffDelay n" "backoffDelay n \<le> BACKOFF_MAX_MS"
  by (rule backoffDelay_ge, rule backoffDelay_le)

text \<open>Opening keeps the invariant of a running client that has neither socket nor timer.\<close>

lemma rt_inv_open:
  assumes s: "\<not> rc_stopped c" "rc_socket c = None" "rc_reconnectTimer c = None"
    and i: "inv_socket c" "rc_attempt c \<le> MAX_ATTEMPT" "inv_listeners c"
  shows "rt_inv (open_socket throws c)"
proof (cases throws)
  case True
  then show ?thesis using assms
    by (auto simp: open_socket_def rt_inv_defs scheduleReconnect_def clearTimer_def ready_def Let_def)
next
  case False
  then show ?thesis using assms
    by (auto simp: open_socket_def rt_inv_defs ready_def nth_append live_def less_Suc_eq)
qed

lemma rt_inv_start:
  assumes "rt_inv c"
  shows "rt_inv (start throws c)"
proof (cases "rc_stopped c")
  case True
  then have "rc_socket c = None" "rc_reconnectTimer c = None" using assms by (simp_all add: rt_inv_defs)
  then show ?thesis using assms True unfolding start_def
    by (simp, intro rt_inv_open) (simp_all add: rt_inv_defs emitState_def ready_def)
qed (simp add: start_def assms)

lemma rt_inv_timer:
  assumes "rt_inv c" "rc_reconnectTimer c \<noteq> None"
  shows "rt_inv (timer_fired throws c)"
proof -
  have "\<not> rc_stopped c" "rc_socket c = None" using assms by (auto simp: rt_inv_defs split: if_splits)
  then show ?thesis using assms(1) unfolding timer_fired_def
    by (intro rt_inv_open) (simp_all add: rt_inv_defs ready_def)
qed

lemma rt_inv_stop: "rt_inv c \<Longrightarrow> rt_inv (stop c)"
  by (cases "rc_socket c")
    (auto simp: rt_inv_defs stop_def clearTimer_def socket_close_def set_ready_def ready_def
      nth_list_update live_def Let_def split: if_splits)

lemma live_current:
  "rt_inv c \<Longrightarrow> i < length (rc_sockets c) \<Longrightarrow> live (ready c i) \<Longrightarrow>
   rc_socket c = Some i \<and> \<not> rc_stopped c \<and> rc_reconnectTimer c = None"
  by (auto simp: rt_inv_def inv_socket_def inv_progress_def split: if_splits)

lemma rt_inv_parts:
  "rt_inv c \<Longrightarrow> rc_attempt c \<le> MAX_ATTEMPT"
  "rt_inv c \<Longrightarrow> inv_listeners c"
  "rt_inv c \<Longrightarrow> rc_socket c = Some i \<Longrightarrow> i < length (rc_sockets c) \<and> ready c i \<noteq> CLOSED"
  "rt_inv c \<Longrightarrow> rc_socket c = Some i \<Longrightarrow> ready c i = OPEN \<Longrightarrow> rc_hasIntent c \<Longrightarrow>
   last_select (sent c i) = Some (rc_intent c)"
  "rt_inv c \<Longrightarrow> j < length (rc_sockets c) \<Longrightarrow> rc_socket c \<noteq> Some j \<Longrightarrow> \<not> live (ready c j)"
  "rt_inv c \<Longrightarrow> rc_socket c = Some i \<Longrightarrow> \<not> rc_stopped c \<and> rc_reconnectTimer c = None"
  by (auto simp: rt_inv_def inv_socket_def inv_backoff_def inv_intent_def inv_progress_def split: if_splits)

lemma rt_inv_runningI:
  assumes "rc_socket c = Some i" "i < length (rc_sockets c)" "ready c i \<noteq> CLOSED"
    and "\<And>j. j < length (rc_sockets c) \<Longrightarrow> j \<noteq> i \<Longrightarrow> \<not> live (ready c j)"
    and "\<not> rc_stopped c" "rc_reconnectTimer c = None" "rc_attempt c \<le> MAX_ATTEMPT"
    and "ready c i = OPEN \<Longrightarrow> rc_hasIntent c \<Longrightarrow> last_select (sent c i) = Some (rc_intent c)"
    and "inv_listeners c"
  shows "rt_inv c"
  using assms by (auto simp: rt_inv_def inv_socket_def inv_progress_def inv_backoff_def inv_intent_def)

lemma rt_inv_waitingI:
  assumes "rc_socket c = None" "\<And>j. j < length (rc_sockets c) \<Longrightarrow> \<not> live (ready c j)"
    and "\<not> rc_stopped c" "rc_reconnectTimer c = Some d" "rc_attempt c \<le> MAX_ATTEMPT"
    and "BACKOFF_BASE_MS \<le> d" "d \<le> BACKOFF_MAX_MS" "inv_listeners c"
  shows "rt_inv c"
  using assms by (auto simp: rt_inv_def inv_socket_def inv_progress_def inv_backoff_def inv_intent_def)

lemma rt_inv_closing:
  assumes "rt_inv c" "i < length (rc_sockets c)" "live (ready c i)"
  shows "rt_inv (set_ready i CLOSING c)"
proof -
  note cur = live_current [OF assms]
  show ?thesis
    by (rule rt_inv_runningI [of _ i])
      (use cur assms in \<open>auto simp: ready_set_ready rt_inv_parts inv_listeners_def
        dest: rt_inv_parts(2)\<close>)
qed

lemma rt_inv_opened:
  assumes "rt_inv c" "i < length (rc_sockets c)" "ready c i = CONNECTING"
  shows "rt_inv (socket_onopen i (set_ready i OPEN c))"
proof -
  have cur: "rc_socket c = Some i" "\<not> rc_stopped c" "rc_reconnectTimer c = None"
    using live_current [OF assms(1,2)] assms(3) by (simp_all add: live_def)
  define d where "d = emitState RT_Live (set_ready i OPEN c\<lparr>rc_attempt := 0\<rparr>)"
  have d: "rc_socket d = Some i" "length (rc_sockets d) = length (rc_sockets c)"
    "rc_attempt d = 0" "rc_stopped d = rc_stopped c" "rc_reconnectTimer d = None"
    using cur by (simp_all add: d_def emitState_def)
  have l: "inv_listeners d"
    using rt_inv_parts(2) [OF assms(1)] by (simp add: d_def emitState_def inv_listeners_def)
  have r: "ready d j = (if j = i then OPEN else ready c j)" for j
    using ready_set_ready [OF assms(2)] by (simp add: d_def emitState_def ready_def)
  have o: "\<And>j. j < length (rc_sockets c) \<Longrightarrow> j \<noteq> i \<Longrightarrow> \<not> live (ready c j)"
    using rt_inv_parts(5) [OF assms(1)] cur by auto
  have e: "socket_onopen i (set_ready i OPEN c) =
      (if rc_hasIntent d then send (CSelect (rc_intent d)) d else d)"
    using cur by (simp add: socket_onopen_def d_def Let_def)
  show ?thesis unfolding e
    by (rule rt_inv_runningI [of _ i])
      (use assms(2) cur d l r o in \<open>auto simp: sent_send inv_listeners_def split: if_splits\<close>)
qed

lemma rt_inv_closed:
  assumes "rt_inv c" "i < length (rc_sockets c)"
  shows "rt_inv (socket_onclose i (set_ready i CLOSED c))"
proof (cases "rc_socket c = Some i")
  case True
  define d where "d = socket_onclose i (set_ready i CLOSED c)"
  have run: "\<not> rc_stopped c" using rt_inv_parts(6) [OF assms(1) True] by simp
  then have d: "rc_socket d = None" "\<not> rc_stopped d"
    "rc_reconnectTimer d = Some (backoffDelay (rc_attempt c))" "rc_attempt d \<le> MAX_ATTEMPT"
    "length (rc_sockets d) = length (rc_sockets c)"
    using True by (simp_all add: d_def socket_onclose_def Let_def emitState_def
        scheduleReconnect_def clearTimer_def)
  have r: "ready d j = (if j = i then CLOSED else ready c j)" for j
    using True run ready_set_ready [OF assms(2)]
    by (simp add: d_def socket_onclose_def Let_def emitState_def scheduleReconnect_def
        clearTimer_def ready_def)
  have l: "inv_listeners d"
    using True run rt_inv_parts(2) [OF assms(1)]
    by (simp add: d_def socket_onclose_def Let_def emitState_def scheduleReconnect_def
        clearTimer_def inv_listeners_def)
  have o: "\<not> live (ready d j)" if j: "j < length (rc_sockets d)" for j
    using rt_inv_parts(5) [OF assms(1), of j] True j d(5) r by (auto simp: live_def)
  show ?thesis unfolding d_def [symmetric]
    by (rule rt_inv_waitingI) (use d l o in auto)
next
  case False
  have e: "socket_onclose i (set_ready i CLOSED c) = set_ready i CLOSED c"
    using False by (simp add: socket_onclose_def)
  show ?thesis
  proof (cases "rc_socket c")
    case None
    then show ?thesis unfolding e using assms
      by (auto simp: rt_inv_def inv_socket_def inv_progress_def inv_backoff_def inv_intent_def
          inv_listeners_def ready_set_ready live_def)
  next
    case (Some k)
    note cur = rt_inv_parts(3,6) [OF assms(1) Some]
    show ?thesis unfolding e
      by (rule rt_inv_runningI [of _ k])
        (use Some False assms cur in \<open>auto simp: ready_set_ready live_def inv_listeners_def
          dest: rt_inv_parts(1,2,4,5)\<close>)
  qed
qed

theorem rt_inv_step: "rt_inv c \<Longrightarrow> rt_step rt c e c' \<Longrightarrow> rt_inv c'"
  by (erule rt_stepE, cases e)
    (auto
      simp: rt_inv_start rt_inv_stop rt_inv_sendSelect rt_inv_sendPing rt_inv_listener_ops
        rt_inv_opened rt_inv_onmessage rt_inv_closing live_def rt_inv_closed rt_inv_timer)

lemma rt_inv_init: "rt_inv (RealtimeClient url d)"
  by (simp add: RealtimeClient_def rt_inv_defs)

lemma rt_inv_reach: "rt_reach rt url c \<Longrightarrow> rt_inv c"
  by (induction rule: rt_reach.induct) (auto intro: rt_inv_init rt_inv_step)

subsection \<open>Consequences\<close>

text \<open>Every message that reaches a listener comes from the socket the client holds.\<close>

lemma message_current:
  "rt_inv c \<Longrightarrow> rt_enabled (EvMessage i data) c \<Longrightarrow> rc_socket c = Some i \<and> \<not> rc_stopped c"
  by (auto simp: rt_inv_defs live_def split: if_splits)

text \<open>A stopped client stays silent until it is started again.\<close>

lemma stopped_silent:
  assumes "rt_inv c" "rc_stopped c" "rt_step rt c e c'" "\<forall>b. e \<noteq> EvStart b"
  shows "rc_stopped c' \<and> rc_frameLog c' = rc_frameLog c \<and> rc_stateLog c' = rc_stateLog c
         \<and> length (rc_sockets c') = length (rc_sockets c)"
proof -
  have s: "rc_socket c = None" "rc_reconnectTimer c = None"
    using assms(1,2) by (simp_all add: rt_inv_defs)
  have "c' = rt_apply rt e c" "rt_enabled e c" using assms(3) by (auto elim: rt_stepE)
  with s assms show ?thesis
    using message_current [of c]
    by (cases e) (auto simp: stop_def clearTimer_def sendSelect_def sendPing_def onFrame_def
        offFrame_def onState_def offState_def socket_onopen_def socket_onclose_def send_def)
qed

text \<open>
  One more failed connection attempt of a client waiting on its timer: the factory throws, or
  the socket it returns is closed before it opens.
\<close>

definition failed_attempt :: "bool \<Rightarrow> realtime_client \<Rightarrow> realtime_client" where
  "failed_attempt throws c =
     (if throws then timer_fired True c
      else (let i = length (rc_sockets c); c = timer_fired False c
            in socket_onclose i (set_ready i CLOSED c)))"

lemma failed_attempt_step:
  assumes "\<not> rc_stopped c" "rc_socket c = None"
  shows "\<not> rc_stopped (failed_attempt throws c) \<and> rc_socket (failed_attempt throws c) = None
         \<and> rc_attempt (failed_attempt throws c) = min (rc_attempt c + 1) MAX_ATTEMPT
         \<and> rc_reconnectTimer (failed_attempt throws c) = Some (backoffDelay (rc_attempt c))"
  using assms
  by (auto simp: failed_attempt_def timer_fired_def open_socket_def scheduleReconnect_def
      clearTimer_def socket_onclose_def emitState_def set_ready_def Let_def)

lemma backoffDelay_saturates: "backoffDelay (min n MAX_ATTEMPT) = backoffDelay n"
proof (cases "n \<le> MAX_ATTEMPT")
  case False
  then have "10 \<le> n" by (simp add: MAX_ATTEMPT_def)
  then have "(2::nat) ^ 10 \<le> 2 ^ n" by (rule power_increasing) simp
  then have "30000 \<le> 1000 * (2::nat) ^ n" by simp
  then show ?thesis using False
    by (simp add: backoffDelay_def BACKOFF_BASE_MS_def BACKOFF_MAX_MS_def MAX_ATTEMPT_def min_def)
qed (simp add: min_def)

lemma failed_attempts_delay:
  assumes "\<not> rc_stopped c" "rc_socket c = None" "rc_attempt c = min a MAX_ATTEMPT"
  shows "rc_attempt (fold failed_attempt ts c) = min (a + length ts) MAX_ATTEMPT
         \<and> (ts \<noteq> [] \<longrightarrow> rc_reconnectTimer (fold failed_attempt ts c) =
              Some (min BACKOFF_MAX_MS (BACKOFF_BASE_MS * 2 ^ (a + length ts - 1))))"
  using assms
proof (induction ts arbitrary: c a)
  case (Cons t ts)
  note step = failed_attempt_step [OF Cons.prems(1,2), of t]
  have "rc_attempt (failed_attempt t c) = min (Suc a) MAX_ATTEMPT" 
    using step Cons.prems(3) by simp
  note ih = Cons.IH [OF _ _ this]
  show ?case
  proof (cases ts)
    case Nil
    then show ?thesis using step Cons.prems(3) backoffDelay_saturates [of a]
      by (simp add: backoffDelay_def)
  next
    case (Cons t' ts')
    then show ?thesis using ih step by simp
  qed
qed simp

text \<open>
  The interface the store relies on: a channel that keeps the last selection it was given,
  whatever the network does, and whose open connection has been told exactly that selection.
\<close>

locale select_channel =
  fixes sel :: "string option \<Rightarrow> 'c \<Rightarrow> 'c"
    and env :: "'c \<Rightarrow> 'c \<Rightarrow> bool"
    and inv :: "'c \<Rightarrow> bool"
    and intent :: "'c \<Rightarrow> string option option"
    and is_open :: "'c \<Rightarrow> bool"
    and told :: "'c \<Rightarrow> string option option"
  assumes sel_inv: "inv c \<Longrightarrow> inv (sel s c)"
    and sel_intent: "intent (sel s c) = Some s"
    and env_inv: "env c c' \<Longrightarrow> inv c \<Longrightarrow> inv c'"
    and env_intent: "env c c' \<Longrightarrow> intent c' = intent c"
    and open_told: "inv c \<Longrightarrow> is_open c \<Longrightarrow> intent c = Some s \<Longrightarrow> told c = Some s"
begin

lemma env_star: "env\<^sup>*\<^sup>* c c' \<Longrightarrow> inv c \<Longrightarrow> inv c' \<and> intent c' = intent c"
  by (induction rule: rtranclp_induct) (auto simp: env_inv env_intent)

lemma told_after_select:
  "inv c \<Longrightarrow> env\<^sup>*\<^sup>* (sel s c) c' \<Longrightarrow> is_open c' \<Longrightarrow> told c' = Some s"
  using env_star [of "sel s c" c'] by (simp add: sel_inv sel_intent open_told)

end

definition rt_intent :: "realtime_client \<Rightarrow> string option option" where
  "rt_intent c = (if rc_hasIntent c then Some (rc_intent c) else None)"

definition rt_open :: "realtime_client \<Rightarrow> bool" where
  "rt_open c = (case rc_socket c of None \<Rightarrow> False | Some i \<Rightarrow> ready c i = OPEN)"

definition rt_told :: "realtime_client \<Rightarrow> string option option" where
  "rt_told c = (case rc_socket c of None \<Rightarrow> None | Some i \<Rightarrow> last_select (sent c i))"

fun is_select :: "realtime_event \<Rightarrow> bool" where
  "is_select (EvSelect s) = True"
| "is_select _ = False"

definition rt_env :: "js_runtime \<Rightarrow> realtime_client \<Rightarrow> realtime_client \<Rightarrow> bool" where
  "rt_env rt c c' \<longleftrightarrow> (\<exists>e. \<not> is_select e \<and> rt_step rt c e c')"

lemma rt_intent_apply: "\<not> is_select e \<Longrightarrow> rt_intent (rt_apply rt e c) = rt_intent c"
  by (cases e)
    (auto simp: rt_intent_def start_def stop_def clearTimer_def sendPing_def onFrame_def
      offFrame_def onState_def offState_def socket_onopen_def socket_onmessage_def
      socket_onclose_def timer_fired_def open_socket_def scheduleReconnect_def emitState_def
      socket_close_def Let_def split: option.splits)

interpretation realtime: select_channel sendSelect "rt_env rt" rt_inv rt_intent rt_open rt_told
proof (unfold_locales, goal_cases)
  case (3 c c') then show ?case unfolding rt_env_def using rt_inv_step by blast
next
  case (4 c c') then show ?case by (auto simp: rt_env_def rt_intent_apply elim: rt_stepE)
next
  case (5 c s) then show ?case
    by (auto simp: rt_inv_defs rt_intent_def rt_open_def rt_told_def split: option.splits if_splits)
qed (simp_all add: rt_inv_sendSelect, simp add: sendSelect_def rt_intent_def)

end
