(* ===== verification/Connection.thy ===== *)
theory Connection
  imports Realtime
begin

text \<open>
  What the realtime client promises its status listeners: an abstract machine of five states that
  knows nothing of sockets, timers and attempts, the abstraction of a client to it, and the
  simulation that shows that every step of the client is a step of the machine or changes
  nothing the machine sees.
\<close>

subsection \<open>The abstract machine\<close>

datatype connection = Cn_Stopped | Cn_Opening | Cn_Live | Cn_Closing | Cn_Waiting

text \<open>A state of the machine: the connection and what a listener was told last.\<close>

type_synonym connection_view = "connection \<times> realtime_state option"

inductive connection_step :: "connection_view \<Rightarrow> connection_view \<Rightarrow> bool" where
  cn_start: "k \<in> {Cn_Opening, Cn_Waiting} \<Longrightarrow> connection_step (Cn_Stopped, x) (k, Some RT_Connecting)"
| cn_opened: "connection_step (Cn_Opening, x) (Cn_Live, Some RT_Live)"
| cn_closing: "k \<in> {Cn_Opening, Cn_Live} \<Longrightarrow> connection_step (k, x) (Cn_Closing, x)"
| cn_closed:
    "k \<in> {Cn_Opening, Cn_Live, Cn_Closing} \<Longrightarrow> connection_step (k, x) (Cn_Waiting, Some RT_Reconnecting)"
| cn_retry: "connection_step (Cn_Waiting, x) (Cn_Opening, x)"
| cn_stop: "connection_step (k, x) (Cn_Stopped, x)"

inductive_cases connection_stepE: "connection_step (k, x) (k', x')"

text \<open>
  A listener that was told nothing before the start believes the connection live only while there
  is one, open or about to close, or after the client was stopped.
\<close>

fun belief_ok :: "connection_view \<Rightarrow> bool" where
  "belief_ok (Cn_Stopped, x) = True"
| "belief_ok (Cn_Live, x) = (x = Some RT_Live)"
| "belief_ok (Cn_Closing, x) = (x \<noteq> None)"
| "belief_ok (Cn_Opening, x) = (x = Some RT_Connecting \<or> x = Some RT_Reconnecting)"
| "belief_ok (Cn_Waiting, x) = (x = Some RT_Connecting \<or> x = Some RT_Reconnecting)"

lemma belief_step: "connection_step (k, x) (k', x') \<Longrightarrow> belief_ok (k, x) \<Longrightarrow> belief_ok (k', x')"
  by (erule connection_stepE) auto

subsection \<open>The abstraction\<close>

definition connection :: "realtime_client \<Rightarrow> connection" where
  "connection c =
     (if rc_stopped c then Cn_Stopped
      else
        (case rc_socket c of
           None \<Rightarrow> Cn_Waiting
         | Some i \<Rightarrow>
             (case ready c i of
                CONNECTING \<Rightarrow> Cn_Opening
              | OPEN \<Rightarrow> Cn_Live
              | CLOSING \<Rightarrow> Cn_Closing
              | CLOSED \<Rightarrow> Cn_Waiting)))"

definition heard :: "nat \<Rightarrow> realtime_client \<Rightarrow> realtime_state option" where
  "heard l c =
     (let told = filter (\<lambda>p. fst p = l) (rc_stateLog c)
      in if told = [] then None else Some (snd (last told)))"

definition connection_view :: "nat \<Rightarrow> realtime_client \<Rightarrow> connection_view" where
  "connection_view l c = (connection c, heard l c)"

lemma filter_told: "filter (\<lambda>p. fst p = l) (map (\<lambda>l. (l, s)) ls) = replicate (count_list ls l) (l, s)"
  by (induction ls) auto

lemma heard_emit: "l \<in> set (rc_stateListeners c) \<Longrightarrow> heard l (emitState s c) = Some s"
proof -
  assume "l \<in> set (rc_stateListeners c)"
  then obtain n where "count_list (rc_stateListeners c) l = Suc n"
    by (metis count_list_0_iff not0_implies_Suc)
  then show ?thesis
    by (simp add: heard_def emitState_def filter_told Let_def del: replicate.simps)
qed

lemma heard_cong: "rc_stateLog d = rc_stateLog c \<Longrightarrow> heard l d = heard l c"
  by (simp add: heard_def)

lemma connection_cong:
  "rc_stopped d = rc_stopped c \<Longrightarrow> rc_socket d = rc_socket c \<Longrightarrow>
   (\<And>i. rc_socket c = Some i \<Longrightarrow> ready d i = ready c i) \<Longrightarrow> connection d = connection c"
  by (cases "rc_socket c") (simp_all add: connection_def)

definition refines_step :: "nat \<Rightarrow> realtime_client \<Rightarrow> realtime_client \<Rightarrow> bool" where
  "refines_step l c d \<longleftrightarrow>
     connection_view l d = connection_view l c \<or>
     connection_step (connection_view l c) (connection_view l d)"

lemma refines_stutter:
  assumes "rc_stopped d = rc_stopped c" "rc_socket d = rc_socket c" "rc_stateLog d = rc_stateLog c"
    "\<And>i. rc_socket c = Some i \<Longrightarrow> ready d i = ready c i"
  shows "refines_step l c d"
  using heard_cong [OF assms(3), of l] connection_cong [OF assms(1,2,4)]
  by (simp add: refines_step_def connection_view_def)

lemma connection_open:
  assumes "\<not> rc_stopped c" "rc_socket c = None"
  shows "connection (open_socket throws c) \<in> {Cn_Opening, Cn_Waiting}"
  using assms
  by (auto simp: connection_def open_socket_def scheduleReconnect_def clearTimer_def ready_def Let_def)

lemma heard_open [simp]: "heard l (open_socket throws c) = heard l c"
  by (simp add: open_socket_def scheduleReconnect_def clearTimer_def heard_def Let_def)

lemma heard_schedule: "heard l (scheduleReconnect c) = heard l c"
  by (simp add: scheduleReconnect_def clearTimer_def heard_def Let_def)

lemma refines_start:
  assumes c: "rt_inv c" "l \<in> set (rc_stateListeners c)"
  shows "refines_step l c (start throws c)"
proof (cases "rc_stopped c")
  case True
  let ?d = "emitState RT_Connecting (c\<lparr>rc_stopped := False, rc_attempt := 0\<rparr>)"
  have "rc_socket c = None" using True c(1) by (simp add: rt_inv_defs)
  then have "\<not> rc_stopped ?d" "rc_socket ?d = None" by (simp_all add: emitState_def)
  from connection_open [OF this] have d: "connection (open_socket throws ?d) \<in> {Cn_Opening, Cn_Waiting}" .
  have h: "heard l ?d = Some RT_Connecting" using heard_emit c(2) by simp
  have "connection c = Cn_Stopped" using True by (simp add: connection_def)
  then show ?thesis using True h cn_start [OF d(1)]
    by (simp del: insert_iff add: refines_step_def connection_view_def start_def)
qed (simp add: refines_step_def start_def)

lemma refines_stop: "refines_step l c (stop c)"
proof -
  have "connection (stop c) = Cn_Stopped" "heard l (stop c) = heard l c"
    by (auto simp: connection_def heard_def stop_def clearTimer_def socket_close_def set_ready_def Let_def
        split: option.split)
  then show ?thesis by (simp add: refines_step_def connection_view_def cn_stop)
qed

lemma refines_timer:
  assumes c: "rt_inv c" "rc_reconnectTimer c \<noteq> None"
  shows "refines_step l c (timer_fired throws c)"
proof -
  let ?d = "c\<lparr>rc_reconnectTimer := None\<rparr>"
  have "\<not> rc_stopped c" "rc_socket c = None" using c by (auto simp: rt_inv_defs split: if_splits)
  moreover from this have "connection c = Cn_Waiting" by (simp add: connection_def)
  moreover have "heard l ?d = heard l c" by (simp add: heard_def)
  ultimately show ?thesis using connection_open [of ?d throws] cn_retry [of "heard l c"]
    by (auto simp: refines_step_def connection_view_def timer_fired_def)
qed

lemma refines_opened:
  assumes c: "rt_inv c" "l \<in> set (rc_stateListeners c)" and i: "i < length (rc_sockets c)" "ready c i = CONNECTING"
  shows "refines_step l c (socket_onopen i (set_ready i OPEN c))"
proof -
  have cur: "rc_socket c = Some i" "\<not> rc_stopped c"
    using live_current [OF c(1) i(1)] i(2) by (simp_all add: live_def)
  let ?e = "emitState RT_Live ((set_ready i OPEN c)\<lparr>rc_attempt := 0\<rparr>)"
  let ?d = "socket_onopen i (set_ready i OPEN c)"
  have d: "?d = (if rc_hasIntent ?e then send (CSelect (rc_intent ?e)) ?e else ?e)"
    using cur by (simp add: socket_onopen_def Let_def)
  have r: "ready ?e i = OPEN" using ready_set_ready [OF i(1), of OPEN i] by (simp add: emitState_def ready_def)
  have "heard l ?e = Some RT_Live" using heard_emit c(2) by simp
  then have "heard l ?d = Some RT_Live" unfolding d by (simp add: heard_def)
  moreover have "rc_socket ?d = Some i" "rc_stopped ?d = rc_stopped c" unfolding d
    using cur by (simp_all add: emitState_def)
  moreover have "ready ?d i = OPEN" unfolding d using r by simp
  ultimately have "connection_view l ?d = (Cn_Live, Some RT_Live)" using cur
    by (simp add: connection_view_def connection_def)
  moreover have "connection c = Cn_Opening" using cur i(2) by (simp add: connection_def)
  ultimately show ?thesis by (simp add: refines_step_def connection_view_def cn_opened)
qed

lemma refines_closing:
  assumes c: "rt_inv c" and i: "i < length (rc_sockets c)" "live (ready c i)"
  shows "refines_step l c (set_ready i CLOSING c)"
proof -
  have cur: "rc_socket c = Some i" "\<not> rc_stopped c" using live_current [OF c i] by simp_all
  have "connection c \<in> {Cn_Opening, Cn_Live}" using cur i(2) by (auto simp: connection_def live_def)
  moreover have "connection (set_ready i CLOSING c) = Cn_Closing"
    using cur ready_set_ready [OF i(1)] by (simp add: connection_def)
  moreover have "heard l (set_ready i CLOSING c) = heard l c" by (simp add: heard_def)
  ultimately show ?thesis by (simp add: refines_step_def connection_view_def cn_closing)
qed

lemma refines_closed:
  assumes c: "rt_inv c" "l \<in> set (rc_stateListeners c)" and i: "i < length (rc_sockets c)" "ready c i \<noteq> CLOSED"
  shows "refines_step l c (socket_onclose i (set_ready i CLOSED c))"
proof (cases "rc_socket c = Some i")
  case False
  then show ?thesis using ready_set_ready [OF i(1)]
    by (intro refines_stutter) (auto simp: socket_onclose_def)
next
  case True
  have run: "\<not> rc_stopped c" using rt_inv_parts(6) [OF c(1) True] by simp
  let ?e = "emitState RT_Reconnecting ((set_ready i CLOSED c)\<lparr>rc_socket := None\<rparr>)"
  have d: "socket_onclose i (set_ready i CLOSED c) = scheduleReconnect ?e"
    using True run by (simp add: socket_onclose_def Let_def)
  have "heard l ?e = Some RT_Reconnecting" using heard_emit c(2) by simp
  then have "connection_view l (scheduleReconnect ?e) = (Cn_Waiting, Some RT_Reconnecting)" using run
    by (simp add: connection_view_def connection_def heard_schedule)
      (simp add: scheduleReconnect_def clearTimer_def emitState_def Let_def)
  moreover have "connection c \<in> {Cn_Opening, Cn_Live, Cn_Closing}"
    using True run i(2) by (cases "ready c i") (simp_all add: connection_def)
  ultimately show ?thesis unfolding d by (simp add: refines_step_def connection_view_def cn_closed)
qed

lemma refines_send:
  assumes "rc_stopped c' = rc_stopped c" "rc_socket c' = rc_socket c" "rc_stateLog c' = rc_stateLog c"
    "rc_sockets c' = rc_sockets c"
  shows "refines_step l c (send f c')"
  using assms by (intro refines_stutter) (simp_all add: ready_def [of c'] ready_def [of c])

text \<open>The simulation.\<close>

lemma rt_refines:
  assumes c: "rt_inv c" and e: "rt_step rt c e c'" and l: "l \<in> set (rc_stateListeners c)"
  shows "refines_step l c c'"
proof -
  have e: "rt_enabled e c" "c' = rt_apply rt e c" using e by (auto elim: rt_stepE)
  show ?thesis
  proof (cases e)
    case (EvMessage i data)
    then show ?thesis using e by (intro refines_stutter)
      (auto simp: socket_onmessage_def ready_def split: option.split)
  qed (use e c l in \<open>auto simp: refines_start refines_stop refines_timer refines_opened refines_closing
      refines_closed live_def sendSelect_def sendPing_def onFrame_def offFrame_def onState_def offState_def
      ready_def intro: refines_send refines_stutter\<close>)
qed

text \<open>
  What follows for a listener that stays registered: it never believes the connection live while the
  client is opening one or waiting to.
\<close>

inductive listening :: "js_runtime \<Rightarrow> nat \<Rightarrow> realtime_client \<Rightarrow> bool" for rt l where
  listening_start: "\<lbrakk>rt_reach rt url c; rc_stopped c; l \<in> set (rc_stateListeners c)\<rbrakk> \<Longrightarrow> listening rt l c"
| listening_step:
    "\<lbrakk>listening rt l c; rt_step rt c e c'; l \<in> set (rc_stateListeners c')\<rbrakk> \<Longrightarrow> listening rt l c'"

lemma listening_inv: "listening rt l c \<Longrightarrow> rt_inv c \<and> l \<in> set (rc_stateListeners c) \<and> belief_ok (connection_view l c)"
proof (induction rule: listening.induct)
  case (listening_start url c)
  then show ?case using rt_inv_reach by (auto simp: connection_view_def connection_def)
next
  case (listening_step c e c')
  then have "refines_step l c c'" using rt_refines by blast
  then have "belief_ok (connection_view l c')" using listening_step.IH belief_step
    unfolding refines_step_def connection_view_def by metis
  then show ?case using listening_step rt_inv_step by blast
qed

lemma live_belief:
  assumes "listening rt l c" "\<not> rc_stopped c" "heard l c = Some RT_Live"
  shows "\<exists>i. rc_socket c = Some i \<and> i < length (rc_sockets c)"
proof -
  have c: "rt_inv c" "belief_ok (connection c, heard l c)"
    using listening_inv [OF assms(1)] by (simp_all add: connection_view_def)
  show ?thesis
  proof (cases "rc_socket c")
    case None
    then show ?thesis using c(2) assms(2,3) by (simp add: connection_def)
  next
    case (Some i)
    then show ?thesis using rt_inv_parts(3) [OF c(1) Some] by simp
  qed
qed

end
