(* ===== verification/Loader.thy ===== *)
theory Loader
  imports Http
begin

text \<open>
  The protocol every load of the stores follows: a flag is raised before the request, and the
  response lowers it and leaves either the data or the message of the error. The locale states
  the contract once; the stores interpret it for each of their loads.
\<close>

definition successes :: "'a result list \<Rightarrow> 'a list" where
  "successes rs = map_non_null (\<lambda>r. case r of Inr x \<Rightarrow> Some x | Inl _ \<Rightarrow> None) rs"

locale loader =
  fixes begin_load :: "'s \<Rightarrow> 's"
    and finish :: "'a result \<Rightarrow> 's \<Rightarrow> 's"
    and loading :: "'s \<Rightarrow> bool"
    and failure :: "'s \<Rightarrow> 'f"
    and cleared :: 'f
    and message :: "string \<Rightarrow> 'f"
    and data :: "'s \<Rightarrow> 'v"
    and inject :: "'a \<Rightarrow> 'v"
  assumes begin_loading: "loading (begin_load s)"
    and begin_data: "data (begin_load s) = data s"
    and begin_failure: "failure (begin_load s) = cleared \<or> failure (begin_load s) = failure s"
    and finish_idle: "\<not> loading (finish r s)"
    and finish_data: "data (finish (Inr x) s) = inject x"
    and finish_error_data: "data (finish (Inl e) s) = data s"
    and finish_failure: "failure (finish (Inl e) s) = message (ae_detail e)"
    and finish_keeps: "failure (finish (Inr x) s) = cleared \<or> failure (finish (Inr x) s) = failure s"
    and cycle_clears: "failure (finish (Inr x) (begin_load s)) = cleared"
begin

text \<open>One load from start to end.\<close>

lemma cycle:
  "finish r (begin_load s) = s' \<Longrightarrow>
   \<not> loading s' \<and> (case r of Inr x \<Rightarrow> data s' = inject x \<and> failure s' = cleared
                   | Inl e \<Rightarrow> data s' = data s \<and> failure s' = message (ae_detail e))"
  by (auto simp: finish_idle finish_data finish_error_data finish_failure cycle_clears begin_data
      split: sum.splits)

text \<open>Overlapping loads: the last response that succeeded is what is shown.\<close>

lemma last_success:
  "data (fold finish rs s) = (if successes rs = [] then data s else inject (last (successes rs)))"
  by (induction rs arbitrary: s)
    (auto simp: successes_def finish_data finish_error_data split: sum.splits)

text \<open>A message that is shown was reported by a response, unless it was there before.\<close>

lemma failure_reported:
  "failure (fold finish rs s) \<in> {cleared, failure s} \<union> {message (ae_detail e) | e. Inl e \<in> set rs}"
proof (induction rs arbitrary: s)
  case (Cons r rs)
  have "failure (finish r s) \<in> {cleared, failure s} \<union> {message (ae_detail e) | e. Inl e \<in> {r}}"
    using finish_failure [of _ s] finish_keeps [of _ s] by (cases r) auto
  then show ?case using Cons [of "finish r s"] by auto
qed simp

end

end
