(* ===== verification/ConsoleStore.thy ===== *)
theory ConsoleStore
  imports Api Routes Realtime Loader
begin

text \<open>
  \<open>store/consoleStore.ts\<close>: the registry, the route and selection, the telemetry by server
  and the bounded history. The store's own state is \<open>console_state\<close>; \<open>console_app\<close> adds
  what its actions touch outside: the location hash, the realtime client and the requests in
  flight. An asynchronous action is two functions, up to its \<open>await\<close> and from it.
\<close>

definition HISTORY_LIMIT :: nat where
  "HISTORY_LIMIT = 120"

record gpu_history_series =
  ghs_utilization :: "js_number list"
  ghs_vram :: "js_number list"
  ghs_temperature :: "js_number list"
  ghs_power :: "js_number list"

datatype fleet_sort_key = Key_Name | Key_Status | Key_Gpus

datatype sort_direction = Dir_Asc | Dir_Desc

record fleet_sort =
  fst_key :: fleet_sort_key
  fst_direction :: sort_direction

type_synonym server_history = "js_number \<rightharpoonup> gpu_history_series"

record console_state =
  cs_connected :: bool
  cs_connection :: realtime_state
  cs_servers :: "server_record list"
  cs_serversLoading :: bool
  cs_serversError :: "string option"
  cs_route :: route
  cs_selectedServerId :: "string option"
  cs_selectedTab :: server_tab
  cs_fleetSummary :: "fleet_summary option"
  cs_fleetLoading :: bool
  cs_fleetError :: "string option"
  cs_statuses :: "string \<rightharpoonup> server_status"
  cs_snapshots :: "string \<rightharpoonup> server_snapshot"
  cs_snapshotErrors :: "string \<rightharpoonup> string"
  cs_history :: "string \<rightharpoonup> server_history"
  cs_historyTimestamps :: "string \<rightharpoonup> string"
  cs_fleetSort :: fleet_sort

definition createConsoleStore :: console_state where
  "createConsoleStore =
     \<lparr>cs_connected = False, cs_connection = RT_Connecting, cs_servers = [], cs_serversLoading = False,
      cs_serversError = None, cs_route = RFleet, cs_selectedServerId = None,
      cs_selectedTab = DEFAULT_TAB, cs_fleetSummary = None, cs_fleetLoading = False,
      cs_fleetError = None, cs_statuses = Map.empty, cs_snapshots = Map.empty,
      cs_snapshotErrors = Map.empty, cs_history = Map.empty, cs_historyTimestamps = Map.empty,
      cs_fleetSort = \<lparr>fst_key = Key_Name, fst_direction = Dir_Asc\<rparr>\<rparr>"

subsection \<open>History\<close>

definition pushSeries :: "js_number list \<Rightarrow> js_number option \<Rightarrow> js_number list" where
  "pushSeries previous v =
     (case v of
        None \<Rightarrow> previous
      | Some x \<Rightarrow>
          if \<not> is_finite x then previous
          else (let next = (if HISTORY_LIMIT \<le> length previous
                            then drop (length previous - HISTORY_LIMIT + 1) previous
                            else previous)
                in next @ [x]))"

definition empty_series :: gpu_history_series where
  "empty_series = \<lparr>ghs_utilization = [], ghs_vram = [], ghs_temperature = [], ghs_power = []\<rparr>"

definition push_gpu :: "gpu_info \<Rightarrow> server_history \<Rightarrow> server_history" where
  "push_gpu gpu serverHistory =
     (let previous = (case serverHistory (gpu_index gpu) of Some s \<Rightarrow> s | None \<Rightarrow> empty_series)
      in serverHistory(gpu_index gpu \<mapsto>
           \<lparr>ghs_utilization = pushSeries (ghs_utilization previous) (gpu_utilization_percent gpu),
            ghs_vram = pushSeries (ghs_vram previous) (gpu_vram_percent gpu),
            ghs_temperature = pushSeries (ghs_temperature previous) (gpu_temperature_c gpu),
            ghs_power = pushSeries (ghs_power previous) (gpu_power_watts gpu)\<rparr>))"

definition pushHistoryInto ::
  "(string \<rightharpoonup> server_history) \<Rightarrow> server_snapshot \<Rightarrow> (string \<rightharpoonup> server_history)" where
  "pushHistoryInto history snapshot =
     (let serverHistory = (case history (snap_server_id snapshot) of Some h \<Rightarrow> h | None \<Rightarrow> Map.empty)
      in history(snap_server_id snapshot \<mapsto> fold push_gpu (snap_gpus snapshot) serverHistory))"

definition errorMessage :: "api_error \<Rightarrow> string" where
  "errorMessage cause = ae_detail cause"

subsection \<open>Telemetry\<close>

definition ingestSnapshot :: "server_snapshot \<Rightarrow> console_state \<Rightarrow> console_state" where
  "ingestSnapshot snapshot state =
     (let i = snap_server_id snapshot;
          lastAt = cs_historyTimestamps state i;
          duplicate = (snap_generated_at snapshot \<noteq> None \<and> lastAt \<noteq> None
                       \<and> lastAt = snap_generated_at snapshot);
          snapshots = (cs_snapshots state)(i \<mapsto> snapshot);
          statuses = (cs_statuses state)(i \<mapsto> snap_status snapshot);
          snapshotErrors = (cs_snapshotErrors state)(i := None)
      in if duplicate
         then state\<lparr>cs_snapshots := snapshots, cs_statuses := statuses,
                    cs_snapshotErrors := snapshotErrors\<rparr>
         else state\<lparr>cs_snapshots := snapshots, cs_statuses := statuses,
                    cs_snapshotErrors := snapshotErrors,
                    cs_history := pushHistoryInto (cs_history state) snapshot,
                    cs_historyTimestamps :=
                      (case snap_generated_at snapshot of
                         Some t \<Rightarrow> (cs_historyTimestamps state)(i \<mapsto> t)
                       | None \<Rightarrow> cs_historyTimestamps state)\<rparr>)"

definition fleet_statuses ::
  "fleet_entry list \<Rightarrow> (string \<rightharpoonup> server_status) \<Rightarrow> (string \<rightharpoonup> server_status)" where
  "fleet_statuses servers statuses =
     fold (\<lambda>entry m. m(fle_server_id entry \<mapsto> fle_status entry)) servers statuses"

definition apply_fleet :: "fleet_summary \<Rightarrow> console_state \<Rightarrow> console_state" where
  "apply_fleet summary state =
     state\<lparr>cs_fleetSummary := Some summary, cs_fleetLoading := False, cs_fleetError := None,
           cs_statuses := fleet_statuses (fls_servers summary) (cs_statuses state)\<rparr>"

definition apply_status :: "string \<Rightarrow> server_status \<Rightarrow> console_state \<Rightarrow> console_state" where
  "apply_status server_id status state =
     state\<lparr>cs_statuses := (cs_statuses state)(server_id \<mapsto> status),
           cs_snapshots :=
             (case cs_snapshots state server_id of
                Some snapshot \<Rightarrow> (cs_snapshots state)(server_id \<mapsto> snapshot\<lparr>snap_status := status\<rparr>)
              | None \<Rightarrow> cs_snapshots state),
           cs_fleetSummary :=
             (case cs_fleetSummary state of
                Some fleet \<Rightarrow>
                  Some (fleet\<lparr>fls_servers :=
                    map (\<lambda>entry. if fle_server_id entry = server_id
                                  then entry\<lparr>fle_status := status\<rparr> else entry) (fls_servers fleet)\<rparr>)
              | None \<Rightarrow> None)\<rparr>"

fun applyRealtimeFrame :: "server_frame \<Rightarrow> console_state \<Rightarrow> console_state" where
  "applyRealtimeFrame (FHello server_ids) state = state"
| "applyRealtimeFrame (FFleet summary) state = apply_fleet summary state"
| "applyRealtimeFrame (FServer server_id snapshot) state = ingestSnapshot snapshot state"
| "applyRealtimeFrame (FStatus server_id status) state = apply_status server_id status state"

definition setFleetSort :: "fleet_sort \<Rightarrow> console_state \<Rightarrow> console_state" where
  "setFleetSort fleetSort state = state\<lparr>cs_fleetSort := fleetSort\<rparr>"

subsection \<open>Actions\<close>

datatype console_request = ReqServers | ReqFleet | ReqSnapshot string

text \<open>
  \<open>app_hashEvents\<close> counts the \<open>hashchange\<close> events the browser has queued;
  \<open>app_listening\<close> says that \<open>connect\<close> registered the listener.
\<close>

record console_app =
  app_store :: console_state
  app_hash :: string
  app_hashEvents :: nat
  app_listening :: bool
  app_realtime :: realtime_client
  app_pending :: "console_request list"

definition set_store :: "(console_state \<Rightarrow> console_state) \<Rightarrow> console_app \<Rightarrow> console_app" where
  "set_store f a = a\<lparr>app_store := f (app_store a)\<rparr>"

definition await_request :: "console_request \<Rightarrow> console_app \<Rightarrow> console_app" where
  "await_request r a = a\<lparr>app_pending := app_pending a @ [r]\<rparr>"

text \<open>
  The listeners \<open>connect\<close> registers run synchronously: what a realtime call emits is
  applied to the store before the call returns.
\<close>

definition STORE_LISTENER :: nat where
  "STORE_LISTENER = 0"

definition emitted :: "(nat \<times> 'a) list \<Rightarrow> (nat \<times> 'a) list \<Rightarrow> 'a list" where
  "emitted old new =
     map snd (filter (\<lambda>(l, _). l = STORE_LISTENER) (drop (length old) new))"

definition realtime_call :: "(realtime_client \<Rightarrow> realtime_client) \<Rightarrow> console_app \<Rightarrow> console_app" where
  "realtime_call f a =
     (let c = app_realtime a; c' = f c
      in a\<lparr>app_realtime := c',
           app_store :=
             fold applyRealtimeFrame (emitted (rc_frameLog c) (rc_frameLog c'))
               (fold (\<lambda>connection s. s\<lparr>cs_connection := connection\<rparr>)
                  (emitted (rc_stateLog c) (rc_stateLog c')) (app_store a))\<rparr>)"

definition loadServers :: "console_app \<Rightarrow> console_app" where
  "loadServers a =
     await_request ReqServers
       (set_store (\<lambda>s. s\<lparr>cs_serversLoading := True, cs_serversError := None\<rparr>) a)"

definition loadServers_done :: "server_record list result \<Rightarrow> console_state \<Rightarrow> console_state" where
  "loadServers_done response s =
     (case response of
        Inr servers \<Rightarrow> s\<lparr>cs_servers := servers, cs_serversLoading := False\<rparr>
      | Inl cause \<Rightarrow> s\<lparr>cs_serversError := Some (errorMessage cause), cs_serversLoading := False\<rparr>)"

definition loadFleet :: "console_app \<Rightarrow> console_app" where
  "loadFleet a =
     await_request ReqFleet
       (set_store (\<lambda>s. s\<lparr>cs_fleetLoading := True, cs_fleetError := None\<rparr>) a)"

definition loadFleet_done :: "fleet_summary result \<Rightarrow> console_state \<Rightarrow> console_state" where
  "loadFleet_done response s =
     (case response of
        Inr fleetSummary \<Rightarrow> apply_fleet fleetSummary s
      | Inl cause \<Rightarrow> s\<lparr>cs_fleetError := Some (errorMessage cause), cs_fleetLoading := False\<rparr>)"

definition loadSnapshot :: "string \<Rightarrow> console_app \<Rightarrow> console_app" where
  "loadSnapshot serverId a = await_request (ReqSnapshot serverId) a"

definition loadSnapshot_done ::
  "string \<Rightarrow> server_snapshot result \<Rightarrow> console_state \<Rightarrow> console_state" where
  "loadSnapshot_done serverId response s =
     (case response of
        Inr snapshot \<Rightarrow> ingestSnapshot snapshot s
      | Inl cause \<Rightarrow>
          s\<lparr>cs_snapshotErrors := (cs_snapshotErrors s)(serverId \<mapsto> errorMessage cause)\<rparr>)"

definition select :: "string option \<Rightarrow> console_app \<Rightarrow> console_app" where
  "select serverId a =
     (let a = set_store (\<lambda>s. s\<lparr>cs_selectedServerId := serverId\<rparr>) a;
          a = realtime_call (sendSelect serverId) a
      in case serverId of Some i \<Rightarrow> loadSnapshot i a | None \<Rightarrow> a)"

definition applyHash :: "console_app \<Rightarrow> console_app" where
  "applyHash a =
     (let route = parseHash (app_hash a);
          previous = cs_route (app_store a);
          a = set_store (\<lambda>s. s\<lparr>cs_route := route\<rparr>) a
      in case route of
           RServer serverId tab \<Rightarrow>
             (let a = set_store (\<lambda>s. s\<lparr>cs_selectedTab := tab\<rparr>) a
              in if (case previous of RServer i _ \<Rightarrow> i \<noteq> serverId | _ \<Rightarrow> True)
                 then select (Some serverId) a else a)
         | _ \<Rightarrow> if cs_selectedServerId (app_store a) \<noteq> None then select None a else a)"

definition set_location_hash :: "string \<Rightarrow> console_app \<Rightarrow> console_app" where
  "set_location_hash hash a =
     (if normal_hash hash = app_hash a then a
      else a\<lparr>app_hash := normal_hash hash, app_hashEvents := app_hashEvents a + 1\<rparr>)"

definition navigate :: "string \<Rightarrow> console_app \<Rightarrow> console_app" where
  "navigate hash a = (if app_hash a = hash then applyHash a else set_location_hash hash a)"

definition setTab :: "server_tab \<Rightarrow> console_app \<Rightarrow> console_app" where
  "setTab tab a =
     (case cs_route (app_store a) of
        RServer serverId _ \<Rightarrow>
          navigate (''#/server/'' @ encodeURIComponent serverId @ ''/'' @ tab_name tab) a
      | _ \<Rightarrow> a)"

definition connect :: "bool \<Rightarrow> console_app \<Rightarrow> console_app" where
  "connect throws a =
     (if cs_connected (app_store a) then a
      else
        (let a = set_store (\<lambda>s. s\<lparr>cs_connected := True\<rparr>) a;
             a = realtime_call (onFrame STORE_LISTENER) a;
             a = realtime_call (onState STORE_LISTENER) a;
             a = realtime_call (start throws) a;
             a = realtime_call (sendSelect (cs_selectedServerId (app_store a))) a;
             a = a\<lparr>app_listening := True\<rparr>;
             a = applyHash a;
             a = loadServers a
         in loadFleet a))"

subsection \<open>The step relation\<close>

text \<open>
  The views call the actions; the browser delivers \<open>hashchange\<close> events, socket events and
  the response of any request in flight, in any order. A response is what the REST client
  makes of the network's outcome.
\<close>

datatype console_event =
    CvConnect bool
  | CvNavigate string
  | CvSetTab server_tab
  | CvLoadServers
  | CvLoadFleet
  | CvLoadSnapshot string
  | CvSetFleetSort fleet_sort
  | CvUrl string
  | CvHashChange
  | CvSocket realtime_event
  | CvReply nat network

definition reply :: "network \<Rightarrow> console_request \<Rightarrow> console_state \<Rightarrow> console_state" where
  "reply net r =
     (case r of
        ReqServers \<Rightarrow> loadServers_done (listServers net)
      | ReqFleet \<Rightarrow> loadFleet_done (getFleet net)
      | ReqSnapshot i \<Rightarrow> loadSnapshot_done i (getSnapshot net i))"

definition remove_nth :: "nat \<Rightarrow> 'a list \<Rightarrow> 'a list" where
  "remove_nth k xs = take k xs @ drop (Suc k) xs"

fun network_event :: "realtime_event \<Rightarrow> bool" where
  "network_event (EvOpened i) = True"
| "network_event (EvMessage i data) = True"
| "network_event (EvClosing i) = True"
| "network_event (EvClosed i) = True"
| "network_event (EvTimer throws) = True"
| "network_event _ = False"

fun console_enabled :: "console_event \<Rightarrow> console_app \<Rightarrow> bool" where
  "console_enabled CvHashChange a = (app_listening a \<and> 0 < app_hashEvents a)"
| "console_enabled (CvSocket e) a = (network_event e \<and> rt_enabled e (app_realtime a))"
| "console_enabled (CvReply k net) a = (k < length (app_pending a))"
| "console_enabled _ a = True"

fun console_apply :: "js_runtime \<Rightarrow> console_event \<Rightarrow> console_app \<Rightarrow> console_app" where
  "console_apply rt (CvConnect throws) a = connect throws a"
| "console_apply rt (CvNavigate hash) a = navigate hash a"
| "console_apply rt (CvSetTab tab) a = setTab tab a"
| "console_apply rt CvLoadServers a = loadServers a"
| "console_apply rt CvLoadFleet a = loadFleet a"
| "console_apply rt (CvLoadSnapshot i) a = loadSnapshot i a"
| "console_apply rt (CvSetFleetSort fleetSort) a = set_store (setFleetSort fleetSort) a"
| "console_apply rt (CvUrl hash) a = set_location_hash hash a"
| "console_apply rt CvHashChange a = applyHash (a\<lparr>app_hashEvents := app_hashEvents a - 1\<rparr>)"
| "console_apply rt (CvSocket e) a = realtime_call (rt_apply rt e) a"
| "console_apply rt (CvReply k net) a =
     set_store (reply net (app_pending a ! k)) (a\<lparr>app_pending := remove_nth k (app_pending a)\<rparr>)"

inductive console_step :: "js_runtime \<Rightarrow> console_app \<Rightarrow> console_app \<Rightarrow> bool" for rt :: js_runtime where
  console_stepI: "console_enabled e a \<Longrightarrow> console_step rt a (console_apply rt e a)"

inductive_cases console_stepE: "console_step rt a a'"

text \<open>The application starts at any URL, with a fresh store and realtime client.\<close>

definition console_init :: "string \<Rightarrow> string \<Rightarrow> console_app" where
  "console_init hash url =
     \<lparr>app_store = createConsoleStore, app_hash = hash, app_hashEvents = 0, app_listening = False,
      app_realtime = RealtimeClient None url, app_pending = []\<rparr>"

inductive console_reach :: "js_runtime \<Rightarrow> console_app \<Rightarrow> bool" for rt :: js_runtime where
  console_reach_init: "console_reach rt (console_init hash url)"
| console_reach_step: "console_reach rt a \<Longrightarrow> console_step rt a a' \<Longrightarrow> console_reach rt a'"

subsection \<open>The loads\<close>

interpretation servers_loader: loader loadServers "\<lambda>r. set_store (loadServers_done r)"
  "\<lambda>a. cs_serversLoading (app_store a)" "\<lambda>a. cs_serversError (app_store a)" None Some
  "\<lambda>a. cs_servers (app_store a)" id
  by unfold_locales
    (simp_all add: loadServers_def loadServers_done_def await_request_def set_store_def errorMessage_def
      split: sum.splits)

interpretation fleet_loader: loader loadFleet "\<lambda>r. set_store (loadFleet_done r)"
  "\<lambda>a. cs_fleetLoading (app_store a)" "\<lambda>a. cs_fleetError (app_store a)" None Some
  "\<lambda>a. cs_fleetSummary (app_store a)" Some
  by unfold_locales
    (simp_all add: loadFleet_def loadFleet_done_def apply_fleet_def await_request_def set_store_def
      errorMessage_def split: sum.splits)

subsection \<open>The history is a sliding window of the accepted samples\<close>

lemma lastn_lastn_append: "lastn n (lastn n xs @ ys) = lastn n (xs @ ys)"
  by (cases "n \<le> length xs") (auto simp: lastn_def add.commute)

text \<open>The samples a metric contributes: its finite values.\<close>

definition sample :: "js_number option \<Rightarrow> js_number list" where
  "sample v = (case v of Some x \<Rightarrow> if is_finite x then [x] else [] | None \<Rightarrow> [])"

lemma pushSeries_window:
  "length xs \<le> HISTORY_LIMIT \<Longrightarrow> pushSeries xs v = lastn HISTORY_LIMIT (xs @ sample v)"
  by (auto simp: pushSeries_def sample_def HISTORY_LIMIT_def lastn_def Let_def Suc_diff_le
      split: option.splits)

definition samples :: "js_number option list \<Rightarrow> js_number list" where
  "samples vs = concat (map sample vs)"

lemma samples_simps [simp]:
  "samples [] = []" "samples (v # vs) = sample v @ samples vs" "samples (vs @ ws) = samples vs @ samples ws"
  by (simp_all add: samples_def)

lemma fold_pushSeries:
  "length xs \<le> HISTORY_LIMIT \<Longrightarrow>
   fold (\<lambda>v s. pushSeries s v) vs xs = lastn HISTORY_LIMIT (xs @ samples vs)"
proof (induction vs arbitrary: xs)
  case (Cons v vs)
  then show ?case
    using lastn_lastn_append [of HISTORY_LIMIT "xs @ sample v" "samples vs"]
    by (simp add: pushSeries_window)
qed simp

text \<open>The four series of a GPU, read together with the metric of a sample they record.\<close>

datatype series_metric = SM_Utilization | SM_Vram | SM_Temperature | SM_Power

fun series :: "series_metric \<Rightarrow> gpu_history_series \<Rightarrow> js_number list" where
  "series SM_Utilization s = ghs_utilization s"
| "series SM_Vram s = ghs_vram s"
| "series SM_Temperature s = ghs_temperature s"
| "series SM_Power s = ghs_power s"

fun metric :: "series_metric \<Rightarrow> gpu_info \<Rightarrow> js_number option" where
  "metric SM_Utilization g = gpu_utilization_percent g"
| "metric SM_Vram g = gpu_vram_percent g"
| "metric SM_Temperature g = gpu_temperature_c g"
| "metric SM_Power g = gpu_power_watts g"

definition gpu_series :: "server_history \<Rightarrow> js_number \<Rightarrow> gpu_history_series" where
  "gpu_series h k = (case h k of Some s \<Rightarrow> s | None \<Rightarrow> empty_series)"

definition history_series ::
  "(string \<rightharpoonup> server_history) \<Rightarrow> string \<Rightarrow> js_number \<Rightarrow> series_metric \<Rightarrow> js_number list" where
  "history_series history i k m =
     series m (gpu_series (case history i of Some h \<Rightarrow> h | None \<Rightarrow> Map.empty) k)"

lemma series_empty [simp]: "series m empty_series = []"
  by (cases m) (simp_all add: empty_series_def)

lemma series_push_gpu:
  "series m (gpu_series (push_gpu g h) k) =
     (if gpu_index g = k then pushSeries (series m (gpu_series h k)) (metric m g)
      else series m (gpu_series h k))"
  by (cases m) (auto simp: gpu_series_def push_gpu_def Let_def)

definition gpu_values :: "js_number \<Rightarrow> series_metric \<Rightarrow> gpu_info list \<Rightarrow> js_number option list" where
  "gpu_values k m gpus = map (metric m) (filter (\<lambda>g. gpu_index g = k) gpus)"

lemma series_fold_push_gpu:
  "series m (gpu_series (fold push_gpu gpus h) k) =
     fold (\<lambda>v s. pushSeries s v) (gpu_values k m gpus) (series m (gpu_series h k))"
  by (induction gpus arbitrary: h) (auto simp: gpu_values_def series_push_gpu)

lemma history_series_push:
  "history_series (pushHistoryInto history snap) i k m =
     (if snap_server_id snap = i
      then fold (\<lambda>v s. pushSeries s v) (gpu_values k m (snap_gpus snap)) (history_series history i k m)
      else history_series history i k m)"
  by (auto simp: history_series_def pushHistoryInto_def Let_def series_fold_push_gpu split: option.splits)

text \<open>
  The specification: the snapshots of a server that are not repeats of the last timestamp, and
  the samples they carry.
\<close>

definition repeats :: "(string \<rightharpoonup> string) \<Rightarrow> server_snapshot \<Rightarrow> bool" where
  "repeats stamps snap \<longleftrightarrow>
     snap_generated_at snap \<noteq> None \<and> stamps (snap_server_id snap) = snap_generated_at snap"

definition stamp :: "(string \<rightharpoonup> string) \<Rightarrow> server_snapshot \<Rightarrow> (string \<rightharpoonup> string)" where
  "stamp stamps snap =
     (case snap_generated_at snap of Some t \<Rightarrow> stamps(snap_server_id snap \<mapsto> t) | None \<Rightarrow> stamps)"

fun accepted :: "(string \<rightharpoonup> string) \<Rightarrow> server_snapshot list \<Rightarrow> server_snapshot list" where
  "accepted stamps [] = []"
| "accepted stamps (snap # snaps) =
     (if repeats stamps snap then accepted stamps snaps
      else snap # accepted (stamp stamps snap) snaps)"

definition recorded ::
  "string \<Rightarrow> js_number \<Rightarrow> series_metric \<Rightarrow> server_snapshot list \<Rightarrow> js_number list" where
  "recorded i k m snaps =
     concat (map (\<lambda>snap. samples (gpu_values k m (snap_gpus snap)))
               (filter (\<lambda>snap. snap_server_id snap = i) snaps))"

lemma ingest_history:
  "cs_history (ingestSnapshot snap s) =
     (if repeats (cs_historyTimestamps s) snap then cs_history s
      else pushHistoryInto (cs_history s) snap)"
  "cs_historyTimestamps (ingestSnapshot snap s) =
     (if repeats (cs_historyTimestamps s) snap then cs_historyTimestamps s
      else stamp (cs_historyTimestamps s) snap)"
  by (auto simp: ingestSnapshot_def repeats_def stamp_def Let_def split: option.splits)

lemma history_window_gen:
  assumes "history_series (cs_history s) i k m = lastn HISTORY_LIMIT xs"
  shows "history_series (cs_history (fold ingestSnapshot snaps s)) i k m =
         lastn HISTORY_LIMIT (xs @ recorded i k m (accepted (cs_historyTimestamps s) snaps))"
  using assms
proof (induction snaps arbitrary: s xs)
  case (Cons snap snaps)
  let ?s = "ingestSnapshot snap s"
  show ?case
  proof (cases "repeats (cs_historyTimestamps s) snap")
    case True
    then show ?thesis using Cons.IH [of ?s xs] Cons.prems by (simp add: ingest_history)
  next
    case False
    let ?new = "if snap_server_id snap = i then samples (gpu_values k m (snap_gpus snap)) else []"
    have "history_series (cs_history ?s) i k m = lastn HISTORY_LIMIT (xs @ ?new)"
      using Cons.prems False
      by (simp add: ingest_history history_series_push fold_pushSeries lastn_lastn_append)
    from Cons.IH [OF this] False show ?thesis by (simp add: ingest_history recorded_def)
  qed
qed (simp add: recorded_def)

lemma samples_finite: "list_all is_finite (samples vs)"
  by (induction vs) (auto simp: sample_def split: option.splits)

text \<open>A repeated snapshot changes nothing, so ingesting twice is ingesting once.\<close>

lemma ingest_twice:
  "snap_generated_at snap \<noteq> None \<Longrightarrow> ingestSnapshot snap (ingestSnapshot snap s) = ingestSnapshot snap s"
  by (auto simp: ingestSnapshot_def Let_def)

subsection \<open>Invariants of the data\<close>

definition series_ok :: "js_number list \<Rightarrow> bool" where
  "series_ok xs \<longleftrightarrow> length xs \<le> HISTORY_LIMIT \<and> list_all is_finite xs"

definition history_ok :: "server_history \<Rightarrow> bool" where
  "history_ok h \<longleftrightarrow> (\<forall>k m. series_ok (series m (gpu_series h k)))"

definition data_inv :: "console_state \<Rightarrow> bool" where
  "data_inv s \<longleftrightarrow>
     list_all wfServerRecord (cs_servers s)
     \<and> opt_ok wfFleetSummary (cs_fleetSummary s)
     \<and> (\<forall>i snap. cs_snapshots s i = Some snap \<longrightarrow> wfServerSnapshot snap \<and> snap_server_id snap = i)
     \<and> dom (cs_snapshots s) \<subseteq> dom (cs_statuses s)
     \<and> dom (cs_history s) \<subseteq> dom (cs_snapshots s)
     \<and> dom (cs_historyTimestamps s) \<subseteq> dom (cs_history s)
     \<and> (\<forall>i h. cs_history s i = Some h \<longrightarrow> history_ok h)"

lemma series_ok_push: "series_ok xs \<Longrightarrow> series_ok (pushSeries xs v)"
  by (auto simp: series_ok_def pushSeries_def HISTORY_LIMIT_def Let_def list_all_iff
      dest: in_set_dropD split: option.splits)

lemma history_ok_push_gpu: "history_ok h \<Longrightarrow> history_ok (push_gpu g h)"
  by (simp add: history_ok_def series_push_gpu series_ok_push)

lemma history_ok_fold: "history_ok h \<Longrightarrow> history_ok (fold push_gpu gpus h)"
  by (induction gpus arbitrary: h) (auto simp: history_ok_push_gpu)

lemma history_ok_empty [simp]: "history_ok Map.empty"
  by (simp add: history_ok_def gpu_series_def series_ok_def)

lemma dom_fleet_statuses: "dom m \<subseteq> dom (fleet_statuses es m)"
proof (induction es arbitrary: m)
  case (Cons e es)
  have "dom m \<subseteq> dom (m(fle_server_id e \<mapsto> fle_status e))" by auto
  also have "\<dots> \<subseteq> dom (fleet_statuses (e # es) m)"
    using Cons [of "m(fle_server_id e \<mapsto> fle_status e)"] by (simp only: fleet_statuses_def fold_simps)
  finally show ?case .
qed (simp add: fleet_statuses_def)

lemma wf_snap_status [simp]: "wfServerSnapshot (snap\<lparr>snap_status := st\<rparr>) = wfServerSnapshot snap"
  by (simp add: wfServerSnapshot_def)

lemma wf_entry_status [simp]: "wfFleetEntry (e\<lparr>fle_status := st\<rparr>) = wfFleetEntry e"
  by (simp add: wfFleetEntry_def)

lemma data_inv_init: "data_inv createConsoleStore"
  by (simp add: data_inv_def createConsoleStore_def)

lemma data_inv_ingest:
  assumes "data_inv s" "wfServerSnapshot snap"
  shows "data_inv (ingestSnapshot snap s)"
proof -
  have h: "history_ok (case cs_history s (snap_server_id snap) of Some h \<Rightarrow> h | None \<Rightarrow> Map.empty)"
    using assms(1) by (auto simp: data_inv_def split: option.splits)
  note hf = history_ok_fold [OF this]
  have d: "snap_server_id snap \<in> dom (cs_history s)" if "cs_historyTimestamps s (snap_server_id snap) \<noteq> None"
    using that assms(1) by (auto simp: data_inv_def)
  show ?thesis
    using assms d
    by (auto simp: data_inv_def ingestSnapshot_def Let_def pushHistoryInto_def hf
        split: option.splits if_splits)
qed

lemma data_inv_fleet: "data_inv s \<Longrightarrow> wfFleetSummary f \<Longrightarrow> data_inv (apply_fleet f s)"
  using dom_fleet_statuses [of "cs_statuses s" "fls_servers f"]
  by (simp add: data_inv_def apply_fleet_def) (meson subset_trans)

lemma data_inv_status:
  assumes "data_inv s"
  shows "data_inv (apply_status i st s)"
proof -
  have "opt_ok wfFleetSummary (cs_fleetSummary (apply_status i st s))"
    using assms by (auto simp: data_inv_def apply_status_def wfFleetSummary_def list_all_iff
        split: option.splits)
  moreover have "dom (cs_snapshots (apply_status i st s)) = dom (cs_snapshots s)"
    by (auto simp: apply_status_def split: option.splits if_splits)
  moreover have "wfServerSnapshot snap \<and> snap_server_id snap = j"
    if "cs_snapshots (apply_status i st s) j = Some snap" for j snap
    using that assms by (auto simp: data_inv_def apply_status_def split: option.splits if_splits)
  ultimately show ?thesis using assms
    unfolding data_inv_def by (auto simp: apply_status_def)
qed

lemma data_inv_frame: "data_inv s \<Longrightarrow> wfFrame f \<Longrightarrow> data_inv (applyRealtimeFrame f s)"
  by (cases f) (simp_all add: data_inv_ingest data_inv_fleet data_inv_status)

lemma data_inv_frames:
  "list_all wfFrame fs \<Longrightarrow> data_inv s \<Longrightarrow> data_inv (fold applyRealtimeFrame fs s)"
  by (induction fs arbitrary: s) (auto simp: data_inv_frame)

lemma data_inv_updates [simp]:
  "data_inv (s\<lparr>cs_connected := b\<rparr>) = data_inv s" "data_inv (s\<lparr>cs_connection := c\<rparr>) = data_inv s"
  "data_inv (s\<lparr>cs_route := r\<rparr>) = data_inv s" "data_inv (s\<lparr>cs_selectedTab := t\<rparr>) = data_inv s"
  "data_inv (s\<lparr>cs_selectedServerId := i\<rparr>) = data_inv s"
  "data_inv (s\<lparr>cs_serversLoading := l, cs_serversError := e\<rparr>) = data_inv s"
  "data_inv (s\<lparr>cs_serversError := e, cs_serversLoading := l\<rparr>) = data_inv s"
  "data_inv (s\<lparr>cs_fleetLoading := l, cs_fleetError := e\<rparr>) = data_inv s"
  "data_inv (s\<lparr>cs_fleetError := e, cs_fleetLoading := l\<rparr>) = data_inv s"
  "data_inv (s\<lparr>cs_snapshotErrors := m\<rparr>) = data_inv s"
  "data_inv (setFleetSort fs s) = data_inv s"
  by (simp_all add: data_inv_def setFleetSort_def)

lemma data_inv_connections [simp]:
  "data_inv (fold (\<lambda>c s. s\<lparr>cs_connection := c\<rparr>) cs s) = data_inv s"
  by (induction cs arbitrary: s) simp_all

text \<open>Responses: the laws of the telemetry source are what the store needs.\<close>

lemma data_inv_reply: "data_inv s \<Longrightarrow> data_inv (reply net r s)"
  by (auto simp: reply_def loadServers_done_def loadFleet_done_def loadSnapshot_done_def
      data_inv_fleet data_inv_ingest rest.fleet_wf rest.snapshot_wf
      split: console_request.splits sum.splits)
    (auto simp: data_inv_def rest.servers_wf)

subsection \<open>Invariants of the application\<close>

definition route_server :: "route \<Rightarrow> string option" where
  "route_server r = (case r of RServer i _ \<Rightarrow> Some i | _ \<Rightarrow> None)"

text \<open>What the selection must agree with, and the flags the views show.\<close>

definition selection_inv :: "console_state \<Rightarrow> bool" where
  "selection_inv s \<longleftrightarrow>
     cs_selectedServerId s = route_server (cs_route s)
     \<and> (\<forall>i t. cs_route s = RServer i t \<longrightarrow> cs_selectedTab s = t)"

definition flags_inv :: "console_state \<Rightarrow> console_request list \<Rightarrow> bool" where
  "flags_inv s rs \<longleftrightarrow>
     (cs_serversLoading s \<longrightarrow> ReqServers \<in> set rs) \<and> (cs_fleetLoading s \<longrightarrow> ReqFleet \<in> set rs)
     \<and> (cs_serversError s \<noteq> None \<longrightarrow> \<not> cs_serversLoading s)
     \<and> (cs_fleetError s \<noteq> None \<longrightarrow> \<not> cs_fleetLoading s)"

definition channel_inv :: "console_app \<Rightarrow> bool" where
  "channel_inv a \<longleftrightarrow>
     rt_inv (app_realtime a)
     \<and> (cs_connected (app_store a) \<longrightarrow>
          rt_intent (app_realtime a) = Some (cs_selectedServerId (app_store a)))"

definition app_inv :: "console_app \<Rightarrow> bool" where
  "app_inv a \<longleftrightarrow>
     data_inv (app_store a) \<and> selection_inv (app_store a)
     \<and> flags_inv (app_store a) (app_pending a) \<and> channel_inv a"

text \<open>Telemetry leaves the selection alone, and only ends a fleet load.\<close>

definition ui :: "console_state \<Rightarrow> bool \<times> route \<times> string option \<times> server_tab" where
  "ui s = (cs_connected s, cs_route s, cs_selectedServerId s, cs_selectedTab s)"

definition calm :: "console_state \<Rightarrow> console_state \<Rightarrow> bool" where
  "calm s s' \<longleftrightarrow>
     ui s' = ui s \<and> cs_serversLoading s' = cs_serversLoading s \<and> cs_serversError s' = cs_serversError s
     \<and> (cs_fleetLoading s' = cs_fleetLoading s \<and> cs_fleetError s' = cs_fleetError s
        \<or> \<not> cs_fleetLoading s' \<and> cs_fleetError s' = None)"

lemma calm_refl [simp]: "calm s s"
  by (simp add: calm_def)

lemma calm_trans: "calm s t \<Longrightarrow> calm t u \<Longrightarrow> calm s u"
  by (auto simp: calm_def)

lemma calm_frame: "calm s (applyRealtimeFrame f s)"
  by (cases f) (auto simp: calm_def ui_def ingestSnapshot_def apply_fleet_def apply_status_def Let_def)

lemma calm_frames: "calm s (fold applyRealtimeFrame fs s)"
  by (induction fs arbitrary: s) (auto intro: calm_trans calm_frame)

lemma calm_connections: "calm s (fold (\<lambda>c s. s\<lparr>cs_connection := c\<rparr>) cs s)"
proof (induction cs arbitrary: s)
  case (Cons c cs)
  have "calm s (s\<lparr>cs_connection := c\<rparr>)" by (simp add: calm_def ui_def)
  then show ?case using calm_trans Cons by fastforce
qed simp

lemma calm_realtime_call: "calm (app_store a) (app_store (realtime_call f a))"
  unfolding realtime_call_def Let_def by (auto intro: calm_trans calm_connections calm_frames)

lemma calm_selection: "calm s s' \<Longrightarrow> selection_inv s' = selection_inv s"
  by (simp add: calm_def selection_inv_def ui_def)

lemma calm_flags: "calm s s' \<Longrightarrow> flags_inv s rs \<Longrightarrow> flags_inv s' rs"
  by (auto simp: calm_def flags_inv_def)

lemma realtime_call_simps [simp]:
  "app_pending (realtime_call f a) = app_pending a" "app_hash (realtime_call f a) = app_hash a"
  "app_hashEvents (realtime_call f a) = app_hashEvents a"
  "app_listening (realtime_call f a) = app_listening a"
  "app_realtime (realtime_call f a) = f (app_realtime a)"
  by (simp_all add: realtime_call_def Let_def)

lemma ui_realtime_call [simp]:
  "cs_connected (app_store (realtime_call f a)) = cs_connected (app_store a)"
  "cs_route (app_store (realtime_call f a)) = cs_route (app_store a)"
  "cs_selectedServerId (app_store (realtime_call f a)) = cs_selectedServerId (app_store a)"
  "cs_selectedTab (app_store (realtime_call f a)) = cs_selectedTab (app_store a)"
  using calm_realtime_call [of a f] by (simp_all add: calm_def ui_def)

text \<open>The frames the client hands to the store were all accepted by the normalizer.\<close>

definition logs_wf :: "(realtime_client \<Rightarrow> realtime_client) \<Rightarrow> bool" where
  "logs_wf f \<longleftrightarrow>
     (\<forall>c. list_all wfFrame (map snd (drop (length (rc_frameLog c)) (rc_frameLog (f c)))))"

lemma data_inv_call:
  assumes "logs_wf f" "data_inv (app_store a)"
  shows "data_inv (app_store (realtime_call f a))"
proof -
  have "list_all wfFrame (emitted (rc_frameLog c) (rc_frameLog (f c)))" for c
    using assms(1) by (fastforce simp: logs_wf_def emitted_def list_all_iff)
  then show ?thesis using assms(2) by (simp add: realtime_call_def Let_def data_inv_frames)
qed

lemma parse_message_wf: "parse_message rt data = Some frame \<Longrightarrow> wfFrame frame"
  by (auto simp: parse_message_def wire_frame.norm_wf split: option.splits)

lemma logs_wf_unchanged: "(\<And>c. rc_frameLog (f c) = rc_frameLog c) \<Longrightarrow> logs_wf f"
  by (simp add: logs_wf_def)

lemma logs_wf_apply: "logs_wf (rt_apply rt e)"
proof (cases "\<exists>i data. e = EvMessage i data")
  case True
  then show ?thesis
    by (auto simp: logs_wf_def socket_onmessage_def list_all_iff dest: parse_message_wf
        split: option.splits)
next
  case False
  then show ?thesis
    by (intro logs_wf_unchanged, cases e)
      (auto simp: start_def stop_def clearTimer_def sendSelect_def sendPing_def onFrame_def
        offFrame_def onState_def offState_def socket_onopen_def socket_onclose_def
        timer_fired_def open_socket_def scheduleReconnect_def emitState_def socket_close_def
        Let_def split: option.splits)
qed

lemma logs_wf_methods:
  "logs_wf (start b)" "logs_wf (sendSelect i)" "logs_wf (onFrame l)" "logs_wf (onState l)"
  using logs_wf_apply [of undefined "EvStart b"] logs_wf_apply [of undefined "EvSelect i"]
    logs_wf_apply [of undefined "EvOnFrame l"] logs_wf_apply [of undefined "EvOnState l"]
  by (simp_all add: logs_wf_def)

text \<open>
  A realtime call that keeps the channel's invariant and intent keeps the application's; a
  selection brings channel and store back in step.
\<close>

lemma app_inv_call:
  assumes "app_inv a" "logs_wf f" "rt_inv (f (app_realtime a))"
    and "rt_intent (f (app_realtime a)) = rt_intent (app_realtime a)"
  shows "app_inv (realtime_call f a)"
  using assms calm_realtime_call [of a f]
  by (simp add: app_inv_def channel_inv_def data_inv_call calm_selection calm_flags)

lemma app_inv_pending: "app_inv a \<Longrightarrow> app_inv (await_request r a)"
  by (auto simp: app_inv_def await_request_def flags_inv_def channel_inv_def)

lemma app_inv_hash [simp]:
  "app_inv (a\<lparr>app_hash := h\<rparr>) = app_inv a" "app_inv (a\<lparr>app_hashEvents := n\<rparr>) = app_inv a"
  "app_inv (a\<lparr>app_listening := l\<rparr>) = app_inv a"
  by (simp_all add: app_inv_def channel_inv_def)

lemma app_inv_set_hash: "app_inv a \<Longrightarrow> app_inv (set_location_hash h a)"
  by (simp add: set_location_hash_def app_inv_def channel_inv_def)

text \<open>Everything but the selection, as it is between the two halves of \<open>applyHash\<close>.\<close>

definition core_inv :: "console_app \<Rightarrow> bool" where
  "core_inv a \<longleftrightarrow>
     data_inv (app_store a) \<and> flags_inv (app_store a) (app_pending a) \<and> rt_inv (app_realtime a)"

lemma app_inv_core: "app_inv a \<Longrightarrow> core_inv a"
  by (simp add: app_inv_def core_inv_def channel_inv_def)

lemma flags_inv_ui [simp]:
  "flags_inv (s\<lparr>cs_route := r\<rparr>) rs = flags_inv s rs"
  "flags_inv (s\<lparr>cs_selectedTab := t\<rparr>) rs = flags_inv s rs"
  "flags_inv (s\<lparr>cs_selectedServerId := i\<rparr>) rs = flags_inv s rs"
  "flags_inv (s\<lparr>cs_connected := b\<rparr>) rs = flags_inv s rs"
  by (simp_all add: flags_inv_def)

lemma core_inv_ui [simp]:
  "core_inv (set_store (\<lambda>s. s\<lparr>cs_route := r\<rparr>) a) = core_inv a"
  "core_inv (set_store (\<lambda>s. s\<lparr>cs_selectedTab := t\<rparr>) a) = core_inv a"
  "core_inv (set_store (\<lambda>s. s\<lparr>cs_selectedServerId := i\<rparr>) a) = core_inv a"
  by (simp_all add: core_inv_def set_store_def)

lemma rt_intent_sendSelect [simp]: "rt_intent (sendSelect i c) = Some i"
  by (simp add: sendSelect_def rt_intent_def)

lemma select_establishes:
  assumes "core_inv a" "route_server (cs_route (app_store a)) = i"
    and "\<And>j t. cs_route (app_store a) = RServer j t \<Longrightarrow> cs_selectedTab (app_store a) = t"
  shows "app_inv (select i a)"
proof -
  let ?a = "realtime_call (sendSelect i) (set_store (\<lambda>s. s\<lparr>cs_selectedServerId := i\<rparr>) a)"
  have "data_inv (app_store ?a)"
    using assms(1) by (intro data_inv_call logs_wf_methods) (simp add: core_inv_def set_store_def)
  moreover have "flags_inv (app_store ?a) (app_pending ?a)"
    using assms(1) calm_flags [OF calm_realtime_call] by (simp add: core_inv_def set_store_def)
  ultimately have "app_inv ?a"
    using assms by (simp add: app_inv_def channel_inv_def selection_inv_def core_inv_def set_store_def
        rt_inv_sendSelect)
  then show ?thesis
    by (cases i) (simp_all add: select_def Let_def loadSnapshot_def app_inv_pending)
qed

lemma app_inv_applyHash:
  assumes "app_inv a"
  shows "app_inv (applyHash a)"
proof -
  let ?r = "parseHash (app_hash a)"
  let ?a = "set_store (\<lambda>s. s\<lparr>cs_route := ?r\<rparr>) a"
  have core: "core_inv a" using assms by (rule app_inv_core)
  show ?thesis
  proof (cases "\<exists>i t. ?r = RServer i t")
    case True
    then obtain i t where r: "?r = RServer i t" by blast
    let ?b = "set_store (\<lambda>s. s\<lparr>cs_selectedTab := t\<rparr>) ?a"
    show ?thesis
    proof (cases "\<exists>t'. cs_route (app_store a) = RServer i t'")
      case True
      then show ?thesis using assms r
        by (auto simp: applyHash_def Let_def set_store_def app_inv_def selection_inv_def
            channel_inv_def route_server_def)
    next
      case False
      then have "applyHash a = select (Some i) ?b"
        using r by (auto simp: applyHash_def Let_def set_store_def split: route.splits)
      moreover have "app_inv (select (Some i) ?b)"
        by (rule select_establishes) (use core r in \<open>simp_all add: route_server_def set_store_def core_inv_def\<close>)
      ultimately show ?thesis by simp
    qed
  next
    case False
    then have s: "route_server ?r = None" by (auto simp: route_server_def split: route.splits)
    have e: "applyHash a = (if cs_selectedServerId (app_store a) \<noteq> None then select None ?a else ?a)"
      using False by (auto simp: applyHash_def Let_def set_store_def split: route.splits)
    have "app_inv (select None ?a)"
      by (rule select_establishes) (use core s False in \<open>simp_all add: set_store_def core_inv_def\<close>)
    moreover have "app_inv ?a" if "cs_selectedServerId (app_store a) = None"
      using assms that s False
      by (simp add: app_inv_def selection_inv_def channel_inv_def set_store_def data_inv_def flags_inv_def)
    ultimately show ?thesis unfolding e by simp
  qed
qed

lemma app_inv_loads:
  assumes "app_inv a"
  shows "app_inv (loadServers a)" "app_inv (loadFleet a)" "app_inv (loadSnapshot i a)"
  using assms
  by (auto simp: app_inv_def loadServers_def loadFleet_def loadSnapshot_def await_request_def
      set_store_def flags_inv_def selection_inv_def channel_inv_def)

lemma app_inv_navigate: "app_inv a \<Longrightarrow> app_inv (navigate h a)"
  by (simp add: navigate_def app_inv_applyHash app_inv_set_hash)

lemma app_inv_setTab: "app_inv a \<Longrightarrow> app_inv (setTab t a)"
  by (simp add: setTab_def app_inv_navigate split: route.splits)

lemma app_inv_connect:
  assumes "app_inv a"
  shows "app_inv (connect throws a)"
proof (cases "cs_connected (app_store a)")
  case False
  let ?a1 = "set_store (\<lambda>s. s\<lparr>cs_connected := True\<rparr>) a"
  let ?a2 = "realtime_call (onState STORE_LISTENER) (realtime_call (onFrame STORE_LISTENER) ?a1)"
  let ?a3 = "realtime_call (start throws) ?a2"
  let ?a4 = "realtime_call (sendSelect (cs_selectedServerId (app_store ?a3))) ?a3"
  have d: "data_inv (app_store ?a4)"
    using assms by (intro data_inv_call logs_wf_methods) (simp add: app_inv_def set_store_def)
  have f: "flags_inv (app_store ?a4) (app_pending ?a4)"
    using assms by (simp add: set_store_def)
      (intro calm_flags [OF calm_realtime_call], simp add: app_inv_def)
  have "selection_inv (app_store ?a4)"
    using assms by (simp add: selection_inv_def app_inv_def set_store_def)
  moreover have "channel_inv ?a4"
    using assms by (simp add: channel_inv_def app_inv_def rt_inv_sendSelect rt_inv_start
        rt_inv_listener_ops set_store_def)
  ultimately have "app_inv (?a4\<lparr>app_listening := True\<rparr>)"
    using d f by (simp add: app_inv_def channel_inv_def)
  then show ?thesis using False
    by (simp add: connect_def Let_def app_inv_applyHash app_inv_loads)
qed (simp add: connect_def assms)

lemma set_remove_nth: "k < length xs \<Longrightarrow> set xs = insert (xs ! k) (set (remove_nth k xs))"
  unfolding remove_nth_def by (subst id_take_nth_drop [of k]) auto

lemma calm_ingest: "calm s (ingestSnapshot snap s)"
  using calm_frame [of s "FServer i snap" for i] by simp

lemma calm_reply: "calm s (reply net (ReqSnapshot i) s)"
  by (auto simp: reply_def loadSnapshot_done_def calm_ingest split: sum.splits)
    (simp add: calm_def ui_def)

lemma flags_inv_reply:
  assumes "flags_inv s rs" "set rs = insert r (set rs')"
  shows "flags_inv (reply net r s) rs'"
proof (cases r)
  case (ReqSnapshot i)
  have "flags_inv s rs'" using assms ReqSnapshot by (auto simp: flags_inv_def)
  then show ?thesis using calm_flags [OF calm_reply] ReqSnapshot by simp
qed (use assms in \<open>auto simp: reply_def loadServers_done_def loadFleet_done_def apply_fleet_def
    flags_inv_def split: sum.splits\<close>)

lemma ui_reply [simp]: "ui (reply net r s) = ui s"
proof (cases r)
  case (ReqSnapshot i)
  then show ?thesis using calm_reply [of s net i] by (simp add: calm_def)
qed (auto simp: reply_def loadServers_done_def loadFleet_done_def ui_def apply_fleet_def
    split: sum.splits)

lemma app_inv_reply:
  assumes "app_inv a" "k < length (app_pending a)"
  shows "app_inv (set_store (reply net (app_pending a ! k)) (a\<lparr>app_pending := remove_nth k (app_pending a)\<rparr>))"
  using assms ui_reply [of net "app_pending a ! k" "app_store a"]
    flags_inv_reply [OF _ set_remove_nth [OF assms(2)]]
  by (simp add: app_inv_def set_store_def data_inv_reply channel_inv_def selection_inv_def ui_def)

lemma app_inv_socket:
  assumes "app_inv a" "network_event e" "rt_enabled e (app_realtime a)"
  shows "app_inv (realtime_call (rt_apply rt e) a)"
proof (rule app_inv_call [OF assms(1) logs_wf_apply])
  have "rt_step rt (app_realtime a) e (rt_apply rt e (app_realtime a))"
    using assms(3) by (rule rt_stepI)
  moreover have "rt_inv (app_realtime a)" using assms(1) by (simp add: app_inv_def channel_inv_def)
  ultimately show "rt_inv (rt_apply rt e (app_realtime a))" by (rule rt_inv_step [rotated])
  have "\<not> is_select e" using assms(2) by (cases e) auto
  then show "rt_intent (rt_apply rt e (app_realtime a)) = rt_intent (app_realtime a)"
    by (rule rt_intent_apply)
qed

lemma app_inv_step: "app_inv a \<Longrightarrow> console_step rt a a' \<Longrightarrow> app_inv a'"
proof (erule console_stepE, goal_cases)
  case (1 e)
  show ?case
  proof (cases e)
    case (CvSetFleetSort fs)
    then show ?thesis using 1
      by (simp add: app_inv_def set_store_def selection_inv_def flags_inv_def channel_inv_def)
        (simp add: setFleetSort_def)
  qed (use 1 in \<open>simp_all add: app_inv_connect app_inv_navigate app_inv_setTab app_inv_loads
      app_inv_set_hash app_inv_applyHash app_inv_socket app_inv_reply\<close>)
qed

lemma app_inv_init: "app_inv (console_init hash url)"
  by (simp add: app_inv_def console_init_def data_inv_init selection_inv_def flags_inv_def
      channel_inv_def rt_inv_init createConsoleStore_def route_server_def)
    (use data_inv_init in \<open>simp add: createConsoleStore_def\<close>)

lemma app_inv_reach: "console_reach rt a \<Longrightarrow> app_inv a"
  by (induction rule: console_reach.induct) (auto intro: app_inv_init app_inv_step)

end
