(* ===== verification/TransferStore.thy ===== *)
theory TransferStore
  imports TransfersApi Routes Loader
begin

text \<open>
  \<open>store/transferStore.ts\<close>: the jobs and batches of the Transfer Center with the 1 Hz
  polling timer. The closure variable \<open>timer\<close> holds the id of the interval;
  \<open>tf_intervals\<close> are the intervals armed in the browser, so that a duplicated timer would
  be visible. Requests in flight are the list \<open>tf_pending\<close>; responses come in any order.
\<close>

definition TRANSFER_POLL_MS :: nat where
  "TRANSFER_POLL_MS = 1000"

record transfer_dialog_state =
  tdl_open :: bool
  tdl_prefill :: transfer_prefill

datatype transfer_call =
    CallListJobs
  | CallListBatches
  | CallCancel string
  | CallRetry string
  | CallClearHistory
  | CallCreate transfer_request

record transfer_store =
  tf_jobs :: "transfer_job list"
  tf_loading :: bool
  tf_error :: "string option"
  tf_polling :: bool
  tf_batches :: "transfer_batch list"
  tf_batchesLoading :: bool
  tf_batchesError :: "string option"
  tf_dialog :: transfer_dialog_state
  tf_timer :: "nat option"
  tf_intervals :: "nat list"
  tf_next_interval :: nat
  tf_pending :: "transfer_call list"
  tf_hash :: string

definition no_prefill :: transfer_prefill where
  "no_prefill = \<lparr>pre_artifactId = None, pre_sourcePlacementId = None\<rparr>"

definition createTransferStore :: "string \<Rightarrow> transfer_store" where
  "createTransferStore hash =
     \<lparr>tf_jobs = [], tf_loading = False, tf_error = None, tf_polling = False, tf_batches = [],
      tf_batchesLoading = False, tf_batchesError = None,
      tf_dialog = \<lparr>tdl_open = False, tdl_prefill = no_prefill\<rparr>, tf_timer = None,
      tf_intervals = [], tf_next_interval = 0, tf_pending = [], tf_hash = hash\<rparr>"

text \<open>\<open>setInterval\<close> arms a new interval and gives its id; \<open>clearInterval\<close> disarms it.\<close>

definition setInterval :: "transfer_store \<Rightarrow> transfer_store" where
  "setInterval s =
     s\<lparr>tf_timer := Some (tf_next_interval s), tf_intervals := tf_intervals s @ [tf_next_interval s],
       tf_next_interval := tf_next_interval s + 1\<rparr>"

definition clearPollTimer :: "transfer_store \<Rightarrow> transfer_store" where
  "clearPollTimer s =
     (case tf_timer s of
        Some t \<Rightarrow> s\<lparr>tf_intervals := removeAll t (tf_intervals s), tf_timer := None\<rparr>
      | None \<Rightarrow> s)"

definition call :: "transfer_call \<Rightarrow> transfer_store \<Rightarrow> transfer_store" where
  "call c s = s\<lparr>tf_pending := tf_pending s @ [c]\<rparr>"

definition any_active :: "transfer_store \<Rightarrow> bool" where
  "any_active s \<longleftrightarrow>
     list_ex (\<lambda>job. isActiveTransferState (job_state job)) (tf_jobs s)
     \<or> list_ex (\<lambda>batch. isActiveBatchState (bat_state batch)) (tf_batches s)"

definition syncPolling :: "transfer_store \<Rightarrow> transfer_store" where
  "syncPolling s =
     (let active = any_active s in
      if active \<and> tf_timer s = None then (setInterval s)\<lparr>tf_polling := True\<rparr>
      else if \<not> active \<and> tf_timer s \<noteq> None then (clearPollTimer s)\<lparr>tf_polling := False\<rparr>
      else s)"

definition stopPolling :: "transfer_store \<Rightarrow> transfer_store" where
  "stopPolling s = (clearPollTimer s)\<lparr>tf_polling := False\<rparr>"

definition loadJobs :: "transfer_store \<Rightarrow> transfer_store" where
  "loadJobs s = call CallListJobs (s\<lparr>tf_loading := True\<rparr>)"

definition loadJobs_done :: "transfer_job list result \<Rightarrow> transfer_store \<Rightarrow> transfer_store" where
  "loadJobs_done response s =
     (case response of
        Inr jobs \<Rightarrow> syncPolling (s\<lparr>tf_jobs := jobs, tf_error := None, tf_loading := False\<rparr>)
      | Inl cause \<Rightarrow> s\<lparr>tf_error := Some (ae_detail cause), tf_loading := False\<rparr>)"

definition fetchBatches :: "transfer_store \<Rightarrow> transfer_store" where
  "fetchBatches s = call CallListBatches (s\<lparr>tf_batchesLoading := True\<rparr>)"

definition fetchBatches_done :: "transfer_batch list result \<Rightarrow> transfer_store \<Rightarrow> transfer_store" where
  "fetchBatches_done response s =
     (case response of
        Inr batches \<Rightarrow>
          syncPolling (s\<lparr>tf_batches := batches, tf_batchesError := None, tf_batchesLoading := False\<rparr>)
      | Inl cause \<Rightarrow> s\<lparr>tf_batchesError := Some (ae_detail cause), tf_batchesLoading := False\<rparr>)"

definition tick :: "transfer_store \<Rightarrow> transfer_store" where
  "tick s = (if tf_loading s \<or> tf_batchesLoading s then s else fetchBatches (loadJobs s))"

definition cancelJob :: "string \<Rightarrow> transfer_store \<Rightarrow> transfer_store" where
  "cancelJob jobId s = call (CallCancel jobId) s"

definition retryJob :: "string \<Rightarrow> transfer_store \<Rightarrow> transfer_store" where
  "retryJob jobId s = call (CallRetry jobId) s"

definition clearHistory :: "transfer_store \<Rightarrow> transfer_store" where
  "clearHistory s = call CallClearHistory s"

definition createTransfer :: "transfer_request \<Rightarrow> transfer_store \<Rightarrow> transfer_store" where
  "createTransfer body s = call (CallCreate body) s"

text \<open>An accepted mutation reloads the jobs; a refused one rejects to its caller.\<close>

definition mutation_done :: "'a result \<Rightarrow> transfer_store \<Rightarrow> transfer_store" where
  "mutation_done response s = (case response of Inr _ \<Rightarrow> loadJobs s | Inl _ \<Rightarrow> s)"

definition openNewTransfer :: "transfer_prefill \<Rightarrow> transfer_store \<Rightarrow> transfer_store" where
  "openNewTransfer prefill s =
     (let s = s\<lparr>tf_dialog := \<lparr>tdl_open = True, tdl_prefill = prefill\<rparr>\<rparr>
      in if tf_hash s \<noteq> TRANSFERS_HASH then s\<lparr>tf_hash := normal_hash TRANSFERS_HASH\<rparr> else s)"

definition closeNewTransfer :: "transfer_store \<Rightarrow> transfer_store" where
  "closeNewTransfer s = s\<lparr>tf_dialog := \<lparr>tdl_open = False, tdl_prefill = no_prefill\<rparr>\<rparr>"

definition transfer_reply ::
  "js_runtime \<Rightarrow> network \<Rightarrow> transfer_call \<Rightarrow> transfer_store \<Rightarrow> transfer_store" where
  "transfer_reply rt net c =
     (case c of
        CallListJobs \<Rightarrow> loadJobs_done (listJobs rt net)
      | CallListBatches \<Rightarrow> fetchBatches_done (listBatches rt net)
      | CallCancel jobId \<Rightarrow> mutation_done (cancelTransfer rt net jobId)
      | CallRetry jobId \<Rightarrow> mutation_done (retryTransfer rt net jobId)
      | CallClearHistory \<Rightarrow> mutation_done (clearTransferHistory rt net)
      | CallCreate body \<Rightarrow> mutation_done (createJob rt net body))"

subsection \<open>The step relation\<close>

datatype transfer_event =
    TvLoadJobs
  | TvFetchBatches
  | TvSyncPolling
  | TvStopPolling
  | TvCancel string
  | TvRetry string
  | TvClearHistory
  | TvCreate transfer_request
  | TvOpen transfer_prefill
  | TvClose
  | TvHash string
  | TvTick nat
  | TvReply nat network

fun transfer_enabled :: "transfer_event \<Rightarrow> transfer_store \<Rightarrow> bool" where
  "transfer_enabled (TvTick t) s = (t \<in> set (tf_intervals s))"
| "transfer_enabled (TvReply k net) s = (k < length (tf_pending s))"
| "transfer_enabled _ s = True"

definition answer ::
  "js_runtime \<Rightarrow> nat \<Rightarrow> network \<Rightarrow> transfer_store \<Rightarrow> transfer_store" where
  "answer rt k net s =
     transfer_reply rt net (tf_pending s ! k)
       (s\<lparr>tf_pending := take k (tf_pending s) @ drop (Suc k) (tf_pending s)\<rparr>)"

fun transfer_apply :: "js_runtime \<Rightarrow> transfer_event \<Rightarrow> transfer_store \<Rightarrow> transfer_store" where
  "transfer_apply rt TvLoadJobs s = loadJobs s"
| "transfer_apply rt TvFetchBatches s = fetchBatches s"
| "transfer_apply rt TvSyncPolling s = syncPolling s"
| "transfer_apply rt TvStopPolling s = stopPolling s"
| "transfer_apply rt (TvCancel jobId) s = cancelJob jobId s"
| "transfer_apply rt (TvRetry jobId) s = retryJob jobId s"
| "transfer_apply rt TvClearHistory s = clearHistory s"
| "transfer_apply rt (TvCreate body) s = createTransfer body s"
| "transfer_apply rt (TvOpen prefill) s = openNewTransfer prefill s"
| "transfer_apply rt TvClose s = closeNewTransfer s"
| "transfer_apply rt (TvHash hash) s = s\<lparr>tf_hash := normal_hash hash\<rparr>"
| "transfer_apply rt (TvTick t) s = tick s"
| "transfer_apply rt (TvReply k net) s = answer rt k net s"

inductive transfer_step :: "js_runtime \<Rightarrow> transfer_store \<Rightarrow> transfer_event \<Rightarrow> transfer_store \<Rightarrow> bool"
  for rt :: js_runtime where
  transfer_stepI: "transfer_enabled e s \<Longrightarrow> transfer_step rt s e (transfer_apply rt e s)"

inductive_cases transfer_stepE: "transfer_step rt s e s'"

inductive transfer_reach :: "js_runtime \<Rightarrow> transfer_store \<Rightarrow> bool" for rt :: js_runtime where
  transfer_reach_init: "transfer_reach rt (createTransferStore hash)"
| transfer_reach_step: "transfer_reach rt s \<Longrightarrow> transfer_step rt s e s' \<Longrightarrow> transfer_reach rt s'"

subsection \<open>The loads\<close>

lemma syncPolling_same [simp]:
  "tf_jobs (syncPolling s) = tf_jobs s" "tf_batches (syncPolling s) = tf_batches s"
  "tf_pending (syncPolling s) = tf_pending s" "tf_loading (syncPolling s) = tf_loading s"
  "tf_batchesLoading (syncPolling s) = tf_batchesLoading s" "tf_error (syncPolling s) = tf_error s"
  "tf_batchesError (syncPolling s) = tf_batchesError s"
  by (auto simp: syncPolling_def setInterval_def clearPollTimer_def Let_def split: option.splits)

interpretation jobs_loader: loader loadJobs loadJobs_done tf_loading tf_error None Some tf_jobs id
  by unfold_locales (simp_all add: loadJobs_def loadJobs_done_def call_def split: sum.splits)

interpretation batches_loader: loader fetchBatches fetchBatches_done tf_batchesLoading tf_batchesError None Some tf_batches id
  by unfold_locales (simp_all add: fetchBatches_def fetchBatches_done_def call_def split: sum.splits)

subsection \<open>The timer\<close>

text \<open>
  At most one interval is ever armed, \<open>polling\<close> mirrors it, and an armed timer means that
  some job or batch is active.
\<close>

definition timer_wf :: "transfer_store \<Rightarrow> bool" where
  "timer_wf s \<longleftrightarrow>
     tf_intervals s = (case tf_timer s of Some t \<Rightarrow> [t] | None \<Rightarrow> [])
     \<and> tf_polling s = (tf_timer s \<noteq> None)"

definition timer_inv :: "transfer_store \<Rightarrow> bool" where
  "timer_inv s \<longleftrightarrow> timer_wf s \<and> (tf_timer s \<noteq> None \<longrightarrow> any_active s)"

definition loading_inv :: "transfer_store \<Rightarrow> bool" where
  "loading_inv s \<longleftrightarrow>
     (tf_loading s \<longrightarrow> CallListJobs \<in> set (tf_pending s))
     \<and> (tf_batchesLoading s \<longrightarrow> CallListBatches \<in> set (tf_pending s))"

definition lists_inv :: "transfer_store \<Rightarrow> bool" where
  "lists_inv s \<longleftrightarrow> list_all wfTransferJob (tf_jobs s) \<and> list_all wfTransferBatch (tf_batches s)"

definition transfer_inv :: "transfer_store \<Rightarrow> bool" where
  "transfer_inv s \<longleftrightarrow> timer_inv s \<and> loading_inv s \<and> lists_inv s"

lemmas transfer_inv_defs = transfer_inv_def timer_inv_def loading_inv_def lists_inv_def

text \<open>After \<open>syncPolling\<close> the timer is armed exactly while something is active.\<close>

lemma syncPolling_exact:
  "timer_wf s \<Longrightarrow> timer_inv (syncPolling s) \<and> tf_polling (syncPolling s) = any_active s"
  by (auto simp: syncPolling_def timer_inv_def timer_wf_def setInterval_def clearPollTimer_def
      any_active_def Let_def split: option.splits)

lemma timer_wf_fields:
  "tf_timer s' = tf_timer s \<Longrightarrow> tf_intervals s' = tf_intervals s \<Longrightarrow> tf_polling s' = tf_polling s \<Longrightarrow>
   timer_wf s' = timer_wf s"
  by (simp add: timer_wf_def)

lemma transfer_inv_fields:
  assumes "transfer_inv s" "tf_timer s' = tf_timer s" "tf_intervals s' = tf_intervals s"
    "tf_polling s' = tf_polling s" "tf_jobs s' = tf_jobs s" "tf_batches s' = tf_batches s"
    "loading_inv s'"
  shows "transfer_inv s'"
  using assms timer_wf_fields [of s' s]
  by (simp add: transfer_inv_def timer_inv_def lists_inv_def any_active_def)

lemma transfer_inv_loading: "transfer_inv s \<Longrightarrow> loading_inv s"
  by (simp add: transfer_inv_def)

lemma loading_inv_ops:
  assumes "loading_inv s"
  shows "loading_inv (call c s)" "loading_inv (loadJobs s)" "loading_inv (fetchBatches s)"
    "loading_inv (openNewTransfer p s)" "loading_inv (closeNewTransfer s)" "loading_inv (s\<lparr>tf_hash := h\<rparr>)"
  using assms
  by (auto simp: loading_inv_def call_def loadJobs_def fetchBatches_def openNewTransfer_def
      closeNewTransfer_def Let_def)

lemma transfer_inv_calls:
  assumes "transfer_inv s"
  shows "transfer_inv (call c s)" "transfer_inv (loadJobs s)" "transfer_inv (fetchBatches s)"
proof -
  note l = loading_inv_ops [OF transfer_inv_loading [OF assms]]
  show "transfer_inv (call c s)"
    using transfer_inv_fields [OF assms _ _ _ _ _ l(1)] by (simp add: call_def)
  show "transfer_inv (loadJobs s)"
    using transfer_inv_fields [OF assms _ _ _ _ _ l(2)] by (simp add: call_def loadJobs_def)
  show "transfer_inv (fetchBatches s)"
    using transfer_inv_fields [OF assms _ _ _ _ _ l(3)] by (simp add: call_def fetchBatches_def)
qed

lemma transfer_inv_sync: "transfer_inv s \<Longrightarrow> transfer_inv (syncPolling s)"
  using syncPolling_exact [of s]
  by (simp add: transfer_inv_def timer_inv_def loading_inv_def lists_inv_def)

lemma transfer_inv_stop: "transfer_inv s \<Longrightarrow> transfer_inv (stopPolling s)"
  by (auto simp: transfer_inv_def timer_inv_def timer_wf_def loading_inv_def lists_inv_def
      stopPolling_def clearPollTimer_def split: option.splits)

lemma transfer_inv_mutation: "transfer_inv s \<Longrightarrow> transfer_inv (mutation_done r s)"
  by (simp add: mutation_done_def transfer_inv_calls split: sum.splits)

text \<open>
  A list response lowers its flag, so it keeps the invariant although its own request has left
  the queue.
\<close>

lemma transfer_inv_jobs_done:
  assumes "timer_inv s" "lists_inv s" "tf_batchesLoading s \<longrightarrow> CallListBatches \<in> set (tf_pending s)"
    and "\<And>xs. r = Inr xs \<Longrightarrow> list_all wfTransferJob xs"
  shows "transfer_inv (loadJobs_done r s)"
proof (cases r)
  case (Inr xs)
  let ?s = "s\<lparr>tf_jobs := xs, tf_error := None, tf_loading := False\<rparr>"
  have "timer_wf ?s" using assms(1) timer_wf_fields [of ?s s] by (simp add: timer_inv_def)
  then show ?thesis using assms Inr syncPolling_exact [of ?s]
    by (simp add: loadJobs_done_def transfer_inv_def loading_inv_def lists_inv_def)
qed (use assms in \<open>simp add: loadJobs_done_def transfer_inv_def timer_inv_def timer_wf_def
    loading_inv_def lists_inv_def any_active_def\<close>)

lemma transfer_inv_batches_done:
  assumes "timer_inv s" "lists_inv s" "tf_loading s \<longrightarrow> CallListJobs \<in> set (tf_pending s)"
    and "\<And>xs. r = Inr xs \<Longrightarrow> list_all wfTransferBatch xs"
  shows "transfer_inv (fetchBatches_done r s)"
proof (cases r)
  case (Inr xs)
  let ?s = "s\<lparr>tf_batches := xs, tf_batchesError := None, tf_batchesLoading := False\<rparr>"
  have "timer_wf ?s" using assms(1) timer_wf_fields [of ?s s] by (simp add: timer_inv_def)
  then show ?thesis using assms Inr syncPolling_exact [of ?s]
    by (simp add: fetchBatches_done_def transfer_inv_def loading_inv_def lists_inv_def)
qed (use assms in \<open>simp add: fetchBatches_done_def transfer_inv_def timer_inv_def timer_wf_def
    loading_inv_def lists_inv_def any_active_def\<close>)

lemma removed_pending:
  assumes "k < length xs" "c \<in> set xs" "c \<noteq> xs ! k"
  shows "c \<in> set (take k xs @ drop (Suc k) xs)"
proof -
  have "c \<in> set (take k xs @ xs ! k # drop (Suc k) xs)"
    using assms(2) id_take_nth_drop [OF assms(1)] by metis
  then show ?thesis using assms(3) by auto
qed

lemma transfer_inv_answer:
  assumes "transfer_inv s" "k < length (tf_pending s)"
  shows "transfer_inv (answer rt k net s)"
proof -
  let ?s = "s\<lparr>tf_pending := take k (tf_pending s) @ drop (Suc k) (tf_pending s)\<rparr>"
  have t: "timer_inv ?s" "lists_inv ?s"
    using assms(1) timer_wf_fields [of ?s s]
    by (simp_all add: transfer_inv_def timer_inv_def lists_inv_def any_active_def)
  have j: "tf_loading ?s \<longrightarrow> CallListJobs \<in> set (tf_pending ?s)" if "tf_pending s ! k \<noteq> CallListJobs"
    using assms that removed_pending [OF assms(2)] by (simp add: transfer_inv_def loading_inv_def)
  have b: "tf_batchesLoading ?s \<longrightarrow> CallListBatches \<in> set (tf_pending ?s)"
    if "tf_pending s ! k \<noteq> CallListBatches"
    using assms that removed_pending [OF assms(2)] by (simp add: transfer_inv_def loading_inv_def)
  have m: "transfer_inv ?s" if "tf_pending s ! k \<noteq> CallListJobs" "tf_pending s ! k \<noteq> CallListBatches"
    using t j [OF that(1)] b [OF that(2)] by (simp add: transfer_inv_def loading_inv_def)
  show ?thesis
    using t j b m unfolding answer_def transfer_reply_def
    by (cases "tf_pending s ! k")
      (simp_all add: transfer_inv_jobs_done transfer_inv_batches_done transfer_inv_mutation
        listJobs_wf listBatches_wf)
qed

lemma transfer_inv_dialog:
  assumes "transfer_inv s"
  shows "transfer_inv (openNewTransfer p s)" "transfer_inv (closeNewTransfer s)"
    "transfer_inv (s\<lparr>tf_hash := h\<rparr>)"
proof -
  note l = loading_inv_ops [OF transfer_inv_loading [OF assms]]
  show "transfer_inv (openNewTransfer p s)"
    by (rule transfer_inv_fields [OF assms _ _ _ _ _ l(4)]) (simp_all add: openNewTransfer_def Let_def)
  show "transfer_inv (closeNewTransfer s)"
    by (rule transfer_inv_fields [OF assms _ _ _ _ _ l(5)]) (simp_all add: closeNewTransfer_def)
  show "transfer_inv (s\<lparr>tf_hash := h\<rparr>)"
    by (rule transfer_inv_fields [OF assms _ _ _ _ _ l(6)]) simp_all
qed

lemma transfer_inv_step:
  assumes "transfer_inv s" "transfer_step rt s e s'"
  shows "transfer_inv s'"
proof -
  have "s' = transfer_apply rt e s" "transfer_enabled e s" using assms(2) by (auto elim: transfer_stepE)
  then show ?thesis using assms(1)
    by (cases e) (simp_all add: transfer_inv_calls transfer_inv_sync transfer_inv_stop cancelJob_def
        retryJob_def clearHistory_def createTransfer_def transfer_inv_dialog
        tick_def transfer_inv_answer)
qed

lemma transfer_inv_init: "transfer_inv (createTransferStore hash)"
  by (simp add: createTransferStore_def transfer_inv_def timer_inv_def timer_wf_def loading_inv_def
      lists_inv_def)

lemma transfer_inv_reach: "transfer_reach rt s \<Longrightarrow> transfer_inv s"
  by (induction rule: transfer_reach.induct) (auto intro: transfer_inv_init transfer_inv_step)

subsection \<open>Polling\<close>

text \<open>
  The load a store carries: the list requests in flight, and one more when the flag would let
  the timer send another. Ticks and list responses never raise it, so however slow the backend
  is, the timer does not pile up requests.
\<close>

definition jobs_load :: "transfer_store \<Rightarrow> nat" where
  "jobs_load s = count_list (tf_pending s) CallListJobs + (if tf_loading s then 0 else 1)"

definition batches_load :: "transfer_store \<Rightarrow> nat" where
  "batches_load s = count_list (tf_pending s) CallListBatches + (if tf_batchesLoading s then 0 else 1)"

fun polling_event :: "transfer_event \<Rightarrow> transfer_store \<Rightarrow> bool" where
  "polling_event (TvTick t) s = True"
| "polling_event (TvReply k net) s = (tf_pending s ! k = CallListJobs \<or> tf_pending s ! k = CallListBatches)"
| "polling_event e s = (e = TvSyncPolling \<or> e = TvStopPolling)"

inductive poll_run :: "js_runtime \<Rightarrow> transfer_store \<Rightarrow> transfer_store \<Rightarrow> bool" for rt :: js_runtime where
  poll_refl: "poll_run rt s s"
| poll_step: "poll_run rt s t \<Longrightarrow> transfer_step rt t e u \<Longrightarrow> polling_event e t \<Longrightarrow> poll_run rt s u"

lemma count_removed:
  assumes "k < length xs"
  shows "count_list xs c = count_list (take k xs @ drop (Suc k) xs) c + (if xs ! k = c then 1 else 0)"
proof -
  have "count_list xs c = count_list (take k xs @ xs ! k # drop (Suc k) xs) c"
    using id_take_nth_drop [OF assms] by metis
  then show ?thesis by simp
qed

lemma pending_stop [simp]:
  "tf_pending (stopPolling s) = tf_pending s" "tf_loading (stopPolling s) = tf_loading s"
  "tf_batchesLoading (stopPolling s) = tf_batchesLoading s"
  by (simp_all add: stopPolling_def clearPollTimer_def split: option.splits)

lemma done_fields:
  "tf_pending (loadJobs_done r s) = tf_pending s" "\<not> tf_loading (loadJobs_done r s)"
  "tf_batchesLoading (loadJobs_done r s) = tf_batchesLoading s"
  "tf_pending (fetchBatches_done q s) = tf_pending s" "\<not> tf_batchesLoading (fetchBatches_done q s)"
  "tf_loading (fetchBatches_done q s) = tf_loading s"
  by (simp_all add: loadJobs_done_def fetchBatches_done_def split: sum.splits)

lemma load_answer:
  assumes "k < length (tf_pending s)" "tf_pending s ! k = CallListJobs \<or> tf_pending s ! k = CallListBatches"
  shows "jobs_load (answer rt k net s) \<le> jobs_load s \<and> batches_load (answer rt k net s) \<le> batches_load s"
  using assms(2)
proof
  assume c: "tf_pending s ! k = CallListJobs"
  show ?thesis using c count_removed [OF assms(1), of CallListJobs] count_removed [OF assms(1), of CallListBatches]
    by (simp add: answer_def transfer_reply_def jobs_load_def batches_load_def done_fields)
next
  assume c: "tf_pending s ! k = CallListBatches"
  show ?thesis using c count_removed [OF assms(1), of CallListJobs] count_removed [OF assms(1), of CallListBatches]
    by (simp add: answer_def transfer_reply_def jobs_load_def batches_load_def done_fields)
qed

lemma load_step:
  assumes "transfer_step rt s e s'" "polling_event e s"
  shows "jobs_load s' \<le> jobs_load s \<and> batches_load s' \<le> batches_load s"
proof -
  have e: "s' = transfer_apply rt e s" "transfer_enabled e s" using assms(1) by (auto elim: transfer_stepE)
  show ?thesis
    using assms(2) e load_answer
    by (cases e) (simp_all add: jobs_load_def batches_load_def tick_def loadJobs_def fetchBatches_def call_def)
qed

lemma load_run:
  "poll_run rt s t \<Longrightarrow> jobs_load t \<le> jobs_load s \<and> batches_load t \<le> batches_load s"
  by (induction rule: poll_run.induct) (auto dest: load_step)

text \<open>Once both lists are answered with nothing active, polling has stopped.\<close>

lemma polling_ends:
  assumes "transfer_inv s" "\<not> any_active (s\<lparr>tf_jobs := js, tf_batches := bs\<rparr>)"
  shows "\<not> tf_polling (fetchBatches_done (Inr bs) (loadJobs_done (Inr js) s))"
proof -
  let ?j = "s\<lparr>tf_jobs := js, tf_error := None, tf_loading := False\<rparr>"
  let ?s = "syncPolling ?j"
  let ?b = "?s\<lparr>tf_batches := bs, tf_batchesError := None, tf_batchesLoading := False\<rparr>"
  have "timer_wf ?j" using assms(1) timer_wf_fields [of ?j s] by (simp add: transfer_inv_def timer_inv_def)
  then have "timer_wf ?s" using syncPolling_exact by (simp add: timer_inv_def)
  then have "timer_wf ?b" using timer_wf_fields [of ?b ?s] by simp
  then show ?thesis using syncPolling_exact [of ?b] assms(2)
    by (simp add: fetchBatches_done_def loadJobs_done_def any_active_def)
qed

text \<open>
  A manual stop does not last: a list response that was in flight arms the timer again.
\<close>

lemma stop_undone:
  assumes "transfer_inv s" "list_ex (\<lambda>job. isActiveTransferState (job_state job)) js"
  shows "tf_polling (loadJobs_done (Inr js) (stopPolling s))"
proof -
  let ?j = "stopPolling s\<lparr>tf_jobs := js, tf_error := None, tf_loading := False\<rparr>"
  have "timer_wf ?j"
    using transfer_inv_stop [OF assms(1)] timer_wf_fields [of ?j "stopPolling s"]
    by (simp add: transfer_inv_def timer_inv_def)
  then show ?thesis using syncPolling_exact [of ?j] assms(2)
    by (simp add: loadJobs_done_def any_active_def)
qed

end
