(* ===== verification/WorkspaceStore.thy ===== *)
theory WorkspaceStore
  imports WorkspaceApi Loader
begin

text \<open>
  \<open>store/workspaceStore.ts\<close>: the catalogue of projects, artifacts, placements and launch
  configurations, the caches keyed by server, placement and project, and the sync plan. An
  action is the state change before its \<open>await\<close> (\<open>load\<dots>\<close> and \<open>\<dots>_start\<close>) and the one
  after it (\<open>\<dots>_done\<close>); the requests in flight are \<open>wk_pending\<close>. A mutation that is
  refused rejects to its caller and leaves the catalogue alone.
\<close>

datatype workspace_call =
    WcListProjects
  | WcListArtifacts
  | WcListPlacements
  | WcListLaunchConfigs
  | WcRoots string
  | WcCreateProject project_create
  | WcPatchProject string project_patch
  | WcDeleteProject string
  | WcCreateArtifact artifact_create
  | WcPatchArtifact string artifact_patch
  | WcDeleteArtifact string
  | WcCreatePlacement placement_create
  | WcPatchPlacement string placement_patch
  | WcDeletePlacement string
  | WcCreateLaunchConfig launch_config_create
  | WcPatchLaunchConfig string launch_config_patch
  | WcDeleteLaunchConfig string
  | WcInspectPlacement string
  | WcSaveRoots string server_roots_update
  | WcDistribution string
  | WcInspectProject string
  | WcSyncPlan string sync_plan_request
  | WcSync string sync_plan_request

record workspace_store =
  wk_projects :: "project_record list"
  wk_projectsLoading :: bool
  wk_projectsError :: "string option"
  wk_artifacts :: "artifact_record list"
  wk_artifactsLoading :: bool
  wk_artifactsError :: "string option"
  wk_placements :: "placement_record list"
  wk_placementsLoading :: bool
  wk_placementsError :: "string option"
  wk_launchConfigs :: "launch_config_record list"
  wk_launchConfigsLoading :: bool
  wk_launchConfigsError :: "string option"
  wk_serverRoots :: "string \<rightharpoonup> server_roots"
  wk_rootsLoading :: "string \<rightharpoonup> bool"
  wk_rootsErrors :: "string \<rightharpoonup> string"
  wk_inspections :: "string \<rightharpoonup> placement_inspection"
  wk_inspecting :: "string \<rightharpoonup> bool"
  wk_inspectErrors :: "string \<rightharpoonup> string"
  wk_distributions :: "string \<rightharpoonup> project_distribution"
  wk_distributionLoading :: "string \<rightharpoonup> bool"
  wk_distributionErrors :: "string \<rightharpoonup> string"
  wk_projectInspecting :: "string \<rightharpoonup> bool"
  wk_projectInspectErrors :: "string \<rightharpoonup> string"
  wk_syncPlan :: "project_sync_plan option"
  wk_syncPlanLoading :: bool
  wk_syncPlanError :: "string option"
  wk_syncRunning :: bool
  wk_syncError :: "string option"
  wk_pending :: "workspace_call list"

definition createWorkspaceStore :: workspace_store where
  "createWorkspaceStore =
     \<lparr>wk_projects = [], wk_projectsLoading = False, wk_projectsError = None,
      wk_artifacts = [], wk_artifactsLoading = False, wk_artifactsError = None,
      wk_placements = [], wk_placementsLoading = False, wk_placementsError = None,
      wk_launchConfigs = [], wk_launchConfigsLoading = False, wk_launchConfigsError = None,
      wk_serverRoots = Map.empty, wk_rootsLoading = Map.empty, wk_rootsErrors = Map.empty,
      wk_inspections = Map.empty, wk_inspecting = Map.empty, wk_inspectErrors = Map.empty,
      wk_distributions = Map.empty, wk_distributionLoading = Map.empty,
      wk_distributionErrors = Map.empty, wk_projectInspecting = Map.empty,
      wk_projectInspectErrors = Map.empty, wk_syncPlan = None, wk_syncPlanLoading = False,
      wk_syncPlanError = None, wk_syncRunning = False, wk_syncError = None, wk_pending = []\<rparr>"

definition ws_call :: "workspace_call \<Rightarrow> workspace_store \<Rightarrow> workspace_store" where
  "ws_call c s = s\<lparr>wk_pending := wk_pending s @ [c]\<rparr>"

definition on_success :: "'a result \<Rightarrow> ('a \<Rightarrow> 's \<Rightarrow> 's) \<Rightarrow> 's \<Rightarrow> 's" where
  "on_success response f s = (case response of Inr x \<Rightarrow> f x s | Inl _ \<Rightarrow> s)"

subsection \<open>Loads\<close>

definition loadProjects :: "workspace_store \<Rightarrow> workspace_store" where
  "loadProjects s =
     ws_call WcListProjects (s\<lparr>wk_projectsLoading := True, wk_projectsError := None\<rparr>)"

definition loadProjects_done :: "project_record list result \<Rightarrow> workspace_store \<Rightarrow> workspace_store" where
  "loadProjects_done response s =
     (case response of
        Inr projects \<Rightarrow> s\<lparr>wk_projects := projects, wk_projectsLoading := False\<rparr>
      | Inl cause \<Rightarrow> s\<lparr>wk_projectsError := Some (ae_detail cause), wk_projectsLoading := False\<rparr>)"

definition loadArtifacts :: "workspace_store \<Rightarrow> workspace_store" where
  "loadArtifacts s =
     ws_call WcListArtifacts (s\<lparr>wk_artifactsLoading := True, wk_artifactsError := None\<rparr>)"

definition loadArtifacts_done :: "artifact_record list result \<Rightarrow> workspace_store \<Rightarrow> workspace_store" where
  "loadArtifacts_done response s =
     (case response of
        Inr artifacts \<Rightarrow> s\<lparr>wk_artifacts := artifacts, wk_artifactsLoading := False\<rparr>
      | Inl cause \<Rightarrow> s\<lparr>wk_artifactsError := Some (ae_detail cause), wk_artifactsLoading := False\<rparr>)"

definition loadPlacements :: "workspace_store \<Rightarrow> workspace_store" where
  "loadPlacements s =
     ws_call WcListPlacements (s\<lparr>wk_placementsLoading := True, wk_placementsError := None\<rparr>)"

definition loadPlacements_done :: "placement_record list result \<Rightarrow> workspace_store \<Rightarrow> workspace_store" where
  "loadPlacements_done response s =
     (case response of
        Inr placements \<Rightarrow> s\<lparr>wk_placements := placements, wk_placementsLoading := False\<rparr>
      | Inl cause \<Rightarrow> s\<lparr>wk_placementsError := Some (ae_detail cause), wk_placementsLoading := False\<rparr>)"

definition loadLaunchConfigs :: "workspace_store \<Rightarrow> workspace_store" where
  "loadLaunchConfigs s =
     ws_call WcListLaunchConfigs (s\<lparr>wk_launchConfigsLoading := True, wk_launchConfigsError := None\<rparr>)"

definition loadLaunchConfigs_done ::
  "launch_config_record list result \<Rightarrow> workspace_store \<Rightarrow> workspace_store" where
  "loadLaunchConfigs_done response s =
     (case response of
        Inr launchConfigs \<Rightarrow> s\<lparr>wk_launchConfigs := launchConfigs, wk_launchConfigsLoading := False\<rparr>
      | Inl cause \<Rightarrow>
          s\<lparr>wk_launchConfigsError := Some (ae_detail cause), wk_launchConfigsLoading := False\<rparr>)"

definition loadWorkspace :: "workspace_store \<Rightarrow> workspace_store" where
  "loadWorkspace s = loadLaunchConfigs (loadPlacements (loadArtifacts (loadProjects s)))"

definition loadServerRoots :: "string \<Rightarrow> workspace_store \<Rightarrow> workspace_store" where
  "loadServerRoots serverId s =
     ws_call (WcRoots serverId)
       (s\<lparr>wk_rootsLoading := (wk_rootsLoading s)(serverId \<mapsto> True),
          wk_rootsErrors := (wk_rootsErrors s)(serverId \<mapsto> '''')\<rparr>)"

definition loadServerRoots_done ::
  "string \<Rightarrow> server_roots result \<Rightarrow> workspace_store \<Rightarrow> workspace_store" where
  "loadServerRoots_done serverId response s =
     (case response of
        Inr roots \<Rightarrow>
          s\<lparr>wk_serverRoots := (wk_serverRoots s)(serverId \<mapsto> roots),
            wk_rootsLoading := (wk_rootsLoading s)(serverId \<mapsto> False)\<rparr>
      | Inl cause \<Rightarrow>
          s\<lparr>wk_rootsErrors := (wk_rootsErrors s)(serverId \<mapsto> ae_detail cause),
            wk_rootsLoading := (wk_rootsLoading s)(serverId \<mapsto> False)\<rparr>)"

definition fetchDistribution :: "string \<Rightarrow> workspace_store \<Rightarrow> workspace_store" where
  "fetchDistribution projectId s =
     ws_call (WcDistribution projectId)
       (s\<lparr>wk_distributionLoading := (wk_distributionLoading s)(projectId \<mapsto> True),
          wk_distributionErrors := (wk_distributionErrors s)(projectId \<mapsto> '''')\<rparr>)"

definition fetchDistribution_done ::
  "string \<Rightarrow> project_distribution result \<Rightarrow> workspace_store \<Rightarrow> workspace_store" where
  "fetchDistribution_done projectId response s =
     (case response of
        Inr distribution \<Rightarrow>
          s\<lparr>wk_distributions := (wk_distributions s)(projectId \<mapsto> distribution),
            wk_distributionLoading := (wk_distributionLoading s)(projectId \<mapsto> False)\<rparr>
      | Inl cause \<Rightarrow>
          s\<lparr>wk_distributionErrors := (wk_distributionErrors s)(projectId \<mapsto> ae_detail cause),
            wk_distributionLoading := (wk_distributionLoading s)(projectId \<mapsto> False)\<rparr>)"

definition inspectProject_start :: "string \<Rightarrow> workspace_store \<Rightarrow> workspace_store" where
  "inspectProject_start projectId s =
     ws_call (WcInspectProject projectId)
       (s\<lparr>wk_projectInspecting := (wk_projectInspecting s)(projectId \<mapsto> True),
          wk_projectInspectErrors := (wk_projectInspectErrors s)(projectId \<mapsto> '''')\<rparr>)"

definition inspectProject_done ::
  "string \<Rightarrow> project_distribution result \<Rightarrow> workspace_store \<Rightarrow> workspace_store" where
  "inspectProject_done projectId response s =
     (case response of
        Inr distribution \<Rightarrow>
          s\<lparr>wk_distributions := (wk_distributions s)(projectId \<mapsto> distribution),
            wk_projectInspecting := (wk_projectInspecting s)(projectId \<mapsto> False)\<rparr>
      | Inl cause \<Rightarrow>
          s\<lparr>wk_projectInspectErrors := (wk_projectInspectErrors s)(projectId \<mapsto> ae_detail cause),
            wk_projectInspecting := (wk_projectInspecting s)(projectId \<mapsto> False)\<rparr>)"

definition inspectPlacement_start :: "string \<Rightarrow> workspace_store \<Rightarrow> workspace_store" where
  "inspectPlacement_start placementId s =
     ws_call (WcInspectPlacement placementId)
       (s\<lparr>wk_inspecting := (wk_inspecting s)(placementId \<mapsto> True)\<rparr>)"

definition inspectPlacement_done ::
  "string \<Rightarrow> placement_inspection result \<Rightarrow> workspace_store \<Rightarrow> workspace_store" where
  "inspectPlacement_done placementId response s =
     (let s = (case response of
                 Inr inspection \<Rightarrow>
                   s\<lparr>wk_inspections := (wk_inspections s)(placementId \<mapsto> inspection),
                     wk_inspectErrors := (wk_inspectErrors s)(placementId \<mapsto> '''')\<rparr>
               | Inl cause \<Rightarrow>
                   s\<lparr>wk_inspectErrors := (wk_inspectErrors s)(placementId \<mapsto> ae_detail cause)\<rparr>)
      in s\<lparr>wk_inspecting := (wk_inspecting s)(placementId \<mapsto> False)\<rparr>)"

definition saveServerRoots_done :: "string \<Rightarrow> server_roots \<Rightarrow> workspace_store \<Rightarrow> workspace_store" where
  "saveServerRoots_done serverId roots s =
     s\<lparr>wk_serverRoots := (wk_serverRoots s)(serverId \<mapsto> roots)\<rparr>"

subsection \<open>Catalogue mutations\<close>

definition createProject_done :: "project_record \<Rightarrow> workspace_store \<Rightarrow> workspace_store" where
  "createProject_done r s = s\<lparr>wk_projects := wk_projects s @ [r]\<rparr>"

definition patchProject_done :: "string \<Rightarrow> project_record \<Rightarrow> workspace_store \<Rightarrow> workspace_store" where
  "patchProject_done projectId r s =
     s\<lparr>wk_projects := map (\<lambda>p. if prj_project_id p = projectId then r else p) (wk_projects s)\<rparr>"

definition deleteProject_done :: "string \<Rightarrow> workspace_store \<Rightarrow> workspace_store" where
  "deleteProject_done projectId s =
     (let project = find (\<lambda>p. prj_project_id p = projectId) (wk_projects s)
      in s\<lparr>wk_projects := filter (\<lambda>p. prj_project_id p \<noteq> projectId) (wk_projects s),
           wk_distributions := (wk_distributions s)(projectId := None),
           wk_launchConfigs :=
             filter (\<lambda>config. case project of None \<Rightarrow> True
                       | Some p \<Rightarrow> lch_launch_config_id config \<notin> set (prj_launch_config_ids p))
               (wk_launchConfigs s)\<rparr>)"

definition createArtifact_done :: "artifact_record \<Rightarrow> workspace_store \<Rightarrow> workspace_store" where
  "createArtifact_done r s = s\<lparr>wk_artifacts := wk_artifacts s @ [r]\<rparr>"

definition patchArtifact_done :: "string \<Rightarrow> artifact_record \<Rightarrow> workspace_store \<Rightarrow> workspace_store" where
  "patchArtifact_done artifactId r s =
     s\<lparr>wk_artifacts := map (\<lambda>a. if art_artifact_id a = artifactId then r else a) (wk_artifacts s)\<rparr>"

definition drop_inspections ::
  "placement_record list \<Rightarrow> string \<Rightarrow> (string \<rightharpoonup> placement_inspection) \<Rightarrow> (string \<rightharpoonup> placement_inspection)" where
  "drop_inspections placements artifactId inspections =
     fold (\<lambda>p m. if plc_artifact_id p = artifactId then m(plc_placement_id p := None) else m)
       placements inspections"

definition deleteArtifact_done :: "string \<Rightarrow> workspace_store \<Rightarrow> workspace_store" where
  "deleteArtifact_done artifactId s =
     s\<lparr>wk_artifacts := filter (\<lambda>a. art_artifact_id a \<noteq> artifactId) (wk_artifacts s),
       wk_placements := filter (\<lambda>p. plc_artifact_id p \<noteq> artifactId) (wk_placements s),
       wk_inspections := drop_inspections (wk_placements s) artifactId (wk_inspections s)\<rparr>"

definition createPlacement_done :: "placement_record \<Rightarrow> workspace_store \<Rightarrow> workspace_store" where
  "createPlacement_done r s = s\<lparr>wk_placements := wk_placements s @ [r]\<rparr>"

definition patchPlacement_done :: "string \<Rightarrow> placement_record \<Rightarrow> workspace_store \<Rightarrow> workspace_store" where
  "patchPlacement_done placementId r s =
     s\<lparr>wk_placements := map (\<lambda>p. if plc_placement_id p = placementId then r else p) (wk_placements s)\<rparr>"

definition deletePlacement_done :: "string \<Rightarrow> workspace_store \<Rightarrow> workspace_store" where
  "deletePlacement_done placementId s =
     s\<lparr>wk_placements := filter (\<lambda>p. plc_placement_id p \<noteq> placementId) (wk_placements s),
       wk_inspections := (wk_inspections s)(placementId := None)\<rparr>"

definition createLaunchConfig_done :: "launch_config_record \<Rightarrow> workspace_store \<Rightarrow> workspace_store" where
  "createLaunchConfig_done r s = loadProjects (s\<lparr>wk_launchConfigs := wk_launchConfigs s @ [r]\<rparr>)"

definition patchLaunchConfig_done ::
  "string \<Rightarrow> launch_config_record \<Rightarrow> workspace_store \<Rightarrow> workspace_store" where
  "patchLaunchConfig_done launchConfigId r s =
     s\<lparr>wk_launchConfigs :=
         map (\<lambda>l. if lch_launch_config_id l = launchConfigId then r else l) (wk_launchConfigs s)\<rparr>"

definition deleteLaunchConfig_done :: "string \<Rightarrow> workspace_store \<Rightarrow> workspace_store" where
  "deleteLaunchConfig_done launchConfigId s =
     loadProjects
       (s\<lparr>wk_launchConfigs :=
            filter (\<lambda>l. lch_launch_config_id l \<noteq> launchConfigId) (wk_launchConfigs s)\<rparr>)"

subsection \<open>Synchronisation\<close>

definition buildSyncPlan_start :: "string \<Rightarrow> sync_plan_request \<Rightarrow> workspace_store \<Rightarrow> workspace_store" where
  "buildSyncPlan_start projectId body s =
     ws_call (WcSyncPlan projectId body)
       (s\<lparr>wk_syncPlan := None, wk_syncPlanLoading := True, wk_syncPlanError := None\<rparr>)"

definition buildSyncPlan_done :: "project_sync_plan result \<Rightarrow> workspace_store \<Rightarrow> workspace_store" where
  "buildSyncPlan_done response s =
     (case response of
        Inr plan \<Rightarrow> s\<lparr>wk_syncPlan := Some plan, wk_syncPlanLoading := False\<rparr>
      | Inl cause \<Rightarrow> s\<lparr>wk_syncPlanError := Some (ae_detail cause), wk_syncPlanLoading := False\<rparr>)"

definition syncProject_start :: "string \<Rightarrow> sync_plan_request \<Rightarrow> workspace_store \<Rightarrow> workspace_store" where
  "syncProject_start projectId body s =
     ws_call (WcSync projectId body) (s\<lparr>wk_syncRunning := True, wk_syncError := None\<rparr>)"

definition syncProject_done :: "transfer_batch result \<Rightarrow> workspace_store \<Rightarrow> workspace_store" where
  "syncProject_done response s =
     (case response of
        Inr batch \<Rightarrow> s\<lparr>wk_syncRunning := False\<rparr>
      | Inl cause \<Rightarrow> s\<lparr>wk_syncRunning := False, wk_syncError := Some (ae_detail cause)\<rparr>)"

definition resetSyncPlan :: "workspace_store \<Rightarrow> workspace_store" where
  "resetSyncPlan s = s\<lparr>wk_syncPlan := None, wk_syncPlanError := None, wk_syncError := None\<rparr>"

text \<open>The response to a call, and the continuation it runs.\<close>

definition workspace_reply ::
  "js_runtime \<Rightarrow> network \<Rightarrow> workspace_call \<Rightarrow> workspace_store \<Rightarrow> workspace_store" where
  "workspace_reply rt net c =
     (case c of
        WcListProjects \<Rightarrow> loadProjects_done (listProjects rt net)
      | WcListArtifacts \<Rightarrow> loadArtifacts_done (listArtifacts rt net None)
      | WcListPlacements \<Rightarrow> loadPlacements_done (listPlacements rt net)
      | WcListLaunchConfigs \<Rightarrow> loadLaunchConfigs_done (listLaunchConfigs rt net)
      | WcRoots i \<Rightarrow> loadServerRoots_done i (getServerRoots rt net i)
      | WcCreateProject body \<Rightarrow> on_success (createProject rt net body) createProject_done
      | WcPatchProject i patch \<Rightarrow> on_success (patchProject rt net i patch) (patchProject_done i)
      | WcDeleteProject i \<Rightarrow> on_success (deleteProject rt net i) (\<lambda>_. deleteProject_done i)
      | WcCreateArtifact body \<Rightarrow> on_success (createArtifact rt net body) createArtifact_done
      | WcPatchArtifact i patch \<Rightarrow> on_success (patchArtifact rt net i patch) (patchArtifact_done i)
      | WcDeleteArtifact i \<Rightarrow> on_success (deleteArtifact rt net i) (\<lambda>_. deleteArtifact_done i)
      | WcCreatePlacement body \<Rightarrow> on_success (createPlacement rt net body) createPlacement_done
      | WcPatchPlacement i patch \<Rightarrow> on_success (patchPlacement rt net i patch) (patchPlacement_done i)
      | WcDeletePlacement i \<Rightarrow> on_success (deletePlacement rt net i) (\<lambda>_. deletePlacement_done i)
      | WcCreateLaunchConfig body \<Rightarrow> on_success (createLaunchConfig rt net body) createLaunchConfig_done
      | WcPatchLaunchConfig i patch \<Rightarrow>
          on_success (patchLaunchConfig rt net i patch) (patchLaunchConfig_done i)
      | WcDeleteLaunchConfig i \<Rightarrow> on_success (deleteLaunchConfig rt net i) (\<lambda>_. deleteLaunchConfig_done i)
      | WcInspectPlacement i \<Rightarrow> inspectPlacement_done i (inspectPlacement rt net i)
      | WcSaveRoots i update \<Rightarrow> on_success (putServerRoots rt net i update) (saveServerRoots_done i)
      | WcDistribution i \<Rightarrow> fetchDistribution_done i (getProjectDistribution rt net i)
      | WcInspectProject i \<Rightarrow> inspectProject_done i (inspectProject rt net i)
      | WcSyncPlan i body \<Rightarrow> buildSyncPlan_done (buildSyncPlan rt net i body)
      | WcSync i body \<Rightarrow> syncProject_done (syncProject rt net i body))"

subsection \<open>The step relation\<close>

fun ws_start :: "workspace_call \<Rightarrow> workspace_store \<Rightarrow> workspace_store" where
  "ws_start WcListProjects s = loadProjects s"
| "ws_start WcListArtifacts s = loadArtifacts s"
| "ws_start WcListPlacements s = loadPlacements s"
| "ws_start WcListLaunchConfigs s = loadLaunchConfigs s"
| "ws_start (WcRoots i) s = loadServerRoots i s"
| "ws_start (WcInspectPlacement i) s = inspectPlacement_start i s"
| "ws_start (WcDistribution i) s = fetchDistribution i s"
| "ws_start (WcInspectProject i) s = inspectProject_start i s"
| "ws_start (WcSyncPlan i body) s = buildSyncPlan_start i body s"
| "ws_start (WcSync i body) s = syncProject_start i body s"
| "ws_start c s = ws_call c s"

datatype workspace_event =
    WvStart workspace_call
  | WvLoadWorkspace
  | WvResetSyncPlan
  | WvReply nat network

fun workspace_enabled :: "workspace_event \<Rightarrow> workspace_store \<Rightarrow> bool" where
  "workspace_enabled (WvReply k net) s = (k < length (wk_pending s))"
| "workspace_enabled _ s = True"

definition ws_answer :: "js_runtime \<Rightarrow> nat \<Rightarrow> network \<Rightarrow> workspace_store \<Rightarrow> workspace_store" where
  "ws_answer rt k net s =
     workspace_reply rt net (wk_pending s ! k)
       (s\<lparr>wk_pending := take k (wk_pending s) @ drop (Suc k) (wk_pending s)\<rparr>)"

fun workspace_apply :: "js_runtime \<Rightarrow> workspace_event \<Rightarrow> workspace_store \<Rightarrow> workspace_store" where
  "workspace_apply rt (WvStart c) s = ws_start c s"
| "workspace_apply rt WvLoadWorkspace s = loadWorkspace s"
| "workspace_apply rt WvResetSyncPlan s = resetSyncPlan s"
| "workspace_apply rt (WvReply k net) s = ws_answer rt k net s"

inductive workspace_step :: "js_runtime \<Rightarrow> workspace_store \<Rightarrow> workspace_event \<Rightarrow> workspace_store \<Rightarrow> bool"
  for rt :: js_runtime where
  workspace_stepI: "workspace_enabled e s \<Longrightarrow> workspace_step rt s e (workspace_apply rt e s)"

inductive_cases workspace_stepE: "workspace_step rt s e s'"

inductive workspace_reach :: "js_runtime \<Rightarrow> workspace_store \<Rightarrow> bool" for rt :: js_runtime where
  workspace_reach_init: "workspace_reach rt createWorkspaceStore"
| workspace_reach_step: "workspace_reach rt s \<Longrightarrow> workspace_step rt s e s' \<Longrightarrow> workspace_reach rt s'"

subsection \<open>The loads\<close>

interpretation projects_loader: loader loadProjects loadProjects_done wk_projectsLoading
  wk_projectsError None Some wk_projects id
  by unfold_locales (simp_all add: loadProjects_def loadProjects_done_def ws_call_def split: sum.splits)

interpretation artifacts_loader: loader loadArtifacts loadArtifacts_done wk_artifactsLoading
  wk_artifactsError None Some wk_artifacts id
  by unfold_locales (simp_all add: loadArtifacts_def loadArtifacts_done_def ws_call_def split: sum.splits)

interpretation placements_loader: loader loadPlacements loadPlacements_done wk_placementsLoading
  wk_placementsError None Some wk_placements id
  by unfold_locales (simp_all add: loadPlacements_def loadPlacements_done_def ws_call_def split: sum.splits)

interpretation launch_configs_loader: loader loadLaunchConfigs loadLaunchConfigs_done
  wk_launchConfigsLoading wk_launchConfigsError None Some wk_launchConfigs id
  by unfold_locales
    (simp_all add: loadLaunchConfigs_def loadLaunchConfigs_done_def ws_call_def split: sum.splits)

text \<open>The keyed loads follow the protocol at each key; a missing message is the empty one.\<close>

definition flag_at :: "(string \<rightharpoonup> bool) \<Rightarrow> string \<Rightarrow> bool" where
  "flag_at m i = (m i = Some True)"

definition message_at :: "(string \<rightharpoonup> string) \<Rightarrow> string \<Rightarrow> string" where
  "message_at m i = (case m i of Some x \<Rightarrow> x | None \<Rightarrow> '''')"

interpretation roots_loader: loader "loadServerRoots i" "loadServerRoots_done i"
  "\<lambda>s. flag_at (wk_rootsLoading s) i" "\<lambda>s. message_at (wk_rootsErrors s) i" "''''" id
  "\<lambda>s. wk_serverRoots s i" Some
  by unfold_locales
    (simp_all add: loadServerRoots_def loadServerRoots_done_def ws_call_def flag_at_def message_at_def
      split: sum.splits)

interpretation distribution_loader: loader "fetchDistribution i" "fetchDistribution_done i"
  "\<lambda>s. flag_at (wk_distributionLoading s) i" "\<lambda>s. message_at (wk_distributionErrors s) i" "''''" id
  "\<lambda>s. wk_distributions s i" Some
  by unfold_locales
    (simp_all add: fetchDistribution_def fetchDistribution_done_def ws_call_def flag_at_def
      message_at_def split: sum.splits)

interpretation project_inspection_loader: loader "inspectProject_start i" "inspectProject_done i"
  "\<lambda>s. flag_at (wk_projectInspecting s) i" "\<lambda>s. message_at (wk_projectInspectErrors s) i" "''''" id
  "\<lambda>s. wk_distributions s i" Some
  by unfold_locales
    (simp_all add: inspectProject_start_def inspectProject_done_def ws_call_def flag_at_def
      message_at_def split: sum.splits)

interpretation inspection_loader: loader "inspectPlacement_start i" "inspectPlacement_done i"
  "\<lambda>s. flag_at (wk_inspecting s) i" "\<lambda>s. message_at (wk_inspectErrors s) i" "''''" id
  "\<lambda>s. wk_inspections s i" Some
  by unfold_locales
    (simp_all add: inspectPlacement_start_def inspectPlacement_done_def ws_call_def flag_at_def
      message_at_def Let_def split: sum.splits)

subsection \<open>The catalogue\<close>

text \<open>
  The four collections share their mutations: a created record is appended, a patched one
  replaces the record of its id, a deleted one is removed.
\<close>

locale collection =
  fixes items :: "'s \<Rightarrow> 'a list"
    and ident :: "'a \<Rightarrow> string"
    and created :: "'a \<Rightarrow> 's \<Rightarrow> 's"
    and patched :: "string \<Rightarrow> 'a \<Rightarrow> 's \<Rightarrow> 's"
    and deleted :: "string \<Rightarrow> 's \<Rightarrow> 's"
  assumes items_created: "items (created r s) = items s @ [r]"
    and items_patched: "items (patched i r s) = map (\<lambda>x. if ident x = i then r else x) (items s)"
    and items_deleted: "items (deleted i s) = filter (\<lambda>x. ident x \<noteq> i) (items s)"
begin

definition look :: "string \<Rightarrow> 's \<Rightarrow> 'a option" where
  "look i s = find (\<lambda>x. ident x = i) (items s)"

definition unique_ids :: "'s \<Rightarrow> bool" where
  "unique_ids s \<longleftrightarrow> distinct (map ident (items s))"

lemma find_append: "find P (xs @ ys) = (case find P xs of Some x \<Rightarrow> Some x | None \<Rightarrow> find P ys)"
  by (induction xs) auto

lemma look_created:
  "look j (created r s) = (case look j s of Some x \<Rightarrow> Some x | None \<Rightarrow> if ident r = j then Some r else None)"
  by (simp add: look_def items_created find_append split: option.splits)

lemma look_patched:
  assumes "ident r = i"
  shows "look j (patched i r s) = (if j = i then map_option (\<lambda>_. r) (look i s) else look j s)"
proof -
  have "find (\<lambda>x. ident x = j) (map (\<lambda>x. if ident x = i then r else x) xs) =
      (if j = i then map_option (\<lambda>_. r) (find (\<lambda>x. ident x = i) xs) else find (\<lambda>x. ident x = j) xs)" for xs
    using assms by (induction xs) auto
  then show ?thesis by (simp add: look_def items_patched)
qed

lemma look_deleted: "look j (deleted i s) = (if j = i then None else look j s)"
proof -
  have "find (\<lambda>x. ident x = j) (filter (\<lambda>x. ident x \<noteq> i) xs) =
      (if j = i then None else find (\<lambda>x. ident x = j) xs)" for xs
    by (induction xs) auto
  then show ?thesis by (simp add: look_def items_deleted)
qed

lemma unique_created: "unique_ids s \<Longrightarrow> look (ident r) s = None \<Longrightarrow> unique_ids (created r s)"
  by (auto simp: unique_ids_def look_def items_created find_None_iff)

lemma unique_patched: "unique_ids s \<Longrightarrow> ident r = i \<Longrightarrow> unique_ids (patched i r s)"
proof -
  assume u: "unique_ids s" and r: "ident r = i"
  have "map ident (items (patched i r s)) = map ident (items s)" using r by (simp add: items_patched)
  then show ?thesis using u by (simp only: unique_ids_def)
qed

lemma unique_deleted: "unique_ids s \<Longrightarrow> unique_ids (deleted i s)"
  by (simp add: unique_ids_def items_deleted distinct_map_filter)

lemma create_delete:
  "look (ident r) s = None \<Longrightarrow> items (deleted (ident r) (created r s)) = items s"
  by (auto simp: look_def items_created items_deleted find_None_iff filter_id_conv)

end

interpretation projects: collection wk_projects prj_project_id createProject_done patchProject_done deleteProject_done
  by unfold_locales (simp_all add: createProject_done_def patchProject_done_def deleteProject_done_def Let_def)

interpretation artifacts: collection wk_artifacts art_artifact_id createArtifact_done patchArtifact_done deleteArtifact_done
  by unfold_locales (simp_all add: createArtifact_done_def patchArtifact_done_def deleteArtifact_done_def)

interpretation placements: collection wk_placements plc_placement_id createPlacement_done patchPlacement_done deletePlacement_done
  by unfold_locales (simp_all add: createPlacement_done_def patchPlacement_done_def deletePlacement_done_def)

interpretation launch_configs: collection wk_launchConfigs lch_launch_config_id createLaunchConfig_done
  patchLaunchConfig_done deleteLaunchConfig_done
  by unfold_locales (simp_all add: createLaunchConfig_done_def patchLaunchConfig_done_def
      deleteLaunchConfig_done_def loadProjects_def ws_call_def)

text \<open>Deleting an artifact cascades to its placements and to what was known of them.\<close>

lemma drop_inspections_at:
  "drop_inspections ps a m i =
     (if \<exists>p \<in> set ps. plc_artifact_id p = a \<and> plc_placement_id p = i then None else m i)"
  by (induction ps arbitrary: m) (auto simp: drop_inspections_def)

lemma deleteArtifact_cascade:
  "p \<in> set (wk_placements s) \<Longrightarrow> plc_artifact_id p = a \<Longrightarrow>
   p \<notin> set (wk_placements (deleteArtifact_done a s))
   \<and> wk_inspections (deleteArtifact_done a s) (plc_placement_id p) = None"
  by (auto simp: deleteArtifact_done_def drop_inspections_at)

lemma deleteArtifact_keeps:
  assumes "p \<in> set (wk_placements s)" "plc_artifact_id p \<noteq> a"
    and "distinct (map plc_placement_id (wk_placements s))"
  shows "p \<in> set (wk_placements (deleteArtifact_done a s))
         \<and> wk_inspections (deleteArtifact_done a s) (plc_placement_id p) = wk_inspections s (plc_placement_id p)"
proof -
  have "\<not> (\<exists>q \<in> set (wk_placements s). plc_artifact_id q = a \<and> plc_placement_id q = plc_placement_id p)"
    using assms by (auto dest: inj_onD simp: distinct_map)
  then show ?thesis using assms(1,2) by (auto simp: deleteArtifact_done_def drop_inspections_at)
qed

subsection \<open>Progress flags\<close>

text \<open>
  Every flag the views show as busy has the request that raised it in flight: no spinner is
  left behind, whatever the order of the responses.
\<close>

datatype workspace_flag =
    FlProjects
  | FlArtifacts
  | FlPlacements
  | FlLaunchConfigs
  | FlRoots string
  | FlInspecting string
  | FlDistribution string
  | FlProjectInspect string
  | FlPlan
  | FlSync

fun raised :: "workspace_flag \<Rightarrow> workspace_store \<Rightarrow> bool" where
  "raised FlProjects s = wk_projectsLoading s"
| "raised FlArtifacts s = wk_artifactsLoading s"
| "raised FlPlacements s = wk_placementsLoading s"
| "raised FlLaunchConfigs s = wk_launchConfigsLoading s"
| "raised (FlRoots i) s = flag_at (wk_rootsLoading s) i"
| "raised (FlInspecting i) s = flag_at (wk_inspecting s) i"
| "raised (FlDistribution i) s = flag_at (wk_distributionLoading s) i"
| "raised (FlProjectInspect i) s = flag_at (wk_projectInspecting s) i"
| "raised FlPlan s = wk_syncPlanLoading s"
| "raised FlSync s = wk_syncRunning s"

fun flag_of :: "workspace_call \<Rightarrow> workspace_flag option" where
  "flag_of WcListProjects = Some FlProjects"
| "flag_of WcListArtifacts = Some FlArtifacts"
| "flag_of WcListPlacements = Some FlPlacements"
| "flag_of WcListLaunchConfigs = Some FlLaunchConfigs"
| "flag_of (WcRoots i) = Some (FlRoots i)"
| "flag_of (WcInspectPlacement i) = Some (FlInspecting i)"
| "flag_of (WcDistribution i) = Some (FlDistribution i)"
| "flag_of (WcInspectProject i) = Some (FlProjectInspect i)"
| "flag_of (WcSyncPlan i body) = Some FlPlan"
| "flag_of (WcSync i body) = Some FlSync"
| "flag_of c = None"

definition flags_backed :: "workspace_store \<Rightarrow> bool" where
  "flags_backed s \<longleftrightarrow> (\<forall>f. raised f s \<longrightarrow> Some f \<in> flag_of ` set (wk_pending s))"

lemmas load_defs = loadProjects_def loadArtifacts_def loadPlacements_def loadLaunchConfigs_def
  loadServerRoots_def inspectPlacement_start_def fetchDistribution_def inspectProject_start_def
  buildSyncPlan_start_def syncProject_start_def ws_call_def

lemmas done_defs = loadProjects_done_def loadArtifacts_done_def loadPlacements_done_def
  loadLaunchConfigs_done_def loadServerRoots_done_def inspectPlacement_done_def
  fetchDistribution_done_def inspectProject_done_def buildSyncPlan_done_def syncProject_done_def
  saveServerRoots_done_def createProject_done_def patchProject_done_def deleteProject_done_def
  createArtifact_done_def patchArtifact_done_def deleteArtifact_done_def createPlacement_done_def
  patchPlacement_done_def deletePlacement_done_def createLaunchConfig_done_def
  patchLaunchConfig_done_def deleteLaunchConfig_done_def on_success_def Let_def

lemma pending_start [simp]: "wk_pending (ws_start c s) = wk_pending s @ [c]"
  by (cases c) (simp_all add: load_defs)

lemma raised_start: "raised f (ws_start c s) \<Longrightarrow> raised f s \<or> flag_of c = Some f"
  by (cases c; cases f) (auto simp: load_defs flag_at_def split: if_splits)

lemma raised_start_loads:
  "flag_of c = Some f \<Longrightarrow> raised f (ws_start c s)"
  by (cases c) (auto simp: load_defs flag_at_def)

lemma raised_update_pending [simp]: "raised f (s\<lparr>wk_pending := p\<rparr>) = raised f s"
  by (cases f) simp_all

lemma pending_reply:
  "\<exists>new. wk_pending (workspace_reply rt net c s) = wk_pending s @ new \<and> set new \<subseteq> {WcListProjects}"
  by (cases c) (auto simp: workspace_reply_def done_defs loadProjects_def ws_call_def split: sum.splits)

lemma raised_reply:
  assumes "raised f (workspace_reply rt net c s)"
  shows "raised f s \<and> flag_of c \<noteq> Some f
         \<or> f = FlProjects \<and> WcListProjects \<in> set (wk_pending (workspace_reply rt net c s))"
proof (cases "flag_of c")
  case None
  then show ?thesis using assms
    by (cases c; cases f)
      (auto simp: workspace_reply_def done_defs loadProjects_def ws_call_def flag_at_def split: sum.splits)
next
  case (Some g)
  then show ?thesis using assms
    by (cases c; cases f)
      (auto simp: workspace_reply_def done_defs flag_at_def split: sum.splits if_splits)
qed

lemma flags_backed_start: "flags_backed s \<Longrightarrow> flags_backed (ws_start c s)"
  unfolding flags_backed_def using raised_start [of _ c s] by fastforce

lemma flags_backed_reset: "flags_backed s \<Longrightarrow> flags_backed (resetSyncPlan s)"
proof -
  have "raised f (resetSyncPlan s) = raised f s" for f
    by (cases f) (simp_all add: resetSyncPlan_def)
  moreover have "wk_pending (resetSyncPlan s) = wk_pending s" by (simp add: resetSyncPlan_def)
  ultimately show "flags_backed s \<Longrightarrow> flags_backed (resetSyncPlan s)" by (simp add: flags_backed_def)
qed

lemma flags_backed_answer:
  assumes "flags_backed s" "k < length (wk_pending s)"
  shows "flags_backed (ws_answer rt k net s)"
  unfolding flags_backed_def
proof (intro allI impI)
  fix f assume "raised f (ws_answer rt k net s)"
  let ?c = "wk_pending s ! k" and ?rest = "take k (wk_pending s) @ drop (Suc k) (wk_pending s)"
  let ?s = "s\<lparr>wk_pending := ?rest\<rparr>"
  obtain new where new: "wk_pending (ws_answer rt k net s) = ?rest @ new"
    using pending_reply [of rt net ?c ?s] by (auto simp: ws_answer_def)
  have split: "set (wk_pending s) = insert ?c (set ?rest)"
    by (subst id_take_nth_drop [OF assms(2)]) auto
  from raised_reply [of f rt net ?c ?s] \<open>raised f (ws_answer rt k net s)\<close>
  consider "raised f s" "flag_of ?c \<noteq> Some f"
    | "f = FlProjects" "WcListProjects \<in> set (wk_pending (ws_answer rt k net s))"
    by (auto simp: ws_answer_def)
  then show "Some f \<in> flag_of ` set (wk_pending (ws_answer rt k net s))"
  proof cases
    case 1
    then obtain c where "c \<in> set (wk_pending s)" "flag_of c = Some f"
      using assms(1) by (auto simp: flags_backed_def)
    then have "c \<in> set ?rest" using 1(2) split by auto
    then show ?thesis using \<open>flag_of c = Some f\<close> new by force
  next
    case 2
    then show ?thesis by force
  qed
qed

lemma flags_backed_step:
  assumes "flags_backed s" "workspace_step rt s e s'"
  shows "flags_backed s'"
proof -
  have "s' = workspace_apply rt e s" "workspace_enabled e s" using assms(2) by (auto elim: workspace_stepE)
  then show ?thesis
    using assms(1) flags_backed_start [of _ WcListProjects] flags_backed_start [of _ WcListArtifacts]
      flags_backed_start [of _ WcListPlacements] flags_backed_start [of _ WcListLaunchConfigs]
    by (cases e) (simp_all add: flags_backed_start flags_backed_reset flags_backed_answer loadWorkspace_def)
qed

lemma flags_backed_reach: "workspace_reach rt s \<Longrightarrow> flags_backed s"
proof (induction rule: workspace_reach.induct)
  case workspace_reach_init
  have "\<not> raised f createWorkspaceStore" for f
    by (cases f) (simp_all add: createWorkspaceStore_def flag_at_def)
  then show ?case by (simp add: flags_backed_def)
qed (rule flags_backed_step)

text \<open>When nothing is in flight, nothing is shown as busy.\<close>

lemma idle_when_answered: "workspace_reach rt s \<Longrightarrow> wk_pending s = [] \<Longrightarrow> \<not> raised f s"
  using flags_backed_reach by (fastforce simp: flags_backed_def)

subsection \<open>The catalogue stays well formed\<close>

text \<open>The records whose fields are bounded: the launch configurations and the inspections.\<close>

definition catalogue_wf :: "workspace_store \<Rightarrow> bool" where
  "catalogue_wf s \<longleftrightarrow>
     list_all wfLaunchConfigRecord (wk_launchConfigs s)
     \<and> (\<forall>i x. wk_inspections s i = Some x \<longrightarrow> wfPlacementInspection x)"

lemma catalogue_wf_start: "catalogue_wf s \<Longrightarrow> catalogue_wf (ws_start c s)"
  by (cases c) (simp_all add: load_defs catalogue_wf_def)

lemma list_all_subst: "list_all P xs \<Longrightarrow> P r \<Longrightarrow> list_all P (map (\<lambda>x. if Q x then r else x) xs)"
  by (induction xs) auto

lemma list_all_filter: "list_all P xs \<Longrightarrow> list_all P (filter Q xs)"
  by (induction xs) auto

lemma drop_inspections_Some: "drop_inspections ps a m i = Some x \<Longrightarrow> m i = Some x"
  by (simp add: drop_inspections_at split: if_splits)

text \<open>What each client operation returns is well formed.\<close>

lemma lists_wf: "listLaunchConfigs rt net = Inr ls \<Longrightarrow> list_all wfLaunchConfigRecord ls"
  by (simp add: listLaunchConfigs_def wire_launch_config_record.read_list_wf)

lemma mutations_wf:
  "createLaunchConfig rt net lb = Inr l \<Longrightarrow> wfLaunchConfigRecord l"
  "patchLaunchConfig rt net i lp = Inr l \<Longrightarrow> wfLaunchConfigRecord l"
  by (simp_all add: createLaunchConfig_def patchLaunchConfig_def wire_launch_config_record.read_model_wf)

lemma inspections_wf: "inspectPlacement rt net i = Inr x \<Longrightarrow> wfPlacementInspection x"
  by (simp add: inspectPlacement_def wire_placement_inspection.read_model_wf)

lemma catalogue_wf_reply:
  assumes "catalogue_wf s"
  shows "catalogue_wf (workspace_reply rt net c s)"
  using assms
  by (cases c)
    (auto simp: workspace_reply_def done_defs catalogue_wf_def load_defs list_all_subst list_all_filter
      dest: lists_wf mutations_wf inspections_wf drop_inspections_Some split: sum.splits if_splits)

lemma catalogue_wf_loads:
  assumes "catalogue_wf s"
  shows "catalogue_wf (loadProjects s)" "catalogue_wf (loadArtifacts s)"
    "catalogue_wf (loadPlacements s)" "catalogue_wf (loadLaunchConfigs s)" "catalogue_wf (resetSyncPlan s)"
    "catalogue_wf (s\<lparr>wk_pending := p\<rparr>)"
  using assms by (simp_all add: catalogue_wf_def load_defs resetSyncPlan_def)

lemma catalogue_wf_step:
  assumes "catalogue_wf s" "workspace_step rt s e s'"
  shows "catalogue_wf s'"
proof -
  have "s' = workspace_apply rt e s" using assms(2) by (auto elim: workspace_stepE)
  then show ?thesis using assms(1)
    by (cases e) (simp_all add: catalogue_wf_start ws_answer_def catalogue_wf_reply loadWorkspace_def
        catalogue_wf_loads)
qed

lemma catalogue_wf_reach: "workspace_reach rt s \<Longrightarrow> catalogue_wf s"
proof (induction rule: workspace_reach.induct)
  case workspace_reach_init
  then show ?case by (simp add: catalogue_wf_def createWorkspaceStore_def)
qed (rule catalogue_wf_step)

end
