(* ===== verification/Format.thy ===== *)
theory Format
  imports Models Http
begin

text \<open>
  The display formatters of \<open>utils/format.ts\<close>, the interpolation and the localized time
  labels of \<open>i18n/\<close>, the telemetry helpers of \<open>utils/telemetry.ts\<close>, \<open>utils/cx.ts\<close>,
  \<open>gpu/availability.ts\<close> and the shared clock of \<open>utils/clock.ts\<close>. Numbers are exact
  rationals: the divisions by powers of 1024 are exact on doubles, and \<open>toFixed\<close> is defined
  on the exact value of its argument.
\<close>

definition NA :: string where
  "NA = ''N/A''"

definition EM_DASH :: string where
  "EM_DASH = bytes [226, 128, 148]"

definition DEGREE :: string where
  "DEGREE = bytes [194, 176]"

subsection \<open>Numbers as strings\<close>

text \<open>\<open>String(x)\<close> of an integer: plain decimal below \<open>10 ^ 21\<close>.\<close>

definition int_string :: "js_runtime \<Rightarrow> int \<Rightarrow> string" where
  "int_string rt i = (if \<bar>i\<bar> < 10 ^ 21 then show_int i else rt_number_string rt (Fin (of_int i)))"

definition pad_zeros :: "nat \<Rightarrow> string \<Rightarrow> string" where
  "pad_zeros k s = replicate (k - length s) (CHR ''0'') @ s"

text \<open>\<open>x.toFixed(f)\<close>: the nearest multiple of \<open>10 ^ -f\<close>, ties upwards in magnitude.\<close>

definition toFixed :: "js_runtime \<Rightarrow> nat \<Rightarrow> rat \<Rightarrow> string" where
  "toFixed rt f x =
     (if 10 ^ 21 \<le> \<bar>x\<bar> then rt_number_string rt (Fin x)
      else
        (let n = nat (math_round (\<bar>x\<bar> * 10 ^ f));
             sgn = (if x < 0 then ''-'' else '''');
             digits = pad_zeros (f + 1) (show_nat n);
             k = length digits - f
         in if f = 0 then sgn @ show_nat n else sgn @ take k digits @ ''.'' @ drop k digits))"

subsection \<open>utils/format.ts\<close>

definition BYTE_UNITS :: "string list" where
  "BYTE_UNITS = [''B'', ''KB'', ''MB'', ''GB'', ''TB'', ''PB'']"

definition BYTE_BASE :: rat where
  "BYTE_BASE = 1024"

function unit_index_loop :: "nat \<Rightarrow> rat \<Rightarrow> nat" where
  "unit_index_loop index v =
     (if \<bar>v\<bar> \<ge> BYTE_BASE \<and> index < length BYTE_UNITS - 1
      then unit_index_loop (index + 1) (v / BYTE_BASE)
      else index)"
  by pat_completeness auto
termination by (relation "measure (\<lambda>(index, v). length BYTE_UNITS - index)") auto

declare unit_index_loop.simps [simp del]

definition unitIndexFor :: "rat \<Rightarrow> nat" where
  "unitIndexFor b = unit_index_loop 0 b"

definition formatInUnit :: "js_runtime \<Rightarrow> rat \<Rightarrow> nat \<Rightarrow> string" where
  "formatInUnit rt b unitIndex =
     (let scaled = b / BYTE_BASE ^ unitIndex
      in if unitIndex = 0 then int_string rt (math_round scaled) else toFixed rt 1 scaled)"

text \<open>The finite number behind a nullable one.\<close>

definition finite_value :: "js_number option \<Rightarrow> rat option" where
  "finite_value x = (case x of Some (Fin q) \<Rightarrow> Some q | _ \<Rightarrow> None)"

definition formatBytes :: "js_runtime \<Rightarrow> js_number option \<Rightarrow> string" where
  "formatBytes rt b =
     (case finite_value b of
        None \<Rightarrow> NA
      | Some q \<Rightarrow>
          (let unitIndex = unitIndexFor q
           in formatInUnit rt q unitIndex @ '' '' @ BYTE_UNITS ! unitIndex))"

definition formatBytesPair :: "js_runtime \<Rightarrow> js_number option \<Rightarrow> js_number option \<Rightarrow> string" where
  "formatBytesPair rt used total_b =
     (case finite_value total_b of
        None \<Rightarrow> NA
      | Some t \<Rightarrow>
          (case finite_value used of
             None \<Rightarrow> ''N/A/'' @ formatInUnit rt t (unitIndexFor t) @ '' '' @ BYTE_UNITS ! unitIndexFor t
           | Some u \<Rightarrow>
               (let unitIndex = unitIndexFor t
                in formatInUnit rt u unitIndex @ ''/'' @ formatInUnit rt t unitIndex @ '' ''
                   @ BYTE_UNITS ! unitIndex)))"

definition formatBps :: "js_runtime \<Rightarrow> js_number option \<Rightarrow> string" where
  "formatBps rt bps = (if finite_value bps = None then NA else formatBytes rt bps @ ''/s'')"

definition formatPercent :: "js_runtime \<Rightarrow> js_number option \<Rightarrow> nat \<Rightarrow> string" where
  "formatPercent rt v digits =
     (case finite_value v of None \<Rightarrow> NA | Some q \<Rightarrow> toFixed rt digits q @ ''%'')"

definition formatTemperature :: "js_runtime \<Rightarrow> js_number option \<Rightarrow> string" where
  "formatTemperature rt celsius =
     (case finite_value celsius of None \<Rightarrow> NA | Some q \<Rightarrow> int_string rt (math_round q) @ DEGREE)"

definition formatPower :: "js_runtime \<Rightarrow> js_number option \<Rightarrow> js_number option \<Rightarrow> string" where
  "formatPower rt watts limitWatts =
     (case finite_value watts of
        None \<Rightarrow> NA
      | Some w \<Rightarrow>
          (case finite_value limitWatts of
             None \<Rightarrow> int_string rt (math_round w) @ ''W''
           | Some l \<Rightarrow> int_string rt (math_round w) @ ''/'' @ int_string rt (math_round l) @ ''W''))"

datatype timestamp = TsText string | TsNumber js_number

definition timestamp_ms :: "js_runtime \<Rightarrow> timestamp option \<Rightarrow> rat option" where
  "timestamp_ms rt ts =
     (case ts of
        None \<Rightarrow> None
      | Some (TsNumber x) \<Rightarrow> finite_value (Some x)
      | Some (TsText s) \<Rightarrow> finite_value (Some (rt_date_parse rt s)))"

definition elapsed_seconds :: "rat \<Rightarrow> rat \<Rightarrow> int" where
  "elapsed_seconds time now = max 0 (math_round ((now - time) / 1000))"

definition formatRelative :: "js_runtime \<Rightarrow> timestamp option \<Rightarrow> rat \<Rightarrow> string" where
  "formatRelative rt ts now =
     (case timestamp_ms rt ts of
        None \<Rightarrow> EM_DASH
      | Some time \<Rightarrow>
          (let seconds = elapsed_seconds time now; minutes = seconds div 60; hours = minutes div 60 in
           if seconds < 60 then show_int seconds @ ''s ago''
           else if minutes < 60 then show_int minutes @ ''m ago''
           else if hours < 24 then show_int hours @ ''h ago''
           else show_int (hours div 24) @ ''d ago''))"

definition formatUptime :: "js_runtime \<Rightarrow> js_number option \<Rightarrow> string" where
  "formatUptime rt seconds =
     (case finite_value seconds of
        None \<Rightarrow> NA
      | Some s \<Rightarrow>
          if s < 0 then NA
          else
            (let days = \<lfloor>s / 86400\<rfloor>;
                 hours = \<lfloor>(s - 86400 * of_int \<lfloor>s / 86400\<rfloor>) / 3600\<rfloor>;
                 minutes = \<lfloor>(s - 3600 * of_int \<lfloor>s / 3600\<rfloor>) / 60\<rfloor>
             in if days > 0 then int_string rt days @ ''d '' @ show_int hours @ ''h''
                else if hours > 0 then show_int hours @ ''h '' @ show_int minutes @ ''m''
                else show_int minutes @ ''m''))"

definition formatLatency :: "js_runtime \<Rightarrow> js_number option \<Rightarrow> string" where
  "formatLatency rt ms =
     (case finite_value ms of None \<Rightarrow> NA | Some q \<Rightarrow> int_string rt (math_round q) @ '' ms'')"

definition formatStatusWord :: "string \<Rightarrow> string" where
  "formatStatusWord status = replace_all_char (CHR ''_'') (CHR '' '') status"

subsection \<open>i18n\<close>

text \<open>
  \<open>template.replace(/\{(\w+)\}/g, ...)\<close>: each \<open>{key}\<close> whose key is a parameter is
  replaced, everything else is copied. \<open>\w\<close> are the ASCII letters, digits and the underscore.
\<close>

type_synonym dict = "string \<Rightarrow> string"

definition word_char :: "char \<Rightarrow> bool" where
  "word_char c \<longleftrightarrow>
     is_digit c \<or> 65 \<le> byte c \<and> byte c \<le> 90 \<or> 97 \<le> byte c \<and> byte c \<le> 122 \<or> c = CHR ''_''"

definition placeholder :: "string \<Rightarrow> (string \<times> string) option" where
  "placeholder s =
     (let key = takeWhile word_char s; rest = dropWhile word_char s
      in if key = '''' then None
         else case rest of c # rest' \<Rightarrow> (if c = CHR ''}'' then Some (key, rest') else None) | [] \<Rightarrow> None)"

lemma placeholder_shorter: "placeholder s = Some (key, rest) \<Longrightarrow> length rest < length s"
proof -
  assume "placeholder s = Some (key, rest)"
  then have "length rest < length (dropWhile word_char s)"
    by (auto simp: placeholder_def Let_def split: if_splits list.splits)
  then show ?thesis using length_dropWhile_le [of word_char s] by linarith
qed

function tf :: "string \<Rightarrow> (string \<times> string) list \<Rightarrow> string" where
  "tf [] params = []"
| "tf (c # s) params =
     (if c = CHR ''{'' then
        (case placeholder s of
           Some (key, rest) \<Rightarrow>
             (case map_of params key of Some v \<Rightarrow> v | None \<Rightarrow> ''{'' @ key @ ''}'') @ tf rest params
         | None \<Rightarrow> c # tf s params)
      else c # tf s params)"
  by pat_completeness auto
termination by (relation "measure (\<lambda>(s, params). length s)") (auto dest: placeholder_shorter)

text \<open>The localized time label; \<open>now\<close> is the second argument, by default the current time.\<close>

definition relative_label :: "js_runtime \<Rightarrow> dict \<Rightarrow> timestamp option \<Rightarrow> rat \<Rightarrow> string" where
  "relative_label rt t ts now =
     (case timestamp_ms rt ts of
        None \<Rightarrow> EM_DASH
      | Some time \<Rightarrow>
          (let seconds = elapsed_seconds time now; minutes = seconds div 60; hours = minutes div 60 in
           if seconds < 5 then t ''relative.now''
           else if seconds < 60 then tf (t ''relative.s'') [(''n'', show_int seconds)]
           else if minutes < 60 then tf (t ''relative.m'') [(''n'', show_int minutes)]
           else if hours < 24 then tf (t ''relative.h'') [(''n'', show_int hours)]
           else tf (t ''relative.d'') [(''n'', show_int (hours div 24))]))"

subsection \<open>utils/cx.ts, utils/telemetry.ts, gpu/availability.ts\<close>

text \<open>A part of a class list is a string or one of the falsy values.\<close>

definition cx :: "string option list \<Rightarrow> string" where
  "cx parts = join '' '' (filter (\<lambda>s. s \<noteq> '''') (map_non_null id parts))"

definition gpuOwners :: "gpu_info \<Rightarrow> gpu_process_info list \<Rightarrow> string list" where
  "gpuOwners gpu processes =
     js_set (map_non_null gpp_user
       (filter (\<lambda>p. gpu_uuid gpu \<noteq> None \<and> gpp_gpu_uuid p = gpu_uuid gpu
                  \<or> gpu_uuid gpu = None \<and> gpp_gpu_index p = Some (gpu_index gpu)) processes))"

definition formatOwners :: "string list \<Rightarrow> string" where
  "formatOwners owners = (if owners = [] then EM_DASH else join '', '' owners)"

definition gpuLabel :: "js_runtime \<Rightarrow> js_number \<Rightarrow> string" where
  "gpuLabel rt index = ''GPU'' @ rt_number_string rt index"

definition serverEndpoint :: "js_runtime \<Rightarrow> server_record \<Rightarrow> string" where
  "serverEndpoint rt record =
     (let user = (case srv_username record of Some u \<Rightarrow> u | None \<Rightarrow> ''root'');
          host = (case srv_port record of
                    None \<Rightarrow> srv_ssh_host record
                  | Some p \<Rightarrow> srv_ssh_host record @ '':'' @ rt_number_string rt p)
      in user @ ''@'' @ host)"

datatype dot_status =
    Dot_Online | Dot_Active | Dot_Stale | Dot_Offline | Dot_Connecting | Dot_Error | Dot_Unknown

datatype availability_tone = AT_Free | AT_Active | AT_Saturated | AT_Na

record availability_view =
  avv_labelKey :: string
  avv_dot :: dot_status
  avv_tone :: availability_tone

fun availabilityView :: "gpu_availability \<Rightarrow> availability_view" where
  "availabilityView A_Free = \<lparr>avv_labelKey = ''free'', avv_dot = Dot_Online, avv_tone = AT_Free\<rparr>"
| "availabilityView A_Active = \<lparr>avv_labelKey = ''active'', avv_dot = Dot_Active, avv_tone = AT_Active\<rparr>"
| "availabilityView A_Saturated =
     \<lparr>avv_labelKey = ''saturated'', avv_dot = Dot_Stale, avv_tone = AT_Saturated\<rparr>"
| "availabilityView A_Unavailable =
     \<lparr>avv_labelKey = ''unavailable'', avv_dot = Dot_Unknown, avv_tone = AT_Na\<rparr>"

subsection \<open>utils/clock.ts\<close>

text \<open>The shared clock: one interval while there are listeners; a tick counts up.\<close>

record clock =
  clk_listeners :: "nat list"
  clk_timer :: "nat option"
  clk_intervals :: "nat list"
  clk_next :: nat
  clk_tick :: nat
  clk_commits :: nat

definition clock_init :: clock where
  "clock_init = \<lparr>clk_listeners = [], clk_timer = None, clk_intervals = [], clk_next = 0, clk_tick = 0,
                 clk_commits = 0\<rparr>"

definition ensureTimer :: "clock \<Rightarrow> clock" where
  "ensureTimer c =
     (if clk_timer c \<noteq> None then c
      else c\<lparr>clk_timer := Some (clk_next c), clk_intervals := clk_intervals c @ [clk_next c],
             clk_next := clk_next c + 1\<rparr>)"

definition clock_subscribe :: "nat \<Rightarrow> clock \<Rightarrow> clock" where
  "clock_subscribe listener c =
     ensureTimer (c\<lparr>clk_listeners :=
       (if listener \<in> set (clk_listeners c) then clk_listeners c else clk_listeners c @ [listener])\<rparr>)"

definition clock_unsubscribe :: "nat \<Rightarrow> clock \<Rightarrow> clock" where
  "clock_unsubscribe listener c =
     (let c = c\<lparr>clk_listeners := removeAll listener (clk_listeners c)\<rparr>
      in if clk_listeners c = [] \<and> clk_timer c \<noteq> None
         then c\<lparr>clk_intervals := removeAll (the (clk_timer c)) (clk_intervals c), clk_timer := None\<rparr>
         else c)"

definition clock_fired :: "bool \<Rightarrow> clock \<Rightarrow> clock" where
  "clock_fired hidden c =
     (if hidden then c
      else c\<lparr>clk_tick := clk_tick c + 1, clk_commits := clk_commits c + length (clk_listeners c)\<rparr>)"

definition useNow :: "clock \<Rightarrow> rat" where
  "useNow c = of_nat (clk_tick c)"

datatype clock_event = CkSubscribe nat | CkUnsubscribe nat | CkFired nat bool

fun clock_enabled :: "clock_event \<Rightarrow> clock \<Rightarrow> bool" where
  "clock_enabled (CkFired i hidden) c = (i \<in> set (clk_intervals c))"
| "clock_enabled _ c = True"

fun clock_apply :: "clock_event \<Rightarrow> clock \<Rightarrow> clock" where
  "clock_apply (CkSubscribe l) c = clock_subscribe l c"
| "clock_apply (CkUnsubscribe l) c = clock_unsubscribe l c"
| "clock_apply (CkFired i hidden) c = clock_fired hidden c"

inductive clock_reach :: "clock \<Rightarrow> nat \<Rightarrow> bool" where
  clock_reach_init: "clock_reach clock_init 0"
| clock_reach_step: "clock_reach c n \<Longrightarrow> clock_enabled e c \<Longrightarrow> clock_reach (clock_apply e c) (Suc n)"

subsection \<open>Units\<close>

lemma unit_index_bounds:
  "i \<le> length BYTE_UNITS - 1 \<Longrightarrow>
   i \<le> unit_index_loop i v \<and> unit_index_loop i v \<le> length BYTE_UNITS - 1
   \<and> (unit_index_loop i v = i \<or> 1 \<le> \<bar>v\<bar> / BYTE_BASE ^ (unit_index_loop i v - i))
   \<and> (unit_index_loop i v = length BYTE_UNITS - 1 \<or> \<bar>v\<bar> / BYTE_BASE ^ (unit_index_loop i v - i) < BYTE_BASE)"
proof (induction i v rule: unit_index_loop.induct)
  case (1 i v)
  show ?case
  proof (cases "\<bar>v\<bar> \<ge> BYTE_BASE \<and> i < length BYTE_UNITS - 1")
    case True
    let ?k = "unit_index_loop (i + 1) (v / BYTE_BASE)"
    have e: "unit_index_loop i v = ?k" using True by (subst unit_index_loop.simps) simp
    have ih: "i + 1 \<le> ?k" "?k \<le> length BYTE_UNITS - 1"
      "?k = i + 1 \<or> 1 \<le> \<bar>v / BYTE_BASE\<bar> / BYTE_BASE ^ (?k - (i + 1))"
      "?k = length BYTE_UNITS - 1 \<or> \<bar>v / BYTE_BASE\<bar> / BYTE_BASE ^ (?k - (i + 1)) < BYTE_BASE"
      using 1(1) [OF True] True by auto
    have "?k - i = Suc (?k - (i + 1))" using ih(1) by simp
    then have s: "\<bar>v\<bar> / BYTE_BASE ^ (?k - i) = \<bar>v / BYTE_BASE\<bar> / BYTE_BASE ^ (?k - (i + 1))"
      by (simp add: BYTE_BASE_def)
    have lo: "1 \<le> \<bar>v\<bar> / BYTE_BASE ^ (?k - i)"
    proof (cases "?k = i + 1")
      case True
      then show ?thesis using \<open>\<bar>v\<bar> \<ge> BYTE_BASE \<and> i < length BYTE_UNITS - 1\<close>
        by (simp add: BYTE_BASE_def)
    next
      case False
      then have "1 \<le> \<bar>v / BYTE_BASE\<bar> / BYTE_BASE ^ (?k - (i + 1))" using ih(3) by blast
      then show ?thesis by (simp only: s)
    qed
    have hi: "?k = length BYTE_UNITS - 1 \<or> \<bar>v\<bar> / BYTE_BASE ^ (?k - i) < BYTE_BASE"
      using ih(4) by (simp only: s)
    have "i \<le> ?k" using ih(1) by simp
    then show ?thesis unfolding e using ih(2) lo hi by blast
  next
    case False
    then show ?thesis using 1(2) by (subst (1 2 3 4 5 6) unit_index_loop.simps) auto
  qed
qed

lemma unitIndexFor_scale:
  "unitIndexFor q \<le> 5
   \<and> (unitIndexFor q = 0 \<or> 1 \<le> \<bar>q\<bar> / 1024 ^ unitIndexFor q)
   \<and> (unitIndexFor q = 5 \<or> \<bar>q\<bar> / 1024 ^ unitIndexFor q < 1024)"
proof -
  have "length BYTE_UNITS - 1 = 5" by (simp add: BYTE_UNITS_def)
  then show ?thesis using unit_index_bounds [of 0 q] by (simp add: unitIndexFor_def BYTE_BASE_def)
qed

text \<open>No value that was not reported is ever shown as a number.\<close>

lemma space_not_NA: "CHR '' '' \<in> set s \<Longrightarrow> s \<noteq> NA"
  by (auto simp: NA_def)

lemma ends_not_NA: "c \<noteq> CHR ''A'' \<Longrightarrow> s @ [c] \<noteq> NA"
  by (auto simp: NA_def append_eq_Cons_conv)

lemma formatBytes_NA: "formatBytes rt b = NA \<longleftrightarrow> finite_value b = None"
  using space_not_NA by (auto simp: formatBytes_def Let_def split: option.splits)

lemma formatters_NA:
  "formatBytes rt v = NA \<longleftrightarrow> finite_value v = None"
  "formatBps rt v = NA \<longleftrightarrow> finite_value v = None"
  "formatPercent rt v d = NA \<longleftrightarrow> finite_value v = None"
  "formatTemperature rt v = NA \<longleftrightarrow> finite_value v = None"
  "formatPower rt v l = NA \<longleftrightarrow> finite_value v = None"
  "formatLatency rt v = NA \<longleftrightarrow> finite_value v = None"
proof -
  show "formatBytes rt v = NA \<longleftrightarrow> finite_value v = None" by (rule formatBytes_NA)
  show "formatBps rt v = NA \<longleftrightarrow> finite_value v = None"
    using ends_not_NA [of "CHR ''s''" "formatBytes rt v @ ''/''"] by (simp add: formatBps_def)
  show "formatPercent rt v d = NA \<longleftrightarrow> finite_value v = None"
    using ends_not_NA [of "CHR 0x25"] by (auto simp: formatPercent_def split: option.splits)
  have "int_string rt i @ DEGREE \<noteq> NA" for i
  proof -
    have "(of_char (char_of (176::nat)) :: nat) \<noteq> of_char (CHR ''A'')" by simp
    then have "char_of (176::nat) \<noteq> CHR ''A''" by metis
    then show ?thesis
      using ends_not_NA [of "char_of (176::nat)" "int_string rt i @ [char_of (194::nat)]"]
      by (simp add: DEGREE_def bytes_def)
  qed
  then show "formatTemperature rt v = NA \<longleftrightarrow> finite_value v = None"
    by (simp add: formatTemperature_def split: option.splits)
  show "formatPower rt v l = NA \<longleftrightarrow> finite_value v = None"
    using ends_not_NA [of "CHR ''W''" "int_string rt i" for i]
      ends_not_NA [of "CHR ''W''" "int_string rt i @ ''/'' @ int_string rt j" for i j]
    by (auto simp: formatPower_def split: option.splits)
  show "formatLatency rt v = NA \<longleftrightarrow> finite_value v = None"
    using space_not_NA by (auto simp: formatLatency_def split: option.splits)
qed

lemma finite_value_None: "finite_value (Some x) = None \<longleftrightarrow> \<not> is_finite x"
  by (cases x) (simp_all add: finite_value_def)

text \<open>The parts of an uptime recompose to it.\<close>

lemma floor_div:
  fixes a b :: rat
  assumes "0 < b"
  shows "of_int \<lfloor>a / b\<rfloor> * b \<le> a" "a < of_int \<lfloor>a / b\<rfloor> * b + b"
proof -
  have "of_int \<lfloor>a / b\<rfloor> \<le> a / b" "a / b < of_int \<lfloor>a / b\<rfloor> + 1"
    using floor_correct [of "a / b"] by simp_all
  then show "of_int \<lfloor>a / b\<rfloor> * b \<le> a" "a < of_int \<lfloor>a / b\<rfloor> * b + b"
    using assms by (simp_all only: pos_le_divide_eq pos_divide_less_eq distrib_right mult_1)
qed

lemma uptime_parts:
  fixes s :: rat
  assumes "0 \<le> s"
  defines "days \<equiv> \<lfloor>s / 86400\<rfloor>"
    and "hours \<equiv> \<lfloor>(s - 86400 * of_int \<lfloor>s / 86400\<rfloor>) / 3600\<rfloor>"
    and "minutes \<equiv> \<lfloor>(s - 3600 * of_int \<lfloor>s / 3600\<rfloor>) / 60\<rfloor>"
  shows "0 \<le> days \<and> 0 \<le> hours \<and> hours < 24 \<and> 0 \<le> minutes \<and> minutes < 60
     \<and> 86400 * of_int days + 3600 * of_int hours + 60 * of_int minutes \<le> s
     \<and> s < 86400 * of_int days + 3600 * of_int hours + 60 * of_int minutes + 60"
proof -
  have d: "of_int days * 86400 \<le> s" "s < of_int days * 86400 + 86400"
    unfolding days_def by (rule floor_div; simp)+
  have h: "of_int hours * 3600 \<le> s - 86400 * of_int days"
    "s - 86400 * of_int days < of_int hours * 3600 + 3600"
    unfolding hours_def days_def by (rule floor_div; simp)+
  have m: "of_int minutes * 60 \<le> s - 3600 * of_int \<lfloor>s / 3600\<rfloor>"
    "s - 3600 * of_int \<lfloor>s / 3600\<rfloor> < of_int minutes * 60 + 60"
    unfolding minutes_def by (rule floor_div; simp)+
  have w: "of_int \<lfloor>s / 3600\<rfloor> * 3600 \<le> s" "s < of_int \<lfloor>s / 3600\<rfloor> * 3600 + 3600"
    by (rule floor_div; simp)+
  have t: "\<lfloor>s / 3600\<rfloor> = 24 * days + hours"
    by (rule floor_unique) (use h in \<open>simp_all add: field_simps\<close>)
  have "(-1::rat) < of_int days" "(-1::rat) < of_int hours" "(-1::rat) < of_int minutes"
    using assms(1) d(2) h(2) d(1) m(2) w(1) by linarith+
  moreover have "(of_int hours :: rat) < 24" "(of_int minutes :: rat) < 60"
    using h(1) d(2) m(1) w(2) by linarith+
  moreover have "86400 * of_int days + 3600 * of_int hours + 60 * of_int minutes \<le> s"
    "s < 86400 * of_int days + 3600 * of_int hours + 60 * of_int minutes + 60"
    using m t by (simp_all add: field_simps)
  ultimately show ?thesis by linarith
qed

subsection \<open>Templates\<close>

lemma tf_plain: "CHR ''{'' \<notin> set template \<Longrightarrow> tf template params = template"
  by (induction template) auto

lemma tf_append_plain: "CHR ''{'' \<notin> set s \<Longrightarrow> tf (s @ template) params = s @ tf template params"
  by (induction s) auto

lemma word_not_brace: "list_all word_char key \<Longrightarrow> takeWhile word_char (key @ CHR ''}'' # rest) = key
    \<and> dropWhile word_char (key @ CHR ''}'' # rest) = CHR ''}'' # rest"
  by (induction key) (auto simp: word_char_def is_digit_def byte_def)

lemma tf_placeholder:
  assumes "key \<noteq> ''''" "list_all word_char key"
  shows "tf (CHR ''{'' # key @ CHR ''}'' # rest) params =
         (case map_of params key of Some v \<Rightarrow> v | None \<Rightarrow> ''{'' @ key @ ''}'') @ tf rest params"
  using assms word_not_brace [OF assms(2), of rest] by (simp add: placeholder_def Let_def)

subsection \<open>Owners\<close>

lemma gpuOwners_set:
  "distinct (gpuOwners gpu ps)
   \<and> (u \<in> set (gpuOwners gpu ps) \<longleftrightarrow>
        (\<exists>p \<in> set ps. gpp_user p = Some u
           \<and> (case gpu_uuid gpu of Some uuid \<Rightarrow> gpp_gpu_uuid p = Some uuid
              | None \<Rightarrow> gpp_gpu_index p = Some (gpu_index gpu))))"
  by (cases "gpu_uuid gpu") (auto simp: gpuOwners_def set_map_non_null)

subsection \<open>The clock\<close>

definition clock_inv :: "clock \<Rightarrow> bool" where
  "clock_inv c \<longleftrightarrow>
     clk_intervals c = (case clk_timer c of Some i \<Rightarrow> [i] | None \<Rightarrow> [])
     \<and> (clk_timer c = None \<longleftrightarrow> clk_listeners c = []) \<and> distinct (clk_listeners c)"

lemma clock_inv_reach: "clock_reach c n \<Longrightarrow> clock_inv c"
proof (induction rule: clock_reach.induct)
  case (clock_reach_step c n e)
  then show ?case
    by (cases e) (auto simp: clock_inv_def clock_subscribe_def ensureTimer_def clock_unsubscribe_def
        clock_fired_def Let_def distinct_removeAll split: option.splits)
qed (simp add: clock_inv_def clock_init_def)

lemma clock_tick_bound: "clock_reach c n \<Longrightarrow> clk_tick c \<le> n"
proof (induction rule: clock_reach.induct)
  case (clock_reach_step c n e)
  then show ?case
    by (cases e) (auto simp: clock_subscribe_def ensureTimer_def clock_unsubscribe_def
        clock_fired_def Let_def)
qed (simp add: clock_init_def)

text \<open>
  What the views pass as \<open>now\<close> is the tick count, not the time: every instant from the epoch on
  counts as the present, for as long as the page has been open less than that many steps.
\<close>

lemma elapsed_past: "now \<le> time \<Longrightarrow> elapsed_seconds time now = 0"
proof -
  assume "now \<le> time"
  then have "math_round ((now - time) / 1000) \<le> math_round 0" by (intro math_round_mono) simp
  then show ?thesis using math_round_of_int [of 0] by (simp add: elapsed_seconds_def)
qed

lemma tick_label:
  assumes "clock_reach c n" "timestamp_ms rt ts = Some time" "of_nat n \<le> time"
  shows "relative_label rt t ts (useNow c) = t ''relative.now''"
proof -
  have "useNow c \<le> time" using clock_tick_bound [OF assms(1)] assms(3)
    unfolding useNow_def by (meson of_nat_le_iff order_trans)
  then show ?thesis using assms(2) by (simp add: relative_label_def elapsed_past Let_def)
qed

text \<open>With the time itself, the label tells the age.\<close>

lemma elapsed_value:
  assumes "time \<le> now"
  shows "\<bar>of_int (elapsed_seconds time now) - (now - time) / 1000\<bar> \<le> 1 / 2"
proof -
  define q where "q = (now - time) / 1000"
  have "0 \<le> q" using assms by (simp add: q_def)
  then have "elapsed_seconds time now = math_round q"
    using math_round_nonneg [of q] by (simp add: elapsed_seconds_def q_def)
  moreover have "of_int (math_round q) \<le> q + 1 / 2" "q + 1 / 2 < of_int (math_round q) + 1"
    using floor_correct [of "q + 1 / 2"] by (simp_all add: math_round_def)
  ultimately have "of_int (elapsed_seconds time now) - q \<le> 1 / 2" "q - of_int (elapsed_seconds time now) \<le> 1 / 2"
    by linarith+
  then show ?thesis unfolding q_def [symmetric] by linarith
qed

end
