(* ===== verification/SyncDialog.thy ===== *)
theory SyncDialog
  imports WorkspaceStore TransferStore Format
begin

text \<open>
  \<open>features/workspace/SyncDialog.tsx\<close>: choose a target server, review the plan the backend
  builds for it, confirm. The dialog's own state stands beside the workspace and transfer
  stores it drives; its effects are the functions \<open>sync_opened\<close> and \<open>sync_target_changed\<close>,
  run by React after the render in which their dependencies changed, with that render's values.
  A dictionary \<open>t\<close> is a function from the name of an entry to the word it holds.
\<close>

fun statusWord :: "dict \<Rightarrow> distribution_state \<Rightarrow> string" where
  "statusWord t D_Verified = t ''workspace.stateVerified''"
| "statusWord t D_Missing = t ''workspace.stateMissing''"
| "statusWord t D_Unavailable = t ''workspace.stateUnavailable''"
| "statusWord t D_Syncing = t ''workspace.stateSyncing''"
| "statusWord t D_Declared = t ''workspace.stateDeclared''"

definition actionWord :: "dict \<Rightarrow> sync_action \<Rightarrow> string" where
  "actionWord t action =
     (if action = Act_Transfer then t ''workspace.syncActionTransfer''
      else if action = Act_Unresolved then t ''workspace.syncActionUnresolved''
      else t ''workspace.syncActionSkip'')"

datatype chip_tone = Tone_Neutral | Tone_Ok | Tone_Warn | Tone_Crit | Tone_Accent | Tone_Cold

definition actionTone :: "sync_action \<Rightarrow> chip_tone" where
  "actionTone action =
     (if action = Act_Transfer then Tone_Accent
      else if action = Act_Unresolved then Tone_Warn
      else Tone_Neutral)"

definition serverName :: "dict \<Rightarrow> server_record list \<Rightarrow> string option \<Rightarrow> string" where
  "serverName t servers i =
     (case i of
        None \<Rightarrow> t ''workspace.unknownServer''
      | Some i \<Rightarrow>
          (case find (\<lambda>server. srv_server_id server = i) servers of
             Some server \<Rightarrow> srv_display_name server
           | None \<Rightarrow> i))"

record sync_dialog =
  sy_open :: bool
  sy_projectId :: string
  sy_targetServerId :: string
  sy_expanded :: "string \<rightharpoonup> bool"
  sy_store :: workspace_store
  sy_transfers :: transfer_store

definition SyncDialog :: "string \<Rightarrow> workspace_store \<Rightarrow> transfer_store \<Rightarrow> sync_dialog" where
  "SyncDialog projectId store transfers =
     \<lparr>sy_open = False, sy_projectId = projectId, sy_targetServerId = '''', sy_expanded = Map.empty,
      sy_store = store, sy_transfers = transfers\<rparr>"

definition in_store :: "(workspace_store \<Rightarrow> workspace_store) \<Rightarrow> sync_dialog \<Rightarrow> sync_dialog" where
  "in_store f d = d\<lparr>sy_store := f (sy_store d)\<rparr>"

definition target_request :: "string \<Rightarrow> sync_plan_request" where
  "target_request target =
     \<lparr>spr_target_server_id = target, spr_artifact_ids = None, spr_refresh_code = None,
      spr_strategy = None\<rparr>"

subsection \<open>Effects\<close>

text \<open>Fresh state per open.\<close>

definition sync_opened :: "sync_dialog \<Rightarrow> sync_dialog" where
  "sync_opened d =
     (if sy_open d
      then in_store resetSyncPlan (d\<lparr>sy_targetServerId := '''', sy_expanded := Map.empty\<rparr>)
      else d)"

text \<open>The plan effect, with the \<open>open\<close>, target and project of the render it belongs to.\<close>

definition sync_target_changed :: "bool \<Rightarrow> string \<Rightarrow> sync_dialog \<Rightarrow> sync_dialog" where
  "sync_target_changed open' targetServerId d =
     (if \<not> open' \<or> targetServerId = '''' then d
      else in_store (buildSyncPlan_start (sy_projectId d) (target_request targetServerId)) d)"

text \<open>
  The parent sets \<open>open\<close>: both effects depend on it and run in order, the second still with
  the target of the render that opened the dialog.
\<close>

definition set_open :: "bool \<Rightarrow> sync_dialog \<Rightarrow> sync_dialog" where
  "set_open open' d =
     (if sy_open d = open' then d
      else (let target = sy_targetServerId d
            in sync_target_changed open' target (sync_opened (d\<lparr>sy_open := open'\<rparr>))))"

definition choose_target :: "string \<Rightarrow> sync_dialog \<Rightarrow> sync_dialog" where
  "choose_target target d =
     (if sy_targetServerId d = target then d
      else sync_target_changed (sy_open d) target (d\<lparr>sy_targetServerId := target\<rparr>))"

definition toggle_item :: "string \<Rightarrow> sync_dialog \<Rightarrow> sync_dialog" where
  "toggle_item artifactId d =
     d\<lparr>sy_expanded := (sy_expanded d)(artifactId \<mapsto> sy_expanded d artifactId \<noteq> Some True)\<rparr>"

subsection \<open>Confirming\<close>

definition enabledServers :: "server_record list \<Rightarrow> server_record list" where
  "enabledServers servers = filter srv_enabled servers"

definition plan_items :: "workspace_store \<Rightarrow> artifact_sync_item list" where
  "plan_items s = (case wk_syncPlan s of Some plan \<Rightarrow> psp_items plan | None \<Rightarrow> [])"

definition transferCount :: "workspace_store \<Rightarrow> nat" where
  "transferCount s = length (filter (\<lambda>item. asi_action item = Act_Transfer) (plan_items s))"

definition unresolvedCount :: "workspace_store \<Rightarrow> nat" where
  "unresolvedCount s = length (filter (\<lambda>item. asi_action item = Act_Unresolved) (plan_items s))"

definition planInvalid :: "workspace_store \<Rightarrow> bool" where
  "planInvalid s \<longleftrightarrow>
     (case wk_syncPlan s of Some plan \<Rightarrow> \<not> psp_valid plan \<or> psp_error plan \<noteq> '''' | None \<Rightarrow> False)"

definition canConfirm :: "workspace_store \<Rightarrow> bool" where
  "canConfirm s \<longleftrightarrow>
     wk_syncPlan s \<noteq> None \<and> \<not> planInvalid s \<and> unresolvedCount s = 0 \<and> transferCount s > 0
     \<and> \<not> wk_syncRunning s"

text \<open>The button calls \<open>confirm\<close> only while it is enabled.\<close>

definition confirm :: "sync_dialog \<Rightarrow> sync_dialog" where
  "confirm d =
     (if sy_targetServerId d = '''' then d
      else in_store (syncProject_start (sy_projectId d) (target_request (sy_targetServerId d))) d)"

definition press_confirm :: "sync_dialog \<Rightarrow> sync_dialog" where
  "press_confirm d = (if canConfirm (sy_store d) then confirm d else d)"

text \<open>After the sync was accepted; a refusal leaves the dialog open with its message.\<close>

definition confirm_done :: "transfer_batch result \<Rightarrow> sync_dialog \<Rightarrow> sync_dialog" where
  "confirm_done response d =
     (let d = in_store (syncProject_done response) d
      in case response of
           Inr batch \<Rightarrow>
             (let d = d\<lparr>sy_transfers := fetchBatches (sy_transfers d)\<rparr>;
                  d = in_store (fetchDistribution (sy_projectId d)) d
              in set_open False d)
         | Inl cause \<Rightarrow> d)"

definition confirm_label :: "dict \<Rightarrow> workspace_store \<Rightarrow> string" where
  "confirm_label t s =
     (if transferCount s = 0 then t ''workspace.syncNothing''
      else tf (t ''workspace.syncConfirm'') [(''n'', show_nat (transferCount s))])"

subsection \<open>What confirming guarantees\<close>

lemma canConfirm_plan:
  "canConfirm s \<Longrightarrow>
   \<exists>plan. wk_syncPlan s = Some plan \<and> psp_valid plan \<and> psp_error plan = ''''
     \<and> (\<forall>item \<in> set (psp_items plan). asi_action item \<noteq> Act_Unresolved)
     \<and> (\<exists>item \<in> set (psp_items plan). asi_action item = Act_Transfer)"
  by (auto simp: canConfirm_def planInvalid_def unresolvedCount_def transferCount_def plan_items_def
      filter_empty_conv split: option.splits)

text \<open>Pressing twice starts one sync: the first press disables the button.\<close>

lemma confirm_once: "sy_targetServerId d \<noteq> '''' \<Longrightarrow> press_confirm (press_confirm d) = press_confirm d"
  by (simp add: press_confirm_def confirm_def in_store_def canConfirm_def syncProject_start_def ws_call_def)

text \<open>A refused sync keeps the dialog open and its plan on screen.\<close>

lemma refused_sync:
  "wk_syncError (sy_store (confirm_done (Inl e) d)) = Some (ae_detail e)
   \<and> sy_open (confirm_done (Inl e) d) = sy_open d
   \<and> wk_syncPlan (sy_store (confirm_done (Inl e) d)) = wk_syncPlan (sy_store d)
   \<and> \<not> wk_syncRunning (sy_store (confirm_done (Inl e) d))"
  by (simp add: confirm_done_def in_store_def syncProject_done_def Let_def)

text \<open>
  Two quick choices: the response for the first target arrives while the second is still being
  planned. Its plan is shown, the button is enabled, and pressing it syncs to the second target.
\<close>

lemma overlapping_choices:
  fixes d :: sync_dialog and plan :: project_sync_plan
  assumes "sy_open d" "b \<noteq> ''''" "a \<noteq> ''''" "a \<noteq> b" "sy_targetServerId d \<noteq> a" "\<not> wk_syncRunning (sy_store d)"
    and plan: "psp_valid plan" "psp_error plan = ''''"
      "filter (\<lambda>item. asi_action item = Act_Unresolved) (psp_items plan) = []"
      "filter (\<lambda>item. asi_action item = Act_Transfer) (psp_items plan) \<noteq> []"
  defines "d' \<equiv> in_store (buildSyncPlan_done (Inr plan)) (choose_target b (choose_target a d))"
  shows "wk_syncPlan (sy_store d') = Some plan \<and> sy_targetServerId d' = b \<and> canConfirm (sy_store d')
     \<and> (\<exists>rest. wk_pending (sy_store (press_confirm d')) =
          rest @ [WcSyncPlan (sy_projectId d) (target_request a), WcSyncPlan (sy_projectId d) (target_request b),
                  WcSync (sy_projectId d) (target_request b)])"
  using assms
  by (auto simp: d'_def choose_target_def sync_target_changed_def in_store_def buildSyncPlan_start_def
      buildSyncPlan_done_def canConfirm_def planInvalid_def unresolvedCount_def transferCount_def
      plan_items_def ws_call_def press_confirm_def confirm_def syncProject_start_def)

text \<open>
  Reopening after a choice: the plan of the previous target is requested again, and its response
  is shown although no target is selected.
\<close>

lemma reopened_dialog:
  fixes d :: sync_dialog and plan :: project_sync_plan
  assumes "\<not> sy_open d" "sy_targetServerId d \<noteq> ''''"
  defines "d' \<equiv> in_store (buildSyncPlan_done (Inr plan)) (set_open True d)"
  shows "WcSyncPlan (sy_projectId d) (target_request (sy_targetServerId d)) \<in> set (wk_pending (sy_store d'))
     \<and> sy_targetServerId d' = '''' \<and> wk_syncPlan (sy_store d') = Some plan \<and> press_confirm d' = d'"
  using assms
  by (auto simp: d'_def set_open_def sync_opened_def sync_target_changed_def in_store_def
      resetSyncPlan_def buildSyncPlan_start_def buildSyncPlan_done_def ws_call_def press_confirm_def
      confirm_def Let_def)

end
