(* ===== verification/Preferences.thy ===== *)
theory Preferences
  imports Routes Http
begin

text \<open>
  The interface preferences kept in \<open>localStorage\<close>: \<open>utils/theme.ts\<close>,
  \<open>i18n/locale.ts\<close> and \<open>utils/sections.ts\<close>. Each module is a variable \<open>current\<close>, the
  stored text behind it and a set of listeners. \<open>pf_blocked\<close> is the private mode, in which
  every access to the storage throws and the preference lives for the session only.
\<close>

record 'p preference =
  pf_current :: 'p
  pf_stored :: "string option"
  pf_blocked :: bool
  pf_listeners :: "nat list"
  pf_notified :: "nat list"

definition storage_get :: "'p preference \<Rightarrow> string option option" where
  "storage_get s = (if pf_blocked s then None else Some (pf_stored s))"

definition storage_set :: "string \<Rightarrow> 'p preference \<Rightarrow> 'p preference" where
  "storage_set v s = (if pf_blocked s then s else s\<lparr>pf_stored := Some v\<rparr>)"

definition notify_all :: "'p preference \<Rightarrow> 'p preference" where
  "notify_all s = s\<lparr>pf_notified := pf_notified s @ pf_listeners s\<rparr>"

definition pref_subscribe :: "nat \<Rightarrow> 'p preference \<Rightarrow> 'p preference" where
  "pref_subscribe l s =
     s\<lparr>pf_listeners := (if l \<in> set (pf_listeners s) then pf_listeners s else pf_listeners s @ [l])\<rparr>"

definition pref_unsubscribe :: "nat \<Rightarrow> 'p preference \<Rightarrow> 'p preference" where
  "pref_unsubscribe l s = s\<lparr>pf_listeners := removeAll l (pf_listeners s)\<rparr>"

subsection \<open>utils/theme.ts\<close>

datatype theme_preference = Th_Dark | Th_Minimal | Th_Warm | Th_System

definition PREFERENCES :: "(string \<times> theme_preference) list" where
  "PREFERENCES = [(''dark'', Th_Dark), (''minimal'', Th_Minimal), (''warm'', Th_Warm), (''system'', Th_System)]"

definition theme_load :: "string option option \<Rightarrow> theme_preference" where
  "theme_load storage =
     (case storage of
        None \<Rightarrow> Th_Dark
      | Some raw \<Rightarrow>
          if raw = Some ''light'' then Th_Minimal
          else (case raw of
                  None \<Rightarrow> Th_Dark
                | Some s \<Rightarrow> (case map_of PREFERENCES s of Some p \<Rightarrow> p | None \<Rightarrow> Th_Dark)))"

text \<open>
  The controller beside the preference: the \<open>data-theme\<close> attribute of the document, the media
  query (\<open>None\<close> where the browser has none, else whether it matches) and whether \<open>apply\<close> is
  registered for its changes.
\<close>

record theme_state =
  ths_pref :: "theme_preference preference"
  ths_attr :: "string option"
  ths_media :: "bool option"
  ths_tracking :: bool

definition resolved :: "bool option \<Rightarrow> theme_preference \<Rightarrow> theme_preference" where
  "resolved media pref =
     (if pref \<noteq> Th_System then pref else if media = Some True then Th_Dark else Th_Minimal)"

definition theme_name :: "theme_preference \<Rightarrow> string" where
  "theme_name = name_in PREFERENCES"

definition theme_apply :: "theme_state \<Rightarrow> theme_state" where
  "theme_apply s =
     s\<lparr>ths_attr := Some (theme_name (resolved (ths_media s) (pf_current (ths_pref s)))),
       ths_pref := notify_all (storage_set (theme_name (pf_current (ths_pref s))) (ths_pref s))\<rparr>"

definition getResolvedTheme :: "theme_state \<Rightarrow> theme_preference" where
  "getResolvedTheme s = resolved (ths_media s) (pf_current (ths_pref s))"

definition setThemePreference :: "theme_preference \<Rightarrow> theme_state \<Rightarrow> theme_state" where
  "setThemePreference pref s =
     (if pref \<notin> snd ` set PREFERENCES \<or> pref = pf_current (ths_pref s) then s
      else theme_apply (s\<lparr>ths_pref := (ths_pref s)\<lparr>pf_current := pref\<rparr>\<rparr>))"

definition subscribeTheme :: "nat \<Rightarrow> theme_state \<Rightarrow> theme_state" where
  "subscribeTheme l s =
     s\<lparr>ths_pref := pref_subscribe l (ths_pref s), ths_tracking := (ths_media s \<noteq> None)\<rparr>"

definition unsubscribeTheme :: "nat \<Rightarrow> theme_state \<Rightarrow> theme_state" where
  "unsubscribeTheme l s = s\<lparr>ths_pref := pref_unsubscribe l (ths_pref s), ths_tracking := False\<rparr>"

definition initTheme :: "theme_state \<Rightarrow> theme_state" where
  "initTheme s = theme_apply s"

text \<open>The browser's \<open>change\<close> event.\<close>

definition media_changed :: "bool \<Rightarrow> theme_state \<Rightarrow> theme_state" where
  "media_changed matches s =
     (if ths_tracking s then theme_apply (s\<lparr>ths_media := Some matches\<rparr>)
      else s\<lparr>ths_media := Some matches\<rparr>)"

subsection \<open>i18n/locale.ts\<close>

datatype locale_pref = En | Zh

definition LOCALES :: "(string \<times> locale_pref) list" where
  "LOCALES = [(''en'', En), (''zh'', Zh)]"

definition locale_name :: "locale_pref \<Rightarrow> string" where
  "locale_name = name_in LOCALES"

text \<open>\<open>language\<close> is \<open>navigator.language\<close>, \<open>None\<close> without a navigator.\<close>

definition locale_load :: "string option \<Rightarrow> string option option \<Rightarrow> locale_pref" where
  "locale_load language storage =
     (case (case storage of Some (Some raw) \<Rightarrow> map_of LOCALES raw | _ \<Rightarrow> None) of
        Some p \<Rightarrow> p
      | None \<Rightarrow>
          (let nav = (case language of Some l \<Rightarrow> l | None \<Rightarrow> ''en'')
           in if prefix ''zh'' (ascii_lower nav) then Zh else En))"

definition setLocale :: "locale_pref \<Rightarrow> locale_pref preference \<Rightarrow> locale_pref preference" where
  "setLocale l s =
     (if l \<notin> snd ` set LOCALES \<or> l = pf_current s then s
      else notify_all (storage_set (locale_name l) (s\<lparr>pf_current := l\<rparr>)))"

definition getDict :: "'d \<Rightarrow> 'd \<Rightarrow> locale_pref preference \<Rightarrow> 'd" where
  "getDict en zh s = (if pf_current s = Zh then zh else en)"

subsection \<open>utils/sections.ts\<close>

definition TOGGLEABLE_SECTIONS :: "server_tab list" where
  "TOGGLEABLE_SECTIONS = [Tab_Processes, Tab_System, Tab_Storage, Tab_Network]"

definition section_item :: "json \<Rightarrow> server_tab option" where
  "section_item item =
     (case item of
        JStr s \<Rightarrow>
          (case map_of SERVER_TABS s of
             Some tab \<Rightarrow> if tab \<in> set TOGGLEABLE_SECTIONS then Some tab else None
           | None \<Rightarrow> None)
      | _ \<Rightarrow> None)"

definition sections_load :: "js_runtime \<Rightarrow> string option option \<Rightarrow> server_tab list" where
  "sections_load rt storage =
     (case storage of
        Some (Some raw) \<Rightarrow>
          (case rt_json_parse rt raw of
             Some (JArr items) \<Rightarrow> js_set (map_non_null section_item items)
           | _ \<Rightarrow> [])
      | _ \<Rightarrow> [])"

definition sections_json :: "server_tab list \<Rightarrow> json" where
  "sections_json tabs = JArr (map (\<lambda>tab. JStr (tab_name tab)) tabs)"

definition sections_persist ::
  "js_runtime \<Rightarrow> server_tab list preference \<Rightarrow> server_tab list preference" where
  "sections_persist rt s = notify_all (storage_set (rt_json_stringify rt (sections_json (pf_current s))) s)"

definition isSectionHidden :: "server_tab \<Rightarrow> server_tab list preference \<Rightarrow> bool" where
  "isSectionHidden tab s \<longleftrightarrow> tab \<in> set (pf_current s)"

definition toggleSection ::
  "js_runtime \<Rightarrow> server_tab \<Rightarrow> server_tab list preference \<Rightarrow> server_tab list preference" where
  "toggleSection rt tab s =
     (if tab \<notin> set TOGGLEABLE_SECTIONS then s
      else sections_persist rt
        (s\<lparr>pf_current := (if tab \<in> set (pf_current s) then filter (\<lambda>item. item \<noteq> tab) (pf_current s)
                           else pf_current s @ [tab])\<rparr>))"

subsection \<open>Reloading\<close>

text \<open>
  The contract of a stored preference: what a change leaves in the storage is read back as the
  new value, and a blocked storage changes the session's value only.
\<close>

locale stored_preference =
  fixes load :: "string option option \<Rightarrow> 'p"
    and change :: "'c \<Rightarrow> 'p preference \<Rightarrow> 'p preference"
    and valid :: "'p \<Rightarrow> bool"
  assumes change_saved:
      "valid (pf_current s) \<Longrightarrow> \<not> pf_blocked s \<Longrightarrow> load (Some (pf_stored s)) = pf_current s \<Longrightarrow>
       load (Some (pf_stored (change c s))) = pf_current (change c s)"
    and change_valid: "valid (pf_current s) \<Longrightarrow> valid (pf_current (change c s))"
    and change_blocked: "pf_blocked (change c s) = pf_blocked s"
    and blocked_storage: "pf_blocked s \<Longrightarrow> pf_stored (change c s) = pf_stored s"
    and load_valid: "valid (load storage)"
begin

lemma reload:
  assumes "valid (pf_current s)" "\<not> pf_blocked s" "load (Some (pf_stored s)) = pf_current s"
  shows "load (Some (pf_stored (fold change cs s))) = pf_current (fold change cs s)"
  using assms by (induction cs arbitrary: s) (auto simp: change_saved change_valid change_blocked)

lemma blocked_reload: "pf_blocked s \<Longrightarrow> pf_stored (fold change cs s) = pf_stored s"
  by (induction cs arbitrary: s) (auto simp: change_blocked blocked_storage)

end

lemma pref_fields [simp]:
  "pf_current (notify_all s) = pf_current s" "pf_stored (notify_all s) = pf_stored s"
  "pf_blocked (notify_all s) = pf_blocked s" "pf_current (storage_set v s) = pf_current s"
  "pf_blocked (storage_set v s) = pf_blocked s"
  "pf_stored (storage_set v s) = (if pf_blocked s then pf_stored s else Some v)"
  by (simp_all add: notify_all_def storage_set_def)

definition theme_change :: "theme_preference \<Rightarrow> theme_preference preference \<Rightarrow> theme_preference preference" where
  "theme_change pref s =
     ths_pref (setThemePreference pref \<lparr>ths_pref = s, ths_attr = None, ths_media = None, ths_tracking = False\<rparr>)"

lemma setThemePreference_pref: "ths_pref (setThemePreference pref s) = theme_change pref (ths_pref s)"
  by (simp add: theme_change_def setThemePreference_def theme_apply_def)

lemma theme_names: "distinct (map fst PREFERENCES)" "p \<in> snd ` set PREFERENCES"
  by (simp_all add: PREFERENCES_def) (cases p; simp)

interpretation theme_names: wire_enum PREFERENCES
  by unfold_locales (rule theme_names)+

lemma theme_load_name: "theme_load (Some (Some (theme_name p))) = p"
proof -
  have "theme_name p \<noteq> ''light''" by (cases p) (simp_all add: theme_name_def PREFERENCES_def)
  moreover have "map_of PREFERENCES (theme_name p) = Some p"
    by (simp add: theme_name_def map_of_name_in theme_names)
  ultimately show ?thesis by (simp add: theme_load_def)
qed

interpretation theme: stored_preference theme_load theme_change "\<lambda>p. True"
  by unfold_locales
    (auto simp: theme_change_def setThemePreference_def theme_apply_def theme_load_name)

lemma locale_names: "distinct (map fst LOCALES)" "p \<in> snd ` set LOCALES"
  by (simp_all add: LOCALES_def) (cases p; simp)

interpretation locale_names: wire_enum LOCALES
  by unfold_locales (rule locale_names)+

interpretation locale_store: stored_preference "locale_load language" setLocale "\<lambda>p. True"
  by unfold_locales
    (auto simp: setLocale_def locale_load_def locale_name_def map_of_name_in locale_names)

text \<open>
  While a subscriber is there the attribute follows the preference and the media query; once it
  has gone, or before it came, a change of the media query is not followed.
\<close>

definition theme_shown :: "theme_state \<Rightarrow> bool" where
  "theme_shown s \<longleftrightarrow> ths_attr s = Some (theme_name (getResolvedTheme s))"

lemma theme_shown_ops:
  "theme_shown (initTheme s)"
  "theme_shown s \<Longrightarrow> theme_shown (setThemePreference pref s)"
  "theme_shown s \<Longrightarrow> theme_shown (subscribeTheme l s)"
  "theme_shown s \<Longrightarrow> theme_shown (unsubscribeTheme l s)"
  "theme_shown s \<Longrightarrow> ths_tracking s \<Longrightarrow> theme_shown (media_changed m s)"
  by (auto simp: theme_shown_def initTheme_def setThemePreference_def theme_apply_def
      getResolvedTheme_def subscribeTheme_def unsubscribeTheme_def media_changed_def
      pref_subscribe_def pref_unsubscribe_def)

lemma theme_name_inj: "theme_name p = theme_name q \<longleftrightarrow> p = q"
  unfolding theme_name_def by (rule theme_names.name_inj)

lemma media_untracked:
  assumes "\<not> ths_tracking s" "theme_shown s" "pf_current (ths_pref s) = Th_System" "ths_media s = Some m"
  shows "\<not> theme_shown (media_changed (\<not> m) s)"
  using assms by (cases m) (simp_all add: theme_shown_def media_changed_def getResolvedTheme_def
      resolved_def theme_name_inj)

text \<open>The sections: what is hidden is a duplicate-free list of toggleable tabs.\<close>

definition hidden_ok :: "server_tab list \<Rightarrow> bool" where
  "hidden_ok tabs \<longleftrightarrow> distinct tabs \<and> set tabs \<subseteq> set TOGGLEABLE_SECTIONS"

lemma section_item_name: "tab \<in> set TOGGLEABLE_SECTIONS \<Longrightarrow> section_item (JStr (tab_name tab)) = Some tab"
  by (cases tab) (simp_all add: section_item_def tab_name_def SERVER_TABS_def TOGGLEABLE_SECTIONS_def)

lemma section_item_Some: "section_item item = Some tab \<Longrightarrow> tab \<in> set TOGGLEABLE_SECTIONS"
  by (auto simp: section_item_def split: json.splits option.splits if_splits)

lemma hidden_ok_load: "hidden_ok (sections_load rt storage)"
  by (auto simp: hidden_ok_def sections_load_def set_map_non_null dest: section_item_Some
      split: option.splits json.splits)

lemma hidden_ok_toggle: "hidden_ok (pf_current s) \<Longrightarrow> hidden_ok (pf_current (toggleSection rt tab s))"
  by (auto simp: hidden_ok_def toggleSection_def sections_persist_def)

lemma sections_roundtrip:
  assumes "rt_json_parse rt (rt_json_stringify rt (sections_json tabs)) = Some (sections_json tabs)"
    and "hidden_ok tabs"
  shows "sections_load rt (Some (Some (rt_json_stringify rt (sections_json tabs)))) = tabs"
proof -
  have "map_non_null section_item (map (\<lambda>tab. JStr (tab_name tab)) tabs) = tabs"
    using assms(2) section_item_name by (intro map_non_null_map) (auto simp: hidden_ok_def)
  then show ?thesis using assms js_set_distinct [of tabs]
    by (simp add: sections_load_def sections_json_def hidden_ok_def)
qed

lemma toggle_twice:
  assumes "hidden_ok (pf_current s)"
  shows "set (pf_current (toggleSection rt tab (toggleSection rt tab s))) = set (pf_current s)"
  using assms by (auto simp: toggleSection_def sections_persist_def)

lemma overview_never_hidden:
  "hidden_ok (pf_current s) \<Longrightarrow> \<not> isSectionHidden Tab_Overview s \<and> \<not> isSectionHidden Tab_Gpus s"
  by (auto simp: hidden_ok_def isSectionHidden_def TOGGLEABLE_SECTIONS_def)

end
