(* ===== verification/Visuals.thy ===== *)
theory Visuals
  imports Format
begin

text \<open>
  The logic of the display primitives: the segmented meter (\<open>design/SegmentedMeter.tsx\<close>), the
  status dot (\<open>design/StatusDot.tsx\<close>), the sparkline, VRAM gauge and temperature tone of
  \<open>gpu/\<close>, and the modal dialogs (\<open>design/Dialog.tsx\<close>): the stack that decides which dialog
  reacts to the keyboard and the Tab trap. Rendering is not modelled.
\<close>

subsection \<open>Meters and tones\<close>

datatype meter_state = Mt_Ok | Mt_Warn | Mt_Crit

definition METER_WARN_THRESHOLD :: rat where
  "METER_WARN_THRESHOLD = 75"

definition METER_CRIT_THRESHOLD :: rat where
  "METER_CRIT_THRESHOLD = 90"

definition meterStateForValue :: "rat \<Rightarrow> rat \<Rightarrow> rat \<Rightarrow> meter_state" where
  "meterStateForValue v warn crit =
     (if v \<ge> crit then Mt_Crit else if v \<ge> warn then Mt_Warn else Mt_Ok)"

text \<open>The meter's numbers: the bounded value, the filled segments, the state of the fill.\<close>

record meter_view =
  mv_bounded :: rat
  mv_filled :: int
  mv_state :: meter_state
  mv_fill_percent :: rat

definition SegmentedMeter :: "rat option \<Rightarrow> rat \<Rightarrow> nat \<Rightarrow> meter_state option \<Rightarrow> meter_view" where
  "SegmentedMeter v max_value segments state =
     (let bounded = (case v of None \<Rightarrow> 0 | Some x \<Rightarrow> max 0 (min max_value x));
          scale = (if max_value = 0 then 1 else max_value)
      in \<lparr>mv_bounded = bounded,
          mv_filled = math_round (bounded / scale * of_nat segments),
          mv_state = (case state of
                        None \<Rightarrow> meterStateForValue bounded METER_WARN_THRESHOLD METER_CRIT_THRESHOLD
                      | Some s \<Rightarrow> s),
          mv_fill_percent = (case v of None \<Rightarrow> 0 | Some _ \<Rightarrow> bounded / scale * 100)\<rparr>)"

definition meter_segments :: "meter_view \<Rightarrow> nat \<Rightarrow> bool list" where
  "meter_segments m segments = map (\<lambda>index. int index < mv_filled m) [0..<segments]"

fun dotStatusFromServerStatus :: "server_status \<Rightarrow> dot_status" where
  "dotStatusFromServerStatus S_Online = Dot_Online"
| "dotStatusFromServerStatus S_Degraded = Dot_Stale"
| "dotStatusFromServerStatus S_Offline = Dot_Offline"
| "dotStatusFromServerStatus S_Timeout = Dot_Offline"
| "dotStatusFromServerStatus S_Connecting = Dot_Connecting"
| "dotStatusFromServerStatus S_Reconnecting = Dot_Connecting"
| "dotStatusFromServerStatus S_Authentication_failed = Dot_Error"
| "dotStatusFromServerStatus S_Host_key_error = Dot_Error"
| "dotStatusFromServerStatus S_Unknown = Dot_Unknown"

datatype thermal_tone = TT_Cold | TT_Neutral | TT_Warn | TT_Crit | TT_Empty

definition HOT_WARN_C :: rat where "HOT_WARN_C = 75"
definition HOT_CRIT_C :: rat where "HOT_CRIT_C = 85"
definition COLD_C :: rat where "COLD_C = 40"

definition thermalToneFor :: "rat option \<Rightarrow> thermal_tone" where
  "thermalToneFor celsius =
     (case celsius of
        None \<Rightarrow> TT_Empty
      | Some c \<Rightarrow>
          if c \<ge> HOT_CRIT_C then TT_Crit
          else if c \<ge> HOT_WARN_C then TT_Warn
          else if c \<le> COLD_C then TT_Cold
          else TT_Neutral)"

definition VRAM_WARN :: rat where "VRAM_WARN = 80"
definition VRAM_CRIT :: rat where "VRAM_CRIT = 95"

definition vram_value :: "rat option \<Rightarrow> rat option \<Rightarrow> rat option \<Rightarrow> rat option" where
  "vram_value usedB totalB percent =
     (case percent of
        Some p \<Rightarrow> Some p
      | None \<Rightarrow>
          (case (usedB, totalB) of
             (Some u, Some t) \<Rightarrow> (if t > 0 then Some (u / t * 100) else None)
           | _ \<Rightarrow> None))"

definition VramGauge :: "rat option \<Rightarrow> rat option \<Rightarrow> rat option \<Rightarrow> nat \<Rightarrow> meter_view" where
  "VramGauge usedB totalB percent segments =
     (let v = vram_value usedB totalB percent;
          state = (case v of None \<Rightarrow> Mt_Ok | Some x \<Rightarrow> meterStateForValue x VRAM_WARN VRAM_CRIT)
      in SegmentedMeter v 100 segments (Some state))"

text \<open>The points of a sparkline, rounded to two decimals; fewer than two samples draw none.\<close>

definition round2 :: "rat \<Rightarrow> rat" where
  "round2 x = of_int (math_round (x * 100)) / 100"

definition sparkline_points :: "rat list \<Rightarrow> rat \<Rightarrow> rat \<Rightarrow> rat \<Rightarrow> rat \<Rightarrow> (rat \<times> rat) list" where
  "sparkline_points vs min_value max_value width height =
     (let data = lastn 120 vs in
      if length data < 2 then []
      else
        (let range = (if max_value - min_value = 0 then 1 else max_value - min_value);
             stepX = width / of_nat (length data - 1)
         in map (\<lambda>(index, v).
                   (let clamped = min max_value (max min_value v)
                    in (round2 (of_nat index * stepX),
                        round2 (height - (clamped - min_value) / range * height))))
              (zip [0..<length data] data)))"

subsection \<open>Properties\<close>

lemma math_round_of_nat [simp]: "math_round (of_nat n) = int n"
  using math_round_of_int [of "int n"] by simp

lemma meter_bounds:
  fixes v :: "rat option" and max_value :: rat and segments :: nat and state :: "meter_state option"
  assumes "0 \<le> max_value"
  defines "m \<equiv> SegmentedMeter v max_value segments state"
  shows "0 \<le> mv_bounded m \<and> mv_bounded m \<le> max_value
     \<and> 0 \<le> mv_filled m \<and> mv_filled m \<le> int segments
     \<and> 0 \<le> mv_fill_percent m \<and> mv_fill_percent m \<le> 100"
proof -
  define b where "b = (case v of None \<Rightarrow> 0 | Some x \<Rightarrow> max 0 (min max_value x))"
  define r where "r = b / (if max_value = 0 then 1 else max_value)"
  have b: "0 \<le> b" "b \<le> max_value" using assms(1) by (auto simp: b_def split: option.splits)
  then have r: "0 \<le> r" "r \<le> 1" using assms(1) by (auto simp: r_def divide_le_eq)
  have "0 \<le> r * of_nat segments" using r by simp
  moreover have "r * of_nat segments \<le> of_int (int segments)"
    using r mult_right_mono [of r 1 "of_nat segments"] by simp
  ultimately have "0 \<le> math_round (r * of_nat segments)" "math_round (r * of_nat segments) \<le> int segments"
    using math_round_nonneg math_round_mono [of "r * of_nat segments" "of_nat segments"] by simp_all
  moreover have "mv_bounded m = b" "mv_filled m = math_round (r * of_nat segments)"
    "mv_fill_percent m = (case v of None \<Rightarrow> 0 | Some _ \<Rightarrow> r * 100)"
    unfolding m_def SegmentedMeter_def Let_def b_def r_def by (simp_all only: meter_view.select_convs)
  ultimately show ?thesis using b r by (cases v) simp_all
qed

lemma segments_filled:
  assumes "0 \<le> mv_filled m" "mv_filled m \<le> int segments"
  shows "length (meter_segments m segments) = segments
     \<and> count_list (meter_segments m segments) True = nat (mv_filled m)"
proof -
  have "count_list (map (\<lambda>i. int i < k) [0..<n]) True = nat (min k (int n))" if "0 \<le> k" for k n
    using that by (induction n) auto
  then show ?thesis using assms by (simp add: meter_segments_def min_absorb1)
qed

lemma meter_state_mono:
  "v \<le> w \<Longrightarrow> warn \<le> crit \<Longrightarrow>
   (meterStateForValue v warn crit = Mt_Crit \<longrightarrow> meterStateForValue w warn crit = Mt_Crit)
   \<and> (meterStateForValue w warn crit = Mt_Ok \<longrightarrow> meterStateForValue v warn crit = Mt_Ok)"
  by (auto simp: meterStateForValue_def)

lemma sparkline_length: "length (sparkline_points vs lo hi w h) \<le> 120"
  by (auto simp: sparkline_points_def Let_def)

lemma round2_mono: "x \<le> y \<Longrightarrow> round2 x \<le> round2 y"
  by (simp add: round2_def math_round_mono divide_right_mono)

lemma sparkline_in_box:
  assumes "lo < hi" "0 \<le> w" "0 \<le> h" "(x, y) \<in> set (sparkline_points vs lo hi w h)"
  shows "round2 0 \<le> x \<and> x \<le> round2 w \<and> round2 0 \<le> y \<and> y \<le> round2 h"
proof -
  let ?d = "lastn 120 vs"
  have two: "2 \<le> length ?d" using assms(4) by (auto simp: sparkline_points_def Let_def split: if_splits)
  have "sparkline_points vs lo hi w h =
      map (\<lambda>p. (round2 (of_nat (fst p) * (w / of_nat (length ?d - 1))),
                round2 (h - (min hi (max lo (snd p)) - lo) / (hi - lo) * h))) (zip [0..<length ?d] ?d)"
    using assms(1) two by (simp add: sparkline_points_def Let_def split_beta)
  then obtain p where p: "p \<in> set (zip [0..<length ?d] ?d)" and
    xy: "(x, y) = (round2 (of_nat (fst p) * (w / of_nat (length ?d - 1))),
                   round2 (h - (min hi (max lo (snd p)) - lo) / (hi - lo) * h))"
    using assms(4) by (auto simp only: set_map)
  define i where "i = fst p"
  define v where "v = snd p"
  have i: "i < length ?d" using p by (auto simp: i_def set_zip)
  have x: "x = round2 (of_nat i * (w / of_nat (length ?d - 1)))" and
    y: "y = round2 (h - (min hi (max lo v) - lo) / (hi - lo) * h)"
    using xy by (simp_all add: i_def v_def)
  have "of_nat i / (of_nat (length ?d - 1) :: rat) \<le> 1"
  proof -
    have "(of_nat i :: rat) \<le> of_nat (length ?d - 1)"
      unfolding of_nat_le_iff using i by linarith
    then show ?thesis using two by (simp add: divide_le_eq)
  qed
  then have "of_nat i * (w / of_nat (length ?d - 1)) \<le> w"
    using mult_right_mono [of "of_nat i / of_nat (length ?d - 1)" 1 w] assms(2) by (simp add: algebra_simps)
  moreover have "0 \<le> of_nat i * (w / of_nat (length ?d - 1))" using assms(2) by simp
  moreover define t where "t = (min hi (max lo v) - lo) / (hi - lo)"
  have "0 \<le> t" "t \<le> 1" using assms(1) by (auto simp: t_def divide_le_eq)
  then have "0 \<le> t * h" "t * h \<le> h" using assms(3) mult_right_mono [of t 1 h] by simp_all
  ultimately show ?thesis
    unfolding x y t_def [symmetric] by (auto intro: round2_mono)
qed

subsection \<open>Modal dialogs\<close>

text \<open>
  \<open>dialogStack\<close> and \<open>nextDialogId\<close> are module variables; \<open>dl_ids\<close> is the \<open>idRef\<close> of each
  mounted dialog and \<open>dl_closed\<close> logs the calls of \<open>onClose\<close>. Dialogs are named by numbers.
\<close>

record dialogs =
  dl_stack :: "nat list"
  dl_next :: nat
  dl_ids :: "nat \<rightharpoonup> nat"
  dl_open :: "nat list"
  dl_closed :: "nat list"

definition dialogs_init :: dialogs where
  "dialogs_init = \<lparr>dl_stack = [], dl_next = 0, dl_ids = Map.empty, dl_open = [], dl_closed = []\<rparr>"

definition isTop :: "nat option \<Rightarrow> dialogs \<Rightarrow> bool" where
  "isTop i s \<longleftrightarrow> i \<noteq> None \<and> dl_stack s \<noteq> [] \<and> last (dl_stack s) = the i"

text \<open>The effect of an opened dialog, and its clean-up: \<open>splice\<close> at the first index.\<close>

definition dialog_opened :: "nat \<Rightarrow> dialogs \<Rightarrow> dialogs" where
  "dialog_opened d s =
     (let i = (case dl_ids s d of Some i \<Rightarrow> i | None \<Rightarrow> dl_next s)
      in s\<lparr>dl_ids := (dl_ids s)(d \<mapsto> i),
           dl_next := (case dl_ids s d of Some _ \<Rightarrow> dl_next s | None \<Rightarrow> dl_next s + 1),
           dl_stack := dl_stack s @ [i], dl_open := dl_open s @ [d]\<rparr>)"

definition dialog_cleanup :: "nat \<Rightarrow> dialogs \<Rightarrow> dialogs" where
  "dialog_cleanup d s =
     s\<lparr>dl_stack := (case dl_ids s d of Some i \<Rightarrow> remove1 i (dl_stack s) | None \<Rightarrow> dl_stack s),
       dl_open := remove1 d (dl_open s)\<rparr>"

text \<open>The key listeners run in the order the dialogs opened, each for its own dialog.\<close>

definition escape_pressed :: "dialogs \<Rightarrow> dialogs" where
  "escape_pressed s =
     s\<lparr>dl_closed := dl_closed s @ filter (\<lambda>d. isTop (dl_ids s d) s) (dl_open s)\<rparr>"

text \<open>A press on the overlay of dialog \<open>d\<close>; \<open>outside\<close> says it hit the overlay itself.\<close>

definition overlay_pressed :: "nat \<Rightarrow> bool \<Rightarrow> dialogs \<Rightarrow> dialogs" where
  "overlay_pressed d outside s =
     (if isTop (dl_ids s d) s \<and> outside then s\<lparr>dl_closed := dl_closed s @ [d]\<rparr> else s)"

text \<open>
  The Tab trap over the focusable elements of the panel: \<open>active\<close> is the index of the focused
  one, \<open>None\<close> outside the panel (\<open>Some\<close> of a larger index: inside, not focusable); the
  result is the element focused, or \<open>None\<close> when the browser's own order is followed.
\<close>

definition trapTab :: "nat \<Rightarrow> bool \<Rightarrow> nat option \<Rightarrow> nat option" where
  "trapTab n shift active =
     (if n = 0 then None
      else if shift then (if active = Some 0 \<or> active = None then Some (n - 1) else None)
      else (if active = Some (n - 1) \<or> active = None then Some 0 else None))"

definition tab_next :: "nat \<Rightarrow> bool \<Rightarrow> nat option \<Rightarrow> nat option" where
  "tab_next n shift active =
     (case trapTab n shift active of
        Some i \<Rightarrow> Some i
      | None \<Rightarrow> map_option (\<lambda>i. if shift then i - 1 else i + 1) active)"

inductive dialogs_reach :: "dialogs \<Rightarrow> bool" where
  dialogs_reach_init: "dialogs_reach dialogs_init"
| dialogs_reach_open: "dialogs_reach s \<Longrightarrow> d \<notin> set (dl_open s) \<Longrightarrow> dialogs_reach (dialog_opened d s)"
| dialogs_reach_close: "dialogs_reach s \<Longrightarrow> d \<in> set (dl_open s) \<Longrightarrow> dialogs_reach (dialog_cleanup d s)"
| dialogs_reach_escape: "dialogs_reach s \<Longrightarrow> dialogs_reach (escape_pressed s)"
| dialogs_reach_overlay: "dialogs_reach s \<Longrightarrow> dialogs_reach (overlay_pressed d b s)"

text \<open>The stack holds the open dialogs in the order they opened, each under its own id.\<close>

definition dialogs_inv :: "dialogs \<Rightarrow> bool" where
  "dialogs_inv s \<longleftrightarrow>
     distinct (dl_open s) \<and> map Some (dl_stack s) = map (dl_ids s) (dl_open s)
     \<and> inj_on (dl_ids s) (dom (dl_ids s)) \<and> (\<forall>d i. dl_ids s d = Some i \<longrightarrow> i < dl_next s)"

lemma map_Some_remove1:
  assumes "map Some is = map f ds" "d \<in> set ds" "distinct ds" "f d = Some i" "inj_on f (dom f)"
  shows "map Some (remove1 i is) = map f (remove1 d ds)"
  using assms
proof (induction ds arbitrary: "is")
  case (Cons e ds)
  then obtain j js where "is": "is = j # js" "f e = Some j" "map Some js = map f ds"
    by (cases "is") auto
  show ?case
  proof (cases "e = d")
    case False
    then have "j \<noteq> i" using Cons.prems(4) "is"(2) inj_onD [OF Cons.prems(5), of e d] by (auto simp: dom_def)
    then show ?thesis using Cons.IH [OF "is"(3)] Cons.prems "is" False by simp
  qed (use "is" Cons.prems in auto)
qed simp

lemma dialogs_inv_reach: "dialogs_reach s \<Longrightarrow> dialogs_inv s"
proof (induction rule: dialogs_reach.induct)
  case (dialogs_reach_open s d)
  show ?case
  proof (cases "dl_ids s d")
    case None
    then have "map ((dl_ids s)(d \<mapsto> dl_next s)) (dl_open s) = map (dl_ids s) (dl_open s)"
      using dialogs_reach_open(2) by auto
    moreover have "inj_on ((dl_ids s)(d \<mapsto> dl_next s)) (dom ((dl_ids s)(d \<mapsto> dl_next s)))"
      using dialogs_reach_open(3) unfolding dialogs_inv_def inj_on_def
      by (auto simp: dom_def) (metis less_irrefl option.inject)+
    ultimately show ?thesis using dialogs_reach_open None
      by (auto simp: dialogs_inv_def dialog_opened_def less_Suc_eq Let_def)
  next
    case (Some i)
    then show ?thesis using dialogs_reach_open
      by (auto simp: dialogs_inv_def dialog_opened_def fun_upd_idem Let_def)
  qed
next
  case (dialogs_reach_close s d)
  have "dl_ids s d \<in> set (map Some (dl_stack s))"
    using dialogs_reach_close(2,3) by (simp add: dialogs_inv_def)
  then obtain i where i: "dl_ids s d = Some i" by auto
  then show ?case using dialogs_reach_close map_Some_remove1 [of "dl_stack s" "dl_ids s" "dl_open s" d i]
    by (auto simp: dialogs_inv_def dialog_cleanup_def)
qed (auto simp: dialogs_inv_def dialogs_init_def escape_pressed_def overlay_pressed_def)

text \<open>Escape reaches exactly the dialog opened last among those still open.\<close>

lemma escape_closes_top:
  assumes "dialogs_reach s" "dl_open s \<noteq> []"
  shows "dl_closed (escape_pressed s) = dl_closed s @ [last (dl_open s)]"
proof -
  have inv: "dialogs_inv s" using assms(1) by (rule dialogs_inv_reach)
  obtain ds d where o: "dl_open s = ds @ [d]" using assms(2) by (cases "dl_open s" rule: rev_cases) auto
  then obtain js j where st: "dl_stack s = js @ [j]" "dl_ids s d = Some j"
    using inv by (cases "dl_stack s" rule: rev_cases) (auto simp: dialogs_inv_def)
  have "\<not> isTop (dl_ids s e) s" if "e \<in> set ds" for e
  proof -
    have "dl_ids s e \<in> set (map Some (dl_stack s))" using inv o that by (simp add: dialogs_inv_def)
    then obtain k where k: "dl_ids s e = Some k" by auto
    moreover have "e \<noteq> d" using inv o that by (auto simp: dialogs_inv_def)
    moreover have "inj_on (dl_ids s) (dom (dl_ids s))" using inv by (simp add: dialogs_inv_def)
    ultimately have "k \<noteq> j" using st(2) inj_onD [of "dl_ids s" "dom (dl_ids s)" e d] by (auto simp: dom_def)
    then show ?thesis using k st by (simp add: isTop_def)
  qed
  then have "filter (\<lambda>e. isTop (dl_ids s e) s) ds = []" by (simp add: filter_empty_conv)
  then show ?thesis using o st by (simp add: escape_pressed_def isTop_def)
qed

text \<open>Tab never leaves the panel, and from outside it is brought back in.\<close>

lemma trap_inside:
  "0 < n \<Longrightarrow> (case active of Some i \<Rightarrow> i < n | None \<Rightarrow> True) \<Longrightarrow>
   \<exists>i < n. tab_next n shift active = Some i"
  by (auto simp: tab_next_def trapTab_def split: option.splits if_splits)

end
