(* ===== verification/StableSort.thy ===== *)
theory StableSort
  imports Prelude
begin

text \<open>
  \<open>Array.prototype.sort\<close> with a comparator. ECMAScript's sort is stable and, for a
  consistent comparator, its result is determined; \<open>js_sort\<close> computes it by insertion. A
  comparator that answers \<open>NaN\<close> counts as \<open>0\<close>. The locale \<open>sort_order\<close>
  states what makes a comparator consistent on a class of elements and derives that the result
  is sorted, stable, and the only list that is.
\<close>

text \<open>Subtraction of numbers; the comparators only use the sign of the result.\<close>

fun num_minus :: "js_number \<Rightarrow> js_number \<Rightarrow> js_number" where
  "num_minus (Fin p) (Fin q) = Fin (p - q)"
| "num_minus NaN _ = NaN"
| "num_minus _ NaN = NaN"
| "num_minus PosInf PosInf = NaN"
| "num_minus PosInf _ = PosInf"
| "num_minus NegInf NegInf = NaN"
| "num_minus NegInf _ = NegInf"
| "num_minus (Fin _) PosInf = NegInf"
| "num_minus (Fin _) NegInf = PosInf"

fun num_uminus :: "js_number \<Rightarrow> js_number" where
  "num_uminus (Fin q) = Fin (- q)"
| "num_uminus PosInf = NegInf"
| "num_uminus NegInf = PosInf"
| "num_uminus NaN = NaN"

fun num_sign :: "js_number \<Rightarrow> int" where
  "num_sign (Fin q) = (if q < 0 then -1 else if q = 0 then 0 else 1)"
| "num_sign PosInf = 1"
| "num_sign NegInf = -1"
| "num_sign NaN = 0"

type_synonym 'a js_comparator = "'a \<Rightarrow> 'a \<Rightarrow> js_number"

fun js_insert :: "'a js_comparator \<Rightarrow> 'a \<Rightarrow> 'a list \<Rightarrow> 'a list" where
  "js_insert cmp x [] = [x]"
| "js_insert cmp x (y # ys) =
     (if num_sign (cmp x y) \<le> 0 then x # y # ys else y # js_insert cmp x ys)"

definition js_sort :: "'a js_comparator \<Rightarrow> 'a list \<Rightarrow> 'a list" where
  "js_sort cmp xs = foldr (js_insert cmp) xs []"

subsection \<open>Signs\<close>

lemma num_sign_uminus [simp]: "num_sign (num_uminus x) = - num_sign x"
  by (cases x) auto

lemma num_sign_minus_swap: "num_sign (num_minus x y) = - num_sign (num_minus y x)"
  by (cases x; cases y) auto

subsection \<open>Permutation, without any law\<close>

lemma mset_js_insert: "mset (js_insert cmp x ys) = add_mset x (mset ys)"
  by (induction ys) auto

lemma mset_js_sort [simp]: "mset (js_sort cmp xs) = mset xs"
  by (induction xs) (simp_all add: js_sort_def mset_js_insert)

lemma set_js_sort [simp]: "set (js_sort cmp xs) = set xs"
  by (metis mset_js_sort set_mset_mset)

lemma length_js_sort [simp]: "length (js_sort cmp xs) = length xs"
  by (metis mset_js_sort size_mset)

lemma distinct_map_js_sort: "distinct (map f xs) \<Longrightarrow> distinct (map f (js_sort cmp xs))"
  by (metis mset_js_sort mset_map mset_eq_imp_distinct_iff)

subsection \<open>Consistent comparators\<close>

definition consistent :: "('a \<Rightarrow> bool) \<Rightarrow> 'a js_comparator \<Rightarrow> bool" where
  "consistent C cmp \<longleftrightarrow>
     (\<forall>a b. C a \<longrightarrow> C b \<longrightarrow> num_sign (cmp a b) = - num_sign (cmp b a))
     \<and> (\<forall>a b c. C a \<longrightarrow> C b \<longrightarrow> C c \<longrightarrow>
          num_sign (cmp a b) \<le> 0 \<longrightarrow> num_sign (cmp b c) \<le> 0 \<longrightarrow> num_sign (cmp a c) \<le> 0)"

lemma consistent_sym: "consistent C cmp \<Longrightarrow> C a \<Longrightarrow> C b \<Longrightarrow> num_sign (cmp a b) = - num_sign (cmp b a)"
  unfolding consistent_def by blast

lemma consistent_trans:
  "consistent C cmp \<Longrightarrow> C a \<Longrightarrow> C b \<Longrightarrow> C c \<Longrightarrow>
   num_sign (cmp a b) \<le> 0 \<Longrightarrow> num_sign (cmp b c) \<le> 0 \<Longrightarrow> num_sign (cmp a c) \<le> 0"
  unfolding consistent_def by blast

lemma consistent_strict:
  assumes "consistent C cmp" "C a" "C b" "C c"
    "num_sign (cmp a b) \<le> 0" "num_sign (cmp b c) \<le> 0" "num_sign (cmp a c) = 0"
  shows "num_sign (cmp a b) = 0 \<and> num_sign (cmp b c) = 0"
proof -
  have ca: "num_sign (cmp c a) \<le> 0" using consistent_sym [OF assms(1,2,4)] assms(7) by simp
  have "num_sign (cmp b a) \<le> 0" using consistent_trans [OF assms(1,3,4,2) assms(6) ca] .
  moreover have "num_sign (cmp c b) \<le> 0" using consistent_trans [OF assms(1,4,2,3) ca assms(5)] .
  ultimately show ?thesis
    using consistent_sym [OF assms(1,2,3)] consistent_sym [OF assms(1,3,4)] assms(5,6) by linarith
qed

lemma consistent_uminus:
  assumes "consistent C cmp"
  shows "consistent C (\<lambda>a b. num_uminus (cmp a b))"
  unfolding consistent_def
proof (intro conjI allI impI)
  fix a b assume "C a" "C b"
  then show "num_sign (num_uminus (cmp a b)) = - num_sign (num_uminus (cmp b a))"
    using consistent_sym [OF assms, of a b] by simp
next
  fix a b c assume C: "C a" "C b" "C c"
    and le: "num_sign (num_uminus (cmp a b)) \<le> 0" "num_sign (num_uminus (cmp b c)) \<le> 0"
  have "num_sign (cmp b a) \<le> 0" "num_sign (cmp c b) \<le> 0"
    using le consistent_sym [OF assms C(1,2)] consistent_sym [OF assms C(2,3)] by simp_all
  then have "num_sign (cmp c a) \<le> 0" using consistent_trans [OF assms C(3,2,1)] by blast
  then show "num_sign (num_uminus (cmp a c)) \<le> 0" using consistent_sym [OF assms C(1,3)] by simp
qed

lemma num_sign_le: "num_sign (num_minus (Fin p) (Fin q)) \<le> 0 \<longleftrightarrow> p \<le> q"
  by auto

lemma consistent_key:
  assumes "\<And>a. C a \<Longrightarrow> is_finite (k a)"
  shows "consistent C (\<lambda>a b. num_minus (k a) (k b))"
  unfolding consistent_def
proof (intro conjI allI impI)
  fix a b show "num_sign (num_minus (k a) (k b)) = - num_sign (num_minus (k b) (k a))"
    by (rule num_sign_minus_swap)
next
  fix a b c assume C: "C a" "C b" "C c"
    and le: "num_sign (num_minus (k a) (k b)) \<le> 0" "num_sign (num_minus (k b) (k c)) \<le> 0"
  obtain p q r where "k a = Fin p" "k b = Fin q" "k c = Fin r"
    using assms [OF C(1)] assms [OF C(2)] assms [OF C(3)] by (auto simp: is_finite_iff)
  then show "num_sign (num_minus (k a) (k c)) \<le> 0" using le by (simp only: num_sign_le)
qed

lemma consistent_empty: "consistent (\<lambda>_. False) cmp"
  by (simp add: consistent_def)

text \<open>A first criterion with a second for its ties.\<close>

lemma consistent_lex:
  assumes 1: "consistent C f" and 2: "consistent C g"
    and eq: "\<And>a b. C a \<Longrightarrow> C b \<Longrightarrow> num_sign (h a b) = (if num_sign (f a b) \<noteq> 0 then num_sign (f a b) else num_sign (g a b))"
  shows "consistent C h"
  unfolding consistent_def
proof (intro conjI allI impI)
  fix a b assume C: "C a" "C b"
  show "num_sign (h a b) = - num_sign (h b a)"
    unfolding eq [OF C] eq [OF C(2,1)]
    using consistent_sym [OF 1 C] consistent_sym [OF 2 C] by simp
next
  fix a b c assume C: "C a" "C b" "C c" and le: "num_sign (h a b) \<le> 0" "num_sign (h b c) \<le> 0"
  note eqs = eq [OF C(1,2)] eq [OF C(2,3)] eq [OF C(1,3)]
  have f: "num_sign (f a b) \<le> 0" "num_sign (f b c) \<le> 0"
    using le unfolding eqs by (simp_all split: if_splits)
  have fac: "num_sign (f a c) \<le> 0" by (rule consistent_trans [OF 1 C f])
  show "num_sign (h a c) \<le> 0"
  proof (cases "num_sign (f a c) = 0")
    case True
    then have "num_sign (f a b) = 0" "num_sign (f b c) = 0" using consistent_strict [OF 1 C f] by blast+
    then have "num_sign (g a b) \<le> 0" "num_sign (g b c) \<le> 0" using le unfolding eqs by simp_all
    then show ?thesis unfolding eqs using True consistent_trans [OF 2 C] by simp
  qed (use fac in \<open>simp add: eqs\<close>)
qed

subsection \<open>The interface\<close>

locale sort_order =
  fixes cmp :: "'a js_comparator" and C :: "'a \<Rightarrow> bool"
  assumes law: "consistent C cmp"
begin

definition le :: "'a \<Rightarrow> 'a \<Rightarrow> bool" where
  "le a b \<longleftrightarrow> num_sign (cmp a b) \<le> 0"

definition tied :: "'a \<Rightarrow> 'a \<Rightarrow> bool" where
  "tied a b \<longleftrightarrow> num_sign (cmp a b) = 0"

lemma le_total: "C a \<Longrightarrow> C b \<Longrightarrow> \<not> le a b \<Longrightarrow> le b a"
  using consistent_sym [OF law, of a b] unfolding le_def by linarith

lemma le_trans: "C a \<Longrightarrow> C b \<Longrightarrow> C c \<Longrightarrow> le a b \<Longrightarrow> le b c \<Longrightarrow> le a c"
  unfolding le_def by (rule consistent_trans [OF law])

lemma tied_iff: "C a \<Longrightarrow> C b \<Longrightarrow> tied a b \<longleftrightarrow> le a b \<and> le b a"
  using consistent_sym [OF law, of a b] unfolding le_def tied_def by linarith

lemma insert_sorted:
  "C x \<Longrightarrow> \<forall>y \<in> set ys. C y \<Longrightarrow> sorted_wrt le ys \<Longrightarrow> sorted_wrt le (js_insert cmp x ys)"
proof (induction ys)
  case (Cons y ys)
  have set: "set (js_insert cmp x ys) = insert x (set ys)"
    using mset_js_insert [of cmp x ys] by (metis set_mset_add_mset_insert set_mset_mset)
  show ?case
  proof (cases "le x y")
    case True
    have "le x z" if "z \<in> set ys" for z
      using le_trans [of x y z] True Cons.prems that by auto
    then show ?thesis using True Cons.prems by (auto simp: le_def)
  next
    case False
    then have "le y x" using le_total [of x y] Cons.prems by auto
    then show ?thesis using False Cons set by (auto simp: le_def)
  qed
qed simp

lemma sorted: "\<forall>x \<in> set xs. C x \<Longrightarrow> sorted_wrt le (js_sort cmp xs)"
proof (induction xs)
  case (Cons x xs)
  then have "sorted_wrt le (js_insert cmp x (js_sort cmp xs))" by (intro insert_sorted) auto
  then show ?case by (simp add: js_sort_def)
qed (simp add: js_sort_def)

lemma insert_stable:
  assumes "C x" "C z" "\<forall>y \<in> set ys. C y"
  shows "filter (tied z) (js_insert cmp x ys) = (if tied z x then [x] else []) @ filter (tied z) ys"
  using assms(3)
proof (induction ys)
  case (Cons y ys)
  then have y: "C y" by simp
  have "\<not> tied z y" if "tied z x" "\<not> le x y"
  proof
    assume zy: "tied z y"
    then have "le x y" using that(1) le_trans [OF assms(1,2) y] tied_iff assms(1,2) y by blast
    then show False using that(2) by simp
  qed
  then show ?case using Cons by (auto simp: le_def)
qed auto

lemma stable: "C z \<Longrightarrow> \<forall>x \<in> set xs. C x \<Longrightarrow> filter (tied z) (js_sort cmp xs) = filter (tied z) xs"
proof (induction xs)
  case (Cons x xs)
  then have "filter (tied z) (js_insert cmp x (js_sort cmp xs)) =
      (if tied z x then [x] else []) @ filter (tied z) (js_sort cmp xs)" by (intro insert_stable) auto
  then show ?case using Cons by (simp add: js_sort_def)
qed (simp add: js_sort_def)

text \<open>Two sorted lists that agree on every group of ties are equal.\<close>

lemma unique:
  assumes "\<forall>x \<in> set ys. C x" "set ys = set zs" "sorted_wrt le ys" "sorted_wrt le zs"
    "\<forall>x \<in> set ys. filter (tied x) ys = filter (tied x) zs"
  shows "ys = zs"
  using assms
proof (induction ys arbitrary: zs)
  case (Cons y ys)
  then obtain z zs' where zs: "zs = z # zs'" by (cases zs) auto
  have Cy: "C y" and Cz: "C z" using Cons.prems zs by auto
  have refl: "tied a a" if "C a" for a using that consistent_sym [OF law that that] by (simp add: tied_def)
  have rl: "le a a" if "C a" for a using refl [OF that] tied_iff [OF that that] by blast
  have "z \<in> set (y # ys)" "y \<in> set (z # zs')" using Cons.prems(2) zs by auto
  then have "le y z" "le z y" using Cons.prems(3,4) zs rl [OF Cy] by auto
  then have "tied y z" using tied_iff Cy Cz by blast
  then have yz: "y = z" using Cons.prems(5) zs refl [OF Cy] by simp
  have same: "filter (tied x) ys = filter (tied x) zs'" if "x \<in> set (y # ys)" for x
    using Cons.prems(5) that zs yz by (metis filter.simps(2) list.inject)
  have "set ys = set zs'"
  proof -
    have "x \<in> set ys \<longleftrightarrow> x \<in> set zs'" if "x \<in> set (y # ys)" for x
    proof -
      have "x \<in> set xs \<longleftrightarrow> x \<in> set (filter (tied x) xs)" for xs
        using refl [of x] that Cons.prems(1) by auto
      then show ?thesis using same [OF that] by metis
    qed
    moreover have "set ys \<subseteq> set (y # ys)" "set zs' \<subseteq> set (y # ys)" using Cons.prems(2) zs by auto
    ultimately show ?thesis by blast
  qed
  then show ?case using Cons.IH [of zs'] Cons.prems same zs yz by auto
qed simp

text \<open>What a sort of the same elements that is sorted and stable must return.\<close>

lemma sort_unique:
  assumes "\<forall>x \<in> set xs. C x" "mset ys = mset xs" "sorted_wrt le ys"
    "\<forall>x \<in> set xs. filter (tied x) ys = filter (tied x) xs"
  shows "ys = js_sort cmp xs"
proof (rule unique)
  have set: "set ys = set xs" using assms(2) by (metis set_mset_mset)
  then show "set ys = set (js_sort cmp xs)" "\<forall>x \<in> set ys. C x" using assms(1) by auto
  show "\<forall>x \<in> set ys. filter (tied x) ys = filter (tied x) (js_sort cmp xs)"
    using set assms(1,4) stable by auto
qed (use assms sorted in auto)

lemma sort_idem: "\<forall>x \<in> set xs. C x \<Longrightarrow> js_sort cmp (js_sort cmp xs) = js_sort cmp xs"
  using sort_unique [of "js_sort cmp xs" "js_sort cmp xs"] sorted by auto

end

end
