(* ===== verification/Fleet.thy ===== *)
theory Fleet
  imports ConsoleStore StableSort Visuals
begin

text \<open>
  The fleet page: the ordering of the machines (\<open>features/fleet/fleetSort.ts\<close>), the page's
  aggregate line, sort buttons and choice of body (\<open>FleetPage.tsx\<close>), and what a machine panel
  shows of its GPUs (\<open>FleetMachinePanel.tsx\<close>). \<open>localeCompare\<close> is the browser's
  collation, a parameter whose documented law, a consistent comparison of strings, is
  \<open>collation\<close>.
\<close>

type_synonym collator = "string \<Rightarrow> string \<Rightarrow> int"

definition collation :: "collator \<Rightarrow> bool" where
  "collation lc \<longleftrightarrow>
     (\<forall>a b. sgn (lc a b) = - sgn (lc b a)) \<and> (\<forall>a b c. lc a b \<le> 0 \<longrightarrow> lc b c \<le> 0 \<longrightarrow> lc a c \<le> 0)"

subsection \<open>features/fleet/fleetSort.ts\<close>

fun statusSeverity :: "server_status \<Rightarrow> js_number" where
  "statusSeverity S_Offline = Fin 0"
| "statusSeverity S_Timeout = Fin 1"
| "statusSeverity S_Authentication_failed = Fin 2"
| "statusSeverity S_Host_key_error = Fin 3"
| "statusSeverity S_Reconnecting = Fin 4"
| "statusSeverity S_Connecting = Fin 5"
| "statusSeverity S_Unknown = Fin 6"
| "statusSeverity S_Degraded = Fin 7"
| "statusSeverity S_Online = Fin 8"

definition nameCompare :: "collator \<Rightarrow> fleet_entry js_comparator" where
  "nameCompare lc a b = num_of_int (lc (fle_display_name a) (fle_display_name b))"

definition fleet_delta :: "collator \<Rightarrow> fleet_sort_key \<Rightarrow> fleet_entry js_comparator" where
  "fleet_delta lc key a b =
     (case key of
        Key_Name \<Rightarrow> nameCompare lc a b
      | Key_Status \<Rightarrow> num_minus (statusSeverity (fle_status a)) (statusSeverity (fle_status b))
      | Key_Gpus \<Rightarrow> num_minus (fle_gpu_count a) (fle_gpu_count b))"

text \<open>\<open>delta * sign\<close> with \<open>sign\<close> 1 or -1.\<close>

definition fleet_compare :: "collator \<Rightarrow> fleet_sort \<Rightarrow> fleet_entry js_comparator" where
  "fleet_compare lc fsort a b =
     (let delta = fleet_delta lc (fst_key fsort) a b in
      if delta \<noteq> Fin 0
      then (if fst_direction fsort = Dir_Desc then num_uminus delta else delta)
      else nameCompare lc a b)"

definition sortFleetEntries :: "collator \<Rightarrow> fleet_entry list \<Rightarrow> fleet_sort \<Rightarrow> fleet_entry list" where
  "sortFleetEntries lc xs fsort = js_sort (fleet_compare lc fsort) xs"

subsection \<open>FleetPage.tsx\<close>

fun default_direction :: "fleet_sort_key \<Rightarrow> sort_direction" where
  "default_direction Key_Name = Dir_Asc"
| "default_direction Key_Status = Dir_Asc"
| "default_direction Key_Gpus = Dir_Desc"

text \<open>The click on a sort button.\<close>

definition sort_clicked :: "fleet_sort_key \<Rightarrow> fleet_sort \<Rightarrow> fleet_sort" where
  "sort_clicked key current =
     (if fst_key current = key
      then \<lparr>fst_key = key,
            fst_direction = (if fst_direction current = Dir_Asc then Dir_Desc else Dir_Asc)\<rparr>
      else \<lparr>fst_key = key, fst_direction = default_direction key\<rparr>)"

fun num_plus :: "js_number \<Rightarrow> js_number \<Rightarrow> js_number" where
  "num_plus (Fin p) (Fin q) = Fin (p + q)"
| "num_plus NaN _ = NaN"
| "num_plus _ NaN = NaN"
| "num_plus PosInf NegInf = NaN"
| "num_plus NegInf PosInf = NaN"
| "num_plus PosInf _ = PosInf"
| "num_plus _ PosInf = PosInf"
| "num_plus NegInf _ = NegInf"
| "num_plus _ NegInf = NegInf"

definition aggregate_counts :: "fleet_entry list \<Rightarrow> nat \<times> js_number \<times> js_number" where
  "aggregate_counts es =
     (length (filter (\<lambda>entry. fle_status entry = S_Online) es),
      foldl (\<lambda>sum entry. num_plus sum (fle_gpu_count entry)) (Fin 0) es,
      foldl (\<lambda>sum entry. num_plus sum (fle_gpu_free entry)) (Fin 0) es)"

definition aggregateLine :: "js_runtime \<Rightarrow> dict \<Rightarrow> fleet_entry list \<Rightarrow> string" where
  "aggregateLine rt t es =
     (case aggregate_counts es of
        (online, gpus, free) \<Rightarrow>
          tf (t ''fleet.aggregate'')
            [(''servers'', show_nat (length es)), (''online'', show_nat online),
             (''gpus'', rt_number_string rt gpus), (''free'', rt_number_string rt free)])"

text \<open>
  The page's source and body. \<open>fixtures\<close> is the fixture summary of \<open>data/fixtures.ts\<close>,
  used for the design preview when the store has no summary.
\<close>

datatype fleet_body =
    FbError string
  | FbSkeleton
  | FbEmpty
  | FbPanels "fleet_entry list"

definition fleet_source :: "bool \<Rightarrow> fleet_summary \<Rightarrow> fleet_summary option \<Rightarrow> fleet_summary option" where
  "fleet_source previewing fixtures fleetSummary =
     (if previewing \<and> fleetSummary = None then Some fixtures else fleetSummary)"

definition fleet_page_body :: "collator \<Rightarrow> bool \<Rightarrow> fleet_summary \<Rightarrow> console_state \<Rightarrow> fleet_body" where
  "fleet_page_body lc previewing fixtures st =
     (case fleet_source previewing fixtures (cs_fleetSummary st) of
        None \<Rightarrow>
          (case cs_fleetError st of Some message \<Rightarrow> FbError message | None \<Rightarrow> FbSkeleton)
      | Some source \<Rightarrow>
          if fls_servers source = [] then FbEmpty
          else FbPanels (sortFleetEntries lc (fls_servers source) (cs_fleetSort st)))"

subsection \<open>FleetMachinePanel.tsx\<close>

definition MAX_LANES :: nat where
  "MAX_LANES = 4"

definition UNREACHABLE :: "server_status set" where
  "UNREACHABLE = {S_Offline, S_Timeout, S_Authentication_failed, S_Host_key_error}"

fun num_gt :: "js_number \<Rightarrow> js_number \<Rightarrow> bool" where
  "num_gt x y \<longleftrightarrow> num_le y x \<and> x \<noteq> y"

fun max_disk_loop :: "js_number option \<Rightarrow> storage_mount list \<Rightarrow> js_number option" where
  "max_disk_loop widest [] = widest"
| "max_disk_loop widest (mount # mounts) =
     max_disk_loop
       (case mnt_percent mount of
          None \<Rightarrow> widest
        | Some p \<Rightarrow> (case widest of None \<Rightarrow> Some p | Some m \<Rightarrow> if num_gt p m then Some p else widest))
       mounts"

definition maxDiskPercent :: "server_snapshot option \<Rightarrow> js_number option" where
  "maxDiskPercent snapshot =
     (case snapshot of None \<Rightarrow> None | Some snap \<Rightarrow> max_disk_loop None (snap_storage snap))"

definition fleetGpuToLane :: "fleet_gpu \<Rightarrow> gpu_info" where
  "fleetGpuToLane gpu =
     \<lparr>gpu_index = fgp_index gpu, gpu_uuid = None, gpu_name = None,
      gpu_utilization_percent = fgp_utilization_percent gpu,
      gpu_vram_used_b = fgp_vram_used_b gpu, gpu_vram_total_b = fgp_vram_total_b gpu,
      gpu_vram_percent = None, gpu_temperature_c = fgp_temperature_c gpu,
      gpu_power_watts = fgp_power_watts gpu, gpu_power_limit_watts = fgp_power_limit_watts gpu,
      gpu_fan_percent = None, gpu_availability = fgp_availability gpu,
      gpu_process_count = Fin 0\<rparr>"

text \<open>
  The GPU zone of an enabled machine: its lanes with their owners, and how many are hidden; or
  the counts with the VRAM gauge's numbers when the total is reported; or nothing.
\<close>

definition num_max :: "js_number \<Rightarrow> js_number \<Rightarrow> js_number" where
  "num_max x y = (if x = NaN \<or> y = NaN then NaN else if num_le y x then x else y)"

definition lane_snapshot :: "server_snapshot option \<Rightarrow> server_snapshot option" where
  "lane_snapshot snapshot =
     (case snapshot of Some snap \<Rightarrow> (if snap_gpus snap \<noteq> [] then Some snap else None) | None \<Rightarrow> None)"

definition visible_lanes :: "fleet_entry \<Rightarrow> server_snapshot option \<Rightarrow> (gpu_info \<times> string list) list" where
  "visible_lanes entry snapshot =
     (case lane_snapshot snapshot of
        Some snap \<Rightarrow> map (\<lambda>gpu. (gpu, gpuOwners gpu (snap_gpu_processes snap))) (take MAX_LANES (snap_gpus snap))
      | None \<Rightarrow> map (\<lambda>gpu. (fleetGpuToLane gpu, fgp_users gpu)) (take MAX_LANES (fle_gpus entry)))"

definition lane_count :: "fleet_entry \<Rightarrow> server_snapshot option \<Rightarrow> nat" where
  "lane_count entry snapshot =
     (case lane_snapshot snapshot of
        Some snap \<Rightarrow> length (snap_gpus snap)
      | None \<Rightarrow> length (fle_gpus entry))"

definition hidden_lanes :: "fleet_entry \<Rightarrow> server_snapshot option \<Rightarrow> js_number" where
  "hidden_lanes entry snapshot =
     num_max (Fin 0)
       (num_minus (num_max (fle_gpu_count entry) (num_of_nat (lane_count entry snapshot)))
                  (num_of_nat (length (visible_lanes entry snapshot))))"

datatype gpu_zone =
    GzLanes "(gpu_info \<times> string list) list" js_number
  | GzSummary js_number js_number js_number "(js_number option \<times> js_number) option"
  | GzNone

definition gpu_zone_of :: "fleet_entry \<Rightarrow> server_snapshot option \<Rightarrow> gpu_zone" where
  "gpu_zone_of entry snapshot =
     (if lane_snapshot snapshot \<noteq> None \<or> fle_gpus entry \<noteq> []
      then GzLanes (visible_lanes entry snapshot) (hidden_lanes entry snapshot)
      else if num_gt (fle_gpu_count entry) (Fin 0)
      then GzSummary (fle_gpu_count entry) (fle_gpu_busy entry) (fle_gpu_free entry)
             (map_option (\<lambda>total. (fle_vram_used_b entry, total)) (fle_vram_total_b entry))
      else GzNone)"

text \<open>The dimming of a panel: stale telemetry or a machine that cannot be reached.\<close>

definition panel_dim :: "fleet_entry \<Rightarrow> server_snapshot option \<Rightarrow> bool" where
  "panel_dim entry snapshot \<longleftrightarrow>
     (case snapshot of Some snap \<Rightarrow> snap_stale snap | None \<Rightarrow> False) \<or> fle_status entry \<in> UNREACHABLE"

subsection \<open>The order of the fleet\<close>

lemma num_sign_of_int [simp]: "num_sign (num_of_int i) = sgn i"
  by (simp add: num_of_int_def sgn_if)

lemma sgn_le: "sgn (i :: int) \<le> 0 \<longleftrightarrow> i \<le> 0"
  by (simp add: sgn_if)

lemma nameCompare_consistent: "collation lc \<Longrightarrow> consistent C (nameCompare lc)"
  unfolding consistent_def collation_def nameCompare_def num_sign_of_int sgn_le by blast

lemma severity_finite [simp]: "is_finite (statusSeverity s)"
  by (cases s) auto

lemma wfFleetEntry_count: "wfFleetEntry e \<Longrightarrow> is_finite (fle_gpu_count e)"
  by (auto simp: wfFleetEntry_def)

lemma fleet_delta_consistent:
  assumes "collation lc"
  shows "consistent wfFleetEntry (fleet_delta lc key)"
proof (cases key)
  case Key_Name
  then have "fleet_delta lc key = nameCompare lc" by (simp add: fleet_delta_def fun_eq_iff)
  then show ?thesis using nameCompare_consistent [OF assms] by simp
next
  case Key_Status
  then have "fleet_delta lc key = (\<lambda>a b. num_minus (statusSeverity (fle_status a)) (statusSeverity (fle_status b)))"
    by (simp add: fleet_delta_def fun_eq_iff)
  then show ?thesis using consistent_key [of wfFleetEntry "\<lambda>e. statusSeverity (fle_status e)"] by simp
next
  case Key_Gpus
  then have "fleet_delta lc key = (\<lambda>a b. num_minus (fle_gpu_count a) (fle_gpu_count b))"
    by (simp add: fleet_delta_def fun_eq_iff)
  then show ?thesis using consistent_key [of wfFleetEntry fle_gpu_count] wfFleetEntry_count by simp
qed

lemma num_sign_zero: "is_finite x \<Longrightarrow> num_sign x = 0 \<longleftrightarrow> x = Fin 0"
  by (cases x) auto

lemma fleet_delta_finite: "wfFleetEntry a \<Longrightarrow> wfFleetEntry b \<Longrightarrow> is_finite (fleet_delta lc key a b)"
  using wfFleetEntry_count [of a] wfFleetEntry_count [of b]
    severity_finite [of "fle_status a"] severity_finite [of "fle_status b"]
  by (auto simp: fleet_delta_def nameCompare_def num_of_int_def is_finite_iff
      simp del: severity_finite split: fleet_sort_key.splits)

text \<open>The sign of the comparison: the chosen key, in the chosen direction, then the name.\<close>

definition directed :: "sort_direction \<Rightarrow> 'a js_comparator \<Rightarrow> 'a js_comparator" where
  "directed d cmp a b = (if d = Dir_Desc then num_uminus (cmp a b) else cmp a b)"

lemma directed_consistent: "consistent C cmp \<Longrightarrow> consistent C (directed d cmp)"
  using consistent_uminus [of C cmp] by (cases "d = Dir_Desc") (auto simp: directed_def [abs_def])

lemma fleet_compare_sign:
  assumes "wfFleetEntry a" "wfFleetEntry b"
  shows "num_sign (fleet_compare lc s a b) =
    (if num_sign (directed (fst_direction s) (fleet_delta lc (fst_key s)) a b) \<noteq> 0
     then num_sign (directed (fst_direction s) (fleet_delta lc (fst_key s)) a b)
     else num_sign (nameCompare lc a b))"
  using num_sign_zero [OF fleet_delta_finite [OF assms, of lc "fst_key s"]]
  by (simp add: fleet_compare_def directed_def Let_def)

lemma fleet_compare_consistent:
  "collation lc \<Longrightarrow> consistent wfFleetEntry (fleet_compare lc s)"
  by (rule consistent_lex [OF directed_consistent [OF fleet_delta_consistent] nameCompare_consistent])
    (auto simp: fleet_compare_sign)

interpretation fleet_order: sort_order "fleet_compare lc s" "\<lambda>e. collation lc \<and> wfFleetEntry e" for lc s
proof
  show "consistent (\<lambda>e. collation lc \<and> wfFleetEntry e) (fleet_compare lc s)"
    by (cases "collation lc")
      (use fleet_compare_consistent [of lc s] in \<open>simp_all add: consistent_empty\<close>)
qed

lemma sortFleetEntries_same: "mset (sortFleetEntries lc xs s) = mset xs"
  by (simp add: sortFleetEntries_def)

lemma sortFleetEntries_sorted:
  assumes "collation lc" "list_all wfFleetEntry xs"
  shows "sorted_wrt (\<lambda>a b. num_sign (fleet_compare lc s a b) \<le> 0) (sortFleetEntries lc xs s)"
  using fleet_order.sorted [of xs lc s] assms
  by (simp add: sortFleetEntries_def fleet_order.le_def [abs_def] list_all_iff)

text \<open>Broken machines come first when sorting by status; equals are in name order.\<close>

lemma severity_first:
  assumes "collation lc" "list_all wfFleetEntry xs"
    "ys = sortFleetEntries lc xs \<lparr>fst_key = Key_Status, fst_direction = Dir_Asc\<rparr>" "i < j" "j < length ys"
  shows "num_le (statusSeverity (fle_status (ys ! i))) (statusSeverity (fle_status (ys ! j)))
    \<and> (fle_status (ys ! i) = fle_status (ys ! j) \<longrightarrow> lc (fle_display_name (ys ! i)) (fle_display_name (ys ! j)) \<le> 0)"
proof -
  let ?s = "\<lparr>fst_key = Key_Status, fst_direction = Dir_Asc\<rparr>"
  have "num_sign (fleet_compare lc ?s (ys ! i) (ys ! j)) \<le> 0"
    using sortFleetEntries_sorted [OF assms(1,2), of ?s] assms(3-5) by (simp add: sorted_wrt_iff_nth_less)
  then have le: "num_sign (if num_minus (statusSeverity (fle_status (ys ! i))) (statusSeverity (fle_status (ys ! j))) \<noteq> Fin 0
      then num_minus (statusSeverity (fle_status (ys ! i))) (statusSeverity (fle_status (ys ! j)))
      else nameCompare lc (ys ! i) (ys ! j)) \<le> 0"
    by (simp add: fleet_compare_def fleet_delta_def Let_def cong: if_cong)
  obtain p q where pq: "statusSeverity (fle_status (ys ! i)) = Fin p" "statusSeverity (fle_status (ys ! j)) = Fin q"
    using severity_finite by (metis is_finite_iff)
  show ?thesis
  proof (intro conjI impI)
    show "num_le (statusSeverity (fle_status (ys ! i))) (statusSeverity (fle_status (ys ! j)))"
      using le unfolding pq by (auto split: if_splits)
    assume "fle_status (ys ! i) = fle_status (ys ! j)"
    then show "lc (fle_display_name (ys ! i)) (fle_display_name (ys ! j)) \<le> 0"
      using le pq by (simp add: nameCompare_def sgn_le)
  qed
qed

text \<open>With names that all differ for the collation, the order does not depend on the input's.\<close>

lemma filter_unique: "distinct xs \<Longrightarrow> x \<in> set xs \<Longrightarrow> (\<And>y. y \<in> set xs \<Longrightarrow> P y \<longleftrightarrow> y = x) \<Longrightarrow> filter P xs = [x]"
  by (induction xs) (auto simp: filter_empty_conv)

lemma order_deterministic:
  assumes "collation lc" "list_all wfFleetEntry xs" "distinct xs" "mset ys = mset xs"
    "\<forall>a \<in> set xs. \<forall>b \<in> set xs. lc (fle_display_name a) (fle_display_name b) = 0 \<longrightarrow> a = b"
  shows "sortFleetEntries lc ys s = sortFleetEntries lc xs s"
proof -
  have set: "set ys = set xs" using assms(4) by (metis set_mset_mset)
  have "filter (fleet_order.tied lc s x) zs = [x]" if "x \<in> set xs" "mset zs = mset xs" for x zs
  proof (rule filter_unique)
    show "distinct zs" using assms(3) that(2) by (metis mset_eq_imp_distinct_iff)
    have zs: "set zs = set xs" using that(2) by (metis set_mset_mset)
    then show "x \<in> set zs" using that(1) by simp
    fix y assume "y \<in> set zs"
    then have wf: "wfFleetEntry x" "wfFleetEntry y" "y \<in> set xs" using assms(2) that(1) zs by (auto simp: list_all_iff)
    have "lc (fle_display_name x) (fle_display_name x) = 0"
      using assms(1) unfolding collation_def by (metis add.inverse_neutral eq_neg_iff_add_eq_0 mult_2 sgn_0_0 mult_eq_0_iff zero_neq_numeral)
    then show "fleet_order.tied lc s x y \<longleftrightarrow> y = x"
      using assms(5) that(1) wf fleet_compare_sign [OF wf(1,2), of lc s] fleet_compare_sign [OF wf(1,1), of lc s]
        consistent_sym [OF directed_consistent [OF fleet_delta_consistent [OF assms(1)]] wf(1) wf(1)]
      by (auto simp: fleet_order.tied_def nameCompare_def sgn_eq_0_iff split: if_splits)
  qed
  note one = this
  have "sortFleetEntries lc ys s = js_sort (fleet_compare lc s) xs"
    unfolding sortFleetEntries_def
  proof (rule fleet_order.sort_unique)
    show "\<forall>x \<in> set xs. collation lc \<and> wfFleetEntry x" using assms(1,2) by (simp add: list_all_iff)
    show "mset (js_sort (fleet_compare lc s) ys) = mset xs" using assms(4) by simp
    show "sorted_wrt (fleet_order.le lc s) (js_sort (fleet_compare lc s) ys)"
      using fleet_order.sorted assms(1,2) set by (simp add: list_all_iff)
    show "\<forall>x \<in> set xs. filter (fleet_order.tied lc s x) (js_sort (fleet_compare lc s) ys) =
        filter (fleet_order.tied lc s x) xs"
      using one assms(4) by simp
  qed
  then show ?thesis by (simp add: sortFleetEntries_def)
qed

lemma sort_clicked_twice:
  "fst_key s = key \<Longrightarrow> sort_clicked key (sort_clicked key s) = s"
  by (cases s; cases "fst_direction s") (auto simp: sort_clicked_def)

subsection \<open>The GPU zone\<close>

lemma lane_bound: "length (visible_lanes entry snapshot) = min MAX_LANES (lane_count entry snapshot)"
  by (simp add: visible_lanes_def lane_count_def min.commute split: option.splits)

text \<open>Shown and hidden lanes add up to the reported count, or the lanes at hand if there are more.\<close>

lemma lanes_account:
  assumes "fle_gpu_count entry = num_of_int n"
  shows "num_plus (num_of_nat (length (visible_lanes entry snapshot))) (hidden_lanes entry snapshot)
    = num_of_int (max n (int (lane_count entry snapshot)))"
proof -
  let ?v = "length (visible_lanes entry snapshot)"
  have "?v \<le> lane_count entry snapshot" by (simp add: lane_bound)
  then have "num_max (Fin 0) (num_minus (num_max (num_of_int n) (num_of_nat (lane_count entry snapshot))) (num_of_nat ?v))
      = num_of_int (max n (int (lane_count entry snapshot)) - int ?v)"
    by (auto simp: num_max_def num_of_int_def num_of_nat_def max_def)
  then show ?thesis using assms by (simp add: hidden_lanes_def num_of_int_def num_of_nat_def)
qed

text \<open>The disk chip shows the widest percentage any mount reports.\<close>

definition disk_percents :: "js_number option \<Rightarrow> storage_mount list \<Rightarrow> rat set" where
  "disk_percents w ms = {q. w = Some (Fin q) \<or> (\<exists>m \<in> set ms. mnt_percent m = Some (Fin q))}"

definition is_widest :: "rat set \<Rightarrow> js_number option \<Rightarrow> bool" where
  "is_widest V r \<longleftrightarrow>
     (case r of None \<Rightarrow> V = {} | Some x \<Rightarrow> \<exists>q \<in> V. x = Fin q \<and> (\<forall>p \<in> V. p \<le> q))"

lemma max_disk_loop_widest:
  "\<forall>m \<in> set ms. opt_ok is_finite (mnt_percent m) \<Longrightarrow> opt_ok is_finite w \<Longrightarrow>
   is_widest (disk_percents w ms) (max_disk_loop w ms)"
proof (induction ms arbitrary: w)
  case Nil
  then show ?case by (cases w) (auto simp: is_finite_iff is_widest_def disk_percents_def)
next
  case (Cons m ms)
  show ?case
  proof (cases "mnt_percent m")
    case None
    then have "disk_percents w (m # ms) = disk_percents w ms" by (auto simp: disk_percents_def)
    then show ?thesis using Cons None by simp
  next
    case (Some p)
    then obtain q where q: "p = Fin q" using Cons.prems(1) by (auto simp: is_finite_iff)
    show ?thesis
    proof (cases w)
      case None
      then have "disk_percents w (m # ms) = disk_percents (Some p) ms"
        using Some q by (auto simp: disk_percents_def)
      then show ?thesis using Cons.IH [of "Some p"] Cons.prems Some None by simp
    next
      case (Some u)
      then obtain v where v: "u = Fin v" using Cons.prems(2) by (auto simp: is_finite_iff)
      let ?w = "if num_gt p u then Some p else w"
      have loop: "max_disk_loop w (m # ms) = max_disk_loop ?w ms"
        using \<open>mnt_percent m = Some p\<close> Some by simp
      have "is_widest (disk_percents ?w ms) (max_disk_loop ?w ms)"
        using Cons.IH [of ?w] Cons.prems q by simp
      moreover have in_w: "max v q \<in> disk_percents ?w ms"
        using Some q v by (auto simp: disk_percents_def max_def)
      ultimately obtain r where r: "r \<in> disk_percents ?w ms" "max_disk_loop ?w ms = Some (Fin r)"
        "\<forall>p \<in> disk_percents ?w ms. p \<le> r"
        by (auto simp: is_widest_def split: option.splits)
      have split: "disk_percents w (m # ms) = {v, q} \<union> disk_percents ?w ms"
        using \<open>mnt_percent m = Some p\<close> Some q v by (auto simp: disk_percents_def)
      have "v \<le> r" "q \<le> r" using r(3) in_w by (meson max.bounded_iff)+
      then show ?thesis unfolding loop split r(2) using r by (simp add: is_widest_def)
    qed
  qed
qed

lemma maxDiskPercent_widest:
  "wfServerSnapshot snap \<Longrightarrow>
   is_widest (disk_percents None (snap_storage snap)) (maxDiskPercent (Some snap))"
  unfolding maxDiskPercent_def option.case
  by (rule max_disk_loop_widest)
    (auto simp: wfServerSnapshot_def wfStorageMount_def list_all_iff)

end
