(* ===== verification/Doubles.thy ===== *)
theory Doubles
  imports Prelude "HOL-Library.Log_Nat"
begin

text \<open>
  The two number conversions the forms rely on, as ECMAScript defines them: \<open>Number(s)\<close> of a
  decimal literal rounds its value to the nearest double, ties to even, and \<open>String(x)\<close> is
  the shortest decimal that rounds back to \<open>x\<close>. A number is still its exact rational value;
  \<open>is_double\<close> picks out the rationals that are doubles.
\<close>

subsection \<open>Rounding\<close>

definition round_half_even :: "rat \<Rightarrow> int" where
  "round_half_even q =
     (let f = \<lfloor>q\<rfloor>; d = q - of_int f
      in if d < 1 / 2 then f else if 1 / 2 < d then f + 1 else if even f then f else f + 1)"

text \<open>The exponent \<open>e\<close> with \<open>2 ^ e \<le> q < 2 ^ (e + 1)\<close> of a positive rational.\<close>

definition binary_exponent :: "rat \<Rightarrow> int" where
  "binary_exponent q =
     (let (a, b) = quotient_of q; k = int (floorlog 2 (nat a)) - int (floorlog 2 (nat b))
      in if q < 2 powi k then k - 1 else k)"

definition ulp :: "rat \<Rightarrow> rat" where
  "ulp q = 2 powi (max (binary_exponent q) (- 1022) - 52)"

definition round_double :: "rat \<Rightarrow> js_number" where
  "round_double q =
     (if q = 0 then Fin 0
      else
        (let v = of_int (round_half_even (\<bar>q\<bar> / ulp \<bar>q\<bar>)) * ulp \<bar>q\<bar>
         in if 2 ^ 1024 \<le> v then (if q < 0 then NegInf else PosInf)
            else Fin (if q < 0 then - v else v)))"

fun is_double :: "js_number \<Rightarrow> bool" where
  "is_double (Fin q) = (round_double q = Fin q)"
| "is_double _ = True"

subsection \<open>Number to string\<close>

text \<open>The exponent \<open>n\<close> with \<open>10 ^ (n - 1) \<le> q < 10 ^ n\<close> of a positive rational.\<close>

function leading_zeros :: "rat \<Rightarrow> nat" where
  "leading_zeros q = (if q \<le> 0 \<or> 1 \<le> q then 0 else Suc (leading_zeros (10 * q)))"
  by pat_completeness auto
termination
proof (relation "measure (\<lambda>q. nat \<lceil>1 / q\<rceil>)")
  fix q :: rat
  assume "\<not> (q \<le> 0 \<or> 1 \<le> q)"
  then have q: "0 < q" "q < 1" by auto
  define u where "u = 1 / q"
  have u: "1 < u" using q by (simp add: u_def)
  have "u / 10 \<le> of_int (\<lceil>u\<rceil> - 1)"
  proof (cases "u \<le> 2")
    case True
    have "2 \<le> \<lceil>u\<rceil>" using u by (simp add: le_ceiling_iff)
    then have "(1 :: rat) \<le> of_int (\<lceil>u\<rceil> - 1)" by simp
    then show ?thesis using True by linarith
  next
    case False
    then show ?thesis using le_of_int_ceiling [of u] unfolding of_int_diff of_int_1 by linarith
  qed
  then have "\<lceil>u / 10\<rceil> \<le> \<lceil>u\<rceil> - 1" by (simp only: ceiling_le_iff)
  moreover have "1 / (10 * q) = u / 10" by (simp add: u_def)
  moreover have "0 < \<lceil>u\<rceil>" using u by simp
  ultimately show "(10 * q, q) \<in> measure (\<lambda>q. nat \<lceil>1 / q\<rceil>)" by (simp only: in_measure u_def)
qed simp

declare leading_zeros.simps [simp del]

definition decimal_exponent :: "rat \<Rightarrow> int" where
  "decimal_exponent q =
     (if 1 \<le> q then int (length (show_nat (nat \<lfloor>q\<rfloor>))) else 1 - int (leading_zeros q))"

text \<open>
  A decimal \<open>(s, n, k)\<close> stands for \<open>s * 10 ^ (n - k)\<close>, with \<open>k\<close> digits in \<open>s\<close>. The
  candidates with \<open>k\<close> digits are the neighbours of \<open>q\<close>, the closest first; a neighbour that
  reaches \<open>10 ^ k\<close> is not one, it has a shorter form.
\<close>

type_synonym decimal = "nat \<times> int \<times> nat"

definition decimal_value :: "decimal \<Rightarrow> rat" where
  "decimal_value d = (case d of (s, n, k) \<Rightarrow> of_nat s * 10 powi (n - int k))"

definition decimal_candidates :: "rat \<Rightarrow> nat \<Rightarrow> decimal list" where
  "decimal_candidates q k =
     (let n = decimal_exponent q;
          x = q / 10 powi (n - int k);
          c = round_half_even x;
          other = (if of_int c \<le> x then c + 1 else c - 1)
      in map (\<lambda>s. (nat s, n, k)) (filter (\<lambda>s. 10 ^ (k - 1) \<le> s \<and> s < 10 ^ k) [c, other]))"

fun shortest_decimal :: "rat \<Rightarrow> nat list \<Rightarrow> decimal option" where
  "shortest_decimal q [] = None"
| "shortest_decimal q (k # ks) =
     (case find (\<lambda>d. round_double (decimal_value d) = Fin q) (decimal_candidates q k) of
        Some d \<Rightarrow> Some d
      | None \<Rightarrow> shortest_decimal q ks)"

definition zeros :: "nat \<Rightarrow> string" where
  "zeros n = replicate n (CHR ''0'')"

text \<open>The layout of \<open>Number::toString\<close>.\<close>

definition decimal_string :: "decimal \<Rightarrow> string" where
  "decimal_string d =
     (case d of (s, n, k) \<Rightarrow>
        let digits = show_nat s
        in if int k \<le> n \<and> n \<le> 21 then digits @ zeros (nat n - k)
           else if 0 < n \<and> n \<le> 21 then take (nat n) digits @ ''.'' @ drop (nat n) digits
           else if - 6 < n \<and> n \<le> 0 then ''0.'' @ zeros (nat (- n)) @ digits
           else
             (let e = n - 1; sgn = (if e < 0 then ''-'' else ''+'')
              in (if k = 1 then digits else take 1 digits @ ''.'' @ drop 1 digits)
                 @ ''e'' @ sgn @ show_nat (nat \<bar>e\<bar>)))"

text \<open>Every double has a decimal of at most 17 digits; the search may go on to 60.\<close>

definition positive_string :: "rat \<Rightarrow> string" where
  "positive_string q =
     (case shortest_decimal q [1..<60] of Some d \<Rightarrow> decimal_string d | None \<Rightarrow> ''NaN'')"

fun number_string :: "js_number \<Rightarrow> string" where
  "number_string NaN = ''NaN''"
| "number_string PosInf = ''Infinity''"
| "number_string NegInf = ''-Infinity''"
| "number_string (Fin q) =
     (if q = 0 then ''0'' else if q < 0 then ''-'' @ positive_string (- q) else positive_string q)"

subsection \<open>String to number\<close>

text \<open>\<open>Number(s)\<close> of \<open>digits\<close> or \<open>digits.digits\<close>, the literals the forms let through.\<close>

definition literal_value :: "string \<Rightarrow> rat" where
  "literal_value s =
     (let whole = takeWhile is_digit s; fraction = drop (length whole + 1) s
      in of_nat (parse_nat (whole @ fraction)) / 10 ^ length fraction)"

definition number_of_literal :: "string \<Rightarrow> js_number" where
  "number_of_literal s = round_double (literal_value s)"

subsection \<open>Reading back what was printed\<close>

lemma round_half_even_of_int [simp]: "round_half_even (of_int i) = i"
  by (simp add: round_half_even_def)

lemma parse_nat_append: "parse_nat (a @ b) = parse_nat a * 10 ^ length b + parse_nat b"
proof (induction b rule: rev_induct)
  case (snoc c b)
  then show ?case by (simp add: parse_nat_def algebra_simps flip: append_assoc)
qed (simp add: parse_nat_def)

lemma parse_nat_zeros [simp]: "parse_nat (zeros n) = 0"
proof (induction n)
  case (Suc n)
  have "zeros (Suc n) = ''0'' @ zeros n" by (simp add: zeros_def)
  moreover have "parse_nat ''0'' = 0" by (simp add: parse_nat_def digit_value_def)
  ultimately show ?case using Suc by (simp only: parse_nat_append)
qed (simp add: parse_nat_def zeros_def)

lemma zeros_digits [simp]: "list_all is_digit (zeros n)" "length (zeros n) = n"
  by (simp_all add: zeros_def is_digit_def list_all_iff)

lemma length_show_nat: "0 < n \<Longrightarrow> 10 ^ (length (show_nat n) - 1) \<le> n \<and> n < 10 ^ length (show_nat n)"
proof (induction n rule: show_nat.induct)
  case (1 n)
  show ?case
  proof (cases "n < 10")
    case True
    then show ?thesis using 1 by (subst (1 2) show_nat.simps) simp
  next
    case False
    define m where "m = n div 10"
    have m: "10 ^ (length (show_nat m) - 1) \<le> m" "m < 10 ^ length (show_nat m)"
      using 1 False by (auto simp: m_def)
    have len: "length (show_nat n) = Suc (length (show_nat m))"
      using False by (subst show_nat.simps) (simp add: m_def)
    have "0 < length (show_nat m)" by simp
    then have "10 ^ length (show_nat m) = 10 * (10 :: nat) ^ (length (show_nat m) - 1)"
      by (cases "length (show_nat m)") auto
    then show ?thesis using m len unfolding m_def by simp linarith
  qed
qed

lemma length_show_nat_eq: "10 ^ (k - 1) \<le> n \<Longrightarrow> n < 10 ^ k \<Longrightarrow> 0 < k \<Longrightarrow> length (show_nat n) = k"
proof -
  assume n: "10 ^ (k - 1) \<le> n" "n < 10 ^ k" "0 < k"
  let ?l = "length (show_nat n)"
  have "0 < n" using n(1) by (meson less_le_trans zero_less_numeral zero_less_power)
  then have l: "10 ^ (?l - 1) \<le> n" "n < 10 ^ ?l" using length_show_nat by auto
  have "k - 1 < ?l" using n(1) l(2) by (meson le_less_trans nat_power_less_imp_less zero_less_numeral)
  moreover have "?l - 1 < k" using n(2) l(1) by (meson le_less_trans nat_power_less_imp_less zero_less_numeral)
  moreover have "0 < ?l" by simp
  ultimately show ?thesis using n(3) by linarith
qed

lemma binary_exponent_upper:
  assumes "0 < q" shows "q < 2 powi (binary_exponent q + 1)"
proof -
  obtain a b where ab: "quotient_of q = (a, b)" by fastforce
  have b: "0 < b" using quotient_of_denom_pos [OF ab] .
  have q: "q = of_int a / of_int b" using quotient_of_div [OF ab] .
  have a: "0 < a" using assms b q by (simp add: zero_less_divide_iff)
  let ?i = "floorlog 2 (nat a)" and ?j = "floorlog 2 (nat b)"
  have "nat a < 2 ^ ?i" using floorlog_bounds [of "nat a" 2] a by simp
  then have "a < 2 ^ ?i" using a by (metis nat_less_iff of_nat_numeral of_nat_power order_less_imp_le)
  then have A: "(of_int a :: rat) < 2 ^ ?i" by (metis of_int_less_iff of_int_numeral of_int_power)
  have "2 ^ (?j - 1) \<le> nat b" using floorlog_bounds [of "nat b" 2] b by simp
  then have "2 ^ (?j - 1) \<le> b" using b by (simp add: le_nat_iff)
  then have B: "2 ^ (?j - 1) \<le> (of_int b :: rat)" by (metis of_int_le_iff of_int_numeral of_int_power)
  have j: "0 < ?j" using b by (simp add: floorlog_eq_zero_iff flip: neq0_conv)
  have pos: "(0 :: rat) < of_int b" using b by simp
  have "2 powi (int ?i - int ?j + 1) * 2 ^ (?j - 1) = (2 :: rat) ^ ?i"
  proof -
    have "(2 :: rat) ^ (?j - 1) = 2 powi (int ?j - 1)" using j by (simp add: power_int_def nat_diff_distrib)
    then have "2 powi (int ?i - int ?j + 1) * 2 ^ (?j - 1) = (2 :: rat) powi (int ?i)"
      by (simp flip: power_int_add)
    then show ?thesis by simp
  qed
  moreover have "2 powi (int ?i - int ?j + 1) * 2 ^ (?j - 1) \<le> 2 powi (int ?i - int ?j + 1) * (of_int b :: rat)"
    using B by (intro mult_left_mono) simp_all
  ultimately have "of_int a < 2 powi (int ?i - int ?j + 1) * (of_int b :: rat)" using A by (simp only: order_less_le_trans)
  then have "q < 2 powi (int ?i - int ?j + 1)" using pos unfolding q by (simp add: pos_divide_less_eq)
  then show ?thesis by (simp add: binary_exponent_def ab Let_def)
qed

lemma shortest_decimal_sound:
  "shortest_decimal q ks = Some d \<Longrightarrow>
     round_double (decimal_value d) = Fin q \<and> (\<exists>k\<in>set ks. d \<in> set (decimal_candidates q k))"
  by (induction ks) (auto simp: find_Some_iff split: option.splits)

lemma shortest_decimal_found:
  "k \<in> set ks \<Longrightarrow> d \<in> set (decimal_candidates q k) \<Longrightarrow> round_double (decimal_value d) = Fin q \<Longrightarrow>
     shortest_decimal q ks \<noteq> None"
  by (cases d, induction ks) (auto simp: find_None_iff split: option.splits)

lemma decimal_candidate:
  "(s, n, j) \<in> set (decimal_candidates q k) \<Longrightarrow> 0 < k \<Longrightarrow>
     n = decimal_exponent q \<and> j = k \<and> length (show_nat s) = k"
proof -
  assume d: "(s, n, j) \<in> set (decimal_candidates q k)" and k: "0 < k"
  then obtain i :: int where i: "s = nat i" "10 ^ (k - 1) \<le> i" "i < 10 ^ k"
    and n: "n = decimal_exponent q" "j = k"
    by (auto simp: decimal_candidates_def Let_def split: if_splits)
  have "(10 :: int) ^ (k - 1) = int (10 ^ (k - 1))" "(10 :: int) ^ k = int (10 ^ k)" by simp_all
  then have "10 ^ (k - 1) \<le> s" "s < 10 ^ k" using i by (simp_all add: le_nat_iff nat_less_iff)
  then show ?thesis using length_show_nat_eq n k by blast
qed

text \<open>In the range the forms accept a double is a multiple of \<open>10 ^ -53\<close>.\<close>

lemma double_multiple:
  assumes "round_double q = Fin q" "1 / 2 \<le> q" shows "\<exists>i :: int. q * 10 ^ 53 = of_int i"
proof -
  define e where "e = binary_exponent q"
  have "1 / 2 < (2 :: rat) powi (e + 1)" using binary_exponent_upper [of q] assms(2) by (simp add: e_def)
  then have "(2 :: rat) powi (- 1) < 2 powi (e + 1)" by (simp add: power_int_minus)
  then have e: "- 1 \<le> e" using power_int_increasing [of "e + 1" "- 1" "2 :: rat"] by linarith
  have ulp: "ulp q = 2 powi (e - 52)" using e by (simp add: ulp_def e_def)
  define m where "m = round_half_even (q / ulp q)"
  have "q = of_int m * ulp q"
    using assms by (auto simp: round_double_def m_def Let_def split: if_splits)
  then have "q * 2 ^ 53 = of_int m * (2 powi (e - 52) * 2 powi 53)" by (simp add: ulp)
  also have "2 powi (e - 52) * 2 powi 53 = (2 :: rat) powi (e - 52 + 53)"
    by (rule power_int_add [symmetric]) simp
  also have "e - 52 + 53 = e + 1" by simp
  also have "(2 :: rat) powi (e + 1) = of_int (2 ^ nat (e + 1))" using e by (simp add: power_int_def)
  finally have "q * 2 ^ 53 = of_int (m * 2 ^ nat (e + 1))" by simp
  moreover have "(10 :: rat) ^ 53 = 2 ^ 53 * of_int (5 ^ 53)" by simp
  ultimately have "q * 10 ^ 53 = of_int (m * 2 ^ nat (e + 1) * 5 ^ 53)"
    by (simp only: of_int_mult mult.assoc [symmetric])
  then show ?thesis by blast
qed

lemma decimal_exponent_range:
  assumes "1 / 2 \<le> q" "q \<le> 600"
  shows "decimal_exponent q \<in> {0..3}" "10 powi (decimal_exponent q - 1) \<le> q" "q < 10 powi decimal_exponent q"
proof -
  have *: "decimal_exponent q \<in> {0..3} \<and> 10 powi (decimal_exponent q - 1) \<le> q \<and> q < 10 powi decimal_exponent q"
  proof (cases "1 \<le> q")
    case False
    have "leading_zeros (10 * q) = 0" using assms by (subst leading_zeros.simps) simp
    moreover have "leading_zeros q = Suc (leading_zeros (10 * q))"
      using assms False by (subst leading_zeros.simps) simp
    ultimately have "decimal_exponent q = 0" using False by (simp add: decimal_exponent_def)
    then show ?thesis using assms False by (simp add: power_int_minus)
  next
    case True
    define n where "n = nat \<lfloor>q\<rfloor>"
    define l where "l = length (show_nat n)"
    have "1 \<le> \<lfloor>q\<rfloor>" "\<lfloor>q\<rfloor> \<le> 600" using True assms by (simp_all add: le_floor_iff floor_le_iff)
    then have n: "0 < n" "n \<le> 600" "of_nat n = (of_int \<lfloor>q\<rfloor> :: rat)" unfolding n_def by linarith+
    have l: "10 ^ (l - 1) \<le> n" "n < 10 ^ l" using length_show_nat [of n] n by (auto simp: l_def)
    have pos: "0 < l" by (simp add: l_def)
    have "(10 :: nat) ^ (l - 1) < 10 ^ 3" using l n by simp
    then have "l - 1 < 3" by (rule power_less_imp_less_exp [rotated]) simp
    then have l3: "l \<le> 3" by simp
    have "10 ^ (l - 1) \<le> (of_nat n :: rat)"
      using l(1) by (metis of_nat_le_iff of_nat_numeral of_nat_power)
    moreover have "of_nat n + 1 \<le> (10 ^ l :: rat)"
      using l(2) by (metis Suc_leI of_nat_Suc of_nat_le_iff of_nat_numeral of_nat_power add.commute)
    ultimately have "10 ^ (l - 1) \<le> q" "q < 10 ^ l" using n(3) by linarith+
    moreover have "decimal_exponent q = int l" using True by (simp add: decimal_exponent_def l_def n_def)
    moreover have "(10 :: rat) powi (int l - 1) = 10 ^ (l - 1)" using pos by (simp add: power_int_def nat_diff_distrib)
    ultimately show ?thesis using l3 pos by simp
  qed
  then show "decimal_exponent q \<in> {0..3}" "10 powi (decimal_exponent q - 1) \<le> q" "q < 10 powi decimal_exponent q"
    by auto
qed

lemma shortest_decimal_exists:
  assumes "round_double q = Fin q" "1 / 2 \<le> q" "q \<le> 600"
  obtains s n k where "shortest_decimal q [1..<60] = Some (s, n, k)" "0 \<le> n" "n \<le> 3" "0 < k"
    "length (show_nat s) = k" "round_double (decimal_value (s, n, k)) = Fin q"
proof -
  define n where "n = decimal_exponent q"
  define k where "k = nat n + 53"
  obtain i where i: "q * 10 ^ 53 = of_int i" using double_multiple assms by blast
  have n: "0 \<le> n" "n \<le> 3" "10 powi (n - 1) \<le> q" "q < 10 powi n"
    using decimal_exponent_range [OF assms(2,3)] by (simp_all add: n_def)
  have k: "k \<in> set [1..<60]" "0 < k" "n - int k = - 53" using n by (auto simp: k_def)
  have p: "(10 :: rat) powi (n - int k) = 1 / 10 ^ 53"
    by (simp only: k(3) power_int_minus power_int_numeral inverse_eq_divide)
  have x: "q / 10 powi (n - int k) = of_int i" by (simp only: p divide_divide_eq_right i div_by_1)
  have "(10 :: rat) powi (n - 1) * 10 ^ 53 = 10 ^ (k - 1)"
  proof -
    have "(10 :: rat) powi (n - 1) * 10 powi 53 = 10 powi (n - 1 + 53)"
      by (rule power_int_add [symmetric]) simp
    also have "n - 1 + 53 = int (k - 1)" using n by (simp add: k_def)
    finally show ?thesis by (simp only: power_int_numeral power_int_of_nat)
  qed
  moreover have "10 powi n * 10 ^ 53 = (10 :: rat) ^ k"
    using n(1) by (simp only: k_def power_int_def power_add if_True)
  ultimately have "(of_int (10 ^ (k - 1)) :: rat) \<le> of_int i" "(of_int i :: rat) < of_int (10 ^ k)"
    using mult_right_mono [OF n(3), of "10 ^ 53"] mult_strict_right_mono [OF n(4), of "10 ^ 53"]
    by (simp_all only: i of_int_power of_int_numeral zero_le_power zero_less_power zero_le_numeral
          zero_less_numeral simp_thms)
  then have b: "10 ^ (k - 1) \<le> i" "i < 10 ^ k" by (simp_all only: of_int_le_iff of_int_less_iff)
  have cand: "(nat i, n, k) \<in> set (decimal_candidates q k)"
    using b by (simp add: decimal_candidates_def Let_def x flip: n_def)
  have "0 \<le> i" using b(1) by (meson order_trans zero_le_numeral zero_le_power)
  moreover have "q = of_int i * 10 powi (n - int k)"
    by (simp only: p i [symmetric] mult.assoc) simp
  ultimately have "decimal_value (nat i, n, k) = q" by (simp add: decimal_value_def)
  then obtain d where d: "shortest_decimal q [1..<60] = Some d"
    using shortest_decimal_found [OF k(1) cand] assms(1) by auto
  obtain s n' k' where dd: "d = (s, n', k')" by (cases d)
  note sound = shortest_decimal_sound [OF d]
  then obtain j where "j \<in> set [1..<60]" "d \<in> set (decimal_candidates q j)" by blast
  then have "n' = n" "0 < k'" "length (show_nat s) = k'"
    using decimal_candidate [of s n' k' q j] by (auto simp: dd n_def)
  then show thesis using that [of s n' k'] d sound n by (simp add: dd)
qed

lemma digits_stop: "list_all is_digit a \<Longrightarrow> takeWhile is_digit (a @ CHR ''.'' # b) = a"
  by (subst takeWhile_append2) (auto simp: list_all_iff is_digit_def)

lemma digits_all: "list_all is_digit a \<Longrightarrow> takeWhile is_digit a = a"
  by (simp add: list_all_iff takeWhile_eq_all_conv)

text \<open>The text of a number between 1/2 and 600: digits, or digits around a point.\<close>

lemma decimal_string_literal:
  assumes "length (show_nat s) = k" "0 < k" "0 \<le> n" "n \<le> 21"
  obtains a b where "list_all is_digit a" "list_all is_digit b" "a \<noteq> []"
    "decimal_string (s, n, k) = (if b = [] then a else a @ ''.'' @ b)"
    "of_nat (parse_nat (a @ b)) / 10 ^ length b = decimal_value (s, n, k)"
proof -
  let ?d = "show_nat s"
  have digits: "list_all is_digit ?d" by (rule show_nat_digits)
  consider (whole) "int k \<le> n" | (point) "0 < n" "n < int k" | (small) "n = 0" using assms by linarith
  then show thesis
  proof cases
    case whole
    define j where "j = nat n - k"
    have j: "n = int k + int j" using whole by (simp add: j_def)
    then show thesis
      using that [of "?d @ zeros j" "[]"] digits whole assms
      by (simp add: decimal_string_def decimal_value_def parse_nat_append Let_def nat_add_distrib)
  next
    case point
    define m where "m = nat n"
    have m: "n = int m" "0 < m" "m < k" using point by (simp_all add: m_def)
    have "int m - int k = - int (k - m)" using m by simp
    then have ten: "(10 :: rat) powi (n - int k) = 1 / 10 ^ (k - m)"
      by (simp only: m(1) power_int_minus power_int_of_nat inverse_eq_divide)
    have nonempty: "take m ?d \<noteq> []" "drop m ?d \<noteq> []" using m assms(1) by auto
    have "\<not> int k \<le> n" "0 < n" "nat n = m" using m by simp_all
    then have "decimal_string (s, n, k) = take m ?d @ ''.'' @ drop m ?d"
      using assms(4) by (simp only: decimal_string_def Let_def prod.case simp_thms if_False if_True)
    then have shown: "decimal_string (s, n, k) =
        (if drop m ?d = [] then take m ?d else take m ?d @ ''.'' @ drop m ?d)"
      by (simp only: nonempty if_False)
    have val: "of_nat (parse_nat (take m ?d @ drop m ?d)) / 10 ^ length (drop m ?d)
        = decimal_value (s, n, k)"
      using assms(1) by (simp add: decimal_value_def ten)
    have "list_all is_digit (take m ?d @ drop m ?d)" by (simp only: append_take_drop_id digits)
    then have "list_all is_digit (take m ?d)" "list_all is_digit (drop m ?d)"
      by (simp_all only: list_all_append)
    then show thesis by (rule that [OF _ _ nonempty(1) shown val])
  next
    case small
    have "(10 :: rat) powi (- int k) = 1 / 10 ^ k" by (simp add: power_int_minus divide_inverse)
    moreover have "parse_nat (CHR ''0'' # ?d) = s"
    proof -
      have "parse_nat ''0'' = 0" by (simp add: parse_nat_def digit_value_def)
      then show ?thesis using parse_nat_append [of "''0''" ?d] by simp
    qed
    ultimately show thesis
      using that [of "''0''" ?d] digits small assms
      by (simp add: decimal_string_def decimal_value_def Let_def zeros_def is_digit_def)
  qed
qed

lemma literal_value_digits:
  "list_all is_digit a \<Longrightarrow> literal_value (if b = [] then a else a @ ''.'' @ b) =
     of_nat (parse_nat (a @ b)) / 10 ^ length b"
  by (simp add: literal_value_def digits_stop digits_all)

text \<open>\<open>Number(String(x)) === x\<close> in that range, with the shape the form's pattern expects.\<close>

lemma number_string_roundtrip:
  assumes "is_double (Fin q)" "1 / 2 \<le> q" "q \<le> 600"
  obtains a b where "list_all is_digit a" "list_all is_digit b" "a \<noteq> []"
    "number_string (Fin q) = (if b = [] then a else a @ ''.'' @ b)"
    "number_of_literal (number_string (Fin q)) = Fin q"
proof -
  obtain s n k where d: "shortest_decimal q [1..<60] = Some (s, n, k)" "0 \<le> n" "n \<le> 3" "0 < k"
    "length (show_nat s) = k" "round_double (decimal_value (s, n, k)) = Fin q"
    using shortest_decimal_exists [of q] assms by auto
  have printed: "number_string (Fin q) = decimal_string (s, n, k)"
    using assms d(1) by (simp add: positive_string_def)
  have n21: "n \<le> 21" using d(3) by simp
  obtain a b where ab: "list_all is_digit a" "list_all is_digit b" "a \<noteq> []"
    "decimal_string (s, n, k) = (if b = [] then a else a @ ''.'' @ b)"
    "of_nat (parse_nat (a @ b)) / 10 ^ length b = decimal_value (s, n, k)"
    by (rule decimal_string_literal [OF d(5,4,2) n21])
  have again: "number_of_literal (number_string (Fin q)) = Fin q"
    unfolding number_of_literal_def printed ab(4) literal_value_digits [OF ab(1)] ab(5) by (rule d(6))
  show thesis by (rule that [OF ab(1-3) _ again]) (simp only: printed ab(4))
qed

subsection \<open>Integers\<close>

lemma binary_exponent_of_nat: "0 < m \<Longrightarrow> binary_exponent (of_nat m) = int (floorlog 2 m) - 1"
proof -
  assume m: "0 < m"
  have "quotient_of (of_nat m) = (int m, 1)" using quotient_of_int [of "int m"] by (simp add: of_int_def)
  moreover have "floorlog 2 (nat 1) = 1" by (simp add: compute_floorlog)
  moreover have "\<not> (of_nat m :: rat) < 2 powi (int (floorlog 2 m) - 1)"
  proof -
    have "(2 :: nat) ^ (floorlog 2 m - 1) \<le> m" using floorlog_bounds [of m 2] m by simp
    then have "(2 :: rat) ^ (floorlog 2 m - 1) \<le> of_nat m"
      by (metis of_nat_le_iff of_nat_numeral of_nat_power)
    moreover have "0 < floorlog 2 m" using m by (simp add: floorlog_eq_zero_iff flip: neq0_conv)
    then have "int (floorlog 2 m) - 1 = int (floorlog 2 m - 1)" by simp
    ultimately show ?thesis by (simp only: power_int_of_nat not_less)
  qed
  ultimately show ?thesis by (simp add: binary_exponent_def Let_def)
qed

lemma round_double_of_nat:
  assumes "0 < m" "m < 10 ^ 15" shows "round_double (of_nat m) = Fin (of_nat m)"
proof -
  let ?l = "floorlog 2 m"
  have "?l \<le> 53" by (rule floorlog_leI) (use assms in simp_all)
  moreover have "0 < ?l" using assms by (simp add: floorlog_eq_zero_iff flip: neq0_conv)
  ultimately have "ulp (of_nat m) = 2 powi (- int (53 - ?l))"
    using assms by (simp add: ulp_def binary_exponent_of_nat)
  then have ulp: "ulp (of_nat m) = 1 / of_int (2 ^ (53 - ?l))"
    by (simp only: power_int_minus power_int_of_nat inverse_eq_divide of_int_power of_int_numeral)
  have "of_nat m / ulp (of_nat m) = (of_int (int m * 2 ^ (53 - ?l)) :: rat)" by (simp add: ulp)
  then have "round_half_even (of_nat m / ulp (of_nat m)) = int m * 2 ^ (53 - ?l)"
    by (simp only: round_half_even_of_int)
  moreover have "of_int (int m * 2 ^ (53 - ?l)) * ulp (of_nat m) = (of_nat m :: rat)" by (simp add: ulp)
  moreover have "(of_nat m :: rat) < 2 ^ 1024"
  proof -
    have "m < 2 ^ 1024" using assms(2) by (rule less_trans) simp
    then show ?thesis by (metis of_nat_less_iff of_nat_numeral of_nat_power)
  qed
  ultimately show ?thesis using assms(1) by (simp only: round_double_def abs_of_nat Let_def not_le [symmetric]) simp
qed

lemma shortest_decimal_least:
  "sorted ks \<Longrightarrow> k \<in> set ks \<Longrightarrow> d \<in> set (decimal_candidates q k) \<Longrightarrow>
     round_double (decimal_value d) = Fin q \<Longrightarrow>
     \<exists>d' j. shortest_decimal q ks = Some d' \<and> d' \<in> set (decimal_candidates q j) \<and> j \<in> set ks \<and> j \<le> k"
proof (induction ks)
  case (Cons j ks)
  show ?case
  proof (cases "find (\<lambda>d. round_double (decimal_value d) = Fin q) (decimal_candidates q j)")
    case None
    then have "k \<noteq> j" using Cons.prems by (cases d) (auto simp: find_None_iff)
    then show ?thesis using Cons None by auto
  next
    case (Some d')
    then have "d' \<in> set (decimal_candidates q j)" by (auto simp: find_Some_iff)
    then show ?thesis using Some Cons.prems by auto
  qed
qed simp

lemma integer_string:
  assumes "0 < m" "m < 10 ^ 15"
  obtains a where "list_all is_digit a" "a \<noteq> []" "number_string (num_of_nat m) = a" "parse_nat a = m"
proof -
  define k where "k = length (show_nat m)"
  let ?q = "of_nat m :: rat"
  have len: "10 ^ (k - 1) \<le> m" "m < 10 ^ k" using length_show_nat assms(1) by (auto simp: k_def)
  have k: "0 < k" by (simp add: k_def)
  have "(10 :: nat) ^ (k - 1) < 10 ^ 15" using len assms by simp
  then have "k - 1 < 15" by (rule power_less_imp_less_exp [rotated]) simp
  then have k15: "k \<le> 15" by simp
  have n: "decimal_exponent ?q = int k" using assms(1) by (simp add: decimal_exponent_def k_def)
  have i: "(10 :: int) ^ (k - 1) \<le> int m" "int m < 10 ^ k"
    using len by (metis of_nat_le_iff of_nat_less_iff of_nat_numeral of_nat_power)+
  have "(m, int k, k) \<in> set (decimal_candidates ?q k)"
    using i round_half_even_of_int [of "int m"] by (simp add: decimal_candidates_def n Let_def)
  moreover have "round_double (decimal_value (m, int k, k)) = Fin ?q"
    by (simp add: decimal_value_def round_double_of_nat [OF assms])
  moreover have "k \<in> set [1..<60]" using k k15 by simp
  ultimately obtain d j where d: "shortest_decimal ?q [1..<60] = Some d"
    and j: "d \<in> set (decimal_candidates ?q j)" "j \<in> set [1..<60]" "j \<le> k"
    using shortest_decimal_least [of "[1..<60]" k] sorted_upt by blast
  obtain s n' j' where dd: "d = (s, n', j')" by (cases d)
  have s: "n' = int k" "j' = j" "length (show_nat s) = j" "0 < j"
    using decimal_candidate [of s n' j' ?q j] j n by (auto simp: dd)
  define a where "a = show_nat s @ zeros (k - j)"
  have a: "list_all is_digit a" "a \<noteq> []" "parse_nat a = s * 10 ^ (k - j)"
    by (simp_all add: a_def show_nat_digits parse_nat_append)
  have "decimal_value d = of_nat (parse_nat a)"
    using j(3) by (simp add: dd s decimal_value_def a power_int_def nat_diff_distrib)
  then have fin: "round_double (of_nat (parse_nat a)) = Fin ?q" using shortest_decimal_sound [OF d] by simp
  have "parse_nat a < 10 ^ 15"
  proof -
    have "s < 10 ^ j"
    proof (cases "s = 0")
      case False then show ?thesis using length_show_nat [of s] s(3) by simp
    qed simp
    then have "s * 10 ^ (k - j) < 10 ^ j * 10 ^ (k - j)" by simp
    also have "\<dots> = 10 ^ k" using j(3) by (simp flip: power_add)
    also have "\<dots> \<le> (10 :: nat) ^ 15" using k15 by (rule power_increasing) simp
    finally show ?thesis by (simp add: a)
  qed
  moreover have "0 < parse_nat a"
    using fin assms(1) by (cases "parse_nat a = 0") (auto simp: round_double_def)
  ultimately have "parse_nat a = m" using fin round_double_of_nat [of "parse_nat a"] by simp
  moreover have "number_string (num_of_nat m) = a"
    using assms(1) d j(3) k15 by (simp add: num_of_nat_def positive_string_def dd s decimal_string_def a_def Let_def)
  ultimately show thesis using that a by blast
qed

end
