(* ===== verification/NumberInput.thy ===== *)
theory NumberInput
  imports Doubles Json
begin

text \<open>
  The number fields of the forms, \<open><input type="number">\<close> in a form without \<open>noValidate\<close>. The browser
  only ever hands the code a valid floating-point number of the HTML grammar, or the empty text; and
  it sends the submit event only while the value of each field is within its bounds and on its steps.
  A text that is no number reads as the empty one; that the browser then holds back the submission
  until it is corrected is not modelled.
\<close>

subsection \<open>The value of a field\<close>

text \<open>Digits, possibly none, an optional point, then digits.\<close>

definition decimal_literal :: "string \<Rightarrow> bool" where
  "decimal_literal s \<longleftrightarrow>
     (let whole = takeWhile is_digit s
      in case drop (length whole) s of
           [] \<Rightarrow> whole \<noteq> []
         | c # rest \<Rightarrow> c = CHR ''.'' \<and> rest \<noteq> [] \<and> list_all is_digit rest)"

definition exponent_mark :: "char \<Rightarrow> bool" where
  "exponent_mark c \<longleftrightarrow> c = CHR ''e'' \<or> c = CHR ''E''"

fun exponent_value :: "string \<Rightarrow> int option" where
  "exponent_value [] = Some 0"
| "exponent_value (c # s) =
     (let digits = (case s of d # t \<Rightarrow> if d = CHR ''-'' \<or> d = CHR ''+'' then t else s | [] \<Rightarrow> s);
          sgn = (case s of d # _ \<Rightarrow> if d = CHR ''-'' then - 1 else 1 | [] \<Rightarrow> 1)
      in if digits \<noteq> [] \<and> list_all is_digit digits then Some (sgn * int (parse_nat digits)) else None)"

definition html_number :: "string \<Rightarrow> js_number option" where
  "html_number raw =
     (let negative = (case raw of c # _ \<Rightarrow> c = CHR ''-'' | [] \<Rightarrow> False);
          s = (if negative then tl raw else raw);
          mantissa = takeWhile (\<lambda>c. \<not> exponent_mark c) s
      in if \<not> decimal_literal mantissa then None
         else case exponent_value (drop (length mantissa) s) of
                None \<Rightarrow> None
              | Some e \<Rightarrow>
                  (case round_double ((if negative then - 1 else 1) * literal_value mantissa * 10 powi e) of
                     Fin q \<Rightarrow> Some (Fin q)
                   | _ \<Rightarrow> None))"

text \<open>The texts the field hands to the code.\<close>

definition number_text :: "string \<Rightarrow> bool" where
  "number_text raw \<longleftrightarrow> raw = '''' \<or> html_number raw \<noteq> None"

text \<open>
  The constraints \<open>min\<close>, \<open>max\<close> and \<open>step\<close>; the steps are counted from \<open>min\<close>. A text the form sets
  that is no number leaves the field empty, and an empty field satisfies them.
\<close>

definition number_input_ok :: "rat \<Rightarrow> rat option \<Rightarrow> rat \<Rightarrow> string \<Rightarrow> bool" where
  "number_input_ok low high step raw \<longleftrightarrow>
     (case html_number raw of
        Some (Fin q) \<Rightarrow> low \<le> q \<and> opt_ok (\<lambda>h. q \<le> h) high \<and> is_integer (Fin ((q - low) / step))
      | _ \<Rightarrow> True)"

subsection \<open>Decimal texts\<close>

lemma decimal_literal_parts:
  assumes "list_all is_digit a" "list_all is_digit b" "a \<noteq> []"
  shows "decimal_literal (if b = [] then a else a @ ''.'' @ b)"
  using assms by (simp add: decimal_literal_def digits_stop digits_all)

lemma digit_marks: "is_digit c \<Longrightarrow> \<not> exponent_mark c \<and> c \<noteq> CHR ''-''"
  by (auto simp: is_digit_def exponent_mark_def byte_def)

lemma html_number_decimal:
  assumes "list_all is_digit a" "list_all is_digit b" "a \<noteq> []"
    "number_of_literal (if b = [] then a else a @ ''.'' @ b) = Fin q"
  shows "html_number (if b = [] then a else a @ ''.'' @ b) = Some (Fin q)"
proof -
  let ?s = "if b = [] then a else a @ ''.'' @ b"
  have no_mark: "\<not> exponent_mark c" if "c \<in> set ?s" for c
    using that assms digit_marks by (auto simp: list_all_iff exponent_mark_def split: if_splits)
  then have mantissa: "takeWhile (\<lambda>c. \<not> exponent_mark c) ?s = ?s" by (simp add: takeWhile_eq_all_conv)
  obtain c t where a: "a = c # t" using assms(3) by (cases a) auto
  then have sgn: "(case ?s of c # _ \<Rightarrow> c = CHR ''-'' | [] \<Rightarrow> False) = False"
    using assms(1) digit_marks by auto
  show ?thesis
    unfolding html_number_def Let_def sgn if_False mantissa
    using decimal_literal_parts [OF assms(1-3)] assms(4)
    by (simp add: number_of_literal_def)
qed

lemma html_number_digits:
  assumes "list_all is_digit a" "a \<noteq> []" "parse_nat a < 10 ^ 15"
  shows "html_number a = Some (num_of_nat (parse_nat a))"
proof -
  have "round_double (of_nat (parse_nat a)) = num_of_nat (parse_nat a)"
    using round_double_of_nat [of "parse_nat a"] assms(3)
    by (cases "parse_nat a = 0") (simp_all add: num_of_nat_def round_double_def)
  then have "number_of_literal (if [] = [] then a else a @ ''.'' @ []) = Fin (of_nat (parse_nat a))"
    using literal_value_digits [OF assms(1), of "[]"] by (simp add: number_of_literal_def num_of_nat_def)
  from html_number_decimal [OF assms(1) _ assms(2) this] show ?thesis by (simp add: num_of_nat_def)
qed

lemma number_input_digits:
  assumes "list_all is_digit a" "a \<noteq> []" "parse_nat a < 10 ^ 15"
  shows "number_input_ok (of_nat low) high 1 a \<longleftrightarrow>
    low \<le> parse_nat a \<and> opt_ok (\<lambda>h. of_nat (parse_nat a) \<le> h) high"
proof -
  have "is_integer (Fin (of_nat (parse_nat a) - of_nat low))"
    using is_integer_iff [of "Fin (of_nat (parse_nat a) - of_nat low)"]
    by (auto simp: num_of_int_def intro!: exI [of _ "int (parse_nat a) - int low"])
  then show ?thesis using html_number_digits [OF assms]
    by (simp add: number_input_ok_def num_of_nat_def)
qed

lemma number_input_empty [simp]: "number_input_ok low high step ''''"
  by (simp add: number_input_ok_def html_number_def decimal_literal_def)

subsection \<open>Whole numbers\<close>

text \<open>A whole number below ten to the power of 22 has a double next to it.\<close>

lemma round_half_even_le: "of_int (round_half_even q) \<le> q + 1 / 2"
  by (auto simp: round_half_even_def Let_def) linarith+

lemma round_nat_finite:
  assumes "m < 10 ^ 22" shows "\<exists>q. round_double (of_nat m) = Fin q"
proof (cases "m = 0")
  case True
  then show ?thesis by (simp add: round_double_def)
next
  case False
  let ?q = "of_nat m :: rat"
  let ?l = "floorlog 2 m"
  have l: "0 < ?l" "2 ^ (?l - 1) \<le> m" using floorlog_bounds [of m 2] False
    by (simp_all add: floorlog_eq_zero_iff flip: neq0_conv)
  have e: "binary_exponent ?q = int (?l - 1)" using binary_exponent_of_nat [of m] False l(1) by simp
  have "ulp ?q = 2 powi (int (?l - 1) - 52)" by (simp add: ulp_def e)
  also have "\<dots> \<le> 2 powi int (?l - 1)" by (rule power_int_increasing) auto
  also have "\<dots> \<le> ?q" using l(2) by (metis of_nat_le_iff of_nat_numeral of_nat_power power_int_of_nat)
  finally have ulp: "ulp ?q \<le> ?q" "0 < ulp ?q" by (simp_all add: ulp_def)
  have "of_int (round_half_even (?q / ulp ?q)) * ulp ?q \<le> (?q / ulp ?q + 1 / 2) * ulp ?q"
    using ulp(2) by (intro mult_right_mono round_half_even_le) simp
  also have "\<dots> = ?q + ulp ?q / 2" using ulp(2) by (simp add: field_simps)
  also have "\<dots> \<le> 2 * ?q" using ulp by simp
  also have "\<dots> < 2 ^ 1024"
  proof -
    have "2 * m < 2 ^ 1024" using assms by simp
    then show ?thesis by (metis of_nat_less_iff of_nat_mult of_nat_numeral of_nat_power)
  qed
  finally have "\<not> 2 ^ 1024 \<le> of_int (round_half_even (?q / ulp ?q)) * ulp ?q" by simp
  then show ?thesis using False by (simp add: round_double_def Let_def)
qed

text \<open>What is printed is printable ASCII, and a printed whole number is below that bound.\<close>

definition graphic :: "char \<Rightarrow> bool" where
  "graphic c \<longleftrightarrow> 32 < byte c \<and> byte c < 127"

lemma graphic_digits [simp]: "list_all is_digit s \<Longrightarrow> list_all graphic s"
  by (auto simp: list_all_iff is_digit_def graphic_def byte_def)

lemma graphic_decimal: "list_all graphic (decimal_string d)"
proof -
  have "list_all graphic (show_nat n)" "list_all graphic (zeros n)" for n
    by (simp_all add: show_nat_digits)
  moreover from this have "list_all graphic (take j (show_nat n))" "list_all graphic (drop j (show_nat n))" for j n
    by (auto simp: list_all_iff dest: in_set_takeD in_set_dropD)
  ultimately show ?thesis
    by (cases d) (simp add: decimal_string_def Let_def graphic_def byte_def)
qed

lemma graphic_number: "list_all graphic (number_string x)"
proof -
  have "list_all graphic (positive_string q)" for q
    by (simp add: positive_string_def graphic_decimal graphic_def byte_def split: option.split)
  then show ?thesis by (cases x) (simp_all add: graphic_def byte_def)
qed

lemma decimal_string_digits:
  assumes "list_all is_digit (decimal_string (s, n, k))" "length (show_nat s) = k" "0 < k"
  shows "length (decimal_string (s, n, k)) \<le> 21"
  using assms by (auto simp: decimal_string_def Let_def is_digit_def byte_def split: if_splits)

lemma positive_string_digits:
  assumes "list_all is_digit (positive_string q)" shows "length (positive_string q) \<le> 21"
proof (cases "shortest_decimal q [1..<60]")
  case None
  then show ?thesis by (simp add: positive_string_def)
next
  case (Some d)
  obtain s n k where d: "d = (s, n, k)" by (cases d)
  obtain j where j: "j \<in> set [1..<60]" "(s, n, k) \<in> set (decimal_candidates q j)"
    using shortest_decimal_sound [OF Some] d by blast
  have "length (show_nat s) = k" "0 < k" using decimal_candidate [OF j(2)] j(1) by auto
  moreover have "positive_string q = decimal_string (s, n, k)" unfolding positive_string_def Some d by simp
  ultimately show ?thesis using assms decimal_string_digits by simp
qed

lemma parse_nat_bound: "list_all is_digit s \<Longrightarrow> parse_nat s < 10 ^ length s"
proof (induction s rule: rev_induct)
  case (snoc c s)
  have "digit_value c < 10" using snoc.prems by (auto simp: is_digit_def digit_value_def)
  moreover have "parse_nat (s @ [c]) = parse_nat s * 10 + digit_value c" by (simp add: parse_nat_def)
  moreover have "parse_nat s < 10 ^ length s" using snoc by simp
  ultimately show ?case by simp
qed (simp add: parse_nat_def)

lemma printed_whole:
  assumes "list_all is_digit (number_string x)"
  shows "parse_nat (number_string x) < 10 ^ 22"
proof (cases x)
  case (Fin q)
  have "length (number_string x) \<le> 21"
    using assms positive_string_digits by (auto simp: Fin is_digit_def byte_def split: if_splits)
  then have "(10 :: nat) ^ length (number_string x) \<le> 10 ^ 21" by (rule power_increasing) simp
  then show ?thesis using parse_nat_bound [OF assms] by simp
qed (use assms in \<open>simp_all add: is_digit_def byte_def\<close>)

text \<open>A text the field accepts is, too.\<close>

lemma graphic_mantissa: "decimal_literal s \<Longrightarrow> list_all graphic s"
proof -
  assume s: "decimal_literal s"
  define whole where "whole = takeWhile is_digit s"
  have "list_all graphic whole" by (rule graphic_digits) (auto simp: whole_def list_all_iff dest: set_takeWhileD)
  moreover have "list_all graphic (drop (length whole) s)"
    using s by (cases "drop (length whole) s") (simp_all add: decimal_literal_def Let_def whole_def [symmetric] graphic_def byte_def)
  ultimately have "list_all graphic (whole @ drop (length whole) s)" by simp
  moreover have "whole @ drop (length whole) s = s"
    by (simp add: whole_def dropWhile_eq_drop [symmetric])
  ultimately show ?thesis by metis
qed

lemma graphic_exponent:
  assumes "exponent_value s = Some e" "s = [] \<or> exponent_mark (hd s)"
  shows "list_all graphic s"
proof (cases s)
  case (Cons c t)
  have "list_all graphic t"
    using assms(1) by (cases t) (auto simp: Cons graphic_def is_digit_def byte_def split: if_splits)
  then show ?thesis using assms(2) by (auto simp: Cons graphic_def exponent_mark_def byte_def)
qed simp

lemma graphic_html:
  assumes "html_number raw = Some x" shows "list_all graphic raw"
proof -
  define negative where "negative = (case raw of c # _ \<Rightarrow> c = CHR ''-'' | [] \<Rightarrow> False)"
  define s where "s = (if negative then tl raw else raw)"
  define mantissa where "mantissa = takeWhile (\<lambda>c. \<not> exponent_mark c) s"
  define rest where "rest = drop (length mantissa) s"
  have parts: "decimal_literal mantissa" "exponent_value rest \<noteq> None"
    using assms unfolding html_number_def Let_def negative_def [symmetric] s_def [symmetric]
      mantissa_def [symmetric] rest_def [symmetric] by (auto split: if_splits option.splits)
  have r: "rest = dropWhile (\<lambda>c. \<not> exponent_mark c) s" by (simp add: rest_def mantissa_def dropWhile_eq_drop)
  then have "rest = [] \<or> exponent_mark (hd rest)" using hd_dropWhile by blast
  then have "list_all graphic rest" using parts(2) graphic_exponent by auto
  moreover have "s = mantissa @ rest" by (simp add: r mantissa_def)
  ultimately have "list_all graphic s" using graphic_mantissa [OF parts(1)] by simp
  then show ?thesis by (cases raw) (auto simp: s_def negative_def graphic_def byte_def split: if_splits)
qed

text \<open>What the browser reads in a field of digits is what the code parses there.\<close>

lemma html_number_whole:
  assumes "list_all is_digit a" "a \<noteq> []" "round_double (of_nat (parse_nat a)) = Fin q"
  shows "html_number a = Some (Fin q)"
proof -
  have "number_of_literal (if [] = [] then a else a @ ''.'' @ []) = Fin q"
    using literal_value_digits [OF assms(1), of "[]"] assms(3) by (simp add: number_of_literal_def)
  from html_number_decimal [OF assms(1) _ assms(2) this] show ?thesis by simp
qed

lemma finite_only: "(case x of Fin q \<Rightarrow> Some (Fin q) | _ \<Rightarrow> None) = (if is_finite x then Some x else None)"
  by (cases x) auto

lemma html_number_finite: "html_number raw = Some v \<Longrightarrow> is_finite v"
  unfolding html_number_def Let_def finite_only by (auto split: if_split_asm option.split_asm)

lemma html_number_of_digits:
  assumes "list_all is_digit a" "html_number a = Some v"
  shows "v = round_double (of_nat (parse_nat a))"
proof (cases a)
  case Nil
  then show ?thesis using assms(2) by (simp add: html_number_def decimal_literal_def)
next
  case (Cons c t)
  have mantissa: "takeWhile (\<lambda>c. \<not> exponent_mark c) a = a"
    using assms(1) digit_marks by (auto simp: takeWhile_eq_all_conv list_all_iff)
  have sgn: "(case a of c # _ \<Rightarrow> c = CHR ''-'' | [] \<Rightarrow> False) = False"
    using assms(1) digit_marks by (auto simp: Cons)
  have "literal_value a = of_nat (parse_nat a)" using literal_value_digits [OF assms(1), of "[]"] by simp
  then show ?thesis
    using assms(2) unfolding html_number_def Let_def sgn if_False mantissa finite_only
    by (auto split: if_split_asm)
qed

end
