(* ===== verification/ServerForm.thy ===== *)
theory ServerForm
  imports NumberInput Models Format
begin

text \<open>
  The form of \<open>features/settings/ServerDialog.tsx\<close>: its fields, how they are read from a
  server record and from an ssh-config alias, how the port, the sampling interval and the tags
  are parsed, and the request bodies the form builds. The last section relates printing and
  parsing: saving a form that was only opened changes nothing.
\<close>

subsection \<open>The form\<close>

datatype ssh_source = Src_Alias | Src_Manual

record form_state =
  fs_name :: string
  fs_source :: ssh_source
  fs_alias :: string
  fs_host :: string
  fs_username :: string
  fs_port :: string
  fs_tags :: string
  fs_sampleInterval :: string
  fs_enabled :: bool

definition EMPTY_FORM :: form_state where
  "EMPTY_FORM =
     \<lparr>fs_name = '''', fs_source = Src_Alias, fs_alias = '''', fs_host = '''', fs_username = '''',
      fs_port = '''', fs_tags = '''', fs_sampleInterval = '''', fs_enabled = True\<rparr>"

definition DEFAULT_SAMPLE_INTERVAL_S :: js_number where
  "DEFAULT_SAMPLE_INTERVAL_S = Fin (5 / 2)"

text \<open>A nullable number in a text field: empty when it is null.\<close>

definition number_field :: "js_number option \<Rightarrow> string" where
  "number_field x = (case x of None \<Rightarrow> '''' | Some v \<Rightarrow> number_string v)"

definition or_empty :: "string option \<Rightarrow> string" where
  "or_empty x = (case x of None \<Rightarrow> '''' | Some s \<Rightarrow> s)"

definition formFromServer :: "server_record \<Rightarrow> form_state" where
  "formFromServer server =
     \<lparr>fs_name = srv_display_name server,
      fs_source = Src_Manual,
      fs_alias = srv_ssh_host server,
      fs_host = srv_ssh_host server,
      fs_username = or_empty (srv_username server),
      fs_port = number_field (srv_port server),
      fs_tags = join '', '' (srv_tags server),
      fs_sampleInterval = number_field (srv_sample_interval_s server),
      fs_enabled = srv_enabled server\<rparr>"

definition aliasEndpoint :: "alias_entry \<Rightarrow> string" where
  "aliasEndpoint e =
     (let user = (case ali_user e of None \<Rightarrow> '''' | Some u \<Rightarrow> u @ ''@'');
          host = (case ali_host e of None \<Rightarrow> ali_alias e | Some h \<Rightarrow> h);
          port = (case ali_port e of None \<Rightarrow> '''' | Some p \<Rightarrow> '':'' @ number_string p)
      in user @ host @ port)"

subsection \<open>Parsing the fields\<close>

definition parseTags :: "string \<Rightarrow> string list" where
  "parseTags raw = filter (\<lambda>tag. tag \<noteq> '''') (map trim (split_on (CHR '','') raw))"

text \<open>\<open>number | null | "invalid"\<close>.\<close>

datatype field_value = Field_Null | Field_Invalid | Field_Number js_number

definition parsePort :: "string \<Rightarrow> field_value" where
  "parsePort raw =
     (let trimmed = trim raw
      in if trimmed = '''' then Field_Null
         else if \<not> list_all is_digit trimmed then Field_Invalid
         else
           (let v = parse_nat trimmed
            in if 1 \<le> v \<and> v \<le> 65535 then Field_Number (num_of_nat v) else Field_Invalid))"

text \<open>The pattern of the interval is \<open>decimal_literal\<close>.\<close>

definition parseSampleInterval :: "string \<Rightarrow> field_value" where
  "parseSampleInterval raw =
     (let trimmed = trim raw
      in if trimmed = '''' then Field_Null
         else if \<not> decimal_literal trimmed then Field_Invalid
         else
           (let v = number_of_literal trimmed
            in if num_le (Fin (1 / 2)) v \<and> num_le v (Fin 600) then Field_Number v else Field_Invalid))"

definition helpFor :: "dict \<Rightarrow> server_status \<Rightarrow> string" where
  "helpFor t status =
     (if status = S_Authentication_failed then t ''dialog.authHelp''
      else if status = S_Timeout \<or> status = S_Offline then t ''dialog.unreachableHelp''
      else t ''dialog.genericHelp'')"

subsection \<open>Editing\<close>

definition applyAlias :: "alias_entry list option \<Rightarrow> string \<Rightarrow> form_state \<Rightarrow> form_state" where
  "applyAlias aliases alias f =
     (case find (\<lambda>e. ali_alias e = alias) (case aliases of None \<Rightarrow> [] | Some es \<Rightarrow> es) of
        None \<Rightarrow> f\<lparr>fs_alias := alias\<rparr>
      | Some e \<Rightarrow>
          f\<lparr>fs_alias := alias, fs_host := ali_alias e, fs_username := or_empty (ali_user e),
            fs_port := number_field (ali_port e)\<rparr>)"

definition setSource :: "ssh_source \<Rightarrow> form_state \<Rightarrow> form_state" where
  "setSource source f = f\<lparr>fs_source := source\<rparr>"

text \<open>What the controls of the form do to it.\<close>

datatype form_edit =
    Edit_Name string
  | Edit_Source ssh_source
  | Edit_Alias "alias_entry list option" string
  | Edit_Host string
  | Edit_Username string
  | Edit_Port string
  | Edit_Tags string
  | Edit_Interval string
  | Edit_Enabled

fun form_edited :: "form_edit \<Rightarrow> form_state \<Rightarrow> form_state" where
  "form_edited (Edit_Name v) f = f\<lparr>fs_name := v\<rparr>"
| "form_edited (Edit_Source source) f = setSource source f"
| "form_edited (Edit_Alias aliases alias) f = applyAlias aliases alias f"
| "form_edited (Edit_Host v) f = f\<lparr>fs_host := v\<rparr>"
| "form_edited (Edit_Username v) f = f\<lparr>fs_username := v\<rparr>"
| "form_edited (Edit_Port v) f = f\<lparr>fs_port := v\<rparr>"
| "form_edited (Edit_Tags v) f = f\<lparr>fs_tags := v\<rparr>"
| "form_edited (Edit_Interval v) f = f\<lparr>fs_sampleInterval := v\<rparr>"
| "form_edited Edit_Enabled f = f\<lparr>fs_enabled := \<not> fs_enabled f\<rparr>"

text \<open>The two number fields hand over numbers only.\<close>

fun edit_possible :: "form_edit \<Rightarrow> bool" where
  "edit_possible (Edit_Port v) = number_text v"
| "edit_possible (Edit_Interval v) = number_text v"
| "edit_possible _ = True"

text \<open>What the browser checks before it submits the form: \<open>min\<close>, \<open>max\<close> and \<open>step\<close> of the two fields.\<close>

definition server_native_ok :: "form_state \<Rightarrow> bool" where
  "server_native_ok f \<longleftrightarrow>
     number_input_ok 1 (Some 65535) 1 (fs_port f) \<and>
     number_input_ok (1 / 2) (Some 600) (1 / 2) (fs_sampleInterval f)"

subsection \<open>Request bodies\<close>

definition ssh_host_of :: "form_state \<Rightarrow> string" where
  "ssh_host_of f = trim (if fs_source f = Src_Alias then fs_alias f else fs_host f)"

definition buildBody :: "server_record option \<Rightarrow> form_state \<Rightarrow> server_create" where
  "buildBody server f =
     \<lparr>sc_display_name = trim (fs_name f),
      sc_ssh_host = ssh_host_of f,
      sc_username = Some (if trim (fs_username f) = '''' then None else Some (trim (fs_username f))),
      sc_port = Some (case parsePort (fs_port f) of Field_Number p \<Rightarrow> Some p | _ \<Rightarrow> None),
      sc_tags = Some (parseTags (fs_tags f)),
      sc_enabled = Some (fs_enabled f),
      sc_sample_interval_s =
        (case parseSampleInterval (fs_sampleInterval f) of
           Field_Number v \<Rightarrow> Some (Some v)
         | _ \<Rightarrow> if server \<noteq> None then Some None else None)\<rparr>"

text \<open>The patch built from the body; an undefined \<open>sample_interval_s\<close> is left out.\<close>

definition patch_of_body :: "server_create \<Rightarrow> server_patch" where
  "patch_of_body body =
     \<lparr>sp_display_name = Some (Some (sc_display_name body)),
      sp_ssh_host = Some (Some (sc_ssh_host body)),
      sp_username = sc_username body,
      sp_port = sc_port body,
      sp_tags = map_option Some (sc_tags body),
      sp_enabled = map_option Some (sc_enabled body),
      sp_sample_interval_s = sc_sample_interval_s body\<rparr>"

definition form_valid :: "form_state \<Rightarrow> bool" where
  "form_valid f \<longleftrightarrow>
     trim (fs_name f) \<noteq> '''' \<and> ssh_host_of f \<noteq> '''' \<and>
     parsePort (fs_port f) \<noteq> Field_Invalid \<and>
     parseSampleInterval (fs_sampleInterval f) \<noteq> Field_Invalid"

subsection \<open>Trimming\<close>

text \<open>Printable ASCII is left alone, and a separating blank is not part of what follows it.\<close>

definition non_graphic :: "nat \<Rightarrow> bool" where
  "non_graphic n \<longleftrightarrow> n \<le> 32 \<or> 127 \<le> n \<and> n < 256"

lemma ws_char_ends:
  assumes "u \<in> set ws_chars" shows "u \<noteq> [] \<and> \<not> graphic (hd u) \<and> \<not> graphic (last u)"
proof -
  define NS :: "nat list list" where
    "NS = [[9], [10], [11], [12], [13], [32], [194, 160], [225, 154, 128]]
      @ map (\<lambda>k. [226, 128, k]) [128, 129, 130, 131, 132, 133, 134, 135, 136, 137, 138, 168, 169, 175]
      @ [[226, 129, 159], [227, 128, 128], [239, 187, 191]]"
  have "list_all (\<lambda>ns. ns \<noteq> [] \<and> non_graphic (hd ns) \<and> non_graphic (last ns)) NS" by (simp add: NS_def non_graphic_def)
  moreover obtain ns where "u = bytes ns" "ns \<in> set NS"
    using assms unfolding ws_chars_def NS_def [symmetric] set_map by blast
  ultimately have "u = bytes ns \<and> ns \<noteq> [] \<and> non_graphic (hd ns) \<and> non_graphic (last ns)"
    by (simp add: list_all_iff)
  then show ?thesis by (auto simp: bytes_def non_graphic_def graphic_def byte_def hd_map last_map)
qed

lemma strip_units_graphic:
  assumes "list_all graphic s" "\<And>u. u \<in> set us \<Longrightarrow> u \<noteq> [] \<and> \<not> graphic (hd u)"
  shows "strip_units us s = s"
proof (rule strip_units_id)
  show "list_all (\<lambda>u. u = [] \<or> \<not> prefix u s) us"
    unfolding list_all_iff
  proof (intro ballI disjI2)
    fix u assume u: "u \<in> set us"
    show "\<not> prefix u s"
    proof
      assume "prefix u s"
      then have "hd u \<in> set s" using assms(2) [OF u] by (auto simp: prefix_def intro: hd_in_set)
      then show False using assms u by (auto simp: list_all_iff)
    qed
  qed
qed

lemma trim_graphic: "list_all graphic s \<Longrightarrow> trim s = s"
proof -
  assume s: "list_all graphic s"
  have "strip_units ws_chars s = s" using s ws_char_ends by (intro strip_units_graphic) auto
  moreover have "strip_units (map rev ws_chars) (rev s) = rev s"
  proof (rule strip_units_graphic)
    show "list_all graphic (rev s)" using s by (simp add: list_all_iff)
    fix u assume "u \<in> set (map rev ws_chars)"
    then obtain v where "v \<in> set ws_chars" "u = rev v" by auto
    then show "u \<noteq> [] \<and> \<not> graphic (hd u)" using ws_char_ends [of v] by (simp add: hd_rev)
  qed
  ultimately show ?thesis by (simp add: trim_def trim_start_def trim_end_def)
qed

lemma strip_units_stops: "strip_units us s = s \<Longrightarrow> u \<in> set us \<Longrightarrow> u \<noteq> [] \<Longrightarrow> \<not> prefix u s"
proof
  assume s: "strip_units us s = s" "u \<in> set us" "u \<noteq> []" "prefix u s"
  then obtain v where v: "find (\<lambda>u. u \<noteq> [] \<and> prefix u s) us = Some v"
    by (cases "find (\<lambda>u. u \<noteq> [] \<and> prefix u s) us") (auto simp: find_None_iff)
  then have n: "v \<noteq> []" "prefix v s" by (auto simp: find_Some_iff)
  have "strip_units us s = strip_units us (drop (length v) s)" by (subst strip_units.simps) (simp add: v)
  then obtain p where "drop (length v) s = p @ s" using strip_units_suffix s(1) by metis
  then have "length s - length v = length p + length s" by (metis length_append length_drop)
  moreover have "0 < length v" "length v \<le> length s" using n by (auto simp: prefix_length_le)
  ultimately show False by linarith
qed

lemma ws_blank: "list_all (\<lambda>u. u = '' '' \<or> hd u \<noteq> CHR '' '') ws_chars" "'' '' \<in> set ws_chars"
  by (simp_all add: ws_chars_def bytes_def char_of_def bit_0)

lemma trim_blank [simp]: "trim (CHR '' '' # s) = trim s"
proof -
  let ?s = "CHR '' '' # s"
  have "strip_units ws_chars ?s \<noteq> ?s"
    using strip_units_stops [OF _ ws_blank(2), of ?s] by auto
  then obtain u where u: "find (\<lambda>u. u \<noteq> [] \<and> prefix u ?s) ws_chars = Some u"
    by (subst (asm) strip_units.simps) (auto split: option.splits)
  then have ws: "u \<in> set ws_chars" "u \<noteq> []" "prefix u ?s" by (auto simp: find_Some_iff)
  then have "hd u = CHR '' ''" by (auto simp: prefix_Cons)
  then have "u = '' ''" using ws_blank(1) ws(1) by (auto simp: list_all_iff)
  then have "strip_units ws_chars ?s = strip_units ws_chars s" by (subst strip_units.simps) (simp add: u)
  then show ?thesis by (simp add: trim_def trim_start_def)
qed

text \<open>Trimming twice is trimming once.\<close>

lemma trim_idem [simp]: "trim (trim s) = trim s"
proof -
  let ?t = "trim_start s"
  obtain q where q: "?t = trim s @ q"
  proof -
    obtain p where "rev ?t = p @ strip_units (map rev ws_chars) (rev ?t)" using strip_units_suffix by blast
    then have "?t = trim s @ rev p" by (metis rev_append rev_rev_ident trim_def trim_end_def)
    then show thesis by (rule that)
  qed
  have "strip_units ws_chars ?t = ?t" by (simp add: trim_start_def)
  then have "\<not> prefix u (trim s)" if "u \<in> set ws_chars" for u
    using strip_units_stops [of ws_chars ?t u] that ws_char_ends [OF that] q prefix_prefix [of u "trim s" q] by auto
  then have "trim_start (trim s) = trim s"
    unfolding trim_start_def by (intro strip_units_id) (auto simp: list_all_iff)
  then show ?thesis by (simp add: trim_def trim_end_def)
qed

subsection \<open>Printing and parsing the fields\<close>

lemma trim_literal:
  "list_all is_digit a \<Longrightarrow> list_all is_digit b \<Longrightarrow>
     trim (if b = [] then a else a @ ''.'' @ b) = (if b = [] then a else a @ ''.'' @ b)"
  by (rule trim_graphic) (simp add: graphic_def byte_def)

definition interval_shown :: "js_number \<Rightarrow> bool" where
  "interval_shown x \<longleftrightarrow> in_interval x \<and> is_double x"

lemma parse_shown_interval:
  assumes "interval_shown x" shows "parseSampleInterval (number_string x) = Field_Number x"
proof -
  obtain q where x: "x = Fin q" using assms by (auto simp: interval_shown_def in_interval_def is_finite_iff)
  then have q: "is_double (Fin q)" "1 / 2 \<le> q" "q \<le> 600"
    using assms by (auto simp: interval_shown_def in_interval_def)
  obtain a b where ab: "list_all is_digit a" "list_all is_digit b" "a \<noteq> []"
    "number_string (Fin q) = (if b = [] then a else a @ ''.'' @ b)"
    "number_of_literal (number_string (Fin q)) = Fin q"
    by (rule number_string_roundtrip [OF q])
  have "trim (number_string (Fin q)) = number_string (Fin q)"
    unfolding ab(4) by (rule trim_literal [OF ab(1,2)])
  moreover have "decimal_literal (number_string (Fin q))"
    unfolding ab(4) by (rule decimal_literal_parts [OF ab(1-3)])
  moreover have "number_string (Fin q) \<noteq> []" unfolding ab(4) using ab(3) by simp
  ultimately show ?thesis using q by (simp add: parseSampleInterval_def x ab(5) Let_def del: number_string.simps)
qed

definition port_ok :: "js_number \<Rightarrow> bool" where
  "port_ok x \<longleftrightarrow> is_integer x \<and> num_le (Fin 1) x \<and> num_le x (Fin 65535)"

lemma port_ok_iff: "port_ok x \<longleftrightarrow> (\<exists>n. x = num_of_nat n \<and> 1 \<le> n \<and> n \<le> 65535)"
proof
  assume x: "port_ok x"
  then obtain i where i: "x = num_of_int i" by (auto simp: port_ok_def is_integer_iff)
  then have "1 \<le> i" "i \<le> 65535" using x by (simp_all add: port_ok_def num_of_int_def)
  then have "x = num_of_nat (nat i) \<and> 1 \<le> nat i \<and> nat i \<le> 65535" by (simp add: i num_of_nat_def num_of_int_def) linarith
  then show "\<exists>n. x = num_of_nat n \<and> 1 \<le> n \<and> n \<le> 65535" by blast
next
  assume "\<exists>n. x = num_of_nat n \<and> 1 \<le> n \<and> n \<le> 65535"
  then show "port_ok x" by (auto simp: port_ok_def) (simp_all add: num_of_nat_def)
qed

lemma parse_shown_port: "port_ok x \<Longrightarrow> parsePort (number_string x) = Field_Number x"
proof -
  assume "port_ok x"
  then obtain n where n: "x = num_of_nat n" "1 \<le> n" "n \<le> 65535" by (auto simp: port_ok_iff)
  obtain a where a: "list_all is_digit a" "a \<noteq> []" "number_string (num_of_nat n) = a" "parse_nat a = n"
    by (rule integer_string [of n]) (use n in auto)
  show ?thesis using a n by (simp add: parsePort_def trim_graphic Let_def)
qed

text \<open>A tag the comma-separated field can hold.\<close>

definition tag_shown :: "string \<Rightarrow> bool" where
  "tag_shown tag \<longleftrightarrow> tag \<noteq> '''' \<and> trim tag = tag \<and> CHR '','' \<notin> set tag"

lemma split_shown_tags:
  "list_all tag_shown (tag # tags) \<Longrightarrow>
     split_on (CHR '','') (join '', '' (tag # tags)) = tag # map ((#) (CHR '' '')) tags"
proof (induction tags arbitrary: tag)
  case (Cons t ts)
  have "split_on (CHR '','') (CHR '' '' # join '', '' (t # ts)) = (CHR '' '' # t) # map ((#) (CHR '' '')) ts"
    using Cons.IH [of t] Cons.prems by simp
  then show ?case using Cons.prems split_on_append [of "CHR '',''" tag] by (simp add: tag_shown_def)
qed (simp add: tag_shown_def split_on_no_sep)

lemma parse_shown_tags: "list_all tag_shown tags \<Longrightarrow> parseTags (join '', '' tags) = tags"
proof (cases tags)
  case (Cons tag rest)
  assume "list_all tag_shown tags"
  then have "list_all tag_shown (tag # rest)" by (simp add: Cons)
  moreover from this have "map trim (tag # map ((#) (CHR '' '')) rest) = tag # rest"
    by (auto simp: tag_shown_def list_all_iff intro: map_idI)
  ultimately show ?thesis
    by (auto simp: parseTags_def Cons split_shown_tags tag_shown_def list_all_iff intro!: filter_True)
qed (simp add: parseTags_def)

subsection \<open>Opening and saving\<close>

text \<open>A record the form can show without loss, and the patch that leaves a record as it is.\<close>

definition editable :: "server_record \<Rightarrow> bool" where
  "editable server \<longleftrightarrow>
     trim (srv_display_name server) = srv_display_name server \<and>
     trim (srv_ssh_host server) = srv_ssh_host server \<and>
     opt_ok (\<lambda>u. u \<noteq> '''' \<and> trim u = u) (srv_username server) \<and>
     opt_ok port_ok (srv_port server) \<and>
     opt_ok interval_shown (srv_sample_interval_s server) \<and>
     list_all tag_shown (srv_tags server)"

definition identity_patch :: "server_record \<Rightarrow> server_patch" where
  "identity_patch server =
     \<lparr>sp_display_name = Some (Some (srv_display_name server)),
      sp_ssh_host = Some (Some (srv_ssh_host server)),
      sp_username = Some (srv_username server),
      sp_port = Some (srv_port server),
      sp_tags = Some (Some (srv_tags server)),
      sp_enabled = Some (Some (srv_enabled server)),
      sp_sample_interval_s = Some (srv_sample_interval_s server)\<rparr>"

lemma saved_unchanged:
  assumes "editable server" "f = formFromServer server \<or> f = (formFromServer server)\<lparr>fs_source := Src_Alias\<rparr>"
  shows "patch_of_body (buildBody (Some server) f) = identity_patch server"
proof -
  have user: "trim (or_empty (srv_username server)) = or_empty (srv_username server)"
    "or_empty (srv_username server) = '''' \<longleftrightarrow> srv_username server = None"
    using assms(1) by (auto simp: editable_def or_empty_def split: option.splits)
  have port: "(case parsePort (number_field (srv_port server)) of Field_Number p \<Rightarrow> Some p | _ \<Rightarrow> None)
      = srv_port server"
    using assms(1) parse_shown_port
    by (cases "srv_port server") (simp_all add: editable_def number_field_def parsePort_def Let_def)
  have interval: "(case parseSampleInterval (number_field (srv_sample_interval_s server)) of
      Field_Number v \<Rightarrow> Some (Some v) | _ \<Rightarrow> Some None) = Some (srv_sample_interval_s server)"
    using assms(1) parse_shown_interval
    by (cases "srv_sample_interval_s server")
      (simp_all add: editable_def number_field_def parseSampleInterval_def Let_def)
  show ?thesis
    using assms user port interval parse_shown_tags [of "srv_tags server"]
    by (cases "srv_username server")
      (auto simp: patch_of_body_def buildBody_def identity_patch_def formFromServer_def ssh_host_of_def
        editable_def or_empty_def)
qed

lemma parsePort_ok: "parsePort raw = Field_Number p \<Longrightarrow> port_ok p"
  by (auto simp: parsePort_def port_ok_iff Let_def split: if_splits)

lemma parseSampleInterval_ok: "parseSampleInterval raw = Field_Number v \<Longrightarrow> in_interval v"
  by (cases v) (auto simp: parseSampleInterval_def in_interval_def Let_def split: if_splits)

lemma parseTags_ok: "list_all tag_shown (parseTags raw)"
  by (auto simp: parseTags_def list_all_iff tag_shown_def dest!: split_on_no_sep_elems subsetD [OF set_trim])

text \<open>Only a record the form can show is left as it is.\<close>

lemma saved_unchanged_iff:
  assumes f: "f = formFromServer server \<or> f = (formFromServer server)\<lparr>fs_source := Src_Alias\<rparr>"
    and double: "opt_ok is_double (srv_sample_interval_s server)"
  shows "patch_of_body (buildBody (Some server) f) = identity_patch server \<longleftrightarrow> editable server"
proof
  assume same: "patch_of_body (buildBody (Some server) f) = identity_patch server"
  have fields: "fs_name f = srv_display_name server" "ssh_host_of f = trim (srv_ssh_host server)"
    "fs_username f = or_empty (srv_username server)" "fs_port f = number_field (srv_port server)"
    "fs_tags f = join '', '' (srv_tags server)" "fs_sampleInterval f = number_field (srv_sample_interval_s server)"
    using f by (auto simp: formFromServer_def ssh_host_of_def)
  note sent = same [unfolded patch_of_body_def buildBody_def identity_patch_def fields, simplified]
  from sent have name: "trim (srv_display_name server) = srv_display_name server" by simp
  from sent have host: "trim (srv_ssh_host server) = srv_ssh_host server" by simp
  from sent have user: "(if trim (or_empty (srv_username server)) = '''' then None
      else Some (trim (or_empty (srv_username server)))) = srv_username server" by simp
  from sent have port: "(case parsePort (number_field (srv_port server)) of
      Field_Number p \<Rightarrow> Some p | _ \<Rightarrow> None) = srv_port server" by simp
  from sent have interval: "(case parseSampleInterval (number_field (srv_sample_interval_s server)) of
      Field_Number v \<Rightarrow> Some (Some v) | _ \<Rightarrow> Some None) = Some (srv_sample_interval_s server)"
    by (simp cong: field_value.case_cong)
  from sent have tags: "parseTags (join '', '' (srv_tags server)) = srv_tags server" by simp
  have "opt_ok (\<lambda>u. u \<noteq> '''' \<and> trim u = u) (srv_username server)"
    using user by (cases "srv_username server") (auto simp: or_empty_def split: if_splits)
  moreover have "opt_ok port_ok (srv_port server)"
    using port parsePort_ok by (cases "srv_port server") (auto split: field_value.splits)
  moreover have "opt_ok interval_shown (srv_sample_interval_s server)"
    using interval double parseSampleInterval_ok
    by (cases "srv_sample_interval_s server") (auto simp: interval_shown_def split: field_value.splits)
  moreover have "list_all tag_shown (srv_tags server)" using parseTags_ok tags by metis
  ultimately show "editable server" using name host by (simp add: editable_def)
qed (use saved_unchanged f in blast)

text \<open>What a form that may be submitted sends.\<close>

definition body_ok :: "server_create \<Rightarrow> bool" where
  "body_ok body \<longleftrightarrow>
     sc_display_name body \<noteq> '''' \<and> trim (sc_display_name body) = sc_display_name body \<and>
     sc_ssh_host body \<noteq> '''' \<and> trim (sc_ssh_host body) = sc_ssh_host body \<and>
     opt_ok (opt_ok (\<lambda>u. u \<noteq> '''' \<and> trim u = u)) (sc_username body) \<and>
     opt_ok (opt_ok port_ok) (sc_port body) \<and>
     opt_ok (opt_ok in_interval) (sc_sample_interval_s body) \<and>
     opt_ok (list_all tag_shown) (sc_tags body)"

text \<open>The same of a patch, which names every field but leaves the interval out when it was never set.\<close>

definition patch_ok :: "server_patch \<Rightarrow> bool" where
  "patch_ok patch \<longleftrightarrow>
     (\<exists>name. sp_display_name patch = Some (Some name) \<and> name \<noteq> '''' \<and> trim name = name) \<and>
     (\<exists>host. sp_ssh_host patch = Some (Some host) \<and> host \<noteq> '''' \<and> trim host = host) \<and>
     (\<exists>user. sp_username patch = Some user \<and> opt_ok (\<lambda>u. u \<noteq> '''' \<and> trim u = u) user) \<and>
     (\<exists>port. sp_port patch = Some port \<and> opt_ok port_ok port) \<and>
     (\<exists>tags. sp_tags patch = Some (Some tags) \<and> list_all tag_shown tags) \<and>
     (\<exists>enabled. sp_enabled patch = Some (Some enabled)) \<and>
     opt_ok (opt_ok in_interval) (sp_sample_interval_s patch)"

lemma valid_patch: "form_valid f \<Longrightarrow> patch_ok (patch_of_body (buildBody server f))"
  by (auto simp: form_valid_def patch_ok_def patch_of_body_def buildBody_def ssh_host_of_def parseTags_ok
      dest: parsePort_ok parseSampleInterval_ok split: field_value.splits)

lemma valid_body: "form_valid f \<Longrightarrow> body_ok (buildBody server f)"
  by (auto simp: form_valid_def body_ok_def buildBody_def ssh_host_of_def parseTags_ok
      dest: parsePort_ok parseSampleInterval_ok split: field_value.splits)

end
