(* ===== verification/Requests.thy ===== *)
theory Requests
  imports Main
begin

text \<open>
  Queues of requests in flight. A component keeps them as a list; an answer takes the request at
  some position out of it and runs its continuation. The lemmas say what is left.
\<close>

lemma filter_removed:
  assumes "k < length xs"
  shows "filter P (take k xs @ drop (Suc k) xs) =
    (if P (xs ! k) then filter P (take k xs) @ filter P (drop (Suc k) xs) else filter P xs)"
proof (cases "P (xs ! k)")
  case False
  have "filter P xs = filter P (take k xs @ xs ! k # drop (Suc k) xs)"
    using id_take_nth_drop [OF assms] by simp
  then show ?thesis using False by simp
qed simp

lemma filter_removed_single:
  assumes "k < length xs" "P (xs ! k)" "filter P xs = [c]"
  shows "filter P (take k xs @ drop (Suc k) xs) = []"
proof -
  have "filter P xs = filter P (take k xs @ xs ! k # drop (Suc k) xs)"
    using id_take_nth_drop [OF assms(1)] by simp
  then have "filter P (take k xs) @ xs ! k # filter P (drop (Suc k) xs) = [c]"
    using assms(2,3) by simp
  then show ?thesis by (simp add: append_eq_Cons_conv)
qed

lemma length_filter_removed:
  assumes "k < length xs"
  shows "length (filter P xs) =
    length (filter P (take k xs @ drop (Suc k) xs)) + (if P (xs ! k) then 1 else 0)"
proof -
  have "filter P xs = filter P (take k xs @ xs ! k # drop (Suc k) xs)"
    using id_take_nth_drop [OF assms] by simp
  then show ?thesis by simp
qed

lemma list_all_removed: "list_all P xs \<Longrightarrow> list_all P (take k xs @ drop (Suc k) xs)"
  by (auto simp: list_all_iff dest: in_set_takeD in_set_dropD)

lemma in_set_removed:
  assumes "k < length xs" "x \<in> set xs" "x \<noteq> xs ! k"
  shows "x \<in> set (take k xs @ drop (Suc k) xs)"
proof -
  have "x \<in> set (take k xs @ xs ! k # drop (Suc k) xs)"
    using assms(2) id_take_nth_drop [OF assms(1)] by metis
  then show ?thesis using assms(3) by auto
qed

lemma list_ex_moved:
  assumes "k < length xs"
  shows "list_ex P (xs ! k # take k xs @ drop (Suc k) xs) = list_ex P xs"
  by (subst (4) id_take_nth_drop [OF assms]) auto

end
