(* ===== verification/ServerDialog.thy ===== *)
theory ServerDialog
  imports ServerForm Api Requests
begin

text \<open>
  The dialog of \<open>features/settings/ServerDialog.tsx\<close>: adding or editing a server, testing its
  connection, trusting a host key. The component stays mounted, so its state outlives a close;
  the requests it started are the list \<open>sd_pending\<close> and are answered in any order, whatever
  the dialog shows by then. \<open>sd_epoch\<close> counts the runs of the open effect: the alias list of a
  cancelled run is dropped. \<open>sd_refreshes\<close> counts the reloads of the registry.
\<close>

subsection \<open>State\<close>

datatype dialog_phase = Step_Form | Step_Testing | Step_Result

text \<open>
  A request in flight. The flag of a test tells whether \<open>trustAndRetry\<close> awaits it.
\<close>

datatype dialog_call =
    Call_Aliases "nat option" "server_record option"
  | Call_Auth string
  | Call_Create server_create
  | Call_Patch string server_patch
  | Call_Test bool string
  | Call_Trust string host_key_prompt

record server_dialog =
  sd_open :: bool
  sd_server :: "server_record option"
  sd_form :: form_state
  sd_step :: dialog_phase
  sd_aliases :: "alias_entry list option"
  sd_aliasesError :: "string option"
  sd_activeId :: "string option"
  sd_result :: "connection_test_result option"
  sd_testError :: "string option"
  sd_trustError :: "string option"
  sd_submitError :: "string option"
  sd_saving :: bool
  sd_trusting :: bool
  sd_auth :: "server_auth_status option"
  sd_authError :: "string option"
  sd_epoch :: nat
  sd_refreshes :: nat
  sd_pending :: "dialog_call list"

definition dialog_init :: server_dialog where
  "dialog_init =
     \<lparr>sd_open = False, sd_server = None, sd_form = EMPTY_FORM, sd_step = Step_Form,
      sd_aliases = None, sd_aliasesError = None, sd_activeId = None, sd_result = None,
      sd_testError = None, sd_trustError = None, sd_submitError = None, sd_saving = False,
      sd_trusting = False, sd_auth = None, sd_authError = None, sd_epoch = 0, sd_refreshes = 0,
      sd_pending = []\<rparr>"

definition dialog_request :: "dialog_call \<Rightarrow> server_dialog \<Rightarrow> server_dialog" where
  "dialog_request c d = d\<lparr>sd_pending := sd_pending d @ [c]\<rparr>"

subsection \<open>Opening and closing\<close>

definition loadAuth :: "string \<Rightarrow> server_dialog \<Rightarrow> server_dialog" where
  "loadAuth serverId d = dialog_request (Call_Auth serverId) (d\<lparr>sd_auth := None, sd_authError := None\<rparr>)"

definition loadAuth_done :: "server_auth_status result \<Rightarrow> server_dialog \<Rightarrow> server_dialog" where
  "loadAuth_done response d =
     (case response of
        Inr status \<Rightarrow> d\<lparr>sd_auth := Some status\<rparr>
      | Inl cause \<Rightarrow> d\<lparr>sd_authError := Some (ae_detail cause)\<rparr>)"

definition reset_dialog :: "server_dialog \<Rightarrow> server_dialog" where
  "reset_dialog d =
     d\<lparr>sd_form := (case sd_server d of None \<Rightarrow> EMPTY_FORM | Some server \<Rightarrow> formFromServer server),
       sd_activeId := map_option srv_server_id (sd_server d),
       sd_step := Step_Form, sd_result := None, sd_testError := None, sd_trustError := None,
       sd_submitError := None, sd_saving := False, sd_trusting := False,
       sd_aliases := None, sd_aliasesError := None\<rparr>"

definition open_effect :: "server_dialog \<Rightarrow> server_dialog" where
  "open_effect d =
     (if \<not> sd_open d then d\<lparr>sd_auth := None, sd_authError := None\<rparr>
      else
        (let d = reset_dialog d;
             d = (case sd_server d of Some server \<Rightarrow> loadAuth (srv_server_id server) d | None \<Rightarrow> d)
         in dialog_request (Call_Aliases (Some (sd_epoch d)) (sd_server d)) d))"

text \<open>The parent renders with new props; the cleanup of the last effect cancels its alias list.\<close>

definition set_props :: "bool \<Rightarrow> server_record option \<Rightarrow> server_dialog \<Rightarrow> server_dialog" where
  "set_props open' server d =
     (if sd_open d = open' \<and> sd_server d = server then d
      else open_effect (d\<lparr>sd_open := open', sd_server := server, sd_epoch := sd_epoch d + 1\<rparr>))"

text \<open>\<open>onClose\<close> of the settings page: \<open>setDialog(null)\<close>.\<close>

definition dialog_close :: "server_dialog \<Rightarrow> server_dialog" where
  "dialog_close d = set_props False None d"

subsection \<open>The alias list\<close>

definition loadAliases :: "server_dialog \<Rightarrow> server_dialog" where
  "loadAliases d =
     dialog_request (Call_Aliases None None) (d\<lparr>sd_aliases := None, sd_aliasesError := None\<rparr>)"

definition snap_alias :: "server_record option \<Rightarrow> alias_entry list \<Rightarrow> form_state \<Rightarrow> form_state" where
  "snap_alias server aliases f =
     (case server of
        None \<Rightarrow> f
      | Some server \<Rightarrow>
          if list_ex (\<lambda>e. ali_alias e = srv_ssh_host server) aliases \<and> fs_source f = Src_Manual
          then f\<lparr>fs_source := Src_Alias, fs_alias := srv_ssh_host server\<rparr>
          else f)"

definition aliases_done ::
  "nat option \<Rightarrow> server_record option \<Rightarrow> alias_entry list result \<Rightarrow> server_dialog \<Rightarrow> server_dialog" where
  "aliases_done epoch server response d =
     (if epoch \<noteq> None \<and> epoch \<noteq> Some (sd_epoch d) then d
      else
        (case response of
           Inl cause \<Rightarrow> d\<lparr>sd_aliasesError := Some (ae_detail cause)\<rparr>
         | Inr entries' \<Rightarrow>
             (let d = d\<lparr>sd_aliases := Some entries'\<rparr>
              in if epoch = None then d else d\<lparr>sd_form := snap_alias server entries' (sd_form d)\<rparr>)))"

subsection \<open>Testing, saving, trusting\<close>

definition refreshRegistry :: "server_dialog \<Rightarrow> server_dialog" where
  "refreshRegistry d = d\<lparr>sd_refreshes := sd_refreshes d + 1\<rparr>"

definition runTest :: "bool \<Rightarrow> string \<Rightarrow> server_dialog \<Rightarrow> server_dialog" where
  "runTest trusting serverId d =
     dialog_request (Call_Test trusting serverId)
       (d\<lparr>sd_step := Step_Testing, sd_result := None, sd_testError := None, sd_trustError := None\<rparr>)"

text \<open>The outcome of a test; the \<open>finally\<close> of \<open>trustAndRetry\<close> runs after its test.\<close>

definition runTest_done :: "bool \<Rightarrow> connection_test_result result \<Rightarrow> server_dialog \<Rightarrow> server_dialog" where
  "runTest_done trusting response d =
     (let d = (case response of
                 Inr r \<Rightarrow> d\<lparr>sd_result := Some r\<rparr>
               | Inl cause \<Rightarrow> d\<lparr>sd_testError := Some (ae_detail cause)\<rparr>);
          d = d\<lparr>sd_step := Step_Result\<rparr>
      in if trusting then d\<lparr>sd_trusting := False\<rparr> else d)"

definition canSubmit :: "server_dialog \<Rightarrow> bool" where
  "canSubmit d \<longleftrightarrow> form_valid (sd_form d) \<and> \<not> sd_saving d \<and> \<not> sd_trusting d"

definition submit :: "server_dialog \<Rightarrow> server_dialog" where
  "submit d =
     (let body = buildBody (sd_server d) (sd_form d);
          d = d\<lparr>sd_submitError := None, sd_saving := True\<rparr>
      in case sd_server d of
           None \<Rightarrow> dialog_request (Call_Create body) d
         | Some server \<Rightarrow> dialog_request (Call_Patch (srv_server_id server) (patch_of_body body)) d)"

definition create_done :: "server_record result \<Rightarrow> server_dialog \<Rightarrow> server_dialog" where
  "create_done response d =
     (case response of
        Inr r \<Rightarrow>
          runTest False (srv_server_id r)
            ((refreshRegistry (d\<lparr>sd_activeId := Some (srv_server_id r)\<rparr>))\<lparr>sd_saving := False\<rparr>)
      | Inl cause \<Rightarrow> d\<lparr>sd_submitError := Some (ae_detail cause), sd_saving := False\<rparr>)"

definition patch_done :: "server_record result \<Rightarrow> server_dialog \<Rightarrow> server_dialog" where
  "patch_done response d =
     (case response of
        Inr r \<Rightarrow> dialog_close ((refreshRegistry d)\<lparr>sd_saving := False\<rparr>)
      | Inl cause \<Rightarrow> d\<lparr>sd_submitError := Some (ae_detail cause), sd_saving := False\<rparr>)"

definition trustAndRetry :: "server_dialog \<Rightarrow> server_dialog" where
  "trustAndRetry d =
     (case (sd_activeId d, Option.bind (sd_result d) ctr_pending_host_key) of
        (Some i, Some prompt) \<Rightarrow>
          dialog_request (Call_Trust i prompt) (d\<lparr>sd_trusting := True, sd_trustError := None\<rparr>)
      | _ \<Rightarrow> d)"

definition trust_done :: "string \<Rightarrow> unknown result \<Rightarrow> server_dialog \<Rightarrow> server_dialog" where
  "trust_done serverId response d =
     (case response of
        Inr _ \<Rightarrow> runTest True serverId d
      | Inl cause \<Rightarrow> d\<lparr>sd_trustError := Some (ae_detail cause), sd_trusting := False\<rparr>)"

subsection \<open>What the result step shows\<close>

datatype result_shown = Show_TestError string | Show_HostKey host_key_prompt | Show_Connected
  | Show_Failed server_status | Show_Nothing

definition result_view :: "server_dialog \<Rightarrow> result_shown" where
  "result_view d =
     (case sd_testError d of
        Some e \<Rightarrow> Show_TestError e
      | None \<Rightarrow>
          (case sd_result d of
             None \<Rightarrow> Show_Nothing
           | Some r \<Rightarrow>
               (case ctr_pending_host_key r of
                  Some prompt \<Rightarrow> Show_HostKey prompt
                | None \<Rightarrow> if ctr_ok r then Show_Connected else Show_Failed (ctr_status r))))"

datatype alias_shown = Alias_Error string | Alias_Loading | Alias_Empty | Alias_Choices "alias_entry list"

definition alias_view :: "server_dialog \<Rightarrow> alias_shown" where
  "alias_view d =
     (case sd_aliasesError d of
        Some e \<Rightarrow> Alias_Error e
      | None \<Rightarrow>
          (case sd_aliases d of
             None \<Rightarrow> Alias_Loading
           | Some es \<Rightarrow> if es = [] then Alias_Empty else Alias_Choices es))"

subsection \<open>The step relation\<close>

text \<open>
  The controls a user can reach in the state the dialog is in, the settings page opening it, and
  the responses. Escape, the overlay and the close button of the frame are always there. The
  handler of the form runs only when the browser's own check of the number fields has passed.
\<close>

datatype dialog_event =
    Ev_Open "server_record option"
  | Ev_Edit form_edit
  | Ev_RetryAliases
  | Ev_ReloadAuth
  | Ev_Submit
  | Ev_Test
  | Ev_Trust
  | Ev_Back
  | Ev_Close
  | Ev_Answer nat network

fun dialog_enabled :: "dialog_event \<Rightarrow> server_dialog \<Rightarrow> bool" where
  "dialog_enabled (Ev_Open server) d = (\<not> sd_open d)"
| "dialog_enabled (Ev_Edit e) d = (sd_open d \<and> sd_step d = Step_Form \<and> edit_possible e)"
| "dialog_enabled Ev_RetryAliases d =
     (sd_open d \<and> sd_step d = Step_Form \<and> fs_source (sd_form d) = Src_Alias \<and> sd_aliasesError d \<noteq> None)"
| "dialog_enabled Ev_ReloadAuth d = (sd_open d \<and> sd_step d = Step_Form \<and> sd_server d \<noteq> None)"
| "dialog_enabled Ev_Submit d = (sd_open d \<and> sd_step d = Step_Form)"
| "dialog_enabled Ev_Test d =
     (sd_open d \<and> sd_activeId d \<noteq> None \<and>
      (sd_step d = Step_Form \<and> sd_server d \<noteq> None \<and> \<not> sd_saving d \<or>
       sd_step d = Step_Result \<and>
         (case result_view d of Show_TestError _ \<Rightarrow> True | Show_Failed _ \<Rightarrow> True | _ \<Rightarrow> False)))"
| "dialog_enabled Ev_Trust d =
     (sd_open d \<and> sd_step d = Step_Result \<and> \<not> sd_trusting d \<and>
      (case result_view d of Show_HostKey _ \<Rightarrow> True | _ \<Rightarrow> False))"
| "dialog_enabled Ev_Back d =
     (sd_open d \<and> sd_step d = Step_Result \<and>
      (case result_view d of Show_HostKey _ \<Rightarrow> \<not> sd_trusting d | Show_Failed _ \<Rightarrow> True | _ \<Rightarrow> False))"
| "dialog_enabled Ev_Close d = sd_open d"
| "dialog_enabled (Ev_Answer k net) d = (k < length (sd_pending d))"

definition dialog_reply :: "network \<Rightarrow> dialog_call \<Rightarrow> server_dialog \<Rightarrow> server_dialog" where
  "dialog_reply net c =
     (case c of
        Call_Aliases epoch server \<Rightarrow> aliases_done epoch server (listSshAliases net)
      | Call_Auth i \<Rightarrow> loadAuth_done (getServerAuth net i)
      | Call_Create body \<Rightarrow> create_done (createServer net body)
      | Call_Patch i patch \<Rightarrow> patch_done (patchServer net i patch)
      | Call_Test trusting i \<Rightarrow> runTest_done trusting (testConnection net i)
      | Call_Trust i prompt \<Rightarrow> trust_done i (trustHostKey net i prompt))"

definition dialog_answer :: "nat \<Rightarrow> network \<Rightarrow> server_dialog \<Rightarrow> server_dialog" where
  "dialog_answer k net d =
     dialog_reply net (sd_pending d ! k)
       (d\<lparr>sd_pending := take k (sd_pending d) @ drop (Suc k) (sd_pending d)\<rparr>)"

fun dialog_apply :: "dialog_event \<Rightarrow> server_dialog \<Rightarrow> server_dialog" where
  "dialog_apply (Ev_Open server) d = set_props True server d"
| "dialog_apply (Ev_Edit e) d = d\<lparr>sd_form := form_edited e (sd_form d)\<rparr>"
| "dialog_apply Ev_RetryAliases d = loadAliases d"
| "dialog_apply Ev_ReloadAuth d =
     (case sd_server d of Some server \<Rightarrow> loadAuth (srv_server_id server) d | None \<Rightarrow> d)"
| "dialog_apply Ev_Submit d = (if server_native_ok (sd_form d) \<and> canSubmit d then submit d else d)"
| "dialog_apply Ev_Test d = (case sd_activeId d of Some i \<Rightarrow> runTest False i d | None \<Rightarrow> d)"
| "dialog_apply Ev_Trust d = trustAndRetry d"
| "dialog_apply Ev_Back d = d\<lparr>sd_step := Step_Form\<rparr>"
| "dialog_apply Ev_Close d = dialog_close d"
| "dialog_apply (Ev_Answer k net) d = dialog_answer k net d"

inductive dialog_step :: "server_dialog \<Rightarrow> dialog_event \<Rightarrow> server_dialog \<Rightarrow> bool" where
  dialog_stepI: "dialog_enabled e d \<Longrightarrow> dialog_step d e (dialog_apply e d)"

inductive_cases dialog_stepE: "dialog_step d e d'"

inductive dialog_reach :: "server_dialog \<Rightarrow> bool" where
  dialog_reach_init: "dialog_reach dialog_init"
| dialog_reach_step: "dialog_reach d \<Longrightarrow> dialog_step d e d' \<Longrightarrow> dialog_reach d'"

subsection \<open>No flag outlives its request\<close>

fun saves :: "dialog_call \<Rightarrow> bool" where
  "saves (Call_Create _) = True"
| "saves (Call_Patch _ _) = True"
| "saves _ = False"

fun tests :: "dialog_call \<Rightarrow> bool" where
  "tests (Call_Test _ _) = True"
| "tests _ = False"

fun trusts :: "dialog_call \<Rightarrow> bool" where
  "trusts (Call_Trust _ _) = True"
| "trusts (Call_Test trusting _) = trusting"
| "trusts _ = False"

fun lists_aliases :: "nat \<Rightarrow> dialog_call \<Rightarrow> bool" where
  "lists_aliases n (Call_Aliases epoch _) = (epoch = None \<or> epoch = Some n)"
| "lists_aliases n _ = False"

fun reads_auth :: "dialog_call \<Rightarrow> bool" where
  "reads_auth (Call_Auth _) = True"
| "reads_auth _ = False"

definition dialog_backed :: "server_dialog \<Rightarrow> bool" where
  "dialog_backed d \<longleftrightarrow>
     (sd_saving d \<longrightarrow> list_ex saves (sd_pending d)) \<and>
     (sd_step d = Step_Testing \<longrightarrow> list_ex tests (sd_pending d)) \<and>
     (sd_trusting d \<longrightarrow> list_ex trusts (sd_pending d)) \<and>
     (sd_open d \<and> sd_aliases d = None \<and> sd_aliasesError d = None \<longrightarrow>
        list_ex (lists_aliases (sd_epoch d)) (sd_pending d)) \<and>
     (sd_open d \<and> sd_server d \<noteq> None \<and> sd_auth d = None \<and> sd_authError d = None \<longrightarrow>
        list_ex reads_auth (sd_pending d))"

lemmas dialog_ops = dialog_request_def loadAuth_def loadAuth_done_def reset_dialog_def open_effect_def
  set_props_def dialog_close_def loadAliases_def aliases_done_def refreshRegistry_def runTest_def
  runTest_done_def submit_def create_done_def patch_done_def trustAndRetry_def trust_done_def Let_def

lemma dialog_backed_request: "dialog_backed d \<Longrightarrow> dialog_backed (dialog_request c d)"
  by (auto simp: dialog_backed_def dialog_request_def)

lemma dialog_backed_props: "dialog_backed d \<Longrightarrow> dialog_backed (set_props o' s d)"
  by (auto simp: dialog_backed_def dialog_ops split: option.splits)

text \<open>Answering a request: take it out of the queue, then do what its continuation does.\<close>

lemma dialog_backed_reply:
  assumes "dialog_backed (d\<lparr>sd_pending := c # rest\<rparr>)"
  shows "dialog_backed (dialog_reply net c (d\<lparr>sd_pending := rest\<rparr>))"
proof (cases c)
  case (Call_Patch i patch)
  let ?d = "(refreshRegistry (d\<lparr>sd_pending := rest\<rparr>))\<lparr>sd_saving := False\<rparr>"
  have "dialog_backed ?d" using assms by (auto simp: dialog_backed_def Call_Patch refreshRegistry_def)
  then have "dialog_backed (dialog_close ?d)" unfolding dialog_close_def by (rule dialog_backed_props)
  moreover have "dialog_backed (d\<lparr>sd_pending := rest, sd_submitError := m, sd_saving := False\<rparr>)" for m
    using assms by (auto simp: dialog_backed_def Call_Patch)
  ultimately show ?thesis
    by (cases "patchServer net i patch")
      (simp_all add: Call_Patch dialog_reply_def patch_done_def refreshRegistry_def)
qed (use assms in \<open>auto simp: dialog_reply_def dialog_backed_def aliases_done_def loadAuth_done_def
    create_done_def runTest_done_def trust_done_def runTest_def dialog_request_def refreshRegistry_def
    Let_def split: sum.splits\<close>)

lemma dialog_backed_pending:
  assumes "dialog_backed d" "\<And>P. list_ex P xs = list_ex P (sd_pending d)"
  shows "dialog_backed (d\<lparr>sd_pending := xs\<rparr>)"
  using assms by (simp add: dialog_backed_def)

lemma dialog_backed_moved:
  assumes "dialog_backed d" "k < length (sd_pending d)"
  shows "dialog_backed (d\<lparr>sd_pending := sd_pending d ! k # take k (sd_pending d) @ drop (Suc k) (sd_pending d)\<rparr>)"
  by (rule dialog_backed_pending [OF assms(1) list_ex_moved [OF assms(2)]])

lemma dialog_backed_apply:
  assumes d: "dialog_backed d" and e: "dialog_enabled e d"
  shows "dialog_backed (dialog_apply e d)"
proof (cases e)
  case (Ev_Open server)
  show ?thesis using dialog_backed_props [OF d] by (simp add: Ev_Open)
next
  case Ev_Close
  show ?thesis using dialog_backed_props [OF d] by (simp add: Ev_Close dialog_close_def)
next
  case (Ev_Answer k net)
  then show ?thesis using dialog_backed_reply [OF dialog_backed_moved [OF d]] e
    by (simp add: dialog_answer_def)
qed (use d in \<open>auto simp: dialog_backed_def dialog_request_def loadAliases_def loadAuth_def submit_def
    runTest_def trustAndRetry_def Let_def split: option.splits\<close>)

lemma dialog_backed_reach: "dialog_reach d \<Longrightarrow> dialog_backed d"
proof (induction rule: dialog_reach.induct)
  case dialog_reach_init
  show ?case by (simp add: dialog_init_def dialog_backed_def)
next
  case (dialog_reach_step d e d')
  then show ?case by (auto elim!: dialog_stepE intro: dialog_backed_apply)
qed

subsection \<open>What is sent\<close>

text \<open>Every body and patch in flight came from a form that could be submitted.\<close>

fun call_ok :: "dialog_call \<Rightarrow> bool" where
  "call_ok (Call_Create body) = body_ok body"
| "call_ok (Call_Patch _ patch) = patch_ok patch"
| "call_ok _ = True"

lemma calls_ok_props: "list_all call_ok (sd_pending d) \<Longrightarrow> list_all call_ok (sd_pending (set_props o' s d))"
  by (auto simp: set_props_def open_effect_def reset_dialog_def loadAuth_def dialog_request_def Let_def
      split: option.splits)

lemma calls_ok_submit: "list_all call_ok (sd_pending d) \<Longrightarrow> canSubmit d \<Longrightarrow> list_all call_ok (sd_pending (submit d))"
  using valid_body [of "sd_form d" "sd_server d"] valid_patch [of "sd_form d" "sd_server d"]
  by (auto simp: submit_def canSubmit_def dialog_request_def Let_def split: option.splits)

lemma calls_ok_reply:
  "list_all call_ok (sd_pending d) \<Longrightarrow> list_all call_ok (sd_pending (dialog_reply net c d))"
proof (cases c)
  case (Call_Patch i patch)
  assume "list_all call_ok (sd_pending d)"
  then show ?thesis using calls_ok_props [of "(refreshRegistry d)\<lparr>sd_saving := False\<rparr>"]
    by (cases "patchServer net i patch")
      (simp_all add: Call_Patch dialog_reply_def patch_done_def dialog_close_def refreshRegistry_def)
qed (auto simp: dialog_reply_def aliases_done_def loadAuth_done_def create_done_def runTest_done_def
    trust_done_def runTest_def dialog_request_def refreshRegistry_def Let_def split: sum.splits)

lemma calls_ok_apply:
  "list_all call_ok (sd_pending d) \<Longrightarrow> list_all call_ok (sd_pending (dialog_apply e d))"
proof (cases e)
  case (Ev_Answer k net)
  assume "list_all call_ok (sd_pending d)"
  then show ?thesis by (simp add: Ev_Answer dialog_answer_def calls_ok_reply list_all_removed del: list_all_append)
qed (auto simp: calls_ok_props calls_ok_submit dialog_close_def loadAliases_def loadAuth_def runTest_def
    trustAndRetry_def dialog_request_def split: option.splits)

lemma calls_ok_reach: "dialog_reach d \<Longrightarrow> list_all call_ok (sd_pending d)"
proof (induction rule: dialog_reach.induct)
  case dialog_reach_init
  show ?case by (simp add: dialog_init_def)
next
  case (dialog_reach_step d e d')
  then show ?case by (auto elim!: dialog_stepE intro: calls_ok_apply)
qed

subsection \<open>Answers that come late\<close>

text \<open>
  Nothing ties a test, a save or an auth status to the server that is on screen when it is
  answered: the dialog for one server shows, and acts on, what was asked about another.
\<close>

lemma late_test:
  assumes "k < length (sd_pending d)" "sd_pending d ! k = Call_Test False a"
    and "sd_open d" "sd_activeId d = Some b" "\<not> sd_trusting d" "sd_testError d = None"
    and "testConnection net a = Inr r" "ctr_pending_host_key r = Some prompt"
  shows "dialog_enabled Ev_Trust (dialog_apply (Ev_Answer k net) d) \<and>
    Call_Trust b prompt \<in> set (sd_pending (dialog_apply Ev_Trust (dialog_apply (Ev_Answer k net) d)))"
  using assms
  by (simp add: dialog_answer_def dialog_reply_def runTest_done_def result_view_def trustAndRetry_def
      dialog_request_def)

lemma late_save:
  assumes "k < length (sd_pending d)" "sd_pending d ! k = Call_Patch a patch" "patchServer net a patch = Inr r"
  shows "\<not> sd_open (dialog_apply (Ev_Answer k net) d)"
  using assms
  by (simp add: dialog_answer_def dialog_reply_def patch_done_def dialog_close_def set_props_def
      open_effect_def refreshRegistry_def)

lemma late_auth:
  assumes "k < length (sd_pending d)" "sd_pending d ! k = Call_Auth a" "getServerAuth net a = Inr status"
  shows "sd_auth (dialog_apply (Ev_Answer k net) d) = Some status \<and>
    sd_server (dialog_apply (Ev_Answer k net) d) = sd_server d \<and>
    sd_open (dialog_apply (Ev_Answer k net) d) = sd_open d"
  using assms by (simp add: dialog_answer_def dialog_reply_def loadAuth_done_def)

text \<open>
  Adding a server whose first test fails: going back to the form and submitting it again creates
  a second server, the first one stays.
\<close>

lemma submit_again:
  assumes "sd_open d" "sd_server d = None" "sd_step d = Step_Result"
    and "result_view d = Show_Failed status" "form_valid (sd_form d)" "server_native_ok (sd_form d)" "\<not> sd_saving d" "\<not> sd_trusting d"
  shows "dialog_enabled Ev_Back d \<and> dialog_enabled Ev_Submit (dialog_apply Ev_Back d) \<and>
    Call_Create (buildBody None (sd_form d)) \<in>
      set (sd_pending (dialog_apply Ev_Submit (dialog_apply Ev_Back d)))"
  using assms by (simp add: canSubmit_def submit_def dialog_request_def)

end
