(* ===== verification/LocalAuth.thy ===== *)
theory LocalAuth
  imports Api
begin

text \<open>
  The password flow of the server dialog (\<open>LocalAuthSection\<close> of
  \<open>features/settings/ServerDialog.tsx\<close>): one mount of the section, the authentication facts it
  is given, the password being typed and the request that stores or clears it. \<open>la_reloads\<close>
  counts the reloads of the facts it asks for.
\<close>

subsection \<open>State and operations\<close>

datatype password_ui = Ui_Idle bool | Ui_Saving | Ui_Clearing

datatype password_action = Pw_Save | Pw_Clear

datatype password_call = Call_SetPassword string | Call_DeletePassword

record local_auth =
  la_serverId :: string
  la_auth :: "server_auth_status option"
  la_authError :: "string option"
  la_editing :: bool
  la_password :: string
  la_ui :: password_ui
  la_actionError :: "string option"
  la_confirmingClear :: bool
  la_lastAction :: "password_action option"
  la_reloads :: nat
  la_pending :: "password_call list"

definition LocalAuthSection :: "string \<Rightarrow> local_auth" where
  "LocalAuthSection serverId =
     \<lparr>la_serverId = serverId, la_auth = None, la_authError = None, la_editing = False,
      la_password = '''', la_ui = Ui_Idle False, la_actionError = None, la_confirmingClear = False,
      la_lastAction = None, la_reloads = 0, la_pending = []\<rparr>"

definition la_configured :: "local_auth \<Rightarrow> bool" where
  "la_configured s \<longleftrightarrow> (case la_auth s of Some auth \<Rightarrow> sas_password_configured auth | None \<Rightarrow> False)"

definition la_busy :: "local_auth \<Rightarrow> bool" where
  "la_busy s \<longleftrightarrow> la_ui s = Ui_Saving \<or> la_ui s = Ui_Clearing"

text \<open>The facts are on screen once they are loaded.\<close>

definition la_shown :: "local_auth \<Rightarrow> bool" where
  "la_shown s \<longleftrightarrow> la_authError s = None \<and> la_auth s \<noteq> None"

definition edit_password :: "local_auth \<Rightarrow> local_auth" where
  "edit_password s = s\<lparr>la_password := '''', la_editing := True\<rparr>"

definition cancel_password :: "local_auth \<Rightarrow> local_auth" where
  "cancel_password s = s\<lparr>la_password := '''', la_editing := False\<rparr>"

definition save_password :: "local_auth \<Rightarrow> local_auth" where
  "save_password s =
     (let s = s\<lparr>la_lastAction := Some Pw_Save\<rparr>
      in if la_password s = '''' then s
         else s\<lparr>la_ui := Ui_Saving, la_actionError := None,
                la_pending := la_pending s @ [Call_SetPassword (la_password s)]\<rparr>)"

definition reload_auth :: "local_auth \<Rightarrow> local_auth" where
  "reload_auth s = s\<lparr>la_reloads := la_reloads s + 1\<rparr>"

definition save_password_done :: "password_credential_status result \<Rightarrow> local_auth \<Rightarrow> local_auth" where
  "save_password_done response s =
     (case response of
        Inr _ \<Rightarrow> reload_auth (s\<lparr>la_password := '''', la_editing := False, la_ui := Ui_Idle False\<rparr>)
      | Inl cause \<Rightarrow> s\<lparr>la_actionError := Some (ae_detail cause), la_ui := Ui_Idle True\<rparr>)"

definition clear_password :: "local_auth \<Rightarrow> local_auth" where
  "clear_password s =
     s\<lparr>la_lastAction := Some Pw_Clear, la_ui := Ui_Clearing, la_actionError := None,
       la_pending := la_pending s @ [Call_DeletePassword]\<rparr>"

definition clear_password_done :: "unit result \<Rightarrow> local_auth \<Rightarrow> local_auth" where
  "clear_password_done response s =
     (case response of
        Inr _ \<Rightarrow> reload_auth (s\<lparr>la_confirmingClear := False, la_ui := Ui_Idle False\<rparr>)
      | Inl cause \<Rightarrow> s\<lparr>la_actionError := Some (ae_detail cause), la_ui := Ui_Idle False\<rparr>)"

text \<open>The word of the error line is the action that failed.\<close>

definition password_error_word :: "(string \<Rightarrow> string) \<Rightarrow> local_auth \<Rightarrow> string" where
  "password_error_word t s =
     (if la_lastAction s = Some Pw_Clear then t ''serverAuth.passwordClearFailed''
      else t ''serverAuth.passwordSaveFailed'')"

datatype la_event =
    La_Facts "server_auth_status option" "string option"
  | La_Edit
  | La_Type string
  | La_Save
  | La_Cancel
  | La_AskClear bool
  | La_Clear
  | La_Answer nat network

fun la_enabled :: "la_event \<Rightarrow> local_auth \<Rightarrow> bool" where
  "la_enabled (La_Facts auth e) s = True"
| "la_enabled La_Edit s = (la_shown s \<and> \<not> la_editing s \<and> \<not> la_busy s)"
| "la_enabled (La_Type v) s = (la_shown s \<and> la_editing s \<and> \<not> la_busy s)"
| "la_enabled La_Save s = (la_shown s \<and> la_editing s \<and> \<not> la_busy s \<and> la_password s \<noteq> '''')"
| "la_enabled La_Cancel s = (la_shown s \<and> la_editing s \<and> \<not> la_busy s)"
| "la_enabled (La_AskClear c) s =
     (la_shown s \<and> la_configured s \<and> \<not> la_editing s \<and> \<not> la_busy s \<and> la_confirmingClear s \<noteq> c)"
| "la_enabled La_Clear s =
     (la_shown s \<and> la_configured s \<and> \<not> la_editing s \<and> \<not> la_busy s \<and> la_confirmingClear s)"
| "la_enabled (La_Answer k net) s = (k < length (la_pending s))"

definition la_answer :: "nat \<Rightarrow> network \<Rightarrow> local_auth \<Rightarrow> local_auth" where
  "la_answer k net s =
     (let rest = s\<lparr>la_pending := take k (la_pending s) @ drop (Suc k) (la_pending s)\<rparr>
      in case la_pending s ! k of
           Call_SetPassword p \<Rightarrow> save_password_done (setPassword net (la_serverId s) p) rest
         | Call_DeletePassword \<Rightarrow> clear_password_done (deletePassword net (la_serverId s)) rest)"

fun la_apply :: "la_event \<Rightarrow> local_auth \<Rightarrow> local_auth" where
  "la_apply (La_Facts auth e) s = s\<lparr>la_auth := auth, la_authError := e\<rparr>"
| "la_apply La_Edit s = edit_password s"
| "la_apply (La_Type v) s = s\<lparr>la_password := v\<rparr>"
| "la_apply La_Save s = save_password s"
| "la_apply La_Cancel s = cancel_password s"
| "la_apply (La_AskClear c) s = s\<lparr>la_confirmingClear := c\<rparr>"
| "la_apply La_Clear s = clear_password s"
| "la_apply (La_Answer k net) s = la_answer k net s"

inductive la_step :: "local_auth \<Rightarrow> la_event \<Rightarrow> local_auth \<Rightarrow> bool" where
  la_stepI: "la_enabled e s \<Longrightarrow> la_step s e (la_apply e s)"

inductive_cases la_stepE: "la_step s e s'"

inductive la_reach :: "local_auth \<Rightarrow> bool" where
  la_reach_init: "la_reach (LocalAuthSection serverId)"
| la_reach_step: "la_reach s \<Longrightarrow> la_step s e s' \<Longrightarrow> la_reach s'"

subsection \<open>The secret is confined\<close>

text \<open>
  A typed password exists only while its editor is open, it is the one being stored, and one
  request at a time is in flight: the one the section says is running.
\<close>

definition la_inv :: "local_auth \<Rightarrow> bool" where
  "la_inv s \<longleftrightarrow>
     (la_password s \<noteq> '''' \<longrightarrow> la_editing s) \<and>
     la_pending s =
       (case la_ui s of
          Ui_Saving \<Rightarrow> [Call_SetPassword (la_password s)]
        | Ui_Clearing \<Rightarrow> [Call_DeletePassword]
        | Ui_Idle _ \<Rightarrow> []) \<and>
     (la_ui s = Ui_Saving \<longrightarrow> la_password s \<noteq> '''') \<and>
     (la_ui s = Ui_Clearing \<longrightarrow> \<not> la_editing s)"

lemma la_inv_apply: "la_inv s \<Longrightarrow> la_enabled e s \<Longrightarrow> la_inv (la_apply e s)"
proof (cases e)
  case (La_Answer k net)
  assume s: "la_inv s" and "la_enabled e s"
  then have k: "k < length (la_pending s)" by (simp add: La_Answer)
  then have "k = 0" "la_ui s = Ui_Saving \<or> la_ui s = Ui_Clearing"
    using s by (auto simp: la_inv_def split: password_ui.splits)
  then show ?thesis using s
    by (auto simp: La_Answer la_answer_def la_inv_def save_password_done_def clear_password_done_def
        reload_auth_def Let_def split: sum.splits)
qed (auto simp: la_inv_def la_busy_def edit_password_def cancel_password_def save_password_def
    clear_password_def split: password_ui.splits)

lemma la_inv_reach: "la_reach s \<Longrightarrow> la_inv s"
proof (induction rule: la_reach.induct)
  case (la_reach_init serverId)
  show ?case by (simp add: LocalAuthSection_def la_inv_def)
next
  case (la_reach_step s e s')
  then show ?case by (auto elim!: la_stepE intro: la_inv_apply)
qed

text \<open>A stored password is gone from the section, a refused one stays in its editor.\<close>

lemma saved_password:
  assumes "la_reach s" "la_ui s = Ui_Saving"
  shows "case setPassword net (la_serverId s) (la_password s) of
      Inr _ \<Rightarrow> la_password (la_apply (La_Answer 0 net) s) = '''' \<and> la_pending (la_apply (La_Answer 0 net) s) = []
    | Inl e \<Rightarrow> la_password (la_apply (La_Answer 0 net) s) = la_password s \<and>
        la_editing (la_apply (La_Answer 0 net) s) \<and>
        la_actionError (la_apply (La_Answer 0 net) s) = Some (ae_detail e)"
  using la_inv_reach [OF assms(1)] assms(2)
  by (auto simp: la_inv_def la_answer_def save_password_done_def reload_auth_def Let_def split: sum.splits)

end
