(* ===== verification/DirectAuth.thy ===== *)
theory DirectAuth
  imports SyncDialog Api Requests
begin

text \<open>
  Direct transfer between two servers, as the settings dialog shows it: the reason taxonomy of
  \<open>features/settings/directAuthUi.ts\<close>, one row per source server
  (\<open>DirectAuthPairRow.tsx\<close>), and the section that owns the rows and the list of pairs
  (\<open>DirectTransferSection\<close> of \<open>ServerDialog.tsx\<close>). A row copies the peer it is given into
  its own state and copies again when it is given another object, so objects have an identity
  here: a number, new for every object the code builds.
\<close>

subsection \<open>Reasons\<close>

definition reason_words :: "(string \<times> string) list" where
  "reason_words =
     [(''route_unreachable'', ''serverAuth.reasonRouteUnreachable''),
      (''host_key_unknown'', ''serverAuth.reasonHostKeyUnknown''),
      (''host_key_mismatch'', ''serverAuth.reasonHostKeyMismatch''),
      (''authentication_failed'', ''serverAuth.reasonAuthenticationFailed''),
      (''rsync_missing_source'', ''serverAuth.reasonRsyncMissingSource''),
      (''rsync_missing_target'', ''serverAuth.reasonRsyncMissingTarget''),
      (''dedicated_key_missing'', ''serverAuth.reasonDedicatedKeyMissing''),
      (''authorized_key_missing'', ''serverAuth.reasonAuthorizedKeyMissing''),
      (''remote_key_invalid'', ''serverAuth.reasonRemoteKeyInvalid''),
      (''source_known_hosts_missing'', ''serverAuth.reasonSourceKnownHostsMissing''),
      (''keygen_missing_source'', ''serverAuth.reasonKeygenMissingSource'')]"

definition reasonText :: "dict \<Rightarrow> string option \<Rightarrow> string option" where
  "reasonText t reason =
     (case reason of
        None \<Rightarrow> None
      | Some r \<Rightarrow>
          if r = '''' then None
          else (case map_of reason_words r of Some w \<Rightarrow> Some (t w) | None \<Rightarrow> Some r))"

definition SETUP_REASONS :: "string list" where
  "SETUP_REASONS =
     [''authentication_failed'', ''host_key_unknown'', ''dedicated_key_missing'',
      ''authorized_key_missing'', ''source_known_hosts_missing'', ''remote_key_invalid'']"

definition setupReasonAllowed :: "string option \<Rightarrow> bool" where
  "setupReasonAllowed reason \<longleftrightarrow> (case reason of None \<Rightarrow> False | Some r \<Rightarrow> r \<in> set SETUP_REASONS)"

subsection \<open>One row\<close>

datatype direct_auth_action = Da_Check | Da_Setup | Da_Revoke

record da_row =
  dr_current :: direct_auth_peer
  dr_busy :: "direct_auth_action option"
  dr_error :: "string option"
  dr_confirmingRevoke :: bool
  dr_lastPair :: string
  dr_peer :: nat

definition pair_name :: "string \<Rightarrow> string \<Rightarrow> string" where
  "pair_name sourceId targetId = sourceId @ ''>'' @ targetId"

text \<open>A row mounts with the peer object \<open>n\<close>.\<close>

definition DirectAuthPairRow :: "string \<Rightarrow> nat \<Rightarrow> direct_auth_peer \<Rightarrow> da_row" where
  "DirectAuthPairRow pair n peer =
     \<lparr>dr_current = peer, dr_busy = None, dr_error = None, dr_confirmingRevoke = False,
      dr_lastPair = pair, dr_peer = n\<rparr>"

text \<open>The sync effect, run when the peer object or the pair changed.\<close>

definition row_sync :: "string \<Rightarrow> nat \<Rightarrow> direct_auth_peer \<Rightarrow> da_row \<Rightarrow> da_row" where
  "row_sync pair n peer r =
     (let same = (dr_peer r = n \<and> dr_lastPair r = pair); r = r\<lparr>dr_peer := n\<rparr>
      in if same \<or> dr_busy r \<noteq> None then r
         else
           (let r = r\<lparr>dr_current := peer, dr_error := None\<rparr>
            in if dr_lastPair r \<noteq> pair then r\<lparr>dr_lastPair := pair, dr_confirmingRevoke := False\<rparr>
               else r))"

definition run :: "direct_auth_action \<Rightarrow> da_row \<Rightarrow> da_row" where
  "run action r = r\<lparr>dr_busy := Some action, dr_error := None\<rparr>"

definition run_done :: "direct_auth_peer result \<Rightarrow> da_row \<Rightarrow> da_row" where
  "run_done response r =
     (case response of
        Inr fresh \<Rightarrow> r\<lparr>dr_current := fresh, dr_busy := None, dr_confirmingRevoke := False\<rparr>
      | Inl cause \<Rightarrow>
          r\<lparr>dr_error := Some (ae_detail cause), dr_busy := None, dr_confirmingRevoke := False\<rparr>)"

definition da_checked :: "direct_auth_peer \<Rightarrow> bool" where
  "da_checked p \<longleftrightarrow> dap_checked_at p \<noteq> None \<or> dap_available p \<noteq> None"

definition da_statusWord :: "dict \<Rightarrow> direct_auth_peer \<Rightarrow> string" where
  "da_statusWord t p =
     (if dap_configured p \<and> dap_method p = Some M_Sgc_key then t ''serverAuth.directKeyOk''
      else if dap_configured p \<and> dap_method p = Some M_Native then t ''serverAuth.directNativeOk''
      else if da_checked p \<and> dap_available p = Some True \<and> dap_method p = Some M_Native
        then t ''serverAuth.directNativeOk''
      else if da_checked p \<and> dap_available p = Some False then t ''serverAuth.directUnavailable''
      else t ''serverAuth.directNotConfigured'')"

definition da_tone :: "direct_auth_peer \<Rightarrow> chip_tone" where
  "da_tone p =
     (if da_checked p \<and> dap_available p = Some False then Tone_Crit
      else if dap_configured p \<and> dap_method p \<noteq> None then Tone_Ok
      else if da_checked p \<and> dap_available p = Some True \<and> dap_method p = Some M_Native then Tone_Ok
      else Tone_Neutral)"

definition da_nativeReady :: "direct_auth_peer \<Rightarrow> bool" where
  "da_nativeReady p \<longleftrightarrow>
     \<not> dap_configured p \<and> dap_method p = Some M_Native \<and> dap_available p = Some True"

definition da_cannotAuth :: "direct_auth_peer \<Rightarrow> bool" where
  "da_cannotAuth p \<longleftrightarrow> \<not> dap_configured p \<and> da_checked p \<and> dap_available p = Some False"

definition da_setupAllowed :: "direct_auth_peer \<Rightarrow> bool" where
  "da_setupAllowed p \<longleftrightarrow> da_cannotAuth p \<and> setupReasonAllowed (dap_reason p)"

text \<open>The outcome lines below the row, in the order they appear.\<close>

definition da_banners :: "dict \<Rightarrow> direct_auth_peer \<Rightarrow> string list" where
  "da_banners t p =
     (if da_checked p \<and> dap_available p = Some False \<and> dap_configured p
        then [t ''serverAuth.directCheckFailed''] else [])
     @ (if da_checked p \<and> dap_available p = Some True \<and> (dap_configured p \<or> dap_method p = Some M_Native)
        then [t ''serverAuth.directVerified''] else [])
     @ (if dap_configured p \<and> dap_method p = Some M_Sgc_key \<and> \<not> da_checked p
        then [t ''serverAuth.directKeyReady''] else [])
     @ (if da_nativeReady p then [t ''serverAuth.directNativeReady''] else [])
     @ (if da_cannotAuth p \<and> \<not> da_nativeReady p then [t ''serverAuth.directCannotAuth''] else [])"

datatype row_button = Btn_Check | Btn_Setup | Btn_Recheck | Btn_Revoke | Btn_RevokeConfirm | Btn_Cancel

definition row_buttons :: "da_row \<Rightarrow> row_button list" where
  "row_buttons r =
     (if dr_busy r \<noteq> None then []
      else if dr_confirmingRevoke r then [Btn_RevokeConfirm, Btn_Cancel]
      else (if dap_configured (dr_current r) then [] else [Btn_Check])
        @ (if da_setupAllowed (dr_current r) then [Btn_Setup] else [])
        @ (if dap_configured (dr_current r) then [Btn_Recheck, Btn_Revoke] else []))"

text \<open>What a button does: an action to run, or a change of the row alone.\<close>

fun button_action :: "row_button \<Rightarrow> direct_auth_action option" where
  "button_action Btn_Check = Some Da_Check"
| "button_action Btn_Recheck = Some Da_Check"
| "button_action Btn_Setup = Some Da_Setup"
| "button_action Btn_RevokeConfirm = Some Da_Revoke"
| "button_action _ = None"

definition press_row :: "row_button \<Rightarrow> da_row \<Rightarrow> da_row" where
  "press_row b r =
     (case button_action b of
        Some action \<Rightarrow> run action r
      | None \<Rightarrow> r\<lparr>dr_confirmingRevoke := (b = Btn_Revoke)\<rparr>)"

subsection \<open>The section\<close>

text \<open>
  One mount of the section: the pairs with the identity of their objects, and the mounted rows
  with the identity of their instance. The answer of an action reaches the instance that
  started it and no other.
\<close>

datatype da_call = Da_List | Da_Action string nat direct_auth_action

record da_section =
  ds_targetId :: string
  ds_servers :: "server_record list"
  ds_pairs :: "(nat \<times> direct_auth_pair) list option"
  ds_listError :: "string option"
  ds_rows :: "(string \<times> nat \<times> da_row) list"
  ds_next :: nat
  ds_pending :: "da_call list"

definition peer_of_pair :: "direct_auth_pair \<Rightarrow> direct_auth_peer" where
  "peer_of_pair p =
     \<lparr>dap_target_server_id = dpr_target_server_id p, dap_configured = dpr_configured p,
      dap_method = dpr_method p, dap_available = dpr_available p, dap_reason = dpr_reason p,
      dap_checked_at = dpr_checked_at p\<rparr>"

text \<open>\<open>{ ...pair, ...fresh }\<close>.\<close>

definition refreshed_pair :: "direct_auth_peer \<Rightarrow> direct_auth_pair \<Rightarrow> direct_auth_pair" where
  "refreshed_pair fresh p =
     \<lparr>dpr_source_server_id = dpr_source_server_id p, dpr_target_server_id = dap_target_server_id fresh,
      dpr_configured = dap_configured fresh, dpr_method = dap_method fresh,
      dpr_available = dap_available fresh, dpr_reason = dap_reason fresh,
      dpr_checked_at = dap_checked_at fresh\<rparr>"

definition UNCHECKED :: "string \<Rightarrow> direct_auth_peer" where
  "UNCHECKED targetId =
     \<lparr>dap_target_server_id = targetId, dap_configured = False, dap_method = None,
      dap_available = None, dap_reason = None, dap_checked_at = None\<rparr>"

definition da_sources :: "da_section \<Rightarrow> server_record list" where
  "da_sources s = filter (\<lambda>srv. srv_enabled srv \<and> srv_server_id srv \<noteq> ds_targetId s) (ds_servers s)"

definition incomingPairs :: "da_section \<Rightarrow> (nat \<times> direct_auth_pair) list" where
  "incomingPairs s =
     filter (\<lambda>(n, p). dpr_target_server_id p = ds_targetId s) (case ds_pairs s of None \<Rightarrow> [] | Some ps \<Rightarrow> ps)"

text \<open>The peer object of a row: the listed pair, or an object built in this very render.\<close>

definition listed_pair :: "da_section \<Rightarrow> string \<Rightarrow> (nat \<times> direct_auth_pair) option" where
  "listed_pair s sid = find (\<lambda>(n, p). dpr_source_server_id p = sid) (incomingPairs s)"

definition row_peer :: "da_section \<Rightarrow> string \<Rightarrow> nat \<Rightarrow> nat \<times> direct_auth_peer" where
  "row_peer s sid fresh_id =
     (case listed_pair s sid of
        Some (n, p) \<Rightarrow> (n, peer_of_pair p)
      | None \<Rightarrow> (fresh_id, UNCHECKED (ds_targetId s)))"

definition rendered_row ::
  "da_section \<Rightarrow> nat \<Rightarrow> string \<Rightarrow> string \<times> nat \<times> da_row" where
  "rendered_row s fresh_id sid =
     (let (n, peer) = row_peer s sid fresh_id; pair = pair_name sid (ds_targetId s)
      in case map_of (ds_rows s) sid of
           Some (inst, r) \<Rightarrow> (sid, inst, row_sync pair n peer r)
         | None \<Rightarrow> (sid, fresh_id, DirectAuthPairRow pair n peer))"

fun rendered_rows :: "da_section \<Rightarrow> nat \<Rightarrow> string list \<Rightarrow> (string \<times> nat \<times> da_row) list" where
  "rendered_rows s fresh_id [] = []"
| "rendered_rows s fresh_id (sid # sids) =
     rendered_row s fresh_id sid # rendered_rows s (Suc fresh_id) sids"

definition section_render :: "da_section \<Rightarrow> da_section" where
  "section_render s =
     (let sids = map srv_server_id (da_sources s)
      in if ds_listError s \<noteq> None \<or> ds_pairs s = None then s\<lparr>ds_rows := []\<rparr>
         else s\<lparr>ds_rows := rendered_rows s (ds_next s) sids, ds_next := ds_next s + length sids\<rparr>)"

definition DirectTransferSection :: "server_record list \<Rightarrow> string \<Rightarrow> da_section" where
  "DirectTransferSection servers targetId =
     \<lparr>ds_targetId = targetId, ds_servers = servers, ds_pairs = None, ds_listError = None,
      ds_rows = [], ds_next = 0, ds_pending = [Da_List]\<rparr>"

definition list_retry :: "da_section \<Rightarrow> da_section" where
  "list_retry s = section_render (s\<lparr>ds_listError := None, ds_pending := ds_pending s @ [Da_List]\<rparr>)"

definition list_done :: "direct_auth_list result \<Rightarrow> da_section \<Rightarrow> da_section" where
  "list_done response s =
     section_render
       (case response of
          Inr l \<Rightarrow>
            s\<lparr>ds_pairs := Some (enumerate (ds_next s) (dal_pairs l)),
              ds_next := ds_next s + length (dal_pairs l)\<rparr>
        | Inl cause \<Rightarrow> s\<lparr>ds_listError := Some (ae_detail cause)\<rparr>)"

definition servers_changed :: "server_record list \<Rightarrow> da_section \<Rightarrow> da_section" where
  "servers_changed servers s = section_render (s\<lparr>ds_servers := servers\<rparr>)"

definition update_row :: "string \<Rightarrow> nat \<Rightarrow> (da_row \<Rightarrow> da_row) \<Rightarrow> da_section \<Rightarrow> da_section" where
  "update_row sid inst f s =
     s\<lparr>ds_rows := map (\<lambda>(sid', inst', r). if sid' = sid \<and> inst' = inst then (sid', inst', f r)
                                  else (sid', inst', r)) (ds_rows s)\<rparr>"

definition press_button :: "string \<Rightarrow> nat \<Rightarrow> row_button \<Rightarrow> da_section \<Rightarrow> da_section" where
  "press_button sid inst b s =
     (let s = update_row sid inst (press_row b) s
      in case button_action b of
           Some action \<Rightarrow> s\<lparr>ds_pending := ds_pending s @ [Da_Action sid inst action]\<rparr>
         | None \<Rightarrow> s)"

text \<open>\<open>runAction\<close>: the request, then the list, then the row that awaits it; one render shows all.\<close>

definition action_response ::
  "network \<Rightarrow> string \<Rightarrow> string \<Rightarrow> direct_auth_action \<Rightarrow> direct_auth_peer result" where
  "action_response net sourceId targetId action =
     (case action of
        Da_Check \<Rightarrow> checkDirectAuth net sourceId targetId
      | Da_Setup \<Rightarrow> setupDirectKey net sourceId targetId
      | Da_Revoke \<Rightarrow>
          (case revokeDirectAuth net sourceId targetId of
             Inr _ \<Rightarrow> Inr (UNCHECKED targetId)
           | Inl e \<Rightarrow> Inl e))"

definition refresh_pairs :: "string \<Rightarrow> direct_auth_peer \<Rightarrow> da_section \<Rightarrow> da_section" where
  "refresh_pairs sid fresh s =
     (let ps = (case ds_pairs s of None \<Rightarrow> [] | Some ps \<Rightarrow> ps);
          hit = (\<lambda>p. dpr_source_server_id p = sid \<and> dpr_target_server_id p = ds_targetId s)
      in s\<lparr>ds_pairs := Some (map (\<lambda>(k, n, p). if hit p then (ds_next s + k, refreshed_pair fresh p)
                                        else (n, p)) (enumerate 0 ps)),
           ds_next := ds_next s + length ps\<rparr>)"

definition action_done ::
  "string \<Rightarrow> nat \<Rightarrow> direct_auth_peer result \<Rightarrow> da_section \<Rightarrow> da_section" where
  "action_done sid inst response s =
     (case response of
        Inr fresh \<Rightarrow> section_render (update_row sid inst (run_done response) (refresh_pairs sid fresh s))
      | Inl cause \<Rightarrow> update_row sid inst (run_done response) s)"

definition section_answer :: "nat \<Rightarrow> network \<Rightarrow> da_section \<Rightarrow> da_section" where
  "section_answer k net s =
     (let rest = s\<lparr>ds_pending := take k (ds_pending s) @ drop (Suc k) (ds_pending s)\<rparr>
      in case ds_pending s ! k of
           Da_List \<Rightarrow> list_done (getDirectAuth net (ds_targetId s)) rest
         | Da_Action sid inst action \<Rightarrow>
             action_done sid inst (action_response net sid (ds_targetId s) action) rest)"

datatype section_event =
    Se_Servers "server_record list"
  | Se_Retry
  | Se_Press string nat row_button
  | Se_Answer nat network

fun section_enabled :: "section_event \<Rightarrow> da_section \<Rightarrow> bool" where
  "section_enabled (Se_Servers servers) s = distinct (map srv_server_id servers)"
| "section_enabled Se_Retry s = (ds_listError s \<noteq> None)"
| "section_enabled (Se_Press sid inst b) s =
     (case map_of (ds_rows s) sid of Some (i, r) \<Rightarrow> i = inst \<and> b \<in> set (row_buttons r) | None \<Rightarrow> False)"
| "section_enabled (Se_Answer k net) s = (k < length (ds_pending s))"

fun section_apply :: "section_event \<Rightarrow> da_section \<Rightarrow> da_section" where
  "section_apply (Se_Servers servers) s = servers_changed servers s"
| "section_apply Se_Retry s = list_retry s"
| "section_apply (Se_Press sid inst b) s = press_button sid inst b s"
| "section_apply (Se_Answer k net) s = section_answer k net s"

inductive section_step :: "da_section \<Rightarrow> section_event \<Rightarrow> da_section \<Rightarrow> bool" where
  section_stepI: "section_enabled e s \<Longrightarrow> section_step s e (section_apply e s)"

inductive_cases section_stepE: "section_step s e s'"

inductive section_reach :: "da_section \<Rightarrow> bool" where
  section_reach_init:
    "distinct (map srv_server_id servers) \<Longrightarrow> section_reach (DirectTransferSection servers targetId)"
| section_reach_step: "section_reach s \<Longrightarrow> section_step s e s' \<Longrightarrow> section_reach s'"

subsection \<open>One request per row\<close>

text \<open>The requests in flight of a mounted row are exactly the action it shows as running.\<close>

definition for_row :: "string \<Rightarrow> nat \<Rightarrow> da_call \<Rightarrow> bool" where
  "for_row sid inst c = (case c of Da_Action s i _ \<Rightarrow> s = sid \<and> i = inst | Da_List \<Rightarrow> False)"

definition row_requests :: "string \<Rightarrow> nat \<Rightarrow> da_row \<Rightarrow> da_call list" where
  "row_requests sid inst r = (case dr_busy r of Some a \<Rightarrow> [Da_Action sid inst a] | None \<Rightarrow> [])"

fun call_below :: "nat \<Rightarrow> da_call \<Rightarrow> bool" where
  "call_below n (Da_Action _ inst _) = (inst < n)"
| "call_below n Da_List = True"

definition rows_ok :: "da_section \<Rightarrow> bool" where
  "rows_ok s \<longleftrightarrow>
     (\<forall>(sid, inst, r) \<in> set (ds_rows s).
        inst < ds_next s \<and> filter (for_row sid inst) (ds_pending s) = row_requests sid inst r)"

definition section_inv :: "da_section \<Rightarrow> bool" where
  "section_inv s \<longleftrightarrow>
     rows_ok s \<and> distinct (map fst (ds_rows s)) \<and> distinct (map srv_server_id (ds_servers s)) \<and>
     list_all (call_below (ds_next s)) (ds_pending s)"

lemma call_below_mono: "n \<le> m \<Longrightarrow> call_below n c \<Longrightarrow> call_below m c"
  by (cases c) auto

lemma row_sync_busy [simp]: "dr_busy (row_sync pair n peer r) = dr_busy r"
  by (simp add: row_sync_def Let_def)

lemma rendered_rows_ids: "map fst (rendered_rows s n sids) = sids"
  by (induction sids arbitrary: n) (auto simp: rendered_row_def Let_def split: prod.splits option.splits)

lemma rendered_rows_elem:
  assumes "(sid, inst, r) \<in> set (rendered_rows s n sids)"
  shows "(\<exists>r'. (sid, inst, r') \<in> set (ds_rows s) \<and> dr_busy r = dr_busy r') \<or>
     n \<le> inst \<and> inst < n + length sids \<and> dr_busy r = None"
  using assms
proof (induction sids arbitrary: n)
  case (Cons x xs)
  show ?case
  proof (cases "(sid, inst, r) = rendered_row s n x")
    case True
    then show ?thesis
      by (auto simp: rendered_row_def DirectAuthPairRow_def Let_def dest: map_of_SomeD
          split: prod.splits option.splits)
  next
    case False
    then show ?thesis using Cons by fastforce
  qed
qed simp

lemma section_inv_render: "section_inv s \<Longrightarrow> section_inv (section_render s)"
proof -
  assume s: "section_inv s"
  let ?sids = "map srv_server_id (da_sources s)"
  let ?rows = "rendered_rows s (ds_next s) ?sids"
  have none: "filter (for_row sid inst) (ds_pending s) = []" if "ds_next s \<le> inst" for sid inst
    using s that
    by (fastforce simp: section_inv_def for_row_def filter_empty_conv list_all_iff split: da_call.splits)
  have "\<forall>(sid, inst, r) \<in> set ?rows. inst < ds_next s + length ?sids \<and>
      filter (for_row sid inst) (ds_pending s) = row_requests sid inst r"
  proof (clarify)
    fix sid inst r assume "(sid, inst, r) \<in> set ?rows"
    from rendered_rows_elem [OF this] show "inst < ds_next s + length ?sids \<and>
      filter (for_row sid inst) (ds_pending s) = row_requests sid inst r"
      using s none by (fastforce simp: section_inv_def rows_ok_def row_requests_def)
  qed
  moreover have "distinct (map fst ?rows)"
    using s by (simp add: rendered_rows_ids section_inv_def da_sources_def distinct_map_filter)
  ultimately show ?thesis
    using s call_below_mono [of "ds_next s" "ds_next s + length ?sids"]
    by (auto simp: section_render_def section_inv_def rows_ok_def Let_def list_all_iff)
qed

lemma update_row_ids [simp]: "map fst (ds_rows (update_row sid inst f s)) = map fst (ds_rows s)"
  by (induction "ds_rows s") (auto simp: update_row_def)

lemma section_inv_fields:
  "section_inv s \<Longrightarrow> ds_rows s' = ds_rows s \<Longrightarrow> ds_servers s' = ds_servers s \<Longrightarrow>
   ds_pending s' = ds_pending s \<Longrightarrow> ds_next s \<le> ds_next s' \<Longrightarrow> section_inv s'"
  using call_below_mono [of "ds_next s" "ds_next s'"] by (fastforce simp: section_inv_def rows_ok_def list_all_iff)

lemma section_inv_press:
  assumes s: "section_inv s" and e: "section_enabled (Se_Press sid inst b) s"
  shows "section_inv (press_button sid inst b s)"
proof -
  obtain r where r: "map_of (ds_rows s) sid = Some (inst, r)" "b \<in> set (row_buttons r)"
    using e by (auto split: option.splits)
  have row: "(sid, inst, r) \<in> set (ds_rows s)" using map_of_SomeD r(1) by fastforce
  have unique: "r' = r" if "(sid, inst, r') \<in> set (ds_rows s)" for r'
    using that row s eq_key_imp_eq_value [of "ds_rows s" sid "(inst, r')" "(inst, r)"]
    by (simp add: section_inv_def)
  have idle: "dr_busy r = None" using r(2) by (auto simp: row_buttons_def split: if_splits)
  then have none: "filter (for_row sid inst) (ds_pending s) = []"
    using s row by (fastforce simp: section_inv_def rows_ok_def row_requests_def)
  have below: "inst < ds_next s" using s row by (fastforce simp: section_inv_def rows_ok_def)
  have "distinct (map fst (ds_rows (press_button sid inst b s)))"
    using s by (simp add: section_inv_def press_button_def Let_def split: option.splits)
  moreover have "rows_ok (press_button sid inst b s)"
    unfolding rows_ok_def
  proof (clarify)
    fix sid' inst' r' assume m: "(sid', inst', r') \<in> set (ds_rows (press_button sid inst b s))"
    then obtain r0 where r0: "(sid', inst', r0) \<in> set (ds_rows s)"
      "r' = (if sid' = sid \<and> inst' = inst then press_row b r0 else r0)"
      by (auto simp: press_button_def update_row_def Let_def split: option.splits if_splits)
    have old: "inst' < ds_next s" "filter (for_row sid' inst') (ds_pending s) = row_requests sid' inst' r0"
      using s r0(1) by (fastforce simp: section_inv_def rows_ok_def)+
    show "inst' < ds_next (press_button sid inst b s) \<and>
      filter (for_row sid' inst') (ds_pending (press_button sid inst b s)) = row_requests sid' inst' r'"
      using old r0 unique [of r0] idle none
      by (auto simp: press_button_def update_row_def press_row_def run_def row_requests_def for_row_def
          Let_def split: option.splits)
  qed
  ultimately show ?thesis
    using s below by (auto simp: section_inv_def press_button_def update_row_def Let_def split: option.splits)
qed

lemma section_inv_removed_list:
  assumes "section_inv s" "k < length (ds_pending s)" "ds_pending s ! k = Da_List"
  shows "section_inv (s\<lparr>ds_pending := take k (ds_pending s) @ drop (Suc k) (ds_pending s)\<rparr>)"
proof -
  have "filter (for_row sid inst) (take k (ds_pending s) @ drop (Suc k) (ds_pending s))
      = filter (for_row sid inst) (ds_pending s)" for sid inst
    unfolding filter_removed [OF assms(2)] by (simp add: assms(3) for_row_def)
  then show ?thesis using assms(1)
    by (auto simp: section_inv_def rows_ok_def list_all_iff simp del: filter_append
        dest: in_set_takeD in_set_dropD)
qed

text \<open>The answered row is idle again; the other rows keep their requests.\<close>

lemma section_inv_answered:
  assumes s: "section_inv s" and k: "k < length (ds_pending s)"
    and c: "ds_pending s ! k = Da_Action sid inst a"
  shows "section_inv (update_row sid inst (run_done response)
    (s\<lparr>ds_pending := take k (ds_pending s) @ drop (Suc k) (ds_pending s)\<rparr>))"
proof -
  let ?rest = "take k (ds_pending s) @ drop (Suc k) (ds_pending s)"
  let ?s = "s\<lparr>ds_pending := ?rest\<rparr>"
  have busy: "dr_busy (run_done response r) = None" for r by (simp add: run_done_def split: sum.splits)
  have "rows_ok (update_row sid inst (run_done response) ?s)"
    unfolding rows_ok_def
  proof (clarify)
    fix sid' inst' r' assume "(sid', inst', r') \<in> set (ds_rows (update_row sid inst (run_done response) ?s))"
    then obtain r0 where r0: "(sid', inst', r0) \<in> set (ds_rows s)"
      "r' = (if sid' = sid \<and> inst' = inst then run_done response r0 else r0)"
      by (auto simp: update_row_def split: if_splits)
    have old: "inst' < ds_next s" "filter (for_row sid' inst') (ds_pending s) = row_requests sid' inst' r0"
      using s r0(1) by (fastforce simp: section_inv_def rows_ok_def)+
    have "filter (for_row sid' inst') ?rest = row_requests sid' inst' r'"
    proof (cases "sid' = sid \<and> inst' = inst")
      case True
      have member: "for_row sid' inst' (ds_pending s ! k)" using True c by (simp add: for_row_def)
      then have "filter (for_row sid' inst') (ds_pending s) \<noteq> []"
        using k nth_mem by (fastforce simp: filter_empty_conv)
      then obtain c' where "filter (for_row sid' inst') (ds_pending s) = [c']"
        using old(2) by (auto simp: row_requests_def split: option.splits)
      then have "filter (for_row sid' inst') ?rest = []"
        using filter_removed_single [of k "ds_pending s" "for_row sid' inst'"] k member by blast
      then show ?thesis using True r0(2) busy by (simp add: row_requests_def)
    next
      case False
      then have "\<not> for_row sid' inst' (ds_pending s ! k)" using c by (auto simp: for_row_def)
      then show ?thesis unfolding filter_removed [OF k] using False old(2) r0(2) by auto
    qed
    then show "inst' < ds_next (update_row sid inst (run_done response) ?s) \<and>
      filter (for_row sid' inst') (ds_pending (update_row sid inst (run_done response) ?s)) =
        row_requests sid' inst' r'"
      using old(1) by (simp add: update_row_def)
  qed
  moreover have "distinct (map fst (ds_rows (update_row sid inst (run_done response) ?s)))"
    using s by (simp add: section_inv_def)
  ultimately show ?thesis
    using s by (auto simp: section_inv_def update_row_def list_all_iff dest: in_set_takeD in_set_dropD)
qed

lemma section_inv_answer:
  assumes s: "section_inv s" and k: "k < length (ds_pending s)"
  shows "section_inv (section_answer k net s)"
proof -
  let ?s = "s\<lparr>ds_pending := take k (ds_pending s) @ drop (Suc k) (ds_pending s)\<rparr>"
  show ?thesis
  proof (cases "ds_pending s ! k")
    case Da_List
    have rest: "section_inv ?s" by (rule section_inv_removed_list [OF s k Da_List])
    have "section_inv (list_done r ?s)" for r
      unfolding list_done_def
      by (rule section_inv_render, rule section_inv_fields [OF rest]) (simp_all split: sum.splits)
    then show ?thesis by (simp add: section_answer_def Da_List)
  next
    case (Da_Action sid inst a)
    have row_done: "section_inv (update_row sid inst (run_done r) ?s)" for r
      by (rule section_inv_answered [OF s k Da_Action])
    have "section_inv (action_done sid inst r ?s)" for r
    proof (cases r)
      case (Inr fresh)
      have "section_inv (update_row sid inst (run_done r) (refresh_pairs sid fresh ?s))"
        by (rule section_inv_fields [OF row_done [of r]]) (simp_all add: update_row_def refresh_pairs_def Let_def)
      then show ?thesis unfolding Inr action_done_def by (simp add: section_inv_render)
    qed (use row_done in \<open>simp add: action_done_def\<close>)
    then show ?thesis by (simp add: section_answer_def Da_Action)
  qed
qed

lemma section_inv_reach: "section_reach s \<Longrightarrow> section_inv s"
proof (induction rule: section_reach.induct)
  case (section_reach_init servers targetId)
  then show ?case by (simp add: DirectTransferSection_def section_inv_def rows_ok_def)
next
  case (section_reach_step s e s')
  then have e: "section_enabled e s" "s' = section_apply e s" by (auto elim: section_stepE)
  show ?case
  proof (cases e)
    case (Se_Servers servers)
    have "section_inv (s\<lparr>ds_servers := servers\<rparr>)"
      using section_reach_step.IH e Se_Servers by (simp add: section_inv_def rows_ok_def)
    then show ?thesis using e Se_Servers section_inv_render by (simp add: servers_changed_def)
  next
    case Se_Retry
    have "section_inv (s\<lparr>ds_listError := None, ds_pending := ds_pending s @ [Da_List]\<rparr>)"
      using section_reach_step.IH by (simp add: section_inv_def rows_ok_def for_row_def)
    then show ?thesis using e Se_Retry section_inv_render by (simp add: list_retry_def)
  next
    case (Se_Press sid inst b)
    then show ?thesis using e section_inv_press [OF section_reach_step.IH, of sid inst b] by simp
  next
    case (Se_Answer k net)
    then show ?thesis using e section_inv_answer [OF section_reach_step.IH, of k net] by simp
  qed
qed

subsection \<open>What becomes of an answer\<close>

lemma map_of_update_row:
  assumes "map_of (ds_rows s) sid = Some (inst, r)"
  shows "map_of (ds_rows (update_row sid inst f s)) sid = Some (inst, f r)"
proof -
  have "map_of xs sid = Some (inst, r) \<Longrightarrow>
      map_of (map (\<lambda>(sid', inst', r). if sid' = sid \<and> inst' = inst then (sid', inst', f r)
                                    else (sid', inst', r)) xs) sid = Some (inst, f r)" for xs
    by (induction xs) (auto split: if_splits)
  then show ?thesis using assms by (simp add: update_row_def)
qed

lemma map_of_rendered_rows:
  "sid \<in> set sids \<Longrightarrow> \<exists>m. map_of (rendered_rows s n sids) sid = Some (snd (rendered_row s m sid)) \<and> n \<le> m"
proof (induction sids arbitrary: n)
  case (Cons x xs)
  have fst_row: "fst (rendered_row s m y) = y" for m y
    by (simp add: rendered_row_def Let_def split: prod.splits option.splits)
  show ?case
  proof (cases "x = sid")
    case True
    then have "map_of (rendered_rows s n (x # xs)) sid = Some (snd (rendered_row s n sid))"
      using fst_row [of n sid] by (cases "rendered_row s n sid") simp
    then show ?thesis by blast
  next
    case False
    then have "map_of (rendered_rows s n (x # xs)) sid = map_of (rendered_rows s (Suc n) xs) sid"
      using fst_row [of n x] by (cases "rendered_row s n x") simp
    then show ?thesis using Cons False by (metis Suc_leD set_ConsD)
  qed
qed simp

text \<open>
  A source without a listed pair is given a new peer object by every render, and its row copies
  that object over whatever it holds once it is idle: the answer of a check never shows.
\<close>

lemma unlisted_answer_lost:
  assumes "ds_listError s = None" "ds_pairs s \<noteq> None" "sid \<in> set (map srv_server_id (da_sources s))"
    and "listed_pair s sid = None" "map_of (ds_rows s) sid = Some (inst, r)" "dr_peer r < ds_next s"
  shows "\<exists>r'. map_of (ds_rows (action_done sid inst (Inr fresh) s)) sid = Some (inst, r') \<and>
    dr_current r' = UNCHECKED (ds_targetId s) \<and> dr_busy r' = None"
proof -
  let ?u = "update_row sid inst (run_done (Inr fresh)) (refresh_pairs sid fresh s)"
  obtain ps where ps: "ds_pairs s = Some ps" using assms(2) by auto
  have unlisted: "\<not> (dpr_source_server_id p = sid \<and> dpr_target_server_id p = ds_targetId s)"
    if "(n, p) \<in> set ps" for n p
    using assms(4) that by (auto simp: listed_pair_def incomingPairs_def ps find_None_iff)
  have same: "map (\<lambda>(k, n, p). if dpr_source_server_id p = sid \<and> dpr_target_server_id p = ds_targetId s
        then (ds_next s + k, refreshed_pair fresh p) else (n, p)) (enumerate 0 ps) = ps"
  proof -
    have member: "(n, p) \<in> set ps" if "(k, n, p) \<in> set (enumerate 0 ps)" for k n p
      using imageI [OF that, of snd] by (simp flip: set_map)
    have miss: "(k, n, p) \<in> set (enumerate 0 ps) \<Longrightarrow> dpr_source_server_id p = sid \<Longrightarrow>
        dpr_target_server_id p = ds_targetId s \<Longrightarrow> False" for k n p
      using unlisted member by blast
    have "map (\<lambda>(k, n, p). if dpr_source_server_id p = sid \<and> dpr_target_server_id p = ds_targetId s
        then (ds_next s + k, refreshed_pair fresh p) else (n, p)) (enumerate 0 ps) = map snd (enumerate 0 ps)"
      by (intro map_cong) (auto split: prod.splits dest: miss)
    then show ?thesis by simp
  qed
  have u: "ds_pairs ?u = Some ps" "ds_listError ?u = None" "ds_targetId ?u = ds_targetId s"
    "ds_servers ?u = ds_servers s" "ds_next ?u = ds_next s + length ps"
    using assms(1) same by (simp_all add: update_row_def refresh_pairs_def ps Let_def)
  have srcs: "da_sources ?u = da_sources s" by (simp add: da_sources_def u)
  have unl: "listed_pair ?u sid = None" using assms(4) by (simp add: listed_pair_def incomingPairs_def u ps)
  have row: "map_of (ds_rows ?u) sid = Some (inst, run_done (Inr fresh) r)"
    by (rule map_of_update_row) (simp add: assms(5) refresh_pairs_def Let_def)
  obtain m where m: "map_of (rendered_rows ?u (ds_next ?u) (map srv_server_id (da_sources s))) sid
      = Some (snd (rendered_row ?u m sid))" "ds_next ?u \<le> m"
    using map_of_rendered_rows [OF assms(3)] by blast
  have "rendered_row ?u m sid =
      (sid, inst, row_sync (pair_name sid (ds_targetId s)) m (UNCHECKED (ds_targetId s)) (run_done (Inr fresh) r))"
    using row by (simp add: rendered_row_def row_peer_def unl u)
  moreover have "dr_peer r \<noteq> m" using m(2) assms(6) u(5) by simp
  ultimately show ?thesis
    using m(1) by (simp add: action_done_def section_render_def u srcs Let_def row_sync_def run_done_def)
qed

text \<open>A listed pair takes the answer over, and its row shows it.\<close>

lemma find_filter: "find P (filter Q xs) = find (\<lambda>x. Q x \<and> P x) xs"
  by (induction xs) auto

lemma listed_pair_find:
  "listed_pair s sid =
     find (\<lambda>(n, p). dpr_target_server_id p = ds_targetId s \<and> dpr_source_server_id p = sid)
       (case ds_pairs s of None \<Rightarrow> [] | Some ps \<Rightarrow> ps)"
  by (simp add: listed_pair_def incomingPairs_def find_filter case_prod_beta')

lemma find_refreshed:
  assumes "dap_target_server_id fresh = t"
    and "find (\<lambda>(n, p). dpr_target_server_id p = t \<and> dpr_source_server_id p = sid) ps = Some (n, p)"
  shows "\<exists>n'. find (\<lambda>(n, p). dpr_target_server_id p = t \<and> dpr_source_server_id p = sid)
      (map (\<lambda>(k, n, p). if dpr_source_server_id p = sid \<and> dpr_target_server_id p = t
         then (b + k, refreshed_pair fresh p) else (n, p)) (enumerate j ps)) = Some (n', refreshed_pair fresh p)"
  using assms(2)
proof (induction ps arbitrary: j)
  case (Cons x xs)
  then show ?case
    by (cases x) (use assms(1) in \<open>auto simp: refreshed_pair_def split: if_splits\<close>)
qed simp

lemma listed_answer_shown:
  assumes "ds_listError s = None" "sid \<in> set (map srv_server_id (da_sources s))"
    and "listed_pair s sid = Some (n, p)"
    and "map_of (ds_rows s) sid = Some (inst, r)"
    and "dap_target_server_id fresh = ds_targetId s"
  shows "\<exists>r'. map_of (ds_rows (action_done sid inst (Inr fresh) s)) sid = Some (inst, r') \<and>
    dr_current r' = fresh \<and> dr_busy r' = None"
proof -
  let ?u = "update_row sid inst (run_done (Inr fresh)) (refresh_pairs sid fresh s)"
  have u: "ds_listError ?u = None" "ds_targetId ?u = ds_targetId s" "ds_servers ?u = ds_servers s"
    "ds_pairs ?u \<noteq> None"
    using assms(1) by (simp_all add: update_row_def refresh_pairs_def Let_def)
  have srcs: "da_sources ?u = da_sources s" by (simp add: da_sources_def u)
  obtain n' where listed: "listed_pair ?u sid = Some (n', refreshed_pair fresh p)"
    using find_refreshed [OF assms(5) assms(3) [unfolded listed_pair_find], of "ds_next s" 0]
    by (auto simp: listed_pair_find update_row_def refresh_pairs_def Let_def)
  have peer: "peer_of_pair (refreshed_pair fresh p) = fresh" by (simp add: peer_of_pair_def refreshed_pair_def)
  have row: "map_of (ds_rows ?u) sid = Some (inst, run_done (Inr fresh) r)"
    by (rule map_of_update_row) (simp add: assms(4) refresh_pairs_def Let_def)
  obtain m where m: "map_of (rendered_rows ?u (ds_next ?u) (map srv_server_id (da_sources s))) sid
      = Some (snd (rendered_row ?u m sid))"
    using map_of_rendered_rows [OF assms(2)] by blast
  have "rendered_row ?u m sid =
      (sid, inst, row_sync (pair_name sid (ds_targetId s)) n' fresh (run_done (Inr fresh) r))"
    using row by (simp add: rendered_row_def row_peer_def listed u peer)
  then show ?thesis
    using m u(4) by (simp add: action_done_def section_render_def u(1-3) srcs Let_def row_sync_def run_done_def)
qed

end
