(* ===== verification/SettingsPage.thy ===== *)
theory SettingsPage
  imports ServerDialog Fleet Requests
begin

text \<open>
  The settings page (\<open>features/settings/SettingsPage.tsx\<close>): the registry table, the server
  dialog it opens, the confirmed removal of a server and the health probe.
\<close>

subsection \<open>The registry\<close>

definition endpointOf :: "server_record \<Rightarrow> string" where
  "endpointOf r =
     (let user = (case srv_username r of Some u \<Rightarrow> u @ ''@'' | None \<Rightarrow> '''');
          port = (case srv_port r of Some p \<Rightarrow> '':'' @ number_string p | None \<Rightarrow> '''')
      in user @ srv_ssh_host r @ port)"

datatype registry_content =
    Reg_Error string
  | Reg_Skeleton
  | Reg_Empty
  | Reg_Table "(server_record \<times> server_status) list"

definition registry_body :: "console_state \<Rightarrow> registry_content" where
  "registry_body st =
     (case cs_serversError st of
        Some e \<Rightarrow> Reg_Error e
      | None \<Rightarrow>
          if cs_servers st = [] then (if cs_serversLoading st then Reg_Skeleton else Reg_Empty)
          else Reg_Table (map (\<lambda>r. (r, case cs_statuses st (srv_server_id r) of
                                         Some status \<Rightarrow> status | None \<Rightarrow> S_Unknown)) (cs_servers st)))"

subsection \<open>State and operations\<close>

datatype settings_call = Call_Delete string | Call_Health

datatype dialog_target = Target_Add | Target_Edit server_record

record settings_page =
  st_mounted :: bool
  st_dialog :: "dialog_target option"
  st_removeTarget :: "server_record option"
  st_removing :: bool
  st_removeError :: "string option"
  st_health :: "health_info option"
  st_healthError :: "string option"
  st_healthLoading :: bool
  st_refreshes :: nat
  st_pending :: "settings_call list"

text \<open>The mount effect probes the backend once.\<close>

definition SettingsPage :: settings_page where
  "SettingsPage =
     \<lparr>st_mounted = True, st_dialog = None, st_removeTarget = None, st_removing = False,
      st_removeError = None, st_health = None, st_healthError = None, st_healthLoading = True,
      st_refreshes = 0, st_pending = [Call_Health]\<rparr>"

text \<open>The props of the dialog.\<close>

definition dialog_props :: "settings_page \<Rightarrow> bool \<times> server_record option" where
  "dialog_props s =
     (st_dialog s \<noteq> None, case st_dialog s of Some (Target_Edit r) \<Rightarrow> Some r | _ \<Rightarrow> None)"

definition ask_remove :: "server_record \<Rightarrow> settings_page \<Rightarrow> settings_page" where
  "ask_remove r s = s\<lparr>st_removeError := None, st_removeTarget := Some r\<rparr>"

definition removeServer :: "settings_page \<Rightarrow> settings_page" where
  "removeServer s =
     (case st_removeTarget s of
        None \<Rightarrow> s
      | Some r \<Rightarrow>
          s\<lparr>st_removing := True, st_removeError := None,
            st_pending := st_pending s @ [Call_Delete (srv_server_id r)]\<rparr>)"

definition removeServer_done :: "unit result \<Rightarrow> settings_page \<Rightarrow> settings_page" where
  "removeServer_done response s =
     (case response of
        Inr _ \<Rightarrow> s\<lparr>st_removeTarget := None, st_refreshes := st_refreshes s + 1, st_removing := False\<rparr>
      | Inl cause \<Rightarrow> s\<lparr>st_removeError := Some (ae_detail cause), st_removing := False\<rparr>)"

definition health_done :: "health_info result \<Rightarrow> settings_page \<Rightarrow> settings_page" where
  "health_done response s =
     (if \<not> st_mounted s then s
      else
        (case response of
           Inr info \<Rightarrow> s\<lparr>st_health := Some info, st_healthError := None, st_healthLoading := False\<rparr>
         | Inl cause \<Rightarrow> s\<lparr>st_healthError := Some (ae_detail cause), st_healthLoading := False\<rparr>))"

datatype settings_event =
    Sv_Add
  | Sv_Edit server_record
  | Sv_CloseDialog
  | Sv_AskRemove server_record
  | Sv_CloseRemove
  | Sv_Remove
  | Sv_Unmount
  | Sv_Answer nat network

text \<open>A confirmation is pressed only while its button is enabled; Escape is always there.\<close>

fun settings_enabled :: "settings_event \<Rightarrow> settings_page \<Rightarrow> bool" where
  "settings_enabled Sv_CloseDialog s = (st_dialog s \<noteq> None)"
| "settings_enabled Sv_CloseRemove s = (st_removeTarget s \<noteq> None)"
| "settings_enabled Sv_Remove s = (st_removeTarget s \<noteq> None \<and> \<not> st_removing s)"
| "settings_enabled Sv_Unmount s = st_mounted s"
| "settings_enabled (Sv_Answer k net) s = (k < length (st_pending s))"
| "settings_enabled _ s = (st_mounted s \<and> st_dialog s = None \<and> st_removeTarget s = None)"

definition settings_answer :: "nat \<Rightarrow> network \<Rightarrow> settings_page \<Rightarrow> settings_page" where
  "settings_answer k net s =
     (let rest = s\<lparr>st_pending := take k (st_pending s) @ drop (Suc k) (st_pending s)\<rparr>
      in case st_pending s ! k of
           Call_Delete i \<Rightarrow> removeServer_done (deleteServer net i) rest
         | Call_Health \<Rightarrow> health_done (getHealth net) rest)"

fun settings_apply :: "settings_event \<Rightarrow> settings_page \<Rightarrow> settings_page" where
  "settings_apply Sv_Add s = s\<lparr>st_dialog := Some Target_Add\<rparr>"
| "settings_apply (Sv_Edit r) s = s\<lparr>st_dialog := Some (Target_Edit r)\<rparr>"
| "settings_apply Sv_CloseDialog s = s\<lparr>st_dialog := None\<rparr>"
| "settings_apply (Sv_AskRemove r) s = ask_remove r s"
| "settings_apply Sv_CloseRemove s = s\<lparr>st_removeTarget := None\<rparr>"
| "settings_apply Sv_Remove s = removeServer s"
| "settings_apply Sv_Unmount s = s\<lparr>st_mounted := False\<rparr>"
| "settings_apply (Sv_Answer k net) s = settings_answer k net s"

inductive settings_step :: "settings_page \<Rightarrow> settings_event \<Rightarrow> settings_page \<Rightarrow> bool" where
  settings_stepI: "settings_enabled e s \<Longrightarrow> settings_step s e (settings_apply e s)"

inductive_cases settings_stepE: "settings_step s e s'"

inductive settings_reach :: "settings_page \<Rightarrow> bool" where
  settings_reach_init: "settings_reach SettingsPage"
| settings_reach_step: "settings_reach s \<Longrightarrow> settings_step s e s' \<Longrightarrow> settings_reach s'"

subsection \<open>One removal at a time\<close>

fun deletes :: "settings_call \<Rightarrow> bool" where
  "deletes (Call_Delete _) = True"
| "deletes Call_Health = False"

definition settings_inv :: "settings_page \<Rightarrow> bool" where
  "settings_inv s \<longleftrightarrow>
     length (filter deletes (st_pending s)) = (if st_removing s then 1 else 0) \<and>
     (st_healthLoading s \<and> st_mounted s \<longrightarrow> Call_Health \<in> set (st_pending s)) \<and>
     length (filter (\<lambda>c. c = Call_Health) (st_pending s)) \<le> 1"

lemma settings_inv_answer:
  assumes s: "settings_inv s" and k: "k < length (st_pending s)"
  shows "settings_inv (settings_answer k net s)"
proof -
  note gone = length_filter_removed [OF k, of deletes] length_filter_removed [OF k, of "\<lambda>c. c = Call_Health"]
  show ?thesis
  proof (cases "st_pending s ! k")
    case (Call_Delete i)
    have "st_healthLoading s \<and> st_mounted s \<longrightarrow>
        Call_Health \<in> set (take k (st_pending s) @ drop (Suc k) (st_pending s))"
      using s Call_Delete in_set_removed [OF k, of Call_Health] by (auto simp: settings_inv_def)
    then show ?thesis
      using s gone Call_Delete
      by (auto simp: settings_answer_def removeServer_done_def settings_inv_def Let_def
          simp del: filter_append split: sum.splits if_splits)
  next
    case Call_Health
    then show ?thesis
      using s gone
      by (auto simp: settings_answer_def health_done_def settings_inv_def Let_def
          simp del: filter_append split: sum.splits if_splits)
  qed
qed

lemma settings_inv_reach: "settings_reach s \<Longrightarrow> settings_inv s"
proof (induction rule: settings_reach.induct)
  case settings_reach_init
  show ?case by (simp add: SettingsPage_def settings_inv_def)
next
  case (settings_reach_step s e s')
  then have e: "settings_enabled e s" "s' = settings_apply e s" by (auto elim: settings_stepE)
  show ?case
  proof (cases e)
    case (Sv_Answer k net)
    then show ?thesis using e settings_inv_answer [OF settings_reach_step.IH] by simp
  qed (use e settings_reach_step.IH in \<open>auto simp: settings_inv_def ask_remove_def removeServer_def
      split: option.splits\<close>)
qed

text \<open>A removal answered late closes the confirmation of another one.\<close>

lemma late_removal:
  assumes "k < length (st_pending s)" "st_pending s ! k = Call_Delete a" "deleteServer net a = Inr ()"
  shows "st_removeTarget (settings_apply (Sv_Answer k net) s) = None"
  using assms by (simp add: settings_answer_def removeServer_done_def)

end
