(* ===== verification/MachinePanel.thy ===== *)
theory MachinePanel
  imports Fleet SyncDialog Doubles Requests
begin

text \<open>
  The menu of a machine panel (\<open>features/fleet/FleetMachinePanel.tsx\<close>): testing, enabling,
  disabling and removing the machine, the confirmation of a removal, and the notice with the
  outcome, which a timer takes away. \<open>mp_timers\<close> are the timers armed in the browser. The panel
  of a disabled machine is one line with the menu; it does not render the confirmation.
\<close>

definition NOTICE_MS :: nat where
  "NOTICE_MS = 5000"

record notice =
  ntc_tone :: chip_tone
  ntc_text :: string
  ntc_title :: string

datatype panel_call = Call_PanelTest | Call_Toggle bool | Call_Remove

record machine_panel =
  mp_serverId :: string
  mp_enabled :: bool
  mp_notice :: "notice option"
  mp_testing :: bool
  mp_confirmRemove :: bool
  mp_timers :: "nat list"
  mp_next :: nat
  mp_refreshes :: nat
  mp_pending :: "panel_call list"

definition FleetMachinePanel :: "string \<Rightarrow> bool \<Rightarrow> machine_panel" where
  "FleetMachinePanel serverId enabled =
     \<lparr>mp_serverId = serverId, mp_enabled = enabled, mp_notice = None, mp_testing = False,
      mp_confirmRemove = False, mp_timers = [], mp_next = 0, mp_refreshes = 0, mp_pending = []\<rparr>"

text \<open>A notice is a new object: the effect clears the last timer and arms one for it.\<close>

definition setNotice :: "notice option \<Rightarrow> machine_panel \<Rightarrow> machine_panel" where
  "setNotice n s =
     (case n of
        None \<Rightarrow> s\<lparr>mp_notice := None, mp_timers := []\<rparr>
      | Some _ \<Rightarrow> s\<lparr>mp_notice := n, mp_timers := [mp_next s], mp_next := mp_next s + 1\<rparr>)"

definition panel_request :: "panel_call \<Rightarrow> machine_panel \<Rightarrow> machine_panel" where
  "panel_request c s = s\<lparr>mp_pending := mp_pending s @ [c]\<rparr>"

definition panel_runTest :: "machine_panel \<Rightarrow> machine_panel" where
  "panel_runTest s = panel_request Call_PanelTest (setNotice None (s\<lparr>mp_testing := True\<rparr>))"

definition test_notice ::
  "js_runtime \<Rightarrow> dict \<Rightarrow> (server_status \<Rightarrow> string) \<Rightarrow> connection_test_result result \<Rightarrow> notice" where
  "test_notice rt t status_word response =
     (case response of
        Inr r \<Rightarrow>
          if ctr_ok r
          then
            \<lparr>ntc_tone = Tone_Ok,
             ntc_text =
               (case ctr_latency_ms r of
                  Some (Fin q) \<Rightarrow> tf (t ''fleet.testOk'') [(''ms'', int_string rt (math_round q))]
                | Some x \<Rightarrow> tf (t ''fleet.testOk'') [(''ms'', number_string x)]
                | None \<Rightarrow> t ''status.online''),
             ntc_title = ctr_detail r\<rparr>
          else \<lparr>ntc_tone = Tone_Crit, ntc_text = status_word (ctr_status r), ntc_title = ctr_detail r\<rparr>
      | Inl cause \<Rightarrow> \<lparr>ntc_tone = Tone_Crit, ntc_text = t ''fleet.testFailed'', ntc_title = ae_detail cause\<rparr>)"

definition panel_test_done ::
  "js_runtime \<Rightarrow> dict \<Rightarrow> (server_status \<Rightarrow> string) \<Rightarrow> connection_test_result result \<Rightarrow> machine_panel \<Rightarrow>
   machine_panel" where
  "panel_test_done rt t status_word response s =
     (setNotice (Some (test_notice rt t status_word response)) s)\<lparr>mp_testing := False\<rparr>"

definition toggle_body :: "bool \<Rightarrow> server_patch" where
  "toggle_body enabled =
     \<lparr>sp_display_name = None, sp_ssh_host = None, sp_username = None, sp_port = None, sp_tags = None,
      sp_enabled = Some (Some enabled), sp_sample_interval_s = None\<rparr>"

definition toggleEnabled :: "machine_panel \<Rightarrow> machine_panel" where
  "toggleEnabled s = panel_request (Call_Toggle (\<not> mp_enabled s)) (setNotice None s)"

definition toggle_done :: "dict \<Rightarrow> bool \<Rightarrow> server_record result \<Rightarrow> machine_panel \<Rightarrow> machine_panel" where
  "toggle_done t wanted response s =
     (case response of
        Inr _ \<Rightarrow> s\<lparr>mp_refreshes := mp_refreshes s + 1\<rparr>
      | Inl cause \<Rightarrow>
          setNotice (Some \<lparr>ntc_tone = Tone_Crit,
                           ntc_text = (if wanted then t ''fleet.enableFailed'' else t ''fleet.disableFailed''),
                           ntc_title = ae_detail cause\<rparr>) s)"

definition panel_remove :: "machine_panel \<Rightarrow> machine_panel" where
  "panel_remove s = panel_request Call_Remove (setNotice None s)"

definition panel_remove_done :: "dict \<Rightarrow> unit result \<Rightarrow> machine_panel \<Rightarrow> machine_panel" where
  "panel_remove_done t response s =
     (case response of
        Inr _ \<Rightarrow> s\<lparr>mp_confirmRemove := False, mp_refreshes := mp_refreshes s + 1\<rparr>
      | Inl cause \<Rightarrow>
          setNotice (Some \<lparr>ntc_tone = Tone_Crit, ntc_text = t ''fleet.removeFailed'',
                           ntc_title = ae_detail cause\<rparr>) (s\<lparr>mp_confirmRemove := False\<rparr>))"

text \<open>The confirmation is rendered by the full panel alone.\<close>

definition confirm_shown :: "machine_panel \<Rightarrow> bool" where
  "confirm_shown s \<longleftrightarrow> mp_enabled s \<and> mp_confirmRemove s"

datatype panel_event =
    Mp_Entry bool
  | Mp_Test
  | Mp_Toggle
  | Mp_Remove
  | Mp_CancelRemove
  | Mp_ConfirmRemove
  | Mp_Timer nat
  | Mp_Answer nat network

fun panel_enabled :: "panel_event \<Rightarrow> machine_panel \<Rightarrow> bool" where
  "panel_enabled Mp_Test s = (\<not> mp_testing s)"
| "panel_enabled Mp_CancelRemove s = confirm_shown s"
| "panel_enabled Mp_ConfirmRemove s = confirm_shown s"
| "panel_enabled (Mp_Timer i) s = (i \<in> set (mp_timers s))"
| "panel_enabled (Mp_Answer k net) s = (k < length (mp_pending s))"
| "panel_enabled _ s = True"

definition panel_answer ::
  "js_runtime \<Rightarrow> dict \<Rightarrow> (server_status \<Rightarrow> string) \<Rightarrow> nat \<Rightarrow> network \<Rightarrow> machine_panel \<Rightarrow> machine_panel" where
  "panel_answer rt t status_word k net s =
     (let rest = s\<lparr>mp_pending := take k (mp_pending s) @ drop (Suc k) (mp_pending s)\<rparr>
      in case mp_pending s ! k of
           Call_PanelTest \<Rightarrow> panel_test_done rt t status_word (testConnection net (mp_serverId s)) rest
         | Call_Toggle wanted \<Rightarrow> toggle_done t wanted (patchServer net (mp_serverId s) (toggle_body wanted)) rest
         | Call_Remove \<Rightarrow> panel_remove_done t (deleteServer net (mp_serverId s)) rest)"

fun panel_apply ::
  "js_runtime \<Rightarrow> dict \<Rightarrow> (server_status \<Rightarrow> string) \<Rightarrow> panel_event \<Rightarrow> machine_panel \<Rightarrow> machine_panel" where
  "panel_apply rt t w (Mp_Entry enabled) s = s\<lparr>mp_enabled := enabled\<rparr>"
| "panel_apply rt t w Mp_Test s = panel_runTest s"
| "panel_apply rt t w Mp_Toggle s = toggleEnabled s"
| "panel_apply rt t w Mp_Remove s = s\<lparr>mp_confirmRemove := True\<rparr>"
| "panel_apply rt t w Mp_CancelRemove s = s\<lparr>mp_confirmRemove := False\<rparr>"
| "panel_apply rt t w Mp_ConfirmRemove s = panel_remove s"
| "panel_apply rt t w (Mp_Timer i) s = setNotice None s"
| "panel_apply rt t w (Mp_Answer k net) s = panel_answer rt t w k net s"

inductive panel_step ::
  "js_runtime \<Rightarrow> dict \<Rightarrow> (server_status \<Rightarrow> string) \<Rightarrow> machine_panel \<Rightarrow> panel_event \<Rightarrow> machine_panel \<Rightarrow> bool"
  for rt t w where
  panel_stepI: "panel_enabled e s \<Longrightarrow> panel_step rt t w s e (panel_apply rt t w e s)"

inductive_cases panel_stepE: "panel_step rt t w s e s'"

inductive panel_reach ::
  "js_runtime \<Rightarrow> dict \<Rightarrow> (server_status \<Rightarrow> string) \<Rightarrow> machine_panel \<Rightarrow> bool"
  for rt t w where
  panel_reach_init: "panel_reach rt t w (FleetMachinePanel serverId enabled)"
| panel_reach_step: "panel_reach rt t w s \<Longrightarrow> panel_step rt t w s e s' \<Longrightarrow> panel_reach rt t w s'"

subsection \<open>Notices end\<close>

text \<open>One timer is armed while a notice is shown, none otherwise; a test that runs is in flight.\<close>

definition panel_inv :: "machine_panel \<Rightarrow> bool" where
  "panel_inv s \<longleftrightarrow>
     (if mp_notice s = None then mp_timers s = [] else length (mp_timers s) = 1) \<and>
     length (filter (\<lambda>c. c = Call_PanelTest) (mp_pending s)) = (if mp_testing s then 1 else 0)"

text \<open>What the invariant counts is untouched by a notice.\<close>

definition tests_counted :: "machine_panel \<Rightarrow> bool" where
  "tests_counted s \<longleftrightarrow>
     length (filter (\<lambda>c. c = Call_PanelTest) (mp_pending s)) = (if mp_testing s then 1 else 0)"

lemma panel_inv_notice: "panel_inv (setNotice n s) \<longleftrightarrow> tests_counted s"
  by (simp add: panel_inv_def tests_counted_def setNotice_def split: option.split)

lemma panel_inv_other [simp]:
  "panel_inv (s\<lparr>mp_refreshes := n\<rparr>) = panel_inv s" "panel_inv (s\<lparr>mp_confirmRemove := b\<rparr>) = panel_inv s"
  "tests_counted (s\<lparr>mp_confirmRemove := b\<rparr>) = tests_counted s"
  by (simp_all add: panel_inv_def tests_counted_def)

lemma setNotice_testing: "(setNotice n s)\<lparr>mp_testing := b\<rparr> = setNotice n (s\<lparr>mp_testing := b\<rparr>)"
  by (simp add: setNotice_def split: option.split)

lemma panel_inv_answer:
  assumes s: "panel_inv s" and k: "k < length (mp_pending s)"
  shows "panel_inv (panel_answer rt t w k net s)"
proof -
  define rest where "rest = s\<lparr>mp_pending := take k (mp_pending s) @ drop (Suc k) (mp_pending s)\<rparr>"
  have sum: "length (filter (\<lambda>c. c = Call_PanelTest) (mp_pending s)) =
      length (filter (\<lambda>c. c = Call_PanelTest) (mp_pending rest)) + (if mp_pending s ! k = Call_PanelTest then 1 else 0)"
    using length_filter_removed [OF k, of "\<lambda>c. c = Call_PanelTest"] by (simp add: rest_def)
  have same: "mp_notice rest = mp_notice s" "mp_timers rest = mp_timers s" "mp_testing rest = mp_testing s"
    by (simp_all add: rest_def)
  show ?thesis
  proof (cases "mp_pending s ! k")
    case Call_PanelTest
    then have "tests_counted (rest\<lparr>mp_testing := False\<rparr>)"
      using s sum same by (simp add: panel_inv_def tests_counted_def split: if_splits)
    then show ?thesis
      by (simp add: panel_answer_def Call_PanelTest panel_test_done_def panel_inv_notice setNotice_testing
          flip: rest_def)
  next
    case (Call_Toggle wanted)
    then have "panel_inv rest" "tests_counted rest"
      using s sum same by (simp_all add: panel_inv_def tests_counted_def)
    then show ?thesis
      by (simp add: panel_answer_def Call_Toggle toggle_done_def panel_inv_notice
          flip: rest_def split: sum.split)
  next
    case Call_Remove
    then have "panel_inv rest" "tests_counted rest"
      using s sum same by (simp_all add: panel_inv_def tests_counted_def)
    then show ?thesis
      by (simp add: panel_answer_def Call_Remove panel_remove_done_def panel_inv_notice
          flip: rest_def split: sum.split)
  qed
qed

lemma panel_inv_reach: "panel_reach rt t w s \<Longrightarrow> panel_inv s"
proof (induction rule: panel_reach.induct)
  case (panel_reach_init serverId enabled)
  show ?case by (simp add: FleetMachinePanel_def panel_inv_def)
next
  case (panel_reach_step s e s')
  then have e: "panel_enabled e s" "s' = panel_apply rt t w e s" by (auto elim: panel_stepE)
  show ?case
  proof (cases e)
    case (Mp_Answer k net)
    then show ?thesis using e panel_inv_answer [OF panel_reach_step.IH] by simp
  qed (use e panel_reach_step.IH in \<open>auto simp: panel_inv_def panel_runTest_def toggleEnabled_def
      panel_remove_def panel_request_def setNotice_def split: if_splits\<close>)
qed

subsection \<open>Removing\<close>

text \<open>
  Asking to remove a disabled machine shows nothing, and the confirmation appears when the
  machine is enabled again. A confirmed removal can be confirmed again while it is in flight.
\<close>

lemma disabled_remove:
  assumes "\<not> mp_enabled s"
  shows "\<not> confirm_shown (panel_apply rt t w Mp_Remove s) \<and>
    \<not> panel_enabled Mp_ConfirmRemove (panel_apply rt t w Mp_Remove s) \<and>
    confirm_shown (panel_apply rt t w (Mp_Entry True) (panel_apply rt t w Mp_Remove s))"
  using assms by (simp add: confirm_shown_def)

lemma removed_twice:
  assumes "confirm_shown s"
  shows "panel_enabled Mp_ConfirmRemove (panel_apply rt t w Mp_ConfirmRemove s) \<and>
    mp_pending (panel_apply rt t w Mp_ConfirmRemove (panel_apply rt t w Mp_ConfirmRemove s)) =
      mp_pending s @ [Call_Remove, Call_Remove]"
  using assms by (simp add: confirm_shown_def panel_remove_def panel_request_def setNotice_def)

end
