(* ===== verification/Processes.thy ===== *)
theory Processes
  imports StableSort Doubles Format Api
begin

text \<open>
  The processes tab of a server (\<open>features/server/ProcessesTab.tsx\<close>) and the wording of its
  actions (\<open>processActions.ts\<close>): filter, search, sort and cap of the list, and the dialog that
  confirms terminating or killing a process. \<open>lower\<close> is the browser's full
  \<open>toLowerCase\<close>; the component keeps its state when it is rendered for another server.
\<close>

subsection \<open>processActions.ts\<close>

datatype process_action = Pa_Terminate | Pa_Kill

definition actionPastTense :: "dict \<Rightarrow> process_action \<Rightarrow> string" where
  "actionPastTense t action =
     (if action = Pa_Terminate then t ''processes.pastTerminate'' else t ''processes.pastKill'')"

definition actionSignalHint :: "dict \<Rightarrow> process_action \<Rightarrow> string" where
  "actionSignalHint t action =
     (if action = Pa_Terminate then t ''processes.terminateHint'' else t ''processes.killHint'')"

definition confirmLabel :: "dict \<Rightarrow> process_action \<Rightarrow> js_number \<Rightarrow> string" where
  "confirmLabel t action pid =
     tf (if action = Pa_Terminate then t ''processes.confirmTerminate'' else t ''processes.confirmKill'')
       [(''pid'', number_string pid)]"

definition dialogLead ::
  "dict \<Rightarrow> process_action \<Rightarrow> js_number \<Rightarrow> string option \<Rightarrow> string \<Rightarrow> string" where
  "dialogLead t action pid processName serverName =
     (let name = (case processName of Some n \<Rightarrow> n | None \<Rightarrow> t ''common.unknown'')
      in tf (if action = Pa_Terminate then t ''processes.terminateLead'' else t ''processes.killLead'')
           [(''pid'', number_string pid), (''name'', name), (''server'', serverName)])"

text \<open>The needles are ASCII, and no other character lowers to one of their letters alone.\<close>

definition describeActionError :: "dict \<Rightarrow> api_error \<Rightarrow> string" where
  "describeActionError t cause =
     (let detail = ae_detail cause; lowered = ascii_lower detail
      in if str_includes lowered ''no such process'' then t ''processes.errNoSuchProcess''
         else if str_includes lowered ''operation not permitted'' then t ''processes.errPermission''
         else if str_includes lowered ''not found'' then t ''processes.errNotFound''
         else detail)"

subsection \<open>The list\<close>

definition ROW_CAP :: nat where
  "ROW_CAP = 200"

datatype process_sort_key = Ps_Cpu | Ps_Mem | Ps_Rss

record process_sort =
  psr_key :: process_sort_key
  psr_desc :: bool

fun sortValue :: "process_info \<Rightarrow> process_sort_key \<Rightarrow> js_number option" where
  "sortValue p Ps_Cpu = prc_cpu_percent p"
| "sortValue p Ps_Mem = prc_mem_percent p"
| "sortValue p Ps_Rss = prc_rss_b p"

definition search_text :: "process_info \<Rightarrow> string" where
  "search_text p =
     join '' '' (map (\<lambda>part. case part of Some s \<Rightarrow> s | None \<Rightarrow> '''')
       [prc_name p, prc_user p, prc_command p, Some (number_string (prc_pid p))])"

definition process_matches :: "(string \<Rightarrow> string) \<Rightarrow> bool \<Rightarrow> string \<Rightarrow> process_info \<Rightarrow> bool" where
  "process_matches lower gpuOnly query p \<longleftrightarrow>
     (if gpuOnly \<and> prc_gpu_indexes p = [] then False
      else
        (let q = lower (trim query)
         in q = '''' \<or> str_includes (lower (search_text p)) q))"

definition process_compare :: "process_sort \<Rightarrow> process_info js_comparator" where
  "process_compare s a b =
     (case (sortValue a (psr_key s), sortValue b (psr_key s)) of
        (None, None) \<Rightarrow> Fin 0
      | (None, Some _) \<Rightarrow> Fin 1
      | (Some _, None) \<Rightarrow> Fin (- 1)
      | (Some av, Some bv) \<Rightarrow> if psr_desc s then num_minus bv av else num_minus av bv)"

definition filtered_processes ::
  "(string \<Rightarrow> string) \<Rightarrow> bool \<Rightarrow> string \<Rightarrow> process_info list \<Rightarrow> process_info list" where
  "filtered_processes lower gpuOnly query ps = filter (process_matches lower gpuOnly query) ps"

definition sorted_processes ::
  "(string \<Rightarrow> string) \<Rightarrow> bool \<Rightarrow> string \<Rightarrow> process_sort \<Rightarrow> process_info list \<Rightarrow> process_info list" where
  "sorted_processes lower gpuOnly query s ps =
     js_sort (process_compare s) (filtered_processes lower gpuOnly query ps)"

definition visible_processes ::
  "(string \<Rightarrow> string) \<Rightarrow> bool \<Rightarrow> string \<Rightarrow> process_sort \<Rightarrow> process_info list \<Rightarrow> process_info list" where
  "visible_processes lower gpuOnly query s ps = take ROW_CAP (sorted_processes lower gpuOnly query s ps)"

definition toggleSort :: "process_sort_key \<Rightarrow> process_sort \<Rightarrow> process_sort" where
  "toggleSort key s =
     \<lparr>psr_key = key, psr_desc = (if psr_key s = key then \<not> psr_desc s else True)\<rparr>"

definition processes_meta :: "dict \<Rightarrow> nat \<Rightarrow> string" where
  "processes_meta t n =
     (if ROW_CAP < n
      then tf (t ''processes.showing'') [(''n'', show_nat ROW_CAP), (''m'', show_nat n)]
      else tf (if n = 1 then t ''processes.countOne'' else t ''processes.countMany'') [(''n'', show_nat n)])"

subsection \<open>The tab\<close>

text \<open>Requests remember the server and the process of the render that sent them.\<close>

record process_call =
  pc_action :: process_action
  pc_serverId :: string
  pc_process :: process_info

record processes_tab =
  pt_serverId :: string
  pt_serverName :: string
  pt_processes :: "process_info list"
  pt_query :: string
  pt_gpuOnly :: bool
  pt_sort :: process_sort
  pt_confirm :: "(process_action \<times> process_info) option"
  pt_actionError :: "string option"
  pt_toast :: "string option"
  pt_calls :: "process_call list"
  pt_reloads :: "string list"

definition ProcessesTab :: "string \<Rightarrow> string \<Rightarrow> process_info list \<Rightarrow> processes_tab" where
  "ProcessesTab serverId serverName ps =
     \<lparr>pt_serverId = serverId, pt_serverName = serverName, pt_processes = ps, pt_query = '''',
      pt_gpuOnly = False, pt_sort = \<lparr>psr_key = Ps_Cpu, psr_desc = True\<rparr>, pt_confirm = None,
      pt_actionError = None, pt_toast = None, pt_calls = [], pt_reloads = []\<rparr>"

text \<open>A render with new props leaves the state alone.\<close>

definition tab_props :: "string \<Rightarrow> string \<Rightarrow> process_info list \<Rightarrow> processes_tab \<Rightarrow> processes_tab" where
  "tab_props serverId serverName ps s =
     s\<lparr>pt_serverId := serverId, pt_serverName := serverName, pt_processes := ps\<rparr>"

definition tab_visible :: "(string \<Rightarrow> string) \<Rightarrow> processes_tab \<Rightarrow> process_info list" where
  "tab_visible lower s = visible_processes lower (pt_gpuOnly s) (pt_query s) (pt_sort s) (pt_processes s)"

definition ask_action :: "process_action \<Rightarrow> process_info \<Rightarrow> processes_tab \<Rightarrow> processes_tab" where
  "ask_action action p s = s\<lparr>pt_actionError := None, pt_confirm := Some (action, p)\<rparr>"

definition dismissDialog :: "processes_tab \<Rightarrow> processes_tab" where
  "dismissDialog s = s\<lparr>pt_confirm := None, pt_actionError := None\<rparr>"

definition runAction :: "processes_tab \<Rightarrow> processes_tab" where
  "runAction s =
     (case pt_confirm s of
        None \<Rightarrow> s
      | Some (action, p) \<Rightarrow>
          s\<lparr>pt_calls := pt_calls s @
              [\<lparr>pc_action = action, pc_serverId = pt_serverId s, pc_process = p\<rparr>]\<rparr>)"

definition action_call :: "network \<Rightarrow> process_call \<Rightarrow> unit result" where
  "action_call net c =
     (if pc_action c = Pa_Terminate then terminateProcess net (pc_serverId c) (prc_pid (pc_process c))
      else killProcess net (pc_serverId c) (prc_pid (pc_process c)))"

definition runAction_done :: "dict \<Rightarrow> process_call \<Rightarrow> unit result \<Rightarrow> processes_tab \<Rightarrow> processes_tab" where
  "runAction_done t c response s =
     (case response of
        Inr _ \<Rightarrow>
          s\<lparr>pt_toast :=
              Some (tf (t ''processes.actionOk'')
                [(''action'', actionPastTense t (pc_action c)),
                 (''pid'', number_string (prc_pid (pc_process c)))]),
            pt_actionError := None, pt_confirm := None, pt_reloads := pt_reloads s @ [pc_serverId c]\<rparr>
      | Inl cause \<Rightarrow> s\<lparr>pt_actionError := Some (describeActionError t cause)\<rparr>)"

datatype processes_event =
    Pe_Props string string "process_info list"
  | Pe_Query string
  | Pe_GpuOnly
  | Pe_Sort process_sort_key
  | Pe_Ask process_action process_info
  | Pe_Dismiss
  | Pe_Confirm
  | Pe_Answer nat network

text \<open>The controls below the dialog are out of reach while it is open.\<close>

fun processes_enabled :: "(string \<Rightarrow> string) \<Rightarrow> processes_event \<Rightarrow> processes_tab \<Rightarrow> bool" where
  "processes_enabled lower (Pe_Props i n ps) s = True"
| "processes_enabled lower (Pe_Ask action p) s = (pt_confirm s = None \<and> p \<in> set (tab_visible lower s))"
| "processes_enabled lower Pe_Dismiss s = (pt_confirm s \<noteq> None)"
| "processes_enabled lower Pe_Confirm s = (pt_confirm s \<noteq> None)"
| "processes_enabled lower (Pe_Answer k net) s = (k < length (pt_calls s))"
| "processes_enabled lower _ s = (pt_confirm s = None \<and> pt_processes s \<noteq> [])"

fun processes_apply :: "dict \<Rightarrow> processes_event \<Rightarrow> processes_tab \<Rightarrow> processes_tab" where
  "processes_apply t (Pe_Props i n ps) s = tab_props i n ps s"
| "processes_apply t (Pe_Query q) s = s\<lparr>pt_query := q\<rparr>"
| "processes_apply t Pe_GpuOnly s = s\<lparr>pt_gpuOnly := \<not> pt_gpuOnly s\<rparr>"
| "processes_apply t (Pe_Sort key) s = s\<lparr>pt_sort := toggleSort key (pt_sort s)\<rparr>"
| "processes_apply t (Pe_Ask action p) s = ask_action action p s"
| "processes_apply t Pe_Dismiss s = dismissDialog s"
| "processes_apply t Pe_Confirm s = runAction s"
| "processes_apply t (Pe_Answer k net) s =
     runAction_done t (pt_calls s ! k) (action_call net (pt_calls s ! k))
       (s\<lparr>pt_calls := take k (pt_calls s) @ drop (Suc k) (pt_calls s)\<rparr>)"

inductive processes_step ::
  "(string \<Rightarrow> string) \<Rightarrow> dict \<Rightarrow> processes_tab \<Rightarrow> processes_event \<Rightarrow> processes_tab \<Rightarrow> bool"
  for lower t where
  processes_stepI: "processes_enabled lower e s \<Longrightarrow> processes_step lower t s e (processes_apply t e s)"

inductive_cases processes_stepE: "processes_step lower t s e s'"

inductive processes_reach :: "(string \<Rightarrow> string) \<Rightarrow> dict \<Rightarrow> processes_tab \<Rightarrow> bool" for lower t where
  processes_reach_init: "processes_reach lower t (ProcessesTab i n ps)"
| processes_reach_step:
    "processes_reach lower t s \<Longrightarrow> processes_step lower t s e s' \<Longrightarrow> processes_reach lower t s'"

subsection \<open>The order\<close>

definition process_finite :: "process_info \<Rightarrow> bool" where
  "process_finite p \<longleftrightarrow>
     opt_ok is_finite (prc_cpu_percent p) \<and> opt_ok is_finite (prc_mem_percent p) \<and> opt_ok is_finite (prc_rss_b p)"

lemma wfProcess_finite: "wfProcess p \<Longrightarrow> process_finite p"
  by (cases "prc_rss_b p") (simp_all add: wfProcess_def process_finite_def)

lemma sortValue_finite: "process_finite p \<Longrightarrow> sortValue p key = Some v \<Longrightarrow> is_finite v"
  by (cases key) (auto simp: process_finite_def)

text \<open>First the rows that report a value, then the value, in the chosen direction.\<close>

definition unreported :: "process_sort_key \<Rightarrow> process_info \<Rightarrow> js_number" where
  "unreported key p = (if sortValue p key = None then Fin 1 else Fin 0)"

definition sort_number :: "process_sort_key \<Rightarrow> process_info \<Rightarrow> js_number" where
  "sort_number key p = (case sortValue p key of Some v \<Rightarrow> v | None \<Rightarrow> Fin 0)"

definition value_compare :: "process_sort \<Rightarrow> process_info js_comparator" where
  "value_compare s a b =
     (if psr_desc s then num_minus (sort_number (psr_key s) b) (sort_number (psr_key s) a)
      else num_minus (sort_number (psr_key s) a) (sort_number (psr_key s) b))"

lemma consistent_sign:
  "(\<And>a b. num_sign (f a b) = num_sign (g a b)) \<Longrightarrow> consistent C f = consistent C g"
  by (simp add: consistent_def)

lemma value_compare_consistent: "consistent process_finite (value_compare s)"
proof -
  have key: "consistent process_finite (\<lambda>a b. num_minus (sort_number (psr_key s) a) (sort_number (psr_key s) b))"
    by (rule consistent_key) (auto simp: sort_number_def dest: sortValue_finite split: option.splits)
  show ?thesis
  proof (cases "psr_desc s")
    case True
    have "num_sign (value_compare s a b) =
        num_sign (num_uminus (num_minus (sort_number (psr_key s) a) (sort_number (psr_key s) b)))" for a b
      using num_sign_minus_swap [of "sort_number (psr_key s) b" "sort_number (psr_key s) a"]
      by (simp add: value_compare_def True)
    then have "consistent process_finite (value_compare s) = consistent process_finite
        (\<lambda>a b. num_uminus (num_minus (sort_number (psr_key s) a) (sort_number (psr_key s) b)))"
      by (rule consistent_sign)
    then show ?thesis using consistent_uminus [OF key] by simp
  next
    case False
    then show ?thesis using key by (simp add: value_compare_def [abs_def])
  qed
qed

lemma process_compare_consistent: "consistent process_finite (process_compare s)"
proof (rule consistent_lex)
  show "consistent process_finite (\<lambda>a b. num_minus (unreported (psr_key s) a) (unreported (psr_key s) b))"
    by (rule consistent_key) (simp add: unreported_def)
  show "consistent process_finite (value_compare s)" by (rule value_compare_consistent)
  fix a b assume "process_finite a" "process_finite b"
  then show "num_sign (process_compare s a b) =
      (if num_sign (num_minus (unreported (psr_key s) a) (unreported (psr_key s) b)) \<noteq> 0
       then num_sign (num_minus (unreported (psr_key s) a) (unreported (psr_key s) b))
       else num_sign (value_compare s a b))"
    by (auto simp: process_compare_def unreported_def value_compare_def sort_number_def split: option.splits)
qed

interpretation process_order: sort_order "process_compare s" process_finite for s
  by unfold_locales (rule process_compare_consistent)

lemma sorted_processes_sorted:
  assumes "list_all process_finite ps"
  shows "sorted_wrt (\<lambda>a b. num_sign (process_compare s a b) \<le> 0) (sorted_processes lower g q s ps)"
  using process_order.sorted [of "filtered_processes lower g q ps" s] assms
  by (simp add: sorted_processes_def process_order.le_def [abs_def] filtered_processes_def list_all_iff)

text \<open>What the cap hides does not come before what it shows.\<close>

lemma cap_keeps_top:
  assumes ps: "list_all process_finite ps"
    and v: "v \<in> set (visible_processes lower g q s ps)"
    and h: "h \<in> set (filtered_processes lower g q ps)" "h \<notin> set (visible_processes lower g q s ps)"
  shows "num_sign (process_compare s v h) \<le> 0"
proof -
  let ?all = "sorted_processes lower g q s ps"
  have "h \<in> set ?all" using h(1) by (simp add: sorted_processes_def)
  then have "h \<in> set (take ROW_CAP ?all) \<union> set (drop ROW_CAP ?all)"
    by (metis append_take_drop_id set_append)
  then have "h \<in> set (drop ROW_CAP ?all)" using h(2) by (simp add: visible_processes_def)
  moreover have "v \<in> set (take ROW_CAP ?all)" using v by (simp add: visible_processes_def)
  moreover have "sorted_wrt (\<lambda>a b. num_sign (process_compare s a b) \<le> 0) (take ROW_CAP ?all @ drop ROW_CAP ?all)"
    using sorted_processes_sorted [OF ps] by simp
  ultimately show ?thesis by (simp only: sorted_wrt_append)
qed

lemma cap_keeps_largest:
  assumes "list_all process_finite ps"
    and "v \<in> set (visible_processes lower g q \<lparr>psr_key = key, psr_desc = True\<rparr> ps)"
    and "h \<in> set (filtered_processes lower g q ps)"
    and "h \<notin> set (visible_processes lower g q \<lparr>psr_key = key, psr_desc = True\<rparr> ps)"
    and "sortValue h key = Some y"
  shows "\<exists>x. sortValue v key = Some x \<and> num_le y x"
proof -
  have le: "num_sign (process_compare \<lparr>psr_key = key, psr_desc = True\<rparr> v h) \<le> 0"
    by (rule cap_keeps_top [OF assms(1-4)])
  have h: "process_finite h" and v: "process_finite v"
    using assms(1-3) by (auto simp: filtered_processes_def visible_processes_def sorted_processes_def
        list_all_iff dest: in_set_takeD)
  obtain q where y: "y = Fin q" using sortValue_finite [OF h assms(5)] by (auto simp: is_finite_iff)
  show ?thesis
  proof (cases "sortValue v key")
    case None
    then show ?thesis using le assms(5) by (simp add: process_compare_def)
  next
    case (Some x)
    obtain p where x: "x = Fin p" using sortValue_finite [OF v Some] by (auto simp: is_finite_iff)
    have "num_sign (num_minus (Fin q) (Fin p)) \<le> 0"
      using le Some assms(5) by (simp add: process_compare_def x y del: num_minus.simps)
    then show ?thesis using Some by (simp only: num_sign_le) (simp add: x y)
  qed
qed

text \<open>The list is complete up to the cap, whatever the sort.\<close>

lemma visible_count:
  "length (visible_processes lower g q s ps) = min ROW_CAP (length (filtered_processes lower g q ps))"
  by (simp add: visible_processes_def sorted_processes_def min.commute)

lemma visible_all:
  "length (filtered_processes lower g q ps) \<le> ROW_CAP \<Longrightarrow>
   mset (visible_processes lower g q s ps) = mset (filtered_processes lower g q ps)"
  by (simp add: visible_processes_def sorted_processes_def)

lemma toggleSort_twice: "psr_key s = key \<Longrightarrow> toggleSort key (toggleSort key s) = s"
  by (cases s) (simp add: toggleSort_def)

subsection \<open>The dialog\<close>

text \<open>The dialog asked for on one server is answered on the server shown when it is confirmed.\<close>

lemma confirmed_elsewhere:
  assumes "pt_confirm s = Some (action, p)"
  shows "\<lparr>pc_action = action, pc_serverId = b, pc_process = p\<rparr> \<in>
    set (pt_calls (processes_apply t Pe_Confirm (processes_apply t (Pe_Props b name ps) s)))"
  using assms by (simp add: tab_props_def runAction_def)

text \<open>A second press sends the action again; a late success closes whatever is asked by then.\<close>

lemma confirmed_twice:
  assumes "pt_confirm s = Some (action, p)"
  shows "pt_calls (processes_apply t Pe_Confirm (processes_apply t Pe_Confirm s)) =
    pt_calls s @ replicate 2 \<lparr>pc_action = action, pc_serverId = pt_serverId s, pc_process = p\<rparr>"
  using assms by (simp add: runAction_def numeral_2_eq_2)

lemma late_success:
  assumes "k < length (pt_calls s)" "action_call net (pt_calls s ! k) = Inr ()"
  shows "pt_confirm (processes_apply t (Pe_Answer k net) s) = None"
  using assms by (simp add: runAction_done_def)

text \<open>A refusal keeps the dialog and says why.\<close>

lemma refused_action:
  assumes "k < length (pt_calls s)" "action_call net (pt_calls s ! k) = Inl e"
  shows "pt_confirm (processes_apply t (Pe_Answer k net) s) = pt_confirm s \<and>
    pt_actionError (processes_apply t (Pe_Answer k net) s) = Some (describeActionError t e) \<and>
    pt_reloads (processes_apply t (Pe_Answer k net) s) = pt_reloads s"
  using assms by (simp add: runAction_done_def)

end
