(* ===== verification/ServerPage.thy ===== *)
theory ServerPage
  imports Processes Fleet Preferences
begin

text \<open>
  The page of one server (\<open>features/server/ServerPage.tsx\<close>) and its tabs: which body the page
  shows, what the GPU, overview, network, storage and system tabs derive from a snapshot, and the
  life of the processes tab, which React keeps mounted from one render to the next as long as the
  page shows it, whatever the server. \<open>fixtures\<close> are the design previews of
  \<open>data/fixtures.ts\<close>.
\<close>

subsection \<open>ServerPage.tsx\<close>

definition UNREACHABLE_STATUSES :: "server_status list" where
  "UNREACHABLE_STATUSES = [S_Offline, S_Timeout, S_Authentication_failed, S_Host_key_error]"

definition firstErrorDetail :: "server_snapshot \<Rightarrow> string option" where
  "firstErrorDetail snapshot = find (\<lambda>detail. detail \<noteq> '''') (map snd (snap_errors snapshot))"

definition page_snapshot ::
  "(string \<Rightarrow> server_snapshot option) \<Rightarrow> console_state \<Rightarrow> string \<Rightarrow> server_snapshot option" where
  "page_snapshot fixtures st serverId =
     (case cs_snapshots st serverId of Some snapshot \<Rightarrow> Some snapshot | None \<Rightarrow> fixtures serverId)"

text \<open>The effect that loads a snapshot when nothing is known yet.\<close>

definition page_loads :: "(string \<Rightarrow> server_snapshot option) \<Rightarrow> console_state \<Rightarrow> string \<Rightarrow> bool" where
  "page_loads fixtures st serverId \<longleftrightarrow>
     cs_snapshots st serverId = None \<and> cs_snapshotErrors st serverId = None \<and> fixtures serverId = None"

definition page_tab :: "console_state \<Rightarrow> string \<Rightarrow> server_tab" where
  "page_tab st serverId =
     (case cs_route st of RServer i tab \<Rightarrow> if i = serverId then tab else DEFAULT_TAB | _ \<Rightarrow> DEFAULT_TAB)"

definition effectiveTab :: "server_tab list preference \<Rightarrow> console_state \<Rightarrow> string \<Rightarrow> server_tab" where
  "effectiveTab hidden st serverId =
     (if isSectionHidden (page_tab st serverId) hidden then DEFAULT_TAB else page_tab st serverId)"

text \<open>The effect that rewrites the route of a hidden section.\<close>

definition page_rewrites :: "server_tab list preference \<Rightarrow> console_state \<Rightarrow> string \<Rightarrow> bool" where
  "page_rewrites hidden st serverId \<longleftrightarrow>
     (case cs_route st of RServer i tab \<Rightarrow> i = serverId \<and> isSectionHidden tab hidden | _ \<Rightarrow> False)"

definition page_status ::
  "(string \<Rightarrow> server_snapshot option) \<Rightarrow> console_state \<Rightarrow> string \<Rightarrow> server_status" where
  "page_status fixtures st serverId =
     (case page_snapshot fixtures st serverId of
        Some snapshot \<Rightarrow> snap_status snapshot
      | None \<Rightarrow> (case cs_statuses st serverId of Some status \<Rightarrow> status | None \<Rightarrow> S_Unknown))"

definition page_displayName ::
  "(string \<Rightarrow> server_snapshot option) \<Rightarrow> console_state \<Rightarrow> string \<Rightarrow> string" where
  "page_displayName fixtures st serverId =
     (case find (\<lambda>item. srv_server_id item = serverId) (cs_servers st) of
        Some record' \<Rightarrow> srv_display_name record'
      | None \<Rightarrow>
          (case Option.bind (Option.bind (page_snapshot fixtures st serverId) snap_system) sys_hostname of
             Some hostname \<Rightarrow> hostname
           | None \<Rightarrow> serverId))"

definition page_staleSeconds :: "js_runtime \<Rightarrow> server_snapshot \<Rightarrow> rat \<Rightarrow> js_number option" where
  "page_staleSeconds rt snapshot now =
     (if snap_stale snapshot \<or> snap_status snapshot = S_Degraded
      then
        (case snap_generated_at snapshot of
           None \<Rightarrow> None
         | Some text \<Rightarrow>
             (case rt_date_parse rt text of
                Fin time \<Rightarrow> Some (num_of_int (elapsed_seconds time now))
              | _ \<Rightarrow> Some NaN))
      else None)"

datatype page_content =
    Page_Loading
  | Page_Error string
  | Page_Unreachable string
  | Page_Tab server_tab server_snapshot

definition page_body ::
  "dict \<Rightarrow> (string \<Rightarrow> server_snapshot option) \<Rightarrow> server_tab list preference \<Rightarrow> console_state \<Rightarrow> string \<Rightarrow>
   (server_status \<Rightarrow> string) \<Rightarrow> page_content" where
  "page_body t fixtures hidden st serverId status_word =
     (case page_snapshot fixtures st serverId of
        None \<Rightarrow>
          (case cs_snapshotErrors st serverId of None \<Rightarrow> Page_Loading | Some e \<Rightarrow> Page_Error e)
      | Some snapshot \<Rightarrow>
          if page_status fixtures st serverId \<in> set UNREACHABLE_STATUSES
          then Page_Unreachable
                 (case firstErrorDetail snapshot of
                    Some detail \<Rightarrow> detail
                  | None \<Rightarrow> status_word (page_status fixtures st serverId))
          else Page_Tab (effectiveTab hidden st serverId) snapshot)"

definition page_showIdentity ::
  "(string \<Rightarrow> server_snapshot option) \<Rightarrow> console_state \<Rightarrow> string \<Rightarrow> bool" where
  "page_showIdentity fixtures st serverId \<longleftrightarrow>
     page_snapshot fixtures st serverId = None \<or>
     page_status fixtures st serverId \<in> set UNREACHABLE_STATUSES"

subsection \<open>GpusTab.tsx\<close>

definition processBelongsTo :: "gpu_info \<Rightarrow> gpu_process_info \<Rightarrow> bool" where
  "processBelongsTo gpu proc \<longleftrightarrow>
     (if gpu_uuid gpu \<noteq> None \<and> gpp_gpu_uuid proc \<noteq> None then gpu_uuid gpu = gpp_gpu_uuid proc
      else gpp_gpu_index proc = Some (gpu_index gpu))"

definition shortName :: "string option \<Rightarrow> string option" where
  "shortName name =
     (case name of
        None \<Rightarrow> None
      | Some n \<Rightarrow> (let l = last (split_on (CHR ''/'') n) in Some (if l = '''' then n else l)))"

definition resolveUser :: "dict \<Rightarrow> gpu_process_info \<Rightarrow> process_info list \<Rightarrow> string" where
  "resolveUser t proc ps =
     (case gpp_user proc of
        Some u \<Rightarrow> u
      | None \<Rightarrow>
          (case Option.bind (find (\<lambda>p. prc_pid p = gpp_pid proc) ps) prc_user of
             Some u \<Rightarrow> u
           | None \<Rightarrow> t ''common.unknown''))"

definition gpu_processes_of :: "server_snapshot \<Rightarrow> gpu_info \<Rightarrow> gpu_process_info list" where
  "gpu_processes_of snapshot gpu = filter (processBelongsTo gpu) (snap_gpu_processes snapshot)"

text \<open>Title and hint when the server reports no GPU, in this tab and in the overview.\<close>

definition no_gpus :: "dict \<Rightarrow> server_snapshot \<Rightarrow> string \<times> string" where
  "no_gpus t snapshot =
     (let e = map_of (snap_errors snapshot) ''gpu''
      in if e = Some ''unavailable'' then (t ''overview.noGpu'', t ''overview.noGpuHint'')
         else (t ''overview.noGpusReported'',
               case e of Some detail \<Rightarrow> detail | None \<Rightarrow> t ''overview.noGpusReportedHint''))"

subsection \<open>OverviewTab.tsx\<close>

definition OVERVIEW_STORAGE_WARN :: rat where "OVERVIEW_STORAGE_WARN = 80"
definition OVERVIEW_STORAGE_CRIT :: rat where "OVERVIEW_STORAGE_CRIT = 90"
definition TOP_PROCESS_COUNT :: nat where "TOP_PROCESS_COUNT = 5"

text \<open>\<open>x + y\<close> on doubles: the exact sum, rounded.\<close>

fun double_plus :: "js_number \<Rightarrow> js_number \<Rightarrow> js_number" where
  "double_plus (Fin p) (Fin q) = round_double (p + q)"
| "double_plus x y = num_plus x y"

fun sumRates_loop :: "js_number option \<Rightarrow> js_number option list \<Rightarrow> js_number option" where
  "sumRates_loop acc [] = acc"
| "sumRates_loop acc (v # vs) =
     sumRates_loop
       (case v of
          Some x \<Rightarrow>
            if is_finite x then Some (double_plus (case acc of Some y \<Rightarrow> y | None \<Rightarrow> Fin 0) x) else acc
        | None \<Rightarrow> acc) vs"

definition sumRates :: "js_number option list \<Rightarrow> js_number option" where
  "sumRates vs = sumRates_loop None vs"

definition rateText :: "js_runtime \<Rightarrow> js_number option \<Rightarrow> string" where
  "rateText rt bps = (if bps = None then EM_DASH else formatBps rt bps)"

definition load_word :: "js_runtime \<Rightarrow> dict \<Rightarrow> js_number option \<Rightarrow> string" where
  "load_word rt t v =
     (case v of None \<Rightarrow> t ''common.na'' | Some (Fin q) \<Rightarrow> toFixed rt 2 q | Some x \<Rightarrow> number_string x)"

definition loadValuesText :: "js_runtime \<Rightarrow> dict \<Rightarrow> cpu_info option \<Rightarrow> string" where
  "loadValuesText rt t cpu =
     (case cpu of
        None \<Rightarrow> t ''common.na''
      | Some c \<Rightarrow>
          load_word rt t (cpu_load_1 c) @ '' '' @ load_word rt t (cpu_load_5 c) @ '' ''
          @ load_word rt t (cpu_load_15 c))"

definition overview_cores :: "dict \<Rightarrow> cpu_info option \<Rightarrow> server_snapshot \<Rightarrow> string" where
  "overview_cores t cpu snapshot =
     (let reported = Option.bind cpu cpu_cores_logical;
          logical = (if reported \<noteq> None then reported
                     else Option.bind (snap_system snapshot) sys_cores_logical)
      in case logical of
           None \<Rightarrow> t ''overview.coresNa''
         | Some n \<Rightarrow> tf (t ''overview.cores'') [(''n'', number_string n)])"

text \<open>The comparators \<open>(b.x ?? -1) - (a.x ?? -1)\<close>.\<close>

definition or_minus_one :: "js_number option \<Rightarrow> js_number" where
  "or_minus_one v = (case v of Some x \<Rightarrow> x | None \<Rightarrow> Fin (- 1))"

definition largest_first :: "('a \<Rightarrow> js_number option) \<Rightarrow> 'a js_comparator" where
  "largest_first f a b = num_minus (or_minus_one (f b)) (or_minus_one (f a))"

definition worstMount :: "server_snapshot \<Rightarrow> storage_mount option" where
  "worstMount snapshot =
     (case js_sort (largest_first mnt_percent) (snap_storage snapshot) of [] \<Rightarrow> None | m # _ \<Rightarrow> Some m)"

definition storageWarning :: "server_snapshot \<Rightarrow> storage_mount option" where
  "storageWarning snapshot =
     (case worstMount snapshot of
        None \<Rightarrow> None
      | Some m \<Rightarrow>
          if num_le (Fin OVERVIEW_STORAGE_WARN) (case mnt_percent m of Some x \<Rightarrow> x | None \<Rightarrow> Fin 0)
          then Some m else None)"

definition topProcesses :: "server_snapshot \<Rightarrow> process_info list" where
  "topProcesses snapshot =
     take TOP_PROCESS_COUNT (js_sort (largest_first prc_cpu_percent) (snap_processes snapshot))"

definition network_totals :: "server_snapshot \<Rightarrow> js_number option \<times> js_number option" where
  "network_totals snapshot =
     (sumRates (map nif_rx_bps (snap_network snapshot)), sumRates (map nif_tx_bps (snap_network snapshot)))"

subsection \<open>NetworkTab.tsx, StorageTab.tsx, SystemTab.tsx\<close>

text \<open>\<open>snapshot.errors.<key> ?? hint\<close> of an empty tab.\<close>

definition empty_hint :: "string \<Rightarrow> string \<Rightarrow> server_snapshot \<Rightarrow> string" where
  "empty_hint key hint snapshot =
     (case map_of (snap_errors snapshot) key of Some detail \<Rightarrow> detail | None \<Rightarrow> hint)"

definition NetworkTab_meta :: "dict \<Rightarrow> server_snapshot \<Rightarrow> string" where
  "NetworkTab_meta t snapshot =
     (let n = length (snap_network snapshot)
      in tf (if n = 1 then t ''network.ifacesOne'' else t ''network.ifacesMany'') [(''n'', show_nat n)])"

definition NetworkTab_row :: "js_runtime \<Rightarrow> dict \<Rightarrow> network_interface_info \<Rightarrow> string list" where
  "NetworkTab_row rt t iface =
     [nif_name iface,
      (case nif_ip iface of Some ip \<Rightarrow> ip | None \<Rightarrow> EM_DASH),
      tf (t ''overview.rx'') [(''rate'', rateText rt (nif_rx_bps iface))],
      tf (t ''overview.tx'') [(''rate'', rateText rt (nif_tx_bps iface))],
      tf (t ''network.inTotal'')
        [(''size'', formatBytes rt (nif_rx_total_b iface)), (''sizeOut'', formatBytes rt (nif_tx_total_b iface))]]"

definition STORAGE_WARN :: rat where "STORAGE_WARN = 80"
definition STORAGE_CRIT :: rat where "STORAGE_CRIT = 95"

definition StorageTab_mounts :: "server_snapshot \<Rightarrow> storage_mount list" where
  "StorageTab_mounts snapshot = js_sort (largest_first mnt_percent) (snap_storage snapshot)"

definition mount_state :: "rat \<Rightarrow> rat \<Rightarrow> storage_mount \<Rightarrow> meter_state" where
  "mount_state warn crit mount =
     (case finite_value (mnt_percent mount) of
        None \<Rightarrow> Mt_Ok
      | Some q \<Rightarrow> meterStateForValue q warn crit)"

definition liveUptime :: "js_runtime \<Rightarrow> js_number option \<Rightarrow> string option \<Rightarrow> rat \<Rightarrow> js_number option" where
  "liveUptime rt uptimeS generatedAt now =
     (case uptimeS of
        None \<Rightarrow> None
      | Some uptime \<Rightarrow>
          (case generatedAt of
             None \<Rightarrow> Some uptime
           | Some text \<Rightarrow>
               (case rt_date_parse rt text of
                  Fin generated \<Rightarrow> Some (double_plus uptime (if now \<le> generated then Fin 0
                      else round_double ((now - generated) / 1000)))
                | _ \<Rightarrow> Some uptime)))"

definition system_cores :: "dict \<Rightarrow> system_info \<Rightarrow> string" where
  "system_cores t system =
     (case (sys_cores_physical system, sys_cores_logical system) of
        (None, None) \<Rightarrow> t ''common.na''
      | (None, Some n) \<Rightarrow> tf (t ''system.logicalCount'') [(''n'', number_string n)]
      | (Some n, None) \<Rightarrow> tf (t ''overview.physical'') [(''n'', number_string n)]
      | (Some p, Some l) \<Rightarrow>
          tf (t ''system.coresPair'') [(''physical'', number_string p), (''logical'', number_string l)])"

definition or_na :: "dict \<Rightarrow> string option \<Rightarrow> string" where
  "or_na t x = (case x of Some s \<Rightarrow> s | None \<Rightarrow> t ''common.na'')"

definition SystemTab_rows :: "js_runtime \<Rightarrow> dict \<Rightarrow> server_snapshot \<Rightarrow> system_info \<Rightarrow> rat \<Rightarrow> (string \<times> string) list" where
  "SystemTab_rows rt t snapshot system now =
     [(t ''system.hostname'', or_na t (sys_hostname system)),
      (t ''system.os'', or_na t (sys_os_pretty system)),
      (t ''system.kernel'', or_na t (sys_kernel system)),
      (t ''system.uptime'',
       formatUptime rt (liveUptime rt (sys_uptime_s system) (snap_generated_at snapshot) now)),
      (t ''system.cpuModel'', or_na t (sys_cpu_model system)),
      (t ''system.cores'', system_cores t system),
      (t ''system.driver'', or_na t (sys_driver_version system))]"

subsection \<open>The life of the processes tab\<close>

text \<open>
  The element stands at one place of the page's tree and has no key: React keeps the instance
  while consecutive renders have it there and passes it the new props.
\<close>

definition processes_mounted ::
  "dict \<Rightarrow> (string \<Rightarrow> server_snapshot option) \<Rightarrow> server_tab list preference \<Rightarrow> console_state \<Rightarrow> string \<Rightarrow>
   (server_status \<Rightarrow> string) \<Rightarrow> processes_tab option \<Rightarrow> processes_tab option" where
  "processes_mounted t fixtures hidden st serverId status_word previous =
     (case page_body t fixtures hidden st serverId status_word of
        Page_Tab tab snapshot \<Rightarrow>
          if tab = Tab_Processes
          then
            (let name = page_displayName fixtures st serverId; ps = snap_processes snapshot
             in case previous of
                  Some p \<Rightarrow> Some (tab_props serverId name ps p)
                | None \<Rightarrow> Some (ProcessesTab serverId name ps))
          else None
      | _ \<Rightarrow> None)"

text \<open>A dialog opened for a process of one server survives the way to another server's page.\<close>

lemma dialog_follows_route:
  assumes "page_body t fixtures hidden st b status_word = Page_Tab Tab_Processes snapshot"
    and "pt_confirm p = Some (action, proc)"
  shows "\<exists>p'. processes_mounted t fixtures hidden st b status_word (Some p) = Some p' \<and>
    pt_confirm p' = Some (action, proc) \<and> pt_serverId p' = b \<and>
    \<lparr>pc_action = action, pc_serverId = b, pc_process = proc\<rparr> \<in> set (pt_calls (processes_apply t Pe_Confirm p'))"
  using assms by (simp add: processes_mounted_def Let_def tab_props_def runAction_def)

text \<open>The skeleton is shown exactly while the page asks for the snapshot.\<close>

lemma loading_asks:
  "page_body t fixtures hidden st serverId status_word = Page_Loading \<longleftrightarrow> page_loads fixtures st serverId"
  by (auto simp: page_body_def page_loads_def page_snapshot_def split: option.splits)

lemma effectiveTab_visible:
  "hidden_ok (pf_current hidden) \<Longrightarrow> \<not> isSectionHidden (effectiveTab hidden st serverId) hidden"
  using overview_never_hidden [of hidden] by (simp add: effectiveTab_def DEFAULT_TAB_def)

lemma rewrite_once:
  "hidden_ok (pf_current hidden) \<Longrightarrow> cs_route st = RServer serverId DEFAULT_TAB \<Longrightarrow>
   \<not> page_rewrites hidden st serverId"
  using overview_never_hidden [of hidden] by (simp add: page_rewrites_def DEFAULT_TAB_def)

subsection \<open>Sorted views\<close>

lemma largest_first_consistent: "consistent (\<lambda>x. opt_ok is_finite (f x)) (largest_first f)"
proof -
  have key: "consistent (\<lambda>x. opt_ok is_finite (f x)) (\<lambda>a b. num_minus (or_minus_one (f a)) (or_minus_one (f b)))"
  proof (rule consistent_key)
    fix a assume "opt_ok is_finite (f a)"
    then show "is_finite (or_minus_one (f a))" by (cases "f a") (simp_all add: or_minus_one_def)
  qed
  have "consistent (\<lambda>x. opt_ok is_finite (f x)) (largest_first f) = consistent (\<lambda>x. opt_ok is_finite (f x))
      (\<lambda>a b. num_uminus (num_minus (or_minus_one (f a)) (or_minus_one (f b))))"
  proof (rule consistent_sign)
    fix a b
    show "num_sign (largest_first f a b) =
        num_sign (num_uminus (num_minus (or_minus_one (f a)) (or_minus_one (f b))))"
      using num_sign_minus_swap [of "or_minus_one (f b)" "or_minus_one (f a)"] by (simp add: largest_first_def)
  qed
  then show ?thesis using consistent_uminus [OF key] by simp
qed

interpretation largest_order: sort_order "largest_first f" "\<lambda>x. opt_ok is_finite (f x)" for f
  by unfold_locales (rule largest_first_consistent)

lemma or_minus_one_finite: "opt_ok is_finite v \<Longrightarrow> is_finite (or_minus_one v)"
  by (cases v) (simp_all add: or_minus_one_def)

lemma largest_first_sorted:
  assumes "list_all (\<lambda>x. opt_ok is_finite (f x)) xs"
  shows "sorted_wrt (\<lambda>a b. num_le (or_minus_one (f b)) (or_minus_one (f a))) (js_sort (largest_first f) xs)"
proof -
  have "sorted_wrt (largest_order.le f) (js_sort (largest_first f) xs)"
    using largest_order.sorted assms by (simp add: list_all_iff)
  moreover have "num_le (or_minus_one (f b)) (or_minus_one (f a))"
    if "a \<in> set xs" "b \<in> set xs" "largest_order.le f a b" for a b
  proof -
    have "is_finite (or_minus_one (f a))" "is_finite (or_minus_one (f b))"
      using assms that(1,2) by (auto simp: list_all_iff intro: or_minus_one_finite)
    then obtain p q where "or_minus_one (f a) = Fin p" "or_minus_one (f b) = Fin q"
      by (auto simp: is_finite_iff)
    then show ?thesis using that(3) unfolding largest_order.le_def largest_first_def
      by (simp only: num_sign_le) simp
  qed
  ultimately show ?thesis by (rule sorted_wrt_mono_rel [rotated]) auto
qed

text \<open>The overview warns about the fullest mount as soon as some mount is over the threshold.\<close>

lemma worst_mount_fullest:
  assumes "list_all (\<lambda>m. opt_ok is_finite (mnt_percent m)) (snap_storage snapshot)"
    and "worstMount snapshot = Some w" "m \<in> set (snap_storage snapshot)"
  shows "num_le (or_minus_one (mnt_percent m)) (or_minus_one (mnt_percent w))"
proof -
  let ?xs = "js_sort (largest_first mnt_percent) (snap_storage snapshot)"
  obtain rest where xs: "?xs = w # rest" using assms(2) by (auto simp: worstMount_def split: list.splits)
  have "m \<in> set ?xs" using assms(3) by simp
  then consider "m = w" | "m \<in> set rest" using xs by auto
  then show ?thesis
  proof cases
    case 1
    have "is_finite (or_minus_one (mnt_percent m))"
      using assms(1,3) by (auto simp: list_all_iff intro: or_minus_one_finite)
    then show ?thesis using 1 by (auto simp: is_finite_iff)
  next
    case 2
    then show ?thesis using largest_first_sorted [OF assms(1)] xs by auto
  qed
qed

lemma overview_warning:
  assumes "list_all (\<lambda>m. opt_ok is_finite (mnt_percent m)) (snap_storage snapshot)"
    and "m \<in> set (snap_storage snapshot)" "mnt_percent m = Some x" "num_le (Fin OVERVIEW_STORAGE_WARN) x"
  shows "\<exists>w y. storageWarning snapshot = Some w \<and> mnt_percent w = Some y \<and> num_le x y"
proof -
  have "js_sort (largest_first mnt_percent) (snap_storage snapshot) \<noteq> []"
    using assms(2) by (metis empty_iff list.set(1) set_js_sort)
  then obtain w where w: "worstMount snapshot = Some w"
    by (auto simp: worstMount_def neq_Nil_conv)
  then have le: "num_le x (or_minus_one (mnt_percent w))"
    using worst_mount_fullest [OF assms(1) w assms(2)] assms(3) by (simp add: or_minus_one_def)
  obtain p where x: "x = Fin p" using assms(1-3) by (force simp: list_all_iff is_finite_iff)
  have "80 \<le> p" using assms(4) by (simp add: x OVERVIEW_STORAGE_WARN_def)
  then have some: "\<exists>y. mnt_percent w = Some y" using le by (cases "mnt_percent w") (auto simp: x or_minus_one_def)
  then obtain y where y: "mnt_percent w = Some y" by blast
  have "num_le (Fin p) y" using le y by (simp add: x or_minus_one_def)
  then have "num_le (Fin OVERVIEW_STORAGE_WARN) y"
    using \<open>80 \<le> p\<close> by (cases y) (simp_all add: OVERVIEW_STORAGE_WARN_def)
  then show ?thesis using w y le by (simp add: storageWarning_def or_minus_one_def)
qed

lemma overview_silent:
  assumes "storageWarning snapshot = Some w"
  shows "w \<in> set (snap_storage snapshot) \<and> (\<exists>x. mnt_percent w = Some x \<and> num_le (Fin OVERVIEW_STORAGE_WARN) x)"
proof -
  have "worstMount snapshot = Some w"
    using assms by (auto simp: storageWarning_def split: option.splits if_splits)
  then have "w \<in> set (js_sort (largest_first mnt_percent) (snap_storage snapshot))"
    unfolding worstMount_def by (cases "js_sort (largest_first mnt_percent) (snap_storage snapshot)") auto
  then have "w \<in> set (snap_storage snapshot)" by (simp only: set_js_sort)
  then show ?thesis using assms
    by (auto simp: storageWarning_def OVERVIEW_STORAGE_WARN_def split: option.splits if_splits)
qed

subsection \<open>Owners and uptime\<close>

text \<open>The owners of a GPU are the users of the processes listed under it, if all carry a UUID.\<close>

lemma owners_of_listed:
  assumes "gpu_uuid gpu \<noteq> None" "list_all (\<lambda>p. gpp_gpu_uuid p \<noteq> None) (snap_gpu_processes snapshot)"
  shows "set (gpuOwners gpu (snap_gpu_processes snapshot)) =
    set (map_non_null gpp_user (gpu_processes_of snapshot gpu))"
proof -
  have "filter (\<lambda>p. gpu_uuid gpu \<noteq> None \<and> gpp_gpu_uuid p = gpu_uuid gpu
          \<or> gpu_uuid gpu = None \<and> gpp_gpu_index p = Some (gpu_index gpu)) (snap_gpu_processes snapshot)
      = gpu_processes_of snapshot gpu"
    unfolding gpu_processes_of_def using assms
    by (intro filter_cong) (auto simp: processBelongsTo_def list_all_iff)
  then show ?thesis by (simp add: gpuOwners_def)
qed

text \<open>A process without a UUID is listed under its GPU's index, but its user is no owner.\<close>

lemma owner_missing:
  assumes "gpu_uuid gpu = Some u" "snap_gpu_processes snapshot = [p]" "gpp_gpu_uuid p = None"
    "gpp_gpu_index p = Some (gpu_index gpu)" "gpp_user p = Some name"
  shows "gpu_processes_of snapshot gpu = [p] \<and> gpuOwners gpu (snap_gpu_processes snapshot) = []"
  using assms by (simp add: gpu_processes_of_def processBelongsTo_def gpuOwners_def)

text \<open>The page's clock counts seconds from the load of the page, far below any time stamp.\<close>

lemma uptime_frozen:
  assumes "rt_date_parse rt text = Fin generated" "now \<le> generated" "is_double (Fin u)"
  shows "liveUptime rt (Some (Fin u)) (Some text) now = Some (Fin u)"
  using assms by (simp add: liveUptime_def)

end
