(* ===== verification/WorkspaceShared.thy ===== *)
theory WorkspaceShared
  imports WorkspaceApi Format Doubles
begin

text \<open>
  The helpers of \<open>features/workspace/shared.ts\<close>: labels, the sections by kind, and the field
  checks that anticipate the backend's.
\<close>

definition artifactLabel :: "artifact_record \<Rightarrow> string" where
  "artifactLabel a =
     (case art_version a of
        Some v \<Rightarrow> if v \<noteq> '''' then art_name a @ '':'' @ v else art_name a
      | None \<Rightarrow> art_name a)"

definition kindLabel :: "dict \<Rightarrow> artifact_kind \<Rightarrow> string" where
  "kindLabel t kind =
     (if kind = Kind_Dataset then t ''workspace.kindDataset''
      else if kind = Kind_Model then t ''workspace.kindModel''
      else t ''workspace.kindCode'')"

definition kindSectionTitle :: "dict \<Rightarrow> artifact_kind \<Rightarrow> string" where
  "kindSectionTitle t kind =
     (if kind = Kind_Model then t ''workspace.tabModels'' else t ''workspace.tabDatasets'')"

text \<open>The map of the code, filled in the order of the artifacts.\<close>

definition by_kind :: "artifact_record list \<Rightarrow> artifact_kind \<rightharpoonup> artifact_record list" where
  "by_kind artifacts =
     foldl (\<lambda>m a. m(art_kind a \<mapsto> (case m (art_kind a) of Some l \<Rightarrow> l | None \<Rightarrow> []) @ [a]))
       Map.empty artifacts"

definition groupArtifactsByKind ::
  "artifact_record list \<Rightarrow> (artifact_kind \<times> artifact_record list) list" where
  "groupArtifactsByKind artifacts =
     (let m = by_kind artifacts; found = (\<lambda>kind. case m kind of Some l \<Rightarrow> l | None \<Rightarrow> [])
      in map (\<lambda>kind. (kind, found kind))
           (filter (\<lambda>kind. found kind \<noteq> []) [Kind_Code, Kind_Dataset, Kind_Model]))"

definition rootPathValid :: "string \<Rightarrow> bool" where
  "rootPathValid raw \<longleftrightarrow>
     raw \<noteq> '''' \<and> utf16_length raw \<le> 512 \<and> list_all (\<lambda>c. 31 < byte c \<and> byte c \<noteq> 127) raw"

definition remotePathValid :: "string \<Rightarrow> bool" where
  "remotePathValid raw \<longleftrightarrow> raw \<noteq> '''' \<and> utf16_length raw \<le> 512"

definition SHELL_META :: "char list" where
  "SHELL_META = '';&|<>`$(){}[]*?~'' @ [CHR 0x22, CHR 0x27, CHR 0x5C, CHR 0x0A, CHR 0x0D, CHR 0x00]"

definition hasShellMeta :: "string \<Rightarrow> bool" where
  "hasShellMeta v \<longleftrightarrow> list_ex (\<lambda>c. c \<in> set SHELL_META) v"

definition splitList :: "string \<Rightarrow> string list" where
  "splitList raw = filter (\<lambda>item. item \<noteq> '''') (map trim (split_on (CHR '','') raw))"

definition gibToBytes :: "string \<Rightarrow> js_number option" where
  "gibToBytes raw =
     (if trim raw = '''' then None
      else if \<not> list_all is_digit (trim raw) then None
      else
        Some (case round_double (of_nat (parse_nat (trim raw))) of
                Fin q \<Rightarrow> round_double (q * 1024 ^ 3)
              | x \<Rightarrow> x))"

subsection \<open>The sections\<close>

lemma by_kind_eq:
  "by_kind artifacts kind =
     (let l = filter (\<lambda>a. art_kind a = kind) artifacts in if l = [] then None else Some l)"
proof (induction artifacts rule: rev_induct)
  case (snoc a artifacts)
  then show ?case by (auto simp: by_kind_def Let_def)
qed (simp add: by_kind_def)

lemma map_of_graph: "map_of (map (\<lambda>k. (k, f k)) ks) k = (if k \<in> set ks then Some (f k) else None)"
  by (induction ks) auto

lemma kinds_complete: "kind \<in> {Kind_Code, Kind_Dataset, Kind_Model}"
  by (cases kind) simp_all

text \<open>Every artifact stands in exactly the section of its kind, in the order it came.\<close>

lemma groups_partition:
  "map_of (groupArtifactsByKind artifacts) kind =
     (let l = filter (\<lambda>a. art_kind a = kind) artifacts in if l = [] then None else Some l) \<and>
   sum_list (map (length \<circ> snd) (groupArtifactsByKind artifacts)) = length artifacts \<and>
   distinct (map fst (groupArtifactsByKind artifacts))"
proof (intro conjI)
  show "map_of (groupArtifactsByKind artifacts) kind =
      (let l = filter (\<lambda>a. art_kind a = kind) artifacts in if l = [] then None else Some l)"
    unfolding groupArtifactsByKind_def Let_def map_of_graph set_filter
    using kinds_complete [of kind] by (simp add: by_kind_eq Let_def)
  have "length artifacts =
      length (filter (\<lambda>a. art_kind a = Kind_Code) artifacts)
      + length (filter (\<lambda>a. art_kind a = Kind_Dataset) artifacts)
      + length (filter (\<lambda>a. art_kind a = Kind_Model) artifacts)"
  proof (induction artifacts)
    case (Cons a artifacts)
    then show ?case by (cases "art_kind a") simp_all
  qed simp
  then show "sum_list (map (length \<circ> snd) (groupArtifactsByKind artifacts)) = length artifacts"
    by (simp add: groupArtifactsByKind_def by_kind_eq Let_def)
  show "distinct (map fst (groupArtifactsByKind artifacts))"
    by (simp add: groupArtifactsByKind_def Let_def)
qed

end
