(* ===== verification/TransferDialog.thy ===== *)
theory TransferDialog
  imports TransferStore WorkspaceShared DirectAuth Requests
begin

text \<open>
  The dialog that starts a transfer (\<open>features/transfers/NewTransferDialog.tsx\<close>). Its three
  effects (seeding on open, the suggested path, the debounced plan) are functions of the render
  they belong to and of the state; \<open>settle\<close> runs the renders that follow an event. The debounce
  timer and the requests in flight are part of the state, with the sequence numbers they carry.
\<close>

subsection \<open>Choosing\<close>

definition STRATEGY_OPTIONS :: "transfer_strategy list" where
  "STRATEGY_OPTIONS = [TS_Auto, TS_Direct_rsync, TS_Local_relay]"

definition PLAN_DEBOUNCE_MS :: nat where
  "PLAN_DEBOUNCE_MS = 400"

definition strategyLabel :: "dict \<Rightarrow> transfer_strategy \<Rightarrow> string" where
  "strategyLabel t strategy =
     (if strategy = TS_Direct_rsync then t ''transfers.strategyDirect''
      else if strategy = TS_Local_relay then t ''transfers.strategyRelay''
      else t ''transfers.strategyAuto'')"

definition firstTargetServer :: "server_record list \<Rightarrow> string option \<Rightarrow> string" where
  "firstTargetServer servers exclude =
     (case find (\<lambda>s. srv_enabled s \<and> Some (srv_server_id s) \<noteq> exclude) servers of
        Some s \<Rightarrow> srv_server_id s
      | None \<Rightarrow> '''')"

definition projectArtifactIds :: "string \<Rightarrow> project_record list \<Rightarrow> string list" where
  "projectArtifactIds artifactId projects =
     concat (map prj_artifact_ids (filter (\<lambda>p. artifactId \<in> set (prj_artifact_ids p)) projects))"

definition peerServerIds ::
  "string \<Rightarrow> project_record list \<Rightarrow> placement_record list \<Rightarrow> string option \<Rightarrow> string list" where
  "peerServerIds artifactId projects placements sourceServerId =
     (let ids = projectArtifactIds artifactId projects
      in if ids = [] then []
         else
           foldl (\<lambda>peers p.
               if Some (plc_server_id p) \<noteq> sourceServerId \<and> plc_artifact_id p \<in> set ids
                 \<and> plc_server_id p \<notin> set peers
               then peers @ [plc_server_id p] else peers) [] placements)"

definition suggestedTargetServer ::
  "string \<Rightarrow> string list \<Rightarrow> server_record list \<Rightarrow> string option \<Rightarrow> string" where
  "suggestedTargetServer currentTarget peers servers sourceServerId =
     (let kept = (if currentTarget = '''' \<or> Some currentTarget = sourceServerId
                  then firstTargetServer servers sourceServerId else currentTarget)
      in if peers = [] then kept
         else if currentTarget \<in> set peers then currentTarget
         else
           (case find (\<lambda>s. srv_enabled s \<and> srv_server_id s \<in> set peers) servers of
              Some s \<Rightarrow> srv_server_id s
            | None \<Rightarrow> kept))"

definition placementSourceLabel :: "server_record list \<Rightarrow> string \<Rightarrow> string \<Rightarrow> string" where
  "placementSourceLabel servers serverId remotePath =
     (let name = (case find (\<lambda>s. srv_server_id s = serverId) servers of
                    Some s \<Rightarrow> srv_display_name s | None \<Rightarrow> serverId)
      in name @ bytes [32, 194, 183, 32] @ remotePath)"

definition buildRequest ::
  "string \<Rightarrow> string \<Rightarrow> string \<Rightarrow> string \<Rightarrow> transfer_strategy \<Rightarrow> transfer_request option" where
  "buildRequest artifactId placementId targetServerId targetPath strategy =
     (let path = trim targetPath
      in if artifactId = '''' \<or> placementId = '''' \<or> targetServerId = '''' \<or> path = ''''
           \<or> 512 < utf16_length path
         then None
         else
           Some \<lparr>trq_artifact_id = artifactId, trq_source_placement_id = placementId,
                 trq_target_server_id = targetServerId, trq_target_path = path,
                 trq_strategy = strategy, trq_verify_mode = VM_Quick\<rparr>)"

subsection \<open>State\<close>

datatype dialog_fetch =
    Fetch_Suggest nat string string
  | Fetch_Plan nat transfer_request
  | Fetch_Create transfer_request

text \<open>The data the dialog reads from the stores.\<close>

record catalogue =
  ct_artifacts :: "artifact_record list"
  ct_placements :: "placement_record list"
  ct_projects :: "project_record list"
  ct_servers :: "server_record list"

type_synonym suggest_inputs = "bool \<times> bool \<times> string \<times> string \<times> string option"
type_synonym plan_inputs = "bool \<times> string \<times> string \<times> string \<times> string \<times> transfer_strategy \<times> nat"

record transfer_form =
  nt_open :: bool
  nt_prefill :: transfer_prefill
  nt_catalogue :: catalogue
  nt_artifactId :: string
  nt_placementId :: string
  nt_targetServerId :: string
  nt_targetPath :: string
  nt_strategy :: transfer_strategy
  nt_pathTouched :: bool
  nt_pathHint :: bool
  nt_plan :: "transfer_plan option"
  nt_planning :: bool
  nt_planError :: "string option"
  nt_creating :: bool
  nt_createError :: "string option"
  nt_setupOpen :: bool
  nt_directChanged :: bool
  nt_planNonce :: nat
  nt_planSeq :: nat
  nt_suggestSeq :: nat
  nt_seededOpen :: bool
  nt_timer :: "(nat \<times> transfer_request) option"
  nt_suggestDeps :: suggest_inputs
  nt_planDeps :: plan_inputs
  nt_pending :: "dialog_fetch list"

definition selectedPlacement :: "transfer_form \<Rightarrow> placement_record option" where
  "selectedPlacement d =
     find (\<lambda>p. plc_placement_id p = nt_placementId d)
       (filter (\<lambda>p. plc_artifact_id p = nt_artifactId d) (ct_placements (nt_catalogue d)))"

definition sourceServerId :: "transfer_form \<Rightarrow> string option" where
  "sourceServerId d = map_option plc_server_id (selectedPlacement d)"

definition form_request :: "transfer_form \<Rightarrow> transfer_request option" where
  "form_request d =
     buildRequest (nt_artifactId d) (nt_placementId d) (nt_targetServerId d) (nt_targetPath d) (nt_strategy d)"

definition suggest_deps :: "transfer_form \<Rightarrow> suggest_inputs" where
  "suggest_deps d = (nt_open d, nt_pathTouched d, nt_artifactId d, nt_targetServerId d, sourceServerId d)"

definition plan_deps :: "transfer_form \<Rightarrow> plan_inputs" where
  "plan_deps d =
     (nt_open d, nt_artifactId d, nt_placementId d, nt_targetServerId d, nt_targetPath d, nt_strategy d,
      nt_planNonce d)"

text \<open>Mounted closed: the effects have run once and found nothing to do.\<close>

definition NewTransferDialog :: "catalogue \<Rightarrow> transfer_form" where
  "NewTransferDialog cat =
     \<lparr>nt_open = False, nt_prefill = no_prefill, nt_catalogue = cat, nt_artifactId = '''',
      nt_placementId = '''', nt_targetServerId = '''', nt_targetPath = '''', nt_strategy = TS_Auto,
      nt_pathTouched = False, nt_pathHint = False, nt_plan = None, nt_planning = False,
      nt_planError = None, nt_creating = False, nt_createError = None, nt_setupOpen = False,
      nt_directChanged = False, nt_planNonce = 0, nt_planSeq = 0, nt_suggestSeq = 0,
      nt_seededOpen = False, nt_timer = None,
      nt_suggestDeps =
        (False, False, '''', '''',
         map_option plc_server_id (find (\<lambda>p. plc_placement_id p = '''')
           (filter (\<lambda>p. plc_artifact_id p = '''') (ct_placements cat)))),
      nt_planDeps = (False, '''', '''', '''', '''', TS_Auto, 0), nt_pending = []\<rparr>"

definition fetch :: "dialog_fetch \<Rightarrow> transfer_form \<Rightarrow> transfer_form" where
  "fetch c d = d\<lparr>nt_pending := nt_pending d @ [c]\<rparr>"

subsection \<open>Effects\<close>

text \<open>\<open>xs.find(...) ?? xs[0]\<close>.\<close>

definition find_or_first :: "('a \<Rightarrow> bool) option \<Rightarrow> 'a list \<Rightarrow> 'a option" where
  "find_or_first p xs =
     (case Option.bind p (\<lambda>q. find q xs) of
        Some x \<Rightarrow> Some x
      | None \<Rightarrow> (case xs of [] \<Rightarrow> None | x # _ \<Rightarrow> Some x))"

definition seed_effect :: "transfer_form \<Rightarrow> transfer_form" where
  "seed_effect d =
     (if \<not> nt_open d then d\<lparr>nt_seededOpen := False\<rparr>
      else if nt_seededOpen d then d
      else
        (let cat = nt_catalogue d; pre = nt_prefill d;
             artifact = find_or_first (map_option (\<lambda>i a. art_artifact_id a = i) (pre_artifactId pre))
                          (ct_artifacts cat);
             artifactId = (case artifact of Some a \<Rightarrow> art_artifact_id a | None \<Rightarrow> '''');
             placement = find_or_first (map_option (\<lambda>i p. plc_placement_id p = i) (pre_sourcePlacementId pre))
                           (filter (\<lambda>p. plc_artifact_id p = artifactId) (ct_placements cat));
             source = map_option plc_server_id placement
         in d\<lparr>nt_seededOpen := True, nt_artifactId := artifactId,
              nt_placementId := (case placement of Some p \<Rightarrow> plc_placement_id p | None \<Rightarrow> ''''),
              nt_targetServerId :=
                suggestedTargetServer '''' (peerServerIds artifactId (ct_projects cat) (ct_placements cat) source)
                  (ct_servers cat) source,
              nt_targetPath := '''', nt_pathTouched := False, nt_pathHint := False,
              nt_strategy := TS_Auto, nt_plan := None, nt_planError := None, nt_createError := None,
              nt_setupOpen := False, nt_directChanged := False, nt_planNonce := 0\<rparr>))"

text \<open>The values \<open>v\<close> are those of the render the effect belongs to.\<close>

definition suggest_effect :: "transfer_form \<Rightarrow> transfer_form \<Rightarrow> transfer_form" where
  "suggest_effect v d =
     (if nt_suggestDeps d = suggest_deps v then d
      else
        (let d = d\<lparr>nt_suggestDeps := suggest_deps v\<rparr>
         in if \<not> nt_open v \<or> nt_pathTouched v \<or> nt_targetServerId v = ''''
               \<or> Some (nt_targetServerId v) = sourceServerId v \<or> nt_artifactId v = ''''
            then d
            else
              fetch (Fetch_Suggest (nt_suggestSeq d + 1) (nt_artifactId v) (nt_targetServerId v))
                (d\<lparr>nt_suggestSeq := nt_suggestSeq d + 1\<rparr>)))"

definition plan_effect :: "transfer_form \<Rightarrow> transfer_form \<Rightarrow> transfer_form" where
  "plan_effect v d =
     (if nt_planDeps d = plan_deps v then d
      else
        (let d = d\<lparr>nt_planDeps := plan_deps v, nt_timer := None\<rparr>
         in if \<not> nt_open v then d\<lparr>nt_plan := None\<rparr>
            else
              (case form_request v of
                 None \<Rightarrow> d\<lparr>nt_plan := None\<rparr>
               | Some request \<Rightarrow>
                   d\<lparr>nt_planSeq := nt_planSeq d + 1, nt_planning := True, nt_planError := None,
                     nt_timer := Some (nt_planSeq d + 1, request)\<rparr>)))"

definition run_effects :: "transfer_form \<Rightarrow> transfer_form" where
  "run_effects d = plan_effect d (suggest_effect d (seed_effect d))"

text \<open>
  The render after an event and the one after its effects; the effects of the second change no
  dependency, so there is no third.
\<close>

definition settle :: "transfer_form \<Rightarrow> transfer_form" where
  "settle d = run_effects (run_effects d)"

subsection \<open>Handlers\<close>

definition change_artifact :: "string \<Rightarrow> transfer_form \<Rightarrow> transfer_form" where
  "change_artifact next d =
     (let cat = nt_catalogue d;
          nextPlacement = find (\<lambda>p. plc_artifact_id p = next) (ct_placements cat);
          nextSource = map_option plc_server_id nextPlacement
      in d\<lparr>nt_artifactId := next, nt_pathTouched := False,
           nt_targetServerId :=
             suggestedTargetServer (nt_targetServerId d)
               (peerServerIds next (ct_projects cat) (ct_placements cat) nextSource)
               (ct_servers cat) nextSource,
           nt_placementId := (case nextPlacement of Some p \<Rightarrow> plc_placement_id p | None \<Rightarrow> '''')\<rparr>)"

definition change_source :: "string \<Rightarrow> transfer_form \<Rightarrow> transfer_form" where
  "change_source next d =
     (let cat = nt_catalogue d;
          nextServer =
            map_option plc_server_id (find (\<lambda>p. plc_placement_id p = next) (ct_placements cat));
          d = d\<lparr>nt_placementId := next\<rparr>
      in if nt_targetServerId d = '''' \<or> Some (nt_targetServerId d) = nextServer
         then d\<lparr>nt_targetServerId := firstTargetServer (ct_servers cat) nextServer\<rparr>
         else d)"

definition change_path :: "string \<Rightarrow> transfer_form \<Rightarrow> transfer_form" where
  "change_path path d = d\<lparr>nt_pathTouched := True, nt_targetPath := path\<rparr>"

definition replan :: "transfer_form \<Rightarrow> transfer_form" where
  "replan d = d\<lparr>nt_directChanged := False, nt_planNonce := nt_planNonce d + 1\<rparr>"

definition nt_submit :: "transfer_form \<Rightarrow> transfer_form" where
  "nt_submit d =
     (case form_request d of
        None \<Rightarrow> d
      | Some request \<Rightarrow>
          fetch (Fetch_Create request) (d\<lparr>nt_creating := True, nt_createError := None\<rparr>))"

definition nt_close :: "transfer_form \<Rightarrow> transfer_form" where
  "nt_close d = d\<lparr>nt_open := False, nt_prefill := no_prefill\<rparr>"

text \<open>The debounce timer fires; the answers come in.\<close>

definition nt_fire :: "transfer_form \<Rightarrow> transfer_form" where
  "nt_fire d =
     (case nt_timer d of
        None \<Rightarrow> d
      | Some (seq, request) \<Rightarrow> fetch (Fetch_Plan seq request) (d\<lparr>nt_timer := None\<rparr>))"

definition suggest_done :: "nat \<Rightarrow> suggest_target_path result \<Rightarrow> transfer_form \<Rightarrow> transfer_form" where
  "suggest_done seq response d =
     (if seq \<noteq> nt_suggestSeq d then d
      else
        (case response of
           Inl _ \<Rightarrow> d\<lparr>nt_pathHint := True\<rparr>
         | Inr r \<Rightarrow>
             (case stp_target_path r of
                Some path \<Rightarrow> d\<lparr>nt_targetPath := path, nt_pathHint := False\<rparr>
              | None \<Rightarrow> d\<lparr>nt_targetPath := '''', nt_pathHint := True\<rparr>)))"

definition plan_done :: "nat \<Rightarrow> transfer_plan result \<Rightarrow> transfer_form \<Rightarrow> transfer_form" where
  "plan_done seq response d =
     (if seq \<noteq> nt_planSeq d then d
      else
        (case response of
           Inr plan \<Rightarrow> d\<lparr>nt_plan := Some plan, nt_planning := False\<rparr>
         | Inl cause \<Rightarrow>
             d\<lparr>nt_plan := None, nt_planError := Some (ae_detail cause), nt_planning := False\<rparr>))"

definition nt_create_done :: "string result \<Rightarrow> transfer_form \<Rightarrow> transfer_form" where
  "nt_create_done response d =
     (case response of
        Inr _ \<Rightarrow> (nt_close d)\<lparr>nt_creating := False\<rparr>
      | Inl cause \<Rightarrow> d\<lparr>nt_createError := Some (ae_detail cause), nt_creating := False\<rparr>)"

subsection \<open>The view\<close>

definition directAvailable :: "transfer_plan \<Rightarrow> bool" where
  "directAvailable plan \<longleftrightarrow> map_of (pln_strategy_available plan) ''direct_rsync'' = Some True"

definition relayAvailable :: "transfer_plan \<Rightarrow> bool" where
  "relayAvailable plan \<longleftrightarrow> map_of (pln_strategy_available plan) ''local_relay'' = Some True"

definition directPair :: "transfer_form \<Rightarrow> bool" where
  "directPair d \<longleftrightarrow>
     (case sourceServerId d of
        None \<Rightarrow> False
      | Some source \<Rightarrow> nt_targetServerId d \<noteq> '''' \<and> source \<noteq> '''' \<and> nt_targetServerId d \<noteq> source)"

text \<open>The button that opens the setup, and the one beside it that plans again.\<close>

definition setup_offered :: "transfer_form \<Rightarrow> bool" where
  "setup_offered d \<longleftrightarrow>
     (case nt_plan d of
        None \<Rightarrow> False
      | Some plan \<Rightarrow>
          \<not> directAvailable plan \<and> directPair d \<and> setupReasonAllowed (pln_direct_auth_reason plan))"

definition replan_offered :: "transfer_form \<Rightarrow> bool" where
  "replan_offered d \<longleftrightarrow> setup_offered d \<and> nt_directChanged d"

definition setup_mounted :: "transfer_form \<Rightarrow> bool" where
  "setup_mounted d \<longleftrightarrow> directPair d \<and> nt_setupOpen d"

definition path_hint_shown :: "transfer_form \<Rightarrow> bool" where
  "path_hint_shown d \<longleftrightarrow> nt_pathHint d \<and> \<not> nt_pathTouched d"

definition plan_error_shown :: "transfer_form \<Rightarrow> string option" where
  "plan_error_shown d = (if \<not> nt_planning d \<and> nt_plan d = None then nt_planError d else None)"

definition create_disabled :: "transfer_form \<Rightarrow> bool" where
  "create_disabled d \<longleftrightarrow> form_request d = None \<or> nt_creating d"

subsection \<open>Steps\<close>

datatype transfer_event =
    NE_Open transfer_prefill
  | NE_Close
  | NE_Catalogue catalogue
  | NE_Artifact string
  | NE_Source string
  | NE_Target string
  | NE_Path string
  | NE_Strategy transfer_strategy
  | NE_Setup
  | NE_SetupClose
  | NE_Replan
  | NE_SetupReplan
  | NE_Submit
  | NE_Timer
  | NE_Answer nat network

definition nt_answer :: "js_runtime \<Rightarrow> nat \<Rightarrow> network \<Rightarrow> transfer_form \<Rightarrow> transfer_form" where
  "nt_answer rt k net d =
     (let rest = d\<lparr>nt_pending := take k (nt_pending d) @ drop (Suc k) (nt_pending d)\<rparr>
      in case nt_pending d ! k of
           Fetch_Suggest seq artifact server \<Rightarrow>
             suggest_done seq (suggestTargetPath rt net artifact server) rest
         | Fetch_Plan seq request \<Rightarrow> plan_done seq (planTransfer rt net request) rest
         | Fetch_Create request \<Rightarrow> nt_create_done (createJob rt net request) rest)"

text \<open>What the rendered controls allow: a select offers its options, a button may be disabled.\<close>

fun nt_enabled :: "transfer_event \<Rightarrow> transfer_form \<Rightarrow> bool" where
  "nt_enabled (NE_Open pre) d = True"
| "nt_enabled (NE_Catalogue cat) d = True"
| "nt_enabled (NE_Artifact i) d =
     (nt_open d \<and> i \<in> set (map art_artifact_id (ct_artifacts (nt_catalogue d))))"
| "nt_enabled (NE_Source i) d =
     (nt_open d \<and> i \<in> set (map plc_placement_id
        (filter (\<lambda>p. plc_artifact_id p = nt_artifactId d) (ct_placements (nt_catalogue d)))))"
| "nt_enabled (NE_Target i) d =
     (nt_open d \<and> i \<in> set (map srv_server_id (ct_servers (nt_catalogue d))))"
| "nt_enabled (NE_Strategy strategy) d = (nt_open d \<and> strategy \<in> set STRATEGY_OPTIONS)"
| "nt_enabled NE_Setup d = (nt_open d \<and> setup_offered d)"
| "nt_enabled NE_SetupClose d = (nt_open d \<and> setup_mounted d)"
| "nt_enabled NE_Replan d = (nt_open d \<and> replan_offered d)"
| "nt_enabled NE_SetupReplan d = (nt_open d \<and> setup_mounted d)"
| "nt_enabled NE_Submit d = (nt_open d \<and> \<not> create_disabled d)"
| "nt_enabled NE_Timer d = (nt_timer d \<noteq> None)"
| "nt_enabled (NE_Answer k net) d = (k < length (nt_pending d))"
| "nt_enabled e d = nt_open d"

fun nt_handle :: "js_runtime \<Rightarrow> transfer_event \<Rightarrow> transfer_form \<Rightarrow> transfer_form" where
  "nt_handle rt (NE_Open pre) d = d\<lparr>nt_open := True, nt_prefill := pre\<rparr>"
| "nt_handle rt NE_Close d = nt_close d"
| "nt_handle rt (NE_Catalogue cat) d = d\<lparr>nt_catalogue := cat\<rparr>"
| "nt_handle rt (NE_Artifact i) d = change_artifact i d"
| "nt_handle rt (NE_Source i) d = change_source i d"
| "nt_handle rt (NE_Target i) d = d\<lparr>nt_targetServerId := i\<rparr>"
| "nt_handle rt (NE_Path path) d = change_path path d"
| "nt_handle rt (NE_Strategy strategy) d = d\<lparr>nt_strategy := strategy\<rparr>"
| "nt_handle rt NE_Setup d = d\<lparr>nt_setupOpen := True\<rparr>"
| "nt_handle rt NE_SetupClose d = d\<lparr>nt_setupOpen := False\<rparr>"
| "nt_handle rt NE_Replan d = replan d"
| "nt_handle rt NE_SetupReplan d = replan (d\<lparr>nt_setupOpen := False\<rparr>)"
| "nt_handle rt NE_Submit d = nt_submit d"
| "nt_handle rt NE_Timer d = nt_fire d"
| "nt_handle rt (NE_Answer k net) d = nt_answer rt k net d"

definition nt_apply :: "js_runtime \<Rightarrow> transfer_event \<Rightarrow> transfer_form \<Rightarrow> transfer_form" where
  "nt_apply rt e d = settle (nt_handle rt e d)"

inductive nt_step :: "js_runtime \<Rightarrow> transfer_form \<Rightarrow> transfer_event \<Rightarrow> transfer_form \<Rightarrow> bool" for rt where
  nt_stepI: "nt_enabled e d \<Longrightarrow> nt_step rt d e (nt_apply rt e d)"

inductive_cases nt_stepE: "nt_step rt d e d'"

text \<open>Runs whose answers come from the networks \<open>nets\<close>.\<close>

inductive nt_reach :: "js_runtime \<Rightarrow> network set \<Rightarrow> transfer_form \<Rightarrow> bool" for rt nets where
  nt_reach_init: "nt_reach rt nets (NewTransferDialog cat)"
| nt_reach_step:
    "\<lbrakk>nt_reach rt nets d; nt_step rt d e d'; \<And>k net. e = NE_Answer k net \<Longrightarrow> net \<in> nets\<rbrakk>
     \<Longrightarrow> nt_reach rt nets d'"

subsection \<open>Settled\<close>

text \<open>After the two renders the dependencies recorded are those of the form: nothing is left to run.\<close>

definition settled :: "transfer_form \<Rightarrow> bool" where
  "settled d \<longleftrightarrow>
     nt_seededOpen d = nt_open d \<and> nt_suggestDeps d = suggest_deps d \<and> nt_planDeps d = plan_deps d"

lemma plan_effect_inputs [simp]:
  "nt_open (plan_effect v d) = nt_open d" "nt_seededOpen (plan_effect v d) = nt_seededOpen d"
  "suggest_deps (plan_effect v d) = suggest_deps d" "plan_deps (plan_effect v d) = plan_deps d"
  "nt_suggestDeps (plan_effect v d) = nt_suggestDeps d" "form_request (plan_effect v d) = form_request d"
  "nt_planDeps (plan_effect v d) = plan_deps v"
  "nt_targetPath (plan_effect v d) = nt_targetPath d" "nt_pathTouched (plan_effect v d) = nt_pathTouched d"
  by (auto simp: plan_effect_def Let_def suggest_deps_def plan_deps_def sourceServerId_def
      selectedPlacement_def form_request_def split: option.split)

lemma suggest_effect_inputs [simp]:
  "nt_open (suggest_effect v d) = nt_open d" "nt_seededOpen (suggest_effect v d) = nt_seededOpen d"
  "suggest_deps (suggest_effect v d) = suggest_deps d" "plan_deps (suggest_effect v d) = plan_deps d"
  "nt_suggestDeps (suggest_effect v d) = suggest_deps v" "form_request (suggest_effect v d) = form_request d"
  "nt_planDeps (suggest_effect v d) = nt_planDeps d" "nt_timer (suggest_effect v d) = nt_timer d"
  "nt_planSeq (suggest_effect v d) = nt_planSeq d" "nt_planning (suggest_effect v d) = nt_planning d"
  "nt_plan (suggest_effect v d) = nt_plan d" "nt_targetPath (suggest_effect v d) = nt_targetPath d"
  "nt_pathTouched (suggest_effect v d) = nt_pathTouched d"
  by (auto simp: suggest_effect_def fetch_def Let_def suggest_deps_def plan_deps_def sourceServerId_def
      selectedPlacement_def form_request_def)

lemma seed_effect_done: "nt_seededOpen d = nt_open d \<Longrightarrow> seed_effect d = d"
  by (cases "nt_open d") (simp_all add: seed_effect_def)

lemma seed_effect_seeded [simp]: "nt_seededOpen (seed_effect d) = nt_open d" "nt_open (seed_effect d) = nt_open d"
  by (auto simp: seed_effect_def Let_def)

lemma settled_settle: "settled (settle d)"
  by (simp add: settled_def settle_def run_effects_def seed_effect_done)

lemma settle_settled: "settled d \<Longrightarrow> run_effects d = d"
  by (simp add: settled_def run_effects_def seed_effect_done suggest_effect_def plan_effect_def)

subsection \<open>The plan shown is for the form\<close>

text \<open>
  Of a form that is open and complete: the armed timer and the request in flight under the current
  sequence number are for its request, one of them exists while it says it is planning, and a plan
  it shows when it is not planning answers its request.
\<close>

definition plans_seq :: "nat \<Rightarrow> dialog_fetch \<Rightarrow> bool" where
  "plans_seq seq c \<longleftrightarrow> (case c of Fetch_Plan s request \<Rightarrow> s = seq | _ \<Rightarrow> False)"

definition answers :: "js_runtime \<Rightarrow> network set \<Rightarrow> transfer_request \<Rightarrow> transfer_plan \<Rightarrow> bool" where
  "answers rt nets request plan \<longleftrightarrow> (\<exists>net\<in>nets. planTransfer rt net request = Inr plan)"

definition deps_request :: "plan_inputs \<Rightarrow> transfer_request option" where
  "deps_request deps =
     (case deps of (opn, artifact, placement, target, path, strategy, nonce) \<Rightarrow>
        if opn then buildRequest artifact placement target path strategy else None)"

definition current_plan :: "nat \<Rightarrow> transfer_request option \<Rightarrow> dialog_fetch \<Rightarrow> bool" where
  "current_plan seq wanted c \<longleftrightarrow>
     (case c of Fetch_Plan s r \<Rightarrow> s \<le> seq \<and> (s = seq \<longrightarrow> wanted = None \<or> wanted = Some r) | _ \<Rightarrow> True)"

definition plan_inv :: "js_runtime \<Rightarrow> network set \<Rightarrow> transfer_form \<Rightarrow> bool" where
  "plan_inv rt nets d \<longleftrightarrow>
     list_all (current_plan (nt_planSeq d) (deps_request (nt_planDeps d))) (nt_pending d) \<and>
     (\<forall>seq r. nt_timer d = Some (seq, r) \<longrightarrow>
        seq = nt_planSeq d \<and> deps_request (nt_planDeps d) = Some r) \<and>
     (deps_request (nt_planDeps d) \<noteq> None \<and> nt_planning d \<longrightarrow>
        nt_timer d \<noteq> None \<or> list_ex (plans_seq (nt_planSeq d)) (nt_pending d)) \<and>
     (\<forall>plan r. nt_plan d = Some plan \<and> \<not> nt_planning d \<and> deps_request (nt_planDeps d) = Some r
        \<longrightarrow> answers rt nets r plan) \<and>
     \<not> nt_directChanged d"

lemma current_plan_renew: "current_plan seq wanted c \<Longrightarrow> current_plan (Suc seq) wanted' c"
  by (auto simp: current_plan_def split: dialog_fetch.splits)

lemma current_plan_none: "current_plan seq wanted c \<Longrightarrow> current_plan seq None c"
  by (auto simp: current_plan_def split: dialog_fetch.splits)

lemma current_plans:
  "list_all (current_plan seq wanted) cs \<Longrightarrow> list_all (current_plan (Suc seq) wanted') cs"
  "list_all (current_plan seq wanted) cs \<Longrightarrow> list_all (current_plan seq None) cs"
  by (auto simp: list_all_iff intro: current_plan_renew current_plan_none)

lemma deps_request_form: "deps_request (plan_deps d) = (if nt_open d then form_request d else None)"
  by (simp add: deps_request_def plan_deps_def form_request_def)

lemma plan_inv_cong:
  assumes "nt_planSeq d' = nt_planSeq d" "nt_planDeps d' = nt_planDeps d" "nt_timer d' = nt_timer d"
    "nt_planning d' = nt_planning d" "nt_pending d' = nt_pending d"
    "nt_plan d' = nt_plan d \<or> nt_plan d' = None" "nt_directChanged d' \<longrightarrow> nt_directChanged d"
    "plan_inv rt nets d"
  shows "plan_inv rt nets d'"
  using assms by (auto simp: plan_inv_def)

lemma plan_inv_fetch:
  assumes d: "plan_inv rt nets d" and c: "\<And>s r. c \<noteq> Fetch_Plan s r"
  shows "plan_inv rt nets (fetch c d)"
proof -
  have "current_plan seq wanted c" for seq wanted
    using c by (auto simp: current_plan_def split: dialog_fetch.split)
  then show ?thesis using d by (auto simp: plan_inv_def fetch_def)
qed

lemma plan_inv_seed: "plan_inv rt nets d \<Longrightarrow> plan_inv rt nets (seed_effect d)"
  by (rule plan_inv_cong [of "seed_effect d" d]) (auto simp: seed_effect_def Let_def)

lemma plan_inv_suggest:
  assumes "plan_inv rt nets d"
  shows "plan_inv rt nets (suggest_effect v d)"
proof -
  have "plan_inv rt nets (d\<lparr>nt_suggestDeps := x\<rparr>)" "plan_inv rt nets (d\<lparr>nt_suggestDeps := x, nt_suggestSeq := n\<rparr>)"
    for x n by (rule plan_inv_cong [OF _ _ _ _ _ _ _ assms]; simp)+
  then show ?thesis using assms by (simp add: suggest_effect_def Let_def plan_inv_fetch)
qed

lemma plan_inv_effect:
  assumes d: "plan_inv rt nets d"
  shows "plan_inv rt nets (plan_effect v d)"
proof (cases "nt_planDeps d = plan_deps v")
  case True
  then show ?thesis using d by (simp add: plan_effect_def)
next
  case False
  show ?thesis
  proof (cases "deps_request (plan_deps v)")
    case None
    then have "\<not> nt_open v \<or> form_request v = None" by (auto simp: deps_request_form)
    then show ?thesis using False None d
      by (auto simp: plan_effect_def plan_inv_def Let_def intro: current_plans)
  next
    case (Some r)
    then have "nt_open v" "form_request v = Some r" by (auto simp: deps_request_form split: if_splits)
    then show ?thesis using False Some d
      by (auto simp: plan_effect_def plan_inv_def Let_def intro: current_plans)
  qed
qed

lemma plan_inv_settle: "plan_inv rt nets d \<Longrightarrow> plan_inv rt nets (settle d)"
  by (simp add: settle_def run_effects_def plan_inv_effect plan_inv_suggest plan_inv_seed)

lemma plan_inv_fire: "plan_inv rt nets d \<Longrightarrow> plan_inv rt nets (nt_fire d)"
  by (auto simp: nt_fire_def plan_inv_def fetch_def plans_seq_def current_plan_def split: option.splits)

lemma plan_inv_removed:
  assumes d: "plan_inv rt nets d" and k: "k < length (nt_pending d)"
    and c: "\<not> plans_seq (nt_planSeq d) (nt_pending d ! k)"
  shows "plan_inv rt nets (d\<lparr>nt_pending := take k (nt_pending d) @ drop (Suc k) (nt_pending d)\<rparr>)"
proof -
  have "list_ex (plans_seq (nt_planSeq d)) (take k (nt_pending d) @ drop (Suc k) (nt_pending d)) =
      list_ex (plans_seq (nt_planSeq d)) (nt_pending d)"
    using list_ex_moved [OF k, of "plans_seq (nt_planSeq d)"] c by simp
  then show ?thesis using d
    by (simp add: plan_inv_def list_all_removed del: list_ex_append list_all_append)
qed

lemma plan_inv_done:
  assumes d: "plan_inv rt nets d" and k: "k < length (nt_pending d)" and net: "net \<in> nets"
    and c: "nt_pending d ! k = Fetch_Plan (nt_planSeq d) r"
  shows "plan_inv rt nets (plan_done (nt_planSeq d) (planTransfer rt net r)
    (d\<lparr>nt_pending := take k (nt_pending d) @ drop (Suc k) (nt_pending d)\<rparr>))"
proof -
  have "Fetch_Plan (nt_planSeq d) r \<in> set (nt_pending d)" using k c nth_mem by metis
  then have "deps_request (nt_planDeps d) \<in> {None, Some r}"
    using d by (auto simp: plan_inv_def list_all_iff current_plan_def)
  then show ?thesis using d net
    by (auto simp: plan_done_def plan_inv_def answers_def list_all_removed
        simp del: list_ex_append list_all_append split: sum.splits)
qed

lemma plan_inv_answer:
  assumes d: "plan_inv rt nets d" and k: "k < length (nt_pending d)" and net: "net \<in> nets"
  shows "plan_inv rt nets (nt_answer rt k net d)"
proof (cases "plans_seq (nt_planSeq d) (nt_pending d ! k)")
  case True
  then obtain r where "nt_pending d ! k = Fetch_Plan (nt_planSeq d) r"
    by (auto simp: plans_seq_def split: dialog_fetch.splits)
  with plan_inv_done [OF d k net this] show ?thesis by (simp add: nt_answer_def Let_def)
next
  case False
  note rest = plan_inv_removed [OF d k False]
  show ?thesis
  proof (cases "nt_pending d ! k")
    case (Fetch_Plan s r)
    then show ?thesis using False rest by (simp add: nt_answer_def plan_done_def plans_seq_def Let_def)
  next
    case (Fetch_Suggest s a b)
    then show ?thesis
      by (auto simp: nt_answer_def suggest_done_def Let_def intro!: plan_inv_cong [OF _ _ _ _ _ _ _ rest]
          split: sum.splits option.splits)
  next
    case (Fetch_Create r)
    then show ?thesis
      by (auto simp: nt_answer_def nt_create_done_def nt_close_def Let_def intro!: plan_inv_cong [OF _ _ _ _ _ _ _ rest]
          split: sum.splits)
  qed
qed

lemma plan_inv_submit: "plan_inv rt nets d \<Longrightarrow> plan_inv rt nets (nt_submit d)"
  unfolding nt_submit_def
  by (auto intro!: plan_inv_fetch plan_inv_cong [of "d\<lparr>nt_creating := True, nt_createError := None\<rparr>" d]
      split: option.split)

lemma plan_inv_handle:
  assumes d: "plan_inv rt nets d" and e: "nt_enabled e d" and net: "\<And>k net. e = NE_Answer k net \<Longrightarrow> net \<in> nets"
  shows "plan_inv rt nets (nt_handle rt e d)"
proof (cases e)
  case NE_Submit
  then show ?thesis using d by (simp add: plan_inv_submit)
next
  case NE_Timer
  then show ?thesis using d by (simp add: plan_inv_fire)
next
  case (NE_Answer k net)
  then show ?thesis using e net plan_inv_answer [OF d] by simp
qed (rule plan_inv_cong [OF _ _ _ _ _ _ _ d];
    simp add: nt_close_def change_artifact_def change_source_def change_path_def replan_def Let_def)+

lemma plan_inv_reach: "nt_reach rt nets d \<Longrightarrow> plan_inv rt nets d \<and> settled d"
proof (induction rule: nt_reach.induct)
  case (nt_reach_init cat)
  show ?case
    by (simp add: NewTransferDialog_def plan_inv_def settled_def deps_request_def suggest_deps_def plan_deps_def
        sourceServerId_def selectedPlacement_def)
next
  case (nt_reach_step d e d')
  then have "nt_enabled e d" "d' = nt_apply rt e d" by (auto elim: nt_stepE)
  then show ?case using nt_reach_step
    by (simp add: nt_apply_def settled_settle plan_inv_settle plan_inv_handle)
qed

lemma plans_seqD: "plans_seq seq c \<Longrightarrow> \<exists>r. c = Fetch_Plan seq r"
  by (cases c) (auto simp: plans_seq_def)

lemma settled_request: "settled d \<Longrightarrow> nt_open d \<Longrightarrow> deps_request (nt_planDeps d) = form_request d"
  by (simp add: settled_def deps_request_form)

lemma shown_plan:
  assumes "nt_reach rt nets d" "nt_open d" "form_request d = Some r" "\<not> nt_planning d" "nt_plan d = Some plan"
  shows "answers rt nets r plan"
  using plan_inv_reach [OF assms(1)] settled_request [of d] assms(2-) by (auto simp: plan_inv_def)

lemma planning_backed:
  assumes "nt_reach rt nets d" "nt_open d" "form_request d = Some r" "nt_planning d"
  shows "nt_timer d = Some (nt_planSeq d, r) \<or> Fetch_Plan (nt_planSeq d) r \<in> set (nt_pending d)"
proof -
  have d: "plan_inv rt nets d" and deps: "deps_request (nt_planDeps d) = Some r"
    using plan_inv_reach [OF assms(1)] settled_request assms(2,3) by auto
  show ?thesis
  proof (cases "nt_timer d")
    case (Some timer)
    then show ?thesis using d deps by (cases timer) (auto simp: plan_inv_def)
  next
    case None
    then have "list_ex (plans_seq (nt_planSeq d)) (nt_pending d)"
      using d deps assms(4) by (simp add: plan_inv_def)
    then obtain c where "c \<in> set (nt_pending d)" "plans_seq (nt_planSeq d) c" by (auto simp: list_ex_iff)
    then obtain s where "Fetch_Plan (nt_planSeq d) s \<in> set (nt_pending d)" using plans_seqD by metis
    moreover from this have "current_plan (nt_planSeq d) (Some r) (Fetch_Plan (nt_planSeq d) s)"
      using d deps by (auto simp: plan_inv_def list_all_iff)
    ultimately show ?thesis by (auto simp: current_plan_def)
  qed
qed

lemma replan_never_offered: "nt_reach rt nets d \<Longrightarrow> \<not> replan_offered d"
  using plan_inv_reach by (auto simp: replan_offered_def plan_inv_def)

subsection \<open>What a late answer does\<close>

lemma effects_form:
  assumes "nt_seededOpen d = nt_open d"
  shows "nt_targetPath (run_effects d) = nt_targetPath d" "nt_pathTouched (run_effects d) = nt_pathTouched d"
    "nt_open (run_effects d) = nt_open d" "nt_seededOpen (run_effects d) = nt_open d"
    "form_request (run_effects d) = form_request d"
  using assms by (simp_all add: run_effects_def seed_effect_done)

lemma settle_form:
  assumes "nt_seededOpen d = nt_open d"
  shows "nt_targetPath (settle d) = nt_targetPath d" "nt_pathTouched (settle d) = nt_pathTouched d"
    "nt_open (settle d) = nt_open d" "form_request (settle d) = form_request d"
  using assms by (simp_all add: settle_def effects_form)

lemma touched_effects:
  assumes "nt_seededOpen d = nt_open d" "nt_pathTouched d"
  shows "nt_pending (run_effects d) = nt_pending d" "nt_suggestSeq (run_effects d) = nt_suggestSeq d"
  using assms
  by (auto simp: run_effects_def seed_effect_done plan_effect_def suggest_effect_def fetch_def Let_def
      split: option.split)

lemma touched_settle:
  assumes "nt_seededOpen d = nt_open d" "nt_pathTouched d"
  shows "nt_pending (settle d) = nt_pending d" "nt_suggestSeq (settle d) = nt_suggestSeq d"
  using assms by (simp_all add: settle_def touched_effects effects_form)

text \<open>A path typed while a suggestion is in flight is replaced by the suggestion.\<close>

lemma late_suggestion:
  assumes d: "settled d" and k: "k < length (nt_pending d)"
    and c: "nt_pending d ! k = Fetch_Suggest (nt_suggestSeq d) a b"
    and r: "suggestTargetPath rt net a b = Inr r" "stp_target_path r = Some q"
  shows "nt_targetPath (nt_apply rt (NE_Answer k net) (nt_apply rt (NE_Path p) d)) = q"
    "nt_pathTouched (nt_apply rt (NE_Answer k net) (nt_apply rt (NE_Path p) d))"
proof -
  let ?typed = "nt_apply rt (NE_Path p) d"
  let ?late = "nt_handle rt (NE_Answer k net) ?typed"
  have seeded: "nt_seededOpen d = nt_open d" using d by (simp add: settled_def)
  have typed: "nt_pending ?typed = nt_pending d" "nt_suggestSeq ?typed = nt_suggestSeq d"
    "nt_pathTouched ?typed" "nt_open ?typed = nt_open d"
    using seeded by (simp_all add: nt_apply_def change_path_def touched_settle settle_form)
  have "nt_seededOpen ?typed = nt_open ?typed"
    using settled_settle by (simp add: nt_apply_def settled_def)
  then have "nt_targetPath ?late = q" "nt_pathTouched ?late" "nt_seededOpen ?late = nt_open ?late"
    using typed c r by (simp_all add: nt_answer_def suggest_done_def)
  then show "nt_targetPath (nt_apply rt (NE_Answer k net) ?typed) = q"
    "nt_pathTouched (nt_apply rt (NE_Answer k net) ?typed)"
    unfolding nt_apply_def [of rt "NE_Answer k net"] by (simp_all only: settle_form)
qed

text \<open>Clearing the path of a form that is planning leaves it planning, with nothing to wait for.\<close>

lemma plan_effect_incomplete:
  assumes "nt_planDeps d \<noteq> plan_deps v" "form_request v = None"
  shows "plan_effect v d = d\<lparr>nt_planDeps := plan_deps v, nt_timer := None, nt_plan := None\<rparr>"
  using assms by (simp add: plan_effect_def Let_def)

lemma incomplete_settle:
  assumes c: "nt_seededOpen c = nt_open c" "nt_pathTouched c" "form_request c = None"
    "nt_planDeps c \<noteq> plan_deps c"
  shows "nt_planning (settle c) = nt_planning c" "nt_timer (settle c) = None"
    "nt_pending (settle c) = nt_pending c"
proof -
  have run: "run_effects c = plan_effect c (suggest_effect c c)"
    using c(1) by (simp add: run_effects_def seed_effect_done)
  have "nt_planDeps (suggest_effect c c) \<noteq> plan_deps c" using c(4) by simp
  from plan_effect_incomplete [OF this c(3)] run
  have "nt_planning (run_effects c) = nt_planning c" "nt_timer (run_effects c) = None" by simp_all
  moreover have "settle c = run_effects c" unfolding settle_def
    by (rule settle_settled) (use c(1) run in \<open>simp add: settled_def\<close>)
  ultimately show "nt_planning (settle c) = nt_planning c" "nt_timer (settle c) = None"
    "nt_pending (settle c) = nt_pending c"
    using touched_effects(1) [OF c(1,2)] by simp_all
qed

lemma change_path_fields [simp]:
  "nt_planning (change_path p d) = nt_planning d" "nt_pending (change_path p d) = nt_pending d"
  "nt_pathTouched (change_path p d)" "nt_open (change_path p d) = nt_open d"
  "nt_seededOpen (change_path p d) = nt_seededOpen d" "nt_planDeps (change_path p d) = nt_planDeps d"
  by (simp_all add: change_path_def)

lemma planning_left_on:
  assumes d: "settled d" "nt_planning d" "form_request d = Some r"
  shows "nt_planning (nt_apply rt (NE_Path '''') d) \<and> nt_timer (nt_apply rt (NE_Path '''') d) = None \<and>
    nt_pending (nt_apply rt (NE_Path '''') d) = nt_pending d"
proof -
  have "nt_targetPath d \<noteq> ''''" using d(3)
    by (auto simp: form_request_def buildRequest_def Let_def split: if_splits)
  then have "plan_deps d \<noteq> plan_deps (change_path '''' d)" by (simp add: plan_deps_def change_path_def)
  moreover have "form_request (change_path '''' d) = None"
    by (simp add: form_request_def buildRequest_def change_path_def Let_def)
  ultimately show ?thesis using d(1,2) incomplete_settle [of "change_path '''' d"]
    by (simp add: nt_apply_def settled_def)
qed

subsection \<open>Targets\<close>

lemma firstTargetServer_other:
  "Some (firstTargetServer servers exclude) \<noteq> exclude \<or> firstTargetServer servers exclude = ''''"
  by (auto simp: firstTargetServer_def find_Some_iff split: option.splits)

lemma firstTargetServer_found:
  assumes "s \<in> set servers" "srv_enabled s" "Some (srv_server_id s) \<noteq> exclude"
    "\<forall>s\<in>set servers. srv_server_id s \<noteq> ''''"
  shows "firstTargetServer servers exclude \<noteq> ''''"
proof (cases "find (\<lambda>s. srv_enabled s \<and> Some (srv_server_id s) \<noteq> exclude) servers")
  case None
  then show ?thesis using assms(1-3) by (auto simp: find_None_iff)
next
  case (Some x)
  then have "x \<in> set servers" by (auto simp: find_Some_iff)
  then show ?thesis using Some assms(4) by (simp add: firstTargetServer_def)
qed

lemma find_id:
  assumes "distinct (map f xs)" "x \<in> set xs"
  shows "find (\<lambda>y. f y = f x) xs = Some x"
  using assms by (induction xs) (auto simp: image_iff)

lemma source_after_switch:
  assumes ids: "distinct (map plc_placement_id (ct_placements (nt_catalogue d)))"
    and e: "nt_enabled (NE_Source i) d"
  shows "sourceServerId (change_source i d) =
    map_option plc_server_id (find (\<lambda>p. plc_placement_id p = i) (ct_placements (nt_catalogue d)))"
proof -
  obtain p where p: "p \<in> set (ct_placements (nt_catalogue d))" "plc_artifact_id p = nt_artifactId d"
    "plc_placement_id p = i" using e by auto
  have "find (\<lambda>p. plc_placement_id p = i)
      (filter (\<lambda>p. plc_artifact_id p = nt_artifactId d) (ct_placements (nt_catalogue d))) = Some p"
    using find_id [OF distinct_map_filter [OF ids], of p] p by simp
  moreover have "find (\<lambda>p. plc_placement_id p = i) (ct_placements (nt_catalogue d)) = Some p"
    using find_id [OF ids p(1)] p(3) by simp
  ultimately show ?thesis
    by (simp add: sourceServerId_def selectedPlacement_def change_source_def Let_def)
qed

text \<open>After the source is switched the target is not the source; it is unset only when no other
  enabled server is left.\<close>

lemma source_switch:
  assumes ids: "distinct (map plc_placement_id (ct_placements (nt_catalogue d)))"
    and e: "nt_enabled (NE_Source i) d"
  shows "Some (nt_targetServerId (change_source i d)) \<noteq> sourceServerId (change_source i d) \<or>
    nt_targetServerId (change_source i d) = ''''"
  unfolding source_after_switch [OF assms]
  using firstTargetServer_other [of "ct_servers (nt_catalogue d)"
      "map_option plc_server_id (find (\<lambda>p. plc_placement_id p = i) (ct_placements (nt_catalogue d)))"]
  by (simp add: change_source_def Let_def)

lemma foldl_collect:
  assumes "\<forall>x\<in>set ps. Q x" "\<And>p. keep p \<Longrightarrow> Q (f p)"
  shows "\<forall>x\<in>set (foldl (\<lambda>ps p. if keep p \<and> f p \<notin> set ps then ps @ [f p] else ps) ps xs). Q x"
  using assms(1)
proof (induction xs arbitrary: ps)
  case (Cons p xs)
  have "\<forall>x\<in>set (if keep p \<and> f p \<notin> set ps then ps @ [f p] else ps). Q x"
    using Cons.prems assms(2) [of p] by auto
  then show ?case using Cons.IH by simp
qed simp

lemma peers_not_source: "x \<in> set (peerServerIds a projects placements src) \<Longrightarrow> Some x \<noteq> src"
  using foldl_collect [of "[]" "\<lambda>x. Some x \<noteq> src"
      "\<lambda>p. Some (plc_server_id p) \<noteq> src \<and> plc_artifact_id p \<in> set (projectArtifactIds a projects)"
      plc_server_id placements]
  by (simp add: peerServerIds_def Let_def conj_assoc split: if_splits)

lemma suggested_not_source:
  assumes peers: "\<And>x. x \<in> set peers \<Longrightarrow> Some x \<noteq> src"
  shows "Some (suggestedTargetServer cur peers servers src) \<noteq> src \<or>
    suggestedTargetServer cur peers servers src = ''''"
proof (cases "find (\<lambda>s. srv_enabled s \<and> srv_server_id s \<in> set peers) servers")
  case None
  then show ?thesis using firstTargetServer_other [of servers src] peers [of cur]
    by (simp add: suggestedTargetServer_def Let_def)
next
  case (Some s)
  then have "srv_server_id s \<in> set peers" by (auto simp: find_Some_iff)
  then show ?thesis using Some firstTargetServer_other [of servers src] peers [of cur] peers [of "srv_server_id s"]
    by (simp add: suggestedTargetServer_def Let_def)
qed

lemmas suggested_target = suggested_not_source [OF peers_not_source]

end
