(* ===== verification/RemoveDialog.thy ===== *)
theory RemoveDialog
  imports Http Requests
begin

text \<open>
  The confirmation of a removal as the tabs of \<open>features/workspace\<close> write it: the row to remove,
  the flag that disables the buttons, the message of a refusal. \<open>rm_pending\<close> are the rows whose
  removal is in flight; an answer reaches the confirmation as it stands by then.
\<close>

record 'a remove_dialog =
  rm_target :: "'a option"
  rm_removing :: bool
  rm_error :: "string option"
  rm_pending :: "'a list"

definition rm_init :: "'a remove_dialog" where
  "rm_init = \<lparr>rm_target = None, rm_removing = False, rm_error = None, rm_pending = []\<rparr>"

text \<open>\<open>clears\<close>: whether the menu entry forgets the last message.\<close>

definition rm_ask :: "bool \<Rightarrow> 'a \<Rightarrow> 'a remove_dialog \<Rightarrow> 'a remove_dialog" where
  "rm_ask clears x s = s\<lparr>rm_error := (if clears then None else rm_error s), rm_target := Some x\<rparr>"

definition rm_cancel :: "'a remove_dialog \<Rightarrow> 'a remove_dialog" where
  "rm_cancel s = s\<lparr>rm_target := None\<rparr>"

definition rm_remove :: "'a remove_dialog \<Rightarrow> 'a remove_dialog" where
  "rm_remove s =
     (case rm_target s of
        None \<Rightarrow> s
      | Some x \<Rightarrow> s\<lparr>rm_removing := True, rm_error := None, rm_pending := rm_pending s @ [x]\<rparr>)"

definition rm_done :: "unit result \<Rightarrow> 'a remove_dialog \<Rightarrow> 'a remove_dialog" where
  "rm_done response s =
     (case response of
        Inr _ \<Rightarrow> s\<lparr>rm_target := None, rm_removing := False\<rparr>
      | Inl cause \<Rightarrow> s\<lparr>rm_error := Some (ae_detail cause), rm_removing := False\<rparr>)"

datatype 'a rm_event = Rm_Ask 'a | Rm_Cancel | Rm_Confirm | Rm_Answer nat "unit result"

fun rm_enabled :: "'a rm_event \<Rightarrow> 'a remove_dialog \<Rightarrow> bool" where
  "rm_enabled (Rm_Ask x) s = (rm_target s = None)"
| "rm_enabled Rm_Cancel s = (rm_target s \<noteq> None)"
| "rm_enabled Rm_Confirm s = (rm_target s \<noteq> None \<and> \<not> rm_removing s)"
| "rm_enabled (Rm_Answer k response) s = (k < length (rm_pending s))"

fun rm_apply :: "bool \<Rightarrow> 'a rm_event \<Rightarrow> 'a remove_dialog \<Rightarrow> 'a remove_dialog" where
  "rm_apply clears (Rm_Ask x) s = rm_ask clears x s"
| "rm_apply clears Rm_Cancel s = rm_cancel s"
| "rm_apply clears Rm_Confirm s = rm_remove s"
| "rm_apply clears (Rm_Answer k response) s =
     rm_done response (s\<lparr>rm_pending := take k (rm_pending s) @ drop (Suc k) (rm_pending s)\<rparr>)"

inductive rm_step :: "bool \<Rightarrow> 'a remove_dialog \<Rightarrow> 'a rm_event \<Rightarrow> 'a remove_dialog \<Rightarrow> bool" for clears where
  rm_stepI: "rm_enabled e s \<Longrightarrow> rm_step clears s e (rm_apply clears e s)"

inductive_cases rm_stepE: "rm_step clears s e s'"

inductive rm_reach :: "bool \<Rightarrow> 'a remove_dialog \<Rightarrow> bool" for clears where
  rm_reach_init: "rm_reach clears rm_init"
| rm_reach_step: "rm_reach clears s \<Longrightarrow> rm_step clears s e s' \<Longrightarrow> rm_reach clears s'"

lemmas rm_ops = rm_ask_def rm_cancel_def rm_remove_def rm_done_def

text \<open>The flag outlives a cancel, so one removal is in flight at a time.\<close>

definition rm_inv :: "'a remove_dialog \<Rightarrow> bool" where
  "rm_inv s \<longleftrightarrow> length (rm_pending s) = (if rm_removing s then 1 else 0)"

lemma rm_inv_apply: "rm_inv s \<Longrightarrow> rm_enabled e s \<Longrightarrow> rm_inv (rm_apply clears e s)"
  by (cases e) (auto simp: rm_inv_def rm_ops split: option.splits sum.splits if_splits)

lemma rm_inv_reach: "rm_reach clears s \<Longrightarrow> rm_inv s"
proof (induction rule: rm_reach.induct)
  case rm_reach_init
  show ?case by (simp add: rm_inv_def rm_init_def)
next
  case (rm_reach_step s e s')
  then show ?case by (auto elim!: rm_stepE intro: rm_inv_apply)
qed

lemma one_removal: "rm_reach clears s \<Longrightarrow> length (rm_pending s) \<le> 1"
  using rm_inv_reach by (fastforce simp: rm_inv_def)

text \<open>
  The row asked about when the answer comes is the one whose confirmation closes, whichever was
  removed; a refusal is shown there too.
\<close>

lemma rm_late_success: "rm_target (rm_apply clears (Rm_Answer k (Inr u)) s) = None"
  by (simp add: rm_ops)

lemma rm_late_refusal:
  "rm_target (rm_apply clears (Rm_Answer k (Inl cause)) s) = rm_target s \<and>
   rm_error (rm_apply clears (Rm_Answer k (Inl cause)) s) = Some (ae_detail cause)"
  by (simp add: rm_ops)

text \<open>Without the reset, the message of a refusal greets the next row.\<close>

lemma rm_stale_message: "rm_error (rm_ask False y (rm_cancel s)) = rm_error s"
  by (simp add: rm_ops)

lemma rm_fresh_message: "rm_error (rm_ask True y (rm_cancel s)) = None"
  by (simp add: rm_ops)

end
