(* ===== verification/SaveForm.thy ===== *)
theory SaveForm
  imports Http Requests
begin

text \<open>
  The pattern the five add/edit dialogs of \<open>features/workspace\<close> share. The component stays
  mounted. An effect over \<open>open\<close> and the props fills the form from the record and clears the
  flags; submitting sends the body built from the form; the answer closes the dialog or leaves its
  message. What differs between the dialogs is a \<open>form_code\<close>; the laws their proofs need are the
  locale \<open>save_dialog\<close>.

  A render is a step of its own when it changes a dependency of the effect, as React compares
  them: a new object is a change, whatever it holds.
\<close>

subsection \<open>What a dialog defines\<close>

text \<open>
  \<open>fc_shown saving e p f\<close>: the control behind the edit \<open>e\<close> is rendered and not disabled.
  \<open>fc_native\<close> is what the browser checks itself before it lets the form submit: the bounds and
  steps of its number fields. \<open>fc_call\<close> is \<open>None\<close> where the handler returns before it sends anything.
\<close>

record ('p, 'f, 'e, 'c) form_code =
  fc_seed :: "'p \<Rightarrow> 'f"
  fc_shown :: "bool \<Rightarrow> 'e \<Rightarrow> 'p \<Rightarrow> 'f \<Rightarrow> bool"
  fc_edit :: "'e \<Rightarrow> 'f \<Rightarrow> 'f"
  fc_native :: "'f \<Rightarrow> bool"
  fc_valid :: "'p \<Rightarrow> 'f \<Rightarrow> bool"
  fc_call :: "'p \<Rightarrow> 'f \<Rightarrow> 'c option"

record ('p, 'f, 'c) save_form =
  sv_open :: bool
  sv_props :: 'p
  sv_form :: 'f
  sv_saving :: bool
  sv_error :: "string option"
  sv_pending :: "'c list"

definition sv_init :: "'p \<Rightarrow> 'f \<Rightarrow> ('p, 'f, 'c) save_form" where
  "sv_init p f =
     \<lparr>sv_open = False, sv_props = p, sv_form = f, sv_saving = False, sv_error = None, sv_pending = []\<rparr>"

subsection \<open>Handlers\<close>

definition sv_render ::
  "('p, 'f, 'e, 'c) form_code \<Rightarrow> bool \<Rightarrow> 'p \<Rightarrow> ('p, 'f, 'c) save_form \<Rightarrow> ('p, 'f, 'c) save_form" where
  "sv_render C opened p s =
     (let s = s\<lparr>sv_open := opened, sv_props := p\<rparr>
      in if \<not> opened then s else s\<lparr>sv_form := fc_seed C p, sv_saving := False, sv_error := None\<rparr>)"

definition sv_can_submit :: "('p, 'f, 'e, 'c) form_code \<Rightarrow> ('p, 'f, 'c) save_form \<Rightarrow> bool" where
  "sv_can_submit C s \<longleftrightarrow> fc_valid C (sv_props s) (sv_form s) \<and> \<not> sv_saving s"

definition sv_submit ::
  "('p, 'f, 'e, 'c) form_code \<Rightarrow> ('p, 'f, 'c) save_form \<Rightarrow> ('p, 'f, 'c) save_form" where
  "sv_submit C s =
     (case fc_call C (sv_props s) (sv_form s) of
        None \<Rightarrow> s
      | Some c \<Rightarrow> s\<lparr>sv_saving := True, sv_error := None, sv_pending := sv_pending s @ [c]\<rparr>)"

text \<open>\<open>onClose\<close> is the parent's: it closes whatever the dialog shows by then.\<close>

definition sv_close :: "('p, 'f, 'c) save_form \<Rightarrow> ('p, 'f, 'c) save_form" where
  "sv_close s = s\<lparr>sv_open := False\<rparr>"

definition sv_done :: "unit result \<Rightarrow> ('p, 'f, 'c) save_form \<Rightarrow> ('p, 'f, 'c) save_form" where
  "sv_done response s =
     (case response of
        Inr _ \<Rightarrow> (sv_close s)\<lparr>sv_saving := False\<rparr>
      | Inl cause \<Rightarrow> s\<lparr>sv_error := Some (ae_detail cause), sv_saving := False\<rparr>)"

subsection \<open>The step relation\<close>

datatype ('p, 'e) sv_event =
    Sv_Open 'p
  | Sv_Render 'p
  | Sv_Edit 'e
  | Sv_Submit
  | Sv_Close
  | Sv_Answer nat "unit result"

fun sv_enabled :: "('p, 'f, 'e, 'c) form_code \<Rightarrow> ('p, 'e) sv_event \<Rightarrow> ('p, 'f, 'c) save_form \<Rightarrow> bool" where
  "sv_enabled C (Sv_Open p) s = (\<not> sv_open s)"
| "sv_enabled C (Sv_Render p) s = sv_open s"
| "sv_enabled C (Sv_Edit e) s = (sv_open s \<and> fc_shown C (sv_saving s) e (sv_props s) (sv_form s))"
| "sv_enabled C Sv_Submit s = sv_open s"
| "sv_enabled C Sv_Close s = sv_open s"
| "sv_enabled C (Sv_Answer k response) s = (k < length (sv_pending s))"

fun sv_apply ::
  "('p, 'f, 'e, 'c) form_code \<Rightarrow> ('p, 'e) sv_event \<Rightarrow> ('p, 'f, 'c) save_form \<Rightarrow> ('p, 'f, 'c) save_form" where
  "sv_apply C (Sv_Open p) s = sv_render C True p s"
| "sv_apply C (Sv_Render p) s = sv_render C True p s"
| "sv_apply C (Sv_Edit e) s = s\<lparr>sv_form := fc_edit C e (sv_form s)\<rparr>"
| "sv_apply C Sv_Submit s = (if fc_native C (sv_form s) \<and> sv_can_submit C s then sv_submit C s else s)"
| "sv_apply C Sv_Close s = sv_close s"
| "sv_apply C (Sv_Answer k response) s =
     sv_done response (s\<lparr>sv_pending := take k (sv_pending s) @ drop (Suc k) (sv_pending s)\<rparr>)"

text \<open>The props a parent passes satisfy \<open>ok\<close>.\<close>

fun sv_props_ok :: "('p \<Rightarrow> bool) \<Rightarrow> ('p, 'e) sv_event \<Rightarrow> bool" where
  "sv_props_ok ok (Sv_Open p) = ok p"
| "sv_props_ok ok (Sv_Render p) = ok p"
| "sv_props_ok ok _ = True"

inductive sv_step ::
  "('p, 'f, 'e, 'c) form_code \<Rightarrow> ('p \<Rightarrow> bool) \<Rightarrow> ('p, 'f, 'c) save_form \<Rightarrow> ('p, 'e) sv_event \<Rightarrow>
   ('p, 'f, 'c) save_form \<Rightarrow> bool" for C ok where
  sv_stepI: "sv_enabled C e s \<Longrightarrow> sv_props_ok ok e \<Longrightarrow> sv_step C ok s e (sv_apply C e s)"

inductive_cases sv_stepE: "sv_step C ok s e s'"

inductive sv_reach ::
  "('p, 'f, 'e, 'c) form_code \<Rightarrow> ('p \<Rightarrow> bool) \<Rightarrow> ('p, 'f, 'c) save_form \<Rightarrow> bool" for C ok where
  sv_reach_init: "sv_reach C ok (sv_init p f)"
| sv_reach_step: "sv_reach C ok s \<Longrightarrow> sv_step C ok s e s' \<Longrightarrow> sv_reach C ok s'"

fun sv_run ::
  "('p, 'f, 'e, 'c) form_code \<Rightarrow> ('p, 'e) sv_event list \<Rightarrow> ('p, 'f, 'c) save_form \<Rightarrow> ('p, 'f, 'c) save_form" where
  "sv_run C [] s = s"
| "sv_run C (e # es) s = sv_run C es (sv_apply C e s)"

fun sv_trace ::
  "('p, 'f, 'e, 'c) form_code \<Rightarrow> ('p \<Rightarrow> bool) \<Rightarrow> ('p, 'e) sv_event list \<Rightarrow> ('p, 'f, 'c) save_form \<Rightarrow> bool" where
  "sv_trace C ok [] s = True"
| "sv_trace C ok (e # es) s = (sv_enabled C e s \<and> sv_props_ok ok e \<and> sv_trace C ok es (sv_apply C e s))"

lemma sv_reach_run: "sv_reach C ok s \<Longrightarrow> sv_trace C ok es s \<Longrightarrow> sv_reach C ok (sv_run C es s)"
proof (induction es arbitrary: s)
  case (Cons e es)
  then have "sv_reach C ok (sv_apply C e s)" by (auto intro: sv_reach_step sv_stepI)
  then show ?case using Cons by simp
qed simp

subsection \<open>What holds of every such dialog\<close>

lemmas sv_ops = sv_render_def sv_can_submit_def sv_submit_def sv_close_def sv_done_def Let_def

definition sv_backed :: "('p, 'f, 'c) save_form \<Rightarrow> bool" where
  "sv_backed s \<longleftrightarrow> (sv_saving s \<longrightarrow> sv_pending s \<noteq> [])"

lemma sv_backed_apply: "sv_backed s \<Longrightarrow> sv_backed (sv_apply C e s)"
  by (cases e) (auto simp: sv_backed_def sv_ops split: option.splits sum.splits)

text \<open>The dialog never stays in \<open>saving\<close> once every request has been answered.\<close>

lemma sv_backed_reach: "sv_reach C ok s \<Longrightarrow> sv_backed s"
proof (induction rule: sv_reach.induct)
  case sv_reach_init
  show ?case by (simp add: sv_backed_def sv_init_def)
next
  case (sv_reach_step s e s')
  then show ?case by (auto elim!: sv_stepE intro: sv_backed_apply)
qed

text \<open>
  An answer goes to the dialog as it stands: a save that succeeds after the dialog has been opened
  for another record closes it with what was typed there.
\<close>

lemma sv_late_success: "\<not> sv_open (sv_apply C (Sv_Answer k (Inr u)) s)"
  by (simp add: sv_ops)

lemma sv_late_refusal:
  "sv_error (sv_apply C (Sv_Answer k (Inl cause)) s) = Some (ae_detail cause) \<and>
   sv_form (sv_apply C (Sv_Answer k (Inl cause)) s) = sv_form s \<and>
   \<not> sv_saving (sv_apply C (Sv_Answer k (Inl cause)) s)"
  by (simp add: sv_ops)

text \<open>A render with new props puts the record back and forgets what was typed.\<close>

lemma sv_rerender: "sv_form (sv_apply C (Sv_Render p) s) = fc_seed C p"
  by (simp add: sv_ops)

lemma sv_submit_once: "sv_saving s \<Longrightarrow> sv_apply C Sv_Submit s = s"
  by (simp add: sv_ops)

subsection \<open>The contract of a dialog\<close>

text \<open>
  \<open>fits p f\<close>: what holds of every form the user can reach from the record. A valid form that
  fits sends a good request.
\<close>

locale save_dialog =
  fixes C :: "('p, 'f, 'e, 'c) form_code"
    and ok :: "'p \<Rightarrow> bool"
    and fits :: "'p \<Rightarrow> 'f \<Rightarrow> bool"
    and good :: "'c \<Rightarrow> bool"
  assumes seed_fits: "ok p \<Longrightarrow> fits p (fc_seed C p)"
    and edit_fits: "fits p f \<Longrightarrow> fc_shown C saving e p f \<Longrightarrow> fits p (fc_edit C e f)"
    and call_good: "fits p f \<Longrightarrow> fc_native C f \<Longrightarrow> fc_valid C p f \<Longrightarrow> fc_call C p f = Some c \<Longrightarrow> good c"
begin

definition sv_inv :: "('p, 'f, 'c) save_form \<Rightarrow> bool" where
  "sv_inv s \<longleftrightarrow> (sv_open s \<longrightarrow> fits (sv_props s) (sv_form s)) \<and> list_all good (sv_pending s)"

lemma sv_inv_submit:
  "sv_inv s \<Longrightarrow> sv_open s \<Longrightarrow> fc_native C (sv_form s) \<Longrightarrow> sv_can_submit C s \<Longrightarrow> sv_inv (sv_submit C s)"
  by (auto simp: sv_inv_def sv_ops dest: call_good split: option.splits)

lemma sv_inv_apply:
  assumes "sv_inv s" "sv_enabled C e s" "sv_props_ok ok e"
  shows "sv_inv (sv_apply C e s)"
proof (cases e)
  case (Sv_Edit x)
  then show ?thesis using assms by (auto simp: sv_inv_def intro: edit_fits)
next
  case Sv_Submit
  then show ?thesis using assms sv_inv_submit by simp
next
  case (Sv_Answer k response)
  then show ?thesis using assms list_all_removed by (auto simp: sv_inv_def sv_ops split: sum.splits)
qed (use assms in \<open>auto simp: sv_inv_def sv_ops intro: seed_fits\<close>)

lemma sv_inv_reach: "sv_reach C ok s \<Longrightarrow> sv_inv s"
proof (induction rule: sv_reach.induct)
  case sv_reach_init
  show ?case by (simp add: sv_inv_def sv_init_def)
next
  case (sv_reach_step s e s')
  then show ?case by (auto elim!: sv_stepE intro: sv_inv_apply)
qed

text \<open>Every request in flight came from a form that could be submitted.\<close>

lemma sent_good: "sv_reach C ok s \<Longrightarrow> c \<in> set (sv_pending s) \<Longrightarrow> good c"
  using sv_inv_reach by (auto simp: sv_inv_def list_all_iff)

end

end
