(* ===== verification/WorkspaceForms.thy ===== *)
theory WorkspaceForms
  imports SaveForm WorkspaceShared WorkspaceStore ServerForm
begin

text \<open>
  The four smaller dialogs of \<open>features/workspace\<close>: \<open>ArtifactDialog\<close>, \<open>ProjectDialog\<close>,
  \<open>ProjectExcludesDialog\<close> and \<open>PlacementDialog\<close>, each as its form, its edits and its
  \<open>form_code\<close> over the requests of the workspace store.
\<close>

text \<open>What a mutation of the store gives its caller: nothing, or the error it rejects with.\<close>

definition settled_result :: "'a result \<Rightarrow> unit result" where
  "settled_result response = map_sum id (\<lambda>_. ()) response"

definition mutation_result :: "js_runtime \<Rightarrow> network \<Rightarrow> workspace_call \<Rightarrow> unit result" where
  "mutation_result rt net c =
     (case c of
        WcCreateProject body \<Rightarrow> settled_result (createProject rt net body)
      | WcPatchProject i patch \<Rightarrow> settled_result (patchProject rt net i patch)
      | WcDeleteProject i \<Rightarrow> settled_result (deleteProject rt net i)
      | WcCreateArtifact body \<Rightarrow> settled_result (createArtifact rt net body)
      | WcPatchArtifact i patch \<Rightarrow> settled_result (patchArtifact rt net i patch)
      | WcDeleteArtifact i \<Rightarrow> settled_result (deleteArtifact rt net i)
      | WcCreatePlacement body \<Rightarrow> settled_result (createPlacement rt net body)
      | WcPatchPlacement i patch \<Rightarrow> settled_result (patchPlacement rt net i patch)
      | WcDeletePlacement i \<Rightarrow> settled_result (deletePlacement rt net i)
      | WcCreateLaunchConfig body \<Rightarrow> settled_result (createLaunchConfig rt net body)
      | WcPatchLaunchConfig i patch \<Rightarrow> settled_result (patchLaunchConfig rt net i patch)
      | WcDeleteLaunchConfig i \<Rightarrow> settled_result (deleteLaunchConfig rt net i)
      | WcSaveRoots i update \<Rightarrow> settled_result (putServerRoots rt net i update)
      | _ \<Rightarrow> Inr ())"

definition trimmed :: "string \<Rightarrow> bool" where
  "trimmed x \<longleftrightarrow> trim x = x"

definition named :: "string \<Rightarrow> bool" where
  "named x \<longleftrightarrow> x \<noteq> '''' \<and> trimmed x"

lemma trimmed_trim [simp]: "trimmed (trim x)"
  by (simp add: trimmed_def trim_idem)

lemma named_trim [simp]: "named (trim x) \<longleftrightarrow> trim x \<noteq> ''''"
  by (simp add: named_def)

definition null_if_blank :: "string \<Rightarrow> string option" where
  "null_if_blank raw = (if trim raw = '''' then None else Some (trim raw))"

lemma null_if_blank_ok [simp]: "opt_ok named (null_if_blank raw)"
  by (simp add: null_if_blank_def)

definition toggle_id :: "string \<Rightarrow> string list \<Rightarrow> string list" where
  "toggle_id i ids = (if i \<in> set ids then filter (\<lambda>x. x \<noteq> i) ids else ids @ [i])"

lemma distinct_toggle_id [simp]: "distinct ids \<Longrightarrow> distinct (toggle_id i ids)"
  by (simp add: toggle_id_def)

lemma set_toggle_id: "set (toggle_id i ids) = (if i \<in> set ids then set ids - {i} else insert i (set ids))"
  by (auto simp: toggle_id_def)

lemma splitList_tags: "splitList raw = parseTags raw"
  by (simp add: splitList_def parseTags_def)

lemma splitList_ok [simp]: "list_all tag_shown (splitList raw)"
  by (simp add: splitList_tags parseTags_ok)

lemma splitList_shown: "list_all tag_shown tags \<Longrightarrow> splitList (join '', '' tags) = tags"
  by (simp add: splitList_tags parse_shown_tags)

subsection \<open>Artifacts\<close>

record artifact_form =
  af_kind :: artifact_kind
  af_name :: string
  af_version :: string
  af_description :: string
  af_immutable :: bool

definition formFromArtifact :: "artifact_record \<Rightarrow> artifact_form" where
  "formFromArtifact artifact =
     \<lparr>af_kind = Kind_Dataset, af_name = art_name artifact,
      af_version = (case art_version artifact of Some v \<Rightarrow> v | None \<Rightarrow> ''''),
      af_description = art_description artifact, af_immutable = art_immutable artifact\<rparr>"

datatype artifact_edit = Af_Kind artifact_kind | Af_Name string | Af_Version string
  | Af_Description string | Af_Immutable

text \<open>The props: the kind of the tab and the record to edit.\<close>

type_synonym artifact_props = "artifact_kind \<times> artifact_record option"

definition artifact_seed :: "artifact_props \<Rightarrow> artifact_form" where
  "artifact_seed p =
     (case snd p of
        None \<Rightarrow> \<lparr>af_kind = fst p, af_name = '''', af_version = '''', af_description = '''',
                 af_immutable = (fst p \<noteq> Kind_Code)\<rparr>
      | Some artifact \<Rightarrow> formFromArtifact artifact)"

fun artifact_edited :: "artifact_edit \<Rightarrow> artifact_form \<Rightarrow> artifact_form" where
  "artifact_edited (Af_Kind next_kind) f =
     f\<lparr>af_kind := next_kind, af_immutable := (if next_kind = Kind_Code then False else af_immutable f)\<rparr>"
| "artifact_edited (Af_Name v) f = f\<lparr>af_name := v\<rparr>"
| "artifact_edited (Af_Version v) f = f\<lparr>af_version := v\<rparr>"
| "artifact_edited (Af_Description v) f = f\<lparr>af_description := v\<rparr>"
| "artifact_edited Af_Immutable f = f\<lparr>af_immutable := \<not> af_immutable f\<rparr>"

fun artifact_shown :: "bool \<Rightarrow> artifact_edit \<Rightarrow> artifact_props \<Rightarrow> artifact_form \<Rightarrow> bool" where
  "artifact_shown saving (Af_Kind kind) p f = (snd p = None)"
| "artifact_shown saving _ p f = True"

definition artifact_create_body :: "artifact_form \<Rightarrow> artifact_create" where
  "artifact_create_body f =
     \<lparr>arc_kind = af_kind f, arc_name = trim (af_name f), arc_version = Some (null_if_blank (af_version f)),
      arc_description = Some (trim (af_description f)), arc_immutable = Some (Some (af_immutable f))\<rparr>"

definition artifact_patch_body :: "artifact_form \<Rightarrow> artifact_patch" where
  "artifact_patch_body f =
     \<lparr>arp_name = Some (trim (af_name f)), arp_version = Some (null_if_blank (af_version f)),
      arp_description = Some (trim (af_description f)), arp_immutable = Some (Some (af_immutable f))\<rparr>"

definition artifact_call :: "artifact_props \<Rightarrow> artifact_form \<Rightarrow> workspace_call option" where
  "artifact_call p f =
     (case snd p of
        None \<Rightarrow> Some (WcCreateArtifact (artifact_create_body f))
      | Some artifact \<Rightarrow> Some (WcPatchArtifact (art_artifact_id artifact) (artifact_patch_body f)))"

definition ArtifactDialog :: "(artifact_props, artifact_form, artifact_edit, workspace_call) form_code" where
  "ArtifactDialog =
     \<lparr>fc_seed = artifact_seed, fc_shown = artifact_shown, fc_edit = artifact_edited,
      fc_native = (\<lambda>_. True), fc_valid = (\<lambda>p f. trim (af_name f) \<noteq> ''''), fc_call = artifact_call\<rparr>"

subsection \<open>Projects\<close>

record project_form =
  pf_name :: string
  pf_description :: string
  pf_tags :: string
  pf_artifactIds :: "string list"

definition EMPTY_PROJECT :: project_form where
  "EMPTY_PROJECT = \<lparr>pf_name = '''', pf_description = '''', pf_tags = '''', pf_artifactIds = []\<rparr>"

definition formFromProject :: "project_record \<Rightarrow> project_form" where
  "formFromProject project =
     \<lparr>pf_name = prj_name project, pf_description = prj_description project,
      pf_tags = join '', '' (prj_tags project), pf_artifactIds = prj_artifact_ids project\<rparr>"

datatype project_edit = Pf_Name string | Pf_Description string | Pf_Tags string | Pf_Toggle string

definition project_seed :: "project_record option \<Rightarrow> project_form" where
  "project_seed p = (case p of None \<Rightarrow> EMPTY_PROJECT | Some project \<Rightarrow> formFromProject project)"

definition toggleArtifact :: "string \<Rightarrow> project_form \<Rightarrow> project_form" where
  "toggleArtifact artifactId f = f\<lparr>pf_artifactIds := toggle_id artifactId (pf_artifactIds f)\<rparr>"

fun project_edited :: "project_edit \<Rightarrow> project_form \<Rightarrow> project_form" where
  "project_edited (Pf_Name v) f = f\<lparr>pf_name := v\<rparr>"
| "project_edited (Pf_Description v) f = f\<lparr>pf_description := v\<rparr>"
| "project_edited (Pf_Tags v) f = f\<lparr>pf_tags := v\<rparr>"
| "project_edited (Pf_Toggle i) f = toggleArtifact i f"

definition project_call :: "project_record option \<Rightarrow> project_form \<Rightarrow> workspace_call option" where
  "project_call p f =
     (case p of
        None \<Rightarrow>
          Some (WcCreateProject
            \<lparr>pjc_name = trim (pf_name f), pjc_description = Some (trim (pf_description f)),
             pjc_artifact_ids = Some (pf_artifactIds f), pjc_tags = Some (splitList (pf_tags f))\<rparr>)
      | Some project \<Rightarrow>
          Some (WcPatchProject (prj_project_id project)
            \<lparr>pjp_name = Some (trim (pf_name f)), pjp_description = Some (trim (pf_description f)),
             pjp_artifact_ids = Some (pf_artifactIds f), pjp_tags = Some (splitList (pf_tags f)),
             pjp_transfer_excludes = None\<rparr>))"

definition ProjectDialog :: "(project_record option, project_form, project_edit, workspace_call) form_code" where
  "ProjectDialog =
     \<lparr>fc_seed = project_seed, fc_shown = (\<lambda>_ _ _ _. True), fc_edit = project_edited,
      fc_native = (\<lambda>_. True), fc_valid = (\<lambda>p f. trim (pf_name f) \<noteq> ''''), fc_call = project_call\<rparr>"

subsection \<open>The transfer exclusions of a project\<close>

definition excludes_seed :: "project_record option \<Rightarrow> string" where
  "excludes_seed p = (case p of None \<Rightarrow> '''' | Some project \<Rightarrow> join '', '' (prj_transfer_excludes project))"

definition excludes_call :: "project_record option \<Rightarrow> string \<Rightarrow> workspace_call option" where
  "excludes_call p f =
     (case p of
        None \<Rightarrow> None
      | Some project \<Rightarrow>
          Some (WcPatchProject (prj_project_id project)
            \<lparr>pjp_name = None, pjp_description = None, pjp_artifact_ids = None, pjp_tags = None,
             pjp_transfer_excludes = Some (splitList f)\<rparr>))"

definition ProjectExcludesDialog :: "(project_record option, string, string, workspace_call) form_code" where
  "ProjectExcludesDialog =
     \<lparr>fc_seed = excludes_seed, fc_shown = (\<lambda>_ _ _ _. True), fc_edit = (\<lambda>v _. v),
      fc_native = (\<lambda>_. True), fc_valid = (\<lambda>_ _. True), fc_call = excludes_call\<rparr>"

subsection \<open>Placements\<close>

record placement_form =
  lf_artifact :: string
  lf_serverId :: string
  lf_path :: string

datatype placement_edit = Lf_Artifact string | Lf_Server string | Lf_Path string

text \<open>The props: the record to edit and the artifact pinned by the context.\<close>

type_synonym placement_props = "placement_record option \<times> string option"

definition placement_seed :: "placement_props \<Rightarrow> placement_form" where
  "placement_seed p =
     (case fst p of
        Some placement \<Rightarrow>
          \<lparr>lf_artifact = plc_artifact_id placement, lf_serverId = plc_server_id placement,
           lf_path = plc_remote_path placement\<rparr>
      | None \<Rightarrow>
          \<lparr>lf_artifact = (case snd p of Some artifactId \<Rightarrow> artifactId | None \<Rightarrow> ''''), lf_serverId = '''',
           lf_path = ''''\<rparr>)"

fun placement_edited :: "placement_edit \<Rightarrow> placement_form \<Rightarrow> placement_form" where
  "placement_edited (Lf_Artifact v) f = f\<lparr>lf_artifact := v\<rparr>"
| "placement_edited (Lf_Server v) f = f\<lparr>lf_serverId := v\<rparr>"
| "placement_edited (Lf_Path v) f = f\<lparr>lf_path := v\<rparr>"

text \<open>The options a select offers are left open; both are disabled while a record is edited.\<close>

fun placement_shown :: "bool \<Rightarrow> placement_edit \<Rightarrow> placement_props \<Rightarrow> placement_form \<Rightarrow> bool" where
  "placement_shown saving (Lf_Path v) p f = True"
| "placement_shown saving _ p f = (fst p = None)"

definition placement_valid :: "placement_props \<Rightarrow> placement_form \<Rightarrow> bool" where
  "placement_valid p f \<longleftrightarrow>
     lf_artifact f \<noteq> '''' \<and> lf_serverId f \<noteq> '''' \<and> remotePathValid (trim (lf_path f))"

definition placement_call :: "placement_props \<Rightarrow> placement_form \<Rightarrow> workspace_call option" where
  "placement_call p f =
     (case fst p of
        None \<Rightarrow>
          Some (WcCreatePlacement
            \<lparr>plk_artifact_id = lf_artifact f, plk_server_id = lf_serverId f,
             plk_remote_path = trim (lf_path f)\<rparr>)
      | Some placement \<Rightarrow>
          Some (WcPatchPlacement (plc_placement_id placement)
            \<lparr>plp_remote_path = Some (trim (lf_path f))\<rparr>))"

definition PlacementDialog ::
  "(placement_props, placement_form, placement_edit, workspace_call) form_code" where
  "PlacementDialog =
     \<lparr>fc_seed = placement_seed, fc_shown = placement_shown, fc_edit = placement_edited,
      fc_native = (\<lambda>_. True), fc_valid = placement_valid, fc_call = placement_call\<rparr>"

subsection \<open>What is sent\<close>

text \<open>
  The shape the backend asks of the mutations: names without surrounding blanks, lists without
  empty or ambiguous elements, program and directory without shell characters, a project for every
  launch configuration, between one and 64 GPUs, memory in whole GiB (rounded where a double has not
  the precision).
\<close>

definition plain_command :: "string \<Rightarrow> bool" where
  "plain_command x \<longleftrightarrow> named x \<and> \<not> hasShellMeta x"

definition env_ok :: "(string \<times> string) list \<Rightarrow> bool" where
  "env_ok env \<longleftrightarrow> record_ok env \<and> list_all named (map fst env)"

definition gpus_ok :: "js_number \<Rightarrow> bool" where
  "gpus_ok v \<longleftrightarrow> (\<exists>n. v = num_of_nat n \<and> 1 \<le> n \<and> n \<le> 64)"

definition vram_ok :: "js_number \<Rightarrow> bool" where
  "vram_ok v \<longleftrightarrow>
     (\<exists>n. v = (case round_double (of_nat n) of Fin q \<Rightarrow> round_double (q * 1024 ^ 3) | x \<Rightarrow> x))"

fun request_ok :: "workspace_call \<Rightarrow> bool" where
  "request_ok (WcCreateArtifact b) =
     (named (arc_name b) \<and> opt_ok (opt_ok named) (arc_version b) \<and> opt_ok trimmed (arc_description b))"
| "request_ok (WcPatchArtifact _ b) =
     (opt_ok named (arp_name b) \<and> opt_ok (opt_ok named) (arp_version b) \<and> opt_ok trimmed (arp_description b))"
| "request_ok (WcCreateProject b) =
     (named (pjc_name b) \<and> opt_ok trimmed (pjc_description b) \<and>
      opt_ok (list_all tag_shown) (pjc_tags b))"
| "request_ok (WcPatchProject _ b) =
     (opt_ok named (pjp_name b) \<and> opt_ok trimmed (pjp_description b) \<and>
      opt_ok (list_all tag_shown) (pjp_tags b) \<and>
      opt_ok (list_all tag_shown) (pjp_transfer_excludes b))"
| "request_ok (WcCreatePlacement b) =
     (plk_artifact_id b \<noteq> '''' \<and> plk_server_id b \<noteq> '''' \<and> named (plk_remote_path b) \<and>
      utf16_length (plk_remote_path b) \<le> 512)"
| "request_ok (WcPatchPlacement _ b) =
     opt_ok (\<lambda>x. named x \<and> utf16_length x \<le> 512) (plp_remote_path b)"
| "request_ok (WcCreateLaunchConfig b) =
     (lcc_project_id b \<noteq> '''' \<and> named (lcc_name b) \<and> plain_command (lcc_program b) \<and> opt_ok (opt_ok plain_command) (lcc_working_dir b) \<and>
      opt_ok (list_all tag_shown) (lcc_args b) \<and> opt_ok (opt_ok named) (lcc_environment b) \<and>
      opt_ok env_ok (lcc_env_vars b) \<and>
      opt_ok (opt_ok gpus_ok) (lcc_gpu_count b) \<and> opt_ok (opt_ok vram_ok) (lcc_min_vram_b b))"
| "request_ok (WcPatchLaunchConfig _ b) =
     (opt_ok named (lcp_name b) \<and> opt_ok plain_command (lcp_program b) \<and>
      opt_ok (opt_ok plain_command) (lcp_working_dir b) \<and> opt_ok (list_all tag_shown) (lcp_args b) \<and>
      opt_ok (opt_ok named) (lcp_environment b) \<and> opt_ok env_ok (lcp_env_vars b) \<and>
      opt_ok (opt_ok gpus_ok) (lcp_gpu_count b) \<and> opt_ok (opt_ok vram_ok) (lcp_min_vram_b b))"
| "request_ok _ = True"

interpretation artifact_dialog: save_dialog ArtifactDialog "\<lambda>_. True" "\<lambda>_ _. True" request_ok
  by unfold_locales
    (auto simp: ArtifactDialog_def artifact_call_def artifact_create_body_def artifact_patch_body_def
      split: option.splits)

interpretation project_dialog: save_dialog ProjectDialog "\<lambda>_. True" "\<lambda>_ _. True" request_ok
  by unfold_locales (auto simp: ProjectDialog_def project_call_def split: option.splits)

text \<open>
  The lists of ids: a toggle adds an id once and removes it wherever it stands, so they stay
  distinct, but a record that names an id twice is sent back as it is.
\<close>

fun request_ids_ok :: "workspace_call \<Rightarrow> bool" where
  "request_ids_ok (WcCreateProject b) = opt_ok distinct (pjc_artifact_ids b)"
| "request_ids_ok (WcPatchProject _ b) = opt_ok distinct (pjp_artifact_ids b)"
| "request_ids_ok (WcCreateLaunchConfig b) = opt_ok distinct (lcc_required_artifact_ids b)"
| "request_ids_ok (WcPatchLaunchConfig _ b) = opt_ok distinct (lcp_required_artifact_ids b)"
| "request_ids_ok _ = True"

definition project_ok :: "project_record option \<Rightarrow> bool" where
  "project_ok p = opt_ok (\<lambda>project. distinct (prj_artifact_ids project)) p"

interpretation project_ids: save_dialog ProjectDialog project_ok "\<lambda>_ f. distinct (pf_artifactIds f)"
  request_ids_ok
proof unfold_locales
  fix saving e p and f :: project_form
  assume "distinct (pf_artifactIds f)"
  then show "distinct (pf_artifactIds (fc_edit ProjectDialog e f))"
    by (cases e) (simp_all add: ProjectDialog_def toggleArtifact_def)
qed (auto simp: ProjectDialog_def project_ok_def project_seed_def EMPTY_PROJECT_def formFromProject_def
    project_call_def split: option.splits)

interpretation excludes_dialog: save_dialog ProjectExcludesDialog "\<lambda>_. True" "\<lambda>_ _. True" request_ok
  by unfold_locales (auto simp: ProjectExcludesDialog_def excludes_call_def split: option.splits)

interpretation placement_dialog: save_dialog PlacementDialog "\<lambda>_. True" "\<lambda>_ _. True" request_ok
  by unfold_locales
    (auto simp: PlacementDialog_def placement_call_def placement_valid_def remotePathValid_def
      split: option.splits)

text \<open>
  Choosing \<open>code\<close> and then another kind leaves the artifact mutable: the switch follows the
  default of the backend towards \<open>code\<close> alone.
\<close>

lemma kind_detour:
  assumes "kind \<noteq> Kind_Code" "f = artifact_edited (Af_Kind kind) (artifact_edited (Af_Kind Kind_Code) f0)"
  shows "af_kind f = kind \<and> \<not> af_immutable f \<and> af_immutable (artifact_seed (kind, None))"
  using assms by (simp add: artifact_seed_def)

text \<open>Toggling an artifact twice restores the choice, up to its place in the list.\<close>

lemma toggle_twice_artifact:
  "set (pf_artifactIds (toggleArtifact i (toggleArtifact i f))) = set (pf_artifactIds f)"
  by (auto simp: toggleArtifact_def set_toggle_id)

text \<open>Saving the exclusions as shown leaves them alone, where the text can show them.\<close>

lemma excludes_unchanged:
  assumes "list_all tag_shown (prj_transfer_excludes project)"
  shows "excludes_call (Some project) (excludes_seed (Some project)) =
    Some (WcPatchProject (prj_project_id project)
      \<lparr>pjp_name = None, pjp_description = None, pjp_artifact_ids = None, pjp_tags = None,
       pjp_transfer_excludes = Some (prj_transfer_excludes project)\<rparr>)"
  using assms by (simp add: excludes_call_def excludes_seed_def splitList_shown)

end
