(* ===== verification/LaunchForm.thy ===== *)
theory LaunchForm
  imports WorkspaceForms
begin

text \<open>
  \<open>features/workspace/LaunchConfigDialog.tsx\<close>: the add/edit dialog of a launch configuration. The
  props are the record to edit, the list of projects and the project pinned by the context; the
  effect that fills the form depends on all three.
\<close>

subsection \<open>The form\<close>

record env_row =
  env_name :: string
  env_value :: string

record launch_form =
  cf_projectId :: string
  cf_name :: string
  cf_workingDir :: string
  cf_program :: string
  cf_args :: string
  cf_environment :: string
  cf_envVars :: "env_row list"
  cf_requiredIds :: "string list"
  cf_gpuCount :: string
  cf_minVramGib :: string

record launch_props =
  lp_config :: "launch_config_record option"
  lp_projects :: "project_record list"
  lp_project :: "project_record option"

definition envRowsFrom :: "(string \<times> string) list \<Rightarrow> env_row list" where
  "envRowsFrom env = map (\<lambda>(name, v). \<lparr>env_name = name, env_value = v\<rparr>) env"

definition GIB :: rat where
  "GIB = 1024 ^ 3"

definition gib_field :: "js_number option \<Rightarrow> string" where
  "gib_field x =
     (case x of
        Some (Fin q) \<Rightarrow> if is_integer (Fin (q / GIB)) then number_string (Fin (q / GIB)) else ''''
      | _ \<Rightarrow> '''')"

definition formFromConfig :: "launch_config_record \<Rightarrow> project_record list \<Rightarrow> launch_form" where
  "formFromConfig config projects =
     \<lparr>cf_projectId =
        (if list_ex (\<lambda>p. prj_project_id p = lch_project_id config) projects
         then lch_project_id config else ''''),
      cf_name = lch_name config,
      cf_workingDir = or_empty (lch_working_dir config),
      cf_program = lch_program config,
      cf_args = join '', '' (lch_args config),
      cf_environment = or_empty (lch_environment config),
      cf_envVars = envRowsFrom (lch_env_vars config),
      cf_requiredIds = lch_required_artifact_ids config,
      cf_gpuCount = number_field (lch_gpu_count config),
      cf_minVramGib = gib_field (lch_min_vram_b config)\<rparr>"

definition EMPTY_LAUNCH :: launch_form where
  "EMPTY_LAUNCH =
     \<lparr>cf_projectId = '''', cf_name = '''', cf_workingDir = '''', cf_program = '''', cf_args = '''',
      cf_environment = '''', cf_envVars = [], cf_requiredIds = [], cf_gpuCount = '''', cf_minVramGib = ''''\<rparr>"

definition parsePositiveInt :: "string \<Rightarrow> field_value" where
  "parsePositiveInt raw =
     (let trimmed = trim raw
      in if trimmed = '''' then Field_Null
         else if \<not> list_all is_digit trimmed then Field_Invalid
         else Field_Number (round_double (of_nat (parse_nat trimmed))))"

definition envRecordFrom :: "env_row list \<Rightarrow> (string \<times> string) list" where
  "envRecordFrom rows =
     foldl (\<lambda>out row. if trim (env_name row) \<noteq> '''' then js_assign (trim (env_name row)) (env_value row) out
                     else out) [] rows"

definition launch_seed :: "launch_props \<Rightarrow> launch_form" where
  "launch_seed p =
     (case lp_config p of
        None \<Rightarrow> EMPTY_LAUNCH\<lparr>cf_projectId := (case lp_project p of Some x \<Rightarrow> prj_project_id x | None \<Rightarrow> '''')\<rparr>
      | Some config \<Rightarrow> formFromConfig config (lp_projects p))"

subsection \<open>Edits\<close>

datatype launch_edit =
    Cf_Project string
  | Cf_Name string
  | Cf_WorkingDir string
  | Cf_Program string
  | Cf_Args string
  | Cf_Environment string
  | Cf_EnvName nat string
  | Cf_EnvValue nat string
  | Cf_RemoveEnv nat
  | Cf_AddEnv
  | Cf_Required string
  | Cf_Gpus string
  | Cf_Vram string

definition setEnvVar :: "nat \<Rightarrow> (env_row \<Rightarrow> env_row) \<Rightarrow> launch_form \<Rightarrow> launch_form" where
  "setEnvVar i patch f = f\<lparr>cf_envVars := map (\<lambda>(k, row). if k = i then patch row else row) (enumerate 0 (cf_envVars f))\<rparr>"

fun launch_edited :: "launch_edit \<Rightarrow> launch_form \<Rightarrow> launch_form" where
  "launch_edited (Cf_Project v) f = f\<lparr>cf_projectId := v\<rparr>"
| "launch_edited (Cf_Name v) f = f\<lparr>cf_name := v\<rparr>"
| "launch_edited (Cf_WorkingDir v) f = f\<lparr>cf_workingDir := v\<rparr>"
| "launch_edited (Cf_Program v) f = f\<lparr>cf_program := v\<rparr>"
| "launch_edited (Cf_Args v) f = f\<lparr>cf_args := v\<rparr>"
| "launch_edited (Cf_Environment v) f = f\<lparr>cf_environment := v\<rparr>"
| "launch_edited (Cf_EnvName i v) f = setEnvVar i (\<lambda>row. row\<lparr>env_name := v\<rparr>) f"
| "launch_edited (Cf_EnvValue i v) f = setEnvVar i (\<lambda>row. row\<lparr>env_value := v\<rparr>) f"
| "launch_edited (Cf_RemoveEnv i) f =
     f\<lparr>cf_envVars := map snd (filter (\<lambda>(k, _). k \<noteq> i) (enumerate 0 (cf_envVars f)))\<rparr>"
| "launch_edited Cf_AddEnv f = f\<lparr>cf_envVars := cf_envVars f @ [\<lparr>env_name = '''', env_value = ''''\<rparr>]\<rparr>"
| "launch_edited (Cf_Required i) f = f\<lparr>cf_requiredIds := toggle_id i (cf_requiredIds f)\<rparr>"
| "launch_edited (Cf_Gpus v) f = f\<lparr>cf_gpuCount := v\<rparr>"
| "launch_edited (Cf_Vram v) f = f\<lparr>cf_minVramGib := v\<rparr>"

fun launch_shown :: "bool \<Rightarrow> launch_edit \<Rightarrow> launch_props \<Rightarrow> launch_form \<Rightarrow> bool" where
  "launch_shown saving (Cf_Project v) p f = (lp_project p = None)"
| "launch_shown saving (Cf_EnvName i v) p f = (i < length (cf_envVars f))"
| "launch_shown saving (Cf_EnvValue i v) p f = (i < length (cf_envVars f))"
| "launch_shown saving (Cf_RemoveEnv i) p f = (i < length (cf_envVars f) \<and> \<not> saving)"
| "launch_shown saving Cf_AddEnv p f = (\<not> saving)"
| "launch_shown saving (Cf_Gpus v) p f = number_text v"
| "launch_shown saving (Cf_Vram v) p f = number_text v"
| "launch_shown saving _ p f = True"

text \<open>
  What the browser checks before the form submits: \<open>min={1} max={64}\<close> of the GPU field, whose step
  is one by default, and \<open>min={0} step={1}\<close> of the memory.
\<close>

definition launch_native :: "launch_form \<Rightarrow> bool" where
  "launch_native f \<longleftrightarrow>
     number_input_ok 1 (Some 64) 1 (cf_gpuCount f) \<and> number_input_ok 0 None 1 (cf_minVramGib f)"

subsection \<open>Validity and the request\<close>

definition minVramInvalid :: "launch_form \<Rightarrow> bool" where
  "minVramInvalid f \<longleftrightarrow> trim (cf_minVramGib f) \<noteq> '''' \<and> gibToBytes (cf_minVramGib f) = None"

definition programValid :: "launch_form \<Rightarrow> bool" where
  "programValid f \<longleftrightarrow> trim (cf_program f) \<noteq> '''' \<and> \<not> hasShellMeta (trim (cf_program f))"

definition workingDirOk :: "launch_form \<Rightarrow> bool" where
  "workingDirOk f \<longleftrightarrow> trim (cf_workingDir f) = '''' \<or> \<not> hasShellMeta (trim (cf_workingDir f))"

definition projectChosen :: "launch_props \<Rightarrow> launch_form \<Rightarrow> bool" where
  "projectChosen p f \<longleftrightarrow> (if lp_project p \<noteq> None then True else trim (cf_projectId f) \<noteq> '''')"

definition launch_valid :: "launch_props \<Rightarrow> launch_form \<Rightarrow> bool" where
  "launch_valid p f \<longleftrightarrow>
     trim (cf_name f) \<noteq> '''' \<and> programValid f \<and> workingDirOk f \<and> projectChosen p f"

text \<open>The errors shown under the two number fields; \<open>launch_valid\<close> does not look at them.\<close>

definition launch_number_errors :: "launch_form \<Rightarrow> bool \<times> bool" where
  "launch_number_errors f = (parsePositiveInt (cf_gpuCount f) = Field_Invalid, minVramInvalid f)"

definition launch_buildBody :: "launch_props \<Rightarrow> launch_form \<Rightarrow> launch_config_create" where
  "launch_buildBody p f =
     \<lparr>lcc_project_id =
        (case lp_project p of Some project \<Rightarrow> prj_project_id project | None \<Rightarrow> trim (cf_projectId f)),
      lcc_name = trim (cf_name f),
      lcc_working_dir = Some (null_if_blank (cf_workingDir f)),
      lcc_program = trim (cf_program f),
      lcc_args = Some (splitList (cf_args f)),
      lcc_environment = Some (null_if_blank (cf_environment f)),
      lcc_env_vars = Some (envRecordFrom (cf_envVars f)),
      lcc_required_artifact_ids = Some (cf_requiredIds f),
      lcc_gpu_count =
        Some (case parsePositiveInt (cf_gpuCount f) of Field_Number n \<Rightarrow> Some n | _ \<Rightarrow> None),
      lcc_min_vram_b = Some (gibToBytes (cf_minVramGib f))\<rparr>"

definition launch_patch_body :: "launch_config_create \<Rightarrow> launch_config_patch" where
  "launch_patch_body body =
     \<lparr>lcp_name = Some (lcc_name body), lcp_working_dir = lcc_working_dir body,
      lcp_program = Some (lcc_program body), lcp_args = lcc_args body,
      lcp_environment = lcc_environment body, lcp_env_vars = lcc_env_vars body,
      lcp_required_artifact_ids = lcc_required_artifact_ids body,
      lcp_gpu_count = lcc_gpu_count body, lcp_min_vram_b = lcc_min_vram_b body\<rparr>"

definition launch_call :: "launch_props \<Rightarrow> launch_form \<Rightarrow> workspace_call option" where
  "launch_call p f =
     (case lp_config p of
        None \<Rightarrow> Some (WcCreateLaunchConfig (launch_buildBody p f))
      | Some config \<Rightarrow>
          Some (WcPatchLaunchConfig (lch_launch_config_id config) (launch_patch_body (launch_buildBody p f))))"

definition LaunchConfigDialog :: "(launch_props, launch_form, launch_edit, workspace_call) form_code" where
  "LaunchConfigDialog =
     \<lparr>fc_seed = launch_seed, fc_shown = launch_shown, fc_edit = launch_edited,
      fc_native = launch_native, fc_valid = launch_valid, fc_call = launch_call\<rparr>"

subsection \<open>What is sent\<close>

lemma env_ok_names: "env_ok env \<longleftrightarrow> record_ok env \<and> (\<forall>k \<in> fst ` set env. named k)"
  by (simp add: env_ok_def list_all_iff)

lemma env_row_assign:
  assumes "env_ok out" "named name"
  shows "env_ok (js_assign name v out)"
proof -
  have "\<forall>k \<in> fst ` set (js_assign name v out). named k"
    using assms by (simp only: env_ok_names js_assign_def dom_update split: if_split) blast
  then show ?thesis using assms by (simp add: env_ok_names record_ok_assign)
qed

lemma env_ok_record [simp]: "env_ok (envRecordFrom rows)"
proof (induction rows rule: rev_induct)
  case Nil
  show ?case by (simp add: envRecordFrom_def env_ok_def)
next
  case (snoc row rows)
  then show ?case by (simp add: envRecordFrom_def env_row_assign)
qed

text \<open>
  The texts of the GPU field the browser and the code read alike: what was typed, the empty text, and
  what the form prints.
\<close>

definition gpus_plain :: "string \<Rightarrow> bool" where
  "gpus_plain g \<longleftrightarrow> (\<forall>v. parsePositiveInt g = Field_Number v \<longrightarrow> html_number g = Some v)"

lemma gpus_plain_graphic:
  assumes "list_all graphic g" "list_all is_digit g \<Longrightarrow> \<exists>q. round_double (of_nat (parse_nat g)) = Fin q"
  shows "gpus_plain g"
  using assms html_number_whole [of g] trim_graphic [of g]
  by (auto simp: gpus_plain_def parsePositiveInt_def Let_def split: if_splits)

lemma gpus_plain_shown: "gpus_plain (number_field x)"
proof (cases x)
  case None
  then show ?thesis by (simp add: number_field_def gpus_plain_def parsePositiveInt_def)
next
  case (Some v)
  show ?thesis unfolding Some number_field_def option.case
    by (rule gpus_plain_graphic [OF graphic_number]) (use printed_whole round_nat_finite in blast)
qed

lemma gpus_plain_typed: "number_text g \<Longrightarrow> gpus_plain g"
proof -
  assume g: "number_text g"
  show ?thesis
  proof (cases "g = ''''")
    case False
    then obtain x where x: "html_number g = Some x" using g by (auto simp: number_text_def)
    have "\<exists>q. round_double (of_nat (parse_nat g)) = Fin q" if "list_all is_digit g"
      using html_number_of_digits [OF that x] html_number_finite [OF x] by (simp add: is_finite_iff)
    then show ?thesis by (rule gpus_plain_graphic [OF graphic_html [OF x]])
  qed (simp add: gpus_plain_def parsePositiveInt_def)
qed

lemma gpus_in_range:
  assumes "gpus_plain g" "number_input_ok 1 (Some 64) 1 g" "parsePositiveInt g = Field_Number v"
  shows "gpus_ok v"
proof -
  have v: "html_number g = Some v" using assms(1,3) by (simp add: gpus_plain_def)
  then obtain q where q: "v = Fin q" using html_number_finite by (auto simp: is_finite_iff)
  then have "1 \<le> q" "q \<le> 64" "is_integer (Fin (q - 1))"
    using assms(2) v by (simp_all add: number_input_ok_def)
  then obtain i where i: "q - 1 = of_int i" by (auto simp: is_integer_iff num_of_int_def)
  then have "q = of_int (i + 1)" by simp
  moreover from this have "1 \<le> i + 1" "i + 1 \<le> 64" using \<open>1 \<le> q\<close> \<open>q \<le> 64\<close> by linarith+
  ultimately have "v = num_of_nat (nat (i + 1)) \<and> 1 \<le> nat (i + 1) \<and> nat (i + 1) \<le> 64"
    by (simp add: q num_of_nat_def) linarith
  then show ?thesis unfolding gpus_ok_def by blast
qed

lemma vram_whole [simp]: "opt_ok vram_ok (gibToBytes raw)"
  by (auto simp: gibToBytes_def vram_ok_def)

lemma plain_command_program: "programValid f \<Longrightarrow> plain_command (trim (cf_program f))"
  by (simp add: programValid_def plain_command_def)

lemma plain_command_dir: "workingDirOk f \<Longrightarrow> opt_ok plain_command (null_if_blank (cf_workingDir f))"
  by (auto simp: workingDirOk_def null_if_blank_def plain_command_def)

text \<open>The backend gives every project an id.\<close>

definition launch_props_ok :: "launch_props \<Rightarrow> bool" where
  "launch_props_ok p = opt_ok (\<lambda>project. prj_project_id project \<noteq> '''') (lp_project p)"

definition launch_fits :: "launch_props \<Rightarrow> launch_form \<Rightarrow> bool" where
  "launch_fits p f \<longleftrightarrow> launch_props_ok p \<and> gpus_plain (cf_gpuCount f)"

lemma launch_gpus:
  assumes "launch_fits p f" "launch_native f"
  shows "opt_ok gpus_ok (case parsePositiveInt (cf_gpuCount f) of Field_Number n \<Rightarrow> Some n | _ \<Rightarrow> None)"
  using assms gpus_in_range by (auto simp: launch_fits_def launch_native_def split: field_value.splits)

lemma launch_project:
  assumes "launch_fits p f" "projectChosen p f"
  shows "lcc_project_id (launch_buildBody p f) \<noteq> ''''"
  using assms
  by (auto simp: launch_fits_def launch_props_ok_def projectChosen_def launch_buildBody_def split: option.splits)

interpretation launch_dialog: save_dialog LaunchConfigDialog launch_props_ok launch_fits request_ok
proof unfold_locales
  fix p assume "launch_props_ok p"
  then show "launch_fits p (fc_seed LaunchConfigDialog p)"
    using gpus_plain_shown gpus_plain_shown [of None]
    by (auto simp: launch_fits_def LaunchConfigDialog_def launch_seed_def EMPTY_LAUNCH_def formFromConfig_def
        number_field_def split: option.splits)
next
  fix saving e p and f :: launch_form
  assume "launch_fits p f" "fc_shown LaunchConfigDialog saving e p f"
  then show "launch_fits p (fc_edit LaunchConfigDialog e f)"
    using gpus_plain_typed by (cases e) (simp_all add: LaunchConfigDialog_def setEnvVar_def launch_fits_def)
next
  fix p and f :: launch_form and c
  assume f: "launch_fits p f" "fc_native LaunchConfigDialog f" "fc_valid LaunchConfigDialog p f"
    and c: "fc_call LaunchConfigDialog p f = Some c"
  have v: "launch_valid p f" "launch_native f" using f by (simp_all add: LaunchConfigDialog_def)
  have "named (trim (cf_name f))" "plain_command (trim (cf_program f))"
    "opt_ok plain_command (null_if_blank (cf_workingDir f))"
    using v(1) plain_command_program plain_command_dir by (simp_all add: launch_valid_def)
  moreover have "lcc_project_id (launch_buildBody p f) \<noteq> ''''"
    using v(1) launch_project [OF f(1)] by (simp add: launch_valid_def)
  ultimately show "request_ok c"
    using c launch_gpus [OF f(1) v(2)]
    by (auto simp: LaunchConfigDialog_def launch_call_def launch_buildBody_def launch_patch_body_def
        split: option.splits)
qed

text \<open>Required artifacts are named once where the record to edit names them once.\<close>

definition launch_ids_ok :: "launch_props \<Rightarrow> bool" where
  "launch_ids_ok p = opt_ok (\<lambda>config. distinct (lch_required_artifact_ids config)) (lp_config p)"

interpretation launch_ids: save_dialog LaunchConfigDialog launch_ids_ok "\<lambda>_ f. distinct (cf_requiredIds f)"
  request_ids_ok
proof unfold_locales
  fix saving e p and f :: launch_form
  assume "distinct (cf_requiredIds f)"
  then show "distinct (cf_requiredIds (fc_edit LaunchConfigDialog e f))"
    by (cases e) (simp_all add: LaunchConfigDialog_def setEnvVar_def)
qed (auto simp: LaunchConfigDialog_def launch_ids_ok_def launch_seed_def EMPTY_LAUNCH_def
    formFromConfig_def launch_call_def launch_buildBody_def launch_patch_body_def split: option.splits)

subsection \<open>Editing without a change\<close>

lemma envRecordFrom_snoc:
  "envRecordFrom (rows @ [row]) =
     (if trim (env_name row) \<noteq> '''' then js_assign (trim (env_name row)) (env_value row) (envRecordFrom rows)
      else envRecordFrom rows)"
  by (simp add: envRecordFrom_def)

lemma env_roundtrip: "env_ok env \<Longrightarrow> envRecordFrom (envRowsFrom env) = env"
proof (induction env rule: rev_induct)
  case (snoc kv env)
  obtain k v where kv: "kv = (k, v)" by (cases kv)
  have k: "k \<notin> fst ` set env" "k \<noteq> ''__proto__''" "named k" "env_ok env"
    using snoc.prems by (auto simp: env_ok_def record_ok_def kv)
  then have "envRecordFrom (envRowsFrom env) = env" using snoc.IH by simp
  moreover have "js_assign k v env = env @ [(k, v)]" using k by (simp add: js_assign_def update_new_key)
  ultimately show ?case using k by (simp add: kv envRowsFrom_def envRecordFrom_snoc named_def trimmed_def)
qed (simp add: envRecordFrom_def envRowsFrom_def)

text \<open>Whole numbers the fields show and read back.\<close>

lemma number_string_zero: "number_string (Fin 0) = ''0''"
  by simp

lemma whole_string:
  assumes "n < 10 ^ 15"
  obtains a where "number_string (num_of_nat n) = a" "list_all is_digit a" "a \<noteq> []" "parse_nat a = n"
    "round_double (of_nat n) = num_of_nat n" "trim a = a"
proof (cases "n = 0")
  case True
  have "trim ''0'' = ''0''" by (rule trim_graphic) (simp add: graphic_def byte_def)
  then show ?thesis using True by (intro that [of "''0''"]) (simp_all add: num_of_nat_def round_double_def is_digit_def byte_def parse_nat_def digit_value_def)
next
  case False
  then obtain a where a: "list_all is_digit a" "a \<noteq> []" "number_string (num_of_nat n) = a" "parse_nat a = n"
    using integer_string [of n] assms by auto
  moreover have "trim a = a" using a(1) by (intro trim_graphic) simp
  moreover have "round_double (of_nat n) = num_of_nat n"
    using round_double_of_nat [of n] False assms by (simp add: num_of_nat_def)
  ultimately show ?thesis by (intro that)
qed

lemma parse_shown_count: "n < 10 ^ 15 \<Longrightarrow> parsePositiveInt (number_string (num_of_nat n)) = Field_Number (num_of_nat n)"
  by (erule whole_string) (simp add: parsePositiveInt_def)

lemma shown_vram:
  assumes "n < 10 ^ 15" "n * 1024 ^ 3 < 10 ^ 15"
  shows "gibToBytes (gib_field (Some (Fin (of_nat n * GIB)))) = Some (Fin (of_nat n * GIB))"
proof -
  have field: "gib_field (Some (Fin (of_nat n * GIB))) = number_string (num_of_nat n)"
    using is_integer_num_of_nat [of n] by (simp add: gib_field_def GIB_def num_of_nat_def del: number_string.simps)
  have bytes: "round_double (of_nat n * 1024 ^ 3) = Fin (of_nat n * 1024 ^ 3)"
  proof (cases "n = 0")
    case False
    then show ?thesis using round_double_of_nat [of "n * 1024 ^ 3"] assms(2) by simp
  qed (simp add: round_double_def)
  obtain a where a: "number_string (num_of_nat n) = a" "list_all is_digit a" "a \<noteq> []" "parse_nat a = n"
    "round_double (of_nat n) = num_of_nat n" "trim a = a" by (rule whole_string [OF assms(1)])
  show ?thesis
    unfolding field a(1) using bytes by (simp add: gibToBytes_def a num_of_nat_def GIB_def)
qed

text \<open>A record the dialog can show without loss, and the patch that leaves it as it is.\<close>

definition launch_editable :: "launch_config_record \<Rightarrow> bool" where
  "launch_editable config \<longleftrightarrow>
     trimmed (lch_name config) \<and> trimmed (lch_program config) \<and>
     opt_ok named (lch_working_dir config) \<and> opt_ok named (lch_environment config) \<and>
     list_all tag_shown (lch_args config) \<and> env_ok (lch_env_vars config) \<and>
     (case lch_gpu_count config of None \<Rightarrow> True | Some x \<Rightarrow> \<exists>n < 10 ^ 15. x = num_of_nat n) \<and>
     (case lch_min_vram_b config of None \<Rightarrow> True
      | Some x \<Rightarrow> \<exists>n. n * 1024 ^ 3 < 10 ^ 15 \<and> x = Fin (of_nat n * GIB))"

definition launch_identity :: "launch_config_record \<Rightarrow> launch_config_patch" where
  "launch_identity config =
     \<lparr>lcp_name = Some (lch_name config), lcp_working_dir = Some (lch_working_dir config),
      lcp_program = Some (lch_program config), lcp_args = Some (lch_args config),
      lcp_environment = Some (lch_environment config), lcp_env_vars = Some (lch_env_vars config),
      lcp_required_artifact_ids = Some (lch_required_artifact_ids config),
      lcp_gpu_count = Some (lch_gpu_count config), lcp_min_vram_b = Some (lch_min_vram_b config)\<rparr>"

lemma null_if_blank_shown: "opt_ok named x \<Longrightarrow> null_if_blank (or_empty x) = x"
  by (cases x) (simp_all add: null_if_blank_def or_empty_def named_def trimmed_def)

lemma shown_gpus:
  "(case x of None \<Rightarrow> True | Some x \<Rightarrow> \<exists>n < 10 ^ 15. x = num_of_nat n) \<Longrightarrow>
   (case parsePositiveInt (number_field x) of Field_Number n \<Rightarrow> Some n | _ \<Rightarrow> None) = x"
  by (cases x) (auto simp: number_field_def parsePositiveInt_def [of "''''"] parse_shown_count)

lemma shown_vram_field:
  "(case x of None \<Rightarrow> True | Some x \<Rightarrow> \<exists>n. n * 1024 ^ 3 < 10 ^ 15 \<and> x = Fin (of_nat n * GIB)) \<Longrightarrow>
   gibToBytes (gib_field x) = x"
proof (cases x)
  case None
  then show ?thesis by (simp add: gib_field_def gibToBytes_def)
next
  case (Some y)
  assume "case x of None \<Rightarrow> True | Some x \<Rightarrow> \<exists>n. n * 1024 ^ 3 < 10 ^ 15 \<and> x = Fin (of_nat n * GIB)"
  then obtain n where n: "n * 1024 ^ 3 < 10 ^ 15" "y = Fin (of_nat n * GIB)" using Some by auto
  moreover have "n < 10 ^ 15" using n(1) by simp
  ultimately show ?thesis using shown_vram by (simp add: Some)
qed

lemma launch_unchanged:
  assumes "launch_editable config" "lp_config p = Some config"
  shows "launch_call p (launch_seed p) = Some (WcPatchLaunchConfig (lch_launch_config_id config) (launch_identity config))"
proof -
  let ?f = "formFromConfig config (lp_projects p)"
  have "launch_patch_body (launch_buildBody p ?f) = launch_identity config"
    using assms(1) null_if_blank_shown env_roundtrip shown_gpus shown_vram_field splitList_shown
    by (simp add: launch_patch_body_def launch_buildBody_def launch_identity_def formFromConfig_def
        launch_editable_def trimmed_def)
  then show ?thesis by (simp add: launch_call_def launch_seed_def assms(2))
qed

subsection \<open>Where an edit loses something\<close>

text \<open>A requirement the field cannot show is erased by any save.\<close>

lemma hidden_vram_erased:
  assumes "lp_config p = Some config" "lch_min_vram_b config = Some (Fin q)"
    "\<not> is_integer (Fin (q / GIB))" "cf_minVramGib f = cf_minVramGib (launch_seed p)"
  shows "\<exists>patch. launch_call p f = Some (WcPatchLaunchConfig (lch_launch_config_id config) patch) \<and>
    lcp_min_vram_b patch = Some None"
  using assms by (simp add: launch_call_def launch_patch_body_def launch_buildBody_def launch_seed_def
      formFromConfig_def gib_field_def gibToBytes_def)

text \<open>
  A number the fields mark as invalid does not hold the save back: the requirement is sent as
  \<open>null\<close>.
\<close>

lemma invalid_numbers_sent:
  assumes "launch_valid p f" "parsePositiveInt g = Field_Invalid" "minVramInvalid (f\<lparr>cf_minVramGib := v\<rparr>)"
  defines "f' \<equiv> f\<lparr>cf_gpuCount := g, cf_minVramGib := v\<rparr>"
  shows "launch_valid p f' \<and> launch_number_errors f' = (True, True) \<and>
    lcc_gpu_count (launch_buildBody p f') = Some None \<and> lcc_min_vram_b (launch_buildBody p f') = Some None"
  using assms by (simp add: launch_valid_def programValid_def workingDirOk_def projectChosen_def
      launch_number_errors_def minVramInvalid_def launch_buildBody_def)

text \<open>While a record is edited the choice of the project is offered and not sent.\<close>

lemma project_choice_ignored:
  assumes "lp_config p \<noteq> None"
  shows "launch_call p (launch_edited (Cf_Project v) f) = launch_call p f"
  using assms by (auto simp: launch_call_def launch_patch_body_def launch_buildBody_def)

text \<open>The last of two rows with one name wins; the place is that of the first.\<close>

lemma env_last_wins:
  assumes "named name" "name \<noteq> ''__proto__''"
  shows "map_of (envRecordFrom (rows @ [\<lparr>env_name = name, env_value = v\<rparr>])) name = Some v"
  using assms by (simp add: envRecordFrom_snoc named_def trimmed_def js_assign_def update_conv)

end
