(* ===== verification/WorkspaceTabs.thy ===== *)
theory WorkspaceTabs
  imports RemoveDialog LaunchForm TransferStore SyncDialog
begin

text \<open>
  The list tabs of the workspace page (\<open>ProjectsTab\<close>, \<open>ArtifactsTab\<close>, \<open>LaunchConfigsTab\<close>) and the
  placements of a project (\<open>PlacementTable\<close>): what they show of the store, and the dialogs
  their menus open. A tab owns one add/edit dialog and one removal.
\<close>

subsection \<open>What a tab shows\<close>

datatype 'a tab_body = Tab_Error string | Tab_Skeleton | Tab_Empty | Tab_Rows "'a list"

text \<open>\<open>all_rows\<close> is what the store holds, \<open>rows\<close> what the tab keeps of it.\<close>

definition tab_body :: "string option \<Rightarrow> bool \<Rightarrow> 'b list \<Rightarrow> 'a list \<Rightarrow> 'a tab_body" where
  "tab_body error loading all_rows rows =
     (case error of
        Some e \<Rightarrow> Tab_Error e
      | None \<Rightarrow>
          if loading \<and> all_rows = [] then Tab_Skeleton
          else if rows = [] then Tab_Empty
          else Tab_Rows rows)"

definition ProjectsTab_body :: "workspace_store \<Rightarrow> project_record tab_body" where
  "ProjectsTab_body w = tab_body (wk_projectsError w) (wk_projectsLoading w) (wk_projects w) (wk_projects w)"

definition artifact_rows :: "artifact_kind \<Rightarrow> workspace_store \<Rightarrow> artifact_record list" where
  "artifact_rows kind w = filter (\<lambda>artifact. art_kind artifact = kind) (wk_artifacts w)"

definition ArtifactsTab_body :: "artifact_kind \<Rightarrow> workspace_store \<Rightarrow> artifact_record tab_body" where
  "ArtifactsTab_body kind w =
     tab_body (wk_artifactsError w) (wk_artifactsLoading w) (wk_artifacts w) (artifact_rows kind w)"

definition LaunchConfigsTab_body :: "workspace_store \<Rightarrow> launch_config_record tab_body" where
  "LaunchConfigsTab_body w =
     tab_body (wk_launchConfigsError w) (wk_launchConfigsLoading w) (wk_launchConfigs w) (wk_launchConfigs w)"

definition placementCount :: "string \<Rightarrow> workspace_store \<Rightarrow> nat" where
  "placementCount artifactId w = length (filter (\<lambda>p. plc_artifact_id p = artifactId) (wk_placements w))"

definition commandLine :: "launch_config_record \<Rightarrow> string" where
  "commandLine config =
     lch_program config @ (if lch_args config \<noteq> [] then '' '' @ join '' '' (lch_args config) else '''')"

definition projectName :: "dict \<Rightarrow> workspace_store \<Rightarrow> string \<Rightarrow> string" where
  "projectName t w projectId =
     (case find (\<lambda>p. prj_project_id p = projectId) (wk_projects w) of
        Some p \<Rightarrow> prj_name p
      | None \<Rightarrow> t ''workspace.launchProjectMissing'')"

text \<open>The texts of a row. Two facts are separated by a middle dot between blanks.\<close>

definition MIDDOT :: string where
  "MIDDOT = [CHR '' '', CHR 0xC2, CHR 0xB7, CHR '' '']"

definition shown_unless_empty :: "string \<Rightarrow> string option" where
  "shown_unless_empty x = (if x \<noteq> '''' then Some x else None)"

record row_texts =
  rx_name :: string
  rx_desc :: "string option"
  rx_facts :: string
  rx_chips :: "(string \<times> chip_tone) list"
  rx_menu :: string

definition project_row :: "js_runtime \<Rightarrow> dict \<Rightarrow> rat \<Rightarrow> project_record \<Rightarrow> row_texts" where
  "project_row rt t now project =
     \<lparr>rx_name = prj_name project,
      rx_desc = shown_unless_empty (prj_description project),
      rx_facts =
        tf (t ''workspace.artifactCount'') [(''n'', show_nat (length (prj_artifact_ids project)))] @ MIDDOT @
        tf (t ''workspace.launchConfigCount'') [(''n'', show_nat (length (prj_launch_config_ids project)))] @ MIDDOT @
        tf (t ''common.updated'') [(''ago'', relative_label rt t (Some (TsText (prj_updated_at project))) now)],
      rx_chips = map (\<lambda>tag. (tag, Tone_Neutral)) (prj_tags project),
      rx_menu = tf (t ''workspace.projectActions'') [(''name'', prj_name project)]\<rparr>"

definition artifact_row :: "dict \<Rightarrow> workspace_store \<Rightarrow> artifact_kind \<Rightarrow> artifact_record \<Rightarrow> row_texts" where
  "artifact_row t w kind artifact =
     \<lparr>rx_name = artifactLabel artifact,
      rx_desc = shown_unless_empty (art_description artifact),
      rx_facts = tf (t ''workspace.placementsCount'') [(''n'', show_nat (placementCount (art_artifact_id artifact) w))],
      rx_chips =
        [(if kind = Kind_Model then t ''workspace.kindModel'' else t ''workspace.kindDataset'', Tone_Neutral),
         if art_immutable artifact then (t ''workspace.immutableChip'', Tone_Cold)
         else (t ''workspace.mutableChip'', Tone_Warn)],
      rx_menu = tf (t ''workspace.artifactActions'') [(''name'', art_name artifact)]\<rparr>"

definition gpu_chip :: "dict \<Rightarrow> launch_config_record \<Rightarrow> (string \<times> chip_tone) list" where
  "gpu_chip t config =
     (case lch_gpu_count config of
        Some n \<Rightarrow> [(tf (t ''workspace.gpuCountValue'') [(''n'', number_string n)], Tone_Neutral)]
      | None \<Rightarrow> [])"

definition launch_row :: "dict \<Rightarrow> workspace_store \<Rightarrow> launch_config_record \<Rightarrow> row_texts" where
  "launch_row t w config =
     \<lparr>rx_name = lch_name config, rx_desc = Some (commandLine config),
      rx_facts = tf (t ''workspace.launchProject'') [(''name'', projectName t w (lch_project_id config))],
      rx_chips = gpu_chip t config,
      rx_menu = tf (t ''workspace.launchConfigActions'') [(''name'', lch_name config)]\<rparr>"

subsection \<open>The projects tab\<close>

text \<open>
  \<open>dialog\<close> is \<open>null\<close>, \<open>add\<close> or \<open>edit\<close>; the exclusions have a dialog of their own. Closing a
  dialog sets its variable to \<open>null\<close>, so the dialog renders once more, closed and without record.
\<close>

record projects_tab =
  pt_dialog :: "(project_record option, project_form, workspace_call) save_form"
  pt_excludes :: "(project_record option, string, workspace_call) save_form"
  pt_remove :: "project_record remove_dialog"
  pt_hash :: "string option"

definition ProjectsTab :: projects_tab where
  "ProjectsTab =
     \<lparr>pt_dialog = sv_init None EMPTY_PROJECT, pt_excludes = sv_init None '''', pt_remove = rm_init,
      pt_hash = None\<rparr>"

datatype projects_event =
    Pt_Add
  | Pt_Edit project_record
  | Pt_Excludes project_record
  | Pt_Row project_record
  | Pt_Dialog "(project_record option, project_edit) sv_event"
  | Pt_ExcludesDialog "(project_record option, string) sv_event"
  | Pt_Remove "project_record rm_event"

text \<open>The rows stand behind the overlay of an open dialog.\<close>

definition projects_free :: "projects_tab \<Rightarrow> bool" where
  "projects_free s \<longleftrightarrow> \<not> sv_open (pt_dialog s) \<and> \<not> sv_open (pt_excludes s) \<and> rm_target (pt_remove s) = None"

definition user_dialog_event :: "('p, 'e) sv_event \<Rightarrow> bool" where
  "user_dialog_event e = (case e of Sv_Open _ \<Rightarrow> False | Sv_Render _ \<Rightarrow> False | _ \<Rightarrow> True)"

fun projects_enabled :: "projects_event \<Rightarrow> projects_tab \<Rightarrow> bool" where
  "projects_enabled Pt_Add s = projects_free s"
| "projects_enabled (Pt_Edit project) s = projects_free s"
| "projects_enabled (Pt_Excludes project) s = projects_free s"
| "projects_enabled (Pt_Row project) s = projects_free s"
| "projects_enabled (Pt_Dialog e) s = (user_dialog_event e \<and> sv_enabled ProjectDialog e (pt_dialog s))"
| "projects_enabled (Pt_ExcludesDialog e) s =
     (user_dialog_event e \<and> sv_enabled ProjectExcludesDialog e (pt_excludes s))"
| "projects_enabled (Pt_Remove e) s =
     (rm_enabled e (pt_remove s) \<and> (case e of Rm_Ask _ \<Rightarrow> projects_free s | _ \<Rightarrow> True))"

fun projects_apply :: "projects_event \<Rightarrow> projects_tab \<Rightarrow> projects_tab" where
  "projects_apply Pt_Add s = s\<lparr>pt_dialog := sv_apply ProjectDialog (Sv_Open None) (pt_dialog s)\<rparr>"
| "projects_apply (Pt_Edit project) s =
     s\<lparr>pt_dialog := sv_apply ProjectDialog (Sv_Open (Some project)) (pt_dialog s)\<rparr>"
| "projects_apply (Pt_Excludes project) s =
     s\<lparr>pt_excludes := sv_apply ProjectExcludesDialog (Sv_Open (Some project)) (pt_excludes s)\<rparr>"
| "projects_apply (Pt_Row project) s =
     s\<lparr>pt_hash := Some (''#/workspace/projects/'' @ encodeURIComponent (prj_project_id project))\<rparr>"
| "projects_apply (Pt_Dialog e) s = s\<lparr>pt_dialog := sv_apply ProjectDialog e (pt_dialog s)\<rparr>"
| "projects_apply (Pt_ExcludesDialog e) s =
     s\<lparr>pt_excludes := sv_apply ProjectExcludesDialog e (pt_excludes s)\<rparr>"
| "projects_apply (Pt_Remove e) s = s\<lparr>pt_remove := rm_apply True e (pt_remove s)\<rparr>"

subsection \<open>The artifacts tab\<close>

text \<open>
  Each kind has an instance of its own. The record to edit outlives the dialog. \<open>sync\<close> opens
  the new-transfer dialog of the transfer store with the artifact filled in.
\<close>

record artifacts_tab =
  at_kind :: artifact_kind
  at_dialog :: "(artifact_props, artifact_form, workspace_call) save_form"
  at_editTarget :: "artifact_record option"
  at_remove :: "artifact_record remove_dialog"
  at_transfers :: transfer_store

definition ArtifactsTab :: "artifact_kind \<Rightarrow> transfer_store \<Rightarrow> artifacts_tab" where
  "ArtifactsTab kind transfers =
     \<lparr>at_kind = kind, at_dialog = sv_init (kind, None) (artifact_seed (kind, None)), at_editTarget = None,
      at_remove = rm_init, at_transfers = transfers\<rparr>"

datatype artifacts_event =
    At_Add
  | At_Edit artifact_record
  | At_Sync artifact_record
  | At_Dialog "(artifact_props, artifact_edit) sv_event"
  | At_Remove "artifact_record rm_event"

definition open_artifact :: "artifact_record option \<Rightarrow> artifacts_tab \<Rightarrow> artifacts_tab" where
  "open_artifact target s =
     s\<lparr>at_editTarget := target,
       at_dialog := sv_apply ArtifactDialog (Sv_Open (at_kind s, target)) (at_dialog s)\<rparr>"

definition artifacts_free :: "artifacts_tab \<Rightarrow> bool" where
  "artifacts_free s \<longleftrightarrow> \<not> sv_open (at_dialog s) \<and> rm_target (at_remove s) = None"

fun artifacts_enabled :: "artifacts_event \<Rightarrow> artifacts_tab \<Rightarrow> bool" where
  "artifacts_enabled At_Add s = artifacts_free s"
| "artifacts_enabled (At_Edit artifact) s = artifacts_free s"
| "artifacts_enabled (At_Sync artifact) s = artifacts_free s"
| "artifacts_enabled (At_Dialog e) s = (user_dialog_event e \<and> sv_enabled ArtifactDialog e (at_dialog s))"
| "artifacts_enabled (At_Remove e) s =
     (rm_enabled e (at_remove s) \<and> (case e of Rm_Ask _ \<Rightarrow> artifacts_free s | _ \<Rightarrow> True))"

fun artifacts_apply :: "artifacts_event \<Rightarrow> artifacts_tab \<Rightarrow> artifacts_tab" where
  "artifacts_apply At_Add s = open_artifact None s"
| "artifacts_apply (At_Edit artifact) s = open_artifact (Some artifact) s"
| "artifacts_apply (At_Sync artifact) s =
     s\<lparr>at_transfers := openNewTransfer
         \<lparr>pre_artifactId = Some (art_artifact_id artifact), pre_sourcePlacementId = None\<rparr> (at_transfers s)\<rparr>"
| "artifacts_apply (At_Dialog e) s = s\<lparr>at_dialog := sv_apply ArtifactDialog e (at_dialog s)\<rparr>"
| "artifacts_apply (At_Remove e) s = s\<lparr>at_remove := rm_apply True e (at_remove s)\<rparr>"

subsection \<open>The launch configurations tab\<close>

record launches_tab =
  lt_dialog :: "(launch_props, launch_form, workspace_call) save_form"
  lt_editTarget :: "launch_config_record option"
  lt_remove :: "launch_config_record remove_dialog"
  lt_projects :: "project_record list"

definition launch_tab_props :: "launch_config_record option \<Rightarrow> project_record list \<Rightarrow> launch_props" where
  "launch_tab_props target projects = \<lparr>lp_config = target, lp_projects = projects, lp_project = None\<rparr>"

definition LaunchConfigsTab :: "project_record list \<Rightarrow> launches_tab" where
  "LaunchConfigsTab projects =
     \<lparr>lt_dialog = sv_init (launch_tab_props None projects) EMPTY_LAUNCH, lt_editTarget = None,
      lt_remove = rm_init, lt_projects = projects\<rparr>"

text \<open>\<open>Lt_Projects\<close>: the store has a new list of projects, as after every load of it.\<close>

datatype launches_event =
    Lt_Add
  | Lt_Edit launch_config_record
  | Lt_Projects "project_record list"
  | Lt_Dialog "(launch_props, launch_edit) sv_event"
  | Lt_Remove "launch_config_record rm_event"

definition open_launch :: "launch_config_record option \<Rightarrow> launches_tab \<Rightarrow> launches_tab" where
  "open_launch target s =
     s\<lparr>lt_editTarget := target,
       lt_dialog := sv_apply LaunchConfigDialog (Sv_Open (launch_tab_props target (lt_projects s))) (lt_dialog s)\<rparr>"

definition launches_free :: "launches_tab \<Rightarrow> bool" where
  "launches_free s \<longleftrightarrow> \<not> sv_open (lt_dialog s) \<and> rm_target (lt_remove s) = None"

fun launches_enabled :: "launches_event \<Rightarrow> launches_tab \<Rightarrow> bool" where
  "launches_enabled Lt_Add s = launches_free s"
| "launches_enabled (Lt_Edit config) s = launches_free s"
| "launches_enabled (Lt_Projects projects) s = True"
| "launches_enabled (Lt_Dialog e) s = (user_dialog_event e \<and> sv_enabled LaunchConfigDialog e (lt_dialog s))"
| "launches_enabled (Lt_Remove e) s =
     (rm_enabled e (lt_remove s) \<and> (case e of Rm_Ask _ \<Rightarrow> launches_free s | _ \<Rightarrow> True))"

fun launches_apply :: "launches_event \<Rightarrow> launches_tab \<Rightarrow> launches_tab" where
  "launches_apply Lt_Add s = open_launch None s"
| "launches_apply (Lt_Edit config) s = open_launch (Some config) s"
| "launches_apply (Lt_Projects projects) s =
     s\<lparr>lt_projects := projects,
       lt_dialog := (if sv_open (lt_dialog s)
                     then sv_apply LaunchConfigDialog (Sv_Render (launch_tab_props (lt_editTarget s) projects)) (lt_dialog s)
                     else lt_dialog s)\<rparr>"
| "launches_apply (Lt_Dialog e) s = s\<lparr>lt_dialog := sv_apply LaunchConfigDialog e (lt_dialog s)\<rparr>"
| "launches_apply (Lt_Remove e) s = s\<lparr>lt_remove := rm_apply True e (lt_remove s)\<rparr>"

text \<open>
  A load of the projects that ends while the dialog is open puts the record back: what was typed
  is gone, and a save in flight no longer disables the button.
\<close>

lemma projects_load_resets:
  assumes "sv_open (lt_dialog s)"
  shows "sv_form (lt_dialog (launches_apply (Lt_Projects projects) s)) =
      launch_seed (launch_tab_props (lt_editTarget s) projects) \<and>
    \<not> sv_saving (lt_dialog (launches_apply (Lt_Projects projects) s))"
  using assms by (simp add: sv_ops LaunchConfigDialog_def)

subsection \<open>The placements of a project\<close>

definition by_artifact :: "placement_record list \<Rightarrow> string \<rightharpoonup> placement_record list" where
  "by_artifact placements =
     foldl (\<lambda>m p. m(plc_artifact_id p \<mapsto> (case m (plc_artifact_id p) of Some l \<Rightarrow> l | None \<Rightarrow> []) @ [p]))
       Map.empty placements"

definition placement_groups ::
  "artifact_record list \<Rightarrow> placement_record list \<Rightarrow>
   (artifact_kind \<times> (artifact_record \<times> placement_record list) list) list" where
  "placement_groups artifacts placements =
     map (\<lambda>(kind, members).
        (kind, map (\<lambda>a. (a, case by_artifact placements (art_artifact_id a) of Some l \<Rightarrow> l | None \<Rightarrow> [])) members))
       (groupArtifactsByKind artifacts)"

fun stateLabel :: "dict \<Rightarrow> inspection_state \<Rightarrow> string" where
  "stateLabel t I_Verified = t ''workspace.stateVerified''"
| "stateLabel t I_Missing = t ''workspace.stateMissing''"
| "stateLabel t I_Unavailable = t ''workspace.stateUnavailable''"
| "stateLabel t I_Declared = t ''workspace.stateDeclared''"

fun stateTone :: "inspection_state \<Rightarrow> chip_tone" where
  "stateTone I_Verified = Tone_Ok"
| "stateTone I_Missing = Tone_Crit"
| "stateTone I_Unavailable = Tone_Warn"
| "stateTone I_Declared = Tone_Neutral"

definition inspection_facts ::
  "js_runtime \<Rightarrow> dict \<Rightarrow> rat \<Rightarrow> placement_inspection \<Rightarrow> string list" where
  "inspection_facts rt t now i =
     (case ins_file_type i of Some x \<Rightarrow> [x] | None \<Rightarrow> []) @
     (case ins_size_b i of Some x \<Rightarrow> [formatBytes rt (Some x)] | None \<Rightarrow> []) @
     (case ins_file_count i of
        Some x \<Rightarrow> [tf (t ''workspace.fileCount'') [(''n'', number_string x)]] | None \<Rightarrow> []) @
     (if ins_checked_at i \<noteq> ''''
      then [tf (t ''workspace.inspectedAgo'')
              [(''ago'', relative_label rt t (Some (TsText (ins_checked_at i))) now)]]
      else [])"

record placement_row =
  row_server :: string
  row_unknown :: bool
  row_path :: string
  row_inspection :: "placement_inspection option"
  row_busy :: bool
  row_failure :: string

definition placement_row :: "server_record list \<Rightarrow> workspace_store \<Rightarrow> placement_record \<Rightarrow> placement_row" where
  "placement_row servers w p =
     (let server = find (\<lambda>x. srv_server_id x = plc_server_id p) servers
      in \<lparr>row_server = (case server of Some x \<Rightarrow> srv_display_name x | None \<Rightarrow> plc_server_id p),
          row_unknown = (server = None),
          row_path = plc_remote_path p,
          row_inspection = wk_inspections w (plc_placement_id p),
          row_busy = flag_at (wk_inspecting w) (plc_placement_id p),
          row_failure = message_at (wk_inspectErrors w) (plc_placement_id p)\<rparr>)"

lemma by_artifact_eq:
  "by_artifact placements i =
     (let l = filter (\<lambda>p. plc_artifact_id p = i) placements in if l = [] then None else Some l)"
  by (induction placements rule: rev_induct) (auto simp: by_artifact_def Let_def)

text \<open>Every placement of a listed artifact has one row, under its artifact, in the order it came.\<close>

lemma placement_rows:
  assumes "(kind, members) \<in> set (placement_groups artifacts placements)" "(a, rows) \<in> set members"
  shows "rows = filter (\<lambda>p. plc_artifact_id p = art_artifact_id a) placements"
  using assms by (auto simp: placement_groups_def by_artifact_eq Let_def)

text \<open>The confirmation of a removal, which keeps the message of the last refusal.\<close>

definition PlacementRemoveDialog :: "placement_record rm_event \<Rightarrow> placement_record remove_dialog \<Rightarrow> placement_record remove_dialog" where
  "PlacementRemoveDialog e s = rm_apply False e s"

definition placement_removal_names ::
  "server_record list \<Rightarrow> artifact_record list \<Rightarrow> placement_record \<Rightarrow> string \<times> string" where
  "placement_removal_names servers artifacts p =
     ((case find (\<lambda>x. srv_server_id x = plc_server_id p) servers of
         Some x \<Rightarrow> srv_display_name x | None \<Rightarrow> plc_server_id p),
      (case map artifactLabel (filter (\<lambda>a. art_artifact_id a = plc_artifact_id p) artifacts) of
         x # _ \<Rightarrow> x | [] \<Rightarrow> plc_artifact_id p))"

lemma refusal_greets_next_placement:
  "rm_error (PlacementRemoveDialog (Rm_Ask q)
     (PlacementRemoveDialog Rm_Cancel (PlacementRemoveDialog (Rm_Answer k (Inl cause)) s))) =
   Some (ae_detail cause)"
  by (simp add: PlacementRemoveDialog_def rm_ops)

subsection \<open>The tabs as a whole\<close>

text \<open>
  The dialogs of a tab run as they do on their own, so what holds of each holds in the tab; and
  one of them is open at a time.
\<close>

inductive launches_reach :: "launches_tab \<Rightarrow> bool" where
  launches_reach_init: "launches_reach (LaunchConfigsTab projects)"
| launches_reach_step:
    "launches_reach s \<Longrightarrow> launches_enabled e s \<Longrightarrow> launches_reach (launches_apply e s)"

definition launches_inv :: "launches_tab \<Rightarrow> bool" where
  "launches_inv s \<longleftrightarrow>
     sv_reach LaunchConfigDialog launch_props_ok (lt_dialog s) \<and> rm_reach True (lt_remove s) \<and>
     \<not> (sv_open (lt_dialog s) \<and> rm_target (lt_remove s) \<noteq> None)"

lemma launch_tab_props_ok [simp]: "launch_props_ok (launch_tab_props target projects)"
  by (simp add: launch_props_ok_def launch_tab_props_def)

lemma sv_reach_apply:
  "sv_reach C ok s \<Longrightarrow> sv_enabled C e s \<Longrightarrow> sv_props_ok ok e \<Longrightarrow> sv_reach C ok (sv_apply C e s)"
  by (auto intro: sv_reach_step sv_stepI)

lemma rm_reach_apply: "rm_reach clears s \<Longrightarrow> rm_enabled e s \<Longrightarrow> rm_reach clears (rm_apply clears e s)"
  by (auto intro: rm_reach_step rm_stepI)

lemma user_event_open: "user_dialog_event e \<Longrightarrow> sv_open (sv_apply C e s) \<Longrightarrow> sv_open s"
  by (cases e) (auto simp: user_dialog_event_def sv_ops split: if_splits option.splits sum.splits)

lemma user_event_props: "user_dialog_event e \<Longrightarrow> sv_props_ok ok e"
  by (cases e) (auto simp: user_dialog_event_def)

lemma sv_init_closed [simp]: "\<not> sv_open (sv_init p f)"
  by (simp add: sv_init_def)

lemma rm_init_closed [simp]: "rm_target rm_init = None"
  by (simp add: rm_init_def)

lemma rm_target_kept:
  "\<not> (\<exists>x. e = Rm_Ask x) \<Longrightarrow> rm_target (rm_apply clears e s) \<noteq> None \<Longrightarrow> rm_target s \<noteq> None"
  by (cases e) (auto simp: rm_ops split: option.splits sum.splits)

lemma launches_inv_open:
  assumes "launches_inv s" "launches_free s"
  shows "launches_inv (open_launch target s)"
  using assms sv_reach_apply [of LaunchConfigDialog launch_props_ok "lt_dialog s" "Sv_Open (launch_tab_props target (lt_projects s))"]
  by (simp add: launches_inv_def launches_free_def open_launch_def)

lemma launches_inv_apply:
  assumes s: "launches_inv s" and e: "launches_enabled e s"
  shows "launches_inv (launches_apply e s)"
proof (cases e)
  case (Lt_Dialog x)
  then have "sv_reach LaunchConfigDialog launch_props_ok (sv_apply LaunchConfigDialog x (lt_dialog s))"
    using s e by (intro sv_reach_apply user_event_props) (simp_all add: launches_inv_def)
  then show ?thesis using Lt_Dialog s e user_event_open [of x LaunchConfigDialog "lt_dialog s"]
    by (auto simp: launches_inv_def)
next
  case (Lt_Remove x)
  then have "rm_reach True (rm_apply True x (lt_remove s))" using s e by (simp add: launches_inv_def rm_reach_apply)
  moreover have "rm_target (rm_apply True x (lt_remove s)) = None \<or> \<not> sv_open (lt_dialog s)"
    using Lt_Remove s e rm_target_kept [of x True "lt_remove s"]
    by (cases x) (auto simp: launches_inv_def launches_free_def)
  ultimately show ?thesis using Lt_Remove s by (auto simp: launches_inv_def)
next
  case (Lt_Projects projects)
  then show ?thesis
    using s sv_reach_apply [of LaunchConfigDialog launch_props_ok "lt_dialog s" "Sv_Render (launch_tab_props (lt_editTarget s) projects)"]
    by (auto simp: launches_inv_def)
qed (use s e in \<open>auto intro!: launches_inv_open\<close>)

lemma launches_inv_reach: "launches_reach s \<Longrightarrow> launches_inv s"
proof (induction rule: launches_reach.induct)
  case (launches_reach_init projects)
  show ?case
    by (simp add: launches_inv_def LaunchConfigsTab_def sv_reach_init rm_reach_init)
next
  case (launches_reach_step s e)
  then show ?case by (intro launches_inv_apply)
qed

end
