(* ===== verification/Transfers.thy ===== *)
theory Transfers
  imports WorkspaceTabs
begin

text \<open>
  \<open>features/transfers/TransfersPage.tsx\<close> and \<open>TransferJobRow.tsx\<close>: the counts and groups the page
  derives from the jobs and batches, what a row shows and offers, and the confirmation that
  clears the history.
\<close>

subsection \<open>A row\<close>

fun stateWord :: "dict \<Rightarrow> transfer_state \<Rightarrow> string" where
  "stateWord t J_Queued = t ''transfers.stateQueued''"
| "stateWord t J_Planning = t ''transfers.statePlanning''"
| "stateWord t J_Running = t ''transfers.stateRunning''"
| "stateWord t J_Verifying = t ''transfers.stateVerifying''"
| "stateWord t J_Completed = t ''transfers.stateCompleted''"
| "stateWord t J_Failed = t ''transfers.stateFailed''"
| "stateWord t J_Cancelled = t ''transfers.stateCancelled''"

fun job_tone :: "transfer_state \<Rightarrow> chip_tone" where
  "job_tone J_Completed = Tone_Ok"
| "job_tone J_Failed = Tone_Crit"
| "job_tone J_Cancelled = Tone_Warn"
| "job_tone J_Running = Tone_Accent"
| "job_tone J_Verifying = Tone_Cold"
| "job_tone J_Planning = Tone_Cold"
| "job_tone J_Queued = Tone_Neutral"

definition strategyWord :: "dict \<Rightarrow> transfer_strategy \<Rightarrow> string" where
  "strategyWord t strategy =
     (if strategy = TS_Direct_rsync then t ''transfers.strategyDirect''
      else if strategy = TS_Local_relay then t ''transfers.strategyRelay''
      else t ''transfers.strategyAuto'')"

definition isRetryableState :: "transfer_state \<Rightarrow> bool" where
  "isRetryableState state \<longleftrightarrow> state = J_Failed \<or> state = J_Cancelled \<or> state = J_Completed"

definition named_server :: "server_record list \<Rightarrow> string \<Rightarrow> string" where
  "named_server servers i =
     (case find (\<lambda>server. srv_server_id server = i) servers of
        Some server \<Rightarrow> srv_display_name server | None \<Rightarrow> i)"

definition used_strategy :: "transfer_job \<Rightarrow> transfer_strategy" where
  "used_strategy job =
     (case job_strategy_used job of Some s \<Rightarrow> s | None \<Rightarrow> job_strategy_requested job)"

text \<open>Bytes where the total is known, else files, else a meter without a value.\<close>

record job_meter =
  jm_value :: "js_number option"
  jm_max :: js_number
  jm_text :: string

definition files_meter :: "js_runtime \<Rightarrow> dict \<Rightarrow> transfer_job \<Rightarrow> job_meter" where
  "files_meter rt t job =
     (case job_files_total job of
        Some whole \<Rightarrow>
          if num_pos whole
          then \<lparr>jm_value = Some (job_files_done job), jm_max = whole,
                jm_text = tf (t ''transfers.filesProgress'')
                  [(''done'', number_string (job_files_done job)), (''total'', number_string whole)]\<rparr>
          else \<lparr>jm_value = None, jm_max = Fin 100,
                jm_text = formatBytesPair rt (Some (job_bytes_done job)) None\<rparr>
      | None \<Rightarrow> \<lparr>jm_value = None, jm_max = Fin 100,
                jm_text = formatBytesPair rt (Some (job_bytes_done job)) None\<rparr>)"

definition job_meter :: "js_runtime \<Rightarrow> dict \<Rightarrow> transfer_job \<Rightarrow> job_meter" where
  "job_meter rt t job =
     (case job_bytes_total job of
        Some total_b \<Rightarrow>
          if num_pos total_b
          then \<lparr>jm_value = Some (job_bytes_done job), jm_max = total_b,
                jm_text = formatBytesPair rt (Some (job_bytes_done job)) (Some total_b)\<rparr>
          else files_meter rt t job
      | None \<Rightarrow> files_meter rt t job)"

text \<open>\<open>Math.max(1, Math.ceil(eta_s / 60))\<close> of a finite estimate.\<close>

definition etaMinutes :: "js_number option \<Rightarrow> int option" where
  "etaMinutes eta =
     (case eta of Some (Fin q) \<Rightarrow> Some (max 1 \<lceil>q / 60\<rceil>) | _ \<Rightarrow> None)"

datatype job_button = Job_Cancel | Job_Retry

definition job_buttons :: "transfer_job \<Rightarrow> job_button list" where
  "job_buttons job =
     (if isActiveTransferState (job_state job) then [Job_Cancel] else [])
     @ (if isRetryableState (job_state job) then [Job_Retry] else [])"

definition kind_chip :: "dict \<Rightarrow> transfer_job \<Rightarrow> (string \<times> chip_tone) list" where
  "kind_chip t job =
     (case transferKind job of
        K_Incremental \<Rightarrow> [(t ''transfers.kindIncremental'', Tone_Warn)]
      | K_Resumed \<Rightarrow> [(t ''transfers.kindResumed'', Tone_Cold)]
      | K_Fresh \<Rightarrow> [])"

text \<open>The line of facts, in its order; the first two belong to a run in progress.\<close>

definition job_facts :: "js_runtime \<Rightarrow> dict \<Rightarrow> transfer_job \<Rightarrow> string list" where
  "job_facts rt t job =
     (case job_rate_bps job of
        Some rate \<Rightarrow> if isActiveTransferState (job_state job) then [formatBps rt (Some rate)] else []
      | None \<Rightarrow> [])
     @ (case etaMinutes (job_eta_s job) of
          Some n \<Rightarrow>
            if isActiveTransferState (job_state job)
            then [tf (t ''transfers.etaMinutes'') [(''n'', show_int n)]] else []
        | None \<Rightarrow> [])
     @ (if num_pos (job_resumed_bytes job)
        then [tf (t ''transfers.resumedBytes'') [(''size'', formatBytes rt (Some (job_resumed_bytes job)))]] else [])
     @ (if num_pos (job_files_skipped job)
        then [tf (t ''transfers.filesSkipped'')
                [(''n'', number_string (job_files_skipped job)),
                 (''s'', if job_files_skipped job = Fin 1 then '''' else ''s'')]] else [])"

text \<open>The chip that counts the warnings, with the first three as its title.\<close>

definition warnings_chip :: "dict \<Rightarrow> transfer_job \<Rightarrow> (string \<times> string) option" where
  "warnings_chip t job =
     (if job_warnings job \<noteq> []
      then Some (tf (t ''transfers.warningsCount'') [(''n'', show_nat (length (job_warnings job)))],
                 join [CHR 0x0A] (take 3 (job_warnings job)))
      else None)"

definition job_error :: "transfer_job \<Rightarrow> string option" where
  "job_error job =
     (if job_state job = J_Failed \<and> job_error_message job \<noteq> '''' then Some (job_error_message job) else None)"

record job_row =
  jr_name :: string
  jr_chips :: "(string \<times> chip_tone) list"
  jr_flow :: "string list"
  jr_meter :: job_meter
  jr_facts :: "string list"
  jr_path :: "string option"
  jr_error :: "string option"
  jr_buttons :: "job_button list"

definition TransferJobRow :: "js_runtime \<Rightarrow> dict \<Rightarrow> server_record list \<Rightarrow> transfer_job \<Rightarrow> job_row" where
  "TransferJobRow rt t servers job =
     (let strategy = strategyWord t (used_strategy job)
      in \<lparr>jr_name = job_artifact_label job,
          jr_chips = (stateWord t (job_state job), job_tone (job_state job)) # (strategy, Tone_Neutral) # kind_chip t job,
          jr_flow = [named_server servers (job_source_server_id job), strategy,
                     named_server servers (job_target_server_id job)],
          jr_meter = job_meter rt t job,
          jr_facts = job_facts rt t job,
          jr_path = Option.bind (job_current_path job) shown_unless_empty,
          jr_error = job_error job,
          jr_buttons = job_buttons job\<rparr>)"

subsection \<open>The page\<close>

record transfer_counts =
  tc_active :: nat
  tc_queued :: nat
  tc_completed :: nat

definition transfer_counts :: "transfer_job list \<Rightarrow> transfer_counts" where
  "transfer_counts jobs =
     \<lparr>tc_active = length (filter (\<lambda>job. job_state job \<in> {J_Planning, J_Running, J_Verifying}) jobs),
      tc_queued = length (filter (\<lambda>job. job_state job = J_Queued) jobs),
      tc_completed = length (filter (\<lambda>job. job_state job = J_Completed) jobs)\<rparr>"

definition terminalCount :: "transfer_job list \<Rightarrow> nat" where
  "terminalCount jobs = length (filter (\<lambda>job. job_state job \<in> {J_Completed, J_Failed, J_Cancelled}) jobs)"

text \<open>A map built from entries keeps the last of two with one key.\<close>

definition jobsById :: "transfer_job list \<Rightarrow> string \<rightharpoonup> transfer_job" where
  "jobsById jobs = map_of (rev (map (\<lambda>job. (job_job_id job, job)) jobs))"

definition batchGroups :: "transfer_job list \<Rightarrow> transfer_batch list \<Rightarrow> (transfer_batch \<times> transfer_job list) list" where
  "batchGroups jobs batches =
     filter (\<lambda>(batch, found). found \<noteq> [])
       (map (\<lambda>batch. (batch, map_non_null (jobsById jobs) (bat_job_ids batch))) batches)"

definition groupedJobIds :: "transfer_job list \<Rightarrow> transfer_batch list \<Rightarrow> string list" where
  "groupedJobIds jobs batches = concat (map (\<lambda>(batch, found). bat_job_ids batch) (batchGroups jobs batches))"

definition flatJobs :: "transfer_job list \<Rightarrow> transfer_batch list \<Rightarrow> transfer_job list" where
  "flatJobs jobs batches = filter (\<lambda>job. job_job_id job \<notin> set (groupedJobIds jobs batches)) jobs"

definition shown_jobs :: "transfer_job list \<Rightarrow> transfer_batch list \<Rightarrow> transfer_job list" where
  "shown_jobs jobs batches = concat (map snd (batchGroups jobs batches)) @ flatJobs jobs batches"

datatype transfers_body =
    Transfers_Error string
  | Transfers_Skeleton
  | Transfers_Empty
  | Transfers_List "(transfer_batch \<times> transfer_job list) list" "transfer_job list"

definition transfers_body :: "transfer_store \<Rightarrow> transfers_body" where
  "transfers_body s =
     (case tf_error s of
        Some e \<Rightarrow> Transfers_Error e
      | None \<Rightarrow>
          if tf_loading s \<and> tf_jobs s = [] then Transfers_Skeleton
          else if tf_jobs s = [] then Transfers_Empty
          else Transfers_List (batchGroups (tf_jobs s) (tf_batches s)) (flatJobs (tf_jobs s) (tf_batches s)))"

text \<open>The header of a group; whether it starts expanded is fixed when it mounts.\<close>

definition batch_counts :: "dict \<Rightarrow> transfer_batch \<Rightarrow> string" where
  "batch_counts t batch =
     join MIDDOT
       ([tf (t ''transfers.batchDone'')
           [(''done'', number_string (bat_completed_jobs batch)), (''total'', number_string (bat_total_jobs batch))],
         tf (t ''transfers.batchRunningCount'') [(''n'', number_string (bat_running_jobs batch))]]
        @ (if num_pos (bat_failed_jobs batch)
           then [tf (t ''transfers.batchFailedCount'') [(''n'', number_string (bat_failed_jobs batch))]] else []))"

definition batch_expanded_at_mount :: "transfer_batch \<Rightarrow> bool" where
  "batch_expanded_at_mount batch = isActiveBatchState (bat_state batch)"

definition batch_title :: "project_record list \<Rightarrow> server_record list \<Rightarrow> transfer_batch \<Rightarrow> string \<times> string" where
  "batch_title projects servers batch =
     ((case find (\<lambda>p. prj_project_id p = bat_project_id batch) projects of
         Some p \<Rightarrow> prj_name p | None \<Rightarrow> bat_project_id batch),
      named_server servers (bat_target_server_id batch))"

subsection \<open>What the page is worth\<close>

text \<open>Every row offers exactly one of cancel and retry.\<close>

lemma job_one_button: "length (job_buttons job) = 1"
  by (cases "job_state job")
    (simp_all add: job_buttons_def isActiveTransferState_iff isRetryableState_def)

lemma eta_positive: "etaMinutes eta = Some n \<Longrightarrow> 1 \<le> n"
  by (auto simp: etaMinutes_def split: option.splits js_number.splits)

text \<open>The estimate covers the time the backend reports and exceeds it by less than a minute.\<close>

lemma eta_rounds_up:
  assumes "etaMinutes (Some (Fin q)) = Some n" "0 < q"
  shows "q \<le> of_int n * 60 \<and> of_int n * 60 < q + 60"
proof -
  have "1 \<le> \<lceil>q / 60\<rceil>" using assms(2) by simp
  then have "n = \<lceil>q / 60\<rceil>" using assms(1) by (simp add: etaMinutes_def)
  moreover have "q / 60 \<le> of_int \<lceil>q / 60\<rceil>" "of_int \<lceil>q / 60\<rceil> < q / 60 + 1"
    using le_of_int_ceiling [of "q / 60"] ceiling_correct [of "q / 60"] by linarith+
  ultimately have "q / 60 \<le> of_int n" "of_int n < q / 60 + 1" by (simp_all only:)
  then show ?thesis by linarith
qed

lemma counts_account:
  "tc_active (transfer_counts jobs) + tc_queued (transfer_counts jobs) + terminalCount jobs = length jobs"
proof (induction jobs)
  case (Cons job jobs)
  then show ?case by (cases "job_state job") (simp_all add: transfer_counts_def terminalCount_def)
qed (simp add: transfer_counts_def terminalCount_def)

lemma jobsById_iff:
  assumes "distinct (map job_job_id jobs)"
  shows "jobsById jobs i = Some job \<longleftrightarrow> job \<in> set jobs \<and> job_job_id job = i"
proof -
  let ?kv = "rev (map (\<lambda>job. (job_job_id job, job)) jobs)"
  have "map fst ?kv = rev (map job_job_id jobs)" by (simp add: rev_map comp_def)
  then have "distinct (map fst ?kv)" using assms by (simp only: distinct_rev)
  then have "jobsById jobs i = Some job \<longleftrightarrow> (i, job) \<in> set ?kv"
    unfolding jobsById_def by (rule map_of_eq_Some_iff)
  then show ?thesis by auto
qed

lemma grouped_iff:
  assumes "distinct (map job_job_id jobs)" "job \<in> set jobs"
  shows "job_job_id job \<in> set (groupedJobIds jobs batches) \<longleftrightarrow>
    (\<exists>batch \<in> set batches. job_job_id job \<in> set (bat_job_ids batch))"
proof -
  have "map_non_null (jobsById jobs) (bat_job_ids batch) \<noteq> []"
    if "job_job_id job \<in> set (bat_job_ids batch)" for batch
  proof -
    have "job \<in> set (map_non_null (jobsById jobs) (bat_job_ids batch))"
      unfolding set_map_non_null using that jobsById_iff [OF assms(1)] assms(2) by blast
    then show ?thesis by auto
  qed
  then show ?thesis by (auto simp: groupedJobIds_def batchGroups_def)
qed

lemma jobs_of_batch:
  assumes "distinct (map job_job_id jobs)" "distinct ids"
  shows "mset (map_non_null (jobsById jobs) ids) = filter_mset (\<lambda>job. job_job_id job \<in> set ids) (mset jobs)"
proof -
  have d: "distinct jobs" using assms(1) by (auto simp: distinct_map)
  have "distinct (map_non_null (jobsById jobs) ids)" using assms(2)
    by (induction ids) (auto simp: jobsById_iff [OF assms(1)] set_map_non_null split: option.splits)
  moreover have "set (map_non_null (jobsById jobs) ids) = {job \<in> set jobs. job_job_id job \<in> set ids}"
    using jobsById_iff [OF assms(1)] by (auto simp: set_map_non_null)
  ultimately show ?thesis using d by (simp add: mset_set_set [symmetric] filter_mset_mset_set)
qed

lemma concat_groups:
  "concat (map snd (batchGroups jobs batches)) =
     concat (map (\<lambda>batch. map_non_null (jobsById jobs) (bat_job_ids batch)) batches)"
  by (induction batches) (simp_all add: batchGroups_def)

lemma grouped_mset:
  assumes "distinct (map job_job_id jobs)" "distinct (concat (map bat_job_ids batches))"
  shows "mset (concat (map (\<lambda>batch. map_non_null (jobsById jobs) (bat_job_ids batch)) batches)) =
    filter_mset (\<lambda>job. job_job_id job \<in> set (concat (map bat_job_ids batches))) (mset jobs)"
  using assms(2)
proof (induction batches)
  case (Cons batch batches)
  let ?here = "\<lambda>job. job_job_id job \<in> set (bat_job_ids batch)"
  let ?there = "\<lambda>job. job_job_id job \<in> set (concat (map bat_job_ids batches))"
  have "filter_mset (\<lambda>job. ?here job \<or> ?there job) (mset jobs) =
      filter_mset ?here (mset jobs) + filter_mset ?there (mset jobs)"
    using Cons.prems by (intro multiset_eqI) auto
  moreover have "mset (map_non_null (jobsById jobs) (bat_job_ids batch)) = filter_mset ?here (mset jobs)"
    using Cons.prems by (intro jobs_of_batch assms(1)) simp
  ultimately show ?case using Cons by simp
qed simp

text \<open>
  Where no job belongs to two batches the page shows every job once: under its batch, or in the
  flat list.
\<close>

lemma jobs_shown_once:
  assumes "distinct (map job_job_id jobs)" "distinct (concat (map bat_job_ids batches))"
  shows "mset (shown_jobs jobs batches) = mset jobs"
proof -
  let ?in = "\<lambda>job. job_job_id job \<in> set (concat (map bat_job_ids batches))"
  have "flatJobs jobs batches = filter (\<lambda>job. \<not> ?in job) jobs"
    unfolding flatJobs_def by (rule filter_cong) (simp_all add: grouped_iff [OF assms(1)])
  then have "mset (shown_jobs jobs batches) = filter_mset ?in (mset jobs) + filter_mset (\<lambda>job. \<not> ?in job) (mset jobs)"
    by (simp add: shown_jobs_def concat_groups grouped_mset [OF assms] flip: mset_filter)
  then show ?thesis using multiset_partition [of "mset jobs" ?in] by simp
qed

subsection \<open>Clearing the history\<close>

text \<open>
  The page keeps the confirmation; the request and the reload it causes are the store's. Opening
  the confirmation does not forget the last refusal.
\<close>

record transfers_page =
  tp_store :: transfer_store
  tp_workspace :: workspace_store
  tp_confirmOpen :: bool
  tp_clearing :: bool
  tp_clearError :: "string option"

text \<open>The effect of a mount.\<close>

definition TransfersPage :: "transfer_store \<Rightarrow> workspace_store \<Rightarrow> transfers_page" where
  "TransfersPage tr w =
     \<lparr>tp_store = fetchBatches (loadJobs tr),
      tp_workspace = loadProjects (loadPlacements (loadArtifacts w)),
      tp_confirmOpen = False, tp_clearing = False, tp_clearError = None\<rparr>"

definition unmount_transfers :: "transfers_page \<Rightarrow> transfer_store" where
  "unmount_transfers s = stopPolling (tp_store s)"

definition clear_enabled :: "transfers_page \<Rightarrow> bool" where
  "clear_enabled s \<longleftrightarrow> terminalCount (tf_jobs (tp_store s)) \<noteq> 0"

definition clear_history :: "transfers_page \<Rightarrow> transfers_page" where
  "clear_history s = s\<lparr>tp_clearing := True, tp_clearError := None, tp_store := clearHistory (tp_store s)\<rparr>"

definition clear_done :: "unit result \<Rightarrow> transfers_page \<Rightarrow> transfers_page" where
  "clear_done response s =
     (case response of
        Inr _ \<Rightarrow> s\<lparr>tp_confirmOpen := False, tp_clearing := False\<rparr>
      | Inl cause \<Rightarrow> s\<lparr>tp_clearError := Some (ae_detail cause), tp_clearing := False\<rparr>)"

datatype page_event =
    Tp_Ask
  | Tp_Cancel
  | Tp_Confirm
  | Tp_CancelJob string
  | Tp_RetryJob string
  | Tp_New
  | Tp_Retry
  | Tp_Tick nat
  | Tp_Answer nat network

fun page_enabled :: "page_event \<Rightarrow> transfers_page \<Rightarrow> bool" where
  "page_enabled Tp_Ask s = (clear_enabled s \<and> \<not> tp_confirmOpen s)"
| "page_enabled Tp_Cancel s = tp_confirmOpen s"
| "page_enabled Tp_Confirm s = (tp_confirmOpen s \<and> \<not> tp_clearing s)"
| "page_enabled (Tp_CancelJob i) s =
     (\<not> tp_confirmOpen s \<and>
      list_ex (\<lambda>job. job_job_id job = i \<and> Job_Cancel \<in> set (job_buttons job)) (tf_jobs (tp_store s)))"
| "page_enabled (Tp_RetryJob i) s =
     (\<not> tp_confirmOpen s \<and>
      list_ex (\<lambda>job. job_job_id job = i \<and> Job_Retry \<in> set (job_buttons job)) (tf_jobs (tp_store s)))"
| "page_enabled Tp_New s = (\<not> tp_confirmOpen s)"
| "page_enabled Tp_Retry s = (tf_error (tp_store s) \<noteq> None \<and> \<not> tp_confirmOpen s)"
| "page_enabled (Tp_Tick t) s = transfer_enabled (TvTick t) (tp_store s)"
| "page_enabled (Tp_Answer k net) s = (k < length (tf_pending (tp_store s)))"

definition page_answer :: "js_runtime \<Rightarrow> nat \<Rightarrow> network \<Rightarrow> transfers_page \<Rightarrow> transfers_page" where
  "page_answer rt k net s =
     (let c = tf_pending (tp_store s) ! k;
          s = s\<lparr>tp_store := answer rt k net (tp_store s)\<rparr>
      in if c = CallClearHistory then clear_done (settled_result (clearTransferHistory rt net)) s else s)"

fun page_apply :: "js_runtime \<Rightarrow> page_event \<Rightarrow> transfers_page \<Rightarrow> transfers_page" where
  "page_apply rt Tp_Ask s = s\<lparr>tp_confirmOpen := True\<rparr>"
| "page_apply rt Tp_Cancel s = s\<lparr>tp_confirmOpen := False\<rparr>"
| "page_apply rt Tp_Confirm s = clear_history s"
| "page_apply rt (Tp_CancelJob i) s = s\<lparr>tp_store := cancelJob i (tp_store s)\<rparr>"
| "page_apply rt (Tp_RetryJob i) s = s\<lparr>tp_store := retryJob i (tp_store s)\<rparr>"
| "page_apply rt Tp_New s = s\<lparr>tp_store := openNewTransfer no_prefill (tp_store s)\<rparr>"
| "page_apply rt Tp_Retry s = s\<lparr>tp_store := loadJobs (tp_store s)\<rparr>"
| "page_apply rt (Tp_Tick t) s = s\<lparr>tp_store := transfer_apply rt (TvTick t) (tp_store s)\<rparr>"
| "page_apply rt (Tp_Answer k net) s = page_answer rt k net s"

text \<open>A clear that succeeds reloads the jobs and closes the confirmation.\<close>

lemma clear_reloads:
  assumes "tf_pending (tp_store s) ! k = CallClearHistory" "clearTransferHistory rt net = Inr r"
  defines "s' \<equiv> page_apply rt (Tp_Answer k net) s"
  shows "\<not> tp_confirmOpen s' \<and> \<not> tp_clearing s' \<and> last (tf_pending (tp_store s')) = CallListJobs"
  using assms by (simp add: page_answer_def clear_done_def settled_result_def answer_def transfer_reply_def
      mutation_done_def loadJobs_def call_def)

lemma refusal_greets_next_clear:
  "tp_clearError (page_apply rt Tp_Ask (page_apply rt Tp_Cancel s)) = tp_clearError s"
  by simp

text \<open>
  A cancel or retry the backend refuses leaves no trace: the row drops the promise, and the store
  records nothing.
\<close>

lemma refused_cancel_silent:
  assumes "tf_pending (tp_store s) ! k = CallCancel i \<and> cancelTransfer rt net i = Inl e \<or>
    tf_pending (tp_store s) ! k = CallRetry i \<and> retryTransfer rt net i = Inl e"
  shows "page_apply rt (Tp_Answer k net) s =
    s\<lparr>tp_store := (tp_store s)\<lparr>tf_pending :=
        take k (tf_pending (tp_store s)) @ drop (Suc k) (tf_pending (tp_store s))\<rparr>\<rparr>"
  using assms by (auto simp: page_answer_def answer_def transfer_reply_def mutation_done_def)

end
