(* ===== verification/RootsEditor.thy ===== *)
theory RootsEditor
  imports WorkspaceForms Routes
begin

text \<open>
  \<open>features/workspace/WorkspacePage.tsx\<close>: which tab a route shows, and the editor of a server's
  roots. An editor shares the workspace store with the rest of the page: its requests are in the
  store's queue, and the store's copy of the roots seeds its draft while nothing has been typed.
\<close>

subsection \<open>The page\<close>

datatype workspace_content = Ws_Projects | Ws_Project string | Ws_Artifacts artifact_kind | Ws_Launches

definition WorkspacePage :: "route \<Rightarrow> workspace_content" where
  "WorkspacePage route =
     (let (section, projectId) = (case route of RWorkspace s p _ \<Rightarrow> (s, p) | _ \<Rightarrow> (Sec_Projects, None))
      in case section of
           Sec_Projects \<Rightarrow> (case projectId of None \<Rightarrow> Ws_Projects | Some i \<Rightarrow> Ws_Project i)
         | Sec_Datasets \<Rightarrow> Ws_Artifacts Kind_Dataset
         | Sec_Models \<Rightarrow> Ws_Artifacts Kind_Model
         | Sec_Launches \<Rightarrow> Ws_Launches)"

definition SECTION_LABELS :: "workspace_section \<Rightarrow> string" where
  "SECTION_LABELS section =
     (case section of Sec_Projects \<Rightarrow> ''tabProjects'' | Sec_Datasets \<Rightarrow> ''tabDatasets''
      | Sec_Models \<Rightarrow> ''tabModels'' | Sec_Launches \<Rightarrow> ''tabLaunches'')"

definition section_tab_hash :: "workspace_section \<Rightarrow> string" where
  "section_tab_hash section = routeToHash (RWorkspace section None None)"

subsection \<open>The draft\<close>

record roots_draft =
  dr_project :: string
  dr_dataset :: string
  dr_model :: string
  dr_output :: string

datatype root_field = Root_Project | Root_Dataset | Root_Model | Root_Output

definition ROOT_FIELDS :: "root_field list" where
  "ROOT_FIELDS = [Root_Project, Root_Dataset, Root_Model, Root_Output]"

fun draft_field :: "root_field \<Rightarrow> roots_draft \<Rightarrow> string" where
  "draft_field Root_Project d = dr_project d"
| "draft_field Root_Dataset d = dr_dataset d"
| "draft_field Root_Model d = dr_model d"
| "draft_field Root_Output d = dr_output d"

fun set_draft_field :: "root_field \<Rightarrow> string \<Rightarrow> roots_draft \<Rightarrow> roots_draft" where
  "set_draft_field Root_Project v d = d\<lparr>dr_project := v\<rparr>"
| "set_draft_field Root_Dataset v d = d\<lparr>dr_dataset := v\<rparr>"
| "set_draft_field Root_Model v d = d\<lparr>dr_model := v\<rparr>"
| "set_draft_field Root_Output v d = d\<lparr>dr_output := v\<rparr>"

definition EMPTY_DRAFT :: roots_draft where
  "EMPTY_DRAFT = \<lparr>dr_project = '''', dr_dataset = '''', dr_model = '''', dr_output = ''''\<rparr>"

definition draft_of_roots :: "server_roots \<Rightarrow> roots_draft" where
  "draft_of_roots r =
     \<lparr>dr_project = or_empty (rts_project_root r), dr_dataset = or_empty (rts_dataset_root r),
      dr_model = or_empty (rts_model_root r), dr_output = or_empty (rts_output_root r)\<rparr>"

definition root_valid :: "string \<Rightarrow> bool" where
  "root_valid v \<longleftrightarrow> v = '''' \<or> rootPathValid v"

definition roots_valid :: "roots_draft \<Rightarrow> bool" where
  "roots_valid d \<longleftrightarrow> list_all (\<lambda>field. root_valid (draft_field field d)) ROOT_FIELDS"

definition roots_update :: "roots_draft \<Rightarrow> server_roots_update" where
  "roots_update d =
     \<lparr>sru_project_root = Some (null_if_blank (dr_project d)),
      sru_dataset_root = Some (null_if_blank (dr_dataset d)),
      sru_model_root = Some (null_if_blank (dr_model d)),
      sru_output_root = Some (null_if_blank (dr_output d))\<rparr>"

subsection \<open>The editor\<close>

text \<open>
  \<open>re_own\<close>: the positions in the store's queue of the saves this editor awaits. A save of a former
  mount may be in flight beside them; its continuation runs in a component that is gone.
\<close>

record roots_editor =
  re_serverId :: string
  re_draft :: roots_draft
  re_dirty :: bool
  re_saving :: bool
  re_saveError :: "string option"
  re_saved :: bool
  re_own :: "nat list"
  re_store :: workspace_store

text \<open>The effect over \<open>dirty\<close> and the store's roots.\<close>

definition seed_draft :: "roots_editor \<Rightarrow> roots_editor" where
  "seed_draft s =
     (if re_dirty s then s
      else case wk_serverRoots (re_store s) (re_serverId s) of
             None \<Rightarrow> s
           | Some roots \<Rightarrow> s\<lparr>re_draft := draft_of_roots roots\<rparr>)"

text \<open>Mounting reads the roots and seeds the draft from a copy the store may already have.\<close>

definition ServerRootsEditor :: "string \<Rightarrow> workspace_store \<Rightarrow> roots_editor" where
  "ServerRootsEditor serverId store =
     seed_draft
       \<lparr>re_serverId = serverId, re_draft = EMPTY_DRAFT, re_dirty = False, re_saving = False,
        re_saveError = None, re_saved = False, re_own = [], re_store = loadServerRoots serverId store\<rparr>"

datatype roots_view = Roots_Error string | Roots_Skeleton | Roots_Fields "(root_field \<times> string \<times> bool) list"

definition roots_body :: "roots_editor \<Rightarrow> roots_view" where
  "roots_body s =
     (let i = re_serverId s; w = re_store s
      in if message_at (wk_rootsErrors w) i \<noteq> '''' then Roots_Error (message_at (wk_rootsErrors w) i)
         else if flag_at (wk_rootsLoading w) i \<or> wk_serverRoots w i = None then Roots_Skeleton
         else Roots_Fields
                (map (\<lambda>field. (field, draft_field field (re_draft s), root_valid (draft_field field (re_draft s))))
                   ROOT_FIELDS))"

definition roots_saved_shown :: "roots_editor \<Rightarrow> bool" where
  "roots_saved_shown s \<longleftrightarrow> re_saved s \<and> \<not> re_dirty s \<and> re_saveError s = None"

definition save_enabled :: "roots_editor \<Rightarrow> bool" where
  "save_enabled s \<longleftrightarrow> roots_valid (re_draft s) \<and> \<not> re_saving s \<and> re_dirty s"

definition edit_root :: "root_field \<Rightarrow> string \<Rightarrow> roots_editor \<Rightarrow> roots_editor" where
  "edit_root field v s =
     s\<lparr>re_dirty := True, re_saved := False, re_draft := set_draft_field field v (re_draft s)\<rparr>"

definition save_roots :: "roots_editor \<Rightarrow> roots_editor" where
  "save_roots s =
     s\<lparr>re_saving := True, re_saveError := None, re_own := re_own s @ [length (wk_pending (re_store s))],
       re_store := ws_call (WcSaveRoots (re_serverId s) (roots_update (re_draft s))) (re_store s)\<rparr>"

definition save_roots_done :: "unit result \<Rightarrow> roots_editor \<Rightarrow> roots_editor" where
  "save_roots_done response s =
     (case response of
        Inr _ \<Rightarrow> s\<lparr>re_dirty := False, re_saved := True, re_saving := False\<rparr>
      | Inl cause \<Rightarrow> s\<lparr>re_saveError := Some (ae_detail cause), re_saving := False\<rparr>)"

fun saves_roots_of :: "string \<Rightarrow> workspace_call \<Rightarrow> bool" where
  "saves_roots_of i (WcSaveRoots j _) = (i = j)"
| "saves_roots_of i _ = False"

text \<open>The rest of the program works on the store too.\<close>

datatype roots_event = Re_Edit root_field string | Re_Save | Re_Store workspace_event | Re_Answer nat network

fun roots_enabled :: "roots_event \<Rightarrow> roots_editor \<Rightarrow> bool" where
  "roots_enabled (Re_Edit field v) s = (case roots_body s of Roots_Fields _ \<Rightarrow> True | _ \<Rightarrow> False)"
| "roots_enabled Re_Save s = save_enabled s"
| "roots_enabled (Re_Store e) s =
     (case e of WvReply _ _ \<Rightarrow> False | _ \<Rightarrow> True)"
| "roots_enabled (Re_Answer k net) s = (k < length (wk_pending (re_store s)))"

text \<open>Where a request stands once the one at \<open>k\<close> has been answered.\<close>

definition moved :: "nat \<Rightarrow> nat \<Rightarrow> nat" where
  "moved k j = (if k < j then j - 1 else j)"

definition roots_answer :: "js_runtime \<Rightarrow> nat \<Rightarrow> network \<Rightarrow> roots_editor \<Rightarrow> roots_editor" where
  "roots_answer rt k net s =
     (let c = wk_pending (re_store s) ! k;
          own = k \<in> set (re_own s);
          s = s\<lparr>re_store := ws_answer rt k net (re_store s), re_own := map (moved k) (filter (\<lambda>j. j \<noteq> k) (re_own s))\<rparr>;
          s = (if own then save_roots_done (mutation_result rt net c) s else s)
      in seed_draft s)"

fun roots_apply :: "js_runtime \<Rightarrow> roots_event \<Rightarrow> roots_editor \<Rightarrow> roots_editor" where
  "roots_apply rt (Re_Edit field v) s = edit_root field v s"
| "roots_apply rt Re_Save s = save_roots s"
| "roots_apply rt (Re_Store e) s = seed_draft (s\<lparr>re_store := workspace_apply rt e (re_store s)\<rparr>)"
| "roots_apply rt (Re_Answer k net) s = roots_answer rt k net s"

inductive roots_step :: "js_runtime \<Rightarrow> roots_editor \<Rightarrow> roots_event \<Rightarrow> roots_editor \<Rightarrow> bool" for rt where
  roots_stepI: "roots_enabled e s \<Longrightarrow> roots_step rt s e (roots_apply rt e s)"

inductive_cases roots_stepE: "roots_step rt s e s'"

inductive roots_reach :: "js_runtime \<Rightarrow> roots_editor \<Rightarrow> bool" for rt where
  roots_reach_init: "roots_reach rt (ServerRootsEditor i w)"
| roots_reach_step: "roots_reach rt s \<Longrightarrow> roots_step rt s e s' \<Longrightarrow> roots_reach rt s'"

subsection \<open>The draft and the store\<close>

text \<open>While nothing has been typed the draft is what the store holds.\<close>

definition roots_clean :: "roots_editor \<Rightarrow> bool" where
  "roots_clean s \<longleftrightarrow>
     \<not> re_dirty s \<longrightarrow>
     opt_ok (\<lambda>roots. re_draft s = draft_of_roots roots) (wk_serverRoots (re_store s) (re_serverId s))"

lemma seed_draft_fields [simp]:
  "re_dirty (seed_draft s) = re_dirty s" "re_saving (seed_draft s) = re_saving s"
  "re_store (seed_draft s) = re_store s" "re_serverId (seed_draft s) = re_serverId s"
  "re_saved (seed_draft s) = re_saved s" "re_own (seed_draft s) = re_own s" "re_saveError (seed_draft s) = re_saveError s"
  by (simp_all add: seed_draft_def split: option.splits)

lemma roots_clean_seed [simp]: "roots_clean (seed_draft s)"
  by (auto simp: roots_clean_def seed_draft_def split: option.splits)

lemma seed_draft_dirty [simp]: "re_dirty s \<Longrightarrow> seed_draft s = s"
  by (simp add: seed_draft_def)

lemma roots_clean_dirty: "re_dirty s \<Longrightarrow> roots_clean s"
  by (simp add: roots_clean_def)

lemma roots_clean_apply: "roots_enabled e s \<Longrightarrow> roots_clean (roots_apply rt e s)"
  by (cases e) (simp_all add: roots_answer_def edit_root_def save_roots_def save_enabled_def roots_clean_dirty Let_def)

text \<open>Typing is never overwritten by a load: only the answer to a save touches a dirty draft.\<close>

lemma load_keeps_edits:
  assumes "re_dirty s" "k \<notin> set (re_own s)"
  shows "re_draft (roots_apply rt (Re_Answer k net) s) = re_draft s"
  using assms by (simp add: roots_answer_def)

lemma store_event_keeps_edits: "re_dirty s \<Longrightarrow> re_draft (roots_apply rt (Re_Store e) s) = re_draft s"
  by simp

subsection \<open>One save at a time\<close>

text \<open>The saves this editor waits for.\<close>

definition roots_saves :: "roots_editor \<Rightarrow> workspace_call list" where
  "roots_saves s = map (\<lambda>j. wk_pending (re_store s) ! j) (re_own s)"

definition root_ok :: "string \<Rightarrow> bool" where
  "root_ok v \<longleftrightarrow> named v \<and> rootPathValid v"

fun roots_call_ok :: "string \<Rightarrow> workspace_call \<Rightarrow> bool" where
  "roots_call_ok i (WcSaveRoots j u) =
     (i = j \<and>
      opt_ok (opt_ok root_ok) (sru_project_root u) \<and> opt_ok (opt_ok root_ok) (sru_dataset_root u) \<and>
      opt_ok (opt_ok root_ok) (sru_model_root u) \<and> opt_ok (opt_ok root_ok) (sru_output_root u))"
| "roots_call_ok i _ = False"

definition own_ok :: "roots_editor \<Rightarrow> nat \<Rightarrow> bool" where
  "own_ok s j \<longleftrightarrow>
     j < length (wk_pending (re_store s)) \<and> roots_call_ok (re_serverId s) (wk_pending (re_store s) ! j)"

definition roots_inv :: "roots_editor \<Rightarrow> bool" where
  "roots_inv s \<longleftrightarrow> length (re_own s) = (if re_saving s then 1 else 0) \<and> list_all (own_ok s) (re_own s)"

lemma trim_root_valid: "root_valid v \<Longrightarrow> opt_ok root_ok (null_if_blank v)"
proof -
  assume v: "root_valid v"
  obtain p q where pq: "v = p @ trim v @ q" using trim_infix by blast
  then have "utf16_length v = utf16_length p + utf16_length (trim v) + utf16_length q"
    by (metis add.assoc utf16_length_append)
  moreover have "set (trim v) \<subseteq> set v" by (rule set_trim)
  ultimately show ?thesis using v
    by (auto simp: root_valid_def root_ok_def rootPathValid_def null_if_blank_def list_all_iff)
qed

lemma roots_update_ok: "roots_valid d \<Longrightarrow> roots_call_ok i (WcSaveRoots i (roots_update d))"
  by (simp add: roots_valid_def roots_update_def ROOT_FIELDS_def trim_root_valid)

lemma own_ok_seed [simp]: "own_ok (seed_draft s) = own_ok s"
  by (simp add: fun_eq_iff own_ok_def)

lemma roots_inv_seed [simp]: "roots_inv (seed_draft s) = roots_inv s"
  by (simp add: roots_inv_def)

text \<open>Requests that are added leave the editor's own where they stand.\<close>

lemma own_ok_more:
  assumes "own_ok s j" "wk_pending (re_store s') = wk_pending (re_store s) @ new" "re_serverId s' = re_serverId s"
  shows "own_ok s' j"
  using assms by (simp add: own_ok_def nth_append)

lemma roots_inv_more:
  assumes "roots_inv s" "wk_pending (re_store s') = wk_pending (re_store s) @ new"
    "re_serverId s' = re_serverId s" "re_own s' = re_own s" "re_saving s' = re_saving s"
  shows "roots_inv s'"
  using assms own_ok_more [OF _ assms(2,3)] by (auto simp: roots_inv_def list_all_iff)

lemma pending_started:
  "(\<And>k net. e \<noteq> WvReply k net) \<Longrightarrow> \<exists>new. wk_pending (workspace_apply rt e w) = wk_pending w @ new"
proof (cases e)
  case (WvStart c)
  then show ?thesis by (cases c) (auto simp: load_defs)
qed (auto simp: loadWorkspace_def resetSyncPlan_def load_defs)

text \<open>An answer moves the requests behind it one place forward.\<close>

lemma moved_nth:
  assumes "k < length xs" "j < length xs" "j \<noteq> k"
  shows "(take k xs @ drop (Suc k) xs @ new) ! moved k j = xs ! j"
    "moved k j < length (take k xs @ drop (Suc k) xs @ new)"
  using assms by (auto simp: moved_def nth_append min_def)

lemma own_ok_answered:
  assumes k: "k < length (wk_pending (re_store s))" and j: "own_ok s j" "j \<noteq> k"
    and s': "re_store s' = ws_answer rt k net (re_store s)" "re_serverId s' = re_serverId s"
  shows "own_ok s' (moved k j)"
proof -
  let ?w = "re_store s"
  obtain new where "wk_pending (ws_answer rt k net ?w) = take k (wk_pending ?w) @ drop (Suc k) (wk_pending ?w) @ new"
    using pending_reply [of rt net "wk_pending ?w ! k" "?w\<lparr>wk_pending := take k (wk_pending ?w) @ drop (Suc k) (wk_pending ?w)\<rparr>"]
    by (auto simp: ws_answer_def)
  then show ?thesis using moved_nth [OF k, of j new] j s' by (simp add: own_ok_def del: length_append)
qed

lemma save_done_fields [simp]:
  "re_saving (save_roots_done response s) = False" "re_store (save_roots_done response s) = re_store s"
  "re_serverId (save_roots_done response s) = re_serverId s" "re_own (save_roots_done response s) = re_own s"
  by (simp_all add: save_roots_done_def split: sum.splits)

lemma roots_inv_answer:
  assumes s: "roots_inv s" and k: "k < length (wk_pending (re_store s))"
  shows "roots_inv (roots_answer rt k net s)"
proof -
  have "re_own s = [] \<or> (\<exists>j. re_own s = [j])"
    using s by (cases "re_own s") (auto simp: roots_inv_def split: if_splits)
  then consider "re_own s = []" | "re_own s = [k]" | j where "re_own s = [j]" "j \<noteq> k" by auto
  then show ?thesis
  proof cases
    case (3 j)
    then have "own_ok s j" using s by (simp add: roots_inv_def)
    then show ?thesis using 3 s own_ok_answered [OF k _ 3(2)]
      by (simp add: roots_answer_def roots_inv_def Let_def)
  qed (use s in \<open>simp_all add: roots_answer_def roots_inv_def Let_def\<close>)
qed

lemma roots_inv_apply:
  assumes s: "roots_inv s" and e: "roots_enabled e s"
  shows "roots_inv (roots_apply rt e s)"
proof (cases e)
  case (Re_Edit field v)
  then show ?thesis using s by (auto simp: edit_root_def intro!: roots_inv_more [of s _ "[]"])
next
  case Re_Save
  then have "re_own s = []" "roots_valid (re_draft s)" using s e by (simp_all add: roots_inv_def save_enabled_def)
  then show ?thesis using Re_Save roots_update_ok
    by (simp add: save_roots_def roots_inv_def own_ok_def ws_call_def nth_append)
next
  case (Re_Store x)
  then have "\<exists>new. wk_pending (workspace_apply rt x (re_store s)) = wk_pending (re_store s) @ new"
    using e by (intro pending_started) auto
  then show ?thesis using Re_Store s by (auto intro: roots_inv_more)
next
  case (Re_Answer k net)
  then show ?thesis using roots_inv_answer [OF s] e by simp
qed

lemma roots_reach_inv: "roots_reach rt s \<Longrightarrow> roots_inv s \<and> roots_clean s"
proof (induction rule: roots_reach.induct)
  case (roots_reach_init i w)
  show ?case by (simp add: ServerRootsEditor_def) (simp add: roots_inv_def)
next
  case (roots_reach_step s e s')
  then show ?case by (auto elim!: roots_stepE intro: roots_inv_apply roots_clean_apply)
qed

text \<open>
  A mounted editor knows of no save but its own. The page that was left while a save was in flight
  and opened again offers to save next to it; which of the two writes lands last is open.
\<close>

lemma save_beside_former:
  assumes "save_enabled s"
  shows "filter (saves_roots_of (re_serverId s)) (wk_pending (re_store (save_roots s))) =
    filter (saves_roots_of (re_serverId s)) (wk_pending (re_store s)) @
    [WcSaveRoots (re_serverId s) (roots_update (re_draft s))]"
  by (simp add: save_roots_def ws_call_def)

lemma mount_forgets_saves:
  "\<not> re_saving (ServerRootsEditor i w) \<and>
   filter (saves_roots_of i) (wk_pending (re_store (ServerRootsEditor i w))) =
     filter (saves_roots_of i) (wk_pending w)"
  by (simp add: ServerRootsEditor_def loadServerRoots_def ws_call_def)

subsection \<open>Typing during a save\<close>

text \<open>
  The fields stay enabled while a save is in flight. Its success marks the draft clean, and the
  effect puts the saved roots over what was typed since.
\<close>

lemma edits_during_save_lost:
  assumes "k \<in> set (re_own s)" "wk_pending (re_store s) ! k = WcSaveRoots (re_serverId s) u"
    "putServerRoots rt net (re_serverId s) u = Inr roots"
    "s' = roots_apply rt (Re_Answer k net) (roots_apply rt (Re_Edit field v) s)"
  shows "re_draft s' = draft_of_roots roots \<and> \<not> re_dirty s' \<and> re_saved s'"
  using assms by (simp add: roots_answer_def edit_root_def mutation_result_def settled_result_def
      save_roots_done_def seed_draft_def ws_answer_def workspace_reply_def on_success_def
      saveServerRoots_done_def)

end
