(* ===== verification/ProjectDetail.thy ===== *)
theory ProjectDetail
  imports WorkspaceTabs Routes
begin

text \<open>
  \<open>features/workspace/ProjectDetail.tsx\<close>: what the page shows of the stores, the watch over the
  project's active batch, the section of launch configurations with its dialogs, and the removal
  of the project.
\<close>

subsection \<open>What the page shows\<close>

datatype detail_body = Detail_Loading | Detail_Missing | Detail_Project project_record

definition detail_body :: "workspace_store \<Rightarrow> string \<Rightarrow> detail_body" where
  "detail_body w projectId =
     (case find (\<lambda>p. prj_project_id p = projectId) (wk_projects w) of
        None \<Rightarrow> if wk_projectsLoading w then Detail_Loading else Detail_Missing
      | Some project \<Rightarrow> Detail_Project project)"

definition referenced :: "workspace_store \<Rightarrow> project_record \<Rightarrow> artifact_record list" where
  "referenced w project =
     map_non_null (\<lambda>i. find (\<lambda>a. art_artifact_id a = i) (wk_artifacts w)) (prj_artifact_ids project)"

definition project_configs :: "workspace_store \<Rightarrow> project_record \<Rightarrow> launch_config_record list" where
  "project_configs w project =
     filter (\<lambda>c. lch_project_id c = prj_project_id project) (wk_launchConfigs w)"

definition referencedPlacements :: "workspace_store \<Rightarrow> project_record \<Rightarrow> placement_record list" where
  "referencedPlacements w project =
     filter (\<lambda>p. plc_artifact_id p \<in> set (prj_artifact_ids project)) (wk_placements w)"

text \<open>The mark of a matrix cell is one character; its UTF-8 bytes are the string.\<close>

definition CHECK_MARK :: string where "CHECK_MARK = [CHR 0xE2, CHR 0x9C, CHR 0x93]"
definition CIRCLE_MARK :: string where "CIRCLE_MARK = [CHR 0xE2, CHR 0x97, CHR 0x8B]"
definition SYNC_MARK :: string where "SYNC_MARK = [CHR 0xE2, CHR 0x86, CHR 0xBB]"

definition cellState :: "dict \<Rightarrow> distribution_state option \<Rightarrow> string \<times> string" where
  "cellState t state =
     (case state of
        Some D_Verified \<Rightarrow> (CHECK_MARK, t ''workspace.matrixPresent'')
      | Some D_Declared \<Rightarrow> (CIRCLE_MARK, t ''workspace.stateDeclared'')
      | Some D_Missing \<Rightarrow> (EM_DASH, t ''workspace.matrixMissing'')
      | Some D_Unavailable \<Rightarrow> (''!'', t ''workspace.stateUnavailable'')
      | Some D_Syncing \<Rightarrow> (SYNC_MARK, t ''workspace.stateSyncing'')
      | None \<Rightarrow> (EM_DASH, t ''workspace.matrixUndeclared''))"

definition cell_item :: "workspace_store \<Rightarrow> string \<Rightarrow> string \<Rightarrow> string \<Rightarrow> distribution_item option" where
  "cell_item w projectId artifactId serverId =
     (case wk_distributions w projectId of
        None \<Rightarrow> None
      | Some d \<Rightarrow>
          find (\<lambda>e. dit_artifact_id e = artifactId \<and> dit_server_id e = serverId) (pdi_items d))"

definition cell_placement :: "workspace_store \<Rightarrow> string \<Rightarrow> string \<Rightarrow> placement_record option" where
  "cell_placement w artifactId serverId =
     find (\<lambda>p. plc_artifact_id p = artifactId \<and> plc_server_id p = serverId) (wk_placements w)"

definition cell_shown :: "workspace_store \<Rightarrow> string \<Rightarrow> string \<Rightarrow> string \<Rightarrow> distribution_state option" where
  "cell_shown w projectId artifactId serverId =
     (case cell_item w projectId artifactId serverId of
        Some item \<Rightarrow> Some (dit_state item)
      | None \<Rightarrow> if cell_placement w artifactId serverId \<noteq> None then Some D_Declared else None)"

definition cell_title ::
  "js_runtime \<Rightarrow> dict \<Rightarrow> rat \<Rightarrow> workspace_store \<Rightarrow> string \<Rightarrow> string \<Rightarrow> string \<Rightarrow> string option" where
  "cell_title rt t now w projectId artifactId serverId =
     (let item = cell_item w projectId artifactId serverId;
          path = (case item of
                    Some i \<Rightarrow> dit_remote_path i
                  | None \<Rightarrow> (case cell_placement w artifactId serverId of Some p \<Rightarrow> plc_remote_path p | None \<Rightarrow> ''''));
          checked = (case Option.bind item dit_checked_at of
                       Some ts \<Rightarrow> [relative_label rt t (Some (TsText ts)) now] | None \<Rightarrow> []);
          detail = (case Option.bind item dit_detail of
                      Some d \<Rightarrow> if d \<noteq> '''' then [d] else [] | None \<Rightarrow> []);
          parts = path # checked @ detail
      in if list_ex (\<lambda>part. part \<noteq> '''') parts then Some (join [CHR 0x0A] parts) else None)"

subsection \<open>The watch over the active batch\<close>

text \<open>
  \<open>wt_watched\<close> is \<open>watchedBatchRef\<close>. Both stores are the program's; a step of the transfer store
  renders the page, whose effect then runs. Only unmounting stops the shared timer.
\<close>

record project_watch =
  wt_projectId :: string
  wt_watched :: "string option"
  wt_workspace :: workspace_store
  wt_transfers :: transfer_store

definition active_batch :: "project_watch \<Rightarrow> transfer_batch option" where
  "active_batch s =
     find (\<lambda>b. bat_project_id b = wt_projectId s \<and> isActiveBatchState (bat_state b))
       (tf_batches (wt_transfers s))"

definition batch_finished :: "string \<Rightarrow> transfer_batch list \<Rightarrow> bool" where
  "batch_finished i batches \<longleftrightarrow>
     (case find (\<lambda>b. bat_batch_id b = i) batches of
        Some b \<Rightarrow> isTerminalBatchState (bat_state b) | None \<Rightarrow> False)"

definition watch_effect :: "project_watch \<Rightarrow> project_watch" where
  "watch_effect s =
     (case active_batch s of
        Some b \<Rightarrow>
          s\<lparr>wt_watched := Some (bat_batch_id b), wt_transfers := syncPolling (wt_transfers s)\<rparr>
      | None \<Rightarrow>
          (case wt_watched s of
             None \<Rightarrow> s
           | Some i \<Rightarrow>
               (let s = s\<lparr>wt_watched := None\<rparr>
                in if batch_finished i (tf_batches (wt_transfers s))
                   then s\<lparr>wt_workspace := fetchDistribution (wt_projectId s) (wt_workspace s)\<rparr>
                   else s)))"

definition mount_detail :: "string \<Rightarrow> workspace_store \<Rightarrow> transfer_store \<Rightarrow> project_watch" where
  "mount_detail projectId w tr =
     watch_effect
       \<lparr>wt_projectId = projectId, wt_watched = None, wt_workspace = fetchDistribution projectId w,
        wt_transfers = fetchBatches tr\<rparr>"

definition unmount_detail :: "project_watch \<Rightarrow> transfer_store" where
  "unmount_detail s = stopPolling (wt_transfers s)"

datatype watch_event = Wt_Transfers transfer_event | Wt_Workspace workspace_event | Wt_Project string

fun watch_enabled :: "watch_event \<Rightarrow> project_watch \<Rightarrow> bool" where
  "watch_enabled (Wt_Transfers e) s = (transfer_enabled e (wt_transfers s) \<and> e \<noteq> TvStopPolling)"
| "watch_enabled (Wt_Workspace e) s = workspace_enabled e (wt_workspace s)"
| "watch_enabled (Wt_Project projectId) s = (projectId \<noteq> wt_projectId s)"

fun watch_apply :: "js_runtime \<Rightarrow> watch_event \<Rightarrow> project_watch \<Rightarrow> project_watch" where
  "watch_apply rt (Wt_Transfers e) s =
     watch_effect (s\<lparr>wt_transfers := transfer_apply rt e (wt_transfers s)\<rparr>)"
| "watch_apply rt (Wt_Workspace e) s = s\<lparr>wt_workspace := workspace_apply rt e (wt_workspace s)\<rparr>"
| "watch_apply rt (Wt_Project projectId) s =
     watch_effect (s\<lparr>wt_projectId := projectId, wt_workspace := fetchDistribution projectId (wt_workspace s)\<rparr>)"

inductive watch_step :: "js_runtime \<Rightarrow> project_watch \<Rightarrow> watch_event \<Rightarrow> project_watch \<Rightarrow> bool" for rt where
  watch_stepI: "watch_enabled e s \<Longrightarrow> watch_step rt s e (watch_apply rt e s)"

inductive_cases watch_stepE: "watch_step rt s e s'"

inductive watch_reach :: "js_runtime \<Rightarrow> project_watch \<Rightarrow> bool" for rt where
  watch_reach_init: "watch_reach rt (mount_detail projectId w tr)"
| watch_reach_step: "watch_reach rt s \<Longrightarrow> watch_step rt s e s' \<Longrightarrow> watch_reach rt s'"

lemma active_batch_cong:
  "wt_projectId s' = wt_projectId s \<Longrightarrow> tf_batches (wt_transfers s') = tf_batches (wt_transfers s) \<Longrightarrow>
   active_batch s' = active_batch s"
  by (simp add: active_batch_def)

lemma active_batch_effect [simp]: "active_batch (watch_effect s) = active_batch s"
  by (rule active_batch_cong) (auto simp: watch_effect_def Let_def split: option.splits)

lemma watched_effect [simp]: "wt_watched (watch_effect s) = map_option bat_batch_id (active_batch s)"
  by (auto simp: watch_effect_def Let_def split: option.splits)

text \<open>The reference names the batch the page knows to be active, after every step.\<close>

lemma watch_tracks: "watch_reach rt s \<Longrightarrow> wt_watched s = map_option bat_batch_id (active_batch s)"
proof (induction rule: watch_reach.induct)
  case (watch_reach_init projectId w tr)
  show ?case by (simp add: mount_detail_def)
next
  case (watch_reach_step s e s')
  from watch_reach_step.hyps(2) have s': "s' = watch_apply rt e s" by (auto elim: watch_stepE)
  show ?case
  proof (cases e)
    case (Wt_Workspace x)
    then show ?thesis using watch_reach_step.IH active_batch_cong [of "watch_apply rt e s" s] by (simp add: s')
  qed (simp_all add: s')
qed

text \<open>
  The distribution is read again at the step that finds the watched batch finished and no other
  batch of the project active, and at no other step of the transfer store.
\<close>

definition settles :: "project_watch \<Rightarrow> project_watch \<Rightarrow> bool" where
  "settles s s' \<longleftrightarrow>
     active_batch s' = None \<and>
     opt_ok (\<lambda>b. batch_finished (bat_batch_id b) (tf_batches (wt_transfers s'))) (active_batch s) \<and>
     active_batch s \<noteq> None"

lemma refetch_on_settle:
  assumes s: "watch_reach rt s" and s'_def: "s' = watch_apply rt (Wt_Transfers e) s"
  shows "wk_pending (wt_workspace s') =
    wk_pending (wt_workspace s) @ (if settles s s' then [WcDistribution (wt_projectId s)] else [])"
proof -
  let ?t = "s\<lparr>wt_transfers := transfer_apply rt e (wt_transfers s)\<rparr>"
  have w: "wt_watched ?t = map_option bat_batch_id (active_batch s)" using watch_tracks [OF s] by simp
  have b: "tf_batches (wt_transfers s') = tf_batches (wt_transfers ?t)"
    by (auto simp: s'_def watch_effect_def Let_def split: option.splits)
  have a: "active_batch s' = active_batch ?t" by (simp add: s'_def)
  show ?thesis
  proof (cases "active_batch ?t")
    case (Some x)
    then show ?thesis using a by (simp add: s'_def settles_def watch_effect_def)
  next
    case None
    show ?thesis
    proof (cases "active_batch s")
      case [simp]: None
      show ?thesis using w \<open>active_batch ?t = None\<close> by (simp add: s'_def settles_def watch_effect_def)
    next
      case [simp]: (Some y)
      have "wt_watched s = Some (bat_batch_id y)" using w by simp
      then show ?thesis using a b \<open>active_batch ?t = None\<close>
        by (simp add: settles_def s'_def watch_effect_def Let_def fetchDistribution_def ws_call_def)
    qed
  qed
qed

text \<open>While a batch of the project is active the shared timer is armed after each render.\<close>

lemma polls_while_active:
  assumes "timer_wf (transfer_apply rt e (wt_transfers s))"
    "active_batch (watch_apply rt (Wt_Transfers e) s) \<noteq> None"
  shows "tf_polling (wt_transfers (watch_apply rt (Wt_Transfers e) s))"
proof -
  let ?t = "s\<lparr>wt_transfers := transfer_apply rt e (wt_transfers s)\<rparr>"
  obtain b where b: "active_batch ?t = Some b" using assms(2) by auto
  then have "b \<in> set (tf_batches (wt_transfers ?t)) \<and> isActiveBatchState (bat_state b)"
    unfolding active_batch_def find_Some_iff by (metis nth_mem)
  then have "any_active (wt_transfers ?t)" unfolding any_active_def list_ex_iff by blast
  then show ?thesis using b syncPolling_exact [OF assms(1)] by (simp add: watch_effect_def)
qed

subsection \<open>The launch configurations of the project\<close>

text \<open>
  The add button stands in the empty state alone and opens the dialog without choosing a record;
  the menu of a row sets the record to edit first.
\<close>

record config_section =
  dc_project :: project_record
  dc_projects :: "project_record list"
  dc_configs :: "launch_config_record list"
  dc_dialog :: "(launch_props, launch_form, workspace_call) save_form"
  dc_editTarget :: "launch_config_record option"
  dc_remove :: "launch_config_record remove_dialog"

definition detail_props :: "config_section \<Rightarrow> launch_props" where
  "detail_props s =
     \<lparr>lp_config = dc_editTarget s, lp_projects = dc_projects s, lp_project = Some (dc_project s)\<rparr>"

definition config_section ::
  "project_record \<Rightarrow> project_record list \<Rightarrow> launch_config_record list \<Rightarrow> config_section" where
  "config_section project projects configs =
     \<lparr>dc_project = project, dc_projects = projects, dc_configs = configs,
      dc_dialog = sv_init \<lparr>lp_config = None, lp_projects = projects, lp_project = Some project\<rparr> EMPTY_LAUNCH,
      dc_editTarget = None, dc_remove = rm_init\<rparr>"

definition open_config :: "config_section \<Rightarrow> config_section" where
  "open_config s = s\<lparr>dc_dialog := sv_apply LaunchConfigDialog (Sv_Open (detail_props s)) (dc_dialog s)\<rparr>"

text \<open>\<open>Dc_Store\<close>: the stores have a new project record, project list and configurations.\<close>

datatype config_event =
    Dc_Add
  | Dc_Edit launch_config_record
  | Dc_Dialog "(launch_props, launch_edit) sv_event"
  | Dc_Remove "launch_config_record rm_event"
  | Dc_Store project_record "project_record list" "launch_config_record list"

definition config_free :: "config_section \<Rightarrow> bool" where
  "config_free s \<longleftrightarrow> \<not> sv_open (dc_dialog s) \<and> rm_target (dc_remove s) = None"

fun config_enabled :: "config_event \<Rightarrow> config_section \<Rightarrow> bool" where
  "config_enabled Dc_Add s = (config_free s \<and> dc_configs s = [])"
| "config_enabled (Dc_Edit config) s = (config_free s \<and> config \<in> set (dc_configs s))"
| "config_enabled (Dc_Dialog e) s = (user_dialog_event e \<and> sv_enabled LaunchConfigDialog e (dc_dialog s))"
| "config_enabled (Dc_Remove e) s =
     (rm_enabled e (dc_remove s) \<and>
      (case e of Rm_Ask config \<Rightarrow> config_free s \<and> config \<in> set (dc_configs s) | _ \<Rightarrow> True))"
| "config_enabled (Dc_Store project projects configs) s = True"

fun config_apply :: "config_event \<Rightarrow> config_section \<Rightarrow> config_section" where
  "config_apply Dc_Add s = open_config s"
| "config_apply (Dc_Edit config) s = open_config (s\<lparr>dc_editTarget := Some config\<rparr>)"
| "config_apply (Dc_Dialog e) s = s\<lparr>dc_dialog := sv_apply LaunchConfigDialog e (dc_dialog s)\<rparr>"
| "config_apply (Dc_Remove e) s = s\<lparr>dc_remove := rm_apply True e (dc_remove s)\<rparr>"
| "config_apply (Dc_Store project projects configs) s =
     (let s = s\<lparr>dc_project := project, dc_projects := projects, dc_configs := configs\<rparr>
      in if sv_open (dc_dialog s)
         then s\<lparr>dc_dialog := sv_apply LaunchConfigDialog (Sv_Render (detail_props s)) (dc_dialog s)\<rparr>
         else s)"

fun config_run :: "config_event list \<Rightarrow> config_section \<Rightarrow> config_section option" where
  "config_run [] s = Some s"
| "config_run (e # es) s = (if config_enabled e s then config_run es (config_apply e s) else None)"

text \<open>
  A configuration is edited and then removed; it was the last one. The add button of the empty
  state opens the dialog on the removed record: saving patches it instead of creating one.
\<close>

definition edit_then_remove :: "launch_config_record \<Rightarrow> project_record \<Rightarrow> project_record list \<Rightarrow> config_event list" where
  "edit_then_remove config project projects =
     [Dc_Edit config, Dc_Dialog Sv_Close, Dc_Remove (Rm_Ask config), Dc_Remove Rm_Confirm,
      Dc_Store project projects [], Dc_Remove (Rm_Answer 0 (Inr ())), Dc_Add]"

lemma add_edits_removed:
  "\<exists>s. config_run (edit_then_remove config project projects) (config_section project0 projects0 [config]) = Some s \<and>
     sv_open (dc_dialog s) \<and> dc_configs s = [] \<and> lp_config (sv_props (dc_dialog s)) = Some config \<and>
     sv_form (dc_dialog s) = formFromConfig config projects \<and>
     (\<forall>f. fc_call LaunchConfigDialog (sv_props (dc_dialog s)) f =
        Some (WcPatchLaunchConfig (lch_launch_config_id config)
               (launch_patch_body (launch_buildBody (sv_props (dc_dialog s)) f))))"
  by (simp add: edit_then_remove_def config_section_def config_free_def open_config_def detail_props_def
      user_dialog_event_def sv_ops rm_ops rm_init_def sv_init_def LaunchConfigDialog_def launch_seed_def
      launch_call_def)

subsection \<open>The other dialogs of the page\<close>

datatype placement_mode = Pd_Add "string option" | Pd_Edit placement_record

text \<open>The props of the placement dialog for the page's variable, \<open>null\<close> when it is closed.\<close>

definition placement_props_of :: "placement_mode option \<Rightarrow> placement_props" where
  "placement_props_of mode =
     ((case mode of Some (Pd_Edit p) \<Rightarrow> Some p | _ \<Rightarrow> None),
      (case mode of Some (Pd_Add artifactId) \<Rightarrow> artifactId | _ \<Rightarrow> None))"

definition placement_prefill :: "placement_record \<Rightarrow> transfer_prefill" where
  "placement_prefill p =
     \<lparr>pre_artifactId = Some (plc_artifact_id p), pre_sourcePlacementId = Some (plc_placement_id p)\<rparr>"

text \<open>Removing the project leads back to the list; the confirmation is not closed by itself.\<close>

record project_removal =
  pr_open :: bool
  pr_removing :: bool
  pr_error :: "string option"
  pr_hash :: "string option"
  pr_pending :: "string list"

definition ask_project_removal :: "project_removal \<Rightarrow> project_removal" where
  "ask_project_removal s = s\<lparr>pr_error := None, pr_open := True\<rparr>"

definition removeProject :: "string \<Rightarrow> project_removal \<Rightarrow> project_removal" where
  "removeProject projectId s =
     s\<lparr>pr_removing := True, pr_error := None, pr_pending := pr_pending s @ [projectId]\<rparr>"

definition removeProject_done :: "unit result \<Rightarrow> project_removal \<Rightarrow> project_removal" where
  "removeProject_done response s =
     (case response of
        Inr _ \<Rightarrow> s\<lparr>pr_hash := Some WORKSPACE_HASH, pr_removing := False\<rparr>
      | Inl cause \<Rightarrow> s\<lparr>pr_error := Some (ae_detail cause), pr_removing := False\<rparr>)"

end
