(* ===== verification/SetupDialog.thy ===== *)
theory SetupDialog
  imports DirectAuth Requests
begin

text \<open>
  \<open>features/transfers/DirectAuthSetupDialog.tsx\<close>: one (source, target) pair and its row, seeded
  from the listing of the source or else of the target. The dialog of a mounted pair outlives a
  close; \<open>su_epoch\<close> counts the runs of its effect, so that the seed of a cancelled run is dropped,
  and \<open>su_row\<close> is the row with the identity of its instance.
\<close>

subsection \<open>State and opening\<close>

datatype setup_call =
    Su_Source nat string string
  | Su_Target nat string string
  | Su_Action nat direct_auth_action string string

record setup_dialog =
  su_open :: bool
  su_source :: string
  su_target :: string
  su_initial :: "direct_auth_peer option"
  su_changed :: bool
  su_row :: "(nat \<times> da_row) option"
  su_epoch :: nat
  su_replans :: nat
  su_pending :: "setup_call list"

definition setup_request :: "setup_call \<Rightarrow> setup_dialog \<Rightarrow> setup_dialog" where
  "setup_request c s = s\<lparr>su_pending := su_pending s @ [c]\<rparr>"

definition DirectAuthSetupDialog :: setup_dialog where
  "DirectAuthSetupDialog =
     \<lparr>su_open = False, su_source = '''', su_target = '''', su_initial = None, su_changed = False,
      su_row = None, su_epoch = 0, su_replans = 0, su_pending = []\<rparr>"

text \<open>The row is rendered while a peer is there; without one it is unmounted.\<close>

definition setup_render :: "setup_dialog \<Rightarrow> setup_dialog" where
  "setup_render s =
     (case su_initial s of
        None \<Rightarrow> s\<lparr>su_row := None\<rparr>
      | Some peer \<Rightarrow>
          if \<not> su_open s then s\<lparr>su_row := None\<rparr>
          else (case su_row s of
                  None \<Rightarrow>
                    s\<lparr>su_row := Some (su_epoch s, DirectAuthPairRow (pair_name (su_source s) (su_target s)) (su_epoch s) peer)\<rparr>
                | Some _ \<Rightarrow> s))"

text \<open>The effect over \<open>open\<close> and the two ids, after the cleanup of its last run.\<close>

definition setup_props :: "bool \<Rightarrow> string \<Rightarrow> string \<Rightarrow> setup_dialog \<Rightarrow> setup_dialog" where
  "setup_props opened source target s =
     (if su_open s = opened \<and> su_source s = source \<and> su_target s = target then s
      else
        (let s = s\<lparr>su_open := opened, su_source := source, su_target := target, su_epoch := su_epoch s + 1,
                   su_initial := None, su_changed := False\<rparr>;
             s = (if opened then setup_request (Su_Source (su_epoch s) source target) s else s)
         in setup_render s))"

definition exact_pair :: "string \<Rightarrow> string \<Rightarrow> direct_auth_list \<Rightarrow> direct_auth_pair option" where
  "exact_pair source target l =
     find (\<lambda>pair. dpr_source_server_id pair = source \<and> dpr_target_server_id pair = target) (dal_pairs l)"

definition seed_found :: "nat \<Rightarrow> direct_auth_peer \<Rightarrow> setup_dialog \<Rightarrow> setup_dialog" where
  "seed_found epoch peer s =
     (if epoch \<noteq> su_epoch s then s else setup_render (s\<lparr>su_initial := Some peer\<rparr>))"

text \<open>The second listing is asked for even when the run has been cancelled by then.\<close>

definition seed_source_done ::
  "nat \<Rightarrow> string \<Rightarrow> string \<Rightarrow> direct_auth_list result \<Rightarrow> setup_dialog \<Rightarrow> setup_dialog" where
  "seed_source_done epoch source target response s =
     (case response of
        Inl _ \<Rightarrow> seed_found epoch (UNCHECKED target) s
      | Inr l \<Rightarrow>
          (case exact_pair source target l of
             Some pair \<Rightarrow> seed_found epoch (peer_of_pair pair) s
           | None \<Rightarrow> setup_request (Su_Target epoch source target) s))"

definition seed_target_done ::
  "nat \<Rightarrow> string \<Rightarrow> string \<Rightarrow> direct_auth_list result \<Rightarrow> setup_dialog \<Rightarrow> setup_dialog" where
  "seed_target_done epoch source target response s =
     seed_found epoch
       (case response of
          Inl _ \<Rightarrow> UNCHECKED target
        | Inr l \<Rightarrow>
            (case exact_pair source target l of Some pair \<Rightarrow> peer_of_pair pair | None \<Rightarrow> UNCHECKED target)) s"

subsection \<open>Actions\<close>

definition update_setup_row :: "nat \<Rightarrow> (da_row \<Rightarrow> da_row) \<Rightarrow> setup_dialog \<Rightarrow> setup_dialog" where
  "update_setup_row inst f s =
     s\<lparr>su_row := map_option (\<lambda>(n, r). if n = inst then (n, f r) else (n, r)) (su_row s)\<rparr>"

definition press_setup :: "row_button \<Rightarrow> setup_dialog \<Rightarrow> setup_dialog" where
  "press_setup b s =
     (case su_row s of
        None \<Rightarrow> s
      | Some (inst, r) \<Rightarrow>
          (let s = update_setup_row inst (press_row b) s
           in case button_action b of
                Some action \<Rightarrow> setup_request (Su_Action inst action (su_source s) (su_target s)) s
              | None \<Rightarrow> s))"

text \<open>A success tells the dialog, whatever it shows by then; the row that asked gets its peer.\<close>

definition setup_action_done :: "nat \<Rightarrow> direct_auth_peer result \<Rightarrow> setup_dialog \<Rightarrow> setup_dialog" where
  "setup_action_done inst response s =
     (let s = update_setup_row inst (run_done response) s
      in case response of Inr _ \<Rightarrow> s\<lparr>su_changed := True\<rparr> | Inl _ \<Rightarrow> s)"

definition replan_shown :: "setup_dialog \<Rightarrow> bool" where
  "replan_shown s \<longleftrightarrow> su_open s \<and> su_changed s"

definition setup_replan :: "setup_dialog \<Rightarrow> setup_dialog" where
  "setup_replan s =
     (let s = setup_props False (su_source s) (su_target s) s in s\<lparr>su_replans := su_replans s + 1\<rparr>)"

subsection \<open>The step relation\<close>

datatype setup_event =
    Su_Open string string
  | Su_Close
  | Su_Press row_button
  | Su_Replan
  | Su_Answer nat network

fun setup_enabled :: "setup_event \<Rightarrow> setup_dialog \<Rightarrow> bool" where
  "setup_enabled (Su_Open source target) s = (\<not> su_open s)"
| "setup_enabled Su_Close s = su_open s"
| "setup_enabled (Su_Press b) s =
     (su_open s \<and> (case su_row s of Some (_, r) \<Rightarrow> b \<in> set (row_buttons r) | None \<Rightarrow> False))"
| "setup_enabled Su_Replan s = replan_shown s"
| "setup_enabled (Su_Answer k net) s = (k < length (su_pending s))"

definition setup_reply :: "network \<Rightarrow> setup_call \<Rightarrow> setup_dialog \<Rightarrow> setup_dialog" where
  "setup_reply net c =
     (case c of
        Su_Source epoch source target \<Rightarrow> seed_source_done epoch source target (getDirectAuth net source)
      | Su_Target epoch source target \<Rightarrow> seed_target_done epoch source target (getDirectAuth net target)
      | Su_Action inst action source target \<Rightarrow>
          setup_action_done inst (action_response net source target action))"

definition setup_answer :: "nat \<Rightarrow> network \<Rightarrow> setup_dialog \<Rightarrow> setup_dialog" where
  "setup_answer k net s =
     setup_reply net (su_pending s ! k)
       (s\<lparr>su_pending := take k (su_pending s) @ drop (Suc k) (su_pending s)\<rparr>)"

fun setup_apply :: "setup_event \<Rightarrow> setup_dialog \<Rightarrow> setup_dialog" where
  "setup_apply (Su_Open source target) s = setup_props True source target s"
| "setup_apply Su_Close s = setup_props False (su_source s) (su_target s) s"
| "setup_apply (Su_Press b) s = press_setup b s"
| "setup_apply Su_Replan s = setup_replan s"
| "setup_apply (Su_Answer k net) s = setup_answer k net s"

inductive setup_step :: "setup_dialog \<Rightarrow> setup_event \<Rightarrow> setup_dialog \<Rightarrow> bool" where
  setup_stepI: "setup_enabled e s \<Longrightarrow> setup_step s e (setup_apply e s)"

inductive_cases setup_stepE: "setup_step s e s'"

inductive setup_reach :: "setup_dialog \<Rightarrow> bool" where
  setup_reach_init: "setup_reach DirectAuthSetupDialog"
| setup_reach_step: "setup_reach s \<Longrightarrow> setup_step s e s' \<Longrightarrow> setup_reach s'"

lemmas setup_ops = setup_request_def setup_render_def setup_props_def seed_found_def seed_source_done_def
  seed_target_done_def update_setup_row_def press_setup_def setup_action_done_def setup_replan_def
  setup_reply_def setup_answer_def Let_def

subsection \<open>The row is seeded\<close>

text \<open>An open dialog without a row has the seed of its run in flight, so it cannot wait for ever.\<close>

fun seeds :: "nat \<Rightarrow> setup_call \<Rightarrow> bool" where
  "seeds n (Su_Source epoch _ _) = (epoch = n)"
| "seeds n (Su_Target epoch _ _) = (epoch = n)"
| "seeds n (Su_Action _ _ _ _) = False"

definition setup_backed :: "setup_dialog \<Rightarrow> bool" where
  "setup_backed s \<longleftrightarrow>
     (su_open s \<and> su_initial s = None \<longrightarrow> list_ex (seeds (su_epoch s)) (su_pending s)) \<and>
     (su_row s \<noteq> None \<longleftrightarrow> su_open s \<and> su_initial s \<noteq> None)"

lemma update_setup_row_simps [simp]:
  "su_row (update_setup_row inst f s) = None \<longleftrightarrow> su_row s = None"
  "su_open (update_setup_row inst f s) = su_open s" "su_initial (update_setup_row inst f s) = su_initial s"
  "su_epoch (update_setup_row inst f s) = su_epoch s" "su_pending (update_setup_row inst f s) = su_pending s"
  "su_changed (update_setup_row inst f s) = su_changed s"
  by (simp_all add: update_setup_row_def)

lemma setup_backed_props: "setup_backed s \<Longrightarrow> setup_backed (setup_props opened source target s)"
  by (auto simp: setup_backed_def setup_ops)

lemma setup_backed_found:
  assumes "setup_backed (s\<lparr>su_pending := c # rest\<rparr>)" "seeds epoch c"
  shows "setup_backed (seed_found epoch peer (s\<lparr>su_pending := rest\<rparr>))"
  using assms by (cases c) (auto simp: setup_backed_def setup_ops split: option.splits)

lemma setup_backed_reply:
  assumes s: "setup_backed (s\<lparr>su_pending := c # rest\<rparr>)"
  shows "setup_backed (setup_reply net c (s\<lparr>su_pending := rest\<rparr>))"
proof (cases c)
  case (Su_Source epoch source target)
  have "setup_backed (setup_request (Su_Target epoch source target) (s\<lparr>su_pending := rest\<rparr>))"
    using s by (auto simp: setup_backed_def setup_request_def Su_Source)
  then show ?thesis using setup_backed_found [OF s, of epoch]
    by (auto simp: setup_reply_def Su_Source seed_source_done_def split: sum.split option.split)
next
  case (Su_Target epoch source target)
  then show ?thesis using setup_backed_found [OF s, of epoch]
    by (auto simp: setup_reply_def seed_target_done_def)
next
  case (Su_Action inst action source target)
  then show ?thesis using s
    by (auto simp: setup_backed_def setup_reply_def setup_action_done_def Let_def
        simp del: not_None_eq not_Some_eq split: sum.split)
qed

lemma setup_backed_moved:
  assumes "setup_backed s" "k < length (su_pending s)"
  shows "setup_backed (s\<lparr>su_pending := su_pending s ! k # take k (su_pending s) @ drop (Suc k) (su_pending s)\<rparr>)"
  using assms list_ex_moved [OF assms(2)] by (simp add: setup_backed_def)

lemma setup_backed_apply:
  assumes s: "setup_backed s" and e: "setup_enabled e s"
  shows "setup_backed (setup_apply e s)"
proof (cases e)
  case (Su_Answer k net)
  then show ?thesis using setup_backed_reply [OF setup_backed_moved [OF s]] e by (simp add: setup_answer_def)
next
  case (Su_Press b)
  then show ?thesis using s
    by (auto simp: setup_backed_def press_setup_def setup_request_def Let_def
        simp del: not_None_eq not_Some_eq split: option.split)
next
  case Su_Replan
  have "setup_backed (setup_props False (su_source s) (su_target s) s)" by (rule setup_backed_props [OF s])
  then show ?thesis by (simp add: Su_Replan setup_replan_def Let_def setup_backed_def)
qed (simp_all add: setup_backed_props s)

lemma setup_backed_reach: "setup_reach s \<Longrightarrow> setup_backed s"
proof (induction rule: setup_reach.induct)
  case setup_reach_init
  show ?case by (simp add: setup_backed_def DirectAuthSetupDialog_def)
next
  case (setup_reach_step s e s')
  then show ?case by (auto elim!: setup_stepE intro: setup_backed_apply)
qed

lemma row_once_answered:
  "setup_reach s \<Longrightarrow> su_open s \<Longrightarrow> su_pending s = [] \<Longrightarrow> su_row s \<noteq> None"
  using setup_backed_reach [of s] by (auto simp: setup_backed_def)

subsection \<open>A change of another pair\<close>

text \<open>
  The answer of an action started before a close marks the dialog as changed after it has been
  opened for another pair, which then offers to plan again.
\<close>

lemma late_action_offers_replan:
  assumes "su_open s" "su_pending s ! k = Su_Action inst action source target"
    "action_response net source target action = Inr peer"
  shows "replan_shown (setup_apply (Su_Answer k net) s) \<and>
    su_initial (setup_apply (Su_Answer k net) s) = su_initial s"
  using assms by (simp add: setup_answer_def setup_reply_def setup_action_done_def update_setup_row_def
      replan_shown_def)

end
