(* ===== verification/Shell.thy ===== *)
theory Shell
  imports ConsoleStore WorkspaceStore Preferences Format Visuals
begin

text \<open>
  The frame around the pages: \<open>App.tsx\<close> (which page a route shows), \<open>shell/LeftRail.tsx\<close>,
  \<open>shell/ContextHeader.tsx\<close>, \<open>shell/ServerDetailTabs.tsx\<close> and the overflow menu of
  \<open>design/Menu.tsx\<close>.
\<close>

subsection \<open>The page of a route\<close>

datatype app_page = Page_Server string | Page_Settings | Page_Preview | Page_Fleet | Page_Workspace
  | Page_Transfers

definition App :: "route \<Rightarrow> app_page" where
  "App route =
     (case route of
        RServer serverId _ \<Rightarrow> Page_Server serverId
      | RSettings \<Rightarrow> Page_Settings
      | RPreview \<Rightarrow> Page_Preview
      | RFleet \<Rightarrow> Page_Fleet
      | RWorkspace _ _ _ \<Rightarrow> Page_Workspace
      | RTransfers \<Rightarrow> Page_Transfers)"

subsection \<open>The left rail\<close>

record rail_row =
  rl_id :: string
  rl_name :: string
  rl_enabled :: bool
  rl_status :: server_status

definition rail_entries :: "console_state \<Rightarrow> string \<rightharpoonup> fleet_entry" where
  "rail_entries st =
     (case cs_fleetSummary st of
        None \<Rightarrow> Map.empty
      | Some fleet \<Rightarrow> map_of (rev (map (\<lambda>entry. (fle_server_id entry, entry)) (fls_servers fleet))))"

definition known_status :: "console_state \<Rightarrow> fleet_entry option \<Rightarrow> string \<Rightarrow> server_status" where
  "known_status st entry i =
     (case entry of
        Some e \<Rightarrow> fle_status e
      | None \<Rightarrow> (case cs_statuses st i of Some status \<Rightarrow> status | None \<Rightarrow> S_Unknown))"

definition rail_row :: "console_state \<Rightarrow> server_record \<Rightarrow> rail_row" where
  "rail_row st server =
     (let entry = rail_entries st (srv_server_id server)
      in \<lparr>rl_id = srv_server_id server,
          rl_name = (case entry of Some e \<Rightarrow> fle_display_name e | None \<Rightarrow> srv_display_name server),
          rl_enabled = (srv_enabled server \<and> (case entry of Some e \<Rightarrow> fle_enabled e | None \<Rightarrow> True)),
          rl_status = known_status st entry (srv_server_id server)\<rparr>)"

definition LeftRail :: "console_state \<Rightarrow> rail_row list" where
  "LeftRail st = map (rail_row st) (cs_servers st)"

definition rail_empty :: "console_state \<Rightarrow> string option" where
  "rail_empty st =
     (if LeftRail st \<noteq> [] then None
      else Some (if cs_serversLoading st then ''Loading'' @ [CHR 0xE2, CHR 0x80, CHR 0xA6] else ''No servers''))"

datatype rail_item = Rail_Fleet | Rail_Workspace | Rail_Transfers | Rail_Server string | Rail_Settings

fun rail_hash :: "rail_item \<Rightarrow> string" where
  "rail_hash Rail_Fleet = FLEET_HASH"
| "rail_hash Rail_Workspace = WORKSPACE_HASH"
| "rail_hash Rail_Transfers = TRANSFERS_HASH"
| "rail_hash (Rail_Server i) = ''#/server/'' @ encodeURIComponent i @ ''/overview''"
| "rail_hash Rail_Settings = ''#/settings''"

fun rail_active :: "route \<Rightarrow> rail_item \<Rightarrow> bool" where
  "rail_active route Rail_Fleet = (route = RFleet)"
| "rail_active route Rail_Workspace = (case route of RWorkspace _ _ _ \<Rightarrow> True | _ \<Rightarrow> False)"
| "rail_active route Rail_Transfers = (route = RTransfers)"
| "rail_active route (Rail_Server i) = (case route of RServer j _ \<Rightarrow> i = j | _ \<Rightarrow> False)"
| "rail_active route Rail_Settings = (route = RSettings)"

text \<open>Following an item of the rail marks that item, and no other, as active.\<close>

lemma server_hash: "rail_hash (Rail_Server i) = routeToHash (RServer i Tab_Overview)"
  by (simp add: tab_name_def SERVER_TABS_def)

lemma parse_rail:
  assumes "\<And>i. item = Rail_Server i \<Longrightarrow> id_ok i"
  shows "rail_active (parseHash (rail_hash item)) item' \<longleftrightarrow> item' = item"
proof (cases item)
  case (Rail_Server i)
  then have "parseHash (rail_hash item) = RServer i Tab_Overview"
    using parse_print [of "RServer i Tab_Overview"] assms by (simp add: server_hash del: rail_hash.simps(4))
  then show ?thesis using Rail_Server by (cases item') auto
next
  case Rail_Workspace
  have "parseHash WORKSPACE_HASH = RWorkspace Sec_Projects None None"
    by (simp add: WORKSPACE_HASH_def parseHash_def segment_or_empty_def segment_def WORKSPACE_SECTIONS_def
        decodeSegment_def Let_def)
  then show ?thesis using Rail_Workspace by (cases item') simp_all
qed (cases item'; simp add: FLEET_HASH_def TRANSFERS_HASH_def parse_constant_hashes)+

subsection \<open>The context header\<close>

datatype header_view =
    Header_Server string server_status string
  | Header_Title string "string option" "string option"

definition ContextHeader ::
  "js_runtime \<Rightarrow> dict \<Rightarrow> rat \<Rightarrow> project_record list \<Rightarrow> console_state \<Rightarrow> header_view" where
  "ContextHeader rt t now projects st =
     (case cs_route st of
        RServer i tab \<Rightarrow>
          (let entry = Option.bind (cs_fleetSummary st) (\<lambda>f. find (\<lambda>e. fle_server_id e = i) (fls_servers f))
           in Header_Server
                (case find (\<lambda>server. srv_server_id server = i) (cs_servers st) of
                   Some server \<Rightarrow> srv_display_name server | None \<Rightarrow> i)
                (known_status st entry i)
                (relative_label rt t (map_option TsText (Option.bind entry fle_updated_at)) now))
      | route \<Rightarrow>
          Header_Title
            (case route of
               RSettings \<Rightarrow> t ''settings.title''
             | RWorkspace _ _ _ \<Rightarrow> t ''workspace.title''
             | RTransfers \<Rightarrow> t ''transfers.title''
             | RPreview \<Rightarrow> ''Preview''
             | _ \<Rightarrow> t ''nav.fleet'')
            (case route of
               RWorkspace Sec_Projects (Some projectId) _ \<Rightarrow>
                 map_option prj_name (find (\<lambda>p. prj_project_id p = projectId) projects)
             | _ \<Rightarrow> None)
            (case (route, cs_fleetSummary st) of
               (RFleet, Some fleet) \<Rightarrow>
                 Some (relative_label rt t (Some (TsText (fls_generated_at fleet))) now)
             | _ \<Rightarrow> None))"

text \<open>The tab strip: the tabs that are not hidden, and the active one among them.\<close>

definition ServerDetailTabs :: "server_tab list preference \<Rightarrow> route \<Rightarrow> (server_tab \<times> bool) list option" where
  "ServerDetailTabs hidden route =
     (case route of
        RServer _ active \<Rightarrow>
          Some (map (\<lambda>tab. (tab, tab = active))
                  (filter (\<lambda>tab. \<not> isSectionHidden tab hidden) (map snd SERVER_TABS)))
      | _ \<Rightarrow> None)"

lemma one_tab_active:
  assumes "ServerDetailTabs hidden (RServer i active) = Some tabs" "\<not> isSectionHidden active hidden"
  shows "filter snd tabs = [(active, True)]"
  using assms by (cases active) (auto simp: ServerDetailTabs_def SERVER_TABS_def)

subsection \<open>The overflow menu\<close>

text \<open>
  The listeners are on the document while the menu is open. A click outside closes it before
  anything else sees the click; an item closes it and then runs.
\<close>

record 'a menu =
  mn_open :: bool
  mn_focused :: bool
  mn_selected :: "'a list"

definition Menu :: "'a menu" where
  "Menu = \<lparr>mn_open = False, mn_focused = False, mn_selected = []\<rparr>"

datatype 'a menu_event = Mn_Trigger | Mn_Outside | Mn_Escape | Mn_Item 'a bool

fun menu_apply :: "'a menu_event \<Rightarrow> 'a menu \<Rightarrow> 'a menu" where
  "menu_apply Mn_Trigger s = s\<lparr>mn_open := \<not> mn_open s\<rparr>"
| "menu_apply Mn_Outside s = (if mn_open s then s\<lparr>mn_open := False\<rparr> else s)"
| "menu_apply Mn_Escape s = (if mn_open s then s\<lparr>mn_open := False, mn_focused := True\<rparr> else s)"
| "menu_apply (Mn_Item x disabled) s =
     (if mn_open s \<and> \<not> disabled then s\<lparr>mn_open := False, mn_selected := mn_selected s @ [x]\<rparr> else s)"

end
