(* ===== verification/TelemetryViews.thy ===== *)
theory TelemetryViews
  imports ServerPage MachinePanel
begin

text \<open>
  What the telemetry components show: a meter with its label, the GPU lanes of \<open>gpu/\<close>, the overview,
  GPU and storage tabs of \<open>features/server\<close>, and the panel of a machine in
  \<open>features/fleet/FleetMachinePanel.tsx\<close>. A view is a record of the texts, meters and tones on
  screen; elements, icons and class names are left out. The readings passed the normalizers, so
  one that is not \<open>null\<close> is finite (\<open>finite_value\<close>). The text of a status is a parameter, as the
  dictionary is.
\<close>

subsection \<open>Meters with their label\<close>

record meter_shown =
  sm_meter :: meter_view
  sm_text :: string

definition DEFAULT_SEGMENTS :: nat where
  "DEFAULT_SEGMENTS = 24"

definition meter_label :: "js_runtime \<Rightarrow> js_number option \<Rightarrow> string option \<Rightarrow> string" where
  "meter_label rt v valueText =
     (case valueText of
        Some text \<Rightarrow> text
      | None \<Rightarrow> (case finite_value v of None \<Rightarrow> NA | Some q \<Rightarrow> int_string rt (math_round q) @ ''%''))"

definition meter_shown ::
  "js_runtime \<Rightarrow> js_number option \<Rightarrow> nat \<Rightarrow> meter_state option \<Rightarrow> string option \<Rightarrow> meter_shown" where
  "meter_shown rt v segments state valueText =
     \<lparr>sm_meter = SegmentedMeter (finite_value v) 100 segments state, sm_text = meter_label rt v valueText\<rparr>"

definition vram_shown ::
  "js_runtime \<Rightarrow> js_number option \<Rightarrow> js_number option \<Rightarrow> js_number option \<Rightarrow> nat \<Rightarrow> meter_shown" where
  "vram_shown rt usedB totalB percent segments =
     \<lparr>sm_meter = VramGauge (finite_value usedB) (finite_value totalB) (finite_value percent) segments,
      sm_text = (if totalB \<noteq> None then formatBytesPair rt usedB totalB else NA)\<rparr>"

subsection \<open>GPU lanes\<close>

record gpu_lane =
  ln_name :: "string option"
  ln_util :: meter_shown
  ln_vram :: meter_shown
  ln_tone :: thermal_tone
  ln_temperature :: string
  ln_power :: string
  ln_dot :: dot_status
  ln_avail :: availability_tone
  ln_word :: string
  ln_owners :: string

definition owners_text :: "dict \<Rightarrow> string list \<Rightarrow> string" where
  "owners_text t owners =
     (if owners = [] then EM_DASH else tf (t ''gpu.users'') [(''names'', join '', '' owners)])"

definition GpuLane :: "js_runtime \<Rightarrow> dict \<Rightarrow> bool \<Rightarrow> gpu_info \<Rightarrow> string list \<Rightarrow> gpu_lane" where
  "GpuLane rt t labelHidden gpu owners =
     (let availability = availabilityView (gpu_availability gpu)
      in \<lparr>ln_name = (if labelHidden then None else Some (gpuLabel rt (gpu_index gpu))),
          ln_util = meter_shown rt (gpu_utilization_percent gpu) DEFAULT_SEGMENTS None None,
          ln_vram = vram_shown rt (gpu_vram_used_b gpu) (gpu_vram_total_b gpu) (gpu_vram_percent gpu) 18,
          ln_tone = thermalToneFor (finite_value (gpu_temperature_c gpu)),
          ln_temperature = formatTemperature rt (gpu_temperature_c gpu),
          ln_power = formatPower rt (gpu_power_watts gpu) (gpu_power_limit_watts gpu),
          ln_dot = avv_dot availability,
          ln_avail = avv_tone availability,
          ln_word = t (''gpu.'' @ avv_labelKey availability),
          ln_owners = owners_text t owners\<rparr>)"

text \<open>The samples of a history are finite; a sparkline draws the last 120 of them.\<close>

definition spark_points :: "js_number list option \<Rightarrow> (rat \<times> rat) list" where
  "spark_points history =
     (case history of
        None \<Rightarrow> []
      | Some xs \<Rightarrow> sparkline_points (map_non_null (\<lambda>x. finite_value (Some x)) xs) 0 100 120 28)"

record gpu_card =
  gc_name :: string
  gc_model :: string
  gc_numeral :: string
  gc_spark_state :: meter_state
  gc_util_points :: "(rat \<times> rat) list"
  gc_vram_label :: string
  gc_vram_points :: "(rat \<times> rat) list"
  gc_lane :: gpu_lane
  gc_processes :: "string list list"

definition GpuLaneExpanded ::
  "js_runtime \<Rightarrow> dict \<Rightarrow> gpu_info \<Rightarrow> gpu_history_series option \<Rightarrow> string list \<Rightarrow> string list list \<Rightarrow> gpu_card" where
  "GpuLaneExpanded rt t gpu history owners procs =
     \<lparr>gc_name = gpuLabel rt (gpu_index gpu),
      gc_model = (case gpu_name gpu of Some name \<Rightarrow> name | None \<Rightarrow> ''unknown model''),
      gc_numeral = formatPercent rt (gpu_utilization_percent gpu) 1,
      gc_spark_state =
        meterStateForValue (case finite_value (gpu_utilization_percent gpu) of Some q \<Rightarrow> q | None \<Rightarrow> 0)
          METER_WARN_THRESHOLD METER_CRIT_THRESHOLD,
      gc_util_points = spark_points (map_option ghs_utilization history),
      gc_vram_label = formatPercent rt (gpu_vram_percent gpu) 1,
      gc_vram_points = spark_points (map_option ghs_vram history),
      gc_lane = GpuLane rt t True gpu owners,
      gc_processes = procs\<rparr>"

subsection \<open>GpusTab.tsx\<close>

definition or_dash :: "string option \<Rightarrow> string" where
  "or_dash x = (case x of Some s \<Rightarrow> s | None \<Rightarrow> EM_DASH)"

definition gpu_process_row :: "js_runtime \<Rightarrow> dict \<Rightarrow> process_info list \<Rightarrow> gpu_process_info \<Rightarrow> string list" where
  "gpu_process_row rt t processes proc =
     [number_string (gpp_pid proc), resolveUser t proc processes, or_dash (shortName (gpp_process_name proc)),
      formatBytes rt (gpp_used_memory_b proc), or_dash (gpp_command proc)]"

datatype gpus_view = Gpus_Empty string string | Gpus_Cards "gpu_card list"

definition GpusTab ::
  "js_runtime \<Rightarrow> dict \<Rightarrow> (js_number \<rightharpoonup> gpu_history_series) \<Rightarrow> server_snapshot \<Rightarrow> gpus_view" where
  "GpusTab rt t resolveSeries snapshot =
     (if snap_gpus snapshot = [] then (let (title, hint) = no_gpus t snapshot in Gpus_Empty title hint)
      else Gpus_Cards
        (map (\<lambda>gpu. GpuLaneExpanded rt t gpu (resolveSeries (gpu_index gpu))
                 (gpuOwners gpu (snap_gpu_processes snapshot))
                 (map (gpu_process_row rt t (snap_processes snapshot)) (gpu_processes_of snapshot gpu)))
          (snap_gpus snapshot)))"

subsection \<open>OverviewTab.tsx\<close>

datatype gpu_section = Section_Empty string string | Section_Lanes "gpu_lane list"

definition GpuSection :: "js_runtime \<Rightarrow> dict \<Rightarrow> server_snapshot \<Rightarrow> gpu_section" where
  "GpuSection rt t snapshot =
     (if snap_gpus snapshot = [] then (let (title, hint) = no_gpus t snapshot in Section_Empty title hint)
      else Section_Lanes
        (map (\<lambda>gpu. GpuLane rt t False gpu (gpuOwners gpu (snap_gpu_processes snapshot))) (snap_gpus snapshot)))"

record mount_view =
  mw_device :: string
  mw_chip :: "string option"
  mw_mount :: string
  mw_meter :: meter_shown
  mw_free :: string

definition mount_view ::
  "js_runtime \<Rightarrow> dict \<Rightarrow> rat \<Rightarrow> rat \<Rightarrow> string option \<Rightarrow> storage_mount \<Rightarrow> mount_view" where
  "mount_view rt t warn crit chip mount =
     \<lparr>mw_device = mnt_device mount, mw_chip = chip, mw_mount = mnt_mount mount,
      mw_meter =
        meter_shown rt (mnt_percent mount) DEFAULT_SEGMENTS (Some (mount_state warn crit mount))
          (Some (formatBytesPair rt (mnt_used_b mount) (mnt_total_b mount))),
      mw_free = tf (t ''storage.free'') [(''size'', formatBytes rt (mnt_free_b mount))]\<rparr>"

definition percent_used :: "js_runtime \<Rightarrow> dict \<Rightarrow> storage_mount \<Rightarrow> string" where
  "percent_used rt t mount =
     tf (t ''overview.percentUsed'')
       [(''n'', int_string rt (math_round (case finite_value (mnt_percent mount) of Some q \<Rightarrow> q | None \<Rightarrow> 0)))]"

record overview_view =
  ov_devices :: "string option"
  ov_gpus :: gpu_section
  ov_cpu :: string
  ov_cpu_meter :: meter_shown
  ov_load :: string
  ov_ram :: string
  ov_ram_meter :: meter_shown
  ov_ram_pair :: string
  ov_storage :: "mount_view option"
  ov_traffic :: string
  ov_network :: "string list list"
  ov_processes_meta :: "string option"
  ov_processes :: "string list list"

definition device_count :: "dict \<Rightarrow> server_snapshot \<Rightarrow> string option" where
  "device_count t snapshot =
     (let n = length (snap_gpus snapshot)
      in if n > 0
         then Some (tf (if n = 1 then t ''overview.deviceOne'' else t ''overview.deviceMany'') [(''n'', show_nat n)])
         else None)"

definition overview_iface :: "js_runtime \<Rightarrow> dict \<Rightarrow> network_interface_info \<Rightarrow> string list" where
  "overview_iface rt t iface =
     [nif_name iface, or_dash (nif_ip iface),
      tf (t ''overview.rx'') [(''rate'', rateText rt (nif_rx_bps iface))],
      tf (t ''overview.tx'') [(''rate'', rateText rt (nif_tx_bps iface))]]"

definition overview_process :: "js_runtime \<Rightarrow> process_info \<Rightarrow> string list" where
  "overview_process rt proc =
     [number_string (prc_pid proc), or_dash (prc_user proc), or_dash (prc_name proc),
      formatPercent rt (prc_cpu_percent proc) 1]"

definition OverviewTab :: "js_runtime \<Rightarrow> dict \<Rightarrow> server_snapshot \<Rightarrow> overview_view" where
  "OverviewTab rt t snapshot =
     (let cpu = snap_cpu snapshot; memory = snap_memory snapshot; (rx, tx) = network_totals snapshot
      in \<lparr>ov_devices = device_count t snapshot,
          ov_gpus = GpuSection rt t snapshot,
          ov_cpu = formatPercent rt (Option.bind cpu cpu_percent) 0,
          ov_cpu_meter = meter_shown rt (Option.bind cpu cpu_percent) DEFAULT_SEGMENTS None None,
          ov_load =
            tf (t ''overview.load'') [(''loads'', loadValuesText rt t cpu), (''cores'', overview_cores t cpu snapshot)],
          ov_ram = formatPercent rt (Option.bind memory mem_percent) 0,
          ov_ram_meter = meter_shown rt (Option.bind memory mem_percent) DEFAULT_SEGMENTS None None,
          ov_ram_pair = formatBytesPair rt (Option.bind memory mem_used_b) (Option.bind memory mem_total_b),
          ov_storage =
            map_option (\<lambda>m. mount_view rt t OVERVIEW_STORAGE_WARN OVERVIEW_STORAGE_CRIT (Some (percent_used rt t m)) m)
              (storageWarning snapshot),
          ov_traffic = tf (t ''overview.rxTx'') [(''rx'', rateText rt rx), (''tx'', rateText rt tx)],
          ov_network = map (overview_iface rt t) (snap_network snapshot),
          ov_processes_meta =
            (if snap_processes snapshot \<noteq> []
             then Some (tf (t ''overview.topProcessesMeta'') [(''n'', show_nat (length (snap_processes snapshot)))])
             else None),
          ov_processes = map (overview_process rt) (topProcesses snapshot)\<rparr>)"

subsection \<open>StorageTab.tsx\<close>

datatype storage_view = Storage_Empty string string | Storage_Mounts string "mount_view list"

definition StorageTab :: "js_runtime \<Rightarrow> dict \<Rightarrow> server_snapshot \<Rightarrow> storage_view" where
  "StorageTab rt t snapshot =
     (let mounts = StorageTab_mounts snapshot; n = length mounts
      in if mounts = [] then Storage_Empty (t ''storage.empty'') (empty_hint ''storage'' (t ''storage.emptyHint'') snapshot)
         else Storage_Mounts
           (tf (if n = 1 then t ''storage.mountsOne'' else t ''storage.mountsMany'') [(''n'', show_nat n)])
           (map (\<lambda>m. mount_view rt t STORAGE_WARN STORAGE_CRIT (mnt_fstype m) m) mounts))"

subsection \<open>FleetMachinePanel.tsx\<close>

definition shown_ring :: "dot_status \<Rightarrow> bool" where
  "shown_ring dot \<longleftrightarrow> dot = Dot_Offline \<or> dot = Dot_Error"

text \<open>\<open>gpu_model\<close> and count with a multiplication sign, and the system, joined by a middle dot.\<close>

definition platform_text :: "fleet_entry \<Rightarrow> string option" where
  "platform_text entry =
     (let parts =
            (case fle_gpu_model entry of
               Some model \<Rightarrow> [model @ '' '' @ [CHR 0xC3, CHR 0x97] @ number_string (fle_gpu_count entry)]
             | None \<Rightarrow> [])
            @ (case fle_os_pretty entry of Some os \<Rightarrow> [os] | None \<Rightarrow> [])
      in if parts \<noteq> [] then Some (join [CHR '' '', CHR 0xC2, CHR 0xB7, CHR '' ''] parts) else None)"

definition panel_stale :: "server_snapshot option \<Rightarrow> bool" where
  "panel_stale snapshot \<longleftrightarrow> (case snapshot of Some s \<Rightarrow> snap_stale s | None \<Rightarrow> False)"

definition stale_label ::
  "js_runtime \<Rightarrow> dict \<Rightarrow> fleet_entry \<Rightarrow> server_snapshot option \<Rightarrow> rat \<Rightarrow> string" where
  "stale_label rt t entry snapshot now =
     (let generated = Option.bind snapshot snap_generated_at;
          seen = (if generated \<noteq> None then generated else fle_updated_at entry);
          ago = relative_label rt t (map_option TsText seen) now
      in if ago = EM_DASH then t ''status.stale'' else tf (t ''fleet.stale'') [(''ago'', ago)])"

definition disk_chip :: "js_runtime \<Rightarrow> dict \<Rightarrow> fleet_entry \<Rightarrow> server_snapshot option \<Rightarrow> string option" where
  "disk_chip rt t entry snapshot =
     (if \<not> fle_disk_warning entry then None
      else
        (case maxDiskPercent snapshot of
           Some (Fin q) \<Rightarrow> Some (tf (t ''fleet.diskWarn'') [(''percent'', int_string rt (math_round q) @ ''%'')])
         | Some x \<Rightarrow> Some (tf (t ''fleet.diskWarn'') [(''percent'', number_string x @ ''%'')])
         | None \<Rightarrow> Some (t ''fleet.diskWarnBare'')))"

datatype zone_view =
    Zone_Lanes "gpu_lane list" "string option"
  | Zone_Summary string "meter_shown option"
  | Zone_Text string

definition zone_view :: "js_runtime \<Rightarrow> dict \<Rightarrow> gpu_zone \<Rightarrow> zone_view" where
  "zone_view rt t zone =
     (case zone of
        GzLanes lanes hidden \<Rightarrow>
          Zone_Lanes (map (\<lambda>(gpu, owners). GpuLane rt t False gpu owners) lanes)
            (if num_gt hidden (Fin 0) then Some (tf (t ''fleet.moreGpus'') [(''n'', number_string hidden)]) else None)
      | GzSummary gpus busy free vram \<Rightarrow>
          Zone_Summary
            (tf (t ''fleet.gpuSummary'')
               [(''count'', number_string gpus), (''busy'', number_string busy), (''free'', number_string free)])
            (map_option (\<lambda>(used, total_b). vram_shown rt used (Some total_b) None 12) vram)
      | GzNone \<Rightarrow> Zone_Text (t ''fleet.noGpus''))"

record panel_head =
  ph_dot :: dot_status
  ph_ring :: bool
  ph_name :: string
  ph_endpoint :: string
  ph_fresh :: string
  ph_notice :: "notice option"
  ph_menu :: "(string \<times> bool) list"

definition panel_head ::
  "js_runtime \<Rightarrow> dict \<Rightarrow> fleet_entry \<Rightarrow> rat \<Rightarrow> machine_panel \<Rightarrow> panel_head" where
  "panel_head rt t entry now panel =
     (let dot = dotStatusFromServerStatus (fle_status entry)
      in \<lparr>ph_dot = dot, ph_ring = shown_ring dot, ph_name = fle_display_name entry,
          ph_endpoint = or_dash (fle_ssh_endpoint entry),
          ph_fresh =
            tf (t ''common.updated'')
              [(''ago'', relative_label rt t (map_option TsText (fle_updated_at entry)) now)],
          ph_notice = mp_notice panel,
          ph_menu =
            [(if mp_testing panel then t ''fleet.testing'' else t ''fleet.testConnection'', mp_testing panel),
             (t ''common.open'', False),
             (if fle_enabled entry then t ''common.disable'' else t ''common.enable'', False),
             (t ''common.remove'', False)]\<rparr>)"

datatype panel_view =
    Panel_Disabled panel_head string
  | Panel_Full panel_head "string option" "string option" bool meter_shown meter_shown "string option" zone_view
      "string option"

text \<open>The last part is the title of the confirmation, when it is open.\<close>

definition panel_view ::
  "js_runtime \<Rightarrow> dict \<Rightarrow> fleet_entry \<Rightarrow> server_snapshot option \<Rightarrow> rat \<Rightarrow> machine_panel \<Rightarrow> panel_view" where
  "panel_view rt t entry snapshot now panel =
     (let head = panel_head rt t entry now panel
      in if \<not> fle_enabled entry then Panel_Disabled head (t ''settings.disabled'')
         else
           Panel_Full head
             (if panel_stale snapshot then Some (stale_label rt t entry snapshot now) else None)
             (platform_text entry) (panel_dim entry snapshot)
             (meter_shown rt (fle_cpu_percent entry) 16 None None)
             (meter_shown rt (fle_memory_percent entry) 16 None None)
             (disk_chip rt t entry snapshot)
             (zone_view rt t (gpu_zone_of entry snapshot))
             (if mp_confirmRemove panel
              then Some (tf (t ''fleet.removeConfirm'') [(''name'', fle_display_name entry)]) else None))"

subsection \<open>Nothing is invented\<close>

text \<open>A meter of a missing reading is empty and says so; no reported one does.\<close>

lemma meter_label_NA: "meter_label rt v None = NA \<longleftrightarrow> finite_value v = None"
  using ends_not_NA [of "CHR 0x25"] by (auto simp: meter_label_def split: option.splits)

lemma empty_meter:
  assumes "finite_value v = None"
  shows "mv_filled (sm_meter (meter_shown rt v segments state text)) = 0 \<and>
    mv_fill_percent (sm_meter (meter_shown rt v segments state text)) = 0"
  using assms math_round_of_int [of 0] by (simp add: meter_shown_def SegmentedMeter_def)

lemma pair_NA: "formatBytesPair rt used total_b = NA \<longleftrightarrow> finite_value total_b = None"
  using space_not_NA by (auto simp: formatBytesPair_def Let_def split: option.splits)

lemma vram_text_NA: "sm_text (vram_shown rt u total_b p n) = NA \<longleftrightarrow> finite_value total_b = None"
  by (cases total_b) (simp_all add: vram_shown_def pair_NA finite_value_def)

lemma thermal_empty: "thermalToneFor v = TT_Empty \<longleftrightarrow> v = None"
  by (simp add: thermalToneFor_def split: option.split)

text \<open>
  \<open>String\<close> of a finite number begins with a digit or a minus sign; the conversion of numbers beyond
  \<open>10 ^ 21\<close> is the runtime's, the others are written out.
\<close>

definition numeral_start :: "string \<Rightarrow> bool" where
  "numeral_start s \<longleftrightarrow> (case s of c # _ \<Rightarrow> is_digit c \<or> c = CHR ''-'' | [] \<Rightarrow> False)"

definition prints_numerals :: "js_runtime \<Rightarrow> bool" where
  "prints_numerals rt \<longleftrightarrow> (\<forall>q. numeral_start (rt_number_string rt (Fin q)))"

lemma numeral_start_append: "numeral_start s \<Longrightarrow> numeral_start (s @ u)"
  by (auto simp: numeral_start_def split: list.splits)

lemma numeral_start_digits: "list_all is_digit s \<Longrightarrow> s \<noteq> [] \<Longrightarrow> numeral_start s"
  by (auto simp: numeral_start_def split: list.splits)

lemma show_nat_start: "numeral_start (show_nat n)"
  by (rule numeral_start_digits) (simp_all add: show_nat_digits)

lemma formatInUnit_start:
  assumes "prints_numerals rt" shows "numeral_start (formatInUnit rt b u)"
proof -
  have whole: "numeral_start (int_string rt i)" for i
    using assms show_nat_start by (simp add: int_string_def prints_numerals_def show_int_def) (simp add: numeral_start_def)
  have "numeral_start (toFixed rt 1 x)" for x
  proof -
    define digits where "digits = pad_zeros 2 (show_nat (nat (math_round (\<bar>x\<bar> * 10))))"
    have "list_all is_digit digits" "2 \<le> length digits"
      using show_nat_digits zeros_digits by (auto simp: digits_def pad_zeros_def zeros_def [symmetric])
    then have "numeral_start (take (length digits - 1) digits)"
      by (intro numeral_start_digits) (auto simp: list_all_iff dest: in_set_takeD)
    then have "numeral_start ((if x < 0 then ''-'' else '''') @ take (length digits - 1) digits @ ''.'' @ u)" for u
      using numeral_start_append by (auto simp: numeral_start_def [of "_ # _"])
    then show ?thesis using assms by (simp add: toFixed_def Let_def prints_numerals_def digits_def numeral_2_eq_2)
  qed
  then show ?thesis using whole by (simp add: formatInUnit_def Let_def)
qed

text \<open>The memory of a lane: all of it missing without a total, only the use without a use.\<close>

lemma vram_text_start:
  assumes "prints_numerals rt"
  shows "prefix NA (sm_text (vram_shown rt u total_b p n)) \<longleftrightarrow> finite_value u = None \<or> finite_value total_b = None"
proof -
  have "\<not> prefix NA (s @ x)" if "numeral_start s" for s x
    using that by (auto simp: numeral_start_def NA_def is_digit_def byte_def split: list.splits)
  then show ?thesis
    using formatInUnit_start [OF assms]
    by (cases total_b) (auto simp: vram_shown_def formatBytesPair_def finite_value_def NA_def Let_def split: option.splits js_number.splits)
qed

text \<open>Each reading of a lane reads \<open>N/A\<close> exactly when the machine did not report it.\<close>

lemma lane_honest:
  assumes "prints_numerals rt" "lane = GpuLane rt t l gpu owners"
  shows "(sm_text (ln_util lane) = NA \<longleftrightarrow> finite_value (gpu_utilization_percent gpu) = None) \<and>
    (sm_text (ln_vram lane) = NA \<longleftrightarrow> finite_value (gpu_vram_total_b gpu) = None) \<and>
    (prefix NA (sm_text (ln_vram lane)) \<longleftrightarrow>
       finite_value (gpu_vram_used_b gpu) = None \<or> finite_value (gpu_vram_total_b gpu) = None) \<and>
    (ln_temperature lane = NA \<longleftrightarrow> finite_value (gpu_temperature_c gpu) = None) \<and>
    (ln_tone lane = TT_Empty \<longleftrightarrow> finite_value (gpu_temperature_c gpu) = None) \<and>
    (ln_power lane = NA \<longleftrightarrow> finite_value (gpu_power_watts gpu) = None)"
  unfolding assms(2)
  by (simp add: GpuLane_def Let_def meter_shown_def meter_label_NA vram_text_NA vram_text_start [OF assms(1)]
      formatters_NA thermal_empty)

text \<open>The panel of a machine: at most four lanes, and a line for the rest.\<close>

lemma zone_lanes:
  assumes "zone_view rt t (gpu_zone_of entry snapshot) = Zone_Lanes lanes line" "fle_gpu_count entry = num_of_int n"
  shows "length lanes = min MAX_LANES (lane_count entry snapshot) \<and>
    (line = None \<longleftrightarrow> max n (int (lane_count entry snapshot)) \<le> int (length lanes))"
proof -
  have v: "lanes = map (\<lambda>(gpu, owners). GpuLane rt t False gpu owners) (visible_lanes entry snapshot)"
    and m: "line = None \<longleftrightarrow> \<not> num_gt (hidden_lanes entry snapshot) (Fin 0)"
    using assms(1) by (auto simp: zone_view_def gpu_zone_of_def split: if_splits)
  then have l: "length lanes = length (visible_lanes entry snapshot)" by simp
  have "num_plus (num_of_nat (length lanes)) (hidden_lanes entry snapshot) =
      num_of_int (max n (int (lane_count entry snapshot)))"
    unfolding l by (rule lanes_account [OF assms(2)])
  then obtain q where q: "hidden_lanes entry snapshot = Fin q"
      "of_nat (length lanes) + q = of_int (max n (int (lane_count entry snapshot)))"
    by (cases "hidden_lanes entry snapshot") (auto simp: num_of_nat_def num_of_int_def)
  then have "num_gt (hidden_lanes entry snapshot) (Fin 0) \<longleftrightarrow> \<not> q \<le> 0" by auto
  also have "q \<le> 0 \<longleftrightarrow> (of_int (max n (int (lane_count entry snapshot))) :: rat) \<le> of_int (int (length lanes))"
    using q(2) by auto
  finally show ?thesis using m l lane_bound by (simp del: of_int_of_nat_eq)
qed

text \<open>The overview shows every device with its owners; the GPU tab the same devices with the same lanes.\<close>

lemma tabs_agree:
  "(case (GpuSection rt t snapshot, GpusTab rt t resolve snapshot) of
      (Section_Lanes lanes, Gpus_Cards cards) \<Rightarrow>
        map (\<lambda>l. l\<lparr>ln_name := None\<rparr>) lanes = map gc_lane cards
    | (Section_Empty title hint, Gpus_Empty title' hint') \<Rightarrow> title = title' \<and> hint = hint'
    | _ \<Rightarrow> False)"
  by (simp add: GpuSection_def GpusTab_def GpuLane_def GpuLaneExpanded_def Let_def split: prod.split)

text \<open>The storage tab shows every mount once, the fullest first.\<close>

lemma storage_rows:
  assumes "StorageTab rt t snapshot = Storage_Mounts heading rows"
  shows "mset (map mw_mount rows) = mset (map mnt_mount (snap_storage snapshot))"
proof -
  have "map mw_mount rows = map mnt_mount (StorageTab_mounts snapshot)"
    using assms by (auto simp: StorageTab_def Let_def mount_view_def split: if_splits)
  then show ?thesis by (simp add: StorageTab_mounts_def)
qed

end
