(* ===== verification/SyncView.thy ===== *)
theory SyncView
  imports SyncDialog Transfers
begin

text \<open>
  \<open>features/workspace/SyncDialog.tsx\<close> on screen: the rows of the plan, and which targets the
  select offers. The dialog starts without a target. A \<open>select\<close> element whose value is none of its
  options displays the first one, and fires no event when that one is picked: the first enabled
  server, and an only one, cannot be chosen.
\<close>

subsection \<open>Rows\<close>

record sync_detail =
  sd_flow :: string
  sd_strategy :: "string option"
  sd_warnings :: "string list"

record sync_row =
  sr_label :: string
  sr_toggle :: "bool option"
  sr_status :: string
  sr_action :: "string \<times> chip_tone"
  sr_reason :: "string option"
  sr_detail :: "sync_detail option"

text \<open>An arrow between blanks, in UTF-8.\<close>

definition ARROW :: string where
  "ARROW = [CHR '' '', CHR 0xE2, CHR 0x86, CHR 0x92, CHR '' '']"

definition or_unknown :: "string option \<Rightarrow> string" where
  "or_unknown x = (case x of Some s \<Rightarrow> s | None \<Rightarrow> ''?'')"

definition sync_detail_of :: "dict \<Rightarrow> server_record list \<Rightarrow> artifact_sync_item \<Rightarrow> sync_detail" where
  "sync_detail_of t servers item =
     \<lparr>sd_flow =
        serverName t servers (asi_source_server_id item) @ '':'' @ or_unknown (asi_source_path item) @ ARROW @
        or_unknown (asi_target_path item),
      sd_strategy =
        map_option (\<lambda>s. t ''workspace.syncStrategy'' @ '': '' @ strategyWord t s) (asi_strategy_selected item),
      sd_warnings = asi_warnings item\<rparr>"

definition SyncItemRow :: "dict \<Rightarrow> server_record list \<Rightarrow> bool \<Rightarrow> artifact_sync_item \<Rightarrow> sync_row" where
  "SyncItemRow t servers expanded item =
     (let transfer = asi_action item = Act_Transfer
      in \<lparr>sr_label = asi_artifact_label item,
          sr_toggle = (if transfer then Some expanded else None),
          sr_status = statusWord t (asi_target_status item),
          sr_action = (actionWord t (asi_action item), actionTone (asi_action item)),
          sr_reason =
            (if asi_action item = Act_Unresolved \<and> asi_reason item \<noteq> '''' then Some (asi_reason item) else None),
          sr_detail = (if transfer \<and> expanded then Some (sync_detail_of t servers item) else None)\<rparr>)"

definition sync_rows :: "dict \<Rightarrow> server_record list \<Rightarrow> sync_dialog \<Rightarrow> sync_row list" where
  "sync_rows t servers d =
     map (\<lambda>item. SyncItemRow t servers (sy_expanded d (asi_artifact_id item) = Some True) item)
       (plan_items (sy_store d))"

record sync_view =
  vw_busy :: "string option"
  vw_errors :: "string list"
  vw_rows :: "sync_row list"
  vw_hint :: "string option"
  vw_confirm :: "string \<times> bool"
  vw_cancel :: bool

text \<open>The errors in their order: of the plan request, of the plan, of the sync.\<close>

definition sync_view :: "dict \<Rightarrow> server_record list \<Rightarrow> sync_dialog \<Rightarrow> sync_view" where
  "sync_view t servers d =
     (let w = sy_store d
      in \<lparr>vw_busy = (if wk_syncPlanLoading w then Some (t ''workspace.syncPlanning'') else None),
          vw_errors =
            (case wk_syncPlanError w of Some e \<Rightarrow> [e] | None \<Rightarrow> [])
            @ (case wk_syncPlan w of Some plan \<Rightarrow> if planInvalid w then [psp_error plan] else [] | None \<Rightarrow> [])
            @ (case wk_syncError w of Some e \<Rightarrow> [e] | None \<Rightarrow> []),
          vw_rows = sync_rows t servers d,
          vw_hint = (if unresolvedCount w > 0 then Some (t ''workspace.syncUnresolvedHint'') else None),
          vw_confirm = (confirm_label t w, canConfirm w),
          vw_cancel = (\<not> wk_syncRunning w)\<rparr>)"

text \<open>An enabled confirmation names the number of its transfers, and no row waits for a decision.\<close>

lemma confirm_names_transfers:
  assumes "snd (vw_confirm (sync_view t servers d))"
  shows "fst (vw_confirm (sync_view t servers d)) =
      tf (t ''workspace.syncConfirm'') [(''n'', show_nat (length (filter (\<lambda>r. sr_toggle r \<noteq> None) (sync_rows t servers d))))] \<and>
    list_all (\<lambda>r. sr_reason r = None) (sync_rows t servers d) \<and>
    vw_errors (sync_view t servers d) = (case wk_syncPlanError (sy_store d) of Some e \<Rightarrow> [e] | None \<Rightarrow> [])
      @ (case wk_syncError (sy_store d) of Some e \<Rightarrow> [e] | None \<Rightarrow> [])"
proof -
  have can: "canConfirm (sy_store d)" using assms by (simp add: sync_view_def Let_def)
  have "length (filter (\<lambda>r. sr_toggle r \<noteq> None) (sync_rows t servers d)) = transferCount (sy_store d)"
    by (simp add: sync_rows_def filter_map o_def SyncItemRow_def Let_def transferCount_def)
  moreover have "transferCount (sy_store d) \<noteq> 0" "\<not> planInvalid (sy_store d)"
    using can by (simp_all add: canConfirm_def)
  moreover have "list_all (\<lambda>r. sr_reason r = None) (sync_rows t servers d)"
    using canConfirm_plan [OF can]
    by (auto simp: sync_rows_def plan_items_def SyncItemRow_def Let_def list_all_iff)
  ultimately show ?thesis
    by (simp add: sync_view_def Let_def confirm_label_def split: option.splits)
qed

subsection \<open>The target select\<close>

definition target_options :: "server_record list \<Rightarrow> string list" where
  "target_options servers =
     (if enabledServers servers = [] then [''''] else map srv_server_id (enabledServers servers))"

text \<open>What a \<open>select\<close> element displays for a controlled value, and the values picking can report.\<close>

definition select_shown :: "string list \<Rightarrow> string \<Rightarrow> string option" where
  "select_shown options v = (if v \<in> set options then Some v else case options of [] \<Rightarrow> None | x # _ \<Rightarrow> Some x)"

definition can_pick :: "string list \<Rightarrow> string \<Rightarrow> string \<Rightarrow> bool" where
  "can_pick options v x \<longleftrightarrow> x \<in> set options \<and> select_shown options v \<noteq> Some x"

datatype sync_event =
    Sy_Open
  | Sy_Close
  | Sy_Choose string
  | Sy_Toggle string
  | Sy_Confirm
  | Sy_Answer nat network

fun sync_enabled :: "server_record list \<Rightarrow> sync_event \<Rightarrow> sync_dialog \<Rightarrow> bool" where
  "sync_enabled servers Sy_Open d = (\<not> sy_open d)"
| "sync_enabled servers Sy_Close d = (sy_open d \<and> \<not> wk_syncRunning (sy_store d))"
| "sync_enabled servers (Sy_Choose x) d = (sy_open d \<and> can_pick (target_options servers) (sy_targetServerId d) x)"
| "sync_enabled servers (Sy_Toggle i) d = sy_open d"
| "sync_enabled servers Sy_Confirm d = sy_open d"
| "sync_enabled servers (Sy_Answer k net) d = (k < length (wk_pending (sy_store d)))"

text \<open>The answer to a sync of the dialog continues \<open>confirm\<close>; any other one is the store's.\<close>

definition sync_answer :: "js_runtime \<Rightarrow> nat \<Rightarrow> network \<Rightarrow> sync_dialog \<Rightarrow> sync_dialog" where
  "sync_answer rt k net d =
     (case wk_pending (sy_store d) ! k of
        WcSync i body \<Rightarrow>
          confirm_done (syncProject rt net i body)
            (in_store (\<lambda>w. w\<lparr>wk_pending := take k (wk_pending w) @ drop (Suc k) (wk_pending w)\<rparr>) d)
      | _ \<Rightarrow> in_store (ws_answer rt k net) d)"

fun sync_apply :: "js_runtime \<Rightarrow> sync_event \<Rightarrow> sync_dialog \<Rightarrow> sync_dialog" where
  "sync_apply rt Sy_Open d = set_open True d"
| "sync_apply rt Sy_Close d = set_open False d"
| "sync_apply rt (Sy_Choose x) d = choose_target x d"
| "sync_apply rt (Sy_Toggle i) d = toggle_item i d"
| "sync_apply rt Sy_Confirm d = press_confirm d"
| "sync_apply rt (Sy_Answer k net) d = sync_answer rt k net d"

inductive sync_step ::
  "js_runtime \<Rightarrow> server_record list \<Rightarrow> sync_dialog \<Rightarrow> sync_event \<Rightarrow> sync_dialog \<Rightarrow> bool" for rt servers where
  sync_stepI: "sync_enabled servers e d \<Longrightarrow> sync_step rt servers d e (sync_apply rt e d)"

inductive_cases sync_stepE: "sync_step rt servers d e d'"

fun sync_call :: "workspace_call \<Rightarrow> bool" where
  "sync_call (WcSyncPlan _ _) = True"
| "sync_call (WcSync _ _) = True"
| "sync_call _ = False"

definition sync_calls :: "sync_dialog \<Rightarrow> workspace_call list" where
  "sync_calls d = filter sync_call (wk_pending (sy_store d))"

text \<open>The page mounts with no plan or sync in flight.\<close>

inductive sync_reach :: "js_runtime \<Rightarrow> server_record list \<Rightarrow> sync_dialog \<Rightarrow> bool" for rt servers where
  sync_reach_init:
    "filter sync_call (wk_pending w) = [] \<Longrightarrow> sync_reach rt servers (SyncDialog projectId w tr)"
| sync_reach_step: "sync_reach rt servers d \<Longrightarrow> sync_step rt servers d e d' \<Longrightarrow> sync_reach rt servers d'"

lemmas sync_ops = set_open_def sync_opened_def sync_target_changed_def choose_target_def toggle_item_def
  press_confirm_def confirm_def in_store_def Let_def

lemma only_option: "\<not> can_pick [x] v y"
  by (auto simp: can_pick_def select_shown_def)

definition no_target :: "sync_dialog \<Rightarrow> bool" where
  "no_target d \<longleftrightarrow> sy_targetServerId d = '''' \<and> sync_calls d = []"

lemma no_target_answer:
  assumes d: "no_target d" and k: "k < length (wk_pending (sy_store d))"
  shows "no_target (sync_answer rt k net d)"
proof -
  let ?w = "sy_store d"
  let ?c = "wk_pending ?w ! k"
  let ?rest = "take k (wk_pending ?w) @ drop (Suc k) (wk_pending ?w)"
  have rest: "filter sync_call ?rest = []"
    using d set_take_subset [of k "wk_pending ?w"] set_drop_subset [of "Suc k" "wk_pending ?w"]
    by (auto simp: no_target_def sync_calls_def filter_empty_conv)
  have "\<not> sync_call ?c" using d k by (auto simp: no_target_def sync_calls_def filter_empty_conv)
  then have a: "sync_answer rt k net d = in_store (ws_answer rt k net) d"
    by (cases ?c) (simp_all add: sync_answer_def)
  obtain new where "wk_pending (ws_answer rt k net ?w) = ?rest @ new" "set new \<subseteq> {WcListProjects}"
    using pending_reply [of rt net ?c "?w\<lparr>wk_pending := ?rest\<rparr>"] by (auto simp: ws_answer_def)
  then show ?thesis using d rest
    by (auto simp: a no_target_def sync_calls_def in_store_def filter_empty_conv)
qed

lemma no_target_apply:
  assumes "no_target d" "sync_enabled servers e d" "enabledServers servers = [s]"
  shows "no_target (sync_apply rt e d)"
proof (cases e)
  case (Sy_Answer k net)
  then show ?thesis using assms no_target_answer by simp
next
  case (Sy_Choose x)
  then show ?thesis using assms only_option by (simp add: target_options_def)
qed (use assms in \<open>auto simp: no_target_def sync_calls_def sync_ops resetSyncPlan_def\<close>)

lemma no_target_reach:
  assumes "sync_reach rt servers d" "enabledServers servers = [s]"
  shows "no_target d"
  using assms(1)
proof (induction rule: sync_reach.induct)
  case (sync_reach_init w projectId tr)
  then show ?case by (simp add: no_target_def sync_calls_def SyncDialog_def)
next
  case (sync_reach_step d e d')
  then show ?case using no_target_apply [OF _ _ assms(2)] by (auto elim!: sync_stepE)
qed

text \<open>The first of several servers can be chosen only after another one.\<close>

lemma first_not_first:
  assumes "enabledServers servers = s # rest" "sy_targetServerId d = ''''"
    "'''' \<notin> set (target_options servers)"
  shows "\<not> sync_enabled servers (Sy_Choose (srv_server_id s)) d"
  using assms by (simp add: can_pick_def select_shown_def target_options_def)

end
