(* ===== verification/PageViews.thy ===== *)
theory PageViews
  imports TelemetryViews SyncView ProjectDetail SettingsPage Shell
begin

text \<open>
  What four pages show, composed from the views of their parts: the fleet page
  (\<open>features/fleet/FleetPage.tsx\<close>), the page of a server (\<open>features/server/ServerPage.tsx\<close>), the
  settings (\<open>features/settings/SettingsPage.tsx\<close>) and the page of a project
  (\<open>features/workspace/ProjectDetail.tsx\<close>).
\<close>

subsection \<open>FleetPage.tsx\<close>

datatype fleet_view =
    Fleet_Error string string
  | Fleet_Skeleton
  | Fleet_Empty string string
  | Fleet_Panels "panel_view list"

definition sort_label :: "dict \<Rightarrow> fleet_sort_key \<Rightarrow> string" where
  "sort_label t key =
     (case key of Key_Name \<Rightarrow> t ''fleet.sortName'' | Key_Status \<Rightarrow> t ''fleet.sortStatus''
      | Key_Gpus \<Rightarrow> t ''fleet.sortGpus'')"

text \<open>The sort buttons: label, pressed, and the arrow of the active one (up or down, in UTF-8).\<close>

definition sort_buttons :: "dict \<Rightarrow> fleet_sort \<Rightarrow> (string \<times> bool \<times> string) list" where
  "sort_buttons t fleetSort =
     map (\<lambda>key.
        (let active = fst_key fleetSort = key
         in (sort_label t key, active,
             if \<not> active then ''''
             else if fst_direction fleetSort = Dir_Asc then [CHR 0xE2, CHR 0x86, CHR 0x91]
             else [CHR 0xE2, CHR 0x86, CHR 0x93])))
       [Key_Name, Key_Status, Key_Gpus]"

record fleet_page =
  fp_aggregate :: "string option"
  fp_fixture :: "string option"
  fp_sorts :: "(string \<times> bool \<times> string) list"
  fp_body :: fleet_view

text \<open>
  \<open>panels\<close> is the state of each panel by its server; \<open>fixture_snapshots\<close> goes with the fixture
  summary of the preview.
\<close>

definition FleetPage ::
  "js_runtime \<Rightarrow> dict \<Rightarrow> collator \<Rightarrow> bool \<Rightarrow> fleet_summary \<Rightarrow> (string \<rightharpoonup> server_snapshot) \<Rightarrow> rat \<Rightarrow>
   (string \<Rightarrow> machine_panel) \<Rightarrow> console_state \<Rightarrow> fleet_page" where
  "FleetPage rt t lc previewing fixtures fixture_snapshots now panels st =
     (let useFixtures = previewing \<and> cs_fleetSummary st = None;
          snapshots = (if useFixtures then fixture_snapshots else cs_snapshots st)
      in \<lparr>fp_aggregate =
            map_option (\<lambda>source. aggregateLine rt t (fls_servers source))
              (fleet_source previewing fixtures (cs_fleetSummary st)),
          fp_fixture = (if useFixtures then Some (t ''fleet.fixtureChip'') else None),
          fp_sorts = sort_buttons t (cs_fleetSort st),
          fp_body =
            (case fleet_page_body lc previewing fixtures st of
               FbError detail \<Rightarrow> Fleet_Error (t ''fleet.error'') detail
             | FbSkeleton \<Rightarrow> Fleet_Skeleton
             | FbEmpty \<Rightarrow> Fleet_Empty (t ''fleet.empty'') (t ''fleet.emptyHint'')
             | FbPanels shown \<Rightarrow>
                 Fleet_Panels
                   (map (\<lambda>entry. panel_view rt t entry (snapshots (fle_server_id entry)) now
                           (panels (fle_server_id entry))) shown))\<rparr>)"

subsection \<open>ServerPage.tsx\<close>

datatype server_view =
    Server_Loading
  | Server_Error string string
  | Server_Tab "string option" server_tab_view
and server_tab_view =
    View_Overview overview_view
  | View_Gpus gpus_view
  | View_Processes
  | View_System "(string \<times> string) list"
  | View_SystemEmpty string
  | View_Storage storage_view
  | View_Network string "string list list"
  | View_NetworkEmpty string

definition tab_view ::
  "js_runtime \<Rightarrow> dict \<Rightarrow> (js_number \<rightharpoonup> gpu_history_series) \<Rightarrow> rat \<Rightarrow> server_tab \<Rightarrow> server_snapshot \<Rightarrow> server_tab_view" where
  "tab_view rt t resolveSeries now tab snapshot =
     (case tab of
        Tab_Overview \<Rightarrow> View_Overview (OverviewTab rt t snapshot)
      | Tab_Gpus \<Rightarrow> View_Gpus (GpusTab rt t resolveSeries snapshot)
      | Tab_Processes \<Rightarrow> View_Processes
      | Tab_System \<Rightarrow>
          (case snap_system snapshot of
             None \<Rightarrow> View_SystemEmpty (empty_hint ''system'' (t ''system.emptyHint'') snapshot)
           | Some system \<Rightarrow> View_System (SystemTab_rows rt t snapshot system now))
      | Tab_Storage \<Rightarrow> View_Storage (StorageTab rt t snapshot)
      | Tab_Network \<Rightarrow>
          if snap_network snapshot = []
          then View_NetworkEmpty (empty_hint ''network'' (t ''network.emptyHint'') snapshot)
          else View_Network (NetworkTab_meta t snapshot) (map (NetworkTab_row rt t) (snap_network snapshot)))"

text \<open>The chip of a stale body; its label counts from the current time \<open>date_now\<close>.\<close>

definition stale_strip ::
  "js_runtime \<Rightarrow> dict \<Rightarrow> rat \<Rightarrow> rat \<Rightarrow> server_snapshot \<Rightarrow> string option" where
  "stale_strip rt t date_now now snapshot =
     (if page_staleSeconds rt snapshot now \<noteq> None
      then Some (t ''status.stale'' @ [CHR '' '', CHR 0xC2, CHR 0xB7, CHR '' ''] @
                 relative_label rt t (map_option TsText (snap_generated_at snapshot)) date_now)
      else None)"

record identity_line =
  il_dot :: dot_status
  il_name :: string
  il_endpoint :: "string option"
  il_word :: string

definition IdentityLine ::
  "js_runtime \<Rightarrow> (server_status \<Rightarrow> string) \<Rightarrow> server_record option \<Rightarrow> string \<Rightarrow> server_status \<Rightarrow> identity_line" where
  "IdentityLine rt status_word record' displayName status =
     \<lparr>il_dot = dotStatusFromServerStatus status, il_name = displayName,
      il_endpoint = map_option (serverEndpoint rt) record', il_word = status_word status\<rparr>"

definition page_series ::
  "(string \<Rightarrow> server_snapshot option) \<Rightarrow> (string \<Rightarrow> js_number \<rightharpoonup> gpu_history_series) \<Rightarrow> console_state \<Rightarrow> string \<Rightarrow>
   js_number \<rightharpoonup> gpu_history_series" where
  "page_series fixtures fixture_history st serverId index =
     (case Option.bind (cs_history st serverId) (\<lambda>h. h index) of
        Some s \<Rightarrow> Some s
      | None \<Rightarrow>
          if cs_snapshots st serverId = None \<and> fixtures serverId \<noteq> None then fixture_history serverId index
          else None)"

definition ServerPage ::
  "js_runtime \<Rightarrow> dict \<Rightarrow> (server_status \<Rightarrow> string) \<Rightarrow> (string \<Rightarrow> server_snapshot option) \<Rightarrow>
   (string \<Rightarrow> js_number \<rightharpoonup> gpu_history_series) \<Rightarrow> server_tab list preference \<Rightarrow> rat \<Rightarrow> rat \<Rightarrow> console_state \<Rightarrow> string \<Rightarrow>
   identity_line option \<times> server_view" where
  "ServerPage rt t status_word fixtures fixture_history hidden date_now now st serverId =
     ((if page_showIdentity fixtures st serverId
       then Some (IdentityLine rt status_word (find (\<lambda>item. srv_server_id item = serverId) (cs_servers st))
                    (page_displayName fixtures st serverId) (page_status fixtures st serverId))
       else None),
      (case page_body t fixtures hidden st serverId status_word of
         Page_Loading \<Rightarrow> Server_Loading
       | Page_Error detail \<Rightarrow> Server_Error (t ''tabs.snapshotUnavailable'') detail
       | Page_Unreachable detail \<Rightarrow> Server_Error (t ''tabs.serverUnreachable'') detail
       | Page_Tab tab snapshot \<Rightarrow>
           Server_Tab (stale_strip rt t date_now now snapshot)
             (tab_view rt t (page_series fixtures fixture_history st serverId) now tab snapshot)))"

text \<open>The identity line stands exactly where the page shows no tab.\<close>

lemma identity_without_tab:
  "fst (ServerPage rt t status_word fixtures fixture_history hidden date_now now st serverId) = None \<longleftrightarrow>
   (\<exists>strip v. snd (ServerPage rt t status_word fixtures fixture_history hidden date_now now st serverId) =
      Server_Tab strip v)"
  by (auto simp: ServerPage_def page_showIdentity_def page_body_def split: option.splits if_splits)

subsection \<open>SettingsPage.tsx\<close>

definition theme_options :: "dict \<Rightarrow> theme_preference \<Rightarrow> (string \<times> bool) list" where
  "theme_options t current =
     map (\<lambda>(key, label). (t label, current = key))
       [(Th_Dark, ''settings.themeDark''), (Th_Minimal, ''settings.themeMinimal''),
        (Th_Warm, ''settings.themeWarm''), (Th_System, ''settings.themeSystem'')]"

text \<open>The Chinese label is the two characters of the language's name.\<close>

definition locale_options :: "locale_pref \<Rightarrow> (string \<times> bool) list" where
  "locale_options current =
     [(''English'', current = En),
      ([CHR 0xE4, CHR 0xB8, CHR 0xAD, CHR 0xE6, CHR 0x96, CHR 0x87], current = Zh)]"

definition section_toggles :: "dict \<Rightarrow> server_tab list preference \<Rightarrow> (server_tab \<times> string \<times> bool) list" where
  "section_toggles t hidden =
     map (\<lambda>tab. (tab, t (''tabs.'' @ tab_name tab), \<not> isSectionHidden tab hidden)) TOGGLEABLE_SECTIONS"

datatype health_view =
    Health_Checking string
  | Health_Down string string
  | Health_Up string "string list"
  | Health_None

definition health_view :: "dict \<Rightarrow> settings_page \<Rightarrow> health_view" where
  "health_view t s =
     (if st_healthLoading s then Health_Checking (t ''settings.checking'')
      else
        (case st_healthError s of
           Some e \<Rightarrow> Health_Down (t ''settings.unreachable'') e
         | None \<Rightarrow>
             (case st_health s of
                None \<Rightarrow> Health_None
              | Some h \<Rightarrow>
                  Health_Up (hlt_status h)
                    ((case hlt_scheduler_mode h of
                        Some mode \<Rightarrow> [tf (t ''settings.scheduler'') [(''mode'', mode)]] | None \<Rightarrow> []) @
                     (case hlt_realtime_clients h of
                        Some n \<Rightarrow> [tf (t ''settings.clients'') [(''n'', number_string n)]] | None \<Rightarrow> [])))))"

record registry_row =
  rg_name :: string
  rg_endpoint :: string
  rg_tags :: "string list"
  rg_enabled :: "string \<times> chip_tone"
  rg_dot :: "dot_status \<times> bool"
  rg_word :: string

definition registry_row ::
  "dict \<Rightarrow> (server_status \<Rightarrow> string) \<Rightarrow> server_record \<times> server_status \<Rightarrow> registry_row" where
  "registry_row t status_word row =
     (let (r, status) = row; dot = dotStatusFromServerStatus status
      in \<lparr>rg_name = srv_display_name r, rg_endpoint = endpointOf r,
          rg_tags = (if srv_tags r \<noteq> [] then srv_tags r else [EM_DASH]),
          rg_enabled =
            (if srv_enabled r then (t ''settings.enabled'', Tone_Ok) else (t ''settings.disabled'', Tone_Neutral)),
          rg_dot = (dot, shown_ring dot), rg_word = status_word status\<rparr>)"

text \<open>One theme and one language are checked; a section's button is pressed while its tab is shown.\<close>

lemma one_option_checked:
  "length (filter snd (theme_options t current)) = 1" "length (filter snd (locale_options l)) = 1"
  by (cases current; simp add: theme_options_def) (cases l; simp add: locale_options_def)

lemma toggles_show_tabs:
  assumes "(tab, label, pressed) \<in> set (section_toggles t hidden)" "ServerDetailTabs hidden (RServer i active) = Some tabs"
  shows "pressed \<longleftrightarrow> tab \<in> fst ` set tabs"
proof -
  have tabs: "fst ` set tabs = {x \<in> snd ` set SERVER_TABS. \<not> isSectionHidden x hidden}"
    using assms(2) by (force simp: ServerDetailTabs_def)
  have "tab \<in> set TOGGLEABLE_SECTIONS" "pressed \<longleftrightarrow> \<not> isSectionHidden tab hidden"
    using assms(1) by (auto simp: section_toggles_def)
  then show ?thesis by (auto simp: tabs TOGGLEABLE_SECTIONS_def SERVER_TABS_def)
qed

subsection \<open>ProjectDetail.tsx\<close>

record matrix_cell =
  mc_label :: string
  mc_state :: "distribution_state option"
  mc_mark :: string
  mc_word :: string
  mc_title :: "string option"

definition matrix_cell ::
  "js_runtime \<Rightarrow> dict \<Rightarrow> rat \<Rightarrow> workspace_store \<Rightarrow> string \<Rightarrow> artifact_record \<Rightarrow> server_record \<Rightarrow> matrix_cell" where
  "matrix_cell rt t now w projectId artifact server =
     (let state = cell_shown w projectId (art_artifact_id artifact) (srv_server_id server);
          (glyph, word) = cellState t state
      in \<lparr>mc_label = artifactLabel artifact @ '' / '' @ srv_display_name server @ '' / '' @ word,
          mc_state = state, mc_mark = glyph, mc_word = word,
          mc_title = cell_title rt t now w projectId (art_artifact_id artifact) (srv_server_id server)\<rparr>)"

record matrix_group =
  mg_heading :: string
  mg_rows :: "(string \<times> matrix_cell list) list"

datatype matrix_view = Matrix_Empty string | Matrix_NoServers string | Matrix_Table "string list" "matrix_group list"

definition matrix_view ::
  "js_runtime \<Rightarrow> dict \<Rightarrow> rat \<Rightarrow> workspace_store \<Rightarrow> server_record list \<Rightarrow> string \<Rightarrow> artifact_record list \<Rightarrow> matrix_view" where
  "matrix_view rt t now w servers projectId artifacts =
     (if artifacts = [] then Matrix_Empty (t ''workspace.matrixEmpty'')
      else if servers = [] then Matrix_NoServers (t ''workspace.noServersForRoots'')
      else
        Matrix_Table (map srv_display_name servers)
          (map (\<lambda>(kind, members).
             \<lparr>mg_heading =
                tf (t ''workspace.matrixGroupCount'')
                  [(''label'', kindLabel t kind), (''n'', show_nat (length members))],
              mg_rows =
                map (\<lambda>artifact. (artifactLabel artifact, map (matrix_cell rt t now w projectId artifact) servers))
                  members\<rparr>)
             (groupArtifactsByKind artifacts)))"

text \<open>A message the store has reset to the empty one is shown as an empty line.\<close>

definition project_errors :: "workspace_store \<Rightarrow> string \<Rightarrow> string list" where
  "project_errors w projectId =
     (case wk_projectInspectErrors w projectId of Some e \<Rightarrow> [e] | None \<Rightarrow> [])
     @ (case wk_distributionErrors w projectId of Some e \<Rightarrow> [e] | None \<Rightarrow> [])"

definition detail_config_row :: "dict \<Rightarrow> launch_config_record \<Rightarrow> row_texts" where
  "detail_config_row t config =
     \<lparr>rx_name = lch_name config, rx_desc = Some (commandLine config),
      rx_facts = or_empty (lch_working_dir config), rx_chips = gpu_chip t config,
      rx_menu = tf (t ''workspace.launchConfigActions'') [(''name'', lch_name config)]\<rparr>"

record project_view =
  pv_name :: string
  pv_desc :: "string option"
  pv_facts :: string
  pv_progress :: "string option"
  pv_inspect :: "string \<times> bool"
  pv_errors :: "string list"
  pv_matrix :: matrix_view
  pv_placements :: "(artifact_kind \<times> (artifact_record \<times> placement_record list) list) list"
  pv_configs :: "row_texts list"

definition project_view ::
  "js_runtime \<Rightarrow> dict \<Rightarrow> rat \<Rightarrow> server_record list \<Rightarrow> project_watch \<Rightarrow> project_record \<Rightarrow> project_view" where
  "project_view rt t now servers s project =
     (let w = wt_workspace s; projectId = wt_projectId s;
          inspecting = flag_at (wk_projectInspecting w) projectId;
          configs = project_configs w project
      in \<lparr>pv_name = prj_name project,
          pv_desc = shown_unless_empty (prj_description project),
          pv_facts =
            tf (t ''workspace.artifactCount'') [(''n'', show_nat (length (prj_artifact_ids project)))] @ MIDDOT @
            tf (t ''workspace.launchConfigCount'') [(''n'', show_nat (length configs))] @ MIDDOT @
            tf (t ''common.updated'') [(''ago'', relative_label rt t (Some (TsText (prj_updated_at project))) now)],
          pv_progress =
            map_option (\<lambda>b. tf (t ''workspace.syncProgress'')
               [(''done'', number_string (bat_completed_jobs b)), (''total'', number_string (bat_total_jobs b))])
              (active_batch s),
          pv_inspect = (if inspecting then t ''workspace.inspecting'' else t ''workspace.inspectAll'', \<not> inspecting),
          pv_errors = project_errors w projectId,
          pv_matrix = matrix_view rt t now w servers projectId (referenced w project),
          pv_placements = placement_groups (referenced w project) (referencedPlacements w project),
          pv_configs = map (detail_config_row t) configs\<rparr>)"

text \<open>
  The matrix has one row for every artifact the project references and the store knows, and in it
  one cell for every server, whatever the distribution lists.
\<close>

lemma group_lengths:
  "length (concat (map snd (groupArtifactsByKind artifacts))) = length artifacts"
  using groups_partition [of artifacts] by (simp add: length_concat o_def)

lemma matrix_complete:
  assumes "matrix_view rt t now w servers projectId artifacts = Matrix_Table names groups"
  shows "names = map srv_display_name servers \<and>
    length (concat (map mg_rows groups)) = length artifacts \<and>
    (\<forall>g \<in> set groups. \<forall>row \<in> set (mg_rows g). length (snd row) = length servers)"
proof -
  have g: "groups = map (\<lambda>(kind, members).
             \<lparr>mg_heading =
                tf (t ''workspace.matrixGroupCount'')
                  [(''label'', kindLabel t kind), (''n'', show_nat (length members))],
              mg_rows =
                map (\<lambda>artifact. (artifactLabel artifact, map (matrix_cell rt t now w projectId artifact) servers))
                  members\<rparr>) (groupArtifactsByKind artifacts)"
    and n: "names = map srv_display_name servers"
    using assms by (auto simp: matrix_view_def split: if_splits)
  have "length (concat (map mg_rows groups)) = length (concat (map snd (groupArtifactsByKind artifacts)))"
    unfolding g by (simp add: length_concat o_def case_prod_beta)
  then show ?thesis using n group_lengths by (auto simp: g)
qed

text \<open>A placement declared on a server always marks its cell; a cell without one shows the dash.\<close>

lemma declared_cell_marked:
  assumes "cell_placement w (art_artifact_id artifact) (srv_server_id server) \<noteq> None"
  shows "mc_state (matrix_cell rt t now w projectId artifact server) \<noteq> None"
  using assms by (simp add: matrix_cell_def Let_def cell_shown_def case_prod_beta split: option.split)

text \<open>Starting an inspection leaves an empty error line on the page until it fails.\<close>

lemma empty_error_line:
  "'''' \<in> set (project_errors (inspectProject_start projectId w) projectId)"
  by (simp add: project_errors_def inspectProject_start_def ws_call_def)

end
