(* ===== verification/DictionaryEn.thy ===== *)
theory DictionaryEn
  imports Prelude
begin

text \<open>
  \<open>i18n/en.ts\<close>: the English texts by section and key, the shape of the dictionary. Bytes outside
  printable ASCII, and the apostrophe, are written by their codes (UTF-8).
\<close>


definition en_nav :: "(string \<times> string) list" where
 "en_nav =
  [(''fleet'', ''Fleet''),
   (''workspace'', ''Workspace''),
   (''transfers'', ''Transfers''),
   (''servers'', ''Servers''),
   (''settings'', ''Settings''),
   (''back'', ''Back'')]"

definition en_common :: "(string \<times> string) list" where
 "en_common =
  [(''updated'', ''updated {ago}''),
   (''na'', ''N/A''),
   (''retry'', ''Retry''),
   (''cancel'', ''Cancel''),
   (''remove'', ''Remove''),
   (''edit'', ''Edit''),
   (''open'', ''Open''),
   (''disable'', ''Disable''),
   (''enable'', ''Enable''),
   (''done'', ''Done''),
   (''unknown'', ''unknown'')]"

definition en_relative :: "(string \<times> string) list" where
 "en_relative =
  [(''now'', ''just now''),
   (''s'', ''{n}s ago''),
   (''m'', ''{n}m ago''),
   (''h'', ''{n}h ago''),
   (''d'', ''{n}d ago'')]"

definition en_status :: "(string \<times> string) list" where
 "en_status =
  [(''online'', ''online''),
   (''offline'', ''offline''),
   (''connecting'', ''connecting''),
   (''reconnecting'', ''reconnecting''),
   (''timeout'', ''timeout''),
   (''authentication_failed'', ''auth failed''),
   (''host_key_error'', ''host key error''),
   (''degraded'', ''degraded''),
   (''stale'', ''stale''),
   (''unknown'', ''unknown'')]"

definition en_gpu :: "(string \<times> string) list" where
 "en_gpu =
  [(''free'', ''FREE''),
   (''active'', ''ACTIVE''),
   (''saturated'', ''SATURATED''),
   (''unavailable'', ''N/A''),
   (''users'', ''users: {names}''),
   (''noProcs'', ''No compute processes on this GPU.''),
   (''utilization'', ''GPU utilization''),
   (''vramHistory'', ''GPU VRAM history''),
   (''history'', ''{n}-pt history'')]"

definition en_fleet :: "(string \<times> string) list" where
 "en_fleet =
  [(''title'', ''Fleet''),
   (''aggregate'', ''{servers} servers '' @ [CHR 0xC2, CHR 0xB7] @ '' {online} online '' @ [CHR 0xC2,
      CHR 0xB7] @ '' {gpus} GPUs '' @ [CHR 0xC2, CHR 0xB7] @ '' {free} free''),
   (''sort'', ''Sort''),
   (''sortAria'', ''Sort servers''),
   (''sortName'', ''Name''),
   (''sortStatus'', ''Status''),
   (''sortGpus'', ''GPUs''),
   (''gpuSummary'', ''{count} '' @ [CHR 0xC2, CHR 0xB7] @ '' {busy} busy '' @ [CHR 0xC2, CHR 0xB7] @
      '' {free} free''),
   (''moreGpus'', ''+{n} more''),
   (''diskWarn'', ''disk {percent}''),
   (''diskWarnBare'', ''disk''),
   (''diskWarnTitle'', ''A storage mount is running low on space''),
   (''noGpus'', ''no GPUs reported''),
   (''empty'', ''No servers yet''),
   (''emptyHint'', ''Add your first server from Settings.''),
   (''openSettings'', ''Open Settings''),
   (''error'', ''Fleet data unavailable''),
   (''loadingAria'', ''Loading fleet''),
   (''fixtureChip'', ''fixture data''),
   (''testOk'', ''online '' @ [CHR 0xC2, CHR 0xB7] @ '' {ms} ms''),
   (''testFailed'', ''test failed''),
   (''testing'', ''testing'' @ [CHR 0xE2, CHR 0x80, CHR 0xA6]),
   (''testConnection'', ''Test connection''),
   (''serverActions'', ''Server actions: {name}''),
   (''stale'', ''stale '' @ [CHR 0xC2, CHR 0xB7] @ '' {ago}''),
   (''disableFailed'', ''disable failed''),
   (''enableFailed'', ''enable failed''),
   (''removeFailed'', ''remove failed''),
   (''removeTitle'', ''Remove server {name}?''),
   (''removeBody'', ''This only removes {name} from the console. Nothing is changed on the remote machine.''),
   (''removeConfirm'', ''Remove {name}''),
   (''removeDirectHint'', ''Deleting a server does NOT revoke the GPU Console dedicated direct-transfer keys on other machines. Revoke direct transfer first if any direct pair exists.''),
   (''cpuAria'', ''{name} CPU''),
   (''ramAria'', ''{name} RAM'')]"

definition en_tabs :: "(string \<times> string) list" where
 "en_tabs =
  [(''overview'', ''Overview''),
   (''gpus'', ''GPUs''),
   (''processes'', ''Processes''),
   (''system'', ''System''),
   (''storage'', ''Storage''),
   (''network'', ''Network''),
   (''snapshotUnavailable'', ''Snapshot unavailable''),
   (''serverUnreachable'', ''Server unreachable'')]"

definition en_overview :: "(string \<times> string) list" where
 "en_overview =
  [(''cpu'', ''CPU''),
   (''ram'', ''RAM''),
   (''load'', ''load {loads} '' @ [CHR 0xC2, CHR 0xB7] @ '' {cores}''),
   (''coresNa'', ''cores N/A''),
   (''cores'', ''{n} cores''),
   (''physical'', ''{n} physical''),
   (''topProcesses'', ''Top processes''),
   (''storagePressure'', ''Storage''),
   (''network'', ''Network''),
   (''rx'', ''RX {rate}''),
   (''tx'', ''TX {rate}''),
   (''noGpu'', ''No NVIDIA GPU detected''),
   (''noGpuHint'', ''No NVIDIA driver or nvidia-smi was found on this host.''),
   (''noGpusReported'', ''No GPUs reported''),
   (''noGpusReportedHint'', ''The host did not report any GPU devices.''),
   (''cpuRamPressure'', ''CPU / RAM pressure''),
   (''cpuUtilization'', ''CPU utilization''),
   (''ramUtilization'', ''RAM utilization''),
   (''deviceOne'', ''{n} device''),
   (''deviceMany'', ''{n} devices''),
   (''loadNa'', ''load N/A''),
   (''percentUsed'', ''{n}% used''),
   (''rxTx'', ''RX {rx} '' @ [CHR 0xC2, CHR 0xB7] @ '' TX {tx}''),
   (''topProcessesMeta'', ''by CPU '' @ [CHR 0xC2, CHR 0xB7] @ '' {n} total'')]"

definition en_gpus :: "(string \<times> string) list" where
 "en_gpus =
  [(''colPid'', ''PID''),
   (''colUser'', ''User''),
   (''colProcess'', ''Process''),
   (''colVram'', ''VRAM''),
   (''colCommand'', ''Command'')]"

definition en_processes :: "(string \<times> string) list" where
 "en_processes =
  [(''search'', ''Search name, user, command or PID''),
   (''gpuOnly'', ''GPU only''),
   (''colPid'', ''PID''),
   (''colUser'', ''User''),
   (''colName'', ''Name''),
   (''colCpu'', ''CPU''),
   (''colMem'', ''MEM''),
   (''colRss'', ''RSS''),
   (''colGpu'', ''GPU''),
   (''colState'', ''State''),
   (''colCommand'', ''Command''),
   (''colActions'', ''Actions''),
   (''showing'', ''showing {n} of {m}''),
   (''terminate'', ''Terminate process''),
   (''kill'', ''Kill process''),
   (''terminateTitle'', ''Terminate process {pid}''),
   (''killTitle'', ''Kill process {pid}''),
   (''terminateLead'', ''Terminate process {pid} ({name}) on {server}?''),
   (''killLead'', ''Kill process {pid} ({name}) on {server}?''),
   (''terminateHint'', ''SIGTERM asks the process to exit; it may clean up first.''),
   (''killHint'', ''SIGKILL terminates the process immediately; unsaved state is lost.''),
   (''confirmTerminate'', ''Terminate process {pid}''),
   (''confirmKill'', ''Kill process {pid}''),
   (''errNoSuchProcess'', ''no such process '' @ [CHR 0xE2, CHR 0x80, CHR 0x94] @
      '' it may have already exited''),
   (''errPermission'', ''operation not permitted '' @ [CHR 0xE2, CHR 0x80, CHR 0x94] @
      '' you do not own this process''),
   (''errNotFound'', ''process not found on this server''),
   (''errRequestFailed'', ''request failed''),
   (''actionOk'', ''{action} {pid} '' @ [CHR 0xE2, CHR 0x80, CHR 0x94] @ '' done''),
   (''pastTerminate'', ''Terminated''),
   (''pastKill'', ''Killed''),
   (''searchAria'', ''Search processes''),
   (''rowActions'', ''Actions for process {pid}''),
   (''countOne'', ''{n} process''),
   (''countMany'', ''{n} processes''),
   (''empty'', ''No processes reported''),
   (''emptyHint'', ''The host did not report a process list.''),
   (''noMatch'', ''No matching processes''),
   (''noMatchHint'', ''Adjust the search or clear the GPU filter.'')]"

definition en_system :: "(string \<times> string) list" where
 "en_system =
  [(''hostname'', ''Hostname''),
   (''os'', ''Operating system''),
   (''kernel'', ''Kernel''),
   (''uptime'', ''Uptime''),
   (''cpuModel'', ''CPU model''),
   (''cores'', ''Cores''),
   (''coresPhysical'', ''physical''),
   (''coresLogical'', ''logical''),
   (''driver'', ''NVIDIA driver''),
   (''logicalCount'', ''{n} logical''),
   (''coresPair'', ''{physical} physical '' @ [CHR 0xC2, CHR 0xB7] @ '' {logical} logical''),
   (''empty'', ''No system information reported''),
   (''emptyHint'', ''The host did not report system facts.'')]"

definition en_storage :: "(string \<times> string) list" where
 "en_storage =
  [(''free'', ''{size} free''),
   (''empty'', ''No mounts reported''),
   (''emptyHint'', ''The host did not report any filesystems.''),
   (''mountsOne'', ''{n} mount''),
   (''mountsMany'', ''{n} mounts''),
   (''usageOf'', ''Usage of {mount}'')]"

definition en_network :: "(string \<times> string) list" where
 "en_network =
  [(''inTotal'', ''{size} in '' @ [CHR 0xC2, CHR 0xB7] @ '' {sizeOut} out''),
   (''ifacesOne'', ''{n} interface''),
   (''ifacesMany'', ''{n} interfaces''),
   (''empty'', ''No interfaces reported''),
   (''emptyHint'', ''The host did not report any network interfaces.'')]"

definition en_settings :: "(string \<times> string) list" where
 "en_settings =
  [(''title'', ''Settings''),
   (''registry'', ''Server registry''),
   (''registryHeaderServer'', ''Server''),
   (''registryHeaderEndpoint'', ''Endpoint''),
   (''registryHeaderTags'', ''Tags''),
   (''registryHeaderEnabled'', ''Enabled''),
   (''registryHeaderStatus'', ''Status''),
   (''preferences'', ''Preferences''),
   (''registered'', ''{n} registered''),
   (''addServer'', ''Add server''),
   (''appearance'', ''Appearance''),
   (''themeDark'', ''Dark''),
   (''themeMinimal'', ''Minimal''),
   (''themeWarm'', ''Warm''),
   (''themeSystem'', ''System''),
   (''language'', ''Language''),
   (''sections'', ''Detail sections''),
   (''apiBase'', ''API base''),
   (''backendHealth'', ''Backend health''),
   (''checking'', ''checking'' @ [CHR 0xE2, CHR 0x80, CHR 0xA6]),
   (''unreachable'', ''unreachable''),
   (''scheduler'', ''scheduler {mode}''),
   (''clients'', ''{n} realtime clients''),
   (''memoryNote'', ''Telemetry is memory-only: samples live in bounded RAM on the server and in this tab, never persisted by the browser.''),
   (''trustNote'', ''Host-key trust is stored server-side and never written to ~/.ssh/known_hosts.''),
   (''tags'', ''Tags''),
   (''tagCommaHint'', ''comma-separated''),
   (''enabled'', ''enabled''),
   (''disabled'', ''disabled'')]"

definition en_preview :: "(string \<times> string) list" where
 "en_preview =
  [(''note'', ''Design preview '' @ [CHR 0xC2, CHR 0xB7] @ '' fixture data only''),
   (''gpuDetail'', ''GPU detail (expanded lane)''),
   (''historyMeta'', ''{n}-pt history''),
   (''asyncStates'', ''Async states''),
   (''noGpusHint'', ''The collector found no NVIDIA devices.'')]"

definition en_dialog :: "(string \<times> string) list" where
 "en_dialog =
  [(''addTitle'', ''Add server''),
   (''editTitle'', ''Edit server {name}''),
   (''displayName'', ''Display name''),
   (''namePlaceholder'', ''e.g. lab-4090''),
   (''source'', ''SSH source''),
   (''fromConfig'', ''From ssh config''),
   (''manual'', ''Manual''),
   (''aliasPlaceholder'', ''Choose an alias'' @ [CHR 0xE2, CHR 0x80, CHR 0xA6]),
   (''aliasEmpty'', ''no aliases found '' @ [CHR 0xE2, CHR 0x80, CHR 0x94] @ '' use manual entry''),
   (''host'', ''Host''),
   (''hostPlaceholder'', ''hostname or IP''),
   (''username'', ''Username''),
   (''usernameOptional'', ''Username (optional)''),
   (''port'', ''Port''),
   (''portOptional'', ''Port (optional)''),
   (''portPlaceholder'', ''22''),
   (''enabled'', ''Enabled''),
   (''save'', ''Save changes''),
   (''createAndTest'', ''Add & test connection''),
   (''testing'', ''Testing connection'' @ [CHR 0xE2, CHR 0x80, CHR 0xA6]),
   (''testAgain'', ''Retry test''),
   (''backToEdit'', ''Edit''),
   (''connected'', ''connected''),
   (''latency'', ''{ms} ms''),
   (''hostKeyTitle'', ''The authenticity of host {host} can'' @ [CHR 0x27] @ ''t be established.''),
   (''hostKeyBody'', ''key type {type} '' @ [CHR 0xC2, CHR 0xB7] @ '' fingerprint''),
   (''hostKeyHint'', ''Verify this fingerprint out-of-band, then trust it to connect.''),
   (''hostKeyTrust'', ''Trust key and retry''),
   (''authHelp'', ''Authentication failed. Check that your SSH agent has a key the server accepts.''),
   (''unreachableHelp'', ''The server is unreachable: check the network or the host address.''),
   (''aliasesError'', ''Could not load ssh-config aliases''),
   (''tags'', ''Tags''),
   (''tagCommaHint'', ''Comma-separated, optional''),
   (''tagsPlaceholder'', ''lab, gpu''),
   (''aliasLabel'', ''SSH config alias''),
   (''aliasHint'', ''Parsed from your ~/.ssh/config''),
   (''aliasPrefill'', ''Pre-filled from the alias''),
   (''switchToManual'', ''Switch to manual entry''),
   (''enabledHint'', ''Disabled servers stay registered but are not polled.''),
   (''portInvalid'', ''Port must be 1'' @ [CHR 0xE2, CHR 0x80, CHR 0x93] @ ''65535''),
   (''sampleInterval'', ''Sample interval (s)''),
   (''sampleIntervalHint'', ''Seconds between detail updates (0.5'' @ [CHR 0xE2, CHR 0x80, CHR 0x93] @
      ''600). Leave empty for the default 2.5 s.''),
   (''sampleIntervalInvalid'', ''Interval must be 0.5'' @ [CHR 0xE2, CHR 0x80, CHR 0x93] @ ''600 seconds''),
   (''testConnection'', ''Test connection''),
   (''saving'', ''Saving'' @ [CHR 0xE2, CHR 0x80, CHR 0xA6]),
   (''testFailed'', ''Test failed''),
   (''trusting'', ''Trusting'' @ [CHR 0xE2, CHR 0x80, CHR 0xA6]),
   (''genericHelp'', ''Connection failed. Review the detail above and the server'' @ [CHR 0x27] @
      ''s SSH configuration.'')]"

definition en_serverAuth :: "(string \<times> string) list" where
 "en_serverAuth =
  [(''localAuth'', ''Local authentication''),
   (''directTransfer'', ''Direct transfer''),
   (''directIntro'', ''Other servers '' @ [CHR 0xE2, CHR 0x86, CHR 0x92] @ '' this server''),
   (''noSources'', ''No other enabled servers to check.''),
   (''sshConfig'', ''SSH config''),
   (''sshConfigMatched'', ''matched''),
   (''sshConfigNotMatched'', ''not matched''),
   (''identity'', ''Identity''),
   (''identityConfigured'', ''{n} configured''),
   (''identityNone'', ''none detected''),
   (''agent'', ''SSH agent''),
   (''agentAvailable'', ''available''),
   (''agentUnavailable'', ''unavailable''),
   (''proxyJump'', ''ProxyJump''),
   (''proxyJumpOn'', ''configured''),
   (''proxyJumpOff'', ''none''),
   (''password'', ''Password''),
   (''passwordUnset'', ''not set''),
   (''passwordSet'', ''saved securely''),
   (''storageKeyring'', ''system keyring''),
   (''storageSession'', ''this session only''),
   (''setPassword'', ''Set password''),
   (''replacePassword'', ''Replace password''),
   (''clearPassword'', ''Clear password''),
   (''clearPasswordConfirm'', ''Confirm clear''),
   (''passwordPlaceholder'', ''password''),
   (''passwordSave'', ''Save''),
   (''passwordSaving'', ''Saving'' @ [CHR 0xE2, CHR 0x80, CHR 0xA6]),
   (''passwordClearing'', ''Clearing'' @ [CHR 0xE2, CHR 0x80, CHR 0xA6]),
   (''passwordLoadFailed'', ''Could not load authentication status''),
   (''passwordSaveFailed'', ''Could not save the password''),
   (''passwordClearFailed'', ''Could not clear the password''),
   (''checkDirect'', ''Check direct''),
   (''recheck'', ''Re-check''),
   (''checking'', ''checking'' @ [CHR 0xE2, CHR 0x80, CHR 0xA6]),
   (''setupKey'', ''Set up dedicated key''),
   (''settingUp'', ''setting up'' @ [CHR 0xE2, CHR 0x80, CHR 0xA6]),
   (''revoke'', ''Revoke''),
   (''revokeConfirm'', ''Confirm revoke''),
   (''revoking'', ''revoking'' @ [CHR 0xE2, CHR 0x80, CHR 0xA6]),
   (''directNotConfigured'', ''not configured''),
   (''directNativeOk'', ''can authenticate directly (native)''),
   (''directKeyOk'', ''dedicated key''),
   (''directUnavailable'', ''unavailable''),
   (''directNativeReady'', [CHR 0xE2, CHR 0x9C, CHR 0x93] @ '' Ready for direct authentication '' @
      [CHR 0xE2, CHR 0x80, CHR 0x94] @ '' no setup needed''),
   (''directKeyReady'', [CHR 0xE2, CHR 0x9C, CHR 0x93] @ '' Dedicated key in place''),
   (''directVerified'', [CHR 0xE2, CHR 0x9C, CHR 0x93] @ '' Direct connection verified''),
   (''directCheckFailed'', [CHR 0xE2, CHR 0x9C, CHR 0x97] @ '' Direct check failed''),
   (''directCannotAuth'', ''Cannot authenticate directly''),
   (''checkFailed'', ''Check failed''),
   (''directListFailed'', ''Could not load direct-transfer status''),
   (''reasonRouteUnreachable'', ''route unreachable''),
   (''reasonHostKeyUnknown'', ''host key not yet trusted''),
   (''reasonHostKeyMismatch'', ''host key mismatch''),
   (''reasonAuthenticationFailed'', ''authentication failed''),
   (''reasonRsyncMissingSource'', ''rsync missing on source''),
   (''reasonRsyncMissingTarget'', ''rsync missing on target''),
   (''reasonDedicatedKeyMissing'', ''dedicated key missing''),
   (''reasonAuthorizedKeyMissing'', ''key not authorized on target''),
   (''reasonRemoteKeyInvalid'', ''stored key invalid on target''),
   (''reasonSourceKnownHostsMissing'', ''source has no known_hosts entry''),
   (''reasonKeygenMissingSource'', ''Source server lacks ssh-keygen; dedicated key cannot be generated''),
   (''reasonUnknown'', ''unknown reason'')]"

definition en_workspace1 :: "(string \<times> string) list" where
 "en_workspace1 =
  [(''title'', ''Workspace''),
   (''tabProjects'', ''Projects''),
   (''tabDatasets'', ''Datasets''),
   (''tabModels'', ''Models''),
   (''tabLaunches'', ''Launch configs''),
   (''refresh'', ''Refresh''),
   (''addProject'', ''Add project''),
   (''artifactCount'', ''{n} artifacts''),
   (''launchConfigCount'', ''{n} launch configs''),
   (''noProjects'', ''No projects yet''),
   (''noProjectsHint'', ''Projects group datasets, models and launch configs.''),
   (''projectActions'', ''Project actions: {name}''),
   (''addProjectTitle'', ''Add project''),
   (''editProjectTitle'', ''Edit project {name}''),
   (''projectName'', ''Name''),
   (''namePlaceholder'', ''e.g. dinov2-linear''),
   (''description'', ''Description''),
   (''tags'', ''Tags''),
   (''tagsCommaHint'', ''comma-separated''),
   (''editSyncExcludes'', ''Edit sync excludes''),
   (''syncExcludes'', ''Default sync excludes''),
   (''syncExcludesHint'', ''rsync/fnmatch patterns, comma-separated; during transfers of this project'' @
      [CHR 0x27] @
      ''s artifacts, entries whose name matches are skipped (the transfer root itself is never excluded) '' @
      [CHR 0xE2, CHR 0x80, CHR 0x94] @ '' mainly for code trees, e.g. to leave out dataset/checkpoints''),
   (''artifacts'', ''Artifacts''),
   (''noArtifactsYet'', ''No artifacts yet '' @ [CHR 0xE2, CHR 0x80, CHR 0x94] @
      '' create one under Datasets or Models.''),
   (''removeProjectTitle'', ''Remove project {name}?''),
   (''removeProjectBody'', ''This deletes {name} and its launch configs. Artifacts and placements are kept; remote files are never touched.''),
   (''removeProjectConfirm'', ''Remove {name}''),
   (''projectMissing'', ''Project not found''),
   (''backToProjects'', ''All projects''),
   (''distribution'', ''Distribution''),
   (''distributionHint'', ''Declared placements per server '' @ [CHR 0xC2, CHR 0xB7] @ '' '' @ [CHR 0xE2,
      CHR 0x9C, CHR 0x93] @ '' verified '' @ [CHR 0xC2, CHR 0xB7] @ '' '' @ [CHR 0xE2, CHR 0x97, CHR 0x8B] @
      '' declared '' @ [CHR 0xC2, CHR 0xB7] @ '' '' @ [CHR 0xE2, CHR 0x80, CHR 0x94] @ '' missing '' @
      [CHR 0xC2, CHR 0xB7] @ '' ! unavailable '' @ [CHR 0xC2, CHR 0xB7] @ '' '' @ [CHR 0xE2, CHR 0x86,
      CHR 0xBB] @ '' syncing''),
   (''matrixPresent'', ''verified''),
   (''matrixMissing'', ''missing''),
   (''matrixUndeclared'', ''not placed''),
   (''matrixGroupCount'', ''{label} '' @ [CHR 0xC2, CHR 0xB7] @ '' {n}''),
   (''placementCount'', ''{n} placements''),
   (''matrixArtifact'', ''Artifact''),
   (''matrixEmpty'', ''No artifacts referenced yet.''),
   (''inspectAll'', ''Check resources''),
   (''syncMissing'', ''Sync missing resources'' @ [CHR 0xE2, CHR 0x80, CHR 0xA6]),
   (''syncProgress'', ''Syncing {done}/{total}''),
   (''stateSyncing'', ''syncing''),
   (''syncDialogTitle'', ''Sync missing resources''),
   (''syncPlanning'', ''Planning sync'' @ [CHR 0xE2, CHR 0x80, CHR 0xA6]),
   (''syncCurrent'', ''Current''),
   (''syncAction'', ''Action''),
   (''syncActionSkip'', ''skip''),
   (''syncActionTransfer'', ''transfer''),
   (''syncActionUnresolved'', ''unresolved''),
   (''syncUnresolvedHint'', ''Unresolved items block the sync '' @ [CHR 0xE2, CHR 0x80, CHR 0x94] @
      '' resolve them first.''),
   (''syncStrategy'', ''Strategy''),
   (''syncDetailAria'', ''Transfer details for {name}''),
   (''syncConfirm'', ''Sync {n} resources''),
   (''syncNothing'', ''No missing resources''),
   (''placements'', ''Placements''),
   (''noPlacements'', ''No placements declared''),
   (''addPlacement'', ''Add placement''),
   (''editPlacement'', ''Edit placement''),
   (''placementActions'', ''Placement actions: {server}''),
   (''removePlacementTitle'', ''Remove placement on {server}?''),
   (''removePlacementBody'', ''This removes the declaration only '' @ [CHR 0xE2, CHR 0x80, CHR 0x94] @
      '' the remote path is never deleted.''),
   (''removePlacementConfirm'', ''Remove placement''),
   (''placementServer'', ''Server''),
   (''placementPath'', ''Remote path''),
   (''pathPlaceholder'', ''/data/datasets/dinov2''),
   (''unknownServer'', ''unknown server''),
   (''inspect'', ''Inspect''),
   (''inspecting'', ''inspecting'' @ [CHR 0xE2, CHR 0x80, CHR 0xA6]),
   (''stateDeclared'', ''declared''),
   (''stateVerified'', ''verified'')]"

definition en_workspace2 :: "(string \<times> string) list" where
 "en_workspace2 =
  [(''stateMissing'', ''missing''),
   (''stateUnavailable'', ''unavailable''),
   (''inspectedAgo'', ''checked {ago}''),
   (''fileCount'', ''{n} files''),
   (''launchConfigs'', ''Launch configs''),
   (''addLaunchConfig'', ''Add launch config''),
   (''editLaunchConfig'', ''Edit launch config''),
   (''launchConfigActions'', ''Launch config actions: {name}''),
   (''removeLaunchConfigTitle'', ''Remove launch config {name}?''),
   (''removeLaunchConfigBody'', ''This deletes the stored configuration only '' @ [CHR 0xE2, CHR 0x80,
      CHR 0x94] @ '' nothing is launched or stopped.''),
   (''removeLaunchConfigConfirm'', ''Remove {name}''),
   (''noLaunchConfigs'', ''No launch configs yet''),
   (''lcProject'', ''Project''),
   (''lcName'', ''Name''),
   (''lcProgram'', ''Program''),
   (''programPlaceholder'', ''e.g. python''),
   (''lcArgs'', ''Arguments''),
   (''argsCommaHint'', ''comma-separated''),
   (''lcWorkingDir'', ''Working directory''),
   (''optionalHint'', ''optional''),
   (''lcEnvironment'', ''Environment''),
   (''lcEnvVars'', ''Environment variables''),
   (''envVarName'', ''Variable''),
   (''envVarValue'', ''Value''),
   (''addEnvVar'', ''Add variable''),
   (''removeEnvVar'', ''Remove variable''),
   (''lcRequiredArtifacts'', ''Required artifacts''),
   (''lcGpuCount'', ''GPU count''),
   (''lcMinVram'', ''Min VRAM (GiB)''),
   (''gpuCountInvalid'', ''GPU count must be 1'' @ [CHR 0xE2, CHR 0x80, CHR 0x93] @ ''64''),
   (''minVramInvalid'', ''Use a non-negative number of GiB''),
   (''programInvalid'', ''Shell metacharacters are not allowed '' @ [CHR 0xE2, CHR 0x80, CHR 0x94] @
      '' use program + args''),
   (''gpuCountValue'', ''GPU '' @ [CHR 0xC3, CHR 0x97] @ ''{n}''),
   (''addArtifact'', ''Add artifact''),
   (''addArtifactTitle'', ''Add artifact''),
   (''editArtifactTitle'', ''Edit artifact {name}''),
   (''artifactKind'', ''Kind''),
   (''kindCode'', ''code''),
   (''kindDataset'', ''dataset''),
   (''kindModel'', ''model''),
   (''artifactName'', ''Name''),
   (''artifactVersion'', ''Version''),
   (''versionPlaceholder'', ''e.g. v1''),
   (''artifactImmutable'', ''Immutable''),
   (''immutableHint'', ''Changing content means adding a new version.''),
   (''immutableChip'', ''immutable''),
   (''mutableChip'', ''mutable''),
   (''artifactActions'', ''Artifact actions: {name}''),
   (''removeArtifactTitle'', ''Remove artifact {name}?''),
   (''removeArtifactBody'', ''Removal is refused while a project references the artifact or placements exist.''),
   (''removeArtifactConfirm'', ''Remove {name}''),
   (''noArtifacts'', ''No artifacts yet''),
   (''noArtifactsHint'', ''Create the first dataset or model.''),
   (''placementsCount'', ''{n} placements''),
   (''syncTo'', ''Sync to'' @ [CHR 0xE2, CHR 0x80, CHR 0xA6]),
   (''syncComingSoon'', ''Transfer is coming in the next release''),
   (''noLaunches'', ''No launch configs yet''),
   (''noLaunchesHint'', ''Open a project to add one.''),
   (''launchProject'', ''project {name}''),
   (''launchProjectMissing'', ''unknown project''),
   (''serverRoots'', ''Server roots''),
   (''rootsHint'', ''Remote base directories used to resolve relative paths ('' @ [CHR 0xE2, CHR 0x89,
      CHR 0xA4] @ ''512 characters). Saved per server; empty clears a value.''),
   (''rootProject'', ''Projects''),
   (''rootDataset'', ''Datasets''),
   (''rootModel'', ''Models''),
   (''rootOutput'', ''Outputs''),
   (''rootInvalid'', ''Use 1'' @ [CHR 0xE2, CHR 0x80, CHR 0x93] @
      ''512 characters without control characters''),
   (''saveRoots'', ''Save roots''),
   (''savingRoots'', ''Saving'' @ [CHR 0xE2, CHR 0x80, CHR 0xA6]),
   (''rootsSaved'', ''saved''),
   (''noServersForRoots'', ''No servers registered '' @ [CHR 0xE2, CHR 0x80, CHR 0x94] @
      '' add servers in Settings.'')]"

definition en_transfers :: "(string \<times> string) list" where
 "en_transfers =
  [(''title'', ''Transfers''),
   (''newTransfer'', ''New transfer''),
   (''countActive'', ''{n} active''),
   (''countQueued'', ''{n} waiting''),
   (''countCompleted'', ''{n} completed''),
   (''stateQueued'', ''waiting''),
   (''statePlanning'', ''planning''),
   (''stateRunning'', ''running''),
   (''stateVerifying'', ''verifying''),
   (''stateCompleted'', ''Transfer complete''),
   (''stateFailed'', ''failed''),
   (''stateCancelled'', ''cancelled''),
   (''strategyAuto'', ''Auto''),
   (''strategyDirect'', ''Direct rsync''),
   (''strategyRelay'', ''Local relay''),
   (''cancelTransfer'', ''Cancel transfer''),
   (''retryTransfer'', ''Retry transfer''),
   (''clearHistory'', ''Clear history''),
   (''clearHistoryTitle'', ''Clear transfer history?''),
   (''clearHistoryBody'', ''Removes completed, failed and cancelled jobs from the list. Active transfers are kept; registered assets and placements are untouched.''),
   (''clearHistoryConfirm'', ''Clear history''),
   (''empty'', ''No transfers yet''),
   (''emptyHint'', ''Sync an artifact to another server via its '' @ [CHR 0xE2, CHR 0x8B, CHR 0xAF] @
      '' menu in the workspace.''),
   (''error'', ''Transfer list unavailable''),
   (''loadingAria'', ''Loading transfers''),
   (''dialogTitle'', ''New transfer''),
   (''artifact'', ''Artifact''),
   (''sourcePlacement'', ''Source placement''),
   (''targetServer'', ''Target server''),
   (''targetPath'', ''Target path''),
   (''method'', ''Method''),
   (''available'', ''available''),
   (''unavailable'', ''unavailable''),
   (''noDirectSsh'', ''Source server cannot SSH to the target directly''),
   (''reasonLead'', ''Reason: {text}''),
   (''authFailReason'', ''the source server cannot authenticate to the target server''),
   (''configureDirect'', ''Configure direct''),
   (''directSetupTitle'', ''Direct transfer setup''),
   (''replan'', ''Re-plan''),
   (''replanning'', ''re-planning'' @ [CHR 0xE2, CHR 0x80, CHR 0xA6]),
   (''planExcludes'', ''Skipped by project excludes:''),
   (''planning'', ''checking route'' @ [CHR 0xE2, CHR 0x80, CHR 0xA6]),
   (''planFailed'', ''Route check failed''),
   (''create'', ''Start transfer''),
   (''creating'', ''Starting'' @ [CHR 0xE2, CHR 0x80, CHR 0xA6]),
   (''etaMinutes'', ''~{n} min left''),
   (''filesProgress'', ''{done} / {total} files''),
   (''kindResumed'', ''resumed''),
   (''kindIncremental'', ''incremental''),
   (''resumedBytes'', ''Resumed {size}''),
   (''filesSkipped'', ''Skipped {n} file{s}''),
   (''warningsCount'', ''{n} warnings''),
   (''targetFree'', ''Target free: {size}''),
   (''noPlacements'', ''This artifact has no placements''),
   (''noServers'', ''No servers registered''),
   (''targetPathNoRoot'', ''No root configured for this kind on that server '' @ [CHR 0xE2, CHR 0x80,
      CHR 0x94] @ '' enter a target path manually''),
   (''batchDone'', ''{done}/{total} completed''),
   (''batchRunningCount'', ''{n} running''),
   (''batchFailedCount'', ''{n} failed'')]"

definition en :: "(string \<times> (string \<times> string) list) list" where
 "en =
  [(''nav'', en_nav),
   (''common'', en_common),
   (''relative'', en_relative),
   (''status'', en_status),
   (''gpu'', en_gpu),
   (''fleet'', en_fleet),
   (''tabs'', en_tabs),
   (''overview'', en_overview),
   (''gpus'', en_gpus),
   (''processes'', en_processes),
   (''system'', en_system),
   (''storage'', en_storage),
   (''network'', en_network),
   (''settings'', en_settings),
   (''preview'', en_preview),
   (''dialog'', en_dialog),
   (''serverAuth'', en_serverAuth),
   (''workspace'', en_workspace1 @ en_workspace2),
   (''transfers'', en_transfers)]"

lemmas en_sections = en_nav_def en_common_def en_relative_def en_status_def en_gpu_def en_fleet_def en_tabs_def en_overview_def en_gpus_def en_processes_def en_system_def en_storage_def en_network_def en_settings_def en_preview_def en_dialog_def en_serverAuth_def en_workspace1_def en_workspace2_def en_transfers_def

end
