(* ===== verification/DictionaryZh.thy ===== *)
theory DictionaryZh
  imports Prelude
begin

text \<open>
  \<open>i18n/zh.ts\<close>: the Chinese texts, section by section and key by key in the order of \<open>i18n/en.ts\<close>.
  Chinese characters are three bytes of UTF-8 each, written by their codes.
\<close>


definition zh_nav :: "(string \<times> string) list" where
 "zh_nav =
  [(''fleet'', [CHR 0xE9, CHR 0x9B, CHR 0x86, CHR 0xE7, CHR 0xBE, CHR 0xA4]),
   (''workspace'', [CHR 0xE5, CHR 0xB7, CHR 0xA5, CHR 0xE4, CHR 0xBD, CHR 0x9C, CHR 0xE5, CHR 0x8C, CHR 0xBA]),
   (''transfers'', [CHR 0xE4, CHR 0xBC, CHR 0xA0, CHR 0xE8, CHR 0xBE, CHR 0x93]),
   (''servers'', [CHR 0xE6, CHR 0x9C, CHR 0x8D, CHR 0xE5, CHR 0x8A, CHR 0xA1, CHR 0xE5, CHR 0x99, CHR 0xA8]),
   (''settings'', [CHR 0xE8, CHR 0xAE, CHR 0xBE, CHR 0xE7, CHR 0xBD, CHR 0xAE]),
   (''back'', [CHR 0xE8, CHR 0xBF, CHR 0x94, CHR 0xE5, CHR 0x9B, CHR 0x9E])]"

definition zh_common :: "(string \<times> string) list" where
 "zh_common =
  [(''updated'', ''{ago}'' @ [CHR 0xE6, CHR 0x9B, CHR 0xB4, CHR 0xE6, CHR 0x96, CHR 0xB0]),
   (''na'', ''N/A''),
   (''retry'', [CHR 0xE9, CHR 0x87, CHR 0x8D, CHR 0xE8, CHR 0xAF, CHR 0x95]),
   (''cancel'', [CHR 0xE5, CHR 0x8F, CHR 0x96, CHR 0xE6, CHR 0xB6, CHR 0x88]),
   (''remove'', [CHR 0xE7, CHR 0xA7, CHR 0xBB, CHR 0xE9, CHR 0x99, CHR 0xA4]),
   (''edit'', [CHR 0xE7, CHR 0xBC, CHR 0x96, CHR 0xE8, CHR 0xBE, CHR 0x91]),
   (''open'', [CHR 0xE6, CHR 0x89, CHR 0x93, CHR 0xE5, CHR 0xBC, CHR 0x80]),
   (''disable'', [CHR 0xE5, CHR 0x81, CHR 0x9C, CHR 0xE7, CHR 0x94, CHR 0xA8]),
   (''enable'', [CHR 0xE5, CHR 0x90, CHR 0xAF, CHR 0xE7, CHR 0x94, CHR 0xA8]),
   (''done'', [CHR 0xE5, CHR 0xAE, CHR 0x8C, CHR 0xE6, CHR 0x88, CHR 0x90]),
   (''unknown'', [CHR 0xE6, CHR 0x9C, CHR 0xAA, CHR 0xE7, CHR 0x9F, CHR 0xA5])]"

definition zh_relative :: "(string \<times> string) list" where
 "zh_relative =
  [(''now'', [CHR 0xE5, CHR 0x88, CHR 0x9A, CHR 0xE5, CHR 0x88, CHR 0x9A]),
   (''s'', ''{n} '' @ [CHR 0xE7, CHR 0xA7, CHR 0x92, CHR 0xE5, CHR 0x89, CHR 0x8D]),
   (''m'', ''{n} '' @ [CHR 0xE5, CHR 0x88, CHR 0x86, CHR 0xE9, CHR 0x92, CHR 0x9F, CHR 0xE5, CHR 0x89,
      CHR 0x8D]),
   (''h'', ''{n} '' @ [CHR 0xE5, CHR 0xB0, CHR 0x8F, CHR 0xE6, CHR 0x97, CHR 0xB6, CHR 0xE5, CHR 0x89,
      CHR 0x8D]),
   (''d'', ''{n} '' @ [CHR 0xE5, CHR 0xA4, CHR 0xA9, CHR 0xE5, CHR 0x89, CHR 0x8D])]"

definition zh_status :: "(string \<times> string) list" where
 "zh_status =
  [(''online'', [CHR 0xE5, CHR 0x9C, CHR 0xA8, CHR 0xE7, CHR 0xBA, CHR 0xBF]),
   (''offline'', [CHR 0xE7, CHR 0xA6, CHR 0xBB, CHR 0xE7, CHR 0xBA, CHR 0xBF]),
   (''connecting'', [CHR 0xE8, CHR 0xBF, CHR 0x9E, CHR 0xE6, CHR 0x8E, CHR 0xA5, CHR 0xE4, CHR 0xB8,
      CHR 0xAD]),
   (''reconnecting'', [CHR 0xE9, CHR 0x87, CHR 0x8D, CHR 0xE8, CHR 0xBF, CHR 0x9E, CHR 0xE4, CHR 0xB8,
      CHR 0xAD]),
   (''timeout'', [CHR 0xE8, CHR 0xB6, CHR 0x85, CHR 0xE6, CHR 0x97, CHR 0xB6]),
   (''authentication_failed'', [CHR 0xE8, CHR 0xAE, CHR 0xA4, CHR 0xE8, CHR 0xAF, CHR 0x81, CHR 0xE5,
      CHR 0xA4, CHR 0xB1, CHR 0xE8, CHR 0xB4, CHR 0xA5]),
   (''host_key_error'', [CHR 0xE4, CHR 0xB8, CHR 0xBB, CHR 0xE6, CHR 0x9C, CHR 0xBA, CHR 0xE5, CHR 0xAF,
      CHR 0x86, CHR 0xE9, CHR 0x92, CHR 0xA5, CHR 0xE9, CHR 0x94, CHR 0x99, CHR 0xE8, CHR 0xAF, CHR 0xAF]),
   (''degraded'', [CHR 0xE9, CHR 0x99, CHR 0x8D, CHR 0xE7, CHR 0xBA, CHR 0xA7]),
   (''stale'', [CHR 0xE6, CHR 0x95, CHR 0xB0, CHR 0xE6, CHR 0x8D, CHR 0xAE, CHR 0xE6, CHR 0xBB, CHR 0x9E,
      CHR 0xE5, CHR 0x90, CHR 0x8E]),
   (''unknown'', [CHR 0xE6, CHR 0x9C, CHR 0xAA, CHR 0xE7, CHR 0x9F, CHR 0xA5])]"

definition zh_gpu :: "(string \<times> string) list" where
 "zh_gpu =
  [(''free'', [CHR 0xE7, CHR 0xA9, CHR 0xBA, CHR 0xE9, CHR 0x97, CHR 0xB2]),
   (''active'', [CHR 0xE5, CHR 0x8D, CHR 0xA0, CHR 0xE7, CHR 0x94, CHR 0xA8]),
   (''saturated'', [CHR 0xE9, CHR 0xA5, CHR 0xB1, CHR 0xE5, CHR 0x92, CHR 0x8C]),
   (''unavailable'', ''N/A''),
   (''users'', [CHR 0xE7, CHR 0x94, CHR 0xA8, CHR 0xE6, CHR 0x88, CHR 0xB7, CHR 0xEF, CHR 0xBC, CHR 0x9A] @
      ''{names}''),
   (''noProcs'', [CHR 0xE6, CHR 0xAD, CHR 0xA4] @ '' GPU '' @ [CHR 0xE4, CHR 0xB8, CHR 0x8A, CHR 0xE6,
      CHR 0xB2, CHR 0xA1, CHR 0xE6, CHR 0x9C, CHR 0x89, CHR 0xE8, CHR 0xAE, CHR 0xA1, CHR 0xE7, CHR 0xAE,
      CHR 0x97, CHR 0xE8, CHR 0xBF, CHR 0x9B, CHR 0xE7, CHR 0xA8, CHR 0x8B, CHR 0xE3, CHR 0x80, CHR 0x82]),
   (''utilization'', ''GPU '' @ [CHR 0xE5, CHR 0x88, CHR 0xA9, CHR 0xE7, CHR 0x94, CHR 0xA8, CHR 0xE7,
      CHR 0x8E, CHR 0x87]),
   (''vramHistory'', ''GPU '' @ [CHR 0xE6, CHR 0x98, CHR 0xBE, CHR 0xE5, CHR 0xAD, CHR 0x98, CHR 0xE5,
      CHR 0x8E, CHR 0x86, CHR 0xE5, CHR 0x8F, CHR 0xB2]),
   (''history'', ''{n} '' @ [CHR 0xE7, CHR 0x82, CHR 0xB9, CHR 0xE5, CHR 0x8E, CHR 0x86, CHR 0xE5,
      CHR 0x8F, CHR 0xB2])]"

definition zh_fleet :: "(string \<times> string) list" where
 "zh_fleet =
  [(''title'', [CHR 0xE9, CHR 0x9B, CHR 0x86, CHR 0xE7, CHR 0xBE, CHR 0xA4]),
   (''aggregate'', ''{servers} '' @ [CHR 0xE5, CHR 0x8F, CHR 0xB0, CHR 0xE6, CHR 0x9C, CHR 0x8D, CHR 0xE5,
      CHR 0x8A, CHR 0xA1, CHR 0xE5, CHR 0x99, CHR 0xA8] @ '' '' @ [CHR 0xC2, CHR 0xB7] @ '' {online} '' @
      [CHR 0xE5, CHR 0x8F, CHR 0xB0, CHR 0xE5, CHR 0x9C, CHR 0xA8, CHR 0xE7, CHR 0xBA, CHR 0xBF] @ '' '' @
      [CHR 0xC2, CHR 0xB7] @ '' {gpus} '' @ [CHR 0xE5, CHR 0xBC, CHR 0xA0] @ '' GPU '' @ [CHR 0xC2,
      CHR 0xB7] @ '' {free} '' @ [CHR 0xE5, CHR 0xBC, CHR 0xA0, CHR 0xE7, CHR 0xA9, CHR 0xBA, CHR 0xE9,
      CHR 0x97, CHR 0xB2]),
   (''sort'', [CHR 0xE6, CHR 0x8E, CHR 0x92, CHR 0xE5, CHR 0xBA, CHR 0x8F]),
   (''sortAria'', [CHR 0xE6, CHR 0x9C, CHR 0x8D, CHR 0xE5, CHR 0x8A, CHR 0xA1, CHR 0xE5, CHR 0x99,
      CHR 0xA8, CHR 0xE6, CHR 0x8E, CHR 0x92, CHR 0xE5, CHR 0xBA, CHR 0x8F]),
   (''sortName'', [CHR 0xE5, CHR 0x90, CHR 0x8D, CHR 0xE7, CHR 0xA7, CHR 0xB0]),
   (''sortStatus'', [CHR 0xE7, CHR 0x8A, CHR 0xB6, CHR 0xE6, CHR 0x80, CHR 0x81]),
   (''sortGpus'', ''GPU''),
   (''gpuSummary'', ''{count} '' @ [CHR 0xE5, CHR 0xBC, CHR 0xA0] @ '' '' @ [CHR 0xC2, CHR 0xB7] @
      '' {busy} '' @ [CHR 0xE5, CHR 0x8D, CHR 0xA0, CHR 0xE7, CHR 0x94, CHR 0xA8] @ '' '' @ [CHR 0xC2,
      CHR 0xB7] @ '' {free} '' @ [CHR 0xE7, CHR 0xA9, CHR 0xBA, CHR 0xE9, CHR 0x97, CHR 0xB2]),
   (''moreGpus'', ''+{n} '' @ [CHR 0xE5, CHR 0xBC, CHR 0xA0]),
   (''diskWarn'', [CHR 0xE7, CHR 0xA3, CHR 0x81, CHR 0xE7, CHR 0x9B, CHR 0x98] @ '' {percent}''),
   (''diskWarnBare'', [CHR 0xE7, CHR 0xA3, CHR 0x81, CHR 0xE7, CHR 0x9B, CHR 0x98]),
   (''diskWarnTitle'', [CHR 0xE6, CHR 0x9C, CHR 0x89, CHR 0xE6, CHR 0x8C, CHR 0x82, CHR 0xE8, CHR 0xBD,
      CHR 0xBD, CHR 0xE7, CHR 0x82, CHR 0xB9, CHR 0xE7, CHR 0xA9, CHR 0xBA, CHR 0xE9, CHR 0x97, CHR 0xB4,
      CHR 0xE4, CHR 0xB8, CHR 0x8D, CHR 0xE8, CHR 0xB6, CHR 0xB3]),
   (''noGpus'', [CHR 0xE6, CHR 0x9C, CHR 0xAA, CHR 0xE6, CHR 0x8A, CHR 0xA5, CHR 0xE5, CHR 0x91, CHR 0x8A] @
      '' GPU''),
   (''empty'', [CHR 0xE8, CHR 0xBF, CHR 0x98, CHR 0xE6, CHR 0xB2, CHR 0xA1, CHR 0xE6, CHR 0x9C, CHR 0x89,
      CHR 0xE6, CHR 0x9C, CHR 0x8D, CHR 0xE5, CHR 0x8A, CHR 0xA1, CHR 0xE5, CHR 0x99, CHR 0xA8]),
   (''emptyHint'', [CHR 0xE5, CHR 0x88, CHR 0xB0, CHR 0xE8, CHR 0xAE, CHR 0xBE, CHR 0xE7, CHR 0xBD,
      CHR 0xAE, CHR 0xE9, CHR 0xA1, CHR 0xB5, CHR 0xE6, CHR 0xB7, CHR 0xBB, CHR 0xE5, CHR 0x8A, CHR 0xA0,
      CHR 0xE7, CHR 0xAC, CHR 0xAC, CHR 0xE4, CHR 0xB8, CHR 0x80, CHR 0xE5, CHR 0x8F, CHR 0xB0, CHR 0xE6,
      CHR 0x9C, CHR 0x8D, CHR 0xE5, CHR 0x8A, CHR 0xA1, CHR 0xE5, CHR 0x99, CHR 0xA8, CHR 0xE3, CHR 0x80,
      CHR 0x82]),
   (''openSettings'', [CHR 0xE6, CHR 0x89, CHR 0x93, CHR 0xE5, CHR 0xBC, CHR 0x80, CHR 0xE8, CHR 0xAE,
      CHR 0xBE, CHR 0xE7, CHR 0xBD, CHR 0xAE]),
   (''error'', [CHR 0xE9, CHR 0x9B, CHR 0x86, CHR 0xE7, CHR 0xBE, CHR 0xA4, CHR 0xE6, CHR 0x95, CHR 0xB0,
      CHR 0xE6, CHR 0x8D, CHR 0xAE, CHR 0xE4, CHR 0xB8, CHR 0x8D, CHR 0xE5, CHR 0x8F, CHR 0xAF, CHR 0xE7,
      CHR 0x94, CHR 0xA8]),
   (''loadingAria'', [CHR 0xE6, CHR 0xAD, CHR 0xA3, CHR 0xE5, CHR 0x9C, CHR 0xA8, CHR 0xE5, CHR 0x8A,
      CHR 0xA0, CHR 0xE8, CHR 0xBD, CHR 0xBD, CHR 0xE9, CHR 0x9B, CHR 0x86, CHR 0xE7, CHR 0xBE, CHR 0xA4]),
   (''fixtureChip'', [CHR 0xE7, CHR 0xA4, CHR 0xBA, CHR 0xE4, CHR 0xBE, CHR 0x8B, CHR 0xE6, CHR 0x95,
      CHR 0xB0, CHR 0xE6, CHR 0x8D, CHR 0xAE]),
   (''testOk'', [CHR 0xE5, CHR 0x9C, CHR 0xA8, CHR 0xE7, CHR 0xBA, CHR 0xBF] @ '' '' @ [CHR 0xC2, CHR 0xB7] @
      '' {ms} ms''),
   (''testFailed'', [CHR 0xE6, CHR 0xB5, CHR 0x8B, CHR 0xE8, CHR 0xAF, CHR 0x95, CHR 0xE5, CHR 0xA4,
      CHR 0xB1, CHR 0xE8, CHR 0xB4, CHR 0xA5]),
   (''testing'', [CHR 0xE6, CHR 0xB5, CHR 0x8B, CHR 0xE8, CHR 0xAF, CHR 0x95, CHR 0xE4, CHR 0xB8,
      CHR 0xAD, CHR 0xE2, CHR 0x80, CHR 0xA6]),
   (''testConnection'', [CHR 0xE6, CHR 0xB5, CHR 0x8B, CHR 0xE8, CHR 0xAF, CHR 0x95, CHR 0xE8, CHR 0xBF,
      CHR 0x9E, CHR 0xE6, CHR 0x8E, CHR 0xA5]),
   (''serverActions'', [CHR 0xE6, CHR 0x9C, CHR 0x8D, CHR 0xE5, CHR 0x8A, CHR 0xA1, CHR 0xE5, CHR 0x99,
      CHR 0xA8, CHR 0xE6, CHR 0x93, CHR 0x8D, CHR 0xE4, CHR 0xBD, CHR 0x9C, CHR 0xEF, CHR 0xBC, CHR 0x9A] @
      ''{name}''),
   (''stale'', [CHR 0xE6, CHR 0x95, CHR 0xB0, CHR 0xE6, CHR 0x8D, CHR 0xAE, CHR 0xE6, CHR 0xBB, CHR 0x9E,
      CHR 0xE5, CHR 0x90, CHR 0x8E] @ '' '' @ [CHR 0xC2, CHR 0xB7] @ '' {ago}''),
   (''disableFailed'', [CHR 0xE5, CHR 0x81, CHR 0x9C, CHR 0xE7, CHR 0x94, CHR 0xA8, CHR 0xE5, CHR 0xA4,
      CHR 0xB1, CHR 0xE8, CHR 0xB4, CHR 0xA5]),
   (''enableFailed'', [CHR 0xE5, CHR 0x90, CHR 0xAF, CHR 0xE7, CHR 0x94, CHR 0xA8, CHR 0xE5, CHR 0xA4,
      CHR 0xB1, CHR 0xE8, CHR 0xB4, CHR 0xA5]),
   (''removeFailed'', [CHR 0xE7, CHR 0xA7, CHR 0xBB, CHR 0xE9, CHR 0x99, CHR 0xA4, CHR 0xE5, CHR 0xA4,
      CHR 0xB1, CHR 0xE8, CHR 0xB4, CHR 0xA5]),
   (''removeTitle'', [CHR 0xE7, CHR 0xA7, CHR 0xBB, CHR 0xE9, CHR 0x99, CHR 0xA4, CHR 0xE6, CHR 0x9C,
      CHR 0x8D, CHR 0xE5, CHR 0x8A, CHR 0xA1, CHR 0xE5, CHR 0x99, CHR 0xA8] @ '' {name}'' @ [CHR 0xEF,
      CHR 0xBC, CHR 0x9F]),
   (''removeBody'', [CHR 0xE8, CHR 0xBF, CHR 0x99, CHR 0xE5, CHR 0x8F, CHR 0xAA, CHR 0xE6, CHR 0x98,
      CHR 0xAF, CHR 0xE6, CHR 0x8A, CHR 0x8A] @ '' {name} '' @ [CHR 0xE4, CHR 0xBB, CHR 0x8E, CHR 0xE6,
      CHR 0x8E, CHR 0xA7, CHR 0xE5, CHR 0x88, CHR 0xB6, CHR 0xE5, CHR 0x8F, CHR 0xB0, CHR 0xE7, CHR 0xA7,
      CHR 0xBB, CHR 0xE9, CHR 0x99, CHR 0xA4, CHR 0xEF, CHR 0xBC, CHR 0x8C, CHR 0xE4, CHR 0xB8, CHR 0x8D,
      CHR 0xE4, CHR 0xBC, CHR 0x9A, CHR 0xE6, CHR 0x94, CHR 0xB9, CHR 0xE5, CHR 0x8A, CHR 0xA8, CHR 0xE8,
      CHR 0xBF, CHR 0x9C, CHR 0xE7, CHR 0xA8, CHR 0x8B, CHR 0xE6, CHR 0x9C, CHR 0xBA, CHR 0xE5, CHR 0x99,
      CHR 0xA8, CHR 0xE4, CHR 0xB8, CHR 0x8A, CHR 0xE7, CHR 0x9A, CHR 0x84, CHR 0xE4, CHR 0xBB, CHR 0xBB,
      CHR 0xE4, CHR 0xBD, CHR 0x95, CHR 0xE5, CHR 0x86, CHR 0x85, CHR 0xE5, CHR 0xAE, CHR 0xB9, CHR 0xE3,
      CHR 0x80, CHR 0x82]),
   (''removeConfirm'', [CHR 0xE7, CHR 0xA7, CHR 0xBB, CHR 0xE9, CHR 0x99, CHR 0xA4] @ '' {name}''),
   (''removeDirectHint'', [CHR 0xE5, CHR 0x88, CHR 0xA0, CHR 0xE9, CHR 0x99, CHR 0xA4, CHR 0xE6, CHR 0x9C,
      CHR 0x8D, CHR 0xE5, CHR 0x8A, CHR 0xA1, CHR 0xE5, CHR 0x99, CHR 0xA8, CHR 0xE4, CHR 0xB8, CHR 0x8D,
      CHR 0xE4, CHR 0xBC, CHR 0x9A, CHR 0xE6, CHR 0x92, CHR 0xA4, CHR 0xE9, CHR 0x94, CHR 0x80, CHR 0xE5,
      CHR 0x85, CHR 0xB6, CHR 0xE4, CHR 0xBB, CHR 0x96, CHR 0xE6, CHR 0x9C, CHR 0xBA, CHR 0xE5, CHR 0x99,
      CHR 0xA8, CHR 0xE4, CHR 0xB8, CHR 0x8A, CHR 0xE7, CHR 0x9A, CHR 0x84] @ '' GPU Console '' @
      [CHR 0xE7, CHR 0x9B, CHR 0xB4, CHR 0xE8, CHR 0xBF, CHR 0x9E, CHR 0xE4, CHR 0xBC, CHR 0xA0, CHR 0xE8,
      CHR 0xBE, CHR 0x93, CHR 0xE4, CHR 0xB8, CHR 0x93, CHR 0xE7, CHR 0x94, CHR 0xA8, CHR 0xE5, CHR 0xAF,
      CHR 0x86, CHR 0xE9, CHR 0x92, CHR 0xA5, CHR 0xEF, CHR 0xBC, CHR 0x9B, CHR 0xE5, CHR 0xA6, CHR 0x82,
      CHR 0xE5, CHR 0xAD, CHR 0x98, CHR 0xE5, CHR 0x9C, CHR 0xA8, CHR 0xE7, CHR 0x9B, CHR 0xB4, CHR 0xE8,
      CHR 0xBF, CHR 0x9E, CHR 0xE9, CHR 0x85, CHR 0x8D, CHR 0xE7, CHR 0xBD, CHR 0xAE, CHR 0xEF, CHR 0xBC,
      CHR 0x8C, CHR 0xE8, CHR 0xAF, CHR 0xB7, CHR 0xE5, CHR 0x85, CHR 0x88, CHR 0xE6, CHR 0x92, CHR 0xA4,
      CHR 0xE9, CHR 0x94, CHR 0x80, CHR 0xE7, CHR 0x9B, CHR 0xB4, CHR 0xE8, CHR 0xBF, CHR 0x9E, CHR 0xE3,
      CHR 0x80, CHR 0x82]),
   (''cpuAria'', ''{name} CPU''),
   (''ramAria'', ''{name} '' @ [CHR 0xE5, CHR 0x86, CHR 0x85, CHR 0xE5, CHR 0xAD, CHR 0x98])]"

definition zh_tabs :: "(string \<times> string) list" where
 "zh_tabs =
  [(''overview'', [CHR 0xE6, CHR 0x80, CHR 0xBB, CHR 0xE8, CHR 0xA7, CHR 0x88]),
   (''gpus'', ''GPU''),
   (''processes'', [CHR 0xE8, CHR 0xBF, CHR 0x9B, CHR 0xE7, CHR 0xA8, CHR 0x8B]),
   (''system'', [CHR 0xE7, CHR 0xB3, CHR 0xBB, CHR 0xE7, CHR 0xBB, CHR 0x9F]),
   (''storage'', [CHR 0xE5, CHR 0xAD, CHR 0x98, CHR 0xE5, CHR 0x82, CHR 0xA8]),
   (''network'', [CHR 0xE7, CHR 0xBD, CHR 0x91, CHR 0xE7, CHR 0xBB, CHR 0x9C]),
   (''snapshotUnavailable'', [CHR 0xE5, CHR 0xBF, CHR 0xAB, CHR 0xE7, CHR 0x85, CHR 0xA7, CHR 0xE4,
      CHR 0xB8, CHR 0x8D, CHR 0xE5, CHR 0x8F, CHR 0xAF, CHR 0xE7, CHR 0x94, CHR 0xA8]),
   (''serverUnreachable'', [CHR 0xE6, CHR 0x9C, CHR 0x8D, CHR 0xE5, CHR 0x8A, CHR 0xA1, CHR 0xE5,
      CHR 0x99, CHR 0xA8, CHR 0xE6, CHR 0x97, CHR 0xA0, CHR 0xE6, CHR 0xB3, CHR 0x95, CHR 0xE8, CHR 0xBF,
      CHR 0x9E, CHR 0xE6, CHR 0x8E, CHR 0xA5])]"

definition zh_overview :: "(string \<times> string) list" where
 "zh_overview =
  [(''cpu'', ''CPU''),
   (''ram'', [CHR 0xE5, CHR 0x86, CHR 0x85, CHR 0xE5, CHR 0xAD, CHR 0x98]),
   (''load'', [CHR 0xE8, CHR 0xB4, CHR 0x9F, CHR 0xE8, CHR 0xBD, CHR 0xBD] @ '' {loads} '' @ [CHR 0xC2,
      CHR 0xB7] @ '' {cores}''),
   (''coresNa'', [CHR 0xE6, CHR 0xA0, CHR 0xB8, CHR 0xE5, CHR 0xBF, CHR 0x83] @ '' N/A''),
   (''cores'', ''{n} '' @ [CHR 0xE6, CHR 0xA0, CHR 0xB8, CHR 0xE5, CHR 0xBF, CHR 0x83]),
   (''physical'', ''{n} '' @ [CHR 0xE7, CHR 0x89, CHR 0xA9, CHR 0xE7, CHR 0x90, CHR 0x86]),
   (''topProcesses'', [CHR 0xE9, CHR 0xAB, CHR 0x98, CHR 0xE5, CHR 0x8D, CHR 0xA0, CHR 0xE7, CHR 0x94,
      CHR 0xA8, CHR 0xE8, CHR 0xBF, CHR 0x9B, CHR 0xE7, CHR 0xA8, CHR 0x8B]),
   (''storagePressure'', [CHR 0xE5, CHR 0xAD, CHR 0x98, CHR 0xE5, CHR 0x82, CHR 0xA8]),
   (''network'', [CHR 0xE7, CHR 0xBD, CHR 0x91, CHR 0xE7, CHR 0xBB, CHR 0x9C]),
   (''rx'', [CHR 0xE6, CHR 0x94, CHR 0xB6] @ '' {rate}''),
   (''tx'', [CHR 0xE5, CHR 0x8F, CHR 0x91] @ '' {rate}''),
   (''noGpu'', [CHR 0xE6, CHR 0x9C, CHR 0xAA, CHR 0xE6, CHR 0xA3, CHR 0x80, CHR 0xE6, CHR 0xB5, CHR 0x8B,
      CHR 0xE5, CHR 0x88, CHR 0xB0] @ '' NVIDIA GPU''),
   (''noGpuHint'', [CHR 0xE8, CHR 0xBF, CHR 0x99, CHR 0xE5, CHR 0x8F, CHR 0xB0, CHR 0xE6, CHR 0x9C,
      CHR 0xBA, CHR 0xE5, CHR 0x99, CHR 0xA8, CHR 0xE4, CHR 0xB8, CHR 0x8A, CHR 0xE6, CHR 0xB2, CHR 0xA1,
      CHR 0xE6, CHR 0x9C, CHR 0x89, CHR 0xE6, CHR 0x89, CHR 0xBE, CHR 0xE5, CHR 0x88, CHR 0xB0] @
      '' NVIDIA '' @ [CHR 0xE9, CHR 0xA9, CHR 0xB1, CHR 0xE5, CHR 0x8A, CHR 0xA8, CHR 0xE6, CHR 0x88,
      CHR 0x96] @ '' nvidia-smi'' @ [CHR 0xE3, CHR 0x80, CHR 0x82]),
   (''noGpusReported'', [CHR 0xE6, CHR 0x9C, CHR 0xAA, CHR 0xE6, CHR 0x8A, CHR 0xA5, CHR 0xE5, CHR 0x91,
      CHR 0x8A] @ '' GPU''),
   (''noGpusReportedHint'', [CHR 0xE8, CHR 0xBF, CHR 0x99, CHR 0xE5, CHR 0x8F, CHR 0xB0, CHR 0xE6,
      CHR 0x9C, CHR 0xBA, CHR 0xE5, CHR 0x99, CHR 0xA8, CHR 0xE6, CHR 0xB2, CHR 0xA1, CHR 0xE6, CHR 0x9C,
      CHR 0x89, CHR 0xE6, CHR 0x8A, CHR 0xA5, CHR 0xE5, CHR 0x91, CHR 0x8A, CHR 0xE4, CHR 0xBB, CHR 0xBB,
      CHR 0xE4, CHR 0xBD, CHR 0x95] @ '' GPU '' @ [CHR 0xE8, CHR 0xAE, CHR 0xBE, CHR 0xE5, CHR 0xA4,
      CHR 0x87, CHR 0xE3, CHR 0x80, CHR 0x82]),
   (''cpuRamPressure'', ''CPU / '' @ [CHR 0xE5, CHR 0x86, CHR 0x85, CHR 0xE5, CHR 0xAD, CHR 0x98,
      CHR 0xE5, CHR 0x8E, CHR 0x8B, CHR 0xE5, CHR 0x8A, CHR 0x9B]),
   (''cpuUtilization'', ''CPU '' @ [CHR 0xE5, CHR 0x88, CHR 0xA9, CHR 0xE7, CHR 0x94, CHR 0xA8, CHR 0xE7,
      CHR 0x8E, CHR 0x87]),
   (''ramUtilization'', [CHR 0xE5, CHR 0x86, CHR 0x85, CHR 0xE5, CHR 0xAD, CHR 0x98, CHR 0xE5, CHR 0x88,
      CHR 0xA9, CHR 0xE7, CHR 0x94, CHR 0xA8, CHR 0xE7, CHR 0x8E, CHR 0x87]),
   (''deviceOne'', ''{n} '' @ [CHR 0xE4, CHR 0xB8, CHR 0xAA, CHR 0xE8, CHR 0xAE, CHR 0xBE, CHR 0xE5,
      CHR 0xA4, CHR 0x87]),
   (''deviceMany'', ''{n} '' @ [CHR 0xE4, CHR 0xB8, CHR 0xAA, CHR 0xE8, CHR 0xAE, CHR 0xBE, CHR 0xE5,
      CHR 0xA4, CHR 0x87]),
   (''loadNa'', [CHR 0xE8, CHR 0xB4, CHR 0x9F, CHR 0xE8, CHR 0xBD, CHR 0xBD] @ '' N/A''),
   (''percentUsed'', [CHR 0xE5, CHR 0xB7, CHR 0xB2, CHR 0xE7, CHR 0x94, CHR 0xA8] @ '' {n}%''),
   (''rxTx'', [CHR 0xE6, CHR 0x94, CHR 0xB6] @ '' {rx} '' @ [CHR 0xC2, CHR 0xB7] @ '' '' @ [CHR 0xE5,
      CHR 0x8F, CHR 0x91] @ '' {tx}''),
   (''topProcessesMeta'', [CHR 0xE6, CHR 0x8C, CHR 0x89] @ '' CPU '' @ [CHR 0xC2, CHR 0xB7] @ '' '' @
      [CHR 0xE5, CHR 0x85, CHR 0xB1] @ '' {n} '' @ [CHR 0xE4, CHR 0xB8, CHR 0xAA])]"

definition zh_gpus :: "(string \<times> string) list" where
 "zh_gpus =
  [(''colPid'', ''PID''),
   (''colUser'', [CHR 0xE7, CHR 0x94, CHR 0xA8, CHR 0xE6, CHR 0x88, CHR 0xB7]),
   (''colProcess'', [CHR 0xE8, CHR 0xBF, CHR 0x9B, CHR 0xE7, CHR 0xA8, CHR 0x8B]),
   (''colVram'', [CHR 0xE6, CHR 0x98, CHR 0xBE, CHR 0xE5, CHR 0xAD, CHR 0x98]),
   (''colCommand'', [CHR 0xE5, CHR 0x91, CHR 0xBD, CHR 0xE4, CHR 0xBB, CHR 0xA4])]"

definition zh_processes :: "(string \<times> string) list" where
 "zh_processes =
  [(''search'', [CHR 0xE6, CHR 0x90, CHR 0x9C, CHR 0xE7, CHR 0xB4, CHR 0xA2, CHR 0xE5, CHR 0x90, CHR 0x8D,
      CHR 0xE7, CHR 0xA7, CHR 0xB0, CHR 0xE3, CHR 0x80, CHR 0x81, CHR 0xE7, CHR 0x94, CHR 0xA8, CHR 0xE6,
      CHR 0x88, CHR 0xB7, CHR 0xE3, CHR 0x80, CHR 0x81, CHR 0xE5, CHR 0x91, CHR 0xBD, CHR 0xE4, CHR 0xBB,
      CHR 0xA4, CHR 0xE6, CHR 0x88, CHR 0x96] @ '' PID''),
   (''gpuOnly'', [CHR 0xE4, CHR 0xBB, CHR 0x85] @ '' GPU''),
   (''colPid'', ''PID''),
   (''colUser'', [CHR 0xE7, CHR 0x94, CHR 0xA8, CHR 0xE6, CHR 0x88, CHR 0xB7]),
   (''colName'', [CHR 0xE5, CHR 0x90, CHR 0x8D, CHR 0xE7, CHR 0xA7, CHR 0xB0]),
   (''colCpu'', ''CPU''),
   (''colMem'', [CHR 0xE5, CHR 0x86, CHR 0x85, CHR 0xE5, CHR 0xAD, CHR 0x98]),
   (''colRss'', ''RSS''),
   (''colGpu'', ''GPU''),
   (''colState'', [CHR 0xE7, CHR 0x8A, CHR 0xB6, CHR 0xE6, CHR 0x80, CHR 0x81]),
   (''colCommand'', [CHR 0xE5, CHR 0x91, CHR 0xBD, CHR 0xE4, CHR 0xBB, CHR 0xA4]),
   (''colActions'', [CHR 0xE6, CHR 0x93, CHR 0x8D, CHR 0xE4, CHR 0xBD, CHR 0x9C]),
   (''showing'', [CHR 0xE6, CHR 0x98, CHR 0xBE, CHR 0xE7, CHR 0xA4, CHR 0xBA] @ '' {n} / {m}''),
   (''terminate'', [CHR 0xE7, CHR 0xBB, CHR 0x93, CHR 0xE6, CHR 0x9D, CHR 0x9F, CHR 0xE8, CHR 0xBF,
      CHR 0x9B, CHR 0xE7, CHR 0xA8, CHR 0x8B]),
   (''kill'', [CHR 0xE5, CHR 0xBC, CHR 0xBA, CHR 0xE5, CHR 0x88, CHR 0xB6, CHR 0xE7, CHR 0xBB, CHR 0x93,
      CHR 0xE6, CHR 0x9D, CHR 0x9F]),
   (''terminateTitle'', [CHR 0xE7, CHR 0xBB, CHR 0x93, CHR 0xE6, CHR 0x9D, CHR 0x9F, CHR 0xE8, CHR 0xBF,
      CHR 0x9B, CHR 0xE7, CHR 0xA8, CHR 0x8B] @ '' {pid}''),
   (''killTitle'', [CHR 0xE5, CHR 0xBC, CHR 0xBA, CHR 0xE5, CHR 0x88, CHR 0xB6, CHR 0xE7, CHR 0xBB,
      CHR 0x93, CHR 0xE6, CHR 0x9D, CHR 0x9F, CHR 0xE8, CHR 0xBF, CHR 0x9B, CHR 0xE7, CHR 0xA8, CHR 0x8B] @
      '' {pid}''),
   (''terminateLead'', [CHR 0xE8, CHR 0xA6, CHR 0x81, CHR 0xE5, CHR 0x9C, CHR 0xA8] @ '' {server} '' @
      [CHR 0xE4, CHR 0xB8, CHR 0x8A, CHR 0xE7, CHR 0xBB, CHR 0x93, CHR 0xE6, CHR 0x9D, CHR 0x9F, CHR 0xE8,
      CHR 0xBF, CHR 0x9B, CHR 0xE7, CHR 0xA8, CHR 0x8B] @ '' {pid}'' @ [CHR 0xEF, CHR 0xBC, CHR 0x88] @
      ''{name}'' @ [CHR 0xEF, CHR 0xBC, CHR 0x89, CHR 0xE5, CHR 0x90, CHR 0x97, CHR 0xEF, CHR 0xBC, CHR 0x9F]),
   (''killLead'', [CHR 0xE8, CHR 0xA6, CHR 0x81, CHR 0xE5, CHR 0x9C, CHR 0xA8] @ '' {server} '' @
      [CHR 0xE4, CHR 0xB8, CHR 0x8A, CHR 0xE5, CHR 0xBC, CHR 0xBA, CHR 0xE5, CHR 0x88, CHR 0xB6, CHR 0xE7,
      CHR 0xBB, CHR 0x93, CHR 0xE6, CHR 0x9D, CHR 0x9F, CHR 0xE8, CHR 0xBF, CHR 0x9B, CHR 0xE7, CHR 0xA8,
      CHR 0x8B] @ '' {pid}'' @ [CHR 0xEF, CHR 0xBC, CHR 0x88] @ ''{name}'' @ [CHR 0xEF, CHR 0xBC,
      CHR 0x89, CHR 0xE5, CHR 0x90, CHR 0x97, CHR 0xEF, CHR 0xBC, CHR 0x9F]),
   (''terminateHint'', ''SIGTERM '' @ [CHR 0xE4, CHR 0xBC, CHR 0x9A, CHR 0xE8, CHR 0xAF, CHR 0xB7,
      CHR 0xE6, CHR 0xB1, CHR 0x82, CHR 0xE8, CHR 0xBF, CHR 0x9B, CHR 0xE7, CHR 0xA8, CHR 0x8B, CHR 0xE9,
      CHR 0x80, CHR 0x80, CHR 0xE5, CHR 0x87, CHR 0xBA, CHR 0xEF, CHR 0xBC, CHR 0x8C, CHR 0xE8, CHR 0xBF,
      CHR 0x9B, CHR 0xE7, CHR 0xA8, CHR 0x8B, CHR 0xE6, CHR 0x9C, CHR 0x89, CHR 0xE6, CHR 0x9C, CHR 0xBA,
      CHR 0xE4, CHR 0xBC, CHR 0x9A, CHR 0xE5, CHR 0x85, CHR 0x88, CHR 0xE5, CHR 0x81, CHR 0x9A, CHR 0xE6,
      CHR 0xB8, CHR 0x85, CHR 0xE7, CHR 0x90, CHR 0x86, CHR 0xE3, CHR 0x80, CHR 0x82]),
   (''killHint'', ''SIGKILL '' @ [CHR 0xE4, CHR 0xBC, CHR 0x9A, CHR 0xE7, CHR 0xAB, CHR 0x8B, CHR 0xE5,
      CHR 0x8D, CHR 0xB3, CHR 0xE7, CHR 0xBB, CHR 0x88, CHR 0xE6, CHR 0xAD, CHR 0xA2, CHR 0xE8, CHR 0xBF,
      CHR 0x9B, CHR 0xE7, CHR 0xA8, CHR 0x8B, CHR 0xEF, CHR 0xBC, CHR 0x8C, CHR 0xE6, CHR 0x9C, CHR 0xAA,
      CHR 0xE4, CHR 0xBF, CHR 0x9D, CHR 0xE5, CHR 0xAD, CHR 0x98, CHR 0xE7, CHR 0x9A, CHR 0x84, CHR 0xE6,
      CHR 0x95, CHR 0xB0, CHR 0xE6, CHR 0x8D, CHR 0xAE, CHR 0xE4, CHR 0xBC, CHR 0x9A, CHR 0xE4, CHR 0xB8,
      CHR 0xA2, CHR 0xE5, CHR 0xA4, CHR 0xB1, CHR 0xE3, CHR 0x80, CHR 0x82]),
   (''confirmTerminate'', [CHR 0xE7, CHR 0xBB, CHR 0x93, CHR 0xE6, CHR 0x9D, CHR 0x9F, CHR 0xE8, CHR 0xBF,
      CHR 0x9B, CHR 0xE7, CHR 0xA8, CHR 0x8B] @ '' {pid}''),
   (''confirmKill'', [CHR 0xE5, CHR 0xBC, CHR 0xBA, CHR 0xE5, CHR 0x88, CHR 0xB6, CHR 0xE7, CHR 0xBB,
      CHR 0x93, CHR 0xE6, CHR 0x9D, CHR 0x9F, CHR 0xE8, CHR 0xBF, CHR 0x9B, CHR 0xE7, CHR 0xA8, CHR 0x8B] @
      '' {pid}''),
   (''errNoSuchProcess'', [CHR 0xE8, CHR 0xBF, CHR 0x9B, CHR 0xE7, CHR 0xA8, CHR 0x8B, CHR 0xE4, CHR 0xB8,
      CHR 0x8D, CHR 0xE5, CHR 0xAD, CHR 0x98, CHR 0xE5, CHR 0x9C, CHR 0xA8, CHR 0xE2, CHR 0x80, CHR 0x94,
      CHR 0xE2, CHR 0x80, CHR 0x94, CHR 0xE5, CHR 0x8F, CHR 0xAF, CHR 0xE8, CHR 0x83, CHR 0xBD, CHR 0xE5,
      CHR 0xB7, CHR 0xB2, CHR 0xE7, CHR 0xBB, CHR 0x8F, CHR 0xE9, CHR 0x80, CHR 0x80, CHR 0xE5, CHR 0x87,
      CHR 0xBA, CHR 0xE4, CHR 0xBA, CHR 0x86]),
   (''errPermission'', [CHR 0xE6, CHR 0xB2, CHR 0xA1, CHR 0xE6, CHR 0x9C, CHR 0x89, CHR 0xE6, CHR 0x93,
      CHR 0x8D, CHR 0xE4, CHR 0xBD, CHR 0x9C, CHR 0xE6, CHR 0x9D, CHR 0x83, CHR 0xE9, CHR 0x99, CHR 0x90,
      CHR 0xE2, CHR 0x80, CHR 0x94, CHR 0xE2, CHR 0x80, CHR 0x94, CHR 0xE4, CHR 0xBD, CHR 0xA0, CHR 0xE4,
      CHR 0xB8, CHR 0x8D, CHR 0xE6, CHR 0x98, CHR 0xAF, CHR 0xE8, CHR 0xBF, CHR 0x99, CHR 0xE4, CHR 0xB8,
      CHR 0xAA, CHR 0xE8, CHR 0xBF, CHR 0x9B, CHR 0xE7, CHR 0xA8, CHR 0x8B, CHR 0xE7, CHR 0x9A, CHR 0x84,
      CHR 0xE5, CHR 0xB1, CHR 0x9E, CHR 0xE4, CHR 0xB8, CHR 0xBB]),
   (''errNotFound'', [CHR 0xE5, CHR 0x9C, CHR 0xA8, CHR 0xE8, CHR 0xBF, CHR 0x99, CHR 0xE5, CHR 0x8F,
      CHR 0xB0, CHR 0xE6, CHR 0x9C, CHR 0x8D, CHR 0xE5, CHR 0x8A, CHR 0xA1, CHR 0xE5, CHR 0x99, CHR 0xA8,
      CHR 0xE4, CHR 0xB8, CHR 0x8A, CHR 0xE6, CHR 0xB2, CHR 0xA1, CHR 0xE6, CHR 0x9C, CHR 0x89, CHR 0xE6,
      CHR 0x89, CHR 0xBE, CHR 0xE5, CHR 0x88, CHR 0xB0, CHR 0xE8, CHR 0xAF, CHR 0xA5, CHR 0xE8, CHR 0xBF,
      CHR 0x9B, CHR 0xE7, CHR 0xA8, CHR 0x8B]),
   (''errRequestFailed'', [CHR 0xE8, CHR 0xAF, CHR 0xB7, CHR 0xE6, CHR 0xB1, CHR 0x82, CHR 0xE5, CHR 0xA4,
      CHR 0xB1, CHR 0xE8, CHR 0xB4, CHR 0xA5]),
   (''actionOk'', ''{action} {pid} '' @ [CHR 0xE2, CHR 0x80, CHR 0x94, CHR 0xE2, CHR 0x80, CHR 0x94] @
      '' '' @ [CHR 0xE5, CHR 0xB7, CHR 0xB2, CHR 0xE5, CHR 0xAE, CHR 0x8C, CHR 0xE6, CHR 0x88, CHR 0x90]),
   (''pastTerminate'', [CHR 0xE5, CHR 0xB7, CHR 0xB2, CHR 0xE7, CHR 0xBB, CHR 0x93, CHR 0xE6, CHR 0x9D,
      CHR 0x9F]),
   (''pastKill'', [CHR 0xE5, CHR 0xB7, CHR 0xB2, CHR 0xE5, CHR 0xBC, CHR 0xBA, CHR 0xE5, CHR 0x88,
      CHR 0xB6, CHR 0xE7, CHR 0xBB, CHR 0x93, CHR 0xE6, CHR 0x9D, CHR 0x9F]),
   (''searchAria'', [CHR 0xE6, CHR 0x90, CHR 0x9C, CHR 0xE7, CHR 0xB4, CHR 0xA2, CHR 0xE8, CHR 0xBF,
      CHR 0x9B, CHR 0xE7, CHR 0xA8, CHR 0x8B]),
   (''rowActions'', [CHR 0xE8, CHR 0xBF, CHR 0x9B, CHR 0xE7, CHR 0xA8, CHR 0x8B] @ '' {pid} '' @
      [CHR 0xE7, CHR 0x9A, CHR 0x84, CHR 0xE6, CHR 0x93, CHR 0x8D, CHR 0xE4, CHR 0xBD, CHR 0x9C]),
   (''countOne'', ''{n} '' @ [CHR 0xE4, CHR 0xB8, CHR 0xAA, CHR 0xE8, CHR 0xBF, CHR 0x9B, CHR 0xE7,
      CHR 0xA8, CHR 0x8B]),
   (''countMany'', ''{n} '' @ [CHR 0xE4, CHR 0xB8, CHR 0xAA, CHR 0xE8, CHR 0xBF, CHR 0x9B, CHR 0xE7,
      CHR 0xA8, CHR 0x8B]),
   (''empty'', [CHR 0xE6, CHR 0xB2, CHR 0xA1, CHR 0xE6, CHR 0x9C, CHR 0x89, CHR 0xE8, CHR 0xBF, CHR 0x9B,
      CHR 0xE7, CHR 0xA8, CHR 0x8B, CHR 0xE6, CHR 0x95, CHR 0xB0, CHR 0xE6, CHR 0x8D, CHR 0xAE]),
   (''emptyHint'', [CHR 0xE8, CHR 0xBF, CHR 0x99, CHR 0xE5, CHR 0x8F, CHR 0xB0, CHR 0xE6, CHR 0x9C,
      CHR 0xBA, CHR 0xE5, CHR 0x99, CHR 0xA8, CHR 0xE6, CHR 0xB2, CHR 0xA1, CHR 0xE6, CHR 0x9C, CHR 0x89,
      CHR 0xE6, CHR 0x8A, CHR 0xA5, CHR 0xE5, CHR 0x91, CHR 0x8A, CHR 0xE8, CHR 0xBF, CHR 0x9B, CHR 0xE7,
      CHR 0xA8, CHR 0x8B, CHR 0xE5, CHR 0x88, CHR 0x97, CHR 0xE8, CHR 0xA1, CHR 0xA8, CHR 0xE3, CHR 0x80,
      CHR 0x82]),
   (''noMatch'', [CHR 0xE6, CHR 0xB2, CHR 0xA1, CHR 0xE6, CHR 0x9C, CHR 0x89, CHR 0xE5, CHR 0x8C,
      CHR 0xB9, CHR 0xE9, CHR 0x85, CHR 0x8D, CHR 0xE7, CHR 0x9A, CHR 0x84, CHR 0xE8, CHR 0xBF, CHR 0x9B,
      CHR 0xE7, CHR 0xA8, CHR 0x8B]),
   (''noMatchHint'', [CHR 0xE8, CHR 0xAF, CHR 0xB7, CHR 0xE8, CHR 0xB0, CHR 0x83, CHR 0xE6, CHR 0x95,
      CHR 0xB4, CHR 0xE6, CHR 0x90, CHR 0x9C, CHR 0xE7, CHR 0xB4, CHR 0xA2, CHR 0xE6, CHR 0x9D, CHR 0xA1,
      CHR 0xE4, CHR 0xBB, CHR 0xB6, CHR 0xEF, CHR 0xBC, CHR 0x8C, CHR 0xE6, CHR 0x88, CHR 0x96, CHR 0xE6,
      CHR 0xB8, CHR 0x85, CHR 0xE9, CHR 0x99, CHR 0xA4, CHR 0xE2, CHR 0x80, CHR 0x9C, CHR 0xE4, CHR 0xBB,
      CHR 0x85] @ '' GPU'' @ [CHR 0xE2, CHR 0x80, CHR 0x9D, CHR 0xE7, CHR 0xAD, CHR 0x9B, CHR 0xE9,
      CHR 0x80, CHR 0x89, CHR 0xE3, CHR 0x80, CHR 0x82])]"

definition zh_system :: "(string \<times> string) list" where
 "zh_system =
  [(''hostname'', [CHR 0xE4, CHR 0xB8, CHR 0xBB, CHR 0xE6, CHR 0x9C, CHR 0xBA, CHR 0xE5, CHR 0x90, CHR 0x8D]),
   (''os'', [CHR 0xE6, CHR 0x93, CHR 0x8D, CHR 0xE4, CHR 0xBD, CHR 0x9C, CHR 0xE7, CHR 0xB3, CHR 0xBB,
      CHR 0xE7, CHR 0xBB, CHR 0x9F]),
   (''kernel'', [CHR 0xE5, CHR 0x86, CHR 0x85, CHR 0xE6, CHR 0xA0, CHR 0xB8]),
   (''uptime'', [CHR 0xE8, CHR 0xBF, CHR 0x90, CHR 0xE8, CHR 0xA1, CHR 0x8C, CHR 0xE6, CHR 0x97, CHR 0xB6,
      CHR 0xE9, CHR 0x95, CHR 0xBF]),
   (''cpuModel'', ''CPU '' @ [CHR 0xE5, CHR 0x9E, CHR 0x8B, CHR 0xE5, CHR 0x8F, CHR 0xB7]),
   (''cores'', [CHR 0xE6, CHR 0xA0, CHR 0xB8, CHR 0xE5, CHR 0xBF, CHR 0x83, CHR 0xE6, CHR 0x95, CHR 0xB0]),
   (''coresPhysical'', [CHR 0xE7, CHR 0x89, CHR 0xA9, CHR 0xE7, CHR 0x90, CHR 0x86]),
   (''coresLogical'', [CHR 0xE9, CHR 0x80, CHR 0xBB, CHR 0xE8, CHR 0xBE, CHR 0x91]),
   (''driver'', ''NVIDIA '' @ [CHR 0xE9, CHR 0xA9, CHR 0xB1, CHR 0xE5, CHR 0x8A, CHR 0xA8]),
   (''logicalCount'', ''{n} '' @ [CHR 0xE9, CHR 0x80, CHR 0xBB, CHR 0xE8, CHR 0xBE, CHR 0x91]),
   (''coresPair'', ''{physical} '' @ [CHR 0xE7, CHR 0x89, CHR 0xA9, CHR 0xE7, CHR 0x90, CHR 0x86] @ '' '' @
      [CHR 0xC2, CHR 0xB7] @ '' {logical} '' @ [CHR 0xE9, CHR 0x80, CHR 0xBB, CHR 0xE8, CHR 0xBE, CHR 0x91]),
   (''empty'', [CHR 0xE6, CHR 0xB2, CHR 0xA1, CHR 0xE6, CHR 0x9C, CHR 0x89, CHR 0xE7, CHR 0xB3, CHR 0xBB,
      CHR 0xE7, CHR 0xBB, CHR 0x9F, CHR 0xE4, CHR 0xBF, CHR 0xA1, CHR 0xE6, CHR 0x81, CHR 0xAF]),
   (''emptyHint'', [CHR 0xE8, CHR 0xBF, CHR 0x99, CHR 0xE5, CHR 0x8F, CHR 0xB0, CHR 0xE6, CHR 0x9C,
      CHR 0xBA, CHR 0xE5, CHR 0x99, CHR 0xA8, CHR 0xE6, CHR 0xB2, CHR 0xA1, CHR 0xE6, CHR 0x9C, CHR 0x89,
      CHR 0xE6, CHR 0x8A, CHR 0xA5, CHR 0xE5, CHR 0x91, CHR 0x8A, CHR 0xE7, CHR 0xB3, CHR 0xBB, CHR 0xE7,
      CHR 0xBB, CHR 0x9F, CHR 0xE4, CHR 0xBF, CHR 0xA1, CHR 0xE6, CHR 0x81, CHR 0xAF, CHR 0xE3, CHR 0x80,
      CHR 0x82])]"

definition zh_storage :: "(string \<times> string) list" where
 "zh_storage =
  [(''free'', [CHR 0xE5, CHR 0x89, CHR 0xA9, CHR 0xE4, CHR 0xBD, CHR 0x99] @ '' {size}''),
   (''empty'', [CHR 0xE6, CHR 0xB2, CHR 0xA1, CHR 0xE6, CHR 0x9C, CHR 0x89, CHR 0xE6, CHR 0x8C, CHR 0x82,
      CHR 0xE8, CHR 0xBD, CHR 0xBD, CHR 0xE7, CHR 0x82, CHR 0xB9]),
   (''emptyHint'', [CHR 0xE8, CHR 0xBF, CHR 0x99, CHR 0xE5, CHR 0x8F, CHR 0xB0, CHR 0xE6, CHR 0x9C,
      CHR 0xBA, CHR 0xE5, CHR 0x99, CHR 0xA8, CHR 0xE6, CHR 0xB2, CHR 0xA1, CHR 0xE6, CHR 0x9C, CHR 0x89,
      CHR 0xE6, CHR 0x8A, CHR 0xA5, CHR 0xE5, CHR 0x91, CHR 0x8A, CHR 0xE4, CHR 0xBB, CHR 0xBB, CHR 0xE4,
      CHR 0xBD, CHR 0x95, CHR 0xE6, CHR 0x96, CHR 0x87, CHR 0xE4, CHR 0xBB, CHR 0xB6, CHR 0xE7, CHR 0xB3,
      CHR 0xBB, CHR 0xE7, CHR 0xBB, CHR 0x9F, CHR 0xE3, CHR 0x80, CHR 0x82]),
   (''mountsOne'', ''{n} '' @ [CHR 0xE4, CHR 0xB8, CHR 0xAA, CHR 0xE6, CHR 0x8C, CHR 0x82, CHR 0xE8,
      CHR 0xBD, CHR 0xBD, CHR 0xE7, CHR 0x82, CHR 0xB9]),
   (''mountsMany'', ''{n} '' @ [CHR 0xE4, CHR 0xB8, CHR 0xAA, CHR 0xE6, CHR 0x8C, CHR 0x82, CHR 0xE8,
      CHR 0xBD, CHR 0xBD, CHR 0xE7, CHR 0x82, CHR 0xB9]),
   (''usageOf'', ''{mount} '' @ [CHR 0xE4, CHR 0xBD, CHR 0xBF, CHR 0xE7, CHR 0x94, CHR 0xA8, CHR 0xE7,
      CHR 0x8E, CHR 0x87])]"

definition zh_network :: "(string \<times> string) list" where
 "zh_network =
  [(''inTotal'', [CHR 0xE6, CHR 0x8E, CHR 0xA5, CHR 0xE6, CHR 0x94, CHR 0xB6] @ '' {size} '' @ [CHR 0xC2,
      CHR 0xB7] @ '' '' @ [CHR 0xE5, CHR 0x8F, CHR 0x91, CHR 0xE9, CHR 0x80, CHR 0x81] @ '' {sizeOut}''),
   (''ifacesOne'', ''{n} '' @ [CHR 0xE4, CHR 0xB8, CHR 0xAA, CHR 0xE6, CHR 0x8E, CHR 0xA5, CHR 0xE5,
      CHR 0x8F, CHR 0xA3]),
   (''ifacesMany'', ''{n} '' @ [CHR 0xE4, CHR 0xB8, CHR 0xAA, CHR 0xE6, CHR 0x8E, CHR 0xA5, CHR 0xE5,
      CHR 0x8F, CHR 0xA3]),
   (''empty'', [CHR 0xE6, CHR 0xB2, CHR 0xA1, CHR 0xE6, CHR 0x9C, CHR 0x89, CHR 0xE7, CHR 0xBD, CHR 0x91,
      CHR 0xE7, CHR 0xBB, CHR 0x9C, CHR 0xE6, CHR 0x8E, CHR 0xA5, CHR 0xE5, CHR 0x8F, CHR 0xA3]),
   (''emptyHint'', [CHR 0xE8, CHR 0xBF, CHR 0x99, CHR 0xE5, CHR 0x8F, CHR 0xB0, CHR 0xE6, CHR 0x9C,
      CHR 0xBA, CHR 0xE5, CHR 0x99, CHR 0xA8, CHR 0xE6, CHR 0xB2, CHR 0xA1, CHR 0xE6, CHR 0x9C, CHR 0x89,
      CHR 0xE6, CHR 0x8A, CHR 0xA5, CHR 0xE5, CHR 0x91, CHR 0x8A, CHR 0xE4, CHR 0xBB, CHR 0xBB, CHR 0xE4,
      CHR 0xBD, CHR 0x95, CHR 0xE7, CHR 0xBD, CHR 0x91, CHR 0xE7, CHR 0xBB, CHR 0x9C, CHR 0xE6, CHR 0x8E,
      CHR 0xA5, CHR 0xE5, CHR 0x8F, CHR 0xA3, CHR 0xE3, CHR 0x80, CHR 0x82])]"

definition zh_settings :: "(string \<times> string) list" where
 "zh_settings =
  [(''title'', [CHR 0xE8, CHR 0xAE, CHR 0xBE, CHR 0xE7, CHR 0xBD, CHR 0xAE]),
   (''registry'', [CHR 0xE6, CHR 0x9C, CHR 0x8D, CHR 0xE5, CHR 0x8A, CHR 0xA1, CHR 0xE5, CHR 0x99,
      CHR 0xA8, CHR 0xE6, CHR 0xB3, CHR 0xA8, CHR 0xE5, CHR 0x86, CHR 0x8C, CHR 0xE8, CHR 0xA1, CHR 0xA8]),
   (''registryHeaderServer'', [CHR 0xE6, CHR 0x9C, CHR 0x8D, CHR 0xE5, CHR 0x8A, CHR 0xA1, CHR 0xE5,
      CHR 0x99, CHR 0xA8]),
   (''registryHeaderEndpoint'', [CHR 0xE5, CHR 0x9C, CHR 0xB0, CHR 0xE5, CHR 0x9D, CHR 0x80]),
   (''registryHeaderTags'', [CHR 0xE6, CHR 0xA0, CHR 0x87, CHR 0xE7, CHR 0xAD, CHR 0xBE]),
   (''registryHeaderEnabled'', [CHR 0xE5, CHR 0x90, CHR 0xAF, CHR 0xE7, CHR 0x94, CHR 0xA8]),
   (''registryHeaderStatus'', [CHR 0xE7, CHR 0x8A, CHR 0xB6, CHR 0xE6, CHR 0x80, CHR 0x81]),
   (''preferences'', [CHR 0xE5, CHR 0x81, CHR 0x8F, CHR 0xE5, CHR 0xA5, CHR 0xBD, CHR 0xE8, CHR 0xAE,
      CHR 0xBE, CHR 0xE7, CHR 0xBD, CHR 0xAE]),
   (''registered'', [CHR 0xE5, CHR 0x85, CHR 0xB1] @ '' {n} '' @ [CHR 0xE5, CHR 0x8F, CHR 0xB0]),
   (''addServer'', [CHR 0xE6, CHR 0xB7, CHR 0xBB, CHR 0xE5, CHR 0x8A, CHR 0xA0, CHR 0xE6, CHR 0x9C,
      CHR 0x8D, CHR 0xE5, CHR 0x8A, CHR 0xA1, CHR 0xE5, CHR 0x99, CHR 0xA8]),
   (''appearance'', [CHR 0xE5, CHR 0xA4, CHR 0x96, CHR 0xE8, CHR 0xA7, CHR 0x82]),
   (''themeDark'', [CHR 0xE6, CHR 0xB7, CHR 0xB1, CHR 0xE8, CHR 0x89, CHR 0xB2]),
   (''themeMinimal'', [CHR 0xE7, CHR 0xAE, CHR 0x80, CHR 0xE6, CHR 0xB4, CHR 0x81, CHR 0xE6, CHR 0xB5,
      CHR 0x85, CHR 0xE8, CHR 0x89, CHR 0xB2]),
   (''themeWarm'', [CHR 0xE6, CHR 0x9A, CHR 0x96, CHR 0xE8, CHR 0x89, CHR 0xB2]),
   (''themeSystem'', [CHR 0xE8, CHR 0xB7, CHR 0x9F, CHR 0xE9, CHR 0x9A, CHR 0x8F, CHR 0xE7, CHR 0xB3,
      CHR 0xBB, CHR 0xE7, CHR 0xBB, CHR 0x9F]),
   (''language'', [CHR 0xE7, CHR 0x95, CHR 0x8C, CHR 0xE9, CHR 0x9D, CHR 0xA2, CHR 0xE8, CHR 0xAF,
      CHR 0xAD, CHR 0xE8, CHR 0xA8, CHR 0x80]),
   (''sections'', [CHR 0xE8, CHR 0xAF, CHR 0xA6, CHR 0xE6, CHR 0x83, CHR 0x85, CHR 0xE9, CHR 0xA1,
      CHR 0xB5, CHR 0xE6, CHR 0x9D, CHR 0xBF, CHR 0xE5, CHR 0x9D, CHR 0x97]),
   (''apiBase'', ''API '' @ [CHR 0xE5, CHR 0x9C, CHR 0xB0, CHR 0xE5, CHR 0x9D, CHR 0x80]),
   (''backendHealth'', [CHR 0xE5, CHR 0x90, CHR 0x8E, CHR 0xE7, CHR 0xAB, CHR 0xAF, CHR 0xE7, CHR 0x8A,
      CHR 0xB6, CHR 0xE6, CHR 0x80, CHR 0x81]),
   (''checking'', [CHR 0xE6, CHR 0xA3, CHR 0x80, CHR 0xE6, CHR 0xB5, CHR 0x8B, CHR 0xE4, CHR 0xB8,
      CHR 0xAD, CHR 0xE2, CHR 0x80, CHR 0xA6]),
   (''unreachable'', [CHR 0xE6, CHR 0x97, CHR 0xA0, CHR 0xE6, CHR 0xB3, CHR 0x95, CHR 0xE8, CHR 0xBF,
      CHR 0x9E, CHR 0xE6, CHR 0x8E, CHR 0xA5]),
   (''scheduler'', [CHR 0xE8, CHR 0xB0, CHR 0x83, CHR 0xE5, CHR 0xBA, CHR 0xA6, CHR 0xE5, CHR 0x99,
      CHR 0xA8] @ '' {mode}''),
   (''clients'', ''{n} '' @ [CHR 0xE4, CHR 0xB8, CHR 0xAA, CHR 0xE5, CHR 0xAE, CHR 0x9E, CHR 0xE6,
      CHR 0x97, CHR 0xB6, CHR 0xE5, CHR 0xAE, CHR 0xA2, CHR 0xE6, CHR 0x88, CHR 0xB7, CHR 0xE7, CHR 0xAB,
      CHR 0xAF]),
   (''memoryNote'', [CHR 0xE9, CHR 0x81, CHR 0xA5, CHR 0xE6, CHR 0xB5, CHR 0x8B, CHR 0xE6, CHR 0x95,
      CHR 0xB0, CHR 0xE6, CHR 0x8D, CHR 0xAE, CHR 0xE5, CHR 0x8F, CHR 0xAA, CHR 0xE5, CHR 0xAD, CHR 0x98,
      CHR 0xE5, CHR 0x86, CHR 0x85, CHR 0xE5, CHR 0xAD, CHR 0x98, CHR 0xEF, CHR 0xBC, CHR 0x9A, CHR 0xE9,
      CHR 0x87, CHR 0x87, CHR 0xE6, CHR 0xA0, CHR 0xB7, CHR 0xE4, CHR 0xBF, CHR 0x9D, CHR 0xE5, CHR 0xAD,
      CHR 0x98, CHR 0xE5, CHR 0x9C, CHR 0xA8, CHR 0xE6, CHR 0x9C, CHR 0x8D, CHR 0xE5, CHR 0x8A, CHR 0xA1,
      CHR 0xE5, CHR 0x99, CHR 0xA8, CHR 0xE4, CHR 0xB8, CHR 0x8E, CHR 0xE6, CHR 0x9C, CHR 0xAC, CHR 0xE9,
      CHR 0xA1, CHR 0xB5, CHR 0xE7, CHR 0x9A, CHR 0x84, CHR 0xE6, CHR 0x9C, CHR 0x89, CHR 0xE9, CHR 0x99,
      CHR 0x90, CHR 0xE5, CHR 0x86, CHR 0x85, CHR 0xE5, CHR 0xAD, CHR 0x98, CHR 0xE9, CHR 0x87, CHR 0x8C,
      CHR 0xEF, CHR 0xBC, CHR 0x8C, CHR 0xE6, CHR 0xB5, CHR 0x8F, CHR 0xE8, CHR 0xA7, CHR 0x88, CHR 0xE5,
      CHR 0x99, CHR 0xA8, CHR 0xE4, CHR 0xB8, CHR 0x8D, CHR 0xE4, CHR 0xBC, CHR 0x9A, CHR 0xE6, CHR 0x8C,
      CHR 0x81, CHR 0xE4, CHR 0xB9, CHR 0x85, CHR 0xE5, CHR 0x8C, CHR 0x96, CHR 0xE3, CHR 0x80, CHR 0x82]),
   (''trustNote'', [CHR 0xE4, CHR 0xB8, CHR 0xBB, CHR 0xE6, CHR 0x9C, CHR 0xBA, CHR 0xE5, CHR 0xAF,
      CHR 0x86, CHR 0xE9, CHR 0x92, CHR 0xA5, CHR 0xE4, CHR 0xBF, CHR 0xA1, CHR 0xE4, CHR 0xBB, CHR 0xBB,
      CHR 0xE4, CHR 0xBF, CHR 0x9D, CHR 0xE5, CHR 0xAD, CHR 0x98, CHR 0xE5, CHR 0x9C, CHR 0xA8, CHR 0xE6,
      CHR 0x9C, CHR 0x8D, CHR 0xE5, CHR 0x8A, CHR 0xA1, CHR 0xE7, CHR 0xAB, CHR 0xAF, CHR 0xEF, CHR 0xBC,
      CHR 0x8C, CHR 0xE7, CHR 0xBB, CHR 0x9D, CHR 0xE4, CHR 0xB8, CHR 0x8D, CHR 0xE4, CHR 0xBC, CHR 0x9A,
      CHR 0xE5, CHR 0x86, CHR 0x99, CHR 0xE5, CHR 0x85, CHR 0xA5] @ '' ~/.ssh/known_hosts'' @ [CHR 0xE3,
      CHR 0x80, CHR 0x82]),
   (''tags'', [CHR 0xE6, CHR 0xA0, CHR 0x87, CHR 0xE7, CHR 0xAD, CHR 0xBE]),
   (''tagCommaHint'', [CHR 0xE9, CHR 0x80, CHR 0x97, CHR 0xE5, CHR 0x8F, CHR 0xB7, CHR 0xE5, CHR 0x88,
      CHR 0x86, CHR 0xE9, CHR 0x9A, CHR 0x94]),
   (''enabled'', [CHR 0xE5, CHR 0xB7, CHR 0xB2, CHR 0xE5, CHR 0x90, CHR 0xAF, CHR 0xE7, CHR 0x94, CHR 0xA8]),
   (''disabled'', [CHR 0xE5, CHR 0xB7, CHR 0xB2, CHR 0xE5, CHR 0x81, CHR 0x9C, CHR 0xE7, CHR 0x94, CHR 0xA8])]"

definition zh_preview :: "(string \<times> string) list" where
 "zh_preview =
  [(''note'', [CHR 0xE8, CHR 0xAE, CHR 0xBE, CHR 0xE8, CHR 0xAE, CHR 0xA1, CHR 0xE9, CHR 0xA2, CHR 0x84,
      CHR 0xE8, CHR 0xA7, CHR 0x88] @ '' '' @ [CHR 0xC2, CHR 0xB7] @ '' '' @ [CHR 0xE4, CHR 0xBB,
      CHR 0x85, CHR 0xE4, CHR 0xB8, CHR 0xBA, CHR 0xE7, CHR 0xA4, CHR 0xBA, CHR 0xE4, CHR 0xBE, CHR 0x8B,
      CHR 0xE6, CHR 0x95, CHR 0xB0, CHR 0xE6, CHR 0x8D, CHR 0xAE]),
   (''gpuDetail'', ''GPU '' @ [CHR 0xE8, CHR 0xAF, CHR 0xA6, CHR 0xE6, CHR 0x83, CHR 0x85, CHR 0xEF,
      CHR 0xBC, CHR 0x88, CHR 0xE5, CHR 0xB1, CHR 0x95, CHR 0xE5, CHR 0xBC, CHR 0x80] @ '' lane'' @
      [CHR 0xEF, CHR 0xBC, CHR 0x89]),
   (''historyMeta'', ''{n} '' @ [CHR 0xE7, CHR 0x82, CHR 0xB9, CHR 0xE5, CHR 0x8E, CHR 0x86, CHR 0xE5,
      CHR 0x8F, CHR 0xB2]),
   (''asyncStates'', [CHR 0xE5, CHR 0xBC, CHR 0x82, CHR 0xE6, CHR 0xAD, CHR 0xA5, CHR 0xE7, CHR 0x8A,
      CHR 0xB6, CHR 0xE6, CHR 0x80, CHR 0x81]),
   (''noGpusHint'', [CHR 0xE9, CHR 0x87, CHR 0x87, CHR 0xE9, CHR 0x9B, CHR 0x86, CHR 0xE5, CHR 0x99,
      CHR 0xA8, CHR 0xE6, CHR 0x9C, CHR 0xAA, CHR 0xE5, CHR 0x8F, CHR 0x91, CHR 0xE7, CHR 0x8E, CHR 0xB0] @
      '' NVIDIA '' @ [CHR 0xE8, CHR 0xAE, CHR 0xBE, CHR 0xE5, CHR 0xA4, CHR 0x87, CHR 0xE3, CHR 0x80,
      CHR 0x82])]"

definition zh_dialog :: "(string \<times> string) list" where
 "zh_dialog =
  [(''addTitle'', [CHR 0xE6, CHR 0xB7, CHR 0xBB, CHR 0xE5, CHR 0x8A, CHR 0xA0, CHR 0xE6, CHR 0x9C,
      CHR 0x8D, CHR 0xE5, CHR 0x8A, CHR 0xA1, CHR 0xE5, CHR 0x99, CHR 0xA8]),
   (''editTitle'', [CHR 0xE7, CHR 0xBC, CHR 0x96, CHR 0xE8, CHR 0xBE, CHR 0x91, CHR 0xE6, CHR 0x9C,
      CHR 0x8D, CHR 0xE5, CHR 0x8A, CHR 0xA1, CHR 0xE5, CHR 0x99, CHR 0xA8] @ '' {name}''),
   (''displayName'', [CHR 0xE6, CHR 0x98, CHR 0xBE, CHR 0xE7, CHR 0xA4, CHR 0xBA, CHR 0xE5, CHR 0x90,
      CHR 0x8D, CHR 0xE7, CHR 0xA7, CHR 0xB0]),
   (''namePlaceholder'', [CHR 0xE4, CHR 0xBE, CHR 0x8B, CHR 0xE5, CHR 0xA6, CHR 0x82] @ '' lab-4090''),
   (''source'', ''SSH '' @ [CHR 0xE6, CHR 0x9D, CHR 0xA5, CHR 0xE6, CHR 0xBA, CHR 0x90]),
   (''fromConfig'', [CHR 0xE6, CHR 0x9D, CHR 0xA5, CHR 0xE8, CHR 0x87, CHR 0xAA] @ '' ssh config''),
   (''manual'', [CHR 0xE6, CHR 0x89, CHR 0x8B, CHR 0xE5, CHR 0x8A, CHR 0xA8, CHR 0xE8, CHR 0xBE, CHR 0x93,
      CHR 0xE5, CHR 0x85, CHR 0xA5]),
   (''aliasPlaceholder'', [CHR 0xE9, CHR 0x80, CHR 0x89, CHR 0xE6, CHR 0x8B, CHR 0xA9, CHR 0xE4, CHR 0xB8,
      CHR 0x80, CHR 0xE4, CHR 0xB8, CHR 0xAA, CHR 0xE5, CHR 0x88, CHR 0xAB, CHR 0xE5, CHR 0x90, CHR 0x8D,
      CHR 0xE2, CHR 0x80, CHR 0xA6]),
   (''aliasEmpty'', [CHR 0xE6, CHR 0xB2, CHR 0xA1, CHR 0xE6, CHR 0x9C, CHR 0x89, CHR 0xE5, CHR 0x8F,
      CHR 0xAF, CHR 0xE7, CHR 0x94, CHR 0xA8, CHR 0xE7, CHR 0x9A, CHR 0x84, CHR 0xE5, CHR 0x88, CHR 0xAB,
      CHR 0xE5, CHR 0x90, CHR 0x8D, CHR 0xE2, CHR 0x80, CHR 0x94, CHR 0xE2, CHR 0x80, CHR 0x94, CHR 0xE8,
      CHR 0xAF, CHR 0xB7, CHR 0xE6, CHR 0x89, CHR 0x8B, CHR 0xE5, CHR 0x8A, CHR 0xA8, CHR 0xE8, CHR 0xBE,
      CHR 0x93, CHR 0xE5, CHR 0x85, CHR 0xA5]),
   (''host'', [CHR 0xE4, CHR 0xB8, CHR 0xBB, CHR 0xE6, CHR 0x9C, CHR 0xBA]),
   (''hostPlaceholder'', [CHR 0xE4, CHR 0xB8, CHR 0xBB, CHR 0xE6, CHR 0x9C, CHR 0xBA, CHR 0xE5, CHR 0x90,
      CHR 0x8D, CHR 0xE6, CHR 0x88, CHR 0x96] @ '' IP''),
   (''username'', [CHR 0xE7, CHR 0x94, CHR 0xA8, CHR 0xE6, CHR 0x88, CHR 0xB7, CHR 0xE5, CHR 0x90, CHR 0x8D]),
   (''usernameOptional'', [CHR 0xE7, CHR 0x94, CHR 0xA8, CHR 0xE6, CHR 0x88, CHR 0xB7, CHR 0xE5, CHR 0x90,
      CHR 0x8D, CHR 0xEF, CHR 0xBC, CHR 0x88, CHR 0xE5, CHR 0x8F, CHR 0xAF, CHR 0xE9, CHR 0x80, CHR 0x89,
      CHR 0xEF, CHR 0xBC, CHR 0x89]),
   (''port'', [CHR 0xE7, CHR 0xAB, CHR 0xAF, CHR 0xE5, CHR 0x8F, CHR 0xA3]),
   (''portOptional'', [CHR 0xE7, CHR 0xAB, CHR 0xAF, CHR 0xE5, CHR 0x8F, CHR 0xA3, CHR 0xEF, CHR 0xBC,
      CHR 0x88, CHR 0xE5, CHR 0x8F, CHR 0xAF, CHR 0xE9, CHR 0x80, CHR 0x89, CHR 0xEF, CHR 0xBC, CHR 0x89]),
   (''portPlaceholder'', ''22''),
   (''enabled'', [CHR 0xE5, CHR 0x90, CHR 0xAF, CHR 0xE7, CHR 0x94, CHR 0xA8]),
   (''save'', [CHR 0xE4, CHR 0xBF, CHR 0x9D, CHR 0xE5, CHR 0xAD, CHR 0x98, CHR 0xE4, CHR 0xBF, CHR 0xAE,
      CHR 0xE6, CHR 0x94, CHR 0xB9]),
   (''createAndTest'', [CHR 0xE6, CHR 0xB7, CHR 0xBB, CHR 0xE5, CHR 0x8A, CHR 0xA0, CHR 0xE5, CHR 0xB9,
      CHR 0xB6, CHR 0xE6, CHR 0xB5, CHR 0x8B, CHR 0xE8, CHR 0xAF, CHR 0x95, CHR 0xE8, CHR 0xBF, CHR 0x9E,
      CHR 0xE6, CHR 0x8E, CHR 0xA5]),
   (''testing'', [CHR 0xE6, CHR 0xAD, CHR 0xA3, CHR 0xE5, CHR 0x9C, CHR 0xA8, CHR 0xE6, CHR 0xB5,
      CHR 0x8B, CHR 0xE8, CHR 0xAF, CHR 0x95, CHR 0xE8, CHR 0xBF, CHR 0x9E, CHR 0xE6, CHR 0x8E, CHR 0xA5,
      CHR 0xE2, CHR 0x80, CHR 0xA6]),
   (''testAgain'', [CHR 0xE9, CHR 0x87, CHR 0x8D, CHR 0xE6, CHR 0x96, CHR 0xB0, CHR 0xE6, CHR 0xB5,
      CHR 0x8B, CHR 0xE8, CHR 0xAF, CHR 0x95]),
   (''backToEdit'', [CHR 0xE7, CHR 0xBC, CHR 0x96, CHR 0xE8, CHR 0xBE, CHR 0x91]),
   (''connected'', [CHR 0xE5, CHR 0xB7, CHR 0xB2, CHR 0xE8, CHR 0xBF, CHR 0x9E, CHR 0xE6, CHR 0x8E, CHR 0xA5]),
   (''latency'', ''{ms} ms''),
   (''hostKeyTitle'', [CHR 0xE6, CHR 0x97, CHR 0xA0, CHR 0xE6, CHR 0xB3, CHR 0x95, CHR 0xE7, CHR 0xA1,
      CHR 0xAE, CHR 0xE8, CHR 0xAE, CHR 0xA4, CHR 0xE4, CHR 0xB8, CHR 0xBB, CHR 0xE6, CHR 0x9C, CHR 0xBA] @
      '' {host} '' @ [CHR 0xE7, CHR 0x9A, CHR 0x84, CHR 0xE7, CHR 0x9C, CHR 0x9F, CHR 0xE5, CHR 0xAE,
      CHR 0x9E, CHR 0xE6, CHR 0x80, CHR 0xA7, CHR 0xE3, CHR 0x80, CHR 0x82]),
   (''hostKeyBody'', [CHR 0xE5, CHR 0xAF, CHR 0x86, CHR 0xE9, CHR 0x92, CHR 0xA5, CHR 0xE7, CHR 0xB1,
      CHR 0xBB, CHR 0xE5, CHR 0x9E, CHR 0x8B] @ '' {type} '' @ [CHR 0xC2, CHR 0xB7] @ '' '' @ [CHR 0xE6,
      CHR 0x8C, CHR 0x87, CHR 0xE7, CHR 0xBA, CHR 0xB9]),
   (''hostKeyHint'', [CHR 0xE8, CHR 0xAF, CHR 0xB7, CHR 0xE5, CHR 0x85, CHR 0x88, CHR 0xE9, CHR 0x80,
      CHR 0x9A, CHR 0xE8, CHR 0xBF, CHR 0x87, CHR 0xE5, CHR 0x85, CHR 0xB6, CHR 0xE4, CHR 0xBB, CHR 0x96,
      CHR 0xE6, CHR 0xB8, CHR 0xA0, CHR 0xE9, CHR 0x81, CHR 0x93, CHR 0xE6, CHR 0xA0, CHR 0xB8, CHR 0xE5,
      CHR 0xAF, CHR 0xB9, CHR 0xE6, CHR 0x8C, CHR 0x87, CHR 0xE7, CHR 0xBA, CHR 0xB9, CHR 0xEF, CHR 0xBC,
      CHR 0x8C, CHR 0xE5, CHR 0x86, CHR 0x8D, CHR 0xE4, CHR 0xBF, CHR 0xA1, CHR 0xE4, CHR 0xBB, CHR 0xBB,
      CHR 0xE5, CHR 0xB9, CHR 0xB6, CHR 0xE8, CHR 0xBF, CHR 0x9E, CHR 0xE6, CHR 0x8E, CHR 0xA5, CHR 0xE3,
      CHR 0x80, CHR 0x82]),
   (''hostKeyTrust'', [CHR 0xE4, CHR 0xBF, CHR 0xA1, CHR 0xE4, CHR 0xBB, CHR 0xBB, CHR 0xE5, CHR 0xAF,
      CHR 0x86, CHR 0xE9, CHR 0x92, CHR 0xA5, CHR 0xE5, CHR 0xB9, CHR 0xB6, CHR 0xE9, CHR 0x87, CHR 0x8D,
      CHR 0xE8, CHR 0xAF, CHR 0x95]),
   (''authHelp'', [CHR 0xE8, CHR 0xAE, CHR 0xA4, CHR 0xE8, CHR 0xAF, CHR 0x81, CHR 0xE5, CHR 0xA4,
      CHR 0xB1, CHR 0xE8, CHR 0xB4, CHR 0xA5, CHR 0xE3, CHR 0x80, CHR 0x82, CHR 0xE8, CHR 0xAF, CHR 0xB7,
      CHR 0xE6, CHR 0xA3, CHR 0x80, CHR 0xE6, CHR 0x9F, CHR 0xA5] @ '' SSH agent '' @ [CHR 0xE9, CHR 0x87,
      CHR 0x8C, CHR 0xE6, CHR 0x98, CHR 0xAF, CHR 0xE5, CHR 0x90, CHR 0xA6, CHR 0xE6, CHR 0x9C, CHR 0x89,
      CHR 0xE6, CHR 0x9C, CHR 0x8D, CHR 0xE5, CHR 0x8A, CHR 0xA1, CHR 0xE5, CHR 0x99, CHR 0xA8, CHR 0xE8,
      CHR 0xAE, CHR 0xA4, CHR 0xE5, CHR 0x8F, CHR 0xAF, CHR 0xE7, CHR 0x9A, CHR 0x84, CHR 0xE5, CHR 0xAF,
      CHR 0x86, CHR 0xE9, CHR 0x92, CHR 0xA5, CHR 0xE3, CHR 0x80, CHR 0x82]),
   (''unreachableHelp'', [CHR 0xE6, CHR 0x9C, CHR 0x8D, CHR 0xE5, CHR 0x8A, CHR 0xA1, CHR 0xE5, CHR 0x99,
      CHR 0xA8, CHR 0xE6, CHR 0x97, CHR 0xA0, CHR 0xE6, CHR 0xB3, CHR 0x95, CHR 0xE8, CHR 0xBF, CHR 0x9E,
      CHR 0xE6, CHR 0x8E, CHR 0xA5, CHR 0xEF, CHR 0xBC, CHR 0x9A, CHR 0xE8, CHR 0xAF, CHR 0xB7, CHR 0xE6,
      CHR 0xA3, CHR 0x80, CHR 0xE6, CHR 0x9F, CHR 0xA5, CHR 0xE7, CHR 0xBD, CHR 0x91, CHR 0xE7, CHR 0xBB,
      CHR 0x9C, CHR 0xE6, CHR 0x88, CHR 0x96, CHR 0xE4, CHR 0xB8, CHR 0xBB, CHR 0xE6, CHR 0x9C, CHR 0xBA,
      CHR 0xE5, CHR 0x9C, CHR 0xB0, CHR 0xE5, CHR 0x9D, CHR 0x80, CHR 0xE3, CHR 0x80, CHR 0x82]),
   (''aliasesError'', [CHR 0xE6, CHR 0x97, CHR 0xA0, CHR 0xE6, CHR 0xB3, CHR 0x95, CHR 0xE5, CHR 0x8A,
      CHR 0xA0, CHR 0xE8, CHR 0xBD, CHR 0xBD] @ '' ssh config '' @ [CHR 0xE5, CHR 0x88, CHR 0xAB,
      CHR 0xE5, CHR 0x90, CHR 0x8D]),
   (''tags'', [CHR 0xE6, CHR 0xA0, CHR 0x87, CHR 0xE7, CHR 0xAD, CHR 0xBE]),
   (''tagCommaHint'', [CHR 0xE9, CHR 0x80, CHR 0x97, CHR 0xE5, CHR 0x8F, CHR 0xB7, CHR 0xE5, CHR 0x88,
      CHR 0x86, CHR 0xE9, CHR 0x9A, CHR 0x94, CHR 0xEF, CHR 0xBC, CHR 0x8C, CHR 0xE5, CHR 0x8F, CHR 0xAF,
      CHR 0xE9, CHR 0x80, CHR 0x89]),
   (''tagsPlaceholder'', [CHR 0xE4, CHR 0xBE, CHR 0x8B, CHR 0xE5, CHR 0xA6, CHR 0x82] @ '' lab, gpu''),
   (''aliasLabel'', ''ssh config '' @ [CHR 0xE5, CHR 0x88, CHR 0xAB, CHR 0xE5, CHR 0x90, CHR 0x8D]),
   (''aliasHint'', [CHR 0xE8, CHR 0xA7, CHR 0xA3, CHR 0xE6, CHR 0x9E, CHR 0x90, CHR 0xE8, CHR 0x87,
      CHR 0xAA, CHR 0xE4, CHR 0xBD, CHR 0xA0, CHR 0xE7, CHR 0x9A, CHR 0x84] @ '' ~/.ssh/config''),
   (''aliasPrefill'', [CHR 0xE5, CHR 0xB7, CHR 0xB2, CHR 0xE4, CHR 0xBB, CHR 0x8E, CHR 0xE5, CHR 0x88,
      CHR 0xAB, CHR 0xE5, CHR 0x90, CHR 0x8D, CHR 0xE9, CHR 0xA2, CHR 0x84, CHR 0xE5, CHR 0xA1, CHR 0xAB]),
   (''switchToManual'', [CHR 0xE5, CHR 0x88, CHR 0x87, CHR 0xE6, CHR 0x8D, CHR 0xA2, CHR 0xE5, CHR 0x88,
      CHR 0xB0, CHR 0xE6, CHR 0x89, CHR 0x8B, CHR 0xE5, CHR 0x8A, CHR 0xA8, CHR 0xE8, CHR 0xBE, CHR 0x93,
      CHR 0xE5, CHR 0x85, CHR 0xA5]),
   (''enabledHint'', [CHR 0xE5, CHR 0x81, CHR 0x9C, CHR 0xE7, CHR 0x94, CHR 0xA8, CHR 0xE7, CHR 0x9A,
      CHR 0x84, CHR 0xE6, CHR 0x9C, CHR 0x8D, CHR 0xE5, CHR 0x8A, CHR 0xA1, CHR 0xE5, CHR 0x99, CHR 0xA8,
      CHR 0xE4, CHR 0xBB, CHR 0x8D, CHR 0xE4, CHR 0xBF, CHR 0x9D, CHR 0xE7, CHR 0x95, CHR 0x99, CHR 0xE5,
      CHR 0x9C, CHR 0xA8, CHR 0xE6, CHR 0xB3, CHR 0xA8, CHR 0xE5, CHR 0x86, CHR 0x8C, CHR 0xE8, CHR 0xA1,
      CHR 0xA8, CHR 0xE4, CHR 0xB8, CHR 0xAD, CHR 0xEF, CHR 0xBC, CHR 0x8C, CHR 0xE4, CHR 0xBD, CHR 0x86,
      CHR 0xE4, CHR 0xB8, CHR 0x8D, CHR 0xE4, CHR 0xBC, CHR 0x9A, CHR 0xE8, CHR 0xA2, CHR 0xAB, CHR 0xE8,
      CHR 0xBD, CHR 0xAE, CHR 0xE8, CHR 0xAF, CHR 0xA2, CHR 0xE3, CHR 0x80, CHR 0x82]),
   (''portInvalid'', [CHR 0xE7, CHR 0xAB, CHR 0xAF, CHR 0xE5, CHR 0x8F, CHR 0xA3, CHR 0xE5, CHR 0xBF,
      CHR 0x85, CHR 0xE9, CHR 0xA1, CHR 0xBB, CHR 0xE6, CHR 0x98, CHR 0xAF] @ '' 1'' @ [CHR 0xE2,
      CHR 0x80, CHR 0x93] @ ''65535''),
   (''sampleInterval'', [CHR 0xE9, CHR 0x87, CHR 0x87, CHR 0xE6, CHR 0xA0, CHR 0xB7, CHR 0xE9, CHR 0x97,
      CHR 0xB4, CHR 0xE9, CHR 0x9A, CHR 0x94, CHR 0xEF, CHR 0xBC, CHR 0x88, CHR 0xE7, CHR 0xA7, CHR 0x92,
      CHR 0xEF, CHR 0xBC, CHR 0x89]),
   (''sampleIntervalHint'', [CHR 0xE9, CHR 0x80, CHR 0x89, CHR 0xE4, CHR 0xB8, CHR 0xAD, CHR 0xE8,
      CHR 0xBF, CHR 0x99, CHR 0xE5, CHR 0x8F, CHR 0xB0, CHR 0xE6, CHR 0x9C, CHR 0x8D, CHR 0xE5, CHR 0x8A,
      CHR 0xA1, CHR 0xE5, CHR 0x99, CHR 0xA8, CHR 0xE6, CHR 0x97, CHR 0xB6, CHR 0xE7, CHR 0x9A, CHR 0x84,
      CHR 0xE5, CHR 0x88, CHR 0xB7, CHR 0xE6, CHR 0x96, CHR 0xB0, CHR 0xE9, CHR 0x97, CHR 0xB4, CHR 0xE9,
      CHR 0x9A, CHR 0x94, CHR 0xEF, CHR 0xBC, CHR 0x88] @ ''0.5'' @ [CHR 0xE2, CHR 0x80, CHR 0x93] @
      ''600 '' @ [CHR 0xE7, CHR 0xA7, CHR 0x92, CHR 0xEF, CHR 0xBC, CHR 0x89, CHR 0xE3, CHR 0x80,
      CHR 0x82, CHR 0xE7, CHR 0x95, CHR 0x99, CHR 0xE7, CHR 0xA9, CHR 0xBA, CHR 0xE4, CHR 0xBD, CHR 0xBF,
      CHR 0xE7, CHR 0x94, CHR 0xA8, CHR 0xE9, CHR 0xBB, CHR 0x98, CHR 0xE8, CHR 0xAE, CHR 0xA4] @ '' 2.5 '' @
      [CHR 0xE7, CHR 0xA7, CHR 0x92, CHR 0xE3, CHR 0x80, CHR 0x82]),
   (''sampleIntervalInvalid'', [CHR 0xE9, CHR 0x97, CHR 0xB4, CHR 0xE9, CHR 0x9A, CHR 0x94, CHR 0xE5,
      CHR 0xBF, CHR 0x85, CHR 0xE9, CHR 0xA1, CHR 0xBB, CHR 0xE5, CHR 0x9C, CHR 0xA8] @ '' 0.5'' @
      [CHR 0xE2, CHR 0x80, CHR 0x93] @ ''600 '' @ [CHR 0xE7, CHR 0xA7, CHR 0x92, CHR 0xE4, CHR 0xB9,
      CHR 0x8B, CHR 0xE9, CHR 0x97, CHR 0xB4]),
   (''testConnection'', [CHR 0xE6, CHR 0xB5, CHR 0x8B, CHR 0xE8, CHR 0xAF, CHR 0x95, CHR 0xE8, CHR 0xBF,
      CHR 0x9E, CHR 0xE6, CHR 0x8E, CHR 0xA5]),
   (''saving'', [CHR 0xE4, CHR 0xBF, CHR 0x9D, CHR 0xE5, CHR 0xAD, CHR 0x98, CHR 0xE4, CHR 0xB8, CHR 0xAD,
      CHR 0xE2, CHR 0x80, CHR 0xA6]),
   (''testFailed'', [CHR 0xE6, CHR 0xB5, CHR 0x8B, CHR 0xE8, CHR 0xAF, CHR 0x95, CHR 0xE5, CHR 0xA4,
      CHR 0xB1, CHR 0xE8, CHR 0xB4, CHR 0xA5]),
   (''trusting'', [CHR 0xE4, CHR 0xBF, CHR 0xA1, CHR 0xE4, CHR 0xBB, CHR 0xBB, CHR 0xE4, CHR 0xB8,
      CHR 0xAD, CHR 0xE2, CHR 0x80, CHR 0xA6]),
   (''genericHelp'', [CHR 0xE8, CHR 0xBF, CHR 0x9E, CHR 0xE6, CHR 0x8E, CHR 0xA5, CHR 0xE5, CHR 0xA4,
      CHR 0xB1, CHR 0xE8, CHR 0xB4, CHR 0xA5, CHR 0xE3, CHR 0x80, CHR 0x82, CHR 0xE8, CHR 0xAF, CHR 0xB7,
      CHR 0xE6, CHR 0x9F, CHR 0xA5, CHR 0xE7, CHR 0x9C, CHR 0x8B, CHR 0xE4, CHR 0xB8, CHR 0x8A, CHR 0xE6,
      CHR 0x96, CHR 0xB9, CHR 0xE8, CHR 0xAF, CHR 0xA6, CHR 0xE6, CHR 0x83, CHR 0x85, CHR 0xE5, CHR 0x92,
      CHR 0x8C, CHR 0xE6, CHR 0x9C, CHR 0x8D, CHR 0xE5, CHR 0x8A, CHR 0xA1, CHR 0xE5, CHR 0x99, CHR 0xA8,
      CHR 0xE4, CHR 0xB8, CHR 0x8A, CHR 0xE7, CHR 0x9A, CHR 0x84] @ '' SSH '' @ [CHR 0xE9, CHR 0x85,
      CHR 0x8D, CHR 0xE7, CHR 0xBD, CHR 0xAE, CHR 0xE3, CHR 0x80, CHR 0x82])]"

definition zh_serverAuth :: "(string \<times> string) list" where
 "zh_serverAuth =
  [(''localAuth'', [CHR 0xE6, CHR 0x9C, CHR 0xAC, CHR 0xE6, CHR 0x9C, CHR 0xBA, CHR 0xE8, CHR 0xAE,
      CHR 0xA4, CHR 0xE8, CHR 0xAF, CHR 0x81]),
   (''directTransfer'', [CHR 0xE7, CHR 0x9B, CHR 0xB4, CHR 0xE8, CHR 0xBF, CHR 0x9E, CHR 0xE4, CHR 0xBC,
      CHR 0xA0, CHR 0xE8, CHR 0xBE, CHR 0x93]),
   (''directIntro'', [CHR 0xE5, CHR 0x85, CHR 0xB6, CHR 0xE4, CHR 0xBB, CHR 0x96, CHR 0xE6, CHR 0x9C,
      CHR 0x8D, CHR 0xE5, CHR 0x8A, CHR 0xA1, CHR 0xE5, CHR 0x99, CHR 0xA8] @ '' '' @ [CHR 0xE2, CHR 0x86,
      CHR 0x92] @ '' '' @ [CHR 0xE6, CHR 0xAD, CHR 0xA4, CHR 0xE6, CHR 0x9C, CHR 0x8D, CHR 0xE5, CHR 0x8A,
      CHR 0xA1, CHR 0xE5, CHR 0x99, CHR 0xA8]),
   (''noSources'', [CHR 0xE6, CHR 0xB2, CHR 0xA1, CHR 0xE6, CHR 0x9C, CHR 0x89, CHR 0xE5, CHR 0x85,
      CHR 0xB6, CHR 0xE4, CHR 0xBB, CHR 0x96, CHR 0xE5, CHR 0xB7, CHR 0xB2, CHR 0xE5, CHR 0x90, CHR 0xAF,
      CHR 0xE7, CHR 0x94, CHR 0xA8, CHR 0xE7, CHR 0x9A, CHR 0x84, CHR 0xE6, CHR 0x9C, CHR 0x8D, CHR 0xE5,
      CHR 0x8A, CHR 0xA1, CHR 0xE5, CHR 0x99, CHR 0xA8, CHR 0xE5, CHR 0x8F, CHR 0xAF, CHR 0xE6, CHR 0xA3,
      CHR 0x80, CHR 0xE6, CHR 0x9F, CHR 0xA5, CHR 0xE3, CHR 0x80, CHR 0x82]),
   (''sshConfig'', ''SSH '' @ [CHR 0xE9, CHR 0x85, CHR 0x8D, CHR 0xE7, CHR 0xBD, CHR 0xAE]),
   (''sshConfigMatched'', [CHR 0xE5, CHR 0xB7, CHR 0xB2, CHR 0xE5, CHR 0x8C, CHR 0xB9, CHR 0xE9, CHR 0x85,
      CHR 0x8D]),
   (''sshConfigNotMatched'', [CHR 0xE6, CHR 0x9C, CHR 0xAA, CHR 0xE5, CHR 0x8C, CHR 0xB9, CHR 0xE9,
      CHR 0x85, CHR 0x8D]),
   (''identity'', ''Identity''),
   (''identityConfigured'', [CHR 0xE5, CHR 0xB7, CHR 0xB2, CHR 0xE9, CHR 0x85, CHR 0x8D, CHR 0xE7,
      CHR 0xBD, CHR 0xAE] @ '' {n} '' @ [CHR 0xE4, CHR 0xB8, CHR 0xAA]),
   (''identityNone'', [CHR 0xE6, CHR 0x9C, CHR 0xAA, CHR 0xE6, CHR 0xA3, CHR 0x80, CHR 0xE6, CHR 0xB5,
      CHR 0x8B, CHR 0xE5, CHR 0x88, CHR 0xB0]),
   (''agent'', ''SSH Agent''),
   (''agentAvailable'', [CHR 0xE5, CHR 0x8F, CHR 0xAF, CHR 0xE7, CHR 0x94, CHR 0xA8]),
   (''agentUnavailable'', [CHR 0xE4, CHR 0xB8, CHR 0x8D, CHR 0xE5, CHR 0x8F, CHR 0xAF, CHR 0xE7, CHR 0x94,
      CHR 0xA8]),
   (''proxyJump'', ''ProxyJump''),
   (''proxyJumpOn'', [CHR 0xE5, CHR 0xB7, CHR 0xB2, CHR 0xE9, CHR 0x85, CHR 0x8D, CHR 0xE7, CHR 0xBD,
      CHR 0xAE]),
   (''proxyJumpOff'', [CHR 0xE6, CHR 0x97, CHR 0xA0]),
   (''password'', [CHR 0xE5, CHR 0xAF, CHR 0x86, CHR 0xE7, CHR 0xA0, CHR 0x81]),
   (''passwordUnset'', [CHR 0xE6, CHR 0x9C, CHR 0xAA, CHR 0xE8, CHR 0xAE, CHR 0xBE, CHR 0xE7, CHR 0xBD,
      CHR 0xAE]),
   (''passwordSet'', [CHR 0xE5, CHR 0xB7, CHR 0xB2, CHR 0xE5, CHR 0xAE, CHR 0x89, CHR 0xE5, CHR 0x85,
      CHR 0xA8, CHR 0xE4, CHR 0xBF, CHR 0x9D, CHR 0xE5, CHR 0xAD, CHR 0x98]),
   (''storageKeyring'', [CHR 0xE7, CHR 0xB3, CHR 0xBB, CHR 0xE7, CHR 0xBB, CHR 0x9F, CHR 0xE9, CHR 0x92,
      CHR 0xA5, CHR 0xE5, CHR 0x8C, CHR 0x99, CHR 0xE4, CHR 0xB8, CHR 0xB2]),
   (''storageSession'', [CHR 0xE4, CHR 0xBB, CHR 0x85, CHR 0xE6, CHR 0x9C, CHR 0xAC, CHR 0xE6, CHR 0xAC,
      CHR 0xA1, CHR 0xE4, CHR 0xBC, CHR 0x9A, CHR 0xE8, CHR 0xAF, CHR 0x9D]),
   (''setPassword'', [CHR 0xE8, CHR 0xAE, CHR 0xBE, CHR 0xE7, CHR 0xBD, CHR 0xAE, CHR 0xE5, CHR 0xAF,
      CHR 0x86, CHR 0xE7, CHR 0xA0, CHR 0x81]),
   (''replacePassword'', [CHR 0xE6, CHR 0x9B, CHR 0xBF, CHR 0xE6, CHR 0x8D, CHR 0xA2, CHR 0xE5, CHR 0xAF,
      CHR 0x86, CHR 0xE7, CHR 0xA0, CHR 0x81]),
   (''clearPassword'', [CHR 0xE6, CHR 0xB8, CHR 0x85, CHR 0xE9, CHR 0x99, CHR 0xA4, CHR 0xE5, CHR 0xAF,
      CHR 0x86, CHR 0xE7, CHR 0xA0, CHR 0x81]),
   (''clearPasswordConfirm'', [CHR 0xE7, CHR 0xA1, CHR 0xAE, CHR 0xE8, CHR 0xAE, CHR 0xA4, CHR 0xE6,
      CHR 0xB8, CHR 0x85, CHR 0xE9, CHR 0x99, CHR 0xA4]),
   (''passwordPlaceholder'', [CHR 0xE5, CHR 0xAF, CHR 0x86, CHR 0xE7, CHR 0xA0, CHR 0x81]),
   (''passwordSave'', [CHR 0xE4, CHR 0xBF, CHR 0x9D, CHR 0xE5, CHR 0xAD, CHR 0x98]),
   (''passwordSaving'', [CHR 0xE4, CHR 0xBF, CHR 0x9D, CHR 0xE5, CHR 0xAD, CHR 0x98, CHR 0xE4, CHR 0xB8,
      CHR 0xAD, CHR 0xE2, CHR 0x80, CHR 0xA6]),
   (''passwordClearing'', [CHR 0xE6, CHR 0xB8, CHR 0x85, CHR 0xE9, CHR 0x99, CHR 0xA4, CHR 0xE4, CHR 0xB8,
      CHR 0xAD, CHR 0xE2, CHR 0x80, CHR 0xA6]),
   (''passwordLoadFailed'', [CHR 0xE6, CHR 0x97, CHR 0xA0, CHR 0xE6, CHR 0xB3, CHR 0x95, CHR 0xE5,
      CHR 0x8A, CHR 0xA0, CHR 0xE8, CHR 0xBD, CHR 0xBD, CHR 0xE8, CHR 0xAE, CHR 0xA4, CHR 0xE8, CHR 0xAF,
      CHR 0x81, CHR 0xE7, CHR 0x8A, CHR 0xB6, CHR 0xE6, CHR 0x80, CHR 0x81]),
   (''passwordSaveFailed'', [CHR 0xE5, CHR 0xAF, CHR 0x86, CHR 0xE7, CHR 0xA0, CHR 0x81, CHR 0xE4,
      CHR 0xBF, CHR 0x9D, CHR 0xE5, CHR 0xAD, CHR 0x98, CHR 0xE5, CHR 0xA4, CHR 0xB1, CHR 0xE8, CHR 0xB4,
      CHR 0xA5]),
   (''passwordClearFailed'', [CHR 0xE5, CHR 0xAF, CHR 0x86, CHR 0xE7, CHR 0xA0, CHR 0x81, CHR 0xE6,
      CHR 0xB8, CHR 0x85, CHR 0xE9, CHR 0x99, CHR 0xA4, CHR 0xE5, CHR 0xA4, CHR 0xB1, CHR 0xE8, CHR 0xB4,
      CHR 0xA5]),
   (''checkDirect'', [CHR 0xE6, CHR 0xA3, CHR 0x80, CHR 0xE6, CHR 0x9F, CHR 0xA5, CHR 0xE7, CHR 0x9B,
      CHR 0xB4, CHR 0xE8, CHR 0xBF, CHR 0x9E]),
   (''recheck'', [CHR 0xE9, CHR 0x87, CHR 0x8D, CHR 0xE6, CHR 0x96, CHR 0xB0, CHR 0xE6, CHR 0xA3,
      CHR 0x80, CHR 0xE6, CHR 0x9F, CHR 0xA5]),
   (''checking'', [CHR 0xE6, CHR 0xA3, CHR 0x80, CHR 0xE6, CHR 0x9F, CHR 0xA5, CHR 0xE4, CHR 0xB8,
      CHR 0xAD, CHR 0xE2, CHR 0x80, CHR 0xA6]),
   (''setupKey'', [CHR 0xE9, CHR 0x85, CHR 0x8D, CHR 0xE7, CHR 0xBD, CHR 0xAE, CHR 0xE4, CHR 0xB8,
      CHR 0x93, CHR 0xE7, CHR 0x94, CHR 0xA8, CHR 0xE4, CHR 0xBC, CHR 0xA0, CHR 0xE8, CHR 0xBE, CHR 0x93,
      CHR 0xE5, CHR 0xAF, CHR 0x86, CHR 0xE9, CHR 0x92, CHR 0xA5]),
   (''settingUp'', [CHR 0xE9, CHR 0x85, CHR 0x8D, CHR 0xE7, CHR 0xBD, CHR 0xAE, CHR 0xE4, CHR 0xB8,
      CHR 0xAD, CHR 0xE2, CHR 0x80, CHR 0xA6]),
   (''revoke'', [CHR 0xE6, CHR 0x92, CHR 0xA4, CHR 0xE9, CHR 0x94, CHR 0x80]),
   (''revokeConfirm'', [CHR 0xE7, CHR 0xA1, CHR 0xAE, CHR 0xE8, CHR 0xAE, CHR 0xA4, CHR 0xE6, CHR 0x92,
      CHR 0xA4, CHR 0xE9, CHR 0x94, CHR 0x80]),
   (''revoking'', [CHR 0xE6, CHR 0x92, CHR 0xA4, CHR 0xE9, CHR 0x94, CHR 0x80, CHR 0xE4, CHR 0xB8,
      CHR 0xAD, CHR 0xE2, CHR 0x80, CHR 0xA6]),
   (''directNotConfigured'', [CHR 0xE6, CHR 0x9C, CHR 0xAA, CHR 0xE9, CHR 0x85, CHR 0x8D, CHR 0xE7,
      CHR 0xBD, CHR 0xAE]),
   (''directNativeOk'', [CHR 0xE5, CHR 0x8F, CHR 0xAF, CHR 0xE7, CHR 0x9B, CHR 0xB4, CHR 0xE8, CHR 0xBF,
      CHR 0x9E, CHR 0xEF, CHR 0xBC, CHR 0x88] @ ''native'' @ [CHR 0xEF, CHR 0xBC, CHR 0x89]),
   (''directKeyOk'', [CHR 0xE4, CHR 0xB8, CHR 0x93, CHR 0xE7, CHR 0x94, CHR 0xA8, CHR 0xE5, CHR 0xAF,
      CHR 0x86, CHR 0xE9, CHR 0x92, CHR 0xA5]),
   (''directUnavailable'', [CHR 0xE4, CHR 0xB8, CHR 0x8D, CHR 0xE5, CHR 0x8F, CHR 0xAF, CHR 0xE7,
      CHR 0x94, CHR 0xA8]),
   (''directNativeReady'', [CHR 0xE2, CHR 0x9C, CHR 0x93] @ '' '' @ [CHR 0xE5, CHR 0xB7, CHR 0xB2,
      CHR 0xE5, CHR 0x8F, CHR 0xAF, CHR 0xE7, CHR 0x9B, CHR 0xB4, CHR 0xE6, CHR 0x8E, CHR 0xA5, CHR 0xE8,
      CHR 0xAE, CHR 0xA4, CHR 0xE8, CHR 0xAF, CHR 0x81, CHR 0xEF, CHR 0xBC, CHR 0x8C, CHR 0xE6, CHR 0x97,
      CHR 0xA0, CHR 0xE9, CHR 0x9C, CHR 0x80, CHR 0xE9, CHR 0x85, CHR 0x8D, CHR 0xE7, CHR 0xBD, CHR 0xAE]),
   (''directKeyReady'', [CHR 0xE2, CHR 0x9C, CHR 0x93] @ '' '' @ [CHR 0xE4, CHR 0xB8, CHR 0x93, CHR 0xE7,
      CHR 0x94, CHR 0xA8, CHR 0xE5, CHR 0xAF, CHR 0x86, CHR 0xE9, CHR 0x92, CHR 0xA5, CHR 0xE5, CHR 0xB7,
      CHR 0xB2, CHR 0xE5, CHR 0xB0, CHR 0xB1, CHR 0xE7, CHR 0xBB, CHR 0xAA]),
   (''directVerified'', [CHR 0xE2, CHR 0x9C, CHR 0x93] @ '' '' @ [CHR 0xE5, CHR 0xB7, CHR 0xB2, CHR 0xE7,
      CHR 0x9B, CHR 0xB4, CHR 0xE8, CHR 0xBF, CHR 0x9E, CHR 0xEF, CHR 0xBC, CHR 0x8C, CHR 0xE5, CHR 0x8F,
      CHR 0xAF, CHR 0xE7, CHR 0x9B, CHR 0xB4, CHR 0xE8, CHR 0xBF, CHR 0x9E, CHR 0xE4, CHR 0xBC, CHR 0xA0,
      CHR 0xE8, CHR 0xBE, CHR 0x93]),
   (''directCheckFailed'', [CHR 0xE2, CHR 0x9C, CHR 0x97] @ '' '' @ [CHR 0xE7, CHR 0x9B, CHR 0xB4,
      CHR 0xE8, CHR 0xBF, CHR 0x9E, CHR 0xE6, CHR 0xA3, CHR 0x80, CHR 0xE6, CHR 0x9F, CHR 0xA5, CHR 0xE6,
      CHR 0x9C, CHR 0xAA, CHR 0xE9, CHR 0x80, CHR 0x9A, CHR 0xE8, CHR 0xBF, CHR 0x87]),
   (''directCannotAuth'', [CHR 0xE6, CHR 0x97, CHR 0xA0, CHR 0xE6, CHR 0xB3, CHR 0x95, CHR 0xE7, CHR 0x9B,
      CHR 0xB4, CHR 0xE6, CHR 0x8E, CHR 0xA5, CHR 0xE8, CHR 0xAE, CHR 0xA4, CHR 0xE8, CHR 0xAF, CHR 0x81]),
   (''checkFailed'', [CHR 0xE6, CHR 0xA3, CHR 0x80, CHR 0xE6, CHR 0x9F, CHR 0xA5, CHR 0xE5, CHR 0xA4,
      CHR 0xB1, CHR 0xE8, CHR 0xB4, CHR 0xA5]),
   (''directListFailed'', [CHR 0xE6, CHR 0x97, CHR 0xA0, CHR 0xE6, CHR 0xB3, CHR 0x95, CHR 0xE5, CHR 0x8A,
      CHR 0xA0, CHR 0xE8, CHR 0xBD, CHR 0xBD, CHR 0xE7, CHR 0x9B, CHR 0xB4, CHR 0xE8, CHR 0xBF, CHR 0x9E,
      CHR 0xE4, CHR 0xBC, CHR 0xA0, CHR 0xE8, CHR 0xBE, CHR 0x93, CHR 0xE7, CHR 0x8A, CHR 0xB6, CHR 0xE6,
      CHR 0x80, CHR 0x81]),
   (''reasonRouteUnreachable'', [CHR 0xE8, CHR 0xB7, CHR 0xAF, CHR 0xE7, CHR 0x94, CHR 0xB1, CHR 0xE4,
      CHR 0xB8, CHR 0x8D, CHR 0xE5, CHR 0x8F, CHR 0xAF, CHR 0xE8, CHR 0xBE, CHR 0xBE]),
   (''reasonHostKeyUnknown'', [CHR 0xE4, CHR 0xB8, CHR 0xBB, CHR 0xE6, CHR 0x9C, CHR 0xBA, CHR 0xE5,
      CHR 0xAF, CHR 0x86, CHR 0xE9, CHR 0x92, CHR 0xA5, CHR 0xE5, CHR 0xB0, CHR 0x9A, CHR 0xE6, CHR 0x9C,
      CHR 0xAA, CHR 0xE4, CHR 0xBF, CHR 0xA1, CHR 0xE4, CHR 0xBB, CHR 0xBB]),
   (''reasonHostKeyMismatch'', [CHR 0xE4, CHR 0xB8, CHR 0xBB, CHR 0xE6, CHR 0x9C, CHR 0xBA, CHR 0xE5,
      CHR 0xAF, CHR 0x86, CHR 0xE9, CHR 0x92, CHR 0xA5, CHR 0xE4, CHR 0xB8, CHR 0x8D, CHR 0xE5, CHR 0x8C,
      CHR 0xB9, CHR 0xE9, CHR 0x85, CHR 0x8D]),
   (''reasonAuthenticationFailed'', [CHR 0xE8, CHR 0xAE, CHR 0xA4, CHR 0xE8, CHR 0xAF, CHR 0x81, CHR 0xE5,
      CHR 0xA4, CHR 0xB1, CHR 0xE8, CHR 0xB4, CHR 0xA5]),
   (''reasonRsyncMissingSource'', [CHR 0xE6, CHR 0xBA, CHR 0x90, CHR 0xE6, CHR 0x9C, CHR 0x8D, CHR 0xE5,
      CHR 0x8A, CHR 0xA1, CHR 0xE5, CHR 0x99, CHR 0xA8, CHR 0xE7, CHR 0xBC, CHR 0xBA, CHR 0xE5, CHR 0xB0,
      CHR 0x91] @ '' rsync''),
   (''reasonRsyncMissingTarget'', [CHR 0xE7, CHR 0x9B, CHR 0xAE, CHR 0xE6, CHR 0xA0, CHR 0x87, CHR 0xE6,
      CHR 0x9C, CHR 0x8D, CHR 0xE5, CHR 0x8A, CHR 0xA1, CHR 0xE5, CHR 0x99, CHR 0xA8, CHR 0xE7, CHR 0xBC,
      CHR 0xBA, CHR 0xE5, CHR 0xB0, CHR 0x91] @ '' rsync''),
   (''reasonDedicatedKeyMissing'', [CHR 0xE4, CHR 0xB8, CHR 0x93, CHR 0xE7, CHR 0x94, CHR 0xA8, CHR 0xE5,
      CHR 0xAF, CHR 0x86, CHR 0xE9, CHR 0x92, CHR 0xA5, CHR 0xE7, CHR 0xBC, CHR 0xBA, CHR 0xE5, CHR 0xA4,
      CHR 0xB1]),
   (''reasonAuthorizedKeyMissing'', [CHR 0xE7, CHR 0x9B, CHR 0xAE, CHR 0xE6, CHR 0xA0, CHR 0x87, CHR 0xE6,
      CHR 0x9C, CHR 0xAA, CHR 0xE6, CHR 0x8E, CHR 0x88, CHR 0xE6, CHR 0x9D, CHR 0x83, CHR 0xE8, CHR 0xAF,
      CHR 0xA5, CHR 0xE5, CHR 0xAF, CHR 0x86, CHR 0xE9, CHR 0x92, CHR 0xA5]),
   (''reasonRemoteKeyInvalid'', [CHR 0xE5, CHR 0xB7, CHR 0xB2, CHR 0xE5, CHR 0xAD, CHR 0x98, CHR 0xE5,
      CHR 0xAF, CHR 0x86, CHR 0xE9, CHR 0x92, CHR 0xA5, CHR 0xE5, CHR 0x9C, CHR 0xA8, CHR 0xE7, CHR 0x9B,
      CHR 0xAE, CHR 0xE6, CHR 0xA0, CHR 0x87, CHR 0xE4, CHR 0xB8, CHR 0x8A, CHR 0xE6, CHR 0x97, CHR 0xA0,
      CHR 0xE6, CHR 0x95, CHR 0x88]),
   (''reasonSourceKnownHostsMissing'', [CHR 0xE6, CHR 0xBA, CHR 0x90, CHR 0xE6, CHR 0x9C, CHR 0x8D,
      CHR 0xE5, CHR 0x8A, CHR 0xA1, CHR 0xE5, CHR 0x99, CHR 0xA8, CHR 0xE7, CHR 0xBC, CHR 0xBA, CHR 0xE5,
      CHR 0xB0, CHR 0x91] @ '' known_hosts '' @ [CHR 0xE8, CHR 0xAE, CHR 0xB0, CHR 0xE5, CHR 0xBD, CHR 0x95]),
   (''reasonKeygenMissingSource'', [CHR 0xE6, CHR 0xBA, CHR 0x90, CHR 0xE6, CHR 0x9C, CHR 0x8D, CHR 0xE5,
      CHR 0x8A, CHR 0xA1, CHR 0xE5, CHR 0x99, CHR 0xA8, CHR 0xE7, CHR 0xBC, CHR 0xBA, CHR 0xE5, CHR 0xB0,
      CHR 0x91] @ '' ssh-keygen'' @ [CHR 0xEF, CHR 0xBC, CHR 0x8C, CHR 0xE6, CHR 0x97, CHR 0xA0, CHR 0xE6,
      CHR 0xB3, CHR 0x95, CHR 0xE7, CHR 0x94, CHR 0x9F, CHR 0xE6, CHR 0x88, CHR 0x90, CHR 0xE4, CHR 0xB8,
      CHR 0x93, CHR 0xE7, CHR 0x94, CHR 0xA8, CHR 0xE5, CHR 0xAF, CHR 0x86, CHR 0xE9, CHR 0x92, CHR 0xA5]),
   (''reasonUnknown'', [CHR 0xE6, CHR 0x9C, CHR 0xAA, CHR 0xE7, CHR 0x9F, CHR 0xA5, CHR 0xE5, CHR 0x8E,
      CHR 0x9F, CHR 0xE5, CHR 0x9B, CHR 0xA0])]"

definition zh_workspace1 :: "(string \<times> string) list" where
 "zh_workspace1 =
  [(''title'', [CHR 0xE5, CHR 0xB7, CHR 0xA5, CHR 0xE4, CHR 0xBD, CHR 0x9C, CHR 0xE5, CHR 0x8C, CHR 0xBA]),
   (''tabProjects'', [CHR 0xE9, CHR 0xA1, CHR 0xB9, CHR 0xE7, CHR 0x9B, CHR 0xAE]),
   (''tabDatasets'', [CHR 0xE6, CHR 0x95, CHR 0xB0, CHR 0xE6, CHR 0x8D, CHR 0xAE, CHR 0xE9, CHR 0x9B,
      CHR 0x86]),
   (''tabModels'', [CHR 0xE6, CHR 0xA8, CHR 0xA1, CHR 0xE5, CHR 0x9E, CHR 0x8B]),
   (''tabLaunches'', [CHR 0xE5, CHR 0x90, CHR 0xAF, CHR 0xE5, CHR 0x8A, CHR 0xA8, CHR 0xE9, CHR 0x85,
      CHR 0x8D, CHR 0xE7, CHR 0xBD, CHR 0xAE]),
   (''refresh'', [CHR 0xE5, CHR 0x88, CHR 0xB7, CHR 0xE6, CHR 0x96, CHR 0xB0]),
   (''addProject'', [CHR 0xE6, CHR 0xB7, CHR 0xBB, CHR 0xE5, CHR 0x8A, CHR 0xA0, CHR 0xE9, CHR 0xA1,
      CHR 0xB9, CHR 0xE7, CHR 0x9B, CHR 0xAE]),
   (''artifactCount'', ''{n} '' @ [CHR 0xE4, CHR 0xB8, CHR 0xAA, CHR 0xE8, CHR 0xB5, CHR 0x84, CHR 0xE4,
      CHR 0xBA, CHR 0xA7]),
   (''launchConfigCount'', ''{n} '' @ [CHR 0xE4, CHR 0xB8, CHR 0xAA, CHR 0xE5, CHR 0x90, CHR 0xAF,
      CHR 0xE5, CHR 0x8A, CHR 0xA8, CHR 0xE9, CHR 0x85, CHR 0x8D, CHR 0xE7, CHR 0xBD, CHR 0xAE]),
   (''noProjects'', [CHR 0xE6, CHR 0x9A, CHR 0x82, CHR 0xE6, CHR 0x97, CHR 0xA0, CHR 0xE9, CHR 0xA1,
      CHR 0xB9, CHR 0xE7, CHR 0x9B, CHR 0xAE]),
   (''noProjectsHint'', [CHR 0xE9, CHR 0xA1, CHR 0xB9, CHR 0xE7, CHR 0x9B, CHR 0xAE, CHR 0xE7, CHR 0x94,
      CHR 0xA8, CHR 0xE6, CHR 0x9D, CHR 0xA5, CHR 0xE7, CHR 0xBB, CHR 0x84, CHR 0xE7, CHR 0xBB, CHR 0x87,
      CHR 0xE6, CHR 0x95, CHR 0xB0, CHR 0xE6, CHR 0x8D, CHR 0xAE, CHR 0xE9, CHR 0x9B, CHR 0x86, CHR 0xE3,
      CHR 0x80, CHR 0x81, CHR 0xE6, CHR 0xA8, CHR 0xA1, CHR 0xE5, CHR 0x9E, CHR 0x8B, CHR 0xE5, CHR 0x92,
      CHR 0x8C, CHR 0xE5, CHR 0x90, CHR 0xAF, CHR 0xE5, CHR 0x8A, CHR 0xA8, CHR 0xE9, CHR 0x85, CHR 0x8D,
      CHR 0xE7, CHR 0xBD, CHR 0xAE, CHR 0xE3, CHR 0x80, CHR 0x82]),
   (''projectActions'', [CHR 0xE9, CHR 0xA1, CHR 0xB9, CHR 0xE7, CHR 0x9B, CHR 0xAE, CHR 0xE6, CHR 0x93,
      CHR 0x8D, CHR 0xE4, CHR 0xBD, CHR 0x9C, CHR 0xEF, CHR 0xBC, CHR 0x9A] @ ''{name}''),
   (''addProjectTitle'', [CHR 0xE6, CHR 0xB7, CHR 0xBB, CHR 0xE5, CHR 0x8A, CHR 0xA0, CHR 0xE9, CHR 0xA1,
      CHR 0xB9, CHR 0xE7, CHR 0x9B, CHR 0xAE]),
   (''editProjectTitle'', [CHR 0xE7, CHR 0xBC, CHR 0x96, CHR 0xE8, CHR 0xBE, CHR 0x91, CHR 0xE9, CHR 0xA1,
      CHR 0xB9, CHR 0xE7, CHR 0x9B, CHR 0xAE] @ '' {name}''),
   (''projectName'', [CHR 0xE5, CHR 0x90, CHR 0x8D, CHR 0xE7, CHR 0xA7, CHR 0xB0]),
   (''namePlaceholder'', [CHR 0xE4, CHR 0xBE, CHR 0x8B, CHR 0xE5, CHR 0xA6, CHR 0x82] @ '' dinov2-linear''),
   (''description'', [CHR 0xE6, CHR 0x8F, CHR 0x8F, CHR 0xE8, CHR 0xBF, CHR 0xB0]),
   (''tags'', [CHR 0xE6, CHR 0xA0, CHR 0x87, CHR 0xE7, CHR 0xAD, CHR 0xBE]),
   (''tagsCommaHint'', [CHR 0xE9, CHR 0x80, CHR 0x97, CHR 0xE5, CHR 0x8F, CHR 0xB7, CHR 0xE5, CHR 0x88,
      CHR 0x86, CHR 0xE9, CHR 0x9A, CHR 0x94]),
   (''editSyncExcludes'', [CHR 0xE7, CHR 0xBC, CHR 0x96, CHR 0xE8, CHR 0xBE, CHR 0x91, CHR 0xE5, CHR 0x90,
      CHR 0x8C, CHR 0xE6, CHR 0xAD, CHR 0xA5, CHR 0xE6, CHR 0x8E, CHR 0x92, CHR 0xE9, CHR 0x99, CHR 0xA4,
      CHR 0xE8, CHR 0xA7, CHR 0x84, CHR 0xE5, CHR 0x88, CHR 0x99]),
   (''syncExcludes'', [CHR 0xE9, CHR 0xBB, CHR 0x98, CHR 0xE8, CHR 0xAE, CHR 0xA4, CHR 0xE5, CHR 0x90,
      CHR 0x8C, CHR 0xE6, CHR 0xAD, CHR 0xA5, CHR 0xE6, CHR 0x8E, CHR 0x92, CHR 0xE9, CHR 0x99, CHR 0xA4]),
   (''syncExcludesHint'', ''rsync/fnmatch '' @ [CHR 0xE6, CHR 0xA8, CHR 0xA1, CHR 0xE5, CHR 0xBC,
      CHR 0x8F, CHR 0xEF, CHR 0xBC, CHR 0x8C, CHR 0xE9, CHR 0x80, CHR 0x97, CHR 0xE5, CHR 0x8F, CHR 0xB7,
      CHR 0xE5, CHR 0x88, CHR 0x86, CHR 0xE9, CHR 0x9A, CHR 0x94, CHR 0xEF, CHR 0xBC, CHR 0x9B, CHR 0xE5,
      CHR 0x90, CHR 0x8C, CHR 0xE6, CHR 0xAD, CHR 0xA5, CHR 0xE6, CHR 0x9C, CHR 0xAC, CHR 0xE9, CHR 0xA1,
      CHR 0xB9, CHR 0xE7, CHR 0x9B, CHR 0xAE, CHR 0xE6, CHR 0x9D, CHR 0xA1, CHR 0xE7, CHR 0x9B, CHR 0xAE,
      CHR 0xE6, CHR 0x97, CHR 0xB6, CHR 0xEF, CHR 0xBC, CHR 0x8C, CHR 0xE5, CHR 0x90, CHR 0x8D, CHR 0xE7,
      CHR 0xA7, CHR 0xB0, CHR 0xE5, CHR 0x8C, CHR 0xB9, CHR 0xE9, CHR 0x85, CHR 0x8D, CHR 0xE5, CHR 0x85,
      CHR 0xB6, CHR 0xE4, CHR 0xB8, CHR 0xAD, CHR 0xE4, CHR 0xB9, CHR 0x8B, CHR 0xE4, CHR 0xB8, CHR 0x80,
      CHR 0xE7, CHR 0x9A, CHR 0x84, CHR 0xE6, CHR 0x96, CHR 0x87, CHR 0xE4, CHR 0xBB, CHR 0xB6, CHR 0xE6,
      CHR 0x88, CHR 0x96, CHR 0xE7, CHR 0x9B, CHR 0xAE, CHR 0xE5, CHR 0xBD, CHR 0x95, CHR 0xE4, CHR 0xBC,
      CHR 0x9A, CHR 0xE8, CHR 0xA2, CHR 0xAB, CHR 0xE8, CHR 0xB7, CHR 0xB3, CHR 0xE8, CHR 0xBF, CHR 0x87,
      CHR 0xEF, CHR 0xBC, CHR 0x88, CHR 0xE6, CHR 0x9D, CHR 0xA1, CHR 0xE7, CHR 0x9B, CHR 0xAE, CHR 0xE6,
      CHR 0xA0, CHR 0xB9, CHR 0xE7, CHR 0x9B, CHR 0xAE, CHR 0xE5, CHR 0xBD, CHR 0x95, CHR 0xE6, CHR 0x9C,
      CHR 0xAC, CHR 0xE8, CHR 0xBA, CHR 0xAB, CHR 0xE4, CHR 0xB8, CHR 0x8D, CHR 0xE5, CHR 0x8F, CHR 0x97,
      CHR 0xE5, CHR 0xBD, CHR 0xB1, CHR 0xE5, CHR 0x93, CHR 0x8D, CHR 0xEF, CHR 0xBC, CHR 0x89, CHR 0xE3,
      CHR 0x80, CHR 0x82, CHR 0xE5, CHR 0x85, CHR 0xB8, CHR 0xE5, CHR 0x9E, CHR 0x8B, CHR 0xE7, CHR 0x94,
      CHR 0xA8, CHR 0xE9, CHR 0x80, CHR 0x94, CHR 0xEF, CHR 0xBC, CHR 0x9A, CHR 0xE5, CHR 0x90, CHR 0x8C,
      CHR 0xE6, CHR 0xAD, CHR 0xA5, CHR 0xE4, CHR 0xBB, CHR 0xA3, CHR 0xE7, CHR 0xA0, CHR 0x81, CHR 0xE6,
      CHR 0xA0, CHR 0x91, CHR 0xE6, CHR 0x97, CHR 0xB6, CHR 0xE6, CHR 0x8E, CHR 0x92, CHR 0xE9, CHR 0x99,
      CHR 0xA4] @ '' dataset'' @ [CHR 0xE3, CHR 0x80, CHR 0x81] @ ''checkpoints '' @ [CHR 0xE7, CHR 0xAD,
      CHR 0x89, CHR 0xE5, CHR 0xA4, CHR 0xA7, CHR 0xE7, CHR 0x9B, CHR 0xAE, CHR 0xE5, CHR 0xBD, CHR 0x95]),
   (''artifacts'', [CHR 0xE8, CHR 0xB5, CHR 0x84, CHR 0xE4, CHR 0xBA, CHR 0xA7]),
   (''noArtifactsYet'', [CHR 0xE8, CHR 0xBF, CHR 0x98, CHR 0xE6, CHR 0xB2, CHR 0xA1, CHR 0xE6, CHR 0x9C,
      CHR 0x89, CHR 0xE8, CHR 0xB5, CHR 0x84, CHR 0xE4, CHR 0xBA, CHR 0xA7, CHR 0xE2, CHR 0x80, CHR 0x94,
      CHR 0xE2, CHR 0x80, CHR 0x94, CHR 0xE8, CHR 0xAF, CHR 0xB7, CHR 0xE5, CHR 0x85, CHR 0x88, CHR 0xE5,
      CHR 0x9C, CHR 0xA8, CHR 0xE6, CHR 0x95, CHR 0xB0, CHR 0xE6, CHR 0x8D, CHR 0xAE, CHR 0xE9, CHR 0x9B,
      CHR 0x86, CHR 0xE6, CHR 0x88, CHR 0x96, CHR 0xE6, CHR 0xA8, CHR 0xA1, CHR 0xE5, CHR 0x9E, CHR 0x8B,
      CHR 0xE9, CHR 0xA1, CHR 0xB5, CHR 0xE5, CHR 0x88, CHR 0x9B, CHR 0xE5, CHR 0xBB, CHR 0xBA, CHR 0xE3,
      CHR 0x80, CHR 0x82]),
   (''removeProjectTitle'', [CHR 0xE5, CHR 0x88, CHR 0xA0, CHR 0xE9, CHR 0x99, CHR 0xA4, CHR 0xE9,
      CHR 0xA1, CHR 0xB9, CHR 0xE7, CHR 0x9B, CHR 0xAE] @ '' {name}'' @ [CHR 0xEF, CHR 0xBC, CHR 0x9F]),
   (''removeProjectBody'', [CHR 0xE5, CHR 0xB0, CHR 0x86, CHR 0xE5, CHR 0x88, CHR 0xA0, CHR 0xE9,
      CHR 0x99, CHR 0xA4] @ '' {name} '' @ [CHR 0xE5, CHR 0x8F, CHR 0x8A, CHR 0xE5, CHR 0x85, CHR 0xB6,
      CHR 0xE5, CHR 0x90, CHR 0xAF, CHR 0xE5, CHR 0x8A, CHR 0xA8, CHR 0xE9, CHR 0x85, CHR 0x8D, CHR 0xE7,
      CHR 0xBD, CHR 0xAE, CHR 0xE3, CHR 0x80, CHR 0x82, CHR 0xE8, CHR 0xB5, CHR 0x84, CHR 0xE4, CHR 0xBA,
      CHR 0xA7, CHR 0xE5, CHR 0x92, CHR 0x8C, CHR 0xE5, CHR 0xB8, CHR 0x83, CHR 0xE7, CHR 0x82, CHR 0xB9,
      CHR 0xE4, CHR 0xBC, CHR 0x9A, CHR 0xE4, CHR 0xBF, CHR 0x9D, CHR 0xE7, CHR 0x95, CHR 0x99, CHR 0xEF,
      CHR 0xBC, CHR 0x9B, CHR 0xE8, CHR 0xBF, CHR 0x9C, CHR 0xE7, CHR 0xA8, CHR 0x8B, CHR 0xE6, CHR 0x96,
      CHR 0x87, CHR 0xE4, CHR 0xBB, CHR 0xB6, CHR 0xE4, CHR 0xB8, CHR 0x8D, CHR 0xE4, CHR 0xBC, CHR 0x9A,
      CHR 0xE8, CHR 0xA2, CHR 0xAB, CHR 0xE6, CHR 0x94, CHR 0xB9, CHR 0xE5, CHR 0x8A, CHR 0xA8, CHR 0xE3,
      CHR 0x80, CHR 0x82]),
   (''removeProjectConfirm'', [CHR 0xE5, CHR 0x88, CHR 0xA0, CHR 0xE9, CHR 0x99, CHR 0xA4] @ '' {name}''),
   (''projectMissing'', [CHR 0xE9, CHR 0xA1, CHR 0xB9, CHR 0xE7, CHR 0x9B, CHR 0xAE, CHR 0xE4, CHR 0xB8,
      CHR 0x8D, CHR 0xE5, CHR 0xAD, CHR 0x98, CHR 0xE5, CHR 0x9C, CHR 0xA8]),
   (''backToProjects'', [CHR 0xE5, CHR 0x85, CHR 0xA8, CHR 0xE9, CHR 0x83, CHR 0xA8, CHR 0xE9, CHR 0xA1,
      CHR 0xB9, CHR 0xE7, CHR 0x9B, CHR 0xAE]),
   (''distribution'', [CHR 0xE5, CHR 0x88, CHR 0x86, CHR 0xE5, CHR 0xB8, CHR 0x83, CHR 0xE7, CHR 0x9F,
      CHR 0xA9, CHR 0xE9, CHR 0x98, CHR 0xB5]),
   (''distributionHint'', [CHR 0xE6, CHR 0x8C, CHR 0x89, CHR 0xE6, CHR 0x9C, CHR 0x8D, CHR 0xE5, CHR 0x8A,
      CHR 0xA1, CHR 0xE5, CHR 0x99, CHR 0xA8, CHR 0xE6, CHR 0x98, CHR 0xBE, CHR 0xE7, CHR 0xA4, CHR 0xBA,
      CHR 0xE5, CHR 0xB7, CHR 0xB2, CHR 0xE5, CHR 0xA3, CHR 0xB0, CHR 0xE6, CHR 0x98, CHR 0x8E, CHR 0xE5,
      CHR 0xB8, CHR 0x83, CHR 0xE7, CHR 0x82, CHR 0xB9, CHR 0xE7, CHR 0x9A, CHR 0x84, CHR 0xE7, CHR 0x8A,
      CHR 0xB6, CHR 0xE6, CHR 0x80, CHR 0x81] @ '' '' @ [CHR 0xC2, CHR 0xB7] @ '' '' @ [CHR 0xE2,
      CHR 0x9C, CHR 0x93] @ '' '' @ [CHR 0xE5, CHR 0xB7, CHR 0xB2, CHR 0xE9, CHR 0xAA, CHR 0x8C, CHR 0xE8,
      CHR 0xAF, CHR 0x81] @ '' '' @ [CHR 0xC2, CHR 0xB7] @ '' '' @ [CHR 0xE2, CHR 0x97, CHR 0x8B] @ '' '' @
      [CHR 0xE5, CHR 0xB7, CHR 0xB2, CHR 0xE5, CHR 0xA3, CHR 0xB0, CHR 0xE6, CHR 0x98, CHR 0x8E] @ '' '' @
      [CHR 0xC2, CHR 0xB7] @ '' '' @ [CHR 0xE2, CHR 0x80, CHR 0x94] @ '' '' @ [CHR 0xE7, CHR 0xBC,
      CHR 0xBA, CHR 0xE5, CHR 0xA4, CHR 0xB1] @ '' '' @ [CHR 0xC2, CHR 0xB7] @ '' ! '' @ [CHR 0xE4,
      CHR 0xB8, CHR 0x8D, CHR 0xE5, CHR 0x8F, CHR 0xAF, CHR 0xE7, CHR 0x94, CHR 0xA8] @ '' '' @ [CHR 0xC2,
      CHR 0xB7] @ '' '' @ [CHR 0xE2, CHR 0x86, CHR 0xBB] @ '' '' @ [CHR 0xE5, CHR 0x90, CHR 0x8C,
      CHR 0xE6, CHR 0xAD, CHR 0xA5, CHR 0xE4, CHR 0xB8, CHR 0xAD]),
   (''matrixPresent'', [CHR 0xE5, CHR 0xB7, CHR 0xB2, CHR 0xE9, CHR 0xAA, CHR 0x8C, CHR 0xE8, CHR 0xAF,
      CHR 0x81]),
   (''matrixMissing'', [CHR 0xE7, CHR 0xBC, CHR 0xBA, CHR 0xE5, CHR 0xA4, CHR 0xB1]),
   (''matrixUndeclared'', [CHR 0xE6, CHR 0x9C, CHR 0xAA, CHR 0xE5, CHR 0xB8, CHR 0x83, CHR 0xE7, CHR 0x82,
      CHR 0xB9]),
   (''matrixGroupCount'', ''{label} '' @ [CHR 0xC2, CHR 0xB7] @ '' {n}''),
   (''placementCount'', ''{n} '' @ [CHR 0xE4, CHR 0xB8, CHR 0xAA, CHR 0xE5, CHR 0xB8, CHR 0x83, CHR 0xE7,
      CHR 0x82, CHR 0xB9]),
   (''matrixArtifact'', [CHR 0xE8, CHR 0xB5, CHR 0x84, CHR 0xE4, CHR 0xBA, CHR 0xA7]),
   (''matrixEmpty'', [CHR 0xE5, CHR 0xB0, CHR 0x9A, CHR 0xE6, CHR 0x9C, CHR 0xAA, CHR 0xE5, CHR 0xBC,
      CHR 0x95, CHR 0xE7, CHR 0x94, CHR 0xA8, CHR 0xE4, CHR 0xBB, CHR 0xBB, CHR 0xE4, CHR 0xBD, CHR 0x95,
      CHR 0xE8, CHR 0xB5, CHR 0x84, CHR 0xE4, CHR 0xBA, CHR 0xA7, CHR 0xE3, CHR 0x80, CHR 0x82]),
   (''inspectAll'', [CHR 0xE6, CHR 0xA3, CHR 0x80, CHR 0xE6, CHR 0x9F, CHR 0xA5, CHR 0xE8, CHR 0xB5,
      CHR 0x84, CHR 0xE6, CHR 0xBA, CHR 0x90]),
   (''syncMissing'', [CHR 0xE5, CHR 0x90, CHR 0x8C, CHR 0xE6, CHR 0xAD, CHR 0xA5, CHR 0xE7, CHR 0xBC,
      CHR 0xBA, CHR 0xE5, CHR 0xA4, CHR 0xB1, CHR 0xE8, CHR 0xB5, CHR 0x84, CHR 0xE6, CHR 0xBA, CHR 0x90] @
      ''...''),
   (''syncProgress'', [CHR 0xE6, CHR 0xAD, CHR 0xA3, CHR 0xE5, CHR 0x9C, CHR 0xA8, CHR 0xE5, CHR 0x90,
      CHR 0x8C, CHR 0xE6, CHR 0xAD, CHR 0xA5] @ '' {done}/{total}''),
   (''stateSyncing'', [CHR 0xE5, CHR 0x90, CHR 0x8C, CHR 0xE6, CHR 0xAD, CHR 0xA5, CHR 0xE4, CHR 0xB8,
      CHR 0xAD]),
   (''syncDialogTitle'', [CHR 0xE5, CHR 0x90, CHR 0x8C, CHR 0xE6, CHR 0xAD, CHR 0xA5, CHR 0xE7, CHR 0xBC,
      CHR 0xBA, CHR 0xE5, CHR 0xA4, CHR 0xB1, CHR 0xE8, CHR 0xB5, CHR 0x84, CHR 0xE6, CHR 0xBA, CHR 0x90]),
   (''syncPlanning'', [CHR 0xE6, CHR 0xAD, CHR 0xA3, CHR 0xE5, CHR 0x9C, CHR 0xA8, CHR 0xE8, CHR 0xA7,
      CHR 0x84, CHR 0xE5, CHR 0x88, CHR 0x92, CHR 0xE5, CHR 0x90, CHR 0x8C, CHR 0xE6, CHR 0xAD, CHR 0xA5,
      CHR 0xE2, CHR 0x80, CHR 0xA6]),
   (''syncCurrent'', [CHR 0xE7, CHR 0x9B, CHR 0xAE, CHR 0xE6, CHR 0xA0, CHR 0x87, CHR 0xE7, CHR 0x8E,
      CHR 0xB0, CHR 0xE7, CHR 0x8A, CHR 0xB6]),
   (''syncAction'', [CHR 0xE5, CHR 0x8A, CHR 0xA8, CHR 0xE4, CHR 0xBD, CHR 0x9C]),
   (''syncActionSkip'', [CHR 0xE8, CHR 0xB7, CHR 0xB3, CHR 0xE8, CHR 0xBF, CHR 0x87]),
   (''syncActionTransfer'', [CHR 0xE4, CHR 0xBC, CHR 0xA0, CHR 0xE8, CHR 0xBE, CHR 0x93]),
   (''syncActionUnresolved'', [CHR 0xE6, CHR 0x97, CHR 0xA0, CHR 0xE6, CHR 0xB3, CHR 0x95, CHR 0xE8,
      CHR 0xA7, CHR 0xA3, CHR 0xE5, CHR 0x86, CHR 0xB3]),
   (''syncUnresolvedHint'', [CHR 0xE5, CHR 0xAD, CHR 0x98, CHR 0xE5, CHR 0x9C, CHR 0xA8, CHR 0xE6,
      CHR 0x97, CHR 0xA0, CHR 0xE6, CHR 0xB3, CHR 0x95, CHR 0xE8, CHR 0x87, CHR 0xAA, CHR 0xE5, CHR 0x8A,
      CHR 0xA8, CHR 0xE8, CHR 0xA7, CHR 0xA3, CHR 0xE5, CHR 0x86, CHR 0xB3, CHR 0xE7, CHR 0x9A, CHR 0x84,
      CHR 0xE6, CHR 0x9D, CHR 0xA1, CHR 0xE7, CHR 0x9B, CHR 0xAE, CHR 0xE2, CHR 0x80, CHR 0x94, CHR 0xE2,
      CHR 0x80, CHR 0x94, CHR 0xE8, CHR 0xAF, CHR 0xB7, CHR 0xE5, CHR 0x85, CHR 0x88, CHR 0xE5, CHR 0xA4,
      CHR 0x84, CHR 0xE7, CHR 0x90, CHR 0x86, CHR 0xE5, CHR 0x90, CHR 0x8E, CHR 0xE9, CHR 0x87, CHR 0x8D,
      CHR 0xE8, CHR 0xAF, CHR 0x95, CHR 0xE3, CHR 0x80, CHR 0x82]),
   (''syncStrategy'', [CHR 0xE7, CHR 0xAD, CHR 0x96, CHR 0xE7, CHR 0x95, CHR 0xA5]),
   (''syncDetailAria'', ''{name} '' @ [CHR 0xE7, CHR 0x9A, CHR 0x84, CHR 0xE4, CHR 0xBC, CHR 0xA0,
      CHR 0xE8, CHR 0xBE, CHR 0x93, CHR 0xE8, CHR 0xAF, CHR 0xA6, CHR 0xE6, CHR 0x83, CHR 0x85]),
   (''syncConfirm'', [CHR 0xE5, CHR 0x90, CHR 0x8C, CHR 0xE6, CHR 0xAD, CHR 0xA5] @ '' {n} '' @ [CHR 0xE9,
      CHR 0xA1, CHR 0xB9, CHR 0xE8, CHR 0xB5, CHR 0x84, CHR 0xE6, CHR 0xBA, CHR 0x90]),
   (''syncNothing'', [CHR 0xE6, CHR 0x97, CHR 0xA0, CHR 0xE7, CHR 0xBC, CHR 0xBA, CHR 0xE5, CHR 0xA4,
      CHR 0xB1, CHR 0xE8, CHR 0xB5, CHR 0x84, CHR 0xE6, CHR 0xBA, CHR 0x90]),
   (''placements'', [CHR 0xE5, CHR 0xB8, CHR 0x83, CHR 0xE7, CHR 0x82, CHR 0xB9]),
   (''noPlacements'', [CHR 0xE6, CHR 0x9A, CHR 0x82, CHR 0xE6, CHR 0x97, CHR 0xA0, CHR 0xE5, CHR 0xB8,
      CHR 0x83, CHR 0xE7, CHR 0x82, CHR 0xB9, CHR 0xE5, CHR 0xA3, CHR 0xB0, CHR 0xE6, CHR 0x98, CHR 0x8E]),
   (''addPlacement'', [CHR 0xE6, CHR 0xB7, CHR 0xBB, CHR 0xE5, CHR 0x8A, CHR 0xA0, CHR 0xE5, CHR 0xB8,
      CHR 0x83, CHR 0xE7, CHR 0x82, CHR 0xB9]),
   (''editPlacement'', [CHR 0xE7, CHR 0xBC, CHR 0x96, CHR 0xE8, CHR 0xBE, CHR 0x91, CHR 0xE5, CHR 0xB8,
      CHR 0x83, CHR 0xE7, CHR 0x82, CHR 0xB9]),
   (''placementActions'', [CHR 0xE5, CHR 0xB8, CHR 0x83, CHR 0xE7, CHR 0x82, CHR 0xB9, CHR 0xE6, CHR 0x93,
      CHR 0x8D, CHR 0xE4, CHR 0xBD, CHR 0x9C, CHR 0xEF, CHR 0xBC, CHR 0x9A] @ ''{server}''),
   (''removePlacementTitle'', [CHR 0xE5, CHR 0x88, CHR 0xA0, CHR 0xE9, CHR 0x99, CHR 0xA4] @ '' {server} '' @
      [CHR 0xE4, CHR 0xB8, CHR 0x8A, CHR 0xE7, CHR 0x9A, CHR 0x84, CHR 0xE5, CHR 0xB8, CHR 0x83, CHR 0xE7,
      CHR 0x82, CHR 0xB9, CHR 0xEF, CHR 0xBC, CHR 0x9F]),
   (''removePlacementBody'', [CHR 0xE8, CHR 0xBF, CHR 0x99, CHR 0xE5, CHR 0x8F, CHR 0xAA, CHR 0xE6,
      CHR 0x98, CHR 0xAF, CHR 0xE5, CHR 0x88, CHR 0xA0, CHR 0xE9, CHR 0x99, CHR 0xA4, CHR 0xE5, CHR 0xA3,
      CHR 0xB0, CHR 0xE6, CHR 0x98, CHR 0x8E, CHR 0xE8, CHR 0xAE, CHR 0xB0, CHR 0xE5, CHR 0xBD, CHR 0x95,
      CHR 0xE2, CHR 0x80, CHR 0x94, CHR 0xE2, CHR 0x80, CHR 0x94, CHR 0xE8, CHR 0xBF, CHR 0x9C, CHR 0xE7,
      CHR 0xA8, CHR 0x8B, CHR 0xE8, CHR 0xB7, CHR 0xAF, CHR 0xE5, CHR 0xBE, CHR 0x84, CHR 0xE4, CHR 0xB8,
      CHR 0x8A, CHR 0xE7, CHR 0x9A, CHR 0x84, CHR 0xE5, CHR 0x86, CHR 0x85, CHR 0xE5, CHR 0xAE, CHR 0xB9,
      CHR 0xE4, CHR 0xB8, CHR 0x8D, CHR 0xE4, CHR 0xBC, CHR 0x9A, CHR 0xE8, CHR 0xA2, CHR 0xAB, CHR 0xE5,
      CHR 0x88, CHR 0xA0, CHR 0xE9, CHR 0x99, CHR 0xA4, CHR 0xE3, CHR 0x80, CHR 0x82]),
   (''removePlacementConfirm'', [CHR 0xE5, CHR 0x88, CHR 0xA0, CHR 0xE9, CHR 0x99, CHR 0xA4, CHR 0xE5,
      CHR 0xB8, CHR 0x83, CHR 0xE7, CHR 0x82, CHR 0xB9]),
   (''placementServer'', [CHR 0xE6, CHR 0x9C, CHR 0x8D, CHR 0xE5, CHR 0x8A, CHR 0xA1, CHR 0xE5, CHR 0x99,
      CHR 0xA8]),
   (''placementPath'', [CHR 0xE8, CHR 0xBF, CHR 0x9C, CHR 0xE7, CHR 0xA8, CHR 0x8B, CHR 0xE8, CHR 0xB7,
      CHR 0xAF, CHR 0xE5, CHR 0xBE, CHR 0x84]),
   (''pathPlaceholder'', ''/data/datasets/dinov2''),
   (''unknownServer'', [CHR 0xE6, CHR 0x9C, CHR 0xAA, CHR 0xE7, CHR 0x9F, CHR 0xA5, CHR 0xE6, CHR 0x9C,
      CHR 0x8D, CHR 0xE5, CHR 0x8A, CHR 0xA1, CHR 0xE5, CHR 0x99, CHR 0xA8]),
   (''inspect'', [CHR 0xE6, CHR 0xA3, CHR 0x80, CHR 0xE6, CHR 0x9F, CHR 0xA5]),
   (''inspecting'', [CHR 0xE6, CHR 0xA3, CHR 0x80, CHR 0xE6, CHR 0x9F, CHR 0xA5, CHR 0xE4, CHR 0xB8,
      CHR 0xAD, CHR 0xE2, CHR 0x80, CHR 0xA6]),
   (''stateDeclared'', [CHR 0xE5, CHR 0xB7, CHR 0xB2, CHR 0xE5, CHR 0xA3, CHR 0xB0, CHR 0xE6, CHR 0x98,
      CHR 0x8E]),
   (''stateVerified'', [CHR 0xE5, CHR 0xB7, CHR 0xB2, CHR 0xE9, CHR 0xAA, CHR 0x8C, CHR 0xE8, CHR 0xAF,
      CHR 0x81])]"

definition zh_workspace2 :: "(string \<times> string) list" where
 "zh_workspace2 =
  [(''stateMissing'', [CHR 0xE7, CHR 0xBC, CHR 0xBA, CHR 0xE5, CHR 0xA4, CHR 0xB1]),
   (''stateUnavailable'', [CHR 0xE4, CHR 0xB8, CHR 0x8D, CHR 0xE5, CHR 0x8F, CHR 0xAF, CHR 0xE7, CHR 0x94,
      CHR 0xA8]),
   (''inspectedAgo'', ''{ago}'' @ [CHR 0xE6, CHR 0xA3, CHR 0x80, CHR 0xE6, CHR 0x9F, CHR 0xA5]),
   (''fileCount'', ''{n} '' @ [CHR 0xE4, CHR 0xB8, CHR 0xAA, CHR 0xE6, CHR 0x96, CHR 0x87, CHR 0xE4,
      CHR 0xBB, CHR 0xB6]),
   (''launchConfigs'', [CHR 0xE5, CHR 0x90, CHR 0xAF, CHR 0xE5, CHR 0x8A, CHR 0xA8, CHR 0xE9, CHR 0x85,
      CHR 0x8D, CHR 0xE7, CHR 0xBD, CHR 0xAE]),
   (''addLaunchConfig'', [CHR 0xE6, CHR 0xB7, CHR 0xBB, CHR 0xE5, CHR 0x8A, CHR 0xA0, CHR 0xE5, CHR 0x90,
      CHR 0xAF, CHR 0xE5, CHR 0x8A, CHR 0xA8, CHR 0xE9, CHR 0x85, CHR 0x8D, CHR 0xE7, CHR 0xBD, CHR 0xAE]),
   (''editLaunchConfig'', [CHR 0xE7, CHR 0xBC, CHR 0x96, CHR 0xE8, CHR 0xBE, CHR 0x91, CHR 0xE5, CHR 0x90,
      CHR 0xAF, CHR 0xE5, CHR 0x8A, CHR 0xA8, CHR 0xE9, CHR 0x85, CHR 0x8D, CHR 0xE7, CHR 0xBD, CHR 0xAE]),
   (''launchConfigActions'', [CHR 0xE5, CHR 0x90, CHR 0xAF, CHR 0xE5, CHR 0x8A, CHR 0xA8, CHR 0xE9,
      CHR 0x85, CHR 0x8D, CHR 0xE7, CHR 0xBD, CHR 0xAE, CHR 0xE6, CHR 0x93, CHR 0x8D, CHR 0xE4, CHR 0xBD,
      CHR 0x9C, CHR 0xEF, CHR 0xBC, CHR 0x9A] @ ''{name}''),
   (''removeLaunchConfigTitle'', [CHR 0xE5, CHR 0x88, CHR 0xA0, CHR 0xE9, CHR 0x99, CHR 0xA4, CHR 0xE5,
      CHR 0x90, CHR 0xAF, CHR 0xE5, CHR 0x8A, CHR 0xA8, CHR 0xE9, CHR 0x85, CHR 0x8D, CHR 0xE7, CHR 0xBD,
      CHR 0xAE] @ '' {name}'' @ [CHR 0xEF, CHR 0xBC, CHR 0x9F]),
   (''removeLaunchConfigBody'', [CHR 0xE5, CHR 0x8F, CHR 0xAA, CHR 0xE6, CHR 0x98, CHR 0xAF, CHR 0xE5,
      CHR 0x88, CHR 0xA0, CHR 0xE9, CHR 0x99, CHR 0xA4, CHR 0xE4, CHR 0xBF, CHR 0x9D, CHR 0xE5, CHR 0xAD,
      CHR 0x98, CHR 0xE7, CHR 0x9A, CHR 0x84, CHR 0xE9, CHR 0x85, CHR 0x8D, CHR 0xE7, CHR 0xBD, CHR 0xAE,
      CHR 0xE2, CHR 0x80, CHR 0x94, CHR 0xE2, CHR 0x80, CHR 0x94, CHR 0xE4, CHR 0xB8, CHR 0x8D, CHR 0xE4,
      CHR 0xBC, CHR 0x9A, CHR 0xE5, CHR 0x90, CHR 0xAF, CHR 0xE5, CHR 0x8A, CHR 0xA8, CHR 0xE6, CHR 0x88,
      CHR 0x96, CHR 0xE5, CHR 0x81, CHR 0x9C, CHR 0xE6, CHR 0xAD, CHR 0xA2, CHR 0xE4, CHR 0xBB, CHR 0xBB,
      CHR 0xE4, CHR 0xBD, CHR 0x95, CHR 0xE8, CHR 0xBF, CHR 0x9B, CHR 0xE7, CHR 0xA8, CHR 0x8B, CHR 0xE3,
      CHR 0x80, CHR 0x82]),
   (''removeLaunchConfigConfirm'', [CHR 0xE5, CHR 0x88, CHR 0xA0, CHR 0xE9, CHR 0x99, CHR 0xA4] @ '' {name}''),
   (''noLaunchConfigs'', [CHR 0xE6, CHR 0x9A, CHR 0x82, CHR 0xE6, CHR 0x97, CHR 0xA0, CHR 0xE5, CHR 0x90,
      CHR 0xAF, CHR 0xE5, CHR 0x8A, CHR 0xA8, CHR 0xE9, CHR 0x85, CHR 0x8D, CHR 0xE7, CHR 0xBD, CHR 0xAE]),
   (''lcProject'', [CHR 0xE6, CHR 0x89, CHR 0x80, CHR 0xE5, CHR 0xB1, CHR 0x9E, CHR 0xE9, CHR 0xA1,
      CHR 0xB9, CHR 0xE7, CHR 0x9B, CHR 0xAE]),
   (''lcName'', [CHR 0xE5, CHR 0x90, CHR 0x8D, CHR 0xE7, CHR 0xA7, CHR 0xB0]),
   (''lcProgram'', [CHR 0xE7, CHR 0xA8, CHR 0x8B, CHR 0xE5, CHR 0xBA, CHR 0x8F]),
   (''programPlaceholder'', [CHR 0xE4, CHR 0xBE, CHR 0x8B, CHR 0xE5, CHR 0xA6, CHR 0x82] @ '' python''),
   (''lcArgs'', [CHR 0xE5, CHR 0x8F, CHR 0x82, CHR 0xE6, CHR 0x95, CHR 0xB0]),
   (''argsCommaHint'', [CHR 0xE9, CHR 0x80, CHR 0x97, CHR 0xE5, CHR 0x8F, CHR 0xB7, CHR 0xE5, CHR 0x88,
      CHR 0x86, CHR 0xE9, CHR 0x9A, CHR 0x94]),
   (''lcWorkingDir'', [CHR 0xE5, CHR 0xB7, CHR 0xA5, CHR 0xE4, CHR 0xBD, CHR 0x9C, CHR 0xE7, CHR 0x9B,
      CHR 0xAE, CHR 0xE5, CHR 0xBD, CHR 0x95]),
   (''optionalHint'', [CHR 0xE5, CHR 0x8F, CHR 0xAF, CHR 0xE9, CHR 0x80, CHR 0x89]),
   (''lcEnvironment'', [CHR 0xE7, CHR 0x8E, CHR 0xAF, CHR 0xE5, CHR 0xA2, CHR 0x83]),
   (''lcEnvVars'', [CHR 0xE7, CHR 0x8E, CHR 0xAF, CHR 0xE5, CHR 0xA2, CHR 0x83, CHR 0xE5, CHR 0x8F,
      CHR 0x98, CHR 0xE9, CHR 0x87, CHR 0x8F]),
   (''envVarName'', [CHR 0xE5, CHR 0x8F, CHR 0x98, CHR 0xE9, CHR 0x87, CHR 0x8F]),
   (''envVarValue'', [CHR 0xE5, CHR 0x80, CHR 0xBC]),
   (''addEnvVar'', [CHR 0xE6, CHR 0xB7, CHR 0xBB, CHR 0xE5, CHR 0x8A, CHR 0xA0, CHR 0xE5, CHR 0x8F,
      CHR 0x98, CHR 0xE9, CHR 0x87, CHR 0x8F]),
   (''removeEnvVar'', [CHR 0xE5, CHR 0x88, CHR 0xA0, CHR 0xE9, CHR 0x99, CHR 0xA4, CHR 0xE5, CHR 0x8F,
      CHR 0x98, CHR 0xE9, CHR 0x87, CHR 0x8F]),
   (''lcRequiredArtifacts'', [CHR 0xE4, CHR 0xBE, CHR 0x9D, CHR 0xE8, CHR 0xB5, CHR 0x96, CHR 0xE8,
      CHR 0xB5, CHR 0x84, CHR 0xE4, CHR 0xBA, CHR 0xA7]),
   (''lcGpuCount'', ''GPU '' @ [CHR 0xE6, CHR 0x95, CHR 0xB0, CHR 0xE9, CHR 0x87, CHR 0x8F]),
   (''lcMinVram'', [CHR 0xE6, CHR 0x9C, CHR 0x80, CHR 0xE4, CHR 0xBD, CHR 0x8E, CHR 0xE6, CHR 0x98,
      CHR 0xBE, CHR 0xE5, CHR 0xAD, CHR 0x98, CHR 0xEF, CHR 0xBC, CHR 0x88] @ ''GiB'' @ [CHR 0xEF,
      CHR 0xBC, CHR 0x89]),
   (''gpuCountInvalid'', ''GPU '' @ [CHR 0xE6, CHR 0x95, CHR 0xB0, CHR 0xE9, CHR 0x87, CHR 0x8F, CHR 0xE5,
      CHR 0xBF, CHR 0x85, CHR 0xE9, CHR 0xA1, CHR 0xBB, CHR 0xE6, CHR 0x98, CHR 0xAF] @ '' 1'' @
      [CHR 0xE2, CHR 0x80, CHR 0x93] @ ''64''),
   (''minVramInvalid'', [CHR 0xE8, CHR 0xAF, CHR 0xB7, CHR 0xE8, CHR 0xBE, CHR 0x93, CHR 0xE5, CHR 0x85,
      CHR 0xA5, CHR 0xE9, CHR 0x9D, CHR 0x9E, CHR 0xE8, CHR 0xB4, CHR 0x9F, CHR 0xE7, CHR 0x9A, CHR 0x84] @
      '' GiB '' @ [CHR 0xE6, CHR 0x95, CHR 0xB0, CHR 0xE5, CHR 0x80, CHR 0xBC]),
   (''programInvalid'', [CHR 0xE4, CHR 0xB8, CHR 0x8D, CHR 0xE5, CHR 0x85, CHR 0x81, CHR 0xE8, CHR 0xAE,
      CHR 0xB8] @ '' shell '' @ [CHR 0xE5, CHR 0x85, CHR 0x83, CHR 0xE5, CHR 0xAD, CHR 0x97, CHR 0xE7,
      CHR 0xAC, CHR 0xA6, CHR 0xE2, CHR 0x80, CHR 0x94, CHR 0xE2, CHR 0x80, CHR 0x94, CHR 0xE8, CHR 0xAF,
      CHR 0xB7, CHR 0xE4, CHR 0xBD, CHR 0xBF, CHR 0xE7, CHR 0x94, CHR 0xA8, CHR 0xE7, CHR 0xA8, CHR 0x8B,
      CHR 0xE5, CHR 0xBA, CHR 0x8F] @ '' + '' @ [CHR 0xE5, CHR 0x8F, CHR 0x82, CHR 0xE6, CHR 0x95, CHR 0xB0]),
   (''gpuCountValue'', ''GPU '' @ [CHR 0xC3, CHR 0x97] @ ''{n}''),
   (''addArtifact'', [CHR 0xE6, CHR 0xB7, CHR 0xBB, CHR 0xE5, CHR 0x8A, CHR 0xA0, CHR 0xE8, CHR 0xB5,
      CHR 0x84, CHR 0xE4, CHR 0xBA, CHR 0xA7]),
   (''addArtifactTitle'', [CHR 0xE6, CHR 0xB7, CHR 0xBB, CHR 0xE5, CHR 0x8A, CHR 0xA0, CHR 0xE8, CHR 0xB5,
      CHR 0x84, CHR 0xE4, CHR 0xBA, CHR 0xA7]),
   (''editArtifactTitle'', [CHR 0xE7, CHR 0xBC, CHR 0x96, CHR 0xE8, CHR 0xBE, CHR 0x91, CHR 0xE8,
      CHR 0xB5, CHR 0x84, CHR 0xE4, CHR 0xBA, CHR 0xA7] @ '' {name}''),
   (''artifactKind'', [CHR 0xE7, CHR 0xB1, CHR 0xBB, CHR 0xE5, CHR 0x9E, CHR 0x8B]),
   (''kindCode'', [CHR 0xE4, CHR 0xBB, CHR 0xA3, CHR 0xE7, CHR 0xA0, CHR 0x81]),
   (''kindDataset'', [CHR 0xE6, CHR 0x95, CHR 0xB0, CHR 0xE6, CHR 0x8D, CHR 0xAE, CHR 0xE9, CHR 0x9B,
      CHR 0x86]),
   (''kindModel'', [CHR 0xE6, CHR 0xA8, CHR 0xA1, CHR 0xE5, CHR 0x9E, CHR 0x8B]),
   (''artifactName'', [CHR 0xE5, CHR 0x90, CHR 0x8D, CHR 0xE7, CHR 0xA7, CHR 0xB0]),
   (''artifactVersion'', [CHR 0xE7, CHR 0x89, CHR 0x88, CHR 0xE6, CHR 0x9C, CHR 0xAC]),
   (''versionPlaceholder'', [CHR 0xE4, CHR 0xBE, CHR 0x8B, CHR 0xE5, CHR 0xA6, CHR 0x82] @ '' v1''),
   (''artifactImmutable'', [CHR 0xE4, CHR 0xB8, CHR 0x8D, CHR 0xE5, CHR 0x8F, CHR 0xAF, CHR 0xE5,
      CHR 0x8F, CHR 0x98]),
   (''immutableHint'', [CHR 0xE6, CHR 0x9B, CHR 0xB4, CHR 0xE6, CHR 0x94, CHR 0xB9, CHR 0xE5, CHR 0x86,
      CHR 0x85, CHR 0xE5, CHR 0xAE, CHR 0xB9, CHR 0xE6, CHR 0x84, CHR 0x8F, CHR 0xE5, CHR 0x91, CHR 0xB3,
      CHR 0xE7, CHR 0x9D, CHR 0x80, CHR 0xE6, CHR 0x96, CHR 0xB0, CHR 0xE5, CHR 0xA2, CHR 0x9E, CHR 0xE4,
      CHR 0xB8, CHR 0x80, CHR 0xE4, CHR 0xB8, CHR 0xAA, CHR 0xE7, CHR 0x89, CHR 0x88, CHR 0xE6, CHR 0x9C,
      CHR 0xAC, CHR 0xE3, CHR 0x80, CHR 0x82]),
   (''immutableChip'', [CHR 0xE4, CHR 0xB8, CHR 0x8D, CHR 0xE5, CHR 0x8F, CHR 0xAF, CHR 0xE5, CHR 0x8F,
      CHR 0x98]),
   (''mutableChip'', [CHR 0xE5, CHR 0x8F, CHR 0xAF, CHR 0xE5, CHR 0x8F, CHR 0x98]),
   (''artifactActions'', [CHR 0xE8, CHR 0xB5, CHR 0x84, CHR 0xE4, CHR 0xBA, CHR 0xA7, CHR 0xE6, CHR 0x93,
      CHR 0x8D, CHR 0xE4, CHR 0xBD, CHR 0x9C, CHR 0xEF, CHR 0xBC, CHR 0x9A] @ ''{name}''),
   (''removeArtifactTitle'', [CHR 0xE5, CHR 0x88, CHR 0xA0, CHR 0xE9, CHR 0x99, CHR 0xA4, CHR 0xE8,
      CHR 0xB5, CHR 0x84, CHR 0xE4, CHR 0xBA, CHR 0xA7] @ '' {name}'' @ [CHR 0xEF, CHR 0xBC, CHR 0x9F]),
   (''removeArtifactBody'', [CHR 0xE9, CHR 0xA1, CHR 0xB9, CHR 0xE7, CHR 0x9B, CHR 0xAE, CHR 0xE4,
      CHR 0xBB, CHR 0x8D, CHR 0xE5, CHR 0xBC, CHR 0x95, CHR 0xE7, CHR 0x94, CHR 0xA8, CHR 0xE8, CHR 0xAF,
      CHR 0xA5, CHR 0xE8, CHR 0xB5, CHR 0x84, CHR 0xE4, CHR 0xBA, CHR 0xA7, CHR 0xE6, CHR 0x88, CHR 0x96,
      CHR 0xE5, CHR 0xAD, CHR 0x98, CHR 0xE5, CHR 0x9C, CHR 0xA8, CHR 0xE5, CHR 0xB8, CHR 0x83, CHR 0xE7,
      CHR 0x82, CHR 0xB9, CHR 0xE6, CHR 0x97, CHR 0xB6, CHR 0xEF, CHR 0xBC, CHR 0x8C, CHR 0xE5, CHR 0x90,
      CHR 0x8E, CHR 0xE7, CHR 0xAB, CHR 0xAF, CHR 0xE4, CHR 0xBC, CHR 0x9A, CHR 0xE6, CHR 0x8B, CHR 0x92,
      CHR 0xE7, CHR 0xBB, CHR 0x9D, CHR 0xE5, CHR 0x88, CHR 0xA0, CHR 0xE9, CHR 0x99, CHR 0xA4, CHR 0xE3,
      CHR 0x80, CHR 0x82]),
   (''removeArtifactConfirm'', [CHR 0xE5, CHR 0x88, CHR 0xA0, CHR 0xE9, CHR 0x99, CHR 0xA4] @ '' {name}''),
   (''noArtifacts'', [CHR 0xE6, CHR 0x9A, CHR 0x82, CHR 0xE6, CHR 0x97, CHR 0xA0, CHR 0xE8, CHR 0xB5,
      CHR 0x84, CHR 0xE4, CHR 0xBA, CHR 0xA7]),
   (''noArtifactsHint'', [CHR 0xE5, CHR 0x85, CHR 0x88, CHR 0xE5, CHR 0x88, CHR 0x9B, CHR 0xE5, CHR 0xBB,
      CHR 0xBA, CHR 0xE7, CHR 0xAC, CHR 0xAC, CHR 0xE4, CHR 0xB8, CHR 0x80, CHR 0xE4, CHR 0xB8, CHR 0xAA,
      CHR 0xE6, CHR 0x95, CHR 0xB0, CHR 0xE6, CHR 0x8D, CHR 0xAE, CHR 0xE9, CHR 0x9B, CHR 0x86, CHR 0xE6,
      CHR 0x88, CHR 0x96, CHR 0xE6, CHR 0xA8, CHR 0xA1, CHR 0xE5, CHR 0x9E, CHR 0x8B, CHR 0xE3, CHR 0x80,
      CHR 0x82]),
   (''placementsCount'', ''{n} '' @ [CHR 0xE4, CHR 0xB8, CHR 0xAA, CHR 0xE5, CHR 0xB8, CHR 0x83, CHR 0xE7,
      CHR 0x82, CHR 0xB9]),
   (''syncTo'', [CHR 0xE5, CHR 0x90, CHR 0x8C, CHR 0xE6, CHR 0xAD, CHR 0xA5, CHR 0xE5, CHR 0x88, CHR 0xB0] @
      ''...''),
   (''syncComingSoon'', [CHR 0xE4, CHR 0xBC, CHR 0xA0, CHR 0xE8, CHR 0xBE, CHR 0x93, CHR 0xE5, CHR 0x8A,
      CHR 0x9F, CHR 0xE8, CHR 0x83, CHR 0xBD, CHR 0xE5, CHR 0x8D, CHR 0xB3, CHR 0xE5, CHR 0xB0, CHR 0x86,
      CHR 0xE4, CHR 0xB8, CHR 0x8A, CHR 0xE7, CHR 0xBA, CHR 0xBF]),
   (''noLaunches'', [CHR 0xE6, CHR 0x9A, CHR 0x82, CHR 0xE6, CHR 0x97, CHR 0xA0, CHR 0xE5, CHR 0x90,
      CHR 0xAF, CHR 0xE5, CHR 0x8A, CHR 0xA8, CHR 0xE9, CHR 0x85, CHR 0x8D, CHR 0xE7, CHR 0xBD, CHR 0xAE]),
   (''noLaunchesHint'', [CHR 0xE6, CHR 0x89, CHR 0x93, CHR 0xE5, CHR 0xBC, CHR 0x80, CHR 0xE4, CHR 0xB8,
      CHR 0x80, CHR 0xE4, CHR 0xB8, CHR 0xAA, CHR 0xE9, CHR 0xA1, CHR 0xB9, CHR 0xE7, CHR 0x9B, CHR 0xAE,
      CHR 0xE6, CHR 0x9D, CHR 0xA5, CHR 0xE6, CHR 0xB7, CHR 0xBB, CHR 0xE5, CHR 0x8A, CHR 0xA0, CHR 0xE3,
      CHR 0x80, CHR 0x82]),
   (''launchProject'', [CHR 0xE9, CHR 0xA1, CHR 0xB9, CHR 0xE7, CHR 0x9B, CHR 0xAE] @ '' {name}''),
   (''launchProjectMissing'', [CHR 0xE6, CHR 0x9C, CHR 0xAA, CHR 0xE7, CHR 0x9F, CHR 0xA5, CHR 0xE9,
      CHR 0xA1, CHR 0xB9, CHR 0xE7, CHR 0x9B, CHR 0xAE]),
   (''serverRoots'', [CHR 0xE6, CHR 0x9C, CHR 0x8D, CHR 0xE5, CHR 0x8A, CHR 0xA1, CHR 0xE5, CHR 0x99,
      CHR 0xA8, CHR 0xE6, CHR 0xA0, CHR 0xB9, CHR 0xE7, CHR 0x9B, CHR 0xAE, CHR 0xE5, CHR 0xBD, CHR 0x95]),
   (''rootsHint'', [CHR 0xE7, CHR 0x94, CHR 0xA8, CHR 0xE4, CHR 0xBA, CHR 0x8E, CHR 0xE8, CHR 0xA7,
      CHR 0xA3, CHR 0xE6, CHR 0x9E, CHR 0x90, CHR 0xE7, CHR 0x9B, CHR 0xB8, CHR 0xE5, CHR 0xAF, CHR 0xB9,
      CHR 0xE8, CHR 0xB7, CHR 0xAF, CHR 0xE5, CHR 0xBE, CHR 0x84, CHR 0xE7, CHR 0x9A, CHR 0x84, CHR 0xE8,
      CHR 0xBF, CHR 0x9C, CHR 0xE7, CHR 0xA8, CHR 0x8B, CHR 0xE5, CHR 0x9F, CHR 0xBA, CHR 0xE7, CHR 0xA1,
      CHR 0x80, CHR 0xE7, CHR 0x9B, CHR 0xAE, CHR 0xE5, CHR 0xBD, CHR 0x95, CHR 0xEF, CHR 0xBC, CHR 0x88,
      CHR 0xE2, CHR 0x89, CHR 0xA4] @ ''512 '' @ [CHR 0xE5, CHR 0xAD, CHR 0x97, CHR 0xE7, CHR 0xAC,
      CHR 0xA6, CHR 0xEF, CHR 0xBC, CHR 0x89, CHR 0xE3, CHR 0x80, CHR 0x82, CHR 0xE6, CHR 0x8C, CHR 0x89,
      CHR 0xE6, CHR 0x9C, CHR 0x8D, CHR 0xE5, CHR 0x8A, CHR 0xA1, CHR 0xE5, CHR 0x99, CHR 0xA8, CHR 0xE4,
      CHR 0xBF, CHR 0x9D, CHR 0xE5, CHR 0xAD, CHR 0x98, CHR 0xEF, CHR 0xBC, CHR 0x9B, CHR 0xE7, CHR 0x95,
      CHR 0x99, CHR 0xE7, CHR 0xA9, CHR 0xBA, CHR 0xE5, CHR 0x8D, CHR 0xB3, CHR 0xE6, CHR 0xB8, CHR 0x85,
      CHR 0xE9, CHR 0x99, CHR 0xA4, CHR 0xE8, CHR 0xAF, CHR 0xA5, CHR 0xE5, CHR 0x80, CHR 0xBC, CHR 0xE3,
      CHR 0x80, CHR 0x82]),
   (''rootProject'', [CHR 0xE9, CHR 0xA1, CHR 0xB9, CHR 0xE7, CHR 0x9B, CHR 0xAE]),
   (''rootDataset'', [CHR 0xE6, CHR 0x95, CHR 0xB0, CHR 0xE6, CHR 0x8D, CHR 0xAE, CHR 0xE9, CHR 0x9B,
      CHR 0x86]),
   (''rootModel'', [CHR 0xE6, CHR 0xA8, CHR 0xA1, CHR 0xE5, CHR 0x9E, CHR 0x8B]),
   (''rootOutput'', [CHR 0xE8, CHR 0xBE, CHR 0x93, CHR 0xE5, CHR 0x87, CHR 0xBA]),
   (''rootInvalid'', [CHR 0xE9, CHR 0x95, CHR 0xBF, CHR 0xE5, CHR 0xBA, CHR 0xA6, CHR 0xE9, CHR 0x9C,
      CHR 0x80, CHR 0xE4, CHR 0xB8, CHR 0xBA] @ '' 1'' @ [CHR 0xE2, CHR 0x80, CHR 0x93] @ ''512 '' @
      [CHR 0xE5, CHR 0xAD, CHR 0x97, CHR 0xE7, CHR 0xAC, CHR 0xA6, CHR 0xE4, CHR 0xB8, CHR 0x94, CHR 0xE4,
      CHR 0xB8, CHR 0x8D, CHR 0xE5, CHR 0x90, CHR 0xAB, CHR 0xE6, CHR 0x8E, CHR 0xA7, CHR 0xE5, CHR 0x88,
      CHR 0xB6, CHR 0xE5, CHR 0xAD, CHR 0x97, CHR 0xE7, CHR 0xAC, CHR 0xA6]),
   (''saveRoots'', [CHR 0xE4, CHR 0xBF, CHR 0x9D, CHR 0xE5, CHR 0xAD, CHR 0x98, CHR 0xE6, CHR 0xA0,
      CHR 0xB9, CHR 0xE7, CHR 0x9B, CHR 0xAE, CHR 0xE5, CHR 0xBD, CHR 0x95]),
   (''savingRoots'', [CHR 0xE4, CHR 0xBF, CHR 0x9D, CHR 0xE5, CHR 0xAD, CHR 0x98, CHR 0xE4, CHR 0xB8,
      CHR 0xAD, CHR 0xE2, CHR 0x80, CHR 0xA6]),
   (''rootsSaved'', [CHR 0xE5, CHR 0xB7, CHR 0xB2, CHR 0xE4, CHR 0xBF, CHR 0x9D, CHR 0xE5, CHR 0xAD,
      CHR 0x98]),
   (''noServersForRoots'', [CHR 0xE8, CHR 0xBF, CHR 0x98, CHR 0xE6, CHR 0xB2, CHR 0xA1, CHR 0xE6,
      CHR 0x9C, CHR 0x89, CHR 0xE6, CHR 0xB3, CHR 0xA8, CHR 0xE5, CHR 0x86, CHR 0x8C, CHR 0xE6, CHR 0x9C,
      CHR 0x8D, CHR 0xE5, CHR 0x8A, CHR 0xA1, CHR 0xE5, CHR 0x99, CHR 0xA8, CHR 0xE2, CHR 0x80, CHR 0x94,
      CHR 0xE2, CHR 0x80, CHR 0x94, CHR 0xE8, CHR 0xAF, CHR 0xB7, CHR 0xE5, CHR 0x88, CHR 0xB0, CHR 0xE8,
      CHR 0xAE, CHR 0xBE, CHR 0xE7, CHR 0xBD, CHR 0xAE, CHR 0xE9, CHR 0xA1, CHR 0xB5, CHR 0xE6, CHR 0xB7,
      CHR 0xBB, CHR 0xE5, CHR 0x8A, CHR 0xA0, CHR 0xE3, CHR 0x80, CHR 0x82])]"

definition zh_transfers :: "(string \<times> string) list" where
 "zh_transfers =
  [(''title'', [CHR 0xE4, CHR 0xBC, CHR 0xA0, CHR 0xE8, CHR 0xBE, CHR 0x93]),
   (''newTransfer'', [CHR 0xE6, CHR 0x96, CHR 0xB0, CHR 0xE5, CHR 0xBB, CHR 0xBA, CHR 0xE4, CHR 0xBC,
      CHR 0xA0, CHR 0xE8, CHR 0xBE, CHR 0x93]),
   (''countActive'', [CHR 0xE8, CHR 0xBF, CHR 0x9B, CHR 0xE8, CHR 0xA1, CHR 0x8C, CHR 0xE4, CHR 0xB8,
      CHR 0xAD] @ '' {n}''),
   (''countQueued'', [CHR 0xE7, CHR 0xAD, CHR 0x89, CHR 0xE5, CHR 0xBE, CHR 0x85] @ '' {n}''),
   (''countCompleted'', [CHR 0xE5, CHR 0xB7, CHR 0xB2, CHR 0xE5, CHR 0xAE, CHR 0x8C, CHR 0xE6, CHR 0x88,
      CHR 0x90] @ '' {n}''),
   (''stateQueued'', [CHR 0xE7, CHR 0xAD, CHR 0x89, CHR 0xE5, CHR 0xBE, CHR 0x85]),
   (''statePlanning'', [CHR 0xE8, CHR 0xA7, CHR 0x84, CHR 0xE5, CHR 0x88, CHR 0x92, CHR 0xE4, CHR 0xB8,
      CHR 0xAD]),
   (''stateRunning'', [CHR 0xE4, CHR 0xBC, CHR 0xA0, CHR 0xE8, CHR 0xBE, CHR 0x93, CHR 0xE4, CHR 0xB8,
      CHR 0xAD]),
   (''stateVerifying'', [CHR 0xE6, CHR 0xA0, CHR 0xA1, CHR 0xE9, CHR 0xAA, CHR 0x8C, CHR 0xE4, CHR 0xB8,
      CHR 0xAD]),
   (''stateCompleted'', [CHR 0xE4, CHR 0xBC, CHR 0xA0, CHR 0xE8, CHR 0xBE, CHR 0x93, CHR 0xE5, CHR 0xAE,
      CHR 0x8C, CHR 0xE6, CHR 0x88, CHR 0x90]),
   (''stateFailed'', [CHR 0xE5, CHR 0xA4, CHR 0xB1, CHR 0xE8, CHR 0xB4, CHR 0xA5]),
   (''stateCancelled'', [CHR 0xE5, CHR 0xB7, CHR 0xB2, CHR 0xE5, CHR 0x8F, CHR 0x96, CHR 0xE6, CHR 0xB6,
      CHR 0x88]),
   (''strategyAuto'', [CHR 0xE8, CHR 0x87, CHR 0xAA, CHR 0xE5, CHR 0x8A, CHR 0xA8]),
   (''strategyDirect'', [CHR 0xE7, CHR 0x9B, CHR 0xB4, CHR 0xE6, CHR 0x8E, CHR 0xA5, CHR 0xE5, CHR 0x90,
      CHR 0x8C, CHR 0xE6, CHR 0xAD, CHR 0xA5]),
   (''strategyRelay'', [CHR 0xE6, CHR 0x9C, CHR 0xAC, CHR 0xE6, CHR 0x9C, CHR 0xBA, CHR 0xE4, CHR 0xB8,
      CHR 0xAD, CHR 0xE8, CHR 0xBD, CHR 0xAC]),
   (''cancelTransfer'', [CHR 0xE5, CHR 0x8F, CHR 0x96, CHR 0xE6, CHR 0xB6, CHR 0x88, CHR 0xE4, CHR 0xBC,
      CHR 0xA0, CHR 0xE8, CHR 0xBE, CHR 0x93]),
   (''retryTransfer'', [CHR 0xE9, CHR 0x87, CHR 0x8D, CHR 0xE8, CHR 0xAF, CHR 0x95, CHR 0xE4, CHR 0xBC,
      CHR 0xA0, CHR 0xE8, CHR 0xBE, CHR 0x93]),
   (''clearHistory'', [CHR 0xE6, CHR 0xB8, CHR 0x85, CHR 0xE7, CHR 0xA9, CHR 0xBA, CHR 0xE4, CHR 0xBC,
      CHR 0xA0, CHR 0xE8, CHR 0xBE, CHR 0x93, CHR 0xE5, CHR 0x8E, CHR 0x86, CHR 0xE5, CHR 0x8F, CHR 0xB2]),
   (''clearHistoryTitle'', [CHR 0xE6, CHR 0xB8, CHR 0x85, CHR 0xE7, CHR 0xA9, CHR 0xBA, CHR 0xE4,
      CHR 0xBC, CHR 0xA0, CHR 0xE8, CHR 0xBE, CHR 0x93, CHR 0xE5, CHR 0x8E, CHR 0x86, CHR 0xE5, CHR 0x8F,
      CHR 0xB2, CHR 0xEF, CHR 0xBC, CHR 0x9F]),
   (''clearHistoryBody'', [CHR 0xE5, CHR 0xB0, CHR 0x86, CHR 0xE6, CHR 0xB8, CHR 0x85, CHR 0xE9, CHR 0x99,
      CHR 0xA4, CHR 0xE5, CHR 0xB7, CHR 0xB2, CHR 0xE5, CHR 0xAE, CHR 0x8C, CHR 0xE6, CHR 0x88, CHR 0x90,
      CHR 0xE3, CHR 0x80, CHR 0x81, CHR 0xE5, CHR 0xA4, CHR 0xB1, CHR 0xE8, CHR 0xB4, CHR 0xA5, CHR 0xE3,
      CHR 0x80, CHR 0x81, CHR 0xE5, CHR 0xB7, CHR 0xB2, CHR 0xE5, CHR 0x8F, CHR 0x96, CHR 0xE6, CHR 0xB6,
      CHR 0x88, CHR 0xE7, CHR 0x9A, CHR 0x84, CHR 0xE4, CHR 0xBC, CHR 0xA0, CHR 0xE8, CHR 0xBE, CHR 0x93,
      CHR 0xE8, CHR 0xAE, CHR 0xB0, CHR 0xE5, CHR 0xBD, CHR 0x95, CHR 0xEF, CHR 0xBC, CHR 0x9B, CHR 0xE8,
      CHR 0xBF, CHR 0x9B, CHR 0xE8, CHR 0xA1, CHR 0x8C, CHR 0xE4, CHR 0xB8, CHR 0xAD, CHR 0xE7, CHR 0x9A,
      CHR 0x84, CHR 0xE4, CHR 0xBC, CHR 0xA0, CHR 0xE8, CHR 0xBE, CHR 0x93, CHR 0xE4, CHR 0xB8, CHR 0x8E,
      CHR 0xE5, CHR 0xB7, CHR 0xB2, CHR 0xE7, CHR 0x99, CHR 0xBB, CHR 0xE8, CHR 0xAE, CHR 0xB0, CHR 0xE7,
      CHR 0x9A, CHR 0x84, CHR 0xE8, CHR 0xB5, CHR 0x84, CHR 0xE4, CHR 0xBA, CHR 0xA7, CHR 0xE3, CHR 0x80,
      CHR 0x81, CHR 0xE6, CHR 0x94, CHR 0xBE, CHR 0xE7, CHR 0xBD, CHR 0xAE, CHR 0xE5, CHR 0x9D, CHR 0x87,
      CHR 0xE4, CHR 0xB8, CHR 0x8D, CHR 0xE5, CHR 0x8F, CHR 0x97, CHR 0xE5, CHR 0xBD, CHR 0xB1, CHR 0xE5,
      CHR 0x93, CHR 0x8D, CHR 0xE3, CHR 0x80, CHR 0x82]),
   (''clearHistoryConfirm'', [CHR 0xE6, CHR 0xB8, CHR 0x85, CHR 0xE7, CHR 0xA9, CHR 0xBA, CHR 0xE8,
      CHR 0xAE, CHR 0xB0, CHR 0xE5, CHR 0xBD, CHR 0x95]),
   (''empty'', [CHR 0xE6, CHR 0x9A, CHR 0x82, CHR 0xE6, CHR 0x97, CHR 0xA0, CHR 0xE4, CHR 0xBC, CHR 0xA0,
      CHR 0xE8, CHR 0xBE, CHR 0x93]),
   (''emptyHint'', [CHR 0xE5, CHR 0x9C, CHR 0xA8, CHR 0xE5, CHR 0xB7, CHR 0xA5, CHR 0xE4, CHR 0xBD,
      CHR 0x9C, CHR 0xE5, CHR 0x8C, CHR 0xBA, CHR 0xE7, CHR 0x9A, CHR 0x84, CHR 0xE8, CHR 0xB5, CHR 0x84,
      CHR 0xE4, CHR 0xBA, CHR 0xA7, CHR 0xE6, CHR 0x88, CHR 0x96, CHR 0xE5, CHR 0xB8, CHR 0x83, CHR 0xE7,
      CHR 0x82, CHR 0xB9, CHR 0xE8, CHR 0x8F, CHR 0x9C, CHR 0xE5, CHR 0x8D, CHR 0x95, CHR 0xE4, CHR 0xB8,
      CHR 0xAD, CHR 0xE9, CHR 0x80, CHR 0x89, CHR 0xE6, CHR 0x8B, CHR 0xA9, CHR 0xE2, CHR 0x80, CHR 0x9C,
      CHR 0xE5, CHR 0x90, CHR 0x8C, CHR 0xE6, CHR 0xAD, CHR 0xA5, CHR 0xE5, CHR 0x88, CHR 0xB0] @ ''...'' @
      [CHR 0xE2, CHR 0x80, CHR 0x9D, CHR 0xE3, CHR 0x80, CHR 0x82]),
   (''error'', [CHR 0xE4, CHR 0xBC, CHR 0xA0, CHR 0xE8, CHR 0xBE, CHR 0x93, CHR 0xE5, CHR 0x88, CHR 0x97,
      CHR 0xE8, CHR 0xA1, CHR 0xA8, CHR 0xE4, CHR 0xB8, CHR 0x8D, CHR 0xE5, CHR 0x8F, CHR 0xAF, CHR 0xE7,
      CHR 0x94, CHR 0xA8]),
   (''loadingAria'', [CHR 0xE6, CHR 0xAD, CHR 0xA3, CHR 0xE5, CHR 0x9C, CHR 0xA8, CHR 0xE5, CHR 0x8A,
      CHR 0xA0, CHR 0xE8, CHR 0xBD, CHR 0xBD, CHR 0xE4, CHR 0xBC, CHR 0xA0, CHR 0xE8, CHR 0xBE, CHR 0x93]),
   (''dialogTitle'', [CHR 0xE6, CHR 0x96, CHR 0xB0, CHR 0xE5, CHR 0xBB, CHR 0xBA, CHR 0xE4, CHR 0xBC,
      CHR 0xA0, CHR 0xE8, CHR 0xBE, CHR 0x93]),
   (''artifact'', [CHR 0xE8, CHR 0xB5, CHR 0x84, CHR 0xE4, CHR 0xBA, CHR 0xA7]),
   (''sourcePlacement'', [CHR 0xE6, CHR 0xBA, CHR 0x90, CHR 0xE5, CHR 0xB8, CHR 0x83, CHR 0xE7, CHR 0x82,
      CHR 0xB9]),
   (''targetServer'', [CHR 0xE7, CHR 0x9B, CHR 0xAE, CHR 0xE6, CHR 0xA0, CHR 0x87, CHR 0xE6, CHR 0x9C,
      CHR 0x8D, CHR 0xE5, CHR 0x8A, CHR 0xA1, CHR 0xE5, CHR 0x99, CHR 0xA8]),
   (''targetPath'', [CHR 0xE7, CHR 0x9B, CHR 0xAE, CHR 0xE6, CHR 0xA0, CHR 0x87, CHR 0xE8, CHR 0xB7,
      CHR 0xAF, CHR 0xE5, CHR 0xBE, CHR 0x84]),
   (''method'', [CHR 0xE6, CHR 0x96, CHR 0xB9, CHR 0xE5, CHR 0xBC, CHR 0x8F]),
   (''available'', [CHR 0xE5, CHR 0x8F, CHR 0xAF, CHR 0xE7, CHR 0x94, CHR 0xA8]),
   (''unavailable'', [CHR 0xE4, CHR 0xB8, CHR 0x8D, CHR 0xE5, CHR 0x8F, CHR 0xAF, CHR 0xE7, CHR 0x94,
      CHR 0xA8]),
   (''noDirectSsh'', [CHR 0xE6, CHR 0xBA, CHR 0x90, CHR 0xE6, CHR 0x9C, CHR 0x8D, CHR 0xE5, CHR 0x8A,
      CHR 0xA1, CHR 0xE5, CHR 0x99, CHR 0xA8, CHR 0xE6, CHR 0x97, CHR 0xA0, CHR 0xE6, CHR 0xB3, CHR 0x95,
      CHR 0xE7, CHR 0x9B, CHR 0xB4, CHR 0xE6, CHR 0x8E, CHR 0xA5] @ '' SSH '' @ [CHR 0xE5, CHR 0x88,
      CHR 0xB0, CHR 0xE7, CHR 0x9B, CHR 0xAE, CHR 0xE6, CHR 0xA0, CHR 0x87, CHR 0xE6, CHR 0x9C, CHR 0x8D,
      CHR 0xE5, CHR 0x8A, CHR 0xA1, CHR 0xE5, CHR 0x99, CHR 0xA8]),
   (''reasonLead'', [CHR 0xE5, CHR 0x8E, CHR 0x9F, CHR 0xE5, CHR 0x9B, CHR 0xA0, CHR 0xEF, CHR 0xBC,
      CHR 0x9A] @ ''{text}''),
   (''authFailReason'', [CHR 0xE6, CHR 0xBA, CHR 0x90, CHR 0xE6, CHR 0x9C, CHR 0x8D, CHR 0xE5, CHR 0x8A,
      CHR 0xA1, CHR 0xE5, CHR 0x99, CHR 0xA8, CHR 0xE6, CHR 0x97, CHR 0xA0, CHR 0xE6, CHR 0xB3, CHR 0x95,
      CHR 0xE7, CHR 0x9B, CHR 0xB4, CHR 0xE6, CHR 0x8E, CHR 0xA5, CHR 0xE8, CHR 0xAE, CHR 0xA4, CHR 0xE8,
      CHR 0xAF, CHR 0x81, CHR 0xE5, CHR 0x88, CHR 0xB0, CHR 0xE7, CHR 0x9B, CHR 0xAE, CHR 0xE6, CHR 0xA0,
      CHR 0x87, CHR 0xE6, CHR 0x9C, CHR 0x8D, CHR 0xE5, CHR 0x8A, CHR 0xA1, CHR 0xE5, CHR 0x99, CHR 0xA8]),
   (''configureDirect'', [CHR 0xE9, CHR 0x85, CHR 0x8D, CHR 0xE7, CHR 0xBD, CHR 0xAE, CHR 0xE7, CHR 0x9B,
      CHR 0xB4, CHR 0xE8, CHR 0xBF, CHR 0x9E]),
   (''directSetupTitle'', [CHR 0xE7, CHR 0x9B, CHR 0xB4, CHR 0xE8, CHR 0xBF, CHR 0x9E, CHR 0xE4, CHR 0xBC,
      CHR 0xA0, CHR 0xE8, CHR 0xBE, CHR 0x93, CHR 0xE8, CHR 0xAE, CHR 0xBE, CHR 0xE7, CHR 0xBD, CHR 0xAE]),
   (''replan'', [CHR 0xE9, CHR 0x87, CHR 0x8D, CHR 0xE6, CHR 0x96, CHR 0xB0, CHR 0xE8, CHR 0xA7, CHR 0x84,
      CHR 0xE5, CHR 0x88, CHR 0x92]),
   (''replanning'', [CHR 0xE9, CHR 0x87, CHR 0x8D, CHR 0xE6, CHR 0x96, CHR 0xB0, CHR 0xE8, CHR 0xA7,
      CHR 0x84, CHR 0xE5, CHR 0x88, CHR 0x92, CHR 0xE4, CHR 0xB8, CHR 0xAD, CHR 0xE2, CHR 0x80, CHR 0xA6]),
   (''planExcludes'', [CHR 0xE9, CHR 0xA1, CHR 0xB9, CHR 0xE7, CHR 0x9B, CHR 0xAE, CHR 0xE6, CHR 0x8E,
      CHR 0x92, CHR 0xE9, CHR 0x99, CHR 0xA4, CHR 0xE8, CHR 0xA7, CHR 0x84, CHR 0xE5, CHR 0x88, CHR 0x99,
      CHR 0xE5, CHR 0xB0, CHR 0x86, CHR 0xE8, CHR 0xB7, CHR 0xB3, CHR 0xE8, CHR 0xBF, CHR 0x87, CHR 0xEF,
      CHR 0xBC, CHR 0x9A]),
   (''planning'', [CHR 0xE6, CHR 0xAD, CHR 0xA3, CHR 0xE5, CHR 0x9C, CHR 0xA8, CHR 0xE8, CHR 0xA7,
      CHR 0x84, CHR 0xE5, CHR 0x88, CHR 0x92, CHR 0xE2, CHR 0x80, CHR 0xA6]),
   (''planFailed'', [CHR 0xE8, CHR 0xA7, CHR 0x84, CHR 0xE5, CHR 0x88, CHR 0x92, CHR 0xE5, CHR 0xA4,
      CHR 0xB1, CHR 0xE8, CHR 0xB4, CHR 0xA5]),
   (''create'', [CHR 0xE5, CHR 0xBC, CHR 0x80, CHR 0xE5, CHR 0xA7, CHR 0x8B, CHR 0xE4, CHR 0xBC, CHR 0xA0,
      CHR 0xE8, CHR 0xBE, CHR 0x93]),
   (''creating'', [CHR 0xE6, CHR 0xAD, CHR 0xA3, CHR 0xE5, CHR 0x9C, CHR 0xA8, CHR 0xE5, CHR 0x88,
      CHR 0x9B, CHR 0xE5, CHR 0xBB, CHR 0xBA, CHR 0xE2, CHR 0x80, CHR 0xA6]),
   (''etaMinutes'', [CHR 0xE5, CHR 0x89, CHR 0xA9, CHR 0xE4, CHR 0xBD, CHR 0x99, CHR 0xE7, CHR 0xBA,
      CHR 0xA6] @ '' {n} '' @ [CHR 0xE5, CHR 0x88, CHR 0x86, CHR 0xE9, CHR 0x92, CHR 0x9F]),
   (''filesProgress'', ''{done} / {total} '' @ [CHR 0xE4, CHR 0xB8, CHR 0xAA, CHR 0xE6, CHR 0x96,
      CHR 0x87, CHR 0xE4, CHR 0xBB, CHR 0xB6]),
   (''kindResumed'', [CHR 0xE7, CHR 0xBB, CHR 0xAD, CHR 0xE4, CHR 0xBC, CHR 0xA0]),
   (''kindIncremental'', [CHR 0xE5, CHR 0xA2, CHR 0x9E, CHR 0xE9, CHR 0x87, CHR 0x8F]),
   (''resumedBytes'', [CHR 0xE5, CHR 0xB7, CHR 0xB2, CHR 0xE7, CHR 0xBB, CHR 0xAD, CHR 0xE4, CHR 0xBC,
      CHR 0xA0] @ '' {size}''),
   (''filesSkipped'', [CHR 0xE8, CHR 0xB7, CHR 0xB3, CHR 0xE8, CHR 0xBF, CHR 0x87] @ '' {n} '' @
      [CHR 0xE4, CHR 0xB8, CHR 0xAA, CHR 0xE6, CHR 0x96, CHR 0x87, CHR 0xE4, CHR 0xBB, CHR 0xB6]),
   (''warningsCount'', ''{n} '' @ [CHR 0xE6, CHR 0x9D, CHR 0xA1, CHR 0xE8, CHR 0xAD, CHR 0xA6, CHR 0xE5,
      CHR 0x91, CHR 0x8A]),
   (''targetFree'', [CHR 0xE7, CHR 0x9B, CHR 0xAE, CHR 0xE6, CHR 0xA0, CHR 0x87, CHR 0xE5, CHR 0x8F,
      CHR 0xAF, CHR 0xE7, CHR 0x94, CHR 0xA8, CHR 0xE7, CHR 0xA9, CHR 0xBA, CHR 0xE9, CHR 0x97, CHR 0xB4,
      CHR 0xEF, CHR 0xBC, CHR 0x9A] @ ''{size}''),
   (''noPlacements'', [CHR 0xE8, CHR 0xAF, CHR 0xA5, CHR 0xE8, CHR 0xB5, CHR 0x84, CHR 0xE4, CHR 0xBA,
      CHR 0xA7, CHR 0xE6, CHR 0xB2, CHR 0xA1, CHR 0xE6, CHR 0x9C, CHR 0x89, CHR 0xE5, CHR 0xB8, CHR 0x83,
      CHR 0xE7, CHR 0x82, CHR 0xB9]),
   (''noServers'', [CHR 0xE6, CHR 0x9A, CHR 0x82, CHR 0xE6, CHR 0x97, CHR 0xA0, CHR 0xE6, CHR 0xB3,
      CHR 0xA8, CHR 0xE5, CHR 0x86, CHR 0x8C, CHR 0xE6, CHR 0x9C, CHR 0x8D, CHR 0xE5, CHR 0x8A, CHR 0xA1,
      CHR 0xE5, CHR 0x99, CHR 0xA8]),
   (''targetPathNoRoot'', [CHR 0xE8, CHR 0xAF, CHR 0xA5, CHR 0xE6, CHR 0x9C, CHR 0x8D, CHR 0xE5, CHR 0x8A,
      CHR 0xA1, CHR 0xE5, CHR 0x99, CHR 0xA8, CHR 0xE6, CHR 0x9C, CHR 0xAA, CHR 0xE9, CHR 0x85, CHR 0x8D,
      CHR 0xE7, CHR 0xBD, CHR 0xAE, CHR 0xE5, CHR 0xAF, CHR 0xB9, CHR 0xE5, CHR 0xBA, CHR 0x94, CHR 0xE7,
      CHR 0xB1, CHR 0xBB, CHR 0xE5, CHR 0x9E, CHR 0x8B, CHR 0xE7, CHR 0x9A, CHR 0x84, CHR 0xE6, CHR 0xA0,
      CHR 0xB9, CHR 0xE7, CHR 0x9B, CHR 0xAE, CHR 0xE5, CHR 0xBD, CHR 0x95, CHR 0xEF, CHR 0xBC, CHR 0x8C,
      CHR 0xE5, CHR 0x8F, CHR 0xAF, CHR 0xE6, CHR 0x89, CHR 0x8B, CHR 0xE5, CHR 0x8A, CHR 0xA8, CHR 0xE8,
      CHR 0xBE, CHR 0x93, CHR 0xE5, CHR 0x85, CHR 0xA5, CHR 0xE7, CHR 0x9B, CHR 0xAE, CHR 0xE6, CHR 0xA0,
      CHR 0x87, CHR 0xE8, CHR 0xB7, CHR 0xAF, CHR 0xE5, CHR 0xBE, CHR 0x84]),
   (''batchDone'', ''{done}/{total} '' @ [CHR 0xE5, CHR 0xB7, CHR 0xB2, CHR 0xE5, CHR 0xAE, CHR 0x8C,
      CHR 0xE6, CHR 0x88, CHR 0x90]),
   (''batchRunningCount'', [CHR 0xE4, CHR 0xBC, CHR 0xA0, CHR 0xE8, CHR 0xBE, CHR 0x93, CHR 0xE4,
      CHR 0xB8, CHR 0xAD] @ '' {n}''),
   (''batchFailedCount'', [CHR 0xE5, CHR 0xA4, CHR 0xB1, CHR 0xE8, CHR 0xB4, CHR 0xA5] @ '' {n}'')]"

definition zh :: "(string \<times> (string \<times> string) list) list" where
 "zh =
  [(''nav'', zh_nav),
   (''common'', zh_common),
   (''relative'', zh_relative),
   (''status'', zh_status),
   (''gpu'', zh_gpu),
   (''fleet'', zh_fleet),
   (''tabs'', zh_tabs),
   (''overview'', zh_overview),
   (''gpus'', zh_gpus),
   (''processes'', zh_processes),
   (''system'', zh_system),
   (''storage'', zh_storage),
   (''network'', zh_network),
   (''settings'', zh_settings),
   (''preview'', zh_preview),
   (''dialog'', zh_dialog),
   (''serverAuth'', zh_serverAuth),
   (''workspace'', zh_workspace1 @ zh_workspace2),
   (''transfers'', zh_transfers)]"

lemmas zh_sections = zh_nav_def zh_common_def zh_relative_def zh_status_def zh_gpu_def zh_fleet_def zh_tabs_def zh_overview_def zh_gpus_def zh_processes_def zh_system_def zh_storage_def zh_network_def zh_settings_def zh_preview_def zh_dialog_def zh_serverAuth_def zh_workspace1_def zh_workspace2_def zh_transfers_def

end
