(* ===== verification/Dictionaries.thy ===== *)
theory Dictionaries
  imports DictionaryEn DictionaryZh Format Preferences Fleet
begin

text \<open>
  \<open>i18n/index.ts\<close> over the two dictionaries: the text a component reads by section and key, the
  placeholders of a template, and the parity of the languages. That both have the same keys is the
  type \<open>Dict\<close>; that a template filled in one language is filled in the other is not.
\<close>

subsection \<open>Reading a dictionary\<close>

type_synonym dictionary = "(string \<times> (string \<times> string) list) list"

definition dict_entries :: "dictionary \<Rightarrow> (string \<times> string) list" where
  "dict_entries d = concat (map (\<lambda>(section, texts). map (\<lambda>(key, text). (section @ CHR ''.'' # key, text)) texts) d)"

text \<open>A path outside the type \<open>Dict\<close> does not compile; here it reads the empty text.\<close>

definition dict_text :: "dictionary \<Rightarrow> dict" where
  "dict_text d path = (case map_of (dict_entries d) path of Some text \<Rightarrow> text | None \<Rightarrow> '''')"

definition useT :: "locale_pref preference \<Rightarrow> dict" where
  "useT s = dict_text (getDict en zh s)"

definition useLocale :: "locale_pref preference \<Rightarrow> locale_pref" where
  "useLocale s = pf_current s"

subsection \<open>Placeholders\<close>

function placeholders :: "string \<Rightarrow> string list" where
  "placeholders [] = []"
| "placeholders (c # s) =
     (if c = CHR ''{'' then
        (case placeholder s of
           Some (key, rest) \<Rightarrow> key # placeholders rest
         | None \<Rightarrow> placeholders s)
      else placeholders s)"
  by pat_completeness auto
termination by (relation "measure length") (auto dest: placeholder_shorter)

definition filled :: "string \<Rightarrow> (string \<times> string) list \<Rightarrow> bool" where
  "filled template params \<longleftrightarrow> list_all (\<lambda>key. map_of params key \<noteq> None) (placeholders template)"

text \<open>Only the values of the placeholders matter, and a text without any is shown as it is.\<close>

lemma tf_cong:
  "(\<And>key. key \<in> set (placeholders template) \<Longrightarrow> map_of params key = map_of params' key) \<Longrightarrow>
   tf template params = tf template params'"
proof (induction template params rule: tf.induct)
  case (2 c s params)
  then show ?case by (cases "c = CHR ''{''"; cases "placeholder s") (auto split: option.splits)
qed simp

lemma placeholder_text: "placeholder s = Some (key, rest) \<Longrightarrow> s = key @ CHR ''}'' # rest"
  by (auto simp: placeholder_def Let_def split: if_splits list.splits) (metis takeWhile_dropWhile_id)

lemma tf_none: "placeholders template = [] \<Longrightarrow> tf template params = template"
  by (induction template params rule: tf.induct) (auto split: if_splits option.splits)

lemma tf_no_params: "tf template [] = template"
  by (induction template "[] :: (string \<times> string) list" rule: tf.induct)
    (auto split: option.splits dest: placeholder_text)

subsection \<open>The two languages\<close>

text \<open>
  The keys of a section agree in order. A Chinese text asks for no parameter that the English one
  does not ask for, and leaves out no other than the suffix \<open>s\<close> of the English plural.
\<close>

definition text_agrees :: "string \<times> string \<Rightarrow> string \<times> string \<Rightarrow> bool" where
  "text_agrees e z \<longleftrightarrow>
     fst e = fst z \<and>
     list_all (\<lambda>key. List.member (placeholders (snd e)) key) (placeholders (snd z)) \<and>
     list_all (\<lambda>key. List.member (''s'' # placeholders (snd z)) key) (placeholders (snd e))"

definition section_agrees ::
  "string \<times> (string \<times> string) list \<Rightarrow> string \<times> (string \<times> string) list \<Rightarrow> bool" where
  "section_agrees e z \<longleftrightarrow> fst e = fst z \<and> list_all2 text_agrees (snd e) (snd z)"

text \<open>For evaluation: the letters, digits and the underscore as a list.\<close>

definition WORD_CHARS :: string where
  "WORD_CHARS = ''0123456789ABCDEFGHIJKLMNOPQRSTUVWXYZ_abcdefghijklmnopqrstuvwxyz''"

lemma word_char_code [code]: "word_char c \<longleftrightarrow> List.member WORD_CHARS c"
proof -
  have inj: "inj byte" by (simp add: inj_def byte_def)
  have underscore: "byte c = 95 \<longleftrightarrow> c = CHR ''_''"
    using inj_eq [OF inj, of c "CHR ''_''"] by (simp add: byte_def)
  have "List.member WORD_CHARS c \<longleftrightarrow> byte c \<in> set (map byte WORD_CHARS)"
    using inj by (simp add: inj_image_mem_iff)
  also have "map byte WORD_CHARS = [48..<58] @ [65..<91] @ [95] @ [97..<123]"
    by (simp add: WORD_CHARS_def byte_def)
  also have "byte c \<in> set \<dots> \<longleftrightarrow> 48 \<le> byte c \<and> byte c < 58 \<or> 65 \<le> byte c \<and> byte c < 91 \<or> byte c = 95 \<or>
      97 \<le> byte c \<and> byte c < 123"
    by (simp only: set_append set_upt Un_iff atLeastLessThan_iff list.set insert_iff empty_iff disj_ac simp_thms)
  finally show ?thesis
    unfolding word_char_def is_digit_def underscore byte_def [symmetric] by linarith
qed

text \<open>Checked section by section.\<close>

lemma nav_agrees: "list_all2 text_agrees en_nav zh_nav"
  by code_simp

lemma common_agrees: "list_all2 text_agrees en_common zh_common"
  by code_simp

lemma relative_agrees: "list_all2 text_agrees en_relative zh_relative"
  by code_simp

lemma status_agrees: "list_all2 text_agrees en_status zh_status"
  by code_simp

lemma gpu_agrees: "list_all2 text_agrees en_gpu zh_gpu"
  by code_simp

lemma fleet_agrees: "list_all2 text_agrees en_fleet zh_fleet"
  by code_simp

lemma tabs_agrees: "list_all2 text_agrees en_tabs zh_tabs"
  by code_simp

lemma overview_agrees: "list_all2 text_agrees en_overview zh_overview"
  by code_simp

lemma gpus_agrees: "list_all2 text_agrees en_gpus zh_gpus"
  by code_simp

lemma processes_agrees: "list_all2 text_agrees en_processes zh_processes"
  by code_simp

lemma system_agrees: "list_all2 text_agrees en_system zh_system"
  by code_simp

lemma storage_agrees: "list_all2 text_agrees en_storage zh_storage"
  by code_simp

lemma network_agrees: "list_all2 text_agrees en_network zh_network"
  by code_simp

lemma settings_agrees: "list_all2 text_agrees en_settings zh_settings"
  by code_simp

lemma preview_agrees: "list_all2 text_agrees en_preview zh_preview"
  by code_simp

lemma dialog_agrees: "list_all2 text_agrees en_dialog zh_dialog"
  by code_simp

lemma serverAuth_agrees: "list_all2 text_agrees en_serverAuth zh_serverAuth"
  by code_simp

lemma workspace1_agrees: "list_all2 text_agrees en_workspace1 zh_workspace1"
  by code_simp

lemma workspace2_agrees: "list_all2 text_agrees en_workspace2 zh_workspace2"
  by code_simp

lemma transfers_agrees: "list_all2 text_agrees en_transfers zh_transfers"
  by code_simp

lemmas each_section_agrees =
  nav_agrees common_agrees relative_agrees status_agrees gpu_agrees fleet_agrees tabs_agrees overview_agrees gpus_agrees processes_agrees system_agrees storage_agrees network_agrees settings_agrees preview_agrees dialog_agrees serverAuth_agrees workspace1_agrees workspace2_agrees transfers_agrees

lemma sections_agree: "list_all2 section_agrees en zh"
  by (simp add: en_def zh_def section_agrees_def each_section_agrees list_all2_appendI)

lemma text_agrees_path: "text_agrees (key, e) (key', z) \<Longrightarrow> text_agrees (f key, e) (f key', z)"
  by (simp add: text_agrees_def)

lemma entries_agree: "list_all2 section_agrees d d' \<Longrightarrow> list_all2 text_agrees (dict_entries d) (dict_entries d')"
proof (induction rule: list_all2_induct)
  case (Cons e es z zs)
  have "list_all2 text_agrees
      (map (\<lambda>(key, text). (fst e @ CHR ''.'' # key, text)) (snd e))
      (map (\<lambda>(key, text). (fst z @ CHR ''.'' # key, text)) (snd z))"
    using Cons.hyps(1)
    by (auto simp: section_agrees_def list_all2_conv_all_nth text_agrees_def case_prod_beta)
  then show ?case using Cons.IH
    by (simp add: dict_entries_def case_prod_beta list_all2_appendI)
qed (simp add: dict_entries_def)

lemma map_of_agree:
  "list_all2 text_agrees es zs \<Longrightarrow>
   (case (map_of es path, map_of zs path) of
      (None, None) \<Rightarrow> True | (Some e, Some z) \<Rightarrow> text_agrees (path, e) (path, z) | _ \<Rightarrow> False)"
  by (induction rule: list_all2_induct) (auto simp: text_agrees_def split: option.splits)

lemma texts_agree:
  "set (placeholders (dict_text zh path)) \<subseteq> set (placeholders (dict_text en path)) \<and>
   set (placeholders (dict_text en path)) \<subseteq> insert ''s'' (set (placeholders (dict_text zh path))) \<and>
   (path \<in> fst ` set (dict_entries en) \<longleftrightarrow> path \<in> fst ` set (dict_entries zh))"
  using map_of_agree [OF entries_agree [OF sections_agree], of path]
  by (auto simp: dict_text_def text_agrees_def list_all_iff simp flip: dom_map_of_conv_image_fst
      split: option.splits)

end
