(* ===== verification/ProjectPage.thy ===== *)
theory ProjectPage
  imports ProjectDetail SyncView
begin

text \<open>
  The page of a project as a whole (\<open>features/workspace/ProjectDetail.tsx\<close>): its watch over the
  stores, its dialogs and its removals in one state. A request of a dialog is listed with the dialog
  that waits for it; its answer first reaches the store, whose new records render the page, and then
  continues in the dialog. The requests of the sync dialog and all loads are those of the store.
\<close>

subsection \<open>The state\<close>

record project_page =
  pg_watch :: project_watch
  pg_sync :: sync_dialog
  pg_edit :: "(project_record option, project_form, workspace_call) save_form"
  pg_placement :: "(placement_props, placement_form, workspace_call) save_form"
  pg_placementRemove :: "placement_record remove_dialog"
  pg_config :: config_section
  pg_removal :: project_removal

abbreviation pg_workspace :: "project_page \<Rightarrow> workspace_store" where
  "pg_workspace s \<equiv> wt_workspace (pg_watch s)"

definition page_project :: "project_page \<Rightarrow> project_record option" where
  "page_project s = find (\<lambda>p. prj_project_id p = wt_projectId (pg_watch s)) (wk_projects (pg_workspace s))"

text \<open>
  Before its project is loaded the page renders no dialog. What stands in for the record until then is
  never shown: the render that brings the record replaces it.
\<close>

definition unloaded_project :: "string \<Rightarrow> project_record" where
  "unloaded_project projectId =
     \<lparr>prj_project_id = projectId, prj_name = '''', prj_description = '''', prj_artifact_ids = [],
      prj_launch_config_ids = [], prj_tags = [], prj_transfer_excludes = [], prj_created_at = '''',
      prj_updated_at = ''''\<rparr>"

definition ProjectDetail :: "string \<Rightarrow> workspace_store \<Rightarrow> transfer_store \<Rightarrow> project_page" where
  "ProjectDetail projectId w tr =
     (let watch = mount_detail projectId w tr;
          loaded = find (\<lambda>p. prj_project_id p = projectId) (wk_projects w);
          project = (case loaded of Some p \<Rightarrow> p | None \<Rightarrow> unloaded_project projectId)
      in \<lparr>pg_watch = watch, pg_sync = SyncDialog projectId (wt_workspace watch) (wt_transfers watch),
          pg_edit = sv_init loaded EMPTY_PROJECT,
          pg_placement = sv_init (None, None) (placement_seed (None, None)),
          pg_placementRemove = rm_init,
          pg_config = config_section project (wk_projects w) (project_configs w project),
          pg_removal = \<lparr>pr_open = False, pr_removing = False, pr_error = None, pr_hash = None, pr_pending = []\<rparr>\<rparr>)"

subsection \<open>Rendering\<close>

definition in_workspace :: "(workspace_store \<Rightarrow> workspace_store) \<Rightarrow> project_page \<Rightarrow> project_page" where
  "in_workspace f s = s\<lparr>pg_watch := (pg_watch s)\<lparr>wt_workspace := f (pg_workspace s)\<rparr>\<rparr>"

text \<open>
  The sync dialog works on the stores of the page. It asks for the batches but never replaces them,
  so the effect of the watch does not run.
\<close>

definition in_sync :: "(sync_dialog \<Rightarrow> sync_dialog) \<Rightarrow> project_page \<Rightarrow> project_page" where
  "in_sync f s =
     (let d = f ((pg_sync s)\<lparr>sy_store := pg_workspace s, sy_transfers := wt_transfers (pg_watch s)\<rparr>)
      in s\<lparr>pg_sync := d,
           pg_watch := (pg_watch s)\<lparr>wt_workspace := sy_store d, wt_transfers := sy_transfers d\<rparr>\<rparr>)"

text \<open>
  Which answers give the page a new array of projects, and which a new object for its project, as
  React compares the dependencies of the dialogs' effects.
\<close>

definition projects_renewed :: "js_runtime \<Rightarrow> network \<Rightarrow> workspace_call \<Rightarrow> bool" where
  "projects_renewed rt net c =
     (case c of
        WcListProjects \<Rightarrow> \<not> isl (listProjects rt net)
      | WcCreateProject body \<Rightarrow> \<not> isl (createProject rt net body)
      | WcPatchProject i patch \<Rightarrow> \<not> isl (patchProject rt net i patch)
      | WcDeleteProject i \<Rightarrow> \<not> isl (deleteProject rt net i)
      | _ \<Rightarrow> False)"

definition record_renewed :: "js_runtime \<Rightarrow> network \<Rightarrow> string \<Rightarrow> workspace_call \<Rightarrow> bool" where
  "record_renewed rt net projectId c =
     (case c of
        WcListProjects \<Rightarrow> \<not> isl (listProjects rt net)
      | WcPatchProject i patch \<Rightarrow> i = projectId \<and> \<not> isl (patchProject rt net i patch)
      | _ \<Rightarrow> False)"

definition page_render :: "bool \<Rightarrow> bool \<Rightarrow> project_page \<Rightarrow> project_page" where
  "page_render array record' s =
     (case page_project s of
        None \<Rightarrow> s
      | Some project \<Rightarrow>
          (let configs = project_configs (pg_workspace s) project
           in s\<lparr>pg_config :=
                  (if array \<or> record'
                   then config_apply (Dc_Store project (wk_projects (pg_workspace s)) configs) (pg_config s)
                   else (pg_config s)\<lparr>dc_configs := configs\<rparr>),
                pg_edit :=
                  (if record' \<and> sv_open (pg_edit s)
                   then sv_apply ProjectDialog (Sv_Render (Some project)) (pg_edit s)
                   else pg_edit s)\<rparr>))"

text \<open>
  While its project is not in the store the page shows no dialog. When the project comes back the
  dialogs mount again: what they kept themselves is gone, what the page keeps for them is not.
\<close>

definition page_remount :: "project_page \<Rightarrow> project_page" where
  "page_remount s =
     (let s = in_sync (\<lambda>d. sync_opened (d\<lparr>sy_targetServerId := '''', sy_expanded := Map.empty\<rparr>)) s
      in s\<lparr>pg_placement :=
             (if sv_open (pg_placement s)
              then sv_apply PlacementDialog (Sv_Render (sv_props (pg_placement s))) (pg_placement s)
              else pg_placement s),
           pg_placementRemove := (pg_placementRemove s)\<lparr>rm_removing := False, rm_error := None\<rparr>\<rparr>)"

definition page_shown :: "js_runtime \<Rightarrow> network \<Rightarrow> workspace_call \<Rightarrow> bool \<Rightarrow> project_page \<Rightarrow> project_page" where
  "page_shown rt net c missing s =
     (let back = (missing \<and> page_project s \<noteq> None)
      in page_render (projects_renewed rt net c) (back \<or> record_renewed rt net (wt_projectId (pg_watch s)) c)
           (if back then page_remount s else s))"

text \<open>The answer to a request of a dialog, and to one of the store.\<close>

definition page_reply :: "js_runtime \<Rightarrow> network \<Rightarrow> workspace_call \<Rightarrow> project_page \<Rightarrow> project_page" where
  "page_reply rt net c s =
     page_shown rt net c (page_project s = None) (in_workspace (workspace_reply rt net c) s)"

definition page_answer :: "js_runtime \<Rightarrow> nat \<Rightarrow> network \<Rightarrow> project_page \<Rightarrow> project_page" where
  "page_answer rt k net s =
     page_shown rt net (wk_pending (pg_workspace s) ! k) (page_project s = None)
       (in_sync (sync_answer rt k net) s)"

subsection \<open>Events\<close>

text \<open>
  \<open>Pg_Workspace\<close>: another part of the program starts an action of the store, or one of its requests
  is answered. An event of a dialog is one of its user; \<open>_Saved\<close> and \<open>_Removed\<close> answer the request
  with the given number that the dialog waits for.
\<close>

datatype project_event =
    Pg_Transfers transfer_event
  | Pg_Start workspace_call
  | Pg_Answer nat network
  | Pg_Inspect
  | Pg_Edit
  | Pg_EditDialog "(project_record option, project_edit) sv_event"
  | Pg_EditSaved nat network
  | Pg_AddPlacement
  | Pg_EditPlacement placement_record
  | Pg_SyncPlacement placement_record
  | Pg_PlacementDialog "(placement_props, placement_edit) sv_event"
  | Pg_PlacementSaved nat network
  | Pg_PlacementRemove "placement_record rm_event"
  | Pg_PlacementRemoved nat network
  | Pg_Sync sync_event
  | Pg_Config config_event
  | Pg_ConfigSaved nat network
  | Pg_ConfigRemoved nat network
  | Pg_AskRemoval
  | Pg_CancelRemoval
  | Pg_ConfirmRemoval
  | Pg_Removed nat network

text \<open>The overlays of the page, and whether nothing stands before its buttons.\<close>

definition overlays :: "project_page \<Rightarrow> bool list" where
  "overlays s =
     [sv_open (pg_edit s), sv_open (pg_placement s), rm_target (pg_placementRemove s) \<noteq> None,
      sy_open (pg_sync s), sv_open (dc_dialog (pg_config s)), rm_target (dc_remove (pg_config s)) \<noteq> None,
      pr_open (pg_removal s)]"

definition page_free :: "project_page \<Rightarrow> bool" where
  "page_free s \<longleftrightarrow> page_project s \<noteq> None \<and> \<not> list_ex id (overlays s)"

definition pressed :: "('p, 'e) sv_event \<Rightarrow> bool" where
  "pressed e = (case e of Sv_Edit _ \<Rightarrow> True | Sv_Submit \<Rightarrow> True | Sv_Close \<Rightarrow> True | _ \<Rightarrow> False)"

fun config_pressed :: "config_event \<Rightarrow> project_page \<Rightarrow> bool" where
  "config_pressed (Dc_Dialog e) s = pressed e"
| "config_pressed (Dc_Remove (Rm_Ask config)) s = page_free s"
| "config_pressed (Dc_Remove (Rm_Answer k response)) s = False"
| "config_pressed (Dc_Remove _) s = True"
| "config_pressed (Dc_Store project projects configs) s = False"
| "config_pressed _ s = page_free s"

fun placement_pressed :: "placement_record rm_event \<Rightarrow> project_page \<Rightarrow> bool" where
  "placement_pressed (Rm_Ask placement) s = page_free s"
| "placement_pressed (Rm_Answer k response) s = False"
| "placement_pressed _ s = True"

fun sync_pressed :: "sync_event \<Rightarrow> project_page \<Rightarrow> bool" where
  "sync_pressed Sy_Open s = page_free s"
| "sync_pressed (Sy_Answer k net) s = False"
| "sync_pressed _ s = True"

fun project_enabled :: "server_record list \<Rightarrow> project_event \<Rightarrow> project_page \<Rightarrow> bool" where
  "project_enabled servers (Pg_Transfers e) s = watch_enabled (Wt_Transfers e) (pg_watch s)"
| "project_enabled servers (Pg_Start c) s = True"
| "project_enabled servers (Pg_Answer k net) s = (k < length (wk_pending (pg_workspace s)))"
| "project_enabled servers Pg_Inspect s =
     (page_free s \<and> \<not> flag_at (wk_projectInspecting (pg_workspace s)) (wt_projectId (pg_watch s)))"
| "project_enabled servers Pg_Edit s = page_free s"
| "project_enabled servers (Pg_EditDialog e) s =
     (page_project s \<noteq> None \<and> pressed e \<and> sv_enabled ProjectDialog e (pg_edit s))"
| "project_enabled servers (Pg_EditSaved k net) s = (k < length (sv_pending (pg_edit s)))"
| "project_enabled servers Pg_AddPlacement s = page_free s"
| "project_enabled servers (Pg_EditPlacement p) s = page_free s"
| "project_enabled servers (Pg_SyncPlacement p) s = page_free s"
| "project_enabled servers (Pg_PlacementDialog e) s =
     (page_project s \<noteq> None \<and> pressed e \<and> sv_enabled PlacementDialog e (pg_placement s))"
| "project_enabled servers (Pg_PlacementSaved k net) s = (k < length (sv_pending (pg_placement s)))"
| "project_enabled servers (Pg_PlacementRemove e) s =
     (page_project s \<noteq> None \<and> placement_pressed e s \<and> rm_enabled e (pg_placementRemove s))"
| "project_enabled servers (Pg_PlacementRemoved k net) s = (k < length (rm_pending (pg_placementRemove s)))"
| "project_enabled servers (Pg_Sync e) s =
     (page_project s \<noteq> None \<and> sync_pressed e s \<and>
      sync_enabled servers e ((pg_sync s)\<lparr>sy_store := pg_workspace s\<rparr>))"
| "project_enabled servers (Pg_Config e) s =
     (page_project s \<noteq> None \<and> config_pressed e s \<and> config_enabled e (pg_config s))"
| "project_enabled servers (Pg_ConfigSaved k net) s = (k < length (sv_pending (dc_dialog (pg_config s))))"
| "project_enabled servers (Pg_ConfigRemoved k net) s = (k < length (rm_pending (dc_remove (pg_config s))))"
| "project_enabled servers Pg_AskRemoval s = page_free s"
| "project_enabled servers Pg_CancelRemoval s = (page_project s \<noteq> None \<and> pr_open (pg_removal s))"
| "project_enabled servers Pg_ConfirmRemoval s =
     (page_project s \<noteq> None \<and> pr_open (pg_removal s) \<and> \<not> pr_removing (pg_removal s))"
| "project_enabled servers (Pg_Removed k net) s = (k < length (pr_pending (pg_removal s)))"

subsection \<open>Handlers\<close>

definition open_placement :: "placement_mode \<Rightarrow> project_page \<Rightarrow> project_page" where
  "open_placement mode s =
     s\<lparr>pg_placement := sv_apply PlacementDialog (Sv_Open (placement_props_of (Some mode))) (pg_placement s)\<rparr>"

text \<open>The promise of a store action settles after the store has the answer.\<close>

definition edit_saved :: "js_runtime \<Rightarrow> nat \<Rightarrow> network \<Rightarrow> project_page \<Rightarrow> project_page" where
  "edit_saved rt k net s =
     (let c = sv_pending (pg_edit s) ! k; s = page_reply rt net c s
      in s\<lparr>pg_edit := sv_apply ProjectDialog (Sv_Answer k (mutation_result rt net c)) (pg_edit s)\<rparr>)"

definition placement_saved :: "js_runtime \<Rightarrow> nat \<Rightarrow> network \<Rightarrow> project_page \<Rightarrow> project_page" where
  "placement_saved rt k net s =
     (let c = sv_pending (pg_placement s) ! k; s = page_reply rt net c s
      in s\<lparr>pg_placement := sv_apply PlacementDialog (Sv_Answer k (mutation_result rt net c)) (pg_placement s)\<rparr>)"

definition placement_removed :: "js_runtime \<Rightarrow> nat \<Rightarrow> network \<Rightarrow> project_page \<Rightarrow> project_page" where
  "placement_removed rt k net s =
     (let c = WcDeletePlacement (plc_placement_id (rm_pending (pg_placementRemove s) ! k)); s = page_reply rt net c s
      in s\<lparr>pg_placementRemove :=
             PlacementRemoveDialog (Rm_Answer k (mutation_result rt net c)) (pg_placementRemove s)\<rparr>)"

definition config_saved :: "js_runtime \<Rightarrow> nat \<Rightarrow> network \<Rightarrow> project_page \<Rightarrow> project_page" where
  "config_saved rt k net s =
     (let c = sv_pending (dc_dialog (pg_config s)) ! k; s = page_reply rt net c s
      in s\<lparr>pg_config := config_apply (Dc_Dialog (Sv_Answer k (mutation_result rt net c))) (pg_config s)\<rparr>)"

definition config_removed :: "js_runtime \<Rightarrow> nat \<Rightarrow> network \<Rightarrow> project_page \<Rightarrow> project_page" where
  "config_removed rt k net s =
     (let c = WcDeleteLaunchConfig (lch_launch_config_id (rm_pending (dc_remove (pg_config s)) ! k));
          s = page_reply rt net c s
      in s\<lparr>pg_config := config_apply (Dc_Remove (Rm_Answer k (mutation_result rt net c))) (pg_config s)\<rparr>)"

definition project_removed :: "js_runtime \<Rightarrow> nat \<Rightarrow> network \<Rightarrow> project_page \<Rightarrow> project_page" where
  "project_removed rt k net s =
     (let pending = pr_pending (pg_removal s); c = WcDeleteProject (pending ! k); s = page_reply rt net c s
      in s\<lparr>pg_removal :=
             removeProject_done (mutation_result rt net c)
               ((pg_removal s)\<lparr>pr_pending := take k pending @ drop (Suc k) pending\<rparr>)\<rparr>)"

fun project_apply :: "js_runtime \<Rightarrow> project_event \<Rightarrow> project_page \<Rightarrow> project_page" where
  "project_apply rt (Pg_Transfers e) s = s\<lparr>pg_watch := watch_apply rt (Wt_Transfers e) (pg_watch s)\<rparr>"
| "project_apply rt (Pg_Start c) s = in_workspace (ws_start c) s"
| "project_apply rt (Pg_Answer k net) s = page_answer rt k net s"
| "project_apply rt Pg_Inspect s = in_workspace (inspectProject_start (wt_projectId (pg_watch s))) s"
| "project_apply rt Pg_Edit s =
     s\<lparr>pg_edit := sv_apply ProjectDialog (Sv_Open (page_project s)) (pg_edit s)\<rparr>"
| "project_apply rt (Pg_EditDialog e) s = s\<lparr>pg_edit := sv_apply ProjectDialog e (pg_edit s)\<rparr>"
| "project_apply rt (Pg_EditSaved k net) s = edit_saved rt k net s"
| "project_apply rt Pg_AddPlacement s = open_placement (Pd_Add None) s"
| "project_apply rt (Pg_EditPlacement p) s = open_placement (Pd_Edit p) s"
| "project_apply rt (Pg_SyncPlacement p) s =
     s\<lparr>pg_watch := (pg_watch s)\<lparr>wt_transfers := openNewTransfer (placement_prefill p) (wt_transfers (pg_watch s))\<rparr>\<rparr>"
| "project_apply rt (Pg_PlacementDialog e) s = s\<lparr>pg_placement := sv_apply PlacementDialog e (pg_placement s)\<rparr>"
| "project_apply rt (Pg_PlacementSaved k net) s = placement_saved rt k net s"
| "project_apply rt (Pg_PlacementRemove e) s =
     s\<lparr>pg_placementRemove := PlacementRemoveDialog e (pg_placementRemove s)\<rparr>"
| "project_apply rt (Pg_PlacementRemoved k net) s = placement_removed rt k net s"
| "project_apply rt (Pg_Sync e) s = in_sync (sync_apply rt e) s"
| "project_apply rt (Pg_Config e) s = s\<lparr>pg_config := config_apply e (pg_config s)\<rparr>"
| "project_apply rt (Pg_ConfigSaved k net) s = config_saved rt k net s"
| "project_apply rt (Pg_ConfigRemoved k net) s = config_removed rt k net s"
| "project_apply rt Pg_AskRemoval s = s\<lparr>pg_removal := ask_project_removal (pg_removal s)\<rparr>"
| "project_apply rt Pg_CancelRemoval s = s\<lparr>pg_removal := (pg_removal s)\<lparr>pr_open := False\<rparr>\<rparr>"
| "project_apply rt Pg_ConfirmRemoval s =
     s\<lparr>pg_removal := removeProject (wt_projectId (pg_watch s)) (pg_removal s)\<rparr>"
| "project_apply rt (Pg_Removed k net) s = project_removed rt k net s"

text \<open>Any store, with or without the project, can be there when the page is mounted.\<close>

inductive project_reach :: "js_runtime \<Rightarrow> server_record list \<Rightarrow> project_page \<Rightarrow> bool" for rt servers where
  project_reach_init:
    "projectId \<noteq> '''' \<Longrightarrow> project_reach rt servers (ProjectDetail projectId w tr)"
| project_reach_step:
    "project_reach rt servers s \<Longrightarrow> project_enabled servers e s \<Longrightarrow> project_reach rt servers (project_apply rt e s)"

subsection \<open>One overlay at a time\<close>

text \<open>Only the buttons behind the overlays open one, so a step that is none of them opens none.\<close>

definition opens_none :: "project_page \<Rightarrow> project_page \<Rightarrow> bool" where
  "opens_none s s' \<longleftrightarrow> list_all2 (\<longrightarrow>) (overlays s') (overlays s)"

definition one_overlay :: "project_page \<Rightarrow> bool" where
  "one_overlay s \<longleftrightarrow> length (filter id (overlays s)) \<le> 1"

lemma fewer_overlays: "list_all2 (\<longrightarrow>) xs ys \<Longrightarrow> length (filter id xs) \<le> length (filter id ys)"
  by (induction rule: list_all2_induct) auto

lemma one_overlay_none: "one_overlay s \<Longrightarrow> opens_none s s' \<Longrightarrow> one_overlay s'"
  using fewer_overlays by (force simp: one_overlay_def opens_none_def)

lemma opens_none_trans: "opens_none s s' \<Longrightarrow> opens_none s' s'' \<Longrightarrow> opens_none s s''"
  unfolding opens_none_def by (rule list_all2_trans [of "(\<longrightarrow>)" "(\<longrightarrow>)" "(\<longrightarrow>)"]) auto

lemma opens_none_refl: "opens_none s s"
  by (simp add: opens_none_def overlays_def)

lemma opens_none_watch: "opens_none s (s\<lparr>pg_watch := w\<rparr>)"
  by (simp add: opens_none_def overlays_def)

lemma opens_none_workspace: "opens_none s (in_workspace f s)"
  by (simp add: opens_none_def overlays_def in_workspace_def)

lemma opens_none_sync:
  assumes "\<And>d. sy_open (f d) \<Longrightarrow> sy_open d"
  shows "opens_none s (in_sync f s)"
  using assms [of "(pg_sync s)\<lparr>sy_store := pg_workspace s, sy_transfers := wt_transfers (pg_watch s)\<rparr>"]
  by (auto simp: opens_none_def overlays_def in_sync_def Let_def)

lemma opens_none_render: "opens_none s (page_render array record' s)"
  by (auto simp: opens_none_def overlays_def page_render_def Let_def sv_ops split: option.splits)

lemma sync_opened_open [simp]: "sy_open (sync_opened d) = sy_open d"
  by (simp add: sync_opened_def in_store_def)

lemma opens_none_remount: "opens_none s (page_remount s)"
proof -
  let ?s = "in_sync (\<lambda>d. sync_opened (d\<lparr>sy_targetServerId := '''', sy_expanded := Map.empty\<rparr>)) s"
  have "opens_none s ?s" by (rule opens_none_sync) simp
  moreover have "opens_none ?s (page_remount s)"
    by (auto simp: opens_none_def overlays_def page_remount_def Let_def sv_ops)
  ultimately show ?thesis by (rule opens_none_trans)
qed

lemma opens_none_shown: "opens_none s (page_shown rt net c missing s)"
  by (auto simp: page_shown_def Let_def intro: opens_none_render opens_none_trans [OF opens_none_remount opens_none_render])

lemma opens_none_reply: "opens_none s (page_reply rt net c s)"
  unfolding page_reply_def by (rule opens_none_trans [OF opens_none_workspace opens_none_shown])

lemma set_closed_open [simp]: "\<not> sy_open (set_open False d)"
  by (auto simp: set_open_def sync_target_changed_def Let_def)

lemma sync_answer_open: "sy_open (sync_answer rt k net d) \<Longrightarrow> sy_open d"
  by (auto simp: sync_answer_def confirm_done_def in_store_def Let_def
      split: workspace_call.splits sum.splits)

lemma opens_none_answer: "opens_none s (page_answer rt k net s)"
  unfolding page_answer_def
  by (rule opens_none_trans [OF opens_none_sync opens_none_shown]) (rule sync_answer_open)

text \<open>The continuations in the dialogs close them or leave them as they are.\<close>

lemma sv_done_open: "sv_open (sv_done response d) \<Longrightarrow> sv_open d"
  by (auto simp: sv_ops split: sum.splits)

lemma rm_done_target: "rm_target (rm_done response r) = Some x \<Longrightarrow> rm_target r = Some x"
  by (auto simp: rm_ops split: sum.splits)

lemma pressed_open: "pressed e \<Longrightarrow> sv_open (sv_apply C e d) \<Longrightarrow> sv_open d"
  by (cases e) (auto simp: pressed_def sv_ops split: if_splits option.splits)

lemma opens_none_continue:
  "opens_none s s' \<Longrightarrow> (sv_open d \<Longrightarrow> sv_open (pg_edit s')) \<Longrightarrow> opens_none s (s'\<lparr>pg_edit := d\<rparr>)"
  "opens_none s s' \<Longrightarrow> (sv_open p \<Longrightarrow> sv_open (pg_placement s')) \<Longrightarrow> opens_none s (s'\<lparr>pg_placement := p\<rparr>)"
  "opens_none s s' \<Longrightarrow> (rm_target r \<noteq> None \<Longrightarrow> rm_target (pg_placementRemove s') \<noteq> None) \<Longrightarrow>
   opens_none s (s'\<lparr>pg_placementRemove := r\<rparr>)"
  "opens_none s s' \<Longrightarrow> (sv_open (dc_dialog x) \<Longrightarrow> sv_open (dc_dialog (pg_config s'))) \<Longrightarrow>
   (rm_target (dc_remove x) \<noteq> None \<Longrightarrow> rm_target (dc_remove (pg_config s')) \<noteq> None) \<Longrightarrow>
   opens_none s (s'\<lparr>pg_config := x\<rparr>)"
  "opens_none s s' \<Longrightarrow> (pr_open y \<Longrightarrow> pr_open (pg_removal s')) \<Longrightarrow> opens_none s (s'\<lparr>pg_removal := y\<rparr>)"
  by (auto simp: opens_none_def overlays_def)

lemma edit_saved_opens_none: "opens_none s (edit_saved rt k net s)"
  unfolding edit_saved_def Let_def
  by (rule opens_none_continue(1) [OF opens_none_reply]) (auto dest: sv_done_open)

lemma placement_saved_opens_none: "opens_none s (placement_saved rt k net s)"
  unfolding placement_saved_def Let_def
  by (rule opens_none_continue(2) [OF opens_none_reply]) (auto dest: sv_done_open)

lemma placement_removed_opens_none: "opens_none s (placement_removed rt k net s)"
  unfolding placement_removed_def Let_def PlacementRemoveDialog_def
  by (rule opens_none_continue(3) [OF opens_none_reply]) (auto dest: rm_done_target)

lemma config_saved_opens_none: "opens_none s (config_saved rt k net s)"
  unfolding config_saved_def Let_def
  by (rule opens_none_continue(4) [OF opens_none_reply]) (auto dest: sv_done_open)

lemma project_removed_opens_none: "opens_none s (project_removed rt k net s)"
  unfolding project_removed_def Let_def
  by (rule opens_none_continue(5) [OF opens_none_reply]) (auto simp: removeProject_done_def split: sum.splits)

lemma config_removed_opens_none: "opens_none s (config_removed rt k net s)"
  unfolding config_removed_def Let_def
  by (rule opens_none_continue(4) [OF opens_none_reply]) (auto dest: rm_done_target)

text \<open>The events that open an overlay are presses of the page behind it.\<close>

fun opens_overlay :: "project_event \<Rightarrow> bool" where
  "opens_overlay Pg_Edit = True"
| "opens_overlay Pg_AddPlacement = True"
| "opens_overlay (Pg_EditPlacement p) = True"
| "opens_overlay (Pg_PlacementRemove e) = (case e of Rm_Ask p \<Rightarrow> True | _ \<Rightarrow> False)"
| "opens_overlay (Pg_Sync e) = (e = Sy_Open)"
| "opens_overlay (Pg_Config e) =
     (case e of Dc_Add \<Rightarrow> True | Dc_Edit config \<Rightarrow> True
      | Dc_Remove x \<Rightarrow> (case x of Rm_Ask config \<Rightarrow> True | _ \<Rightarrow> False) | _ \<Rightarrow> False)"
| "opens_overlay Pg_AskRemoval = True"
| "opens_overlay _ = False"

lemma opener_free: "project_enabled servers e s \<Longrightarrow> opens_overlay e \<Longrightarrow> page_free s"
  by (cases e) (auto split: rm_event.splits config_event.splits)

lemma free_overlays: "page_free s \<Longrightarrow> overlays s = [False, False, False, False, False, False, False]"
  by (simp add: page_free_def overlays_def)

lemma opener_one: "page_free s \<Longrightarrow> opens_overlay e \<Longrightarrow> one_overlay (project_apply rt e s)"
  by (cases e)
    (auto dest!: free_overlays split: rm_event.splits config_event.splits
      simp: one_overlay_def overlays_def open_placement_def PlacementRemoveDialog_def in_sync_def
        open_config_def ask_project_removal_def rm_ask_def Let_def)

lemma config_opens_none:
  assumes "config_pressed e s" "\<not> opens_overlay (Pg_Config e)"
  shows "opens_none s (s\<lparr>pg_config := config_apply e (pg_config s)\<rparr>)"
proof (cases e)
  case (Dc_Remove x)
  then show ?thesis using assms rm_target_kept [of x True "dc_remove (pg_config s)"]
    by (auto simp: opens_none_def overlays_def split: rm_event.splits)
qed (use assms in \<open>auto simp: opens_none_def overlays_def dest: pressed_open\<close>)

lemma sync_opens_none:
  assumes "sync_pressed e s" "e \<noteq> Sy_Open"
  shows "opens_none s (in_sync (sync_apply rt e) s)"
  using assms by (cases e) (auto intro!: opens_none_sync simp: sync_ops split: if_splits)

lemma other_events_open_none:
  assumes e: "project_enabled servers e s" and o: "\<not> opens_overlay e"
  shows "opens_none s (project_apply rt e s)"
proof (cases e)
  case (Pg_PlacementRemove x)
  then show ?thesis using o rm_target_kept [of x False "pg_placementRemove s"]
    by (auto simp: opens_none_def overlays_def PlacementRemoveDialog_def split: rm_event.splits)
next
  case (Pg_Sync x)
  then show ?thesis using e o sync_opens_none by simp
next
  case (Pg_Config x)
  then show ?thesis using e o config_opens_none by simp
next
  case (Pg_EditDialog x)
  then show ?thesis using e by (auto intro!: opens_none_continue opens_none_refl dest: pressed_open)
next
  case (Pg_PlacementDialog x)
  then show ?thesis using e by (auto intro!: opens_none_continue opens_none_refl dest: pressed_open)
next
  case Pg_CancelRemoval
  then show ?thesis by (simp add: opens_none_def overlays_def)
next
  case Pg_ConfirmRemoval
  then show ?thesis by (simp add: opens_none_def overlays_def removeProject_def)
qed (use o in \<open>simp_all add: opens_none_workspace opens_none_answer edit_saved_opens_none
    placement_saved_opens_none placement_removed_opens_none config_saved_opens_none
    config_removed_opens_none project_removed_opens_none opens_none_watch\<close>)

lemma one_overlay_apply:
  "one_overlay s \<Longrightarrow> project_enabled servers e s \<Longrightarrow> one_overlay (project_apply rt e s)"
  using opener_free opener_one other_events_open_none one_overlay_none by blast

subsection \<open>The dialogs run as on their own\<close>

definition section_ok :: "config_section \<Rightarrow> bool" where
  "section_ok x \<longleftrightarrow>
     sv_reach LaunchConfigDialog launch_props_ok (dc_dialog x) \<and> rm_reach True (dc_remove x) \<and>
     prj_project_id (dc_project x) \<noteq> ''''"

definition dialogs_ok :: "project_page \<Rightarrow> bool" where
  "dialogs_ok s \<longleftrightarrow>
     sv_reach ProjectDialog (\<lambda>_. True) (pg_edit s) \<and> sv_reach PlacementDialog (\<lambda>_. True) (pg_placement s) \<and>
     section_ok (pg_config s) \<and> wt_projectId (pg_watch s) \<noteq> ''''"

lemma section_ok_open:
  assumes "section_ok x" "\<not> sv_open (dc_dialog x)"
  shows "section_ok (open_config x)"
  using assms sv_reach_apply [of LaunchConfigDialog launch_props_ok "dc_dialog x" "Sv_Open (detail_props x)"]
  by (auto simp: section_ok_def open_config_def detail_props_def launch_props_ok_def)

lemma section_ok_store:
  assumes "section_ok x" "prj_project_id project \<noteq> ''''"
  shows "section_ok (config_apply (Dc_Store project projects configs) x)"
  using assms sv_reach_apply [of LaunchConfigDialog launch_props_ok "dc_dialog x"
      "Sv_Render (detail_props (x\<lparr>dc_project := project, dc_projects := projects, dc_configs := configs\<rparr>))"]
  by (auto simp: section_ok_def detail_props_def launch_props_ok_def Let_def)

lemma section_ok_apply:
  assumes x: "section_ok x" and e: "config_enabled e x"
    and ok: "\<And>p ps configs. e = Dc_Store p ps configs \<Longrightarrow> prj_project_id p \<noteq> ''''"
  shows "section_ok (config_apply e x)"
proof (cases e)
  case Dc_Add
  then show ?thesis using x e section_ok_open by (simp add: config_free_def)
next
  case (Dc_Edit config)
  then have "section_ok (x\<lparr>dc_editTarget := Some config\<rparr>)" using x by (simp add: section_ok_def)
  then show ?thesis using Dc_Edit e section_ok_open by (simp add: config_free_def)
next
  case (Dc_Dialog y)
  then have "sv_reach LaunchConfigDialog launch_props_ok (sv_apply LaunchConfigDialog y (dc_dialog x))"
    using x e by (intro sv_reach_apply user_event_props) (simp_all add: section_ok_def)
  then show ?thesis using Dc_Dialog x by (simp add: section_ok_def)
next
  case (Dc_Remove y)
  then show ?thesis using x e rm_reach_apply [of True "dc_remove x" y] by (simp add: section_ok_def)
next
  case (Dc_Store p ps configs)
  then show ?thesis using x ok section_ok_store by simp
qed

lemma page_project_id: "page_project s = Some p \<Longrightarrow> prj_project_id p = wt_projectId (pg_watch s)"
  by (auto simp: page_project_def find_Some_iff)

lemma effect_project [simp]: "wt_projectId (watch_effect w) = wt_projectId w"
  by (simp add: watch_effect_def Let_def split: option.splits)

lemma mount_project [simp]: "wt_projectId (mount_detail projectId w tr) = projectId"
  by (simp add: mount_detail_def)

lemma dialogs_ok_stores [simp]:
  "dialogs_ok (in_workspace f s) = dialogs_ok s" "dialogs_ok (in_sync g s) = dialogs_ok s"
  "wt_projectId w = wt_projectId (pg_watch s) \<Longrightarrow> dialogs_ok (s\<lparr>pg_watch := w\<rparr>) = dialogs_ok s"
  by (simp_all add: dialogs_ok_def in_workspace_def in_sync_def Let_def)

lemma dialogs_ok_remount: "dialogs_ok s \<Longrightarrow> dialogs_ok (page_remount s)"
  using sv_reach_apply [of PlacementDialog "\<lambda>_. True" "pg_placement s" "Sv_Render (sv_props (pg_placement s))"]
  by (auto simp: dialogs_ok_def page_remount_def in_sync_def Let_def)

lemma dialogs_ok_render:
  assumes s: "dialogs_ok s"
  shows "dialogs_ok (page_render array record' s)"
proof (cases "page_project s")
  case None
  then show ?thesis using s by (simp add: page_render_def)
next
  case (Some project)
  have edit: "sv_open (pg_edit s) \<Longrightarrow>
      sv_reach ProjectDialog (\<lambda>_. True) (sv_apply ProjectDialog (Sv_Render (Some project)) (pg_edit s))"
    using s by (intro sv_reach_apply) (simp_all add: dialogs_ok_def)
  have "prj_project_id project \<noteq> ''''" using s page_project_id [OF Some] by (simp add: dialogs_ok_def)
  then have "section_ok (config_apply (Dc_Store project (wk_projects (pg_workspace s))
      (project_configs (pg_workspace s) project)) (pg_config s))"
    using s by (intro section_ok_store) (simp_all add: dialogs_ok_def)
  moreover have "section_ok ((pg_config s)\<lparr>dc_configs := project_configs (pg_workspace s) project\<rparr>)"
    using s by (simp add: dialogs_ok_def section_ok_def)
  ultimately show ?thesis using s edit Some by (simp add: dialogs_ok_def page_render_def Let_def)
qed

lemma dialogs_ok_shown: "dialogs_ok s \<Longrightarrow> dialogs_ok (page_shown rt net c missing s)"
  by (simp add: page_shown_def Let_def dialogs_ok_render dialogs_ok_remount)

lemma dialogs_ok_reply: "dialogs_ok s \<Longrightarrow> dialogs_ok (page_reply rt net c s)"
  by (simp add: page_reply_def dialogs_ok_shown)

text \<open>Rendering answers no request: a dialog waits for as many afterwards.\<close>

lemma pending_reply_kept [simp]:
  "sv_pending (pg_edit (page_reply rt net c s)) = sv_pending (pg_edit s)"
  "sv_pending (pg_placement (page_reply rt net c s)) = sv_pending (pg_placement s)"
  "rm_pending (pg_placementRemove (page_reply rt net c s)) = rm_pending (pg_placementRemove s)"
  "sv_pending (dc_dialog (pg_config (page_reply rt net c s))) = sv_pending (dc_dialog (pg_config s))"
  "rm_pending (dc_remove (pg_config (page_reply rt net c s))) = rm_pending (dc_remove (pg_config s))"
  by (auto simp: page_reply_def page_shown_def page_remount_def page_render_def in_sync_def in_workspace_def
      sv_ops split: option.splits)

lemma dialogs_ok_saved:
  assumes s: "dialogs_ok s" and e: "project_enabled servers e s"
    and saved: "e = Pg_EditSaved k net \<or> e = Pg_PlacementSaved k net \<or> e = Pg_PlacementRemoved k net \<or>
      e = Pg_ConfigSaved k net \<or> e = Pg_ConfigRemoved k net \<or> e = Pg_Removed k net"
  shows "dialogs_ok (project_apply rt e s)"
  using saved
proof (elim disjE)
  assume [simp]: "e = Pg_EditSaved k net"
  let ?c = "sv_pending (pg_edit s) ! k"
  have "dialogs_ok (page_reply rt net ?c s)" by (rule dialogs_ok_reply [OF s])
  then show ?thesis using e sv_reach_apply [of ProjectDialog "\<lambda>_. True" "pg_edit (page_reply rt net ?c s)"]
    by (simp add: dialogs_ok_def edit_saved_def Let_def del: sv_apply.simps)
next
  assume [simp]: "e = Pg_PlacementSaved k net"
  let ?c = "sv_pending (pg_placement s) ! k"
  have "dialogs_ok (page_reply rt net ?c s)" by (rule dialogs_ok_reply [OF s])
  then show ?thesis using e sv_reach_apply [of PlacementDialog "\<lambda>_. True" "pg_placement (page_reply rt net ?c s)"]
    by (simp add: dialogs_ok_def placement_saved_def Let_def del: sv_apply.simps)
next
  assume [simp]: "e = Pg_PlacementRemoved k net"
  show ?thesis using dialogs_ok_reply [OF s]
    by (simp add: dialogs_ok_def placement_removed_def Let_def)
next
  assume [simp]: "e = Pg_ConfigSaved k net"
  let ?c = "sv_pending (dc_dialog (pg_config s)) ! k"
  have "dialogs_ok (page_reply rt net ?c s)" by (rule dialogs_ok_reply [OF s])
  then show ?thesis
    using e section_ok_apply [of "pg_config (page_reply rt net ?c s)" "Dc_Dialog (Sv_Answer k (mutation_result rt net ?c))"]
    by (simp add: dialogs_ok_def config_saved_def Let_def user_dialog_event_def del: config_apply.simps)
next
  assume [simp]: "e = Pg_ConfigRemoved k net"
  let ?c = "WcDeleteLaunchConfig (lch_launch_config_id (rm_pending (dc_remove (pg_config s)) ! k))"
  have "dialogs_ok (page_reply rt net ?c s)" by (rule dialogs_ok_reply [OF s])
  then show ?thesis
    using e section_ok_apply [of "pg_config (page_reply rt net ?c s)" "Dc_Remove (Rm_Answer k (mutation_result rt net ?c))"]
    by (simp add: dialogs_ok_def config_removed_def Let_def del: config_apply.simps)
next
  assume [simp]: "e = Pg_Removed k net"
  show ?thesis using dialogs_ok_reply [OF s]
    by (simp add: dialogs_ok_def project_removed_def Let_def)
qed

lemma pressed_props: "pressed e \<Longrightarrow> sv_props_ok ok e"
  by (cases e) (auto simp: pressed_def)

lemma dialogs_ok_apply:
  assumes s: "dialogs_ok s" and e: "project_enabled servers e s"
  shows "dialogs_ok (project_apply rt e s)"
proof (cases e)
  case Pg_Edit
  then show ?thesis
    using s e sv_reach_apply [of ProjectDialog "\<lambda>_. True" "pg_edit s" "Sv_Open (page_project s)"]
    by (simp add: dialogs_ok_def page_free_def overlays_def)
next
  case (Pg_EditDialog x)
  then show ?thesis
    using s e sv_reach_apply [of ProjectDialog "\<lambda>_. True" "pg_edit s" x] pressed_props
    by (auto simp: dialogs_ok_def)
next
  case Pg_AddPlacement
  then show ?thesis
    using s e sv_reach_apply [of PlacementDialog "\<lambda>_. True" "pg_placement s" "Sv_Open (placement_props_of (Some (Pd_Add None)))"]
    by (simp add: dialogs_ok_def page_free_def overlays_def open_placement_def)
next
  case (Pg_EditPlacement p)
  then show ?thesis
    using s e sv_reach_apply [of PlacementDialog "\<lambda>_. True" "pg_placement s" "Sv_Open (placement_props_of (Some (Pd_Edit p)))"]
    by (simp add: dialogs_ok_def page_free_def overlays_def open_placement_def)
next
  case (Pg_PlacementDialog x)
  then show ?thesis
    using s e sv_reach_apply [of PlacementDialog "\<lambda>_. True" "pg_placement s" x] pressed_props
    by (auto simp: dialogs_ok_def)
next
  case (Pg_Config x)
  then have "section_ok (config_apply x (pg_config s))"
    using s e by (intro section_ok_apply) (auto simp: dialogs_ok_def)
  then show ?thesis using Pg_Config s by (simp add: dialogs_ok_def)
next
  case (Pg_Answer k net)
  then show ?thesis using s by (simp add: page_answer_def dialogs_ok_shown)
next
  case (Pg_EditSaved k net)
  then show ?thesis using dialogs_ok_saved [OF s e, of k net] by simp
next
  case (Pg_PlacementSaved k net)
  then show ?thesis using dialogs_ok_saved [OF s e, of k net] by simp
next
  case (Pg_PlacementRemoved k net)
  then show ?thesis using dialogs_ok_saved [OF s e, of k net] by simp
next
  case (Pg_ConfigSaved k net)
  then show ?thesis using dialogs_ok_saved [OF s e, of k net] by simp
next
  case (Pg_ConfigRemoved k net)
  then show ?thesis using dialogs_ok_saved [OF s e, of k net] by simp
next
  case (Pg_Removed k net)
  then show ?thesis using dialogs_ok_saved [OF s e, of k net] by simp
qed (use s in \<open>simp_all add: dialogs_ok_def in_workspace_def in_sync_def Let_def\<close>)

subsection \<open>The watch\<close>

text \<open>Only the transfer store's own events replace the batches, and the effect follows each of them.\<close>

definition tracking :: "project_watch \<Rightarrow> bool" where
  "tracking w \<longleftrightarrow> wt_watched w = map_option bat_batch_id (active_batch w)"

lemma tracking_cong:
  "tracking w \<Longrightarrow> wt_watched w' = wt_watched w \<Longrightarrow> wt_projectId w' = wt_projectId w \<Longrightarrow>
   tf_batches (wt_transfers w') = tf_batches (wt_transfers w) \<Longrightarrow> tracking w'"
  using active_batch_cong [of w' w] by (simp add: tracking_def)

lemma answer_keeps_batches [simp]:
  "tf_batches (sy_transfers (sync_answer rt k net d)) = tf_batches (sy_transfers d)"
  by (auto simp: sync_answer_def confirm_done_def sync_ops fetchBatches_def TransferStore.call_def
      split: workspace_call.splits sum.splits)

lemma sync_keeps_batches [simp]:
  "tf_batches (sy_transfers (sync_apply rt e d)) = tf_batches (sy_transfers d)"
  "tf_batches (sy_transfers (sync_opened d)) = tf_batches (sy_transfers d)"
proof -
  show "tf_batches (sy_transfers (sync_apply rt e d)) = tf_batches (sy_transfers d)"
  proof (cases e)
    case (Sy_Answer k net)
    then show ?thesis by simp
  qed (auto simp: sync_ops)
  show "tf_batches (sy_transfers (sync_opened d)) = tf_batches (sy_transfers d)"
    by (simp add: sync_ops)
qed

lemma tracking_stores:
  assumes "tracking (pg_watch s)"
  shows "tracking (pg_watch (in_workspace f s))"
    "(\<And>d. tf_batches (sy_transfers (g d)) = tf_batches (sy_transfers d)) \<Longrightarrow> tracking (pg_watch (in_sync g s))"
  using assms by (auto intro: tracking_cong simp: in_workspace_def in_sync_def Let_def)

lemma tracking_shown:
  assumes "tracking (pg_watch s)"
  shows "tracking (pg_watch (page_shown rt net c missing s))"
proof -
  have render: "pg_watch (page_render array record' u) = pg_watch u" for array record' u
    by (simp add: page_render_def Let_def split: option.splits)
  have "tracking (pg_watch (page_remount s))"
    using tracking_stores(2) [OF assms, of "\<lambda>d. sync_opened (d\<lparr>sy_targetServerId := '''', sy_expanded := Map.empty\<rparr>)"]
    by (simp add: page_remount_def Let_def)
  then show ?thesis using assms by (simp add: page_shown_def Let_def render)
qed

lemma tracking_reply: "tracking (pg_watch s) \<Longrightarrow> tracking (pg_watch (page_reply rt net c s))"
  unfolding page_reply_def by (intro tracking_shown tracking_stores(1))

lemma tracking_effect: "tracking (watch_effect w)"
  by (simp add: tracking_def)

lemma tracking_apply:
  assumes "tracking (pg_watch s)"
  shows "tracking (pg_watch (project_apply rt e s))"
proof (cases e)
  case (Pg_SyncPlacement p)
  then show ?thesis using assms
    by (auto intro: tracking_cong simp: openNewTransfer_def Let_def)
qed (use assms in \<open>simp_all add: tracking_effect tracking_stores tracking_shown tracking_reply page_answer_def
    open_placement_def edit_saved_def placement_saved_def placement_removed_def config_saved_def
    config_removed_def project_removed_def Let_def\<close>)

subsection \<open>The page in every reachable state\<close>

definition page_inv :: "project_page \<Rightarrow> bool" where
  "page_inv s \<longleftrightarrow>
     one_overlay s \<and> dialogs_ok s \<and> tracking (pg_watch s)"

lemma page_inv_mount:
  assumes "projectId \<noteq> ''''"
  shows "page_inv (ProjectDetail projectId w tr)"
proof -
  let ?loaded = "find (\<lambda>p. prj_project_id p = projectId) (wk_projects w)"
  have "prj_project_id (case ?loaded of Some p \<Rightarrow> p | None \<Rightarrow> unloaded_project projectId) = projectId"
    by (auto simp: unloaded_project_def find_Some_iff split: option.split)
  then have "dialogs_ok (ProjectDetail projectId w tr)"
    using assms
    by (simp add: dialogs_ok_def ProjectDetail_def section_ok_def config_section_def sv_reach_init rm_reach_init Let_def)
  moreover have "one_overlay (ProjectDetail projectId w tr)"
    by (simp add: one_overlay_def overlays_def ProjectDetail_def config_section_def SyncDialog_def Let_def)
  ultimately show ?thesis by (simp add: page_inv_def ProjectDetail_def Let_def mount_detail_def tracking_effect)
qed

lemma page_inv_reach: "project_reach rt servers s \<Longrightarrow> page_inv s"
proof (induction rule: project_reach.induct)
  case (project_reach_init projectId w tr)
  then show ?case by (rule page_inv_mount)
next
  case (project_reach_step s e)
  then show ?case
    using one_overlay_apply dialogs_ok_apply tracking_apply by (simp add: page_inv_def)
qed

text \<open>Every request of the page's dialogs passed its form.\<close>

lemma page_requests_ok:
  assumes "dialogs_ok s"
  shows "list_all request_ok
    (sv_pending (pg_edit s) @ sv_pending (pg_placement s) @ sv_pending (dc_dialog (pg_config s)))"
  using assms project_dialog.sent_good [of "pg_edit s"] placement_dialog.sent_good [of "pg_placement s"]
    launch_dialog.sent_good [of "dc_dialog (pg_config s)"]
  by (auto simp: dialogs_ok_def section_ok_def list_all_iff)

subsection \<open>Edits lost\<close>

text \<open>
  A new list of projects fills the form of the open dialog again. The page causes such loads itself:
  the store reads the projects anew after every removal of a launch configuration, and closes the
  confirmation before the list has come.
\<close>

fun project_run ::
  "js_runtime \<Rightarrow> server_record list \<Rightarrow> project_event list \<Rightarrow> project_page \<Rightarrow> project_page option" where
  "project_run rt servers [] s = Some s"
| "project_run rt servers (e # es) s =
     (if project_enabled servers e s then project_run rt servers es (project_apply rt e s) else None)"

lemma reload_discards_edits:
  assumes "sv_open (pg_edit s)" "page_project s \<noteq> None" "wk_pending (pg_workspace s) ! k = WcListProjects"
    and ps: "listProjects rt net = Inr ps" "find (\<lambda>p. prj_project_id p = wt_projectId (pg_watch s)) ps = Some p"
  shows "sv_open (pg_edit (page_answer rt k net s)) \<and>
    sv_form (pg_edit (page_answer rt k net s)) = formFromProject p"
proof -
  let ?t = "in_sync (sync_answer rt k net) s"
  have t: "pg_workspace ?t = ws_answer rt k net (pg_workspace s)" "pg_edit ?t = pg_edit s"
    "wt_projectId (pg_watch ?t) = wt_projectId (pg_watch s)"
    using assms(3) by (simp_all add: in_sync_def sync_answer_def in_store_def Let_def)
  then have "page_project ?t = Some p"
    using assms(3) ps by (simp add: page_project_def ws_answer_def workspace_reply_def loadProjects_done_def)
  moreover have "page_answer rt k net s = page_render (projects_renewed rt net WcListProjects) True ?t"
    using assms(2-4) by (auto simp: page_answer_def page_shown_def record_renewed_def Let_def)
  ultimately show ?thesis using assms(1) t(2)
    by (simp add: page_render_def Let_def ProjectDialog_def project_seed_def sv_ops)
qed

lemma config_removal_reloads:
  assumes p: "page_project s = Some p" and k: "rm_pending (dc_remove (pg_config s)) = [config]"
    and gone: "deleteLaunchConfig rt net (lch_launch_config_id config) = Inr u"
  defines "s' \<equiv> config_removed rt 0 net s"
  shows "page_project s' = Some p" "wk_pending (pg_workspace s') = wk_pending (pg_workspace s) @ [WcListProjects]"
    "overlays s' = (overlays s)[5 := False]" "wt_projectId (pg_watch s') = wt_projectId (pg_watch s)"
proof -
  let ?c = "WcDeleteLaunchConfig (lch_launch_config_id config)"
  let ?t = "in_workspace (workspace_reply rt net ?c) s"
  have t: "page_project ?t = Some p"
    "wk_pending (pg_workspace ?t) = wk_pending (pg_workspace s) @ [WcListProjects]"
    using p gone by (simp_all add: page_project_def in_workspace_def workspace_reply_def on_success_def
        deleteLaunchConfig_done_def loadProjects_def ws_call_def)
  have r: "page_reply rt net ?c s =
      ?t\<lparr>pg_config := (pg_config s)\<lparr>dc_configs := project_configs (pg_workspace ?t) p\<rparr>\<rparr>"
    using p t(1) by (simp add: page_reply_def page_shown_def page_render_def projects_renewed_def record_renewed_def
        in_workspace_def Let_def)
  have m: "mutation_result rt net ?c = Inr ()" using gone by (simp add: mutation_result_def settled_result_def)
  show "page_project s' = Some p" "wk_pending (pg_workspace s') = wk_pending (pg_workspace s) @ [WcListProjects]"
    using t by (simp_all add: s'_def config_removed_def k r Let_def page_project_def)
  show "overlays s' = (overlays s)[5 := False]" "wt_projectId (pg_watch s') = wt_projectId (pg_watch s)"
    by (simp_all add: s'_def config_removed_def k r m Let_def overlays_def in_workspace_def rm_done_def)
qed

lemma edits_lost_after_removal:
  assumes p: "page_project s = Some p" and k: "rm_pending (dc_remove (pg_config s)) = [config]"
    and gone: "deleteLaunchConfig rt net (lch_launch_config_id config) = Inr u"
    and behind: "overlays s = [False, False, False, False, False, True, False]"
    and ps: "listProjects rt net' = Inr ps" "find (\<lambda>p. prj_project_id p = wt_projectId (pg_watch s)) ps = Some p'"
  shows "\<exists>s'. project_run rt servers
      [Pg_ConfigRemoved 0 net, Pg_Edit, Pg_EditDialog (sv_event.Sv_Edit (Pf_Name x)),
       Pg_Answer (length (wk_pending (pg_workspace s))) net'] s = Some s' \<and>
    sv_open (pg_edit s') \<and> sv_form (pg_edit s') = formFromProject p'"
proof -
  let ?k = "length (wk_pending (pg_workspace s))"
  define s1 where "s1 = config_removed rt 0 net s"
  note s1 = config_removal_reloads [OF p k gone, folded s1_def]
  define s2 where "s2 = project_apply rt (Pg_EditDialog (sv_event.Sv_Edit (Pf_Name x))) (project_apply rt Pg_Edit s1)"
  have free: "page_free s1" using s1(1,3) behind by (simp add: page_free_def)
  have s2: "sv_open (pg_edit s2)" "page_project s2 \<noteq> None" "wk_pending (pg_workspace s2) ! ?k = WcListProjects"
    "?k < length (wk_pending (pg_workspace s2))" "wt_projectId (pg_watch s2) = wt_projectId (pg_watch s)"
    using s1 by (simp_all add: s2_def sv_ops page_project_def)
  have "project_enabled servers (Pg_EditDialog (sv_event.Sv_Edit (Pf_Name x))) (project_apply rt Pg_Edit s1)"
    using s1(1) by (simp add: page_project_def pressed_def sv_ops ProjectDialog_def)
  then have "project_run rt servers
      [Pg_ConfigRemoved 0 net, Pg_Edit, Pg_EditDialog (sv_event.Sv_Edit (Pf_Name x)), Pg_Answer ?k net'] s =
    Some (page_answer rt ?k net' s2)"
    using k free s2(4) by (simp add: s1_def [symmetric] s2_def [symmetric] del: project_apply.simps(5,6))
  then show ?thesis using reload_discards_edits [OF s2(1-3) ps(1)] ps(2) s2(5) by simp
qed

end
