(* ===== verification/PageProperties.thy ===== *)
theory PageProperties
  imports Connection Transfers RootsEditor ProjectDetail SetupDialog Shell PageViews Dictionaries ProjectPage
begin

text \<open>
  Properties of the forms and pages of the workspace and of the transfers page, with the states and
  networks their witnesses run on.
\<close>

section \<open>Instances for the witnesses\<close>

text \<open>A runtime without JSON parsing, and a network without a server.\<close>

definition plain_runtime :: js_runtime where
  "plain_runtime =
     \<lparr>rt_json_parse = (\<lambda>_. None), rt_json_stringify = (\<lambda>_. ''''),
      rt_number_string = (\<lambda>x. case x of Fin q \<Rightarrow> show_int \<lfloor>q\<rfloor> | _ \<Rightarrow> ''NaN''),
      rt_date_parse = (\<lambda>_. Fin 0)\<rparr>"

definition offline :: network where
  "offline = (\<lambda>_. NetworkError None)"

definition sample_project :: project_record where
  "sample_project =
     \<lparr>prj_project_id = ''p'', prj_name = ''Vision'', prj_description = '''', prj_artifact_ids = [],
      prj_launch_config_ids = [], prj_tags = [], prj_transfer_excludes = [], prj_created_at = '''',
      prj_updated_at = ''''\<rparr>"

definition sample_launch :: launch_config_record where
  "sample_launch =
     \<lparr>lch_launch_config_id = ''l'', lch_project_id = ''p'', lch_name = ''train'', lch_working_dir = None,
      lch_program = ''python'', lch_args = [''train.py''], lch_environment = None,
      lch_env_vars = [(''MODE'', ''fast'')], lch_required_artifact_ids = [],
      lch_gpu_count = Some (num_of_nat 2), lch_min_vram_b = None, lch_created_at = '''',
      lch_updated_at = ''''\<rparr>"

definition pinned_props :: "launch_config_record option \<Rightarrow> launch_props" where
  "pinned_props config = \<lparr>lp_config = config, lp_projects = [], lp_project = Some sample_project\<rparr>"

section \<open>The dialogs of the workspace\<close>

text \<open>C29: whatever the user does in the five add/edit dialogs, in any order and with answers in any
  order, every request they have in flight passes the checks of its form: trimmed names and
  descriptions, blank options sent as \<open>null\<close>, tags, exclusions and arguments that are trimmed, not empty
  and without a comma, paths within their bounds, commands without shell characters, and for a launch
  configuration a project, between one and 64 GPUs or none and memory in whole GiB or none. A
  project the page pins has an id, as the backend gives every project one; nothing else is asked of
  the records the dialogs are opened on.\<close>

theorem workspace_requests_valid:
  assumes "sv_reach ArtifactDialog (\<lambda>_. True) a" "sv_reach ProjectDialog (\<lambda>_. True) p"
    "sv_reach ProjectExcludesDialog (\<lambda>_. True) x" "sv_reach PlacementDialog (\<lambda>_. True) l"
    "sv_reach LaunchConfigDialog launch_props_ok c"
  shows "list_all request_ok (sv_pending a @ sv_pending p @ sv_pending x @ sv_pending l @ sv_pending c)"
  using artifact_dialog.sent_good [OF assms(1)] project_dialog.sent_good [OF assms(2)]
    excludes_dialog.sent_good [OF assms(3)] placement_dialog.sent_good [OF assms(4)]
    launch_dialog.sent_good [OF assms(5)] by (auto simp: list_all_iff)

text \<open>Ids that were distinct in the records stay so.\<close>

theorem workspace_ids_distinct:
  assumes "sv_reach ProjectDialog project_ok p" "sv_reach LaunchConfigDialog launch_ids_ok c"
  shows "list_all request_ids_ok (sv_pending p @ sv_pending c)"
  using project_ids.sent_good [OF assms(1)] launch_ids.sent_good [OF assms(2)] by (auto simp: list_all_iff)

definition typed_launch :: "(launch_props, launch_edit) sv_event list" where
  "typed_launch =
     [Sv_Open (pinned_props None), sv_event.Sv_Edit (Cf_Name '' train''), sv_event.Sv_Edit (Cf_Program ''python''),
      sv_event.Sv_Edit (Cf_Gpus ''2''), Sv_Submit]"

lemma plain_texts [simp]:
  "trim ''train'' = ''train''" "trim ''python'' = ''python''" "trim ''train.py'' = ''train.py''"
  "trim ''MODE'' = ''MODE''" "trim ''2'' = ''2''" "trim ''2.0'' = ''2.0''"
  by (rule trim_graphic, simp add: graphic_def byte_def)+

lemma plain_program [simp]: "\<not> hasShellMeta ''python''"
  by (simp add: hasShellMeta_def SHELL_META_def)

lemma digit_2 [simp]: "is_digit CHR ''2''" "is_digit CHR ''0''" "\<not> is_digit CHR ''.''" "parse_nat ''2'' = 2"
  by (simp_all add: is_digit_def byte_def parse_nat_def digit_value_def)

lemma two_gpus [simp]: "number_text ''2''" "number_input_ok 1 (Some 64) 1 ''2''"
  using html_number_digits [of "''2''"] number_input_digits [of "''2''" 1 "Some 64"]
  by (simp_all add: number_text_def)

definition launched :: "(launch_props, launch_form, workspace_call) save_form" where
  "launched = sv_run LaunchConfigDialog typed_launch (sv_init (pinned_props None) EMPTY_LAUNCH)"

lemma workspace_requests_valid_witness: "sv_pending launched \<noteq> [] \<and> list_all request_ok (sv_pending launched)"
proof -
  let ?s = "sv_init (pinned_props None) EMPTY_LAUNCH"
  have "sv_trace LaunchConfigDialog launch_props_ok typed_launch ?s"
    by (simp add: typed_launch_def sv_init_def launch_props_ok_def pinned_props_def sample_project_def
        LaunchConfigDialog_def sv_ops)
  then have "sv_reach LaunchConfigDialog launch_props_ok launched" unfolding launched_def
    by (rule sv_reach_run [OF sv_reach_init])
  note all = workspace_requests_valid [OF sv_reach_init sv_reach_init sv_reach_init sv_reach_init this]
  have "sv_pending launched \<noteq> []"
    by (simp add: launched_def typed_launch_def sv_init_def pinned_props_def LaunchConfigDialog_def sv_ops
        launch_seed_def EMPTY_LAUNCH_def launch_valid_def launch_native_def programValid_def workingDirOk_def
        projectChosen_def launch_call_def)
  then show ?thesis using all by simp
qed

text \<open>C30: for a record the form can show - trimmed name, program, directory and environment, arguments
  without commas, variables with trimmed names, a whole number of GPUs and a whole number of GiB, both
  below the precision of a double - opening it and submitting the form unedited either sends nothing,
  when the form is not valid or the browser refuses its numbers, or sends the patch that repeats
  every field.\<close>

theorem launch_edit_unchanged:
  assumes "launch_editable config" "lp_config p = Some config"
  shows "sv_pending (sv_run LaunchConfigDialog [Sv_Open p, Sv_Submit] (sv_init p0 EMPTY_LAUNCH)) =
    (if launch_native (launch_seed p) \<and> launch_valid p (launch_seed p)
     then [WcPatchLaunchConfig (lch_launch_config_id config) (launch_identity config)] else [])"
  using launch_unchanged [OF assms] by (simp add: LaunchConfigDialog_def sv_ops sv_init_def)

lemma sample_editable: "launch_editable sample_launch"
proof -
  have "tag_shown ''train.py''" by (simp add: tag_shown_def)
  moreover have "env_ok [(''MODE'', ''fast'')]"
    by (simp add: env_ok_def record_ok_def named_def trimmed_def)
  moreover have "\<exists>n < 10 ^ 15. num_of_nat 2 = num_of_nat n" by (rule exI [of _ 2]) simp
  ultimately show ?thesis by (simp add: launch_editable_def sample_launch_def trimmed_def)
qed

lemma sample_valid: "launch_valid (pinned_props (Some sample_launch)) (launch_seed (pinned_props (Some sample_launch)))"
  by (simp add: launch_valid_def launch_seed_def pinned_props_def formFromConfig_def sample_launch_def
      programValid_def workingDirOk_def projectChosen_def or_empty_def)

lemma sample_native: "launch_native (launch_seed (pinned_props (Some sample_launch)))"
proof -
  obtain a where a: "list_all is_digit a" "a \<noteq> []" "number_string (num_of_nat 2) = a" "parse_nat a = 2"
    by (rule integer_string [of 2]) auto
  have "number_input_ok 1 (Some 64) 1 a" using number_input_digits [OF a(1,2), of 1 "Some 64"] a(4) by simp
  then show ?thesis
    using a(3) by (simp add: launch_native_def launch_seed_def pinned_props_def formFromConfig_def sample_launch_def
        number_field_def gib_field_def)
qed

lemma launch_edit_unchanged_witness:
  "sv_pending (sv_run LaunchConfigDialog [Sv_Open (pinned_props (Some sample_launch)), Sv_Submit]
      (sv_init (pinned_props None) EMPTY_LAUNCH)) =
    [WcPatchLaunchConfig (lch_launch_config_id sample_launch) (launch_identity sample_launch)]"
proof -
  have "lp_config (pinned_props (Some sample_launch)) = Some sample_launch" by (simp add: pinned_props_def)
  from launch_edit_unchanged [OF sample_editable this] show ?thesis using sample_valid sample_native by simp
qed

text \<open>C31: a GPU count that the browser takes for a number between 1 and 64 and the form marks as invalid,
  like \<open>2.0\<close>, does not hold the save back: the edit and the submission are open to the user, and the
  configuration loses its count while the message stands under the field.\<close>

theorem invalid_number_erases:
  assumes "sv_open s" "\<not> sv_saving s" "lp_config (sv_props s) = Some config"
    "launch_valid (sv_props s) (sv_form s)" "number_text g"
    "launch_native (launch_edited (Cf_Gpus g) (sv_form s))" "parsePositiveInt g = Field_Invalid"
    "s' = sv_run LaunchConfigDialog [sv_event.Sv_Edit (Cf_Gpus g), Sv_Submit] s"
  shows "sv_trace LaunchConfigDialog (\<lambda>_. True) [sv_event.Sv_Edit (Cf_Gpus g), Sv_Submit] s \<and>
    fst (launch_number_errors (sv_form s')) \<and>
    (\<exists>patch. sv_pending s' = sv_pending s @ [WcPatchLaunchConfig (lch_launch_config_id config) patch] \<and>
       lcp_gpu_count patch = Some None)"
  using assms(1-7) unfolding assms(8)
  by (simp add: LaunchConfigDialog_def sv_ops launch_valid_def programValid_def workingDirOk_def
      projectChosen_def launch_number_errors_def launch_call_def launch_patch_body_def launch_buildBody_def)

definition shown_launch :: "(launch_props, launch_form, workspace_call) save_form" where
  "shown_launch =
     sv_apply LaunchConfigDialog (Sv_Open (pinned_props (Some sample_launch)))
       (sv_init (pinned_props None) EMPTY_LAUNCH)"

lemma decimal_two: "html_number ''2.0'' = Some (Fin 2)"
proof -
  have "parse_nat ''20'' = 20" by (simp add: parse_nat_def digit_value_def)
  then have "number_of_literal (if ''0'' = [] then ''2'' else ''2'' @ ''.'' @ ''0'') = Fin 2"
    using literal_value_digits [of "''2''" "''0''"] round_double_of_nat [of 2]
    by (simp add: number_of_literal_def)
  from html_number_decimal [OF _ _ _ this] show ?thesis by simp
qed

lemma invalid_number_erases_witness:
  "\<exists>patch. sv_pending (sv_run LaunchConfigDialog [sv_event.Sv_Edit (Cf_Gpus ''2.0''), Sv_Submit] shown_launch) =
       [WcPatchLaunchConfig (lch_launch_config_id sample_launch) patch] \<and>
     lcp_gpu_count patch = Some None"
proof -
  have s: "sv_open shown_launch" "\<not> sv_saving shown_launch"
    "lp_config (sv_props shown_launch) = Some sample_launch"
    "launch_valid (sv_props shown_launch) (sv_form shown_launch)" "sv_pending shown_launch = []"
    "launch_native (sv_form shown_launch)"
    using sample_valid sample_native
    by (simp_all add: shown_launch_def sv_ops sv_init_def LaunchConfigDialog_def pinned_props_def)
  have number: "number_text ''2.0''" by (simp add: number_text_def decimal_two)
  have "is_integer (Fin 1)" using is_integer_iff [of "Fin 1"] by (auto simp: num_of_int_def intro: exI [of _ 1])
  then have native: "launch_native (launch_edited (Cf_Gpus ''2.0'') (sv_form shown_launch))"
    using s(6) by (simp add: launch_native_def number_input_ok_def decimal_two)
  have "parsePositiveInt ''2.0'' = Field_Invalid" by (simp add: parsePositiveInt_def)
  from invalid_number_erases [OF s(1-4) number native this refl] show ?thesis by (simp only: s(5) append_Nil)
qed

text \<open>C32: after the last configuration of a project has been edited and then removed, the add button
  opens the dialog on the removed record: the form holds its fields, and saving patches it instead
  of creating one.\<close>

theorem removed_config_reopened:
  "\<exists>s. config_run (edit_then_remove config project projects) (config_section project0 projects0 [config]) = Some s \<and>
     sv_open (dc_dialog s) \<and> dc_configs s = [] \<and> lp_config (sv_props (dc_dialog s)) = Some config \<and>
     sv_form (dc_dialog s) = formFromConfig config projects \<and>
     (\<forall>f. fc_call LaunchConfigDialog (sv_props (dc_dialog s)) f =
        Some (WcPatchLaunchConfig (lch_launch_config_id config)
               (launch_patch_body (launch_buildBody (sv_props (dc_dialog s)) f))))"
  by (rule add_edits_removed)

section \<open>The roots of a server\<close>

text \<open>C33: the editor of a server's roots awaits one save at most, and exactly while it shows that it is
  saving, whatever requests were in flight when it was mounted; the save it awaits is one of its own
  server with trimmed absolute paths within their bounds; and while nothing has been typed the draft is
  what the store holds.\<close>

theorem roots_editor_consistent:
  assumes "roots_reach rt s"
  shows "length (roots_saves s) = (if re_saving s then 1 else 0) \<and>
    list_all (roots_call_ok (re_serverId s)) (roots_saves s) \<and>
    (re_dirty s \<or> opt_ok (\<lambda>roots. re_draft s = draft_of_roots roots) (wk_serverRoots (re_store s) (re_serverId s)))"
  using roots_reach_inv [OF assms]
  by (auto simp: roots_inv_def roots_clean_def roots_saves_def own_ok_def list_all_iff)

definition stored_roots :: server_roots where
  "stored_roots =
     \<lparr>rts_project_root = Some ''/srv'', rts_dataset_root = None, rts_model_root = None, rts_output_root = None\<rparr>"

definition stores_roots :: network where
  "stores_roots = (\<lambda>_. Response 200 '''' (Some (wireServerRoots stored_roots)))"

text \<open>A mount that finds a save of its server in flight, from a former mount.\<close>

definition former_save :: workspace_call where
  "former_save = WcSaveRoots ''alpha'' (roots_update EMPTY_DRAFT)"

definition opened_roots :: roots_editor where
  "opened_roots = ServerRootsEditor ''alpha'' (ws_start former_save createWorkspaceStore)"

definition loaded_roots :: roots_editor where
  "loaded_roots = roots_apply plain_runtime (Re_Answer 1 stores_roots) opened_roots"

definition saving_roots :: roots_editor where
  "saving_roots = roots_apply plain_runtime Re_Save (roots_apply plain_runtime (Re_Edit Root_Project ''/srv'') loaded_roots)"

lemma stores_roots_put: "putServerRoots plain_runtime stores_roots i u = Inr stored_roots"
  by (simp add: putServerRoots_def workspace_request_def stores_roots_def response_ok_def)

lemma loaded_roots_parts:
  "roots_body loaded_roots = Roots_Fields
     (map (\<lambda>field. (field, draft_field field (draft_of_roots stored_roots),
        root_valid (draft_field field (draft_of_roots stored_roots)))) ROOT_FIELDS)"
  "re_saving loaded_roots = False" "re_own loaded_roots = []" "re_serverId loaded_roots = ''alpha''"
  "wk_pending (re_store loaded_roots) = [former_save]" "re_draft loaded_roots = draft_of_roots stored_roots"
  by (simp_all add: loaded_roots_def opened_roots_def ServerRootsEditor_def roots_answer_def seed_draft_def
      ws_answer_def workspace_reply_def loadServerRoots_def ws_call_def createWorkspaceStore_def Let_def
      loadServerRoots_done_def getServerRoots_def workspace_request_def stores_roots_def response_ok_def
      former_save_def roots_body_def flag_at_def message_at_def)

lemma saving_roots_reach: "roots_reach plain_runtime saving_roots"
proof -
  have 0: "roots_reach plain_runtime opened_roots" unfolding opened_roots_def by (rule roots_reach_init)
  have 1: "roots_reach plain_runtime loaded_roots" unfolding loaded_roots_def
    by (rule roots_reach_step [OF 0 roots_stepI])
      (simp add: opened_roots_def ServerRootsEditor_def loadServerRoots_def ws_call_def former_save_def createWorkspaceStore_def)
  have 2: "roots_reach plain_runtime (roots_apply plain_runtime (Re_Edit Root_Project ''/srv'') loaded_roots)"
    by (rule roots_reach_step [OF 1 roots_stepI]) (simp add: loaded_roots_parts)
  show ?thesis unfolding saving_roots_def
    by (rule roots_reach_step [OF 2 roots_stepI])
      (simp add: save_enabled_def edit_root_def loaded_roots_parts roots_valid_def ROOT_FIELDS_def
        root_valid_def draft_of_roots_def stored_roots_def or_empty_def, code_simp)
qed

lemma roots_editor_consistent_witness:
  "re_saving saving_roots \<and> length (roots_saves saving_roots) = 1 \<and>
   length (filter (saves_roots_of ''alpha'') (wk_pending (re_store saving_roots))) = 2"
proof -
  have "re_saving saving_roots" by (simp add: saving_roots_def save_roots_def)
  moreover have "length (filter (saves_roots_of ''alpha'') (wk_pending (re_store saving_roots))) = 2"
    by (simp add: saving_roots_def save_roots_def edit_root_def ws_call_def loaded_roots_parts) (simp add: former_save_def)
  ultimately show ?thesis using roots_editor_consistent [OF saving_roots_reach] by simp
qed

text \<open>What is typed while a save of the roots is in flight is lost: the answer marks the draft
  clean, and the saved roots replace it.\<close>

theorem roots_edits_lost:
  assumes "k \<in> set (re_own s)" "wk_pending (re_store s) ! k = WcSaveRoots (re_serverId s) u"
    "putServerRoots rt net (re_serverId s) u = Inr roots"
    "s' = roots_apply rt (Re_Answer k net) (roots_apply rt (Re_Edit field v) s)"
  shows "re_draft s' = draft_of_roots roots \<and> \<not> re_dirty s' \<and> re_saved s'"
  using assms by (rule edits_during_save_lost)

lemma roots_edits_lost_witness:
  "re_draft (roots_apply plain_runtime (Re_Answer 1 stores_roots)
     (roots_apply plain_runtime (Re_Edit Root_Model ''/models'') saving_roots)) = draft_of_roots stored_roots"
proof -
  have own: "1 \<in> set (re_own saving_roots)"
    by (simp add: saving_roots_def save_roots_def edit_root_def loaded_roots_parts)
  have "wk_pending (re_store saving_roots) ! 1 = WcSaveRoots (re_serverId saving_roots) (roots_update (re_draft saving_roots))"
    by (simp add: saving_roots_def save_roots_def edit_root_def ws_call_def loaded_roots_parts)
  from roots_edits_lost [OF own this stores_roots_put refl] show ?thesis by blast
qed

section \<open>The batches and jobs\<close>

text \<open>C34: the page of a project reads its distribution again at exactly the step of the transfer store
  at which the batch it watched has finished and no other batch of the project is active.\<close>

theorem distribution_refetched_once:
  assumes "watch_reach rt s" "s' = watch_apply rt (Wt_Transfers e) s"
  shows "wk_pending (wt_workspace s') =
    wk_pending (wt_workspace s) @ (if settles s s' then [WcDistribution (wt_projectId s)] else [])"
  using assms by (rule refetch_on_settle)

definition sample_batch :: "transfer_batch_state \<Rightarrow> transfer_batch" where
  "sample_batch state =
     \<lparr>bat_batch_id = ''b'', bat_project_id = ''p'', bat_target_server_id = ''beta'', bat_job_ids = [''j''],
      bat_created_at = '''', bat_state = state, bat_total_jobs = Fin 1, bat_queued_jobs = Fin 0,
      bat_running_jobs = Fin 0, bat_completed_jobs = Fin 1, bat_failed_jobs = Fin 0, bat_cancelled_jobs = Fin 0\<rparr>"

definition finished_batch :: network where
  "finished_batch = (\<lambda>_. Response 200 '''' (Some (JArr (map wireTransferBatch [sample_batch B_Completed]))))"

lemma finished_batch_listed: "listBatches plain_runtime finished_batch = Inr [sample_batch B_Completed]"
proof -
  have "list_all wfTransferBatch [sample_batch B_Completed]"
    by (simp add: wfTransferBatch_def sample_batch_def)
  from wire_transfer_batch.read_list_wire [OF this] show ?thesis
    by (simp add: listBatches_def transfers_request_def finished_batch_def response_ok_def)
qed

lemma effect_batches [simp]: "tf_batches (wt_transfers (watch_effect s)) = tf_batches (wt_transfers s)"
  by (simp add: watch_effect_def Let_def split: option.splits)

definition watched_page :: project_watch where
  "watched_page =
     mount_detail ''p'' createWorkspaceStore ((createTransferStore '''')\<lparr>tf_batches := [sample_batch B_Running]\<rparr>)"

lemma distribution_refetched_once_witness:
  "wk_pending (wt_workspace (watch_apply plain_runtime (Wt_Transfers (TvReply 0 finished_batch)) watched_page)) =
   wk_pending (wt_workspace watched_page) @ [WcDistribution ''p'']"
proof -
  let ?s' = "watch_apply plain_runtime (Wt_Transfers (TvReply 0 finished_batch)) watched_page"
  have reach: "watch_reach plain_runtime watched_page" unfolding watched_page_def by (rule watch_reach_init)
  have p: "wt_projectId watched_page = ''p''" "wt_projectId ?s' = ''p''" "active_batch watched_page = Some (sample_batch B_Running)"
    by (simp_all add: watched_page_def mount_detail_def watch_effect_def Let_def active_batch_def fetchBatches_def call_def
        sample_batch_def isActiveBatchState_def split: option.splits)
  have "tf_pending (wt_transfers watched_page) = [CallListBatches]"
    by (simp add: watched_page_def mount_detail_def watch_effect_def Let_def active_batch_def fetchBatches_def call_def
        sample_batch_def isActiveBatchState_def createTransferStore_def)
  then have b: "tf_batches (wt_transfers ?s') = [sample_batch B_Completed]"
    by (simp add: answer_def transfer_reply_def fetchBatches_done_def finished_batch_listed)
  have "settles watched_page ?s'"
    using b p by (simp add: settles_def active_batch_def batch_finished_def isTerminalBatchState_def
        isActiveBatchState_def sample_batch_def)
  then show ?thesis using distribution_refetched_once [OF reach refl, of "TvReply 0 finished_batch"] p by simp
qed

text \<open>C35: where the job ids are distinct and no job belongs to two batches, the transfers page shows
  every job exactly once: in the group of its batch, or in the flat list.\<close>

theorem transfer_jobs_shown_once:
  assumes "distinct (map job_job_id jobs)" "distinct (concat (map bat_job_ids batches))"
  shows "mset (concat (map snd (batchGroups jobs batches)) @ flatJobs jobs batches) = mset jobs"
  using jobs_shown_once [OF assms] by (simp add: shown_jobs_def)

definition sample_job :: "string \<Rightarrow> transfer_job" where
  "sample_job i =
     \<lparr>job_job_id = i, job_artifact_id = ''x'', job_artifact_label = ''x'', job_source_server_id = ''alpha'',
      job_source_path = ''/x'', job_target_server_id = ''beta'', job_target_path = ''/y'',
      job_strategy_requested = TS_Auto, job_strategy_used = None, job_state = J_Running, job_excludes = [],
      job_immutable = True, job_strategy_reason = '''', job_resumed_bytes = Fin 0, job_files_skipped = Fin 0,
      job_bytes_skipped = Fin 0, job_warnings = [], job_bytes_total = None, job_bytes_done = Fin 0,
      job_files_total = None, job_files_done = Fin 0, job_rate_bps = None, job_eta_s = None,
      job_current_path = None, job_created_at = '''', job_started_at = None, job_finished_at = None,
      job_error_code = None, job_error_message = ''''\<rparr>"

lemma transfer_jobs_shown_once_witness:
  "mset (concat (map snd (batchGroups [sample_job ''j'', sample_job ''k''] [sample_batch B_Running]))
     @ flatJobs [sample_job ''j'', sample_job ''k''] [sample_batch B_Running]) =
   {#sample_job ''j'', sample_job ''k''#}"
  using transfer_jobs_shown_once [of "[sample_job ''j'', sample_job ''k'']" "[sample_batch B_Running]"]
  by (simp add: sample_job_def sample_batch_def)

section \<open>What is on screen\<close>

text \<open>C36: with exactly one enabled server the sync dialog displays it as the target and yet never has a
  target: whatever the user does, none can be picked, and no plan and no sync is requested.\<close>

theorem only_target_unreachable:
  assumes "sync_reach rt servers d" "enabledServers servers = [s]"
  shows "select_shown (target_options servers) (sy_targetServerId d) = Some (srv_server_id s) \<and>
    sy_targetServerId d = '''' \<and> filter sync_call (wk_pending (sy_store d)) = []"
  using no_target_reach [OF assms] assms(2)
  by (simp add: no_target_def sync_calls_def select_shown_def target_options_def)

definition lone_server :: server_record where
  "lone_server =
     \<lparr>srv_server_id = ''alpha'', srv_display_name = ''Alpha'', srv_ssh_host = ''alpha'', srv_username = None,
      srv_port = None, srv_tags = [], srv_enabled = True, srv_sample_interval_s = None\<rparr>"

definition opened_sync :: sync_dialog where
  "opened_sync = set_open True (SyncDialog ''p'' createWorkspaceStore (createTransferStore ''''))"

lemma only_target_unreachable_witness:
  "sy_open opened_sync \<and> select_shown (target_options [lone_server]) (sy_targetServerId opened_sync) = Some ''alpha'' \<and>
   filter sync_call (wk_pending (sy_store opened_sync)) = []"
proof -
  have "sync_reach plain_runtime [lone_server] (SyncDialog ''p'' createWorkspaceStore (createTransferStore ''''))"
    by (rule sync_reach_init) (simp add: createWorkspaceStore_def)
  moreover have "sync_step plain_runtime [lone_server]
      (SyncDialog ''p'' createWorkspaceStore (createTransferStore '''')) Sy_Open opened_sync"
    using sync_stepI [of "[lone_server]" Sy_Open "SyncDialog ''p'' createWorkspaceStore (createTransferStore '''')" plain_runtime]
    by (simp add: opened_sync_def SyncDialog_def)
  ultimately have "sync_reach plain_runtime [lone_server] opened_sync" by (rule sync_reach_step)
  moreover have "enabledServers [lone_server] = [lone_server]" by (simp add: enabledServers_def lone_server_def)
  ultimately show ?thesis using only_target_unreachable [of plain_runtime "[lone_server]" opened_sync lone_server]
    by (simp add: opened_sync_def SyncDialog_def sync_ops lone_server_def)
qed

text \<open>C37: each reading of a GPU lane reads \<open>N/A\<close> exactly when the machine did not report it, and
  the temperature has a tone exactly when there is one. The memory is a pair: it reads \<open>N/A\<close> as a
  whole exactly when no total was reported, even if the use was, and begins with \<open>N/A\<close> exactly when
  one of the two is missing. \<open>String\<close> of a finite number begins with a digit or a minus sign.\<close>

theorem lane_shows_reported:
  assumes "prints_numerals rt" "lane = GpuLane rt t hide gpu owners"
  shows "(sm_text (ln_util lane) = NA \<longleftrightarrow> finite_value (gpu_utilization_percent gpu) = None) \<and>
    (sm_text (ln_vram lane) = NA \<longleftrightarrow> finite_value (gpu_vram_total_b gpu) = None) \<and>
    (prefix NA (sm_text (ln_vram lane)) \<longleftrightarrow>
       finite_value (gpu_vram_used_b gpu) = None \<or> finite_value (gpu_vram_total_b gpu) = None) \<and>
    (ln_temperature lane = NA \<longleftrightarrow> finite_value (gpu_temperature_c gpu) = None) \<and>
    (ln_tone lane = TT_Empty \<longleftrightarrow> finite_value (gpu_temperature_c gpu) = None) \<and>
    (ln_power lane = NA \<longleftrightarrow> finite_value (gpu_power_watts gpu) = None)"
  using assms by (rule lane_honest)

definition sample_gpu :: gpu_info where
  "sample_gpu =
     \<lparr>gpu_index = Fin 0, gpu_uuid = None, gpu_name = None, gpu_utilization_percent = Some (Fin 12),
      gpu_vram_used_b = None, gpu_vram_total_b = Some (Fin 4096), gpu_vram_percent = None,
      gpu_temperature_c = None, gpu_power_watts = None, gpu_power_limit_watts = None, gpu_fan_percent = None,
      gpu_availability = A_Free, gpu_process_count = Fin 0\<rparr>"

lemma lane_shows_reported_witness:
  "prefix NA (sm_text (ln_vram (GpuLane plain_runtime (dict_text en) False sample_gpu []))) \<and>
   sm_text (ln_vram (GpuLane plain_runtime (dict_text en) False sample_gpu [])) \<noteq> NA \<and>
   sm_text (ln_util (GpuLane plain_runtime (dict_text en) False sample_gpu [])) \<noteq> NA"
proof -
  have "prints_numerals plain_runtime"
    using show_nat_start by (auto simp: prints_numerals_def plain_runtime_def show_int_def) (simp_all add: numeral_start_def)
  from lane_shows_reported [OF this refl, of "dict_text en" False sample_gpu "[]"] show ?thesis
    by (simp add: sample_gpu_def finite_value_def)
qed

section \<open>The texts\<close>

text \<open>C38: the two languages are interchangeable for the code. They have the same keys; parameters that
  fill every placeholder of the English text fill every placeholder of the text shown, whichever
  language is chosen; and the Chinese texts leave out no parameter but the suffix of the English
  plural.\<close>

theorem languages_agree:
  assumes "filled (dict_text en path) params"
  shows "filled (useT s path) params \<and>
    set (placeholders (dict_text en path)) \<subseteq> insert ''s'' (set (placeholders (useT s path))) \<and>
    (path \<in> fst ` set (dict_entries en) \<longleftrightarrow> path \<in> fst ` set (dict_entries zh))"
  using assms texts_agree [of path] by (auto simp: useT_def getDict_def filled_def list_all_iff)

definition chinese_pref :: "locale_pref preference" where
  "chinese_pref =
     \<lparr>pf_current = Zh, pf_stored = None, pf_blocked = False, pf_listeners = [], pf_notified = []\<rparr>"

lemma languages_agree_witness:
  "filled (useT chinese_pref ''relative.m'') [(''n'', ''5'')] \<and>
   set (placeholders (dict_text en ''relative.m'')) \<subseteq>
     insert ''s'' (set (placeholders (useT chinese_pref ''relative.m''))) \<and>
   (''relative.m'' \<in> fst ` set (dict_entries en) \<longleftrightarrow> ''relative.m'' \<in> fst ` set (dict_entries zh))"
proof (rule languages_agree)
  show "filled (dict_text en ''relative.m'') [(''n'', ''5'')]" by code_simp
qed

section \<open>The page of a project\<close>

text \<open>C39: from any mount of the page of a project, with or without the project loaded, and whatever the
  user, the stores and the network do then, every request its three form dialogs have in flight passes
  the checks of its form; one removal of a launch configuration is in flight at most; the page watches
  exactly the batch of the project that is active; and one overlay stands over the page at most: an
  overlay covers the page, and nothing but a button of the page behind it opens one.\<close>

theorem project_page_consistent:
  assumes "project_reach rt servers s"
  shows "list_all request_ok
      (sv_pending (pg_edit s) @ sv_pending (pg_placement s) @ sv_pending (dc_dialog (pg_config s))) \<and>
    length (rm_pending (dc_remove (pg_config s))) \<le> 1 \<and>
    wt_watched (pg_watch s) = map_option bat_batch_id (active_batch (pg_watch s)) \<and>
    length (filter id (overlays s)) \<le> 1"
  using page_inv_reach [OF assms] page_requests_ok [of s] one_removal [of True "dc_remove (pg_config s)"]
  by (simp add: page_inv_def one_overlay_def dialogs_ok_def section_ok_def tracking_def)

definition sample_store :: workspace_store where
  "sample_store = createWorkspaceStore\<lparr>wk_projects := [sample_project], wk_launchConfigs := [sample_launch]\<rparr>"

definition sample_page :: project_page where
  "sample_page = ProjectDetail ''p'' sample_store (createTransferStore '''')"

definition asked_page :: project_page where
  "asked_page = project_apply plain_runtime (Pg_Config (Dc_Remove (Rm_Ask sample_launch))) sample_page"

lemma sample_page_parts [simp]:
  "pg_workspace sample_page = fetchDistribution ''p'' sample_store"
  "wt_projectId (pg_watch sample_page) = ''p''"
  "page_project sample_page = Some sample_project"
  "overlays sample_page = [False, False, False, False, False, False, False]"
  "dc_configs (pg_config sample_page) = [sample_launch]" "dc_remove (pg_config sample_page) = rm_init"
  "pg_edit sample_page = sv_init (Some sample_project) EMPTY_PROJECT"
  by (simp_all add: sample_page_def ProjectDetail_def mount_detail_def watch_effect_def active_batch_def
      fetchBatches_def TransferStore.call_def createTransferStore_def Let_def page_project_def sample_store_def sample_project_def
      fetchDistribution_def ws_call_def createWorkspaceStore_def overlays_def config_section_def SyncDialog_def
      project_configs_def sample_launch_def)

lemma sample_page_reach: "project_reach plain_runtime servers sample_page"
  unfolding sample_page_def by (rule project_reach_init) simp

lemma asked_page_reach: "project_reach plain_runtime servers asked_page"
  unfolding asked_page_def
proof (rule project_reach_step [OF sample_page_reach])
  show "project_enabled servers (Pg_Config (Dc_Remove (Rm_Ask sample_launch))) sample_page"
    by (simp add: page_free_def config_free_def) (simp add: sample_page_def ProjectDetail_def config_section_def Let_def)
qed

text \<open>The project is renamed and the form submitted.\<close>

definition renamed_page :: project_page where
  "renamed_page =
     project_apply plain_runtime (Pg_EditDialog Sv_Submit)
       (project_apply plain_runtime (Pg_EditDialog (sv_event.Sv_Edit (Pf_Name ''train'')))
         (project_apply plain_runtime Pg_Edit sample_page))"

lemma renamed_page_reach: "project_reach plain_runtime servers renamed_page"
proof -
  have 1: "project_reach plain_runtime servers (project_apply plain_runtime Pg_Edit sample_page)"
    by (rule project_reach_step [OF sample_page_reach]) (simp add: page_free_def)
  have 2: "project_reach plain_runtime servers (project_apply plain_runtime
      (Pg_EditDialog (sv_event.Sv_Edit (Pf_Name ''train''))) (project_apply plain_runtime Pg_Edit sample_page))"
    by (rule project_reach_step [OF 1])
      (use sample_page_parts(3) in \<open>simp add: page_project_def pressed_def sv_ops ProjectDialog_def\<close>)
  show ?thesis unfolding renamed_page_def
    by (rule project_reach_step [OF 2])
      (use sample_page_parts(3) in \<open>simp add: page_project_def pressed_def sv_ops ProjectDialog_def\<close>)
qed

lemma project_page_consistent_witness:
  "length (sv_pending (pg_edit renamed_page)) = 1 \<and> list_all request_ok (sv_pending (pg_edit renamed_page)) \<and>
   rm_target (dc_remove (pg_config asked_page)) = Some sample_launch \<and> length (filter id (overlays asked_page)) \<le> 1"
  using project_page_consistent [OF renamed_page_reach [of "[]"]] project_page_consistent [OF asked_page_reach [of "[]"]]
  by (simp add: asked_page_def rm_ask_def renamed_page_def sv_ops sv_init_def ProjectDialog_def project_call_def
      project_seed_def formFromProject_def)

text \<open>C40: removing a launch configuration makes the store read the projects again. The page allows the
  project to be edited before the list has come; when it comes, the open form is filled from the new
  record, and what was typed is gone.\<close>

theorem project_edits_lost:
  assumes "page_project s = Some p" "rm_pending (dc_remove (pg_config s)) = [config]"
    "deleteLaunchConfig rt net (lch_launch_config_id config) = Inr u"
    "overlays s = [False, False, False, False, False, True, False]"
    "listProjects rt net' = Inr ps" "find (\<lambda>p. prj_project_id p = wt_projectId (pg_watch s)) ps = Some p'"
  shows "\<exists>s'. project_run rt servers
      [Pg_ConfigRemoved 0 net, Pg_Edit, Pg_EditDialog (sv_event.Sv_Edit (Pf_Name typed)),
       Pg_Answer (length (wk_pending (pg_workspace s))) net'] s = Some s' \<and>
    sv_open (pg_edit s') \<and> sv_form (pg_edit s') = formFromProject p'"
  using assms by (rule edits_lost_after_removal)

definition confirmed_page :: project_page where
  "confirmed_page = project_apply plain_runtime (Pg_Config (Dc_Remove Rm_Confirm)) asked_page"

definition removes_config :: network where
  "removes_config = (\<lambda>_. Response 204 '''' None)"

definition lists_project :: network where
  "lists_project = (\<lambda>_. Response 200 '''' (Some (JArr (map wireProjectRecord [sample_project]))))"

lemma lists_sample_project: "listProjects plain_runtime lists_project = Inr [sample_project]"
proof -
  have "list_all (\<lambda>_. True) [sample_project]" by simp
  from wire_project_record.read_list_wire [OF this] show ?thesis
    by (simp add: listProjects_def workspace_request_def lists_project_def response_ok_def)
qed

lemma project_edits_lost_witness:
  "\<exists>s'. project_run plain_runtime []
      [Pg_ConfigRemoved 0 removes_config, Pg_Edit, Pg_EditDialog (sv_event.Sv_Edit (Pf_Name ''Renamed'')),
       Pg_Answer (length (wk_pending (pg_workspace confirmed_page))) lists_project] confirmed_page = Some s' \<and>
    sv_open (pg_edit s') \<and> sv_form (pg_edit s') = formFromProject sample_project"
proof (rule project_edits_lost [OF _ _ _ _ lists_sample_project])
  show "page_project confirmed_page = Some sample_project"
    using sample_page_parts(3) by (simp add: confirmed_page_def asked_page_def page_project_def)
  show "rm_pending (dc_remove (pg_config confirmed_page)) = [sample_launch]"
    by (simp add: confirmed_page_def asked_page_def rm_ops rm_init_def)
  show "deleteLaunchConfig plain_runtime removes_config (lch_launch_config_id sample_launch) = Inr ()"
    by (simp add: deleteLaunchConfig_def read_nothing_def workspace_request_def removes_config_def response_ok_def)
  show "overlays confirmed_page = [False, False, False, False, False, True, False]"
    using sample_page_parts(4) by (simp add: confirmed_page_def asked_page_def overlays_def rm_ops)
  show "find (\<lambda>p. prj_project_id p = wt_projectId (pg_watch confirmed_page)) [sample_project] = Some sample_project"
    by (simp add: confirmed_page_def asked_page_def) (simp add: sample_project_def)
qed

end
