(* ===== verification/Fixtures.thy ===== *)
theory Fixtures
  imports ServerPage Fleet Doubles "HOL-Library.Word"
begin

text \<open>
  \<open>data/fixtures.ts\<close>: the sample servers, snapshots and fleet summary the preview shows, and the
  generated history of their GPUs. \<open>now_iso\<close> is the time the module was loaded, as text. The
  generator works on 32-bit integers: \<open>^\<close>, \<open>Math.imul\<close> and \<open>>>> 0\<close> are the operations of \<open>32 word\<close>.
  \<open>Math.sin\<close> is a parameter; the model needs nothing of it.
\<close>

unbundle bit_operations_syntax

subsection \<open>Sample records\<close>

definition GPU_UUID_0 :: string where "GPU_UUID_0 = ''GPU-3f9c2a10-9d44-2f6e-b1a5-0c4f7e8d1234''"
definition GPU_UUID_1 :: string where "GPU_UUID_1 = ''GPU-7b2e5c88-1a30-4d9f-8e2b-9a6c1d3f5678''"

text \<open>\<open>padStart(4, "0")\<close>.\<close>

definition padded :: "nat \<Rightarrow> string" where
  "padded n = replicate (4 - length (show_nat n)) (CHR ''0'') @ show_nat n"

definition A100_UUIDS :: "string list" where
  "A100_UUIDS = map (\<lambda>i. ''GPU-a100-'' @ padded i @ ''-0000-0000-0000'') [0..<8]"

definition lab4090Gpus :: "gpu_info list" where
  "lab4090Gpus =
    [\<lparr>gpu_index = num_of_nat 0, gpu_uuid = Some GPU_UUID_0, gpu_name = Some ''NVIDIA GeForce RTX 4090'',
      gpu_utilization_percent = Some (Fin (724 / 10)), gpu_vram_used_b = Some (num_of_nat 19541268941),
      gpu_vram_total_b = Some (num_of_nat 25769803776), gpu_vram_percent = Some (Fin (758 / 10)),
      gpu_temperature_c = Some (num_of_nat 64), gpu_power_watts = Some (num_of_nat 210),
      gpu_power_limit_watts = Some (num_of_nat 350), gpu_fan_percent = Some (num_of_nat 55),
      gpu_availability = A_Active, gpu_process_count = num_of_nat 1\<rparr>,
     \<lparr>gpu_index = num_of_nat 1, gpu_uuid = Some GPU_UUID_1, gpu_name = Some ''NVIDIA GeForce RTX 4090'',
      gpu_utilization_percent = Some (Fin (35 / 10)), gpu_vram_used_b = Some (num_of_nat 629145600),
      gpu_vram_total_b = Some (num_of_nat 25769803776), gpu_vram_percent = Some (Fin (27 / 10)),
      gpu_temperature_c = Some (num_of_nat 38), gpu_power_watts = Some (num_of_nat 21),
      gpu_power_limit_watts = Some (num_of_nat 350), gpu_fan_percent = Some (num_of_nat 30),
      gpu_availability = A_Free, gpu_process_count = num_of_nat 0\<rparr>]"

definition lab4090GpuProcesses :: "gpu_process_info list" where
  "lab4090GpuProcesses =
    [\<lparr>gpp_pid = num_of_nat 40211, gpp_gpu_uuid = Some GPU_UUID_0, gpp_gpu_index = Some (num_of_nat 0),
      gpp_used_memory_b = Some (num_of_nat 19116342497), gpp_process_name = Some ''python'',
      gpp_user = Some ''demo'', gpp_command = Some ''python train_cifar.py --batch-size 256 --epochs 120''\<rparr>]"

definition lab4090Processes :: "process_info list" where
  "lab4090Processes =
    [\<lparr>prc_pid = num_of_nat 40211, prc_user = Some ''demo'', prc_name = Some ''python'',
      prc_cpu_percent = Some (Fin (7124 / 10)), prc_mem_percent = Some (Fin (214 / 10)),
      prc_rss_b = Some (num_of_nat 5583459725), prc_state = Some ''R'',
      prc_command = Some ''python train_cifar.py --batch-size 256 --epochs 120'',
      prc_gpu_indexes = [num_of_nat 0], prc_gpu_vram_b = Some (num_of_nat 19116342497)\<rparr>,
     \<lparr>prc_pid = num_of_nat 1180, prc_user = Some ''dana'', prc_name = Some ''code'',
      prc_cpu_percent = Some (Fin (121 / 10)), prc_mem_percent = Some (Fin (82 / 10)),
      prc_rss_b = Some (num_of_nat 1980000000), prc_state = Some ''S'',
      prc_command = Some ''/usr/share/code/code --type=renderer'', prc_gpu_indexes = [],
      prc_gpu_vram_b = None\<rparr>,
     \<lparr>prc_pid = num_of_nat 902, prc_user = Some ''root'', prc_name = Some ''systemd-journal'',
      prc_cpu_percent = Some (Fin (4 / 10)), prc_mem_percent = Some (Fin (3 / 10)),
      prc_rss_b = Some (num_of_nat 74000000), prc_state = Some ''S'',
      prc_command = Some ''/lib/systemd/systemd-journald'', prc_gpu_indexes = [], prc_gpu_vram_b = None\<rparr>,
     \<lparr>prc_pid = num_of_nat 2210, prc_user = Some ''demo'', prc_name = Some ''zsh'',
      prc_cpu_percent = Some (Fin (1 / 10)), prc_mem_percent = Some (Fin (1 / 10)),
      prc_rss_b = Some (num_of_nat 22000000), prc_state = Some ''S'', prc_command = Some ''zsh'',
      prc_gpu_indexes = [], prc_gpu_vram_b = None\<rparr>,
     \<lparr>prc_pid = num_of_nat 3311, prc_user = Some ''dana'', prc_name = Some ''htop'',
      prc_cpu_percent = Some (Fin (6 / 10)), prc_mem_percent = Some (Fin (2 / 10)),
      prc_rss_b = Some (num_of_nat 18874368), prc_state = Some ''S'', prc_command = Some ''htop'',
      prc_gpu_indexes = [], prc_gpu_vram_b = None\<rparr>]"

definition dgxGpus :: "gpu_info list" where
  "dgxGpus =
     map (\<lambda>i.
       \<lparr>gpu_index = num_of_nat i, gpu_uuid = Some (A100_UUIDS ! i), gpu_name = Some ''NVIDIA A100-SXM4-80GB'',
        gpu_utilization_percent = Some (Fin (93 + of_nat (i mod 5) * (14 / 10))),
        gpu_vram_used_b = Some (num_of_nat (83852621000 + i * 220200960)),
        gpu_vram_total_b = Some (num_of_nat 85899345920),
        gpu_vram_percent = Some (Fin (981 / 10 - of_nat (i mod 3) * (4 / 10))),
        gpu_temperature_c = Some (num_of_nat (71 + i mod 4 * 2)),
        gpu_power_watts = Some (Fin (288 + of_nat i * (32 / 10))),
        gpu_power_limit_watts = Some (num_of_nat 400), gpu_fan_percent = Some (num_of_nat 78),
        gpu_availability = A_Saturated, gpu_process_count = num_of_nat 1\<rparr>) [0..<8]"

definition dgx_memory :: "nat \<Rightarrow> js_number option" where
  "dgx_memory i = Some (num_of_nat ((52 + i mod 4 * 6) * 1024 ^ 3 + i * 140000000))"

definition dgxGpuProcesses :: "gpu_process_info list" where
  "dgxGpuProcesses =
     map (\<lambda>i.
       \<lparr>gpp_pid = num_of_nat (50000 + i * 37), gpp_gpu_uuid = Some (A100_UUIDS ! i),
        gpp_gpu_index = Some (num_of_nat i), gpp_used_memory_b = dgx_memory i,
        gpp_process_name = Some ''python'', gpp_user = Some (if i mod 2 = 0 then ''demo'' else ''maria''),
        gpp_command = Some ''python -m torch.distributed.run --nproc_per_node=8 bench.py''\<rparr>) [0..<8]"

definition dgxProcesses :: "process_info list" where
  "dgxProcesses =
     map (\<lambda>(i, proc).
       \<lparr>prc_pid = gpp_pid proc, prc_user = gpp_user proc, prc_name = Some ''python'',
        prc_cpu_percent = Some (num_of_nat (640 - i * 30)),
        prc_mem_percent = Some (Fin (112 / 10 + of_nat i * (8 / 10))),
        prc_rss_b = Some (num_of_nat (12800000000 + i * 400000000)), prc_state = Some ''R'',
        prc_command = Some ''python -m torch.distributed.run --nproc_per_node=8 bench.py'',
        prc_gpu_indexes = [num_of_nat i], prc_gpu_vram_b = gpp_used_memory_b proc\<rparr>)
       (enumerate 0 (take 5 dgxGpuProcesses))"

definition SSH_CLOSED :: string where "SSH_CLOSED = ''ssh_closed''"

definition fixtureServers :: "server_record list" where
  "fixtureServers =
    [\<lparr>srv_server_id = ''srv-lab-4090'', srv_display_name = ''lab-4090'', srv_ssh_host = ''lab-4090'',
      srv_username = Some ''demo'', srv_port = Some (num_of_nat 1111), srv_tags = [''lab''],
      srv_enabled = True, srv_sample_interval_s = None\<rparr>,
     \<lparr>srv_server_id = ''srv-dgx-a100'', srv_display_name = ''dgx-a100'', srv_ssh_host = ''dgx-a100'',
      srv_username = Some ''ops'', srv_port = Some (num_of_nat 22), srv_tags = [''cluster''],
      srv_enabled = True, srv_sample_interval_s = None\<rparr>,
     \<lparr>srv_server_id = ''srv-gpu-node-3'', srv_display_name = ''gpu-node-3'', srv_ssh_host = ''gpu-node-3'',
      srv_username = Some ''demo'', srv_port = None, srv_tags = [], srv_enabled = True,
      srv_sample_interval_s = None\<rparr>]"

definition lab4090_snapshot :: "string \<Rightarrow> server_snapshot" where
  "lab4090_snapshot now_iso =
     \<lparr>snap_server_id = ''srv-lab-4090'', snap_status = S_Online, snap_generated_at = Some now_iso,
      snap_cpu = Some \<lparr>cpu_percent = Some (Fin (234 / 10)), cpu_load_1 = Some (Fin (214 / 100)),
                   cpu_load_5 = Some (Fin (198 / 100)), cpu_load_15 = Some (Fin (176 / 100)),
                   cpu_cores_logical = Some (num_of_nat 32)\<rparr>,
      snap_memory = Some \<lparr>mem_total_b = Some (num_of_nat 68700000000),
                      mem_used_b = Some (num_of_nat 28100000000),
                      mem_available_b = Some (num_of_nat 40600000000), mem_percent = Some (Fin (409 / 10))\<rparr>,
      snap_gpus = lab4090Gpus, snap_gpu_processes = lab4090GpuProcesses, snap_processes = lab4090Processes,
      snap_storage = [\<lparr>mnt_device = ''/dev/nvme0n1p2'', mnt_fstype = Some ''ext4'', mnt_mount = ''/'',
                       mnt_total_b = Some (num_of_nat 984000000000),
                       mnt_used_b = Some (num_of_nat 590000000000),
                       mnt_free_b = Some (num_of_nat 344000000000), mnt_percent = Some (num_of_nat 60)\<rparr>,
                     \<lparr>mnt_device = ''/dev/sda1'', mnt_fstype = Some ''ext4'', mnt_mount = ''/data'',
                       mnt_total_b = Some (num_of_nat 8796093022208),
                       mnt_used_b = Some (num_of_nat 7212796278000),
                       mnt_free_b = Some (num_of_nat 1099511627776), mnt_percent = Some (num_of_nat 82)\<rparr>,
                     \<lparr>mnt_device = ''/dev/nvme0n1p1'', mnt_fstype = Some ''ext4'', mnt_mount = ''/home'',
                       mnt_total_b = Some (num_of_nat 512000000000),
                       mnt_used_b = Some (num_of_nat 159000000000),
                       mnt_free_b = Some (num_of_nat 327000000000), mnt_percent = Some (num_of_nat 31)\<rparr>],
      snap_network = [\<lparr>nif_name = ''eth0'', nif_ip = Some ''10.40.0.11'',
                       nif_rx_bps = Some (num_of_nat 1240000), nif_tx_bps = Some (num_of_nat 248832),
                       nif_rx_total_b = Some (num_of_nat 10745058181000),
                       nif_tx_total_b = Some (num_of_nat 3221225473000)\<rparr>,
                     \<lparr>nif_name = ''lo'', nif_ip = Some ''127.0.0.1'', nif_rx_bps = Some (num_of_nat 12000),
                       nif_tx_bps = Some (num_of_nat 12000), nif_rx_total_b = Some (num_of_nat 88000000000),
                       nif_tx_total_b = Some (num_of_nat 88000000000)\<rparr>],
      snap_system = Some \<lparr>sys_hostname = Some ''lab-4090'', sys_os_pretty = Some ''Ubuntu 22.04.4 LTS'',
                      sys_kernel = Some ''5.15.0-107-generic'', sys_uptime_s = Some (num_of_nat 1036800),
                      sys_cpu_model = Some ''AMD Ryzen 9 7950X 16-Core Processor'',
                      sys_cores_physical = Some (num_of_nat 16), sys_cores_logical = Some (num_of_nat 32),
                      sys_driver_version = Some ''550.54.15''\<rparr>,
      snap_errors = [], snap_stale = False\<rparr>"

definition dgx_snapshot :: "string \<Rightarrow> server_snapshot" where
  "dgx_snapshot now_iso =
     \<lparr>snap_server_id = ''srv-dgx-a100'', snap_status = S_Online, snap_generated_at = Some now_iso,
      snap_cpu = Some \<lparr>cpu_percent = Some (Fin (876 / 10)), cpu_load_1 = Some (Fin (612 / 10)),
                   cpu_load_5 = Some (Fin (589 / 10)), cpu_load_15 = Some (Fin (551 / 10)),
                   cpu_cores_logical = Some (num_of_nat 128)\<rparr>,
      snap_memory = Some \<lparr>mem_total_b = Some (num_of_nat 1099511627776),
                      mem_used_b = Some (num_of_nat 838000000000),
                      mem_available_b = Some (num_of_nat 261000000000), mem_percent = Some (Fin (762 / 10))\<rparr>,
      snap_gpus = dgxGpus, snap_gpu_processes = dgxGpuProcesses, snap_processes = dgxProcesses,
      snap_storage = [\<lparr>mnt_device = ''/dev/nvme0n1p2'', mnt_fstype = Some ''ext4'', mnt_mount = ''/'',
                       mnt_total_b = Some (num_of_nat 1900000000000),
                       mnt_used_b = Some (num_of_nat 836000000000),
                       mnt_free_b = Some (num_of_nat 968000000000), mnt_percent = Some (num_of_nat 44)\<rparr>,
                     \<lparr>mnt_device = ''/dev/raid0'', mnt_fstype = Some ''xfs'', mnt_mount = ''/scratch'',
                       mnt_total_b = Some (num_of_nat 28796093022208),
                       mnt_used_b = Some (num_of_nat 25480000000000),
                       mnt_free_b = Some (num_of_nat 1960000000000), mnt_percent = Some (num_of_nat 91)\<rparr>],
      snap_network = [\<lparr>nif_name = ''ib0'', nif_ip = Some ''10.41.0.2'',
                       nif_rx_bps = Some (num_of_nat 880000000), nif_tx_bps = Some (num_of_nat 912000000),
                       nif_rx_total_b = Some (num_of_nat 812000000000000),
                       nif_tx_total_b = Some (num_of_nat 801000000000000)\<rparr>],
      snap_system = Some \<lparr>sys_hostname = Some ''dgx-a100'', sys_os_pretty = Some ''Ubuntu 22.04.4 LTS'',
                      sys_kernel = Some ''5.15.0-105-generic'', sys_uptime_s = Some (num_of_nat 5443200),
                      sys_cpu_model = Some ''AMD EPYC 7742 64-Core Processor'',
                      sys_cores_physical = Some (num_of_nat 64), sys_cores_logical = Some (num_of_nat 128),
                      sys_driver_version = Some ''535.104.05''\<rparr>,
      snap_errors = [], snap_stale = False\<rparr>"

definition node3_snapshot :: "string \<Rightarrow> server_snapshot" where
  "node3_snapshot now_iso =
     \<lparr>snap_server_id = ''srv-gpu-node-3'', snap_status = S_Offline, snap_generated_at = Some now_iso,
      snap_cpu = None, snap_memory = None, snap_gpus = [], snap_gpu_processes = [], snap_processes = [],
      snap_storage = [], snap_network = [], snap_system = None,
      snap_errors = [(''gpu'', SSH_CLOSED), (''cpu'', SSH_CLOSED), (''memory'', SSH_CLOSED),
         (''gpu_processes'', SSH_CLOSED), (''processes'', SSH_CLOSED), (''storage'', SSH_CLOSED),
         (''network'', SSH_CLOSED), (''system'', SSH_CLOSED)],
      snap_stale = False\<rparr>"

definition fixtureFleetEntries :: "string \<Rightarrow> fleet_entry list" where
  "fixtureFleetEntries now_iso =
    [\<lparr>fle_server_id = ''srv-lab-4090'', fle_display_name = ''lab-4090'',
      fle_ssh_endpoint = Some ''demo@lab-4090:1111'', fle_status = S_Online, fle_enabled = True,
      fle_os_pretty = Some ''Ubuntu 22.04.4 LTS'', fle_gpu_model = Some ''RTX 4090'',
      fle_gpu_count = num_of_nat 2, fle_gpu_busy = num_of_nat 1, fle_gpu_free = num_of_nat 1,
      fle_cpu_percent = Some (Fin (234 / 10)), fle_memory_percent = Some (Fin (409 / 10)),
      fle_vram_used_b = Some (num_of_nat 20185003460), fle_vram_total_b = Some (num_of_nat 51539607552),
      fle_disk_warning = True, fle_gpus = [], fle_updated_at = Some now_iso\<rparr>,
     \<lparr>fle_server_id = ''srv-dgx-a100'', fle_display_name = ''dgx-a100'',
      fle_ssh_endpoint = Some ''ops@dgx-a100:22'', fle_status = S_Online, fle_enabled = True,
      fle_os_pretty = Some ''Ubuntu 22.04.4 LTS'', fle_gpu_model = Some ''A100-SXM4-80GB'',
      fle_gpu_count = num_of_nat 8, fle_gpu_busy = num_of_nat 8, fle_gpu_free = num_of_nat 0,
      fle_cpu_percent = Some (Fin (876 / 10)), fle_memory_percent = Some (Fin (762 / 10)),
      fle_vram_used_b = Some (num_of_nat 627600000000), fle_vram_total_b = Some (num_of_nat 636800000000),
      fle_disk_warning = True, fle_gpus = [], fle_updated_at = Some now_iso\<rparr>,
     \<lparr>fle_server_id = ''srv-gpu-node-3'', fle_display_name = ''gpu-node-3'',
      fle_ssh_endpoint = Some ''demo@gpu-node-3:22'', fle_status = S_Offline, fle_enabled = True,
      fle_os_pretty = None, fle_gpu_model = None, fle_gpu_count = num_of_nat 0, fle_gpu_busy = num_of_nat 0,
      fle_gpu_free = num_of_nat 0, fle_cpu_percent = None, fle_memory_percent = None,
      fle_vram_used_b = None, fle_vram_total_b = None, fle_disk_warning = False, fle_gpus = [],
      fle_updated_at = Some now_iso\<rparr>]"

definition fixtureSnapshots :: "string \<Rightarrow> (string \<times> server_snapshot) list" where
  "fixtureSnapshots now_iso =
     [(''srv-lab-4090'', lab4090_snapshot now_iso), (''srv-dgx-a100'', dgx_snapshot now_iso),
      (''srv-gpu-node-3'', node3_snapshot now_iso)]"

definition fixtureFleetSummary :: "string \<Rightarrow> fleet_summary" where
  "fixtureFleetSummary now_iso = \<lparr>fls_generated_at = now_iso, fls_servers = fixtureFleetEntries now_iso\<rparr>"

subsection \<open>The samples agree with each other\<close>

text \<open>An entry of the summary describes the snapshot of its server.\<close>

definition entry_agrees :: "fleet_entry \<Rightarrow> server_snapshot \<Rightarrow> bool" where
  "entry_agrees e s \<longleftrightarrow>
     snap_server_id s = fle_server_id e \<and> snap_status s = fle_status e \<and>
     fle_gpu_count e = num_of_nat (length (snap_gpus s)) \<and>
     fle_gpu_free e = num_of_nat (length (filter (\<lambda>g. gpu_availability g = A_Free) (snap_gpus s))) \<and>
     fle_gpu_busy e = num_of_nat (length (filter (\<lambda>g. gpu_availability g \<noteq> A_Free) (snap_gpus s))) \<and>
     fle_cpu_percent e = Option.bind (snap_cpu s) cpu_percent \<and>
     fle_memory_percent e = Option.bind (snap_memory s) mem_percent \<and>
     fle_updated_at e = snap_generated_at s"

lemma upt8: "[0..<8] = [0, 1, 2, 3, 4, 5, 6, 7 :: nat]"
  by (simp add: upt_rec)

lemmas fixture_records = lab4090_snapshot_def dgx_snapshot_def node3_snapshot_def

lemma fixture_gpus:
  "length lab4090Gpus = 2" "map gpu_availability lab4090Gpus = [A_Active, A_Free]"
  "length dgxGpus = 8" "map gpu_availability dgxGpus = replicate 8 A_Saturated"
  by (simp_all add: lab4090Gpus_def dgxGpus_def o_def map_replicate_const)

lemma lab_entries_agree:
  "list_all (\<lambda>e. case map_of (fixtureSnapshots now_iso) (fle_server_id e) of
       Some s \<Rightarrow> entry_agrees e s | None \<Rightarrow> False) (fixtureFleetEntries now_iso)"
  by (simp add: fixtureFleetEntries_def fixtureSnapshots_def entry_agrees_def fixture_records lab4090Gpus_def
      dgxGpus_def upt8 num_of_nat_def)

lemma wf_lists:
  "list_all wfGpu lab4090Gpus" "list_all wfGpu dgxGpus"
  "list_all wfGpuProcess lab4090GpuProcesses" "list_all wfGpuProcess dgxGpuProcesses"
  "list_all wfProcess lab4090Processes" "list_all wfProcess dgxProcesses"
  by (simp_all add: lab4090Gpus_def dgxGpus_def lab4090GpuProcesses_def dgxGpuProcesses_def lab4090Processes_def
      dgxProcesses_def dgx_memory_def upt8 wfGpu_def wfGpuProcess_def wfProcess_def)

lemma fixture_snapshots_wf: "list_all (\<lambda>(i, s). wfServerSnapshot s \<and> snap_server_id s = i) (fixtureSnapshots now_iso)"
  by (simp add: fixtureSnapshots_def fixture_records wfServerSnapshot_def wf_lists wfCpu_def wfMemory_def
      wfStorageMount_def wfNetworkInterface_def wfSystem_def record_ok_def)

lemma fixture_fleet_wf: "wfFleetSummary (fixtureFleetSummary now_iso)"
  by (simp add: fixtureFleetSummary_def fixtureFleetEntries_def wfFleetSummary_def wfFleetEntry_def)

lemma fixture_servers_listed:
  "map srv_server_id fixtureServers = map fst (fixtureSnapshots now_iso)"
  "map fle_server_id (fixtureFleetEntries now_iso) = map srv_server_id fixtureServers"
  by (simp_all add: fixtureServers_def fixtureSnapshots_def fixtureFleetEntries_def)

subsection \<open>The generated history\<close>

definition hashSeed :: "string \<Rightarrow> 32 word" where
  "hashSeed key = foldl (\<lambda>hash c. (hash XOR of_nat (byte c)) * 16777619) 2166136261 key"

definition lcg :: "32 word \<Rightarrow> 32 word" where
  "lcg state = state * 1664525 + 1013904223"

definition lcg_value :: "32 word \<Rightarrow> rat" where
  "lcg_value state = of_nat (unat state) / 2 ^ 32"

definition clamp :: "rat \<Rightarrow> rat \<Rightarrow> rat \<Rightarrow> rat" where
  "clamp v low high = min high (max low v)"

record history_bases =
  hb_util :: rat
  hb_vram :: rat
  hb_temp :: rat
  hb_power :: rat

definition HISTORY_BASES :: "(string \<times> history_bases) list" where
  "HISTORY_BASES =
     [(''srv-lab-4090:0'', \<lparr>hb_util = 70, hb_vram = 758 / 10, hb_temp = 62, hb_power = 205\<rparr>),
      (''srv-lab-4090:1'', \<lparr>hb_util = 3, hb_vram = 27 / 10, hb_temp = 37, hb_power = 20\<rparr>)] @
     map (\<lambda>i. (''srv-dgx-a100:'' @ show_nat i,
              \<lparr>hb_util = 94 + of_nat (i mod 3), hb_vram = 98 - of_nat (i mod 2), hb_temp = 73,
               hb_power = 295 + of_nat i\<rparr>)) [0..<8]"

definition fixture_sample :: "(rat \<Rightarrow> rat) \<Rightarrow> rat \<Rightarrow> rat \<Rightarrow> rat \<Rightarrow> rat \<Rightarrow> nat \<Rightarrow> nat \<Rightarrow> rat \<Rightarrow> rat" where
  "fixture_sample sine base amp noise phase high i r =
     of_int (math_round
       (clamp (base + amp * sine (of_nat i / 11 + phase) + (r - 1 / 2) * noise) 0 (of_nat high) * 10)) / 10"

text \<open>The generator's state runs through the four series of a GPU.\<close>

primrec fixture_series ::
  "(rat \<Rightarrow> rat) \<Rightarrow> rat \<Rightarrow> rat \<Rightarrow> rat \<Rightarrow> rat \<Rightarrow> nat \<Rightarrow> nat list \<Rightarrow> 32 word \<Rightarrow> js_number list \<times> 32 word" where
  "fixture_series sine base amp noise phase high [] state = ([], state)"
| "fixture_series sine base amp noise phase high (i # is) state =
     (let state = lcg state; (xs, state') = fixture_series sine base amp noise phase high is state
      in (Fin (fixture_sample sine base amp noise phase high i (lcg_value state)) # xs, state'))"

definition fixtureGpuHistory :: "(rat \<Rightarrow> rat) \<Rightarrow> string \<Rightarrow> js_number \<Rightarrow> gpu_history_series" where
  "fixtureGpuHistory sine serverId gpuIndex =
     (let key = serverId @ '':'' @ number_string gpuIndex
      in case map_of HISTORY_BASES key of
           None \<Rightarrow> \<lparr>ghs_utilization = [], ghs_vram = [], ghs_temperature = [], ghs_power = []\<rparr>
         | Some bases \<Rightarrow>
             (let phase = of_nat (unat (hashSeed key) mod 628) / 100;
                  (utilization, state) = fixture_series sine (hb_util bases) 12 10 phase 100 [0..<120] (hashSeed key);
                  (vram, state) = fixture_series sine (hb_vram bases) (3 / 2) 1 (phase / 3) 100 [0..<120] state;
                  (temperature, state) = fixture_series sine (hb_temp bases) 4 2 (phase / 2) 100 [0..<120] state;
                  (power, state) = fixture_series sine (hb_power bases) 20 16 phase 600 [0..<120] state
              in \<lparr>ghs_utilization = utilization, ghs_vram = vram, ghs_temperature = temperature, ghs_power = power\<rparr>))"

text \<open>The generator is a permutation of its states, and its values lie in the unit interval.\<close>

lemma lcg_inverse: "(lcg state - 1013904223) * 4276115653 = state"
proof -
  have "(1664525 :: 32 word) * 4276115653 = 1" by simp
  then have "state * 1664525 * 4276115653 = state" by (simp only: mult.assoc mult_1_right)
  then show ?thesis by (simp add: lcg_def)
qed

lemma lcg_inj: "inj lcg"
  by (rule inj_on_inverseI) (rule lcg_inverse)

lemma lcg_value_unit: "0 \<le> lcg_value state \<and> lcg_value state < 1"
proof -
  have "of_nat (unat state) < (of_nat (2 ^ 32) :: rat)"
    using unsigned_less [of state, where ?'a = nat] by (simp only: of_nat_less_iff) simp
  moreover have "0 \<le> (of_nat (unat state) :: rat)" by (rule of_nat_0_le_iff)
  ultimately show ?thesis by (simp add: lcg_value_def)
qed

text \<open>A sample is a whole number of tenths between zero and the top of its metric.\<close>

fun sample_ok :: "nat \<Rightarrow> js_number \<Rightarrow> bool" where
  "sample_ok high (Fin q) \<longleftrightarrow> 0 \<le> q \<and> q \<le> of_nat high \<and> is_integer (Fin (q * 10))"
| "sample_ok high _ = False"

lemma fixture_sample_ok: "sample_ok high (Fin (fixture_sample sine base amp noise phase high i r))"
proof -
  let ?v = "clamp (base + amp * sine (of_nat i / 11 + phase) + (r - 1 / 2) * noise) 0 (of_nat high)"
  let ?m = "math_round (?v * 10)"
  have v: "0 \<le> ?v" "?v * 10 \<le> of_int (int high * 10)" by (auto simp: clamp_def)
  have "0 \<le> ?m" using v(1) by (simp add: math_round_nonneg)
  moreover have "?m \<le> int high * 10" using math_round_mono [OF v(2)] by (simp only: math_round_of_int)
  then have "(of_int ?m :: rat) \<le> of_int (int high * 10)" by (simp only: of_int_le_iff)
  ultimately show ?thesis using is_integer_num_of_int [of ?m]
    by (simp add: fixture_sample_def num_of_int_def)
qed

lemma fixture_series_ok:
  "length (fst (fixture_series sine base amp noise phase high is state)) = length is \<and>
   list_all (sample_ok high) (fst (fixture_series sine base amp noise phase high is state))"
  by (induction "is" arbitrary: state) (auto simp: Let_def case_prod_beta fixture_sample_ok simp del: sample_ok.simps)

lemma fixture_history_ok:
  "list_all (sample_ok 100) (ghs_utilization (fixtureGpuHistory sine serverId i)) \<and>
   list_all (sample_ok 100) (ghs_vram (fixtureGpuHistory sine serverId i)) \<and>
   list_all (sample_ok 100) (ghs_temperature (fixtureGpuHistory sine serverId i)) \<and>
   list_all (sample_ok 600) (ghs_power (fixtureGpuHistory sine serverId i))"
  by (simp add: fixtureGpuHistory_def Let_def case_prod_beta fixture_series_ok split: option.split)

lemma fixture_history_length:
  "length (ghs_utilization (fixtureGpuHistory sine serverId i)) =
     (if map_of HISTORY_BASES (serverId @ '':'' @ number_string i) = None then 0 else 120) \<and>
   length (ghs_vram (fixtureGpuHistory sine serverId i)) = length (ghs_utilization (fixtureGpuHistory sine serverId i)) \<and>
   length (ghs_temperature (fixtureGpuHistory sine serverId i)) = length (ghs_utilization (fixtureGpuHistory sine serverId i)) \<and>
   length (ghs_power (fixtureGpuHistory sine serverId i)) = length (ghs_utilization (fixtureGpuHistory sine serverId i))"
  by (simp add: fixtureGpuHistory_def Let_def case_prod_beta fixture_series_ok split: option.split)

end
