(* ===== verification/PreviewPage.thy ===== *)
theory PreviewPage
  imports Fixtures TelemetryViews Dictionaries
begin

text \<open>
  \<open>shell/PreviewPage.tsx\<close>: the design preview over the fixtures, composed from the same lanes,
  meters and cards as the pages.
\<close>

definition fixture_snapshot :: "string \<Rightarrow> string \<Rightarrow> server_snapshot option" where
  "fixture_snapshot now_iso serverId = map_of (fixtureSnapshots now_iso) serverId"

definition PREVIEW_MAX_LANES :: nat where "PREVIEW_MAX_LANES = 4"

definition TIMES :: string where "TIMES = [CHR 0xC3, CHR 0x97]"

record preview_head =
  pvh_dot :: dot_status
  pvh_ring :: bool
  pvh_name :: string
  pvh_endpoint :: string

record preview_panel =
  pvp_head :: preview_head
  pvp_platform :: string
  pvp_age :: string
  pvp_cpu :: meter_shown
  pvp_ram :: meter_shown
  pvp_disk :: bool
  pvp_lanes :: "gpu_lane list"
  pvp_more :: "string option"
  pvp_hero :: "(string \<times> string \<times> gpu_card) option"

datatype preview_server =
    Preview_Down preview_head string string
  | Preview_Up preview_panel

definition or_text :: "string option \<Rightarrow> string \<Rightarrow> string" where
  "or_text x d = (case x of Some s \<Rightarrow> s | None \<Rightarrow> d)"

definition preview_head_of :: "js_runtime \<Rightarrow> bool \<Rightarrow> server_record \<Rightarrow> server_snapshot \<Rightarrow> preview_head" where
  "preview_head_of rt up r s =
     \<lparr>pvh_dot = dotStatusFromServerStatus (snap_status s), pvh_ring = (\<not> up), pvh_name = srv_display_name r,
      pvh_endpoint =
        or_text (srv_username r) ''root'' @ ''@'' @ srv_ssh_host r @
        (if up then (case srv_port r of Some p \<Rightarrow> '':'' @ rt_number_string rt p | None \<Rightarrow> '''') else '''')\<rparr>"

definition preview_process :: "js_runtime \<Rightarrow> gpu_process_info \<Rightarrow> string list" where
  "preview_process rt p =
     [rt_number_string rt (gpp_pid p), or_text (gpp_user p) ''?'',
      or_text (gpp_command p) (or_text (gpp_process_name p) ''?''),
      (case gpp_used_memory_b p of
         Some (Fin b) \<Rightarrow> int_string rt (math_round (b / 10 ^ 9)) @ '' GB''
       | Some x \<Rightarrow> rt_number_string rt x @ '' GB''
       | None \<Rightarrow> ''N/A'')]"

definition preview_processes :: "js_runtime \<Rightarrow> server_snapshot \<Rightarrow> gpu_info \<Rightarrow> string list list" where
  "preview_processes rt s hero =
     map (preview_process rt)
       (take 3 (filter (\<lambda>p. gpu_uuid hero \<noteq> None \<and> gpp_gpu_uuid p = gpu_uuid hero
                        \<or> gpu_uuid hero = None \<and> gpp_gpu_index p = Some (gpu_index hero)) (snap_gpu_processes s)))"

definition preview_hero ::
  "js_runtime \<Rightarrow> dict \<Rightarrow> (rat \<Rightarrow> rat) \<Rightarrow> string \<Rightarrow> server_snapshot \<Rightarrow> (string \<times> string \<times> gpu_card) option" where
  "preview_hero rt t sine serverId s =
     (case snap_gpus s of
        [] \<Rightarrow> None
      | hero # _ \<Rightarrow>
          Some (t ''preview.gpuDetail'', tf (t ''preview.historyMeta'') [(''n'', ''120'')],
            GpuLaneExpanded rt t hero (Some (fixtureGpuHistory sine serverId (gpu_index hero)))
              (gpuOwners hero (snap_gpu_processes s)) (preview_processes rt s hero)))"

definition PreviewServer ::
  "js_runtime \<Rightarrow> dict \<Rightarrow> (rat \<Rightarrow> rat) \<Rightarrow> string \<Rightarrow> rat \<Rightarrow> string \<Rightarrow> preview_server option" where
  "PreviewServer rt t sine now_iso now serverId =
     (case (find (\<lambda>server. srv_server_id server = serverId) fixtureServers, fixture_snapshot now_iso serverId) of
        (Some r, Some s) \<Rightarrow>
          if snap_status s \<in> {S_Offline, S_Authentication_failed, S_Host_key_error}
          then Some (Preview_Down (preview_head_of rt False r s) (t ''tabs.serverUnreachable'')
                 (or_text (map_of (snap_errors s) ''gpu'') ''connection lost''))
          else
            (let gpus = snap_gpus s; visible = take PREVIEW_MAX_LANES gpus
             in Some (Preview_Up
                  \<lparr>pvp_head = preview_head_of rt True r s,
                   pvp_platform =
                     or_text (case gpus of [] \<Rightarrow> None | g # _ \<Rightarrow> gpu_name g) ''no GPU'' @ '' '' @ TIMES @
                     show_nat (length gpus) @ [CHR '' '', CHR 0xC2, CHR 0xB7, CHR '' ''] @
                     or_text (Option.bind (snap_system s) sys_os_pretty) ''unknown OS'',
                   pvp_age = formatRelative rt (map_option TsText (snap_generated_at s)) now,
                   pvp_cpu = meter_shown rt (Option.bind (snap_cpu s) cpu_percent) DEFAULT_SEGMENTS None None,
                   pvp_ram = meter_shown rt (Option.bind (snap_memory s) mem_percent) DEFAULT_SEGMENTS None None,
                   pvp_disk =
                     list_ex (\<lambda>mount. num_le (Fin 80) (case mnt_percent mount of Some p \<Rightarrow> p | None \<Rightarrow> Fin 0))
                       (snap_storage s),
                   pvp_lanes = map (\<lambda>gpu. GpuLane rt t False gpu (gpuOwners gpu (snap_gpu_processes s))) visible,
                   pvp_more =
                     (if length gpus > length visible
                      then Some (''+'' @ show_nat (length gpus - length visible) @ '' more'') else None),
                   pvp_hero = preview_hero rt t sine serverId s\<rparr>))
      | _ \<Rightarrow> None)"

text \<open>A list element that renders nothing is absent from the page.\<close>

definition PreviewPage ::
  "js_runtime \<Rightarrow> dict \<Rightarrow> (rat \<Rightarrow> rat) \<Rightarrow> string \<Rightarrow> rat \<Rightarrow> string \<times> preview_server list \<times> string \<times> string \<times> string" where
  "PreviewPage rt t sine now_iso now =
     (t ''preview.note'',
      map_non_null (\<lambda>server. PreviewServer rt t sine now_iso now (srv_server_id server)) fixtureServers,
      t ''preview.asyncStates'', t ''overview.noGpusReported'', t ''preview.noGpusHint'')"

lemma show_four: "show_nat 4 = ''4''"
  by (subst show_nat.simps) (simp add: char_of_def bit_0)

text \<open>The preview shows all three servers: two with panels, one as unreachable with its first error.\<close>

lemma preview_shows_all:
  "\<exists>a b head. fst (snd (PreviewPage rt t sine now_iso now)) =
     [Preview_Up a, Preview_Up b, Preview_Down head (t ''tabs.serverUnreachable'') SSH_CLOSED] \<and>
   length (pvp_lanes a) = 2 \<and> pvp_more a = None \<and> length (pvp_lanes b) = 4 \<and> pvp_more b = Some ''+4 more''"
  by (simp add: PreviewPage_def PreviewServer_def fixtureServers_def fixture_snapshot_def fixtureSnapshots_def
      fixture_records fixture_gpus PREVIEW_MAX_LANES_def or_text_def Let_def show_four)

end
