(* ===== verification/DialogFocus.thy ===== *)
theory DialogFocus
  imports Visuals
begin

text \<open>
  Where \<open>design/Dialog.tsx\<close> puts the keyboard focus: on the first text field of an opened dialog,
  and back where it was when the dialog closes. An element is a number; \<open>None\<close> stands for the
  document's body. \<open>fo_restore\<close> is \<open>restoreFocusRef\<close>, \<open>fo_frames\<close> are the animation frames the
  open dialogs still wait for, \<open>fo_items\<close> the focusable elements of each panel, \<open>fo_gone\<close> the elements no longer in the document, which \<open>focus\<close> ignores.
\<close>

datatype element_kind = Elem_Textarea | Elem_Select | Elem_Input string | Elem_Other

fun isTextEntry :: "element_kind \<Rightarrow> bool" where
  "isTextEntry Elem_Textarea = True"
| "isTextEntry Elem_Select = True"
| "isTextEntry (Elem_Input kind) = (kind \<notin> {''checkbox'', ''radio'', ''button'', ''submit'', ''hidden''})"
| "isTextEntry Elem_Other = False"

record focus_state =
  fo_stack :: dialogs
  fo_focus :: "nat option"
  fo_restore :: "nat \<rightharpoonup> nat"
  fo_frames :: "nat list"
  fo_items :: "nat \<Rightarrow> (nat \<times> element_kind) list"
  fo_gone :: "nat set"

definition focus_on :: "nat \<Rightarrow> focus_state \<Rightarrow> focus_state" where
  "focus_on x s = (if x \<in> fo_gone s then s else s\<lparr>fo_focus := Some x\<rparr>)"

definition initial_target :: "(nat \<times> element_kind) list \<Rightarrow> nat option" where
  "initial_target items =
     (case find (\<lambda>(x, kind). isTextEntry kind) items of
        Some (x, _) \<Rightarrow> Some x
      | None \<Rightarrow> (case items of [] \<Rightarrow> None | (x, _) # _ \<Rightarrow> Some x))"

definition panel :: "nat \<Rightarrow> focus_state \<Rightarrow> nat set" where
  "panel d s = fst ` set (fo_items s d)"

definition open_dialog :: "nat \<Rightarrow> focus_state \<Rightarrow> focus_state" where
  "open_dialog d s =
     s\<lparr>fo_stack := dialog_opened d (fo_stack s), fo_restore := (fo_restore s)(d := fo_focus s),
       fo_frames := fo_frames s @ [d]\<rparr>"

definition animation_frame :: "nat \<Rightarrow> focus_state \<Rightarrow> focus_state" where
  "animation_frame d s =
     (let s = s\<lparr>fo_frames := remove1 d (fo_frames s)\<rparr>
      in case initial_target (fo_items s d) of None \<Rightarrow> s | Some x \<Rightarrow> focus_on x s)"

text \<open>
  The browser takes the panel out of the document, and the focus with it when it is inside; then the
  clean-up of the effect runs. The body cannot take the focus, so restoring it changes nothing.
\<close>

definition panel_removed :: "nat \<Rightarrow> focus_state \<Rightarrow> focus_state" where
  "panel_removed d s =
     s\<lparr>fo_focus := (case fo_focus s of Some x \<Rightarrow> if x \<in> panel d s then None else Some x | None \<Rightarrow> None),
       fo_gone := fo_gone s \<union> panel d s\<rparr>"

definition close_dialog :: "nat \<Rightarrow> focus_state \<Rightarrow> focus_state" where
  "close_dialog d s =
     (let s = panel_removed d s;
          s = s\<lparr>fo_stack := dialog_cleanup d (fo_stack s), fo_frames := filter (\<lambda>x. x \<noteq> d) (fo_frames s)\<rparr>
      in case fo_restore s d of None \<Rightarrow> s | Some x \<Rightarrow> focus_on x s)"

text \<open>What happens between the opening and the closing of a dialog: frames, moves of the focus, renders
  of the panels, other dialogs that open and close.\<close>

inductive nested :: "nat \<Rightarrow> focus_state \<Rightarrow> focus_state \<Rightarrow> bool" for d where
  nested_refl: "nested d s s"
| nested_frame: "nested d s s' \<Longrightarrow> nested d s (animation_frame e s')"
| nested_move: "nested d s s' \<Longrightarrow> nested d s (s'\<lparr>fo_focus := x\<rparr>)"
| nested_open: "nested d s s' \<Longrightarrow> e \<noteq> d \<Longrightarrow> nested d s (open_dialog e s')"
| nested_close: "nested d s s' \<Longrightarrow> e \<noteq> d \<Longrightarrow> nested d s (close_dialog e s')"
| nested_items: "nested d s s' \<Longrightarrow> nested d s (s'\<lparr>fo_items := items\<rparr>)"

lemma focus_on_keeps [simp]:
  "fo_restore (focus_on x s) = fo_restore s" "fo_gone (focus_on x s) = fo_gone s" "fo_stack (focus_on x s) = fo_stack s"
  "fo_frames (focus_on x s) = fo_frames s" "fo_items (focus_on x s) = fo_items s"
  by (simp_all add: focus_on_def)

lemma nested_keeps: "nested d s s' \<Longrightarrow> fo_restore s' d = fo_restore s d"
  by (induction rule: nested.induct)
    (auto simp: animation_frame_def open_dialog_def close_dialog_def panel_removed_def Let_def split: option.splits)

text \<open>
  Closing a dialog gives the focus back to the element that had it at the opening, whatever was done
  in between, provided the element is still in the document and not part of the panel.
\<close>

lemma focus_restored:
  assumes "nested d (open_dialog d s) s'" "fo_focus s = Some x" "x \<notin> fo_gone s'" "x \<notin> panel d s'"
  shows "fo_focus (close_dialog d s') = Some x"
  using nested_keeps [OF assms(1)] assms(2-4)
  by (simp add: close_dialog_def open_dialog_def panel_removed_def focus_on_def Let_def)

text \<open>The frame puts the focus on a text field when there is one.\<close>

lemma first_text_field:
  assumes "(x, kind0) \<in> set (fo_items s d)" "isTextEntry kind0" "fo_gone s \<inter> panel d s = {}"
  shows "\<exists>y kind. fo_focus (animation_frame d s) = Some y \<and> (y, kind) \<in> set (fo_items s d) \<and> isTextEntry kind"
proof -
  have "find (\<lambda>(x, kind). isTextEntry kind) (fo_items s d) \<noteq> None"
    using assms(1,2) by (auto simp: find_None_iff)
  then obtain y b where y: "find (\<lambda>(x, kind). isTextEntry kind) (fo_items s d) = Some (y, b)" by auto
  then obtain i where "i < length (fo_items s d)" "(y, b) = fo_items s d ! i" "isTextEntry b"
    unfolding find_Some_iff by (metis (mono_tags, lifting) case_prod_conv)
  then have "isTextEntry b" "(y, b) \<in> set (fo_items s d)" by simp_all
  then have "\<exists>kind. (y, kind) \<in> set (fo_items s d) \<and> isTextEntry kind" "y \<notin> fo_gone s"
    using assms(3) by (force simp: panel_def)+
  then show ?thesis using y by (simp add: animation_frame_def initial_target_def focus_on_def Let_def)
qed

text \<open>
  Dialogs that close out of order take the focus with them: when the lower of two dialogs closes
  first, the focus leaves the upper one, which is still open, for the page behind it.
\<close>

lemma lower_closes_first:
  assumes "fo_focus s = Some x" "x \<notin> fo_gone s" "x \<notin> panel d s" "d \<noteq> e"
  defines "s' \<equiv> animation_frame e (open_dialog e (animation_frame d (open_dialog d s)))"
  shows "fo_focus (close_dialog d s') = Some x"
proof (rule focus_restored [of d s])
  show "nested d (open_dialog d s) s'"
    unfolding s'_def using assms(4) by (intro nested_frame nested_open nested_refl) simp
  show "x \<notin> fo_gone s'" "x \<notin> panel d s'"
    using assms(2,3) by (auto simp: s'_def animation_frame_def open_dialog_def panel_def Let_def split: option.splits)
qed (rule assms(1))

end
