(* ===== verification/TableViews.thy ===== *)
theory TableViews
  imports TelemetryViews WorkspaceTabs
begin

text \<open>
  The two tables whose rows carry a menu: the processes of a server with the confirmation of an
  action (\<open>features/server/ProcessesTab.tsx\<close>), and the placements of a project
  (\<open>features/workspace/PlacementTable.tsx\<close>). A menu is the list of its labels with what choosing
  each of them does.
\<close>

subsection \<open>The processes table\<close>

record process_row =
  pw_cells :: "string list"
  pw_vram :: "string option"
  pw_command :: string
  pw_menu :: "(string \<times> processes_event) list"
  pw_trigger :: string

definition ProcessRow :: "js_runtime \<Rightarrow> dict \<Rightarrow> process_info \<Rightarrow> process_row" where
  "ProcessRow rt t proc =
     \<lparr>pw_cells =
        [number_string (prc_pid proc), or_dash (prc_user proc), or_dash (prc_name proc),
         formatPercent rt (prc_cpu_percent proc) 1, formatPercent rt (prc_mem_percent proc) 1,
         formatBytes rt (prc_rss_b proc),
         (if prc_gpu_indexes proc \<noteq> [] then join '', '' (map number_string (prc_gpu_indexes proc)) else EM_DASH),
         or_dash (prc_state proc)],
      pw_vram = (if prc_gpu_vram_b proc \<noteq> None then Some (formatBytes rt (prc_gpu_vram_b proc)) else None),
      pw_command = or_dash (prc_command proc),
      pw_menu =
        [(t ''processes.terminate'', Pe_Ask Pa_Terminate proc), (t ''processes.kill'', Pe_Ask Pa_Kill proc)],
      pw_trigger = tf (t ''processes.rowActions'') [(''pid'', number_string (prc_pid proc))]\<rparr>"

datatype aria_sort = Aria_None | Aria_Ascending | Aria_Descending

definition ARROW_DOWN :: string where "ARROW_DOWN = bytes [32, 226, 134, 147]"
definition ARROW_UP :: string where "ARROW_UP = bytes [32, 226, 134, 145]"

fun sort_text :: "dict \<Rightarrow> process_sort_key \<Rightarrow> string" where
  "sort_text t Ps_Cpu = t ''processes.colCpu''"
| "sort_text t Ps_Mem = t ''processes.colMem''"
| "sort_text t Ps_Rss = t ''processes.colRss''"

definition sort_header :: "dict \<Rightarrow> process_sort \<Rightarrow> process_sort_key \<Rightarrow> aria_sort \<times> string \<times> processes_event" where
  "sort_header t s key =
     ((if psr_key s = key then if \<not> psr_desc s then Aria_Ascending else Aria_Descending else Aria_None),
      sort_text t key @ (if psr_key s = key then if psr_desc s then ARROW_DOWN else ARROW_UP else ''''),
      Pe_Sort key)"

definition sort_headers :: "dict \<Rightarrow> process_sort \<Rightarrow> (aria_sort \<times> string \<times> processes_event) list" where
  "sort_headers t s = map (sort_header t s) [Ps_Cpu, Ps_Mem, Ps_Rss]"

datatype processes_body =
    Processes_Empty string string
  | Processes_NoMatch string string
  | Processes_Table "(aria_sort \<times> string \<times> processes_event) list" "process_row list"

record confirm_view =
  cfv_title :: string
  cfv_lead :: string
  cfv_command :: "string option"
  cfv_hint :: string
  cfv_error :: "string option"

record processes_view =
  psv_toast :: "string option"
  psv_meta :: "string option"
  psv_body :: processes_body
  psv_confirm :: "confirm_view option"

definition confirm_view :: "dict \<Rightarrow> processes_tab \<Rightarrow> process_action \<Rightarrow> process_info \<Rightarrow> confirm_view" where
  "confirm_view t s action p =
     \<lparr>cfv_title = confirmLabel t action (prc_pid p),
      cfv_lead = dialogLead t action (prc_pid p) (prc_name p) (pt_serverName s),
      cfv_command = prc_command p, cfv_hint = actionSignalHint t action, cfv_error = pt_actionError s\<rparr>"

definition processes_view :: "js_runtime \<Rightarrow> dict \<Rightarrow> (string \<Rightarrow> string) \<Rightarrow> processes_tab \<Rightarrow> processes_view" where
  "processes_view rt t lower s =
     \<lparr>psv_toast = pt_toast s,
      psv_meta =
        (if pt_processes s \<noteq> []
         then Some (processes_meta t (length (filtered_processes lower (pt_gpuOnly s) (pt_query s) (pt_processes s))))
         else None),
      psv_body =
        (if pt_processes s = [] then Processes_Empty (t ''processes.empty'') (t ''processes.emptyHint'')
         else if tab_visible lower s = [] then Processes_NoMatch (t ''processes.noMatch'') (t ''processes.noMatchHint'')
         else Processes_Table (sort_headers t (pt_sort s)) (map (ProcessRow rt t) (tab_visible lower s))),
      psv_confirm =
        (case pt_confirm s of None \<Rightarrow> None | Some (action, p) \<Rightarrow> Some (confirm_view t s action p))\<rparr>"

text \<open>The table says how many rows match and shows all of them up to the cap.\<close>

lemma table_rows:
  assumes "psv_body (processes_view rt t lower s) = Processes_Table headers rows"
  shows "length rows =
     min ROW_CAP (length (filtered_processes lower (pt_gpuOnly s) (pt_query s) (pt_processes s)))" "rows \<noteq> []"
  using assms
  by (auto simp: processes_view_def tab_visible_def visible_processes_def sorted_processes_def min.commute
      split: if_splits)

text \<open>One column is marked as sorted, and choosing it again turns the direction.\<close>

lemma one_column_sorted:
  "map fst (filter (\<lambda>h. fst h \<noteq> Aria_None) (sort_headers t s)) =
     [if psr_desc s then Aria_Descending else Aria_Ascending]"
  "fst (sort_header t (toggleSort (psr_key s) s) (psr_key s)) =
     (if psr_desc s then Aria_Ascending else Aria_Descending)"
  by (cases "psr_key s"; simp add: sort_headers_def sort_header_def)
    (simp add: sort_header_def toggleSort_def)

text \<open>Every choice of a row's menu is an event of the tab, and opens the confirmation for that row.\<close>

lemma row_menu_enabled:
  assumes "psv_body (processes_view rt t lower s) = Processes_Table headers rows"
    and "row \<in> set rows" "(label, e) \<in> set (pw_menu row)" "pt_confirm s = None"
  shows "processes_enabled lower e s \<and>
    (\<exists>action p. row = ProcessRow rt t p \<and>
      psv_confirm (processes_view rt t lower (processes_apply t e s)) =
        Some (confirm_view t (s\<lparr>pt_actionError := None\<rparr>) action p))"
proof -
  have rows: "rows = map (ProcessRow rt t) (tab_visible lower s)"
    using assms(1) by (simp add: processes_view_def split: if_splits)
  then obtain p where p: "p \<in> set (tab_visible lower s)" "row = ProcessRow rt t p"
    using assms(2) by auto
  then obtain action where e: "e = Pe_Ask action p"
    using assms(3) by (auto simp: ProcessRow_def)
  have "psv_confirm (processes_view rt t lower (processes_apply t e s)) =
      Some (confirm_view t (s\<lparr>pt_actionError := None\<rparr>) action p)"
    by (simp add: e processes_view_def ask_action_def confirm_view_def)
  then show ?thesis using p e assms(4) by auto
qed

subsection \<open>The placement table\<close>

datatype placement_choice = Plm_Edit placement_record | Plm_Remove placement_record | Plm_Sync placement_record

definition RowMenu ::
  "dict \<Rightarrow> server_record list \<Rightarrow> bool \<Rightarrow> placement_record \<Rightarrow> (string \<times> placement_choice) list \<times> string" where
  "RowMenu t servers can_sync p =
     ([(t ''common.edit'', Plm_Edit p), (t ''common.remove'', Plm_Remove p)] @
      (if can_sync then [(t ''workspace.syncTo'', Plm_Sync p)] else []),
      tf (t ''workspace.placementActions'')
        [(''server'', case find (\<lambda>s. srv_server_id s = plc_server_id p) servers of
            Some s \<Rightarrow> srv_display_name s | None \<Rightarrow> plc_server_id p)])"

record placement_line =
  pls_server :: string
  pls_unknown :: "string option"
  pls_path :: string
  pls_inspection :: "(chip_tone \<times> string \<times> string list) option"
  pls_failure :: "string option"
  pls_button :: "string \<times> bool"
  pls_menu :: "(string \<times> placement_choice) list \<times> string"

definition placement_line ::
  "js_runtime \<Rightarrow> dict \<Rightarrow> rat \<Rightarrow> server_record list \<Rightarrow> workspace_store \<Rightarrow> bool \<Rightarrow> placement_record \<Rightarrow> placement_line" where
  "placement_line rt t now servers w can_sync p =
     (let row = placement_row servers w p
      in \<lparr>pls_server = row_server row,
          pls_unknown = (if row_unknown row then Some (t ''workspace.unknownServer'') else None),
          pls_path = row_path row,
          pls_inspection =
            map_option (\<lambda>i. (stateTone (ins_state i), stateLabel t (ins_state i), inspection_facts rt t now i))
              (row_inspection row),
          pls_failure = (if row_failure row \<noteq> '''' then Some (row_failure row) else None),
          pls_button = (if row_busy row then t ''workspace.inspecting'' else t ''workspace.inspect'', \<not> row_busy row),
          pls_menu = RowMenu t servers can_sync p\<rparr>)"

record artifact_shown =
  ats_name :: string
  ats_count :: string
  ats_empty :: "string option"
  ats_rows :: "placement_line list"

definition PlacementTable ::
  "js_runtime \<Rightarrow> dict \<Rightarrow> rat \<Rightarrow> server_record list \<Rightarrow> workspace_store \<Rightarrow> bool \<Rightarrow>
   artifact_record list \<Rightarrow> placement_record list \<Rightarrow> (string \<times> artifact_shown list) list" where
  "PlacementTable rt t now servers w can_sync artifacts placements =
     map (\<lambda>(kind, members).
        (tf (t ''workspace.matrixGroupCount'') [(''label'', kindLabel t kind), (''n'', show_nat (length members))],
         map (\<lambda>(a, rows).
            \<lparr>ats_name = artifactLabel a,
             ats_count = tf (t ''workspace.placementCount'') [(''n'', show_nat (length rows))],
             ats_empty = (if rows = [] then Some (t ''workspace.noPlacements'') else None),
             ats_rows = map (placement_line rt t now servers w can_sync) rows\<rparr>) members))
       (placement_groups artifacts placements)"

text \<open>Each placement of a listed artifact has exactly one row in the table, whatever its kind.\<close>

lemma one_artifact_rows:
  assumes "distinct (map art_artifact_id as)"
  shows "mset (concat (map (\<lambda>a. filter (\<lambda>p. plc_artifact_id p = art_artifact_id a) ps) as)) =
    mset (filter (\<lambda>p. plc_artifact_id p \<in> art_artifact_id ` set as) ps)"
  using assms
proof (induction as)
  case (Cons a as)
  have "filter_mset (\<lambda>p. plc_artifact_id p \<in> art_artifact_id ` set (a # as)) (mset ps) =
      filter_mset (\<lambda>p. plc_artifact_id p = art_artifact_id a) (mset ps) +
      filter_mset (\<lambda>p. plc_artifact_id p \<in> art_artifact_id ` set as) (mset ps)"
    using Cons.prems by (induction ps) auto
  with Cons show ?case by simp
qed simp

lemma concat_concat_map: "concat (map (\<lambda>x. concat (map g (f x))) xs) = concat (map g (concat (map f xs)))"
  by (induction xs) simp_all

lemma by_artifact_rows:
  "(case by_artifact ps i of Some l \<Rightarrow> l | None \<Rightarrow> []) = filter (\<lambda>p. plc_artifact_id p = i) ps"
  by (simp add: by_artifact_eq Let_def)

lemma group_members: "mset (concat (map snd (groupArtifactsByKind artifacts))) = mset artifacts"
proof -
  have split: "mset artifacts = mset (filter (\<lambda>a. art_kind a = Kind_Code) artifacts) +
      (mset (filter (\<lambda>a. art_kind a = Kind_Dataset) artifacts) +
       mset (filter (\<lambda>a. art_kind a = Kind_Model) artifacts))"
  proof (induction artifacts)
    case (Cons a artifacts)
    then show ?case by (cases "art_kind a") auto
  qed simp
  have parts: "concat (map snd (groupArtifactsByKind artifacts)) =
      filter (\<lambda>a. art_kind a = Kind_Code) artifacts @ filter (\<lambda>a. art_kind a = Kind_Dataset) artifacts @
      filter (\<lambda>a. art_kind a = Kind_Model) artifacts"
    by (simp add: groupArtifactsByKind_def by_kind_eq Let_def)
  show ?thesis unfolding parts mset_append by (rule split [symmetric])
qed

definition table_placements ::
  "artifact_record list \<Rightarrow> placement_record list \<Rightarrow> placement_record list" where
  "table_placements artifacts placements =
     concat (map (\<lambda>(kind, members). concat (map snd members)) (placement_groups artifacts placements))"

lemma table_rows_shown:
  "concat (map (\<lambda>(head, groups). concat (map ats_rows groups))
      (PlacementTable rt t now servers w can_sync artifacts placements)) =
   map (placement_line rt t now servers w can_sync) (table_placements artifacts placements)"
  by (simp add: PlacementTable_def table_placements_def map_concat o_def split_beta)

lemma placements_shown_once:
  assumes "distinct (map art_artifact_id artifacts)"
  shows "mset (table_placements artifacts placements) =
    mset (filter (\<lambda>p. plc_artifact_id p \<in> art_artifact_id ` set artifacts) placements)"
proof -
  define as where "as = concat (map snd (groupArtifactsByKind artifacts))"
  have same: "mset as = mset artifacts" by (simp add: as_def group_members)
  have "table_placements artifacts placements =
      concat (map (\<lambda>a. filter (\<lambda>p. plc_artifact_id p = art_artifact_id a) placements) as)"
    by (simp add: table_placements_def placement_groups_def by_artifact_rows as_def split_beta o_def
        map_concat concat_concat_map)
  moreover have "distinct (map art_artifact_id as)"
    using assms same by (metis mset_eq_imp_distinct_iff mset_map)
  moreover have "set as = set artifacts" using same by (rule mset_eq_setD)
  ultimately show ?thesis by (simp add: one_artifact_rows)
qed

end
