(* ===== verification/FormViews.thy ===== *)
theory FormViews
  imports LocalAuth TransferDialog Format
begin

text \<open>
  What two dialogs show of their state: the authentication facts and the password row of the server
  dialog (\<open>LocalAuthSection\<close> in \<open>features/settings/ServerDialog.tsx\<close>), and the plan of the new
  transfer dialog (\<open>features/transfers/NewTransferDialog.tsx\<close>). A button is its label with the
  event it causes and whether it is disabled.
\<close>

subsection \<open>The password section\<close>

definition AuthRow :: "string \<Rightarrow> string \<Rightarrow> bool \<Rightarrow> string \<times> string \<times> bool" where
  "AuthRow label value ok = (label, value, ok)"

definition auth_rows :: "dict \<Rightarrow> server_auth_status \<Rightarrow> (string \<times> string \<times> bool) list" where
  "auth_rows t auth =
     [AuthRow (t ''serverAuth.sshConfig'')
        (if sas_ssh_config_used auth then t ''serverAuth.sshConfigMatched'' else t ''serverAuth.sshConfigNotMatched'')
        (sas_ssh_config_used auth),
      AuthRow (t ''serverAuth.identity'')
        (if num_pos (sas_identity_files auth)
         then tf (t ''serverAuth.identityConfigured'') [(''n'', number_string (sas_identity_files auth))]
         else t ''serverAuth.identityNone'')
        (num_pos (sas_identity_files auth)),
      AuthRow (t ''serverAuth.agent'')
        (if sas_agent_available auth then t ''serverAuth.agentAvailable'' else t ''serverAuth.agentUnavailable'')
        (sas_agent_available auth),
      AuthRow (t ''serverAuth.proxyJump'')
        (if sas_proxy_jump_configured auth then t ''serverAuth.proxyJumpOn'' else t ''serverAuth.proxyJumpOff'')
        False]"

type_synonym password_button = "string \<times> la_event \<times> bool"

datatype password_row =
    Row_Unset string "password_button list"
  | Row_Set string string "password_button list"
  | Row_Editor string "password_button list"

fun storage_text :: "dict \<Rightarrow> password_storage option \<Rightarrow> string" where
  "storage_text t (Some P_Session_only) = t ''serverAuth.storageSession''"
| "storage_text t (Some P_System_keyring) = t ''serverAuth.storageKeyring''"
| "storage_text t None = ''''"

definition clear_buttons :: "dict \<Rightarrow> local_auth \<Rightarrow> password_button list" where
  "clear_buttons t s =
     (if la_confirmingClear s
      then [(t ''serverAuth.clearPasswordConfirm'', La_Clear, la_busy s),
            (t ''common.cancel'', La_AskClear False, la_busy s)]
      else [(t ''serverAuth.clearPassword'', La_AskClear True, la_busy s)])"

definition password_row :: "dict \<Rightarrow> server_auth_status \<Rightarrow> local_auth \<Rightarrow> password_row" where
  "password_row t auth s =
     (if la_editing s then
        Row_Editor (la_password s)
          [((if la_ui s = Ui_Saving then t ''serverAuth.passwordSaving'' else t ''serverAuth.passwordSave''),
             La_Save, la_busy s \<or> la_password s = ''''),
           (t ''common.cancel'', La_Cancel, la_busy s)]
      else if la_configured s then
        Row_Set (t ''serverAuth.passwordSet'') (storage_text t (sas_password_storage auth))
          ((t ''serverAuth.replacePassword'', La_Edit, la_busy s) # clear_buttons t s)
      else Row_Unset (t ''serverAuth.passwordUnset'') [(t ''serverAuth.setPassword'', La_Edit, la_busy s)])"

fun row_actions :: "password_row \<Rightarrow> password_button list" where
  "row_actions (Row_Unset _ bs) = bs"
| "row_actions (Row_Set _ _ bs) = bs"
| "row_actions (Row_Editor _ bs) = bs"

datatype auth_view =
    Auth_Error string string string
  | Auth_Skeleton
  | Auth_Facts "(string \<times> string \<times> bool) list" password_row "string option"

definition auth_view :: "dict \<Rightarrow> local_auth \<Rightarrow> auth_view" where
  "auth_view t s =
     (case la_authError s of
        Some detail \<Rightarrow> Auth_Error (t ''serverAuth.passwordLoadFailed'') detail (t ''common.retry'')
      | None \<Rightarrow>
          (case la_auth s of
             None \<Rightarrow> Auth_Skeleton
           | Some auth \<Rightarrow>
               Auth_Facts (auth_rows t auth) (password_row t auth s)
                 (map_option (\<lambda>e. password_error_word t s @ '': '' @ e) (la_actionError s))))"

text \<open>The buttons on screen are the actions of the section: an enabled button is an event it takes.\<close>

lemma buttons_are_events:
  assumes "auth_view t s = Auth_Facts rows row error" "(label, e, disabled) \<in> set (row_actions row)"
  shows "la_enabled e s \<longleftrightarrow> \<not> disabled"
proof -
  obtain auth where auth: "la_authError s = None" "la_auth s = Some auth" "row = password_row t auth s"
    using assms(1) by (auto simp: auth_view_def split: option.splits)
  then have "la_shown s" by (simp add: la_shown_def)
  then show ?thesis using assms(2) auth(3)
    by (auto simp: password_row_def clear_buttons_def split: if_splits)
qed

text \<open>The editor is the only row that holds a password, and the text of no other row depends on it.\<close>

lemma password_only_in_editor:
  assumes "\<not> la_editing s"
  shows "auth_view t (s\<lparr>la_password := p\<rparr>) = auth_view t s"
  using assms
  by (simp add: auth_view_def password_row_def clear_buttons_def la_configured_def la_busy_def
      password_error_word_def split: option.splits)

text \<open>
  The line of a refused save outlives its editor: cancelling leaves the error on screen, under a row
  that says the password is as it was.
\<close>

lemma error_outlives_editor:
  assumes "la_shown s" "la_lastAction s = Some Pw_Save" "la_pending s = [Call_SetPassword p]"
    and "setPassword net (la_serverId s) p = Inl cause"
  shows "\<exists>rows row. auth_view t (la_apply La_Cancel (la_apply (La_Answer 0 net) s)) =
    Auth_Facts rows row (Some (t ''serverAuth.passwordSaveFailed'' @ '': '' @ ae_detail cause))"
  using assms
  by (auto simp: la_shown_def auth_view_def la_answer_def save_password_done_def cancel_password_def
      password_error_word_def Let_def)

subsection \<open>The plan of a transfer\<close>

record plan_shown =
  pv_direct :: "chip_tone \<times> string"
  pv_direct_reason :: "string option"
  pv_setup :: "string list"
  pv_relay :: "chip_tone \<times> string"
  pv_reason :: "string option"
  pv_space :: "string option"
  pv_space_warning :: bool
  pv_excludes :: "string list"

definition availability_chip :: "dict \<Rightarrow> bool \<Rightarrow> chip_tone \<times> string" where
  "availability_chip t available =
     (if available then Tone_Ok else Tone_Crit,
      if available then t ''transfers.available'' else t ''transfers.unavailable'')"

definition plan_shown :: "js_runtime \<Rightarrow> dict \<Rightarrow> transfer_form \<Rightarrow> transfer_plan \<Rightarrow> plan_shown" where
  "plan_shown rt t d plan =
     \<lparr>pv_direct = availability_chip t (directAvailable plan),
      pv_direct_reason =
        (if directAvailable plan then None
         else Some (tf (t ''transfers.reasonLead'')
           [(''text'', case reasonText t (pln_direct_auth_reason plan) of
               Some text \<Rightarrow> text | None \<Rightarrow> t ''transfers.authFailReason'')])),
      pv_setup =
        (if \<not> directAvailable plan \<and> directPair d \<and> setupReasonAllowed (pln_direct_auth_reason plan)
         then t ''transfers.configureDirect'' # (if nt_directChanged d then [t ''transfers.replan''] else [])
         else []),
      pv_relay = availability_chip t (relayAvailable plan),
      pv_reason = (if pln_reason plan \<noteq> '''' then Some (pln_reason plan) else None),
      pv_space =
        (if pln_space_warning plan \<noteq> '''' then Some (pln_space_warning plan)
         else if pln_target_free_b plan \<noteq> None
         then Some (tf (t ''transfers.targetFree'') [(''size'', formatBytes rt (pln_target_free_b plan))])
         else None),
      pv_space_warning = (pln_space_warning plan \<noteq> ''''),
      pv_excludes = pln_excludes plan\<rparr>"

definition plan_panel ::
  "js_runtime \<Rightarrow> dict \<Rightarrow> transfer_form \<Rightarrow> (string option \<times> plan_shown option \<times> string option) option" where
  "plan_panel rt t d =
     (if nt_planning d \<or> nt_plan d \<noteq> None \<or> nt_planError d \<noteq> None
      then Some
        (if nt_planning d then Some (t ''transfers.planning'') else None,
         map_option (plan_shown rt t d) (nt_plan d), plan_error_shown d)
      else None)"

definition submit_button :: "dict \<Rightarrow> transfer_form \<Rightarrow> string \<times> bool" where
  "submit_button t d =
     (if nt_creating d then t ''transfers.creating'' else t ''transfers.create'', create_disabled d)"

text \<open>A direct path that is not available always says why, and offers its set-up as the dialog does.\<close>

lemma plan_explains:
  assumes "nt_plan d = Some plan"
  shows "\<exists>busy shown. plan_panel rt t d = Some (busy, Some shown, None) \<and>
    (pv_direct_reason shown = None \<longleftrightarrow> directAvailable plan) \<and>
    (pv_setup shown \<noteq> [] \<longleftrightarrow> setup_offered d) \<and>
    (t ''transfers.replan'' \<in> set (tl (pv_setup shown)) \<longleftrightarrow> replan_offered d)"
  using assms by (auto simp: plan_panel_def plan_error_shown_def plan_shown_def setup_offered_def replan_offered_def)

end
