(* ===== verification/Spec2Isabelle.thy ===== *)
theory Spec2Isabelle
  imports WorkspaceApi Routes Api Connection ConsoleStore TransferStore WorkspaceStore SyncDialog
    Preferences Visuals Fleet ServerDialog LocalAuth DirectAuth SettingsPage MachinePanel ServerPage
    TransferDialog PageProperties PreviewPage DialogFocus
    TableViews FormViews
begin

text \<open>
  A model of the frontend of the SSH GPU console (\<open>src/frontend/src\<close>), the program that
  shows a fleet of GPU servers and manages projects, artifacts and file transfers between them.

  \<^bold>\<open>Parts and how they interact.\<close> The backend speaks JSON over REST and a websocket.
  Responses and frames pass the boundary normalizers (\<open>services/normalize.ts\<close>, theories
  \<open>Json\<close>, \<open>Normalize\<close>; the two other clients have their own) before any store sees them. The
  clients (\<open>services/api.ts\<close>, \<open>transfersApi.ts\<close>, \<open>workspaceApi.ts\<close>: theories \<open>Http\<close>,
  \<open>Api\<close>, \<open>TransfersApi\<close>, \<open>WorkspaceApi\<close>) are functions of a \<open>network\<close>, from the request to
  what the browser delivers. The realtime client (\<open>services/realtime.ts\<close>, theory \<open>Realtime\<close>)
  keeps one websocket open and pushes frames into the console store
  (\<open>store/consoleStore.ts\<close>, theory \<open>ConsoleStore\<close>), which also owns the route
  (\<open>shell/routes.ts\<close>, theories \<open>Uri\<close>, \<open>Routes\<close>). The transfer and workspace stores
  (\<open>store/transferStore.ts\<close>, \<open>store/workspaceStore.ts\<close>, theories \<open>TransferStore\<close>,
  \<open>WorkspaceStore\<close>) serve the pages; \<open>SyncDialog\<close> models the dialog that spans both
  (\<open>features/workspace/SyncDialog.tsx\<close>). \<open>Format\<close>, \<open>Preferences\<close>, \<open>Visuals\<close> and \<open>Fleet\<close>
  model the formatters and the shared clock (\<open>utils/\<close>, \<open>i18n/\<close>), the stored preferences
  (\<open>utils/theme.ts\<close>, \<open>i18n/locale.ts\<close>, \<open>utils/sections.ts\<close>), the display primitives
  (\<open>design/\<close>, \<open>gpu/\<close>) and the fleet page (\<open>features/fleet/\<close>). The forms and
  dialogs keep state and requests of their own: \<open>ServerForm\<close>, \<open>ServerDialog\<close>, \<open>LocalAuth\<close> and
  \<open>DirectAuth\<close> model \<open>features/settings/ServerDialog.tsx\<close> and the pair rows in it,
  \<open>SettingsPage\<close> the page that opens it, \<open>MachinePanel\<close> the menu of a fleet panel,
  \<open>Processes\<close> and \<open>ServerPage\<close> the pages of one server (\<open>features/server/\<close>),
  \<open>TransferDialog\<close> the dialog that plans and creates a transfer
  (\<open>features/transfers/NewTransferDialog.tsx\<close>), \<open>SetupDialog\<close> the direct-transfer dialog opened
  from it, \<open>Transfers\<close> the page and its rows. Of \<open>features/workspace\<close>, \<open>SaveForm\<close> holds the
  machine that the five add/edit dialogs instantiate (\<open>WorkspaceForms\<close>, \<open>LaunchForm\<close>, over the
  helpers of \<open>WorkspaceShared\<close>), \<open>RemoveDialog\<close> the confirmation that removes a record,
  \<open>WorkspaceTabs\<close> the list tabs and the placement table, \<open>RootsEditor\<close> the page and its editor
  of server roots, \<open>ProjectDetail\<close> the parts of a project's page and
  \<open>ProjectPage\<close> the whole of it: the stores, the watch over a batch and seven overlays in one state.
  \<open>Shell\<close> is the frame around the pages
  (\<open>App.tsx\<close>, \<open>shell/\<close>, \<open>design/Menu.tsx\<close>). What the pages show is composed in
  \<open>TelemetryViews\<close> (lanes, meters and the tabs of a server, the panel of a machine), \<open>SyncView\<close> (the
  rows and controls of the sync dialog), \<open>TableViews\<close> (processes and placements), \<open>FormViews\<close> (the
  password section and the plan of a transfer) and \<open>PageViews\<close> (fleet, server, settings and project
  pages).
  \<open>DictionaryEn\<close> and \<open>DictionaryZh\<close> are the texts of \<open>i18n/en.ts\<close> and \<open>i18n/zh.ts\<close>; every view
  takes the dictionary as a parameter, which \<open>Dictionaries\<close> instantiates for the chosen language.
  \<open>Fixtures\<close> holds the samples of \<open>data/fixtures.ts\<close> and their generated history, \<open>PreviewPage\<close> the
  page that shows them, \<open>DialogFocus\<close> where a modal dialog puts the keyboard focus.
  \<open>PageProperties\<close> states the properties of the workspace and transfers pages and of the views,
  this theory those of the rest. \<open>Connection\<close> is the abstract machine the realtime client
  refines. \<open>Prelude\<close>, \<open>Loader\<close>,
  \<open>StableSort\<close>, \<open>Requests\<close>, \<open>Doubles\<close> (the printing and reading of numbers) and \<open>NumberInput\<close> (what
  the browser lets through and checks in a number field) hold what the parts share. \<open>Models\<close>, \<open>TransferTypes\<close>, \<open>WorkspaceTypes\<close> are the record types of
  \<open>types/\<close>.

  \<^bold>\<open>Conventions.\<close> A TypeScript interface is a record, a string union a datatype with a table of
  its names, \<open>null\<close> or \<open>undefined\<close> is \<open>None\<close>. Strings are lists of bytes in UTF-8. A number is
  a \<open>js_number\<close>: a finite value (an exact rational; the code's arithmetic on measurements is
  modelled without rounding, but for the sums and literals of theory \<open>Doubles\<close>), an infinity or
  NaN. A rejected promise is \<open>Inl\<close> of an
  \<open>ApiError\<close>. An asynchronous action \<open>f\<close> is split where it waits: \<open>f\<close> or \<open>f_start\<close> up to
  the request, which joins a list of requests in flight, and \<open>f_done\<close> from the response on. The
  dialogs follow the same pattern (\<open>_enabled\<close>, \<open>_apply\<close>, \<open>_step\<close>, \<open>_reach\<close>): a control acts only
  when the view shows it enabled, answers come in any order, and React's effects are functions of
  the render they belong to (\<open>run_effects\<close>). A form with number fields submits only while the browser
  finds their values within \<open>min\<close>, \<open>max\<close> and \<open>step\<close> (\<open>server_native_ok\<close>, \<open>launch_native\<close>), before any
  check of the code. An overlay covers the page behind it: that the buttons of a project's page wait
  until no overlay stands is \<open>page_free\<close>, a fact of the screen and no condition of the handlers.
  Step relations (\<open>rt_step\<close>, \<open>console_step\<close>, \<open>transfer_step\<close>, \<open>workspace_step\<close>) let the
  views call any action and the browser deliver any answer, socket event or timer in any order;
  \<open>_reach\<close> are the states reachable by them. Engine functions that only pass data on (JSON
  text, number printing, date parsing) are the parameter \<open>js_runtime\<close>; the collation of names is
  a parameter with its law \<open>collation\<close>.

  \<^bold>\<open>Interfaces.\<close> \<open>wire_model\<close> (a normalizer accepts only well-formed records and inverts the
  wire form) and \<open>identified_model\<close> are interpreted for every record; \<open>wire_enum\<close> for every
  string union; \<open>transport\<close> for the three request helpers; \<open>telemetry_source\<close> for the console
  client; \<open>loader\<close> (loading flag, data and error of one request) for the loads of the three
  stores; \<open>collection\<close> for the four lists of the workspace store; \<open>select_channel\<close> for the
  realtime client, which the console store relies on; \<open>stored_preference\<close> for theme and locale;
  \<open>sort_order\<close> for the comparator of the fleet; \<open>save_dialog\<close> for the five add/edit dialogs.

  \<^bold>\<open>What the lemmas show.\<close> Routes and percent encoding round trip. Normalizers are idempotent
  and total. The realtime client never holds two live sockets, backs off exponentially, is
  silent once stopped, and repeats the selection on every connection. The stores keep their
  invariants in every reachable state: well-formed data, selection equal to route, one poll
  timer, loading flags backed by requests in flight. The history is a sliding window of the
  accepted samples. Formatters never invent values. Sorting is sorted, stable and unique. The
  realtime client refines a machine of five states. What a backend serves under an id is what the client reads back. The
  dialogs send only valid bodies and patches, never hang, keep a password to its editor, save an
  unedited record unchanged exactly where the form can show it, and show a plan only for
  the form on screen. The workspace dialogs send only requests that pass their forms; the roots
  editor awaits one save at most; the placement table shows every placement of a listed artifact
  once; the project page reads its distribution again when its
  batch settles; the transfers page shows every job once; a lane says N/A exactly where nothing was
  reported; a project's page shows one overlay at a time and runs each dialog as it runs alone; parameters that fill a text in one
  language fill it in the other; a closing dialog gives the focus back; the samples are well-formed and
  agree with each other. Some theorems state misbehaviour that the comments of the code exclude:
  overlapping plan requests, a sync dialog that can never choose the only enabled server,
  a stale plan after reopening, a poll timer armed again after \<open>stopPolling\<close>, freshness labels
  computed from a tick counter, an untracked system theme, answers that reach a dialog which by then
  shows another server, a kill confirmation that follows the route, a typed path overwritten, edits
  lost under a save, numbers the browser accepts and the form marks as invalid saved as none, a removed record offered for editing, an
  edited project overwritten by the reload its own page caused.

  \<^bold>\<open>Bounds.\<close> No fuel is used: every function terminates by its structure or a measure. The
  history limit (120), backoff base and cap (1 s, 30 s), attempt cap (10), poll period and
  thresholds are the code's constants.

  \<^bold>\<open>Not modelled.\<close> Rendering (JSX, CSS, SVG) beyond the texts, rows and buttons the theories name,
  the message of the browser under a field it refuses and a field left with a text that is no number,
  the entry point \<open>main.tsx\<close> (it mounts the application), the icons, and the Python backend (another
  language; here it is the network).
\<close>

section \<open>Routes\<close>

text \<open>C1: every route that names its objects by non-empty well-formed ids survives printing as a hash
  and parsing the hash again.\<close>

theorem routes_roundtrip:
  assumes "route_ok r"
  shows "parseHash (routeToHash r) = r"
  using assms by (rule parse_print)

lemma routes_roundtrip_witness:
  "parseHash (routeToHash (RServer ''a/b #1'' Tab_Gpus)) = RServer ''a/b #1'' Tab_Gpus"
proof (rule routes_roundtrip)
  have "id_ok ''a/b #1''" by code_simp
  then show "route_ok (RServer ''a/b #1'' Tab_Gpus)" by simp
qed

text \<open>Parsing is stable: whatever the address bar holds, the hash the application prints for
  the route it read reads as the same route.\<close>

theorem parse_stable:
  assumes "valid_utf8 h"
  shows "parseHash (routeToHash (parseHash h)) = parseHash h"
  using assms by (rule parse_print_parse)

lemma parse_stable_witness:
  "parseHash (routeToHash (parseHash ''#/server/%zz/nowhere'')) = parseHash ''#/server/%zz/nowhere''"
proof (rule parse_stable)
  show "valid_utf8 ''#/server/%zz/nowhere''" by code_simp
qed

section \<open>The realtime client\<close>

text \<open>C2: at any moment a running client has either one current socket or one armed reconnect timer,
  a stopped client has neither, and no other socket is connecting or open: a reconnect never opens a
  second live connection.\<close>

theorem one_connection:
  assumes "rt_reach rt url c"
  shows "(if rc_stopped c then rc_socket c = None \<and> rc_reconnectTimer c = None
          else (rc_socket c = None) \<noteq> (rc_reconnectTimer c = None))
    \<and> (\<forall>i < length (rc_sockets c). live (ready c i) \<longrightarrow> rc_socket c = Some i)"
  using rt_inv_reach [OF assms] by (simp add: rt_inv_def inv_progress_def inv_socket_def)

definition started_client :: realtime_client where
  "started_client = start False (RealtimeClient None ''ws://host/api/v1/realtime'')"

lemma one_connection_witness:
  "(rc_socket started_client = None) \<noteq> (rc_reconnectTimer started_client = None)"
proof -
  have "rt_step plain_runtime (RealtimeClient None ''ws://host/api/v1/realtime'') (EvStart False)
      (rt_apply plain_runtime (EvStart False) (RealtimeClient None ''ws://host/api/v1/realtime''))"
    by (rule rt_stepI) simp
  then have reach: "rt_reach plain_runtime ''ws://host/api/v1/realtime'' started_client"
    unfolding started_client_def using rt_next [OF rt_init] by fastforce
  have "\<not> rc_stopped started_client"
    by (simp add: started_client_def start_def open_socket_def emitState_def RealtimeClient_def Let_def)
  then show ?thesis using one_connection [OF reach] by simp
qed

text \<open>After a run of failed connection attempts the next delay is the base delay doubled once per
  failure, capped at the maximum.\<close>

theorem reconnect_backoff:
  assumes "\<not> rc_stopped c" "rc_socket c = None" "rc_attempt c = min a MAX_ATTEMPT" "ts \<noteq> []"
  shows "rc_reconnectTimer (fold failed_attempt ts c) =
           Some (min BACKOFF_MAX_MS (BACKOFF_BASE_MS * 2 ^ (a + length ts - 1)))"
  using failed_attempts_delay [OF assms(1-3), of ts] assms(4) by blast

lemma reconnect_backoff_witness:
  "rc_reconnectTimer (fold failed_attempt [False, True, False]
      ((RealtimeClient None ''ws://host'')\<lparr>rc_stopped := False\<rparr>)) =
     Some (min BACKOFF_MAX_MS (BACKOFF_BASE_MS * 2 ^ (0 + length [False, True, False] - 1)))"
  by (rule reconnect_backoff) (simp_all add: RealtimeClient_def)

text \<open>C4: after \<open>stop()\<close>, until the next \<open>start()\<close>, no event (late socket events included) tells a
  listener anything or opens a socket.\<close>

theorem stop_is_silent:
  assumes "rt_reach rt url c" "rc_stopped c" "rt_step rt c e c'" "\<not> (\<exists>b. e = EvStart b)"
  shows "rc_stopped c' \<and> rc_frameLog c' = rc_frameLog c \<and> rc_stateLog c' = rc_stateLog c
         \<and> length (rc_sockets c') = length (rc_sockets c)"
  using stopped_silent [OF rt_inv_reach [OF assms(1)] assms(2,3)] assms(4) by blast

definition fresh_client :: realtime_client where
  "fresh_client = RealtimeClient None ''ws://host''"

definition fresh_client_selected :: realtime_client where
  "fresh_client_selected = rt_apply plain_runtime (EvSelect (Some ''s'')) fresh_client"

lemma stop_is_silent_witness:
  "rc_stopped fresh_client_selected \<and> rc_frameLog fresh_client_selected = rc_frameLog fresh_client \<and> rc_stateLog fresh_client_selected = rc_stateLog fresh_client
         \<and> length (rc_sockets fresh_client_selected) = length (rc_sockets fresh_client)"
proof (rule stop_is_silent)
  show "rt_reach plain_runtime ''ws://host'' fresh_client" unfolding fresh_client_def by (rule rt_init)
  show "rc_stopped fresh_client" by (simp add: fresh_client_def RealtimeClient_def)
  show "rt_step plain_runtime fresh_client (EvSelect (Some ''s'')) fresh_client_selected" unfolding fresh_client_selected_def by (rule rt_stepI) simp
qed simp

section \<open>The console store\<close>

text \<open>A connected console whose servers were requested, for the witnesses.\<close>

definition connected_console :: console_app where
  "connected_console = connect False (console_init ''#/server/alpha/gpus'' ''ws://host'')"

lemma connected_console_reach: "console_reach plain_runtime connected_console"
proof -
  have "console_step plain_runtime (console_init ''#/server/alpha/gpus'' ''ws://host'')
      (console_apply plain_runtime (CvConnect False) (console_init ''#/server/alpha/gpus'' ''ws://host''))"
    by (rule console_stepI) simp
  then show ?thesis unfolding connected_console_def
    using console_reach_step [OF console_reach_init] by fastforce
qed

text \<open>C5: the selected server and tab are always those of the route, and once connected the server at
  the other end of an open socket was last told exactly the selected server, whatever the order of
  navigation, socket events and responses.\<close>

theorem selection_follows_route:
  assumes "console_reach rt a"
  shows "cs_selectedServerId (app_store a) = route_server (cs_route (app_store a))
    \<and> (case cs_route (app_store a) of RServer i t \<Rightarrow> cs_selectedTab (app_store a) = t | _ \<Rightarrow> True)
    \<and> (if cs_connected (app_store a)
       then (case rc_socket (app_realtime a) of
               Some i \<Rightarrow> (if ready (app_realtime a) i = OPEN
                         then last_select (sent (app_realtime a) i) = Some (cs_selectedServerId (app_store a))
                         else True)
             | None \<Rightarrow> True)
       else True)"
  using app_inv_reach [OF assms]
  by (auto simp: app_inv_def selection_inv_def channel_inv_def rt_inv_def inv_intent_def rt_intent_def
      split: route.splits option.splits if_splits)

lemma selection_follows_route_witness:
  "cs_selectedServerId (app_store connected_console) = route_server (cs_route (app_store connected_console))"
  using selection_follows_route [OF connected_console_reach] by blast

lemma history_series_ok: "data_inv s \<Longrightarrow> series_ok (history_series (cs_history s) i k m)"
  using history_ok_empty [unfolded history_ok_def]
  by (auto simp: data_inv_def history_series_def history_ok_def split: option.split)

text \<open>C6: everything the store holds was accepted by the normalizers: server records, the fleet
  summary and every snapshot, which is filed under its own server id; every history series has at
  most 120 finite samples.\<close>

theorem telemetry_well_formed:
  assumes "console_reach rt a"
  shows "list_all wfServerRecord (cs_servers (app_store a))
    \<and> opt_ok wfFleetSummary (cs_fleetSummary (app_store a))
    \<and> opt_ok (\<lambda>snap. wfServerSnapshot snap \<and> snap_server_id snap = i) (cs_snapshots (app_store a) i)
    \<and> series_ok (history_series (cs_history (app_store a)) i k m)"
proof -
  have inv: "data_inv (app_store a)" using app_inv_reach [OF assms] by (simp add: app_inv_def)
  then have "opt_ok (\<lambda>snap. wfServerSnapshot snap \<and> snap_server_id snap = i) (cs_snapshots (app_store a) i)"
    by (cases "cs_snapshots (app_store a) i") (auto simp: data_inv_def)
  then show ?thesis using inv history_series_ok [OF inv] by (simp add: data_inv_def)
qed

lemma telemetry_well_formed_witness:
  "series_ok (history_series (cs_history (app_store connected_console)) ''alpha'' (Fin 0) SM_Power)"
  using telemetry_well_formed [OF connected_console_reach] by blast

text \<open>C7: the GPU history is a sliding window: after any snapshots, each series holds the last 120
  finite samples of the snapshots that did not repeat their server's timestamp.\<close>

theorem history_window:
  "history_series (cs_history (fold ingestSnapshot snaps createConsoleStore)) i k m =
     lastn 120 (recorded i k m (accepted Map.empty snaps))"
  using history_window_gen [of createConsoleStore i k m "[]" snaps]
  by (simp add: createConsoleStore_def history_series_def gpu_series_def HISTORY_LIMIT_def)

text \<open>A snapshot seen twice, from the socket and from a fetch, is recorded once.\<close>

theorem snapshot_recorded_once:
  assumes "snap_generated_at snap \<noteq> None"
  shows "ingestSnapshot snap (ingestSnapshot snap s) = ingestSnapshot snap s"
  using assms by (rule ingest_twice)

definition sample_snapshot :: server_snapshot where
  "sample_snapshot =
     \<lparr>snap_server_id = ''alpha'', snap_status = S_Online, snap_generated_at = Some ''2026-01-01T00:00:00Z'',
      snap_cpu = None, snap_memory = None, snap_gpus = [], snap_gpu_processes = [], snap_processes = [],
      snap_storage = [], snap_network = [], snap_system = None, snap_errors = [], snap_stale = False\<rparr>"

lemma snapshot_recorded_once_witness:
  "ingestSnapshot sample_snapshot (ingestSnapshot sample_snapshot createConsoleStore) =
   ingestSnapshot sample_snapshot createConsoleStore"
  by (rule snapshot_recorded_once) (simp add: sample_snapshot_def)

text \<open>C8: a loading flag is raised only while its request is in flight, and never next to an error:
  the list and fleet views cannot hang in their loading state.\<close>

theorem loading_ends:
  assumes "console_reach rt a" "app_pending a = []"
  shows "\<not> cs_serversLoading (app_store a) \<and> \<not> cs_fleetLoading (app_store a)"
  using app_inv_reach [OF assms(1)] assms(2) by (auto simp: app_inv_def flags_inv_def)

definition answered_console :: console_app where
  "answered_console =
     console_apply plain_runtime (CvReply 0 offline)
       (console_apply plain_runtime CvLoadServers (console_init ''#/fleet'' ''ws://host''))"

lemma loading_ends_witness:
  "cs_serversLoading (app_store (loadServers (console_init ''#/fleet'' ''ws://host''))) \<and>
   \<not> cs_serversLoading (app_store answered_console)"
proof -
  have start: "app_pending (console_init ''#/fleet'' ''ws://host'') = []" by (simp add: console_init_def)
  have 1: "console_reach plain_runtime (console_apply plain_runtime CvLoadServers (console_init ''#/fleet'' ''ws://host''))"
    by (rule console_reach_step [OF console_reach_init console_stepI]) simp
  have 2: "console_reach plain_runtime answered_console" unfolding answered_console_def
    by (rule console_reach_step [OF 1 console_stepI]) (simp add: loadServers_def await_request_def set_store_def)
  have "app_pending answered_console = []"
    by (simp add: answered_console_def loadServers_def await_request_def set_store_def start remove_nth_def)
  moreover have "cs_serversLoading (app_store (loadServers (console_init ''#/fleet'' ''ws://host'')))"
    by (simp add: loadServers_def await_request_def set_store_def)
  ultimately show ?thesis using loading_ends [OF 2] by blast
qed

section \<open>The wire format and the clients\<close>

text \<open>C9: the snapshot normalizer only lets well-formed snapshots through, and what it accepted it
  accepts again, unchanged, from its own wire form.\<close>

theorem snapshot_normal_form:
  assumes "normalizeServerSnapshot raw = Some snap"
  shows "wfServerSnapshot snap \<and> normalizeServerSnapshot (Some (wireServerSnapshot snap)) = Some snap"
  using wire_server_snapshot.norm_wf [OF assms] wire_server_snapshot.norm_idem [OF assms] by blast

lemma snapshot_normal_form_witness:
  "normalizeServerSnapshot (Some (wireServerSnapshot sample_snapshot)) = Some sample_snapshot"
proof -
  have "wfServerSnapshot sample_snapshot" by (simp add: sample_snapshot_def wfServerSnapshot_def)
  then have "normalizeServerSnapshot (Some (wireServerSnapshot sample_snapshot)) = Some sample_snapshot"
    by (rule wire_server_snapshot.norm_wire)
  from snapshot_normal_form [OF this] show ?thesis by blast
qed








text \<open>Percent encoding is invertible on well-formed strings, and its output has no delimiter a
  path or a hash would be cut at.\<close>

theorem encoding_roundtrip:
  assumes "valid_utf8 s"
  shows "decodeURIComponent (encodeURIComponent s) = Some s
    \<and> CHR ''/'' \<notin> set (encodeURIComponent s) \<and> CHR ''#'' \<notin> set (encodeURIComponent s)"
  using decode_encode [OF assms] encode_chars [of _ s] by blast

lemma encoding_roundtrip_witness:
  "decodeURIComponent (encodeURIComponent ''a/b#c d'') = Some ''a/b#c d''"
proof -
  have "valid_utf8 ''a/b#c d''" by code_simp
  from encoding_roundtrip [OF this] show ?thesis by blast
qed

section \<open>Transfers\<close>

lemma transfer_steps:
  "transfer_reach rt s \<Longrightarrow> transfer_enabled e s \<Longrightarrow> transfer_reach rt (transfer_apply rt e s)"
  by (rule transfer_reach_step [OF _ transfer_stepI])

text \<open>C11: the poll timer never leaks: there is at most one interval armed, it is the one the store
  knows, \<open>polling\<close> tells whether there is one, it is only armed while a job or batch is active, and
  each loading flag has its request in flight.\<close>

theorem one_poll_timer:
  assumes "transfer_reach rt s"
  shows "tf_intervals s = (case tf_timer s of Some t \<Rightarrow> [t] | None \<Rightarrow> [])
    \<and> tf_polling s = (tf_timer s \<noteq> None)
    \<and> (if tf_polling s then any_active s else True)
    \<and> (if tf_loading s then CallListJobs \<in> set (tf_pending s) else True)
    \<and> (if tf_batchesLoading s then CallListBatches \<in> set (tf_pending s) else True)"
  using transfer_inv_reach [OF assms] by (auto simp: transfer_inv_defs timer_wf_def)

lemma one_poll_timer_witness:
  "tf_intervals (loadJobs (createTransferStore ''#/transfers'')) = []"
proof -
  have "transfer_reach plain_runtime (loadJobs (createTransferStore ''#/transfers''))"
    using transfer_steps [OF transfer_reach_init, of TvLoadJobs] by simp
  from one_poll_timer [OF this] show ?thesis
    by (simp add: loadJobs_def call_def createTransferStore_def)
qed

text \<open>C12: polling never stacks requests: through any ticks and list answers, the list requests in flight
  grow by at most one, and by none while the store is already marked as loading; the same of the
  batches. With none in flight at the start there is never more than one.\<close>

theorem ticks_do_not_stack:
  assumes "poll_run rt s t"
  shows "count_list (tf_pending t) CallListJobs + (if tf_loading t then 0 else 1)
      \<le> count_list (tf_pending s) CallListJobs + (if tf_loading s then 0 else 1)
    \<and> count_list (tf_pending t) CallListBatches + (if tf_batchesLoading t then 0 else 1)
      \<le> count_list (tf_pending s) CallListBatches + (if tf_batchesLoading s then 0 else 1)"
  using load_run [OF assms] by (simp add: jobs_load_def batches_load_def)

definition polled_store :: transfer_store where
  "polled_store =
     (createTransferStore ''#/transfers'')\<lparr>tf_intervals := [0], tf_timer := Some 0, tf_polling := True\<rparr>"

definition ticked_store :: transfer_store where
  "ticked_store = transfer_apply plain_runtime (TvTick 0) (transfer_apply plain_runtime (TvTick 0) polled_store)"

lemma ticks_do_not_stack_witness:
  "count_list (tf_pending ticked_store) CallListJobs \<le> 1 \<and> CallListJobs \<in> set (tf_pending ticked_store)
   \<and> count_list (tf_pending (transfer_apply plain_runtime (TvReply 0 offline) ticked_store)) CallListJobs \<le> 1"
proof -
  have once: "poll_run plain_runtime polled_store (transfer_apply plain_runtime (TvTick 0) polled_store)"
    by (rule poll_step [OF poll_refl transfer_stepI]) (simp_all add: polled_store_def)
  have twice: "poll_run plain_runtime polled_store ticked_store" unfolding ticked_store_def
    by (rule poll_step [OF once transfer_stepI])
      (simp_all add: polled_store_def tick_def loadJobs_def fetchBatches_def call_def createTransferStore_def)
  have sent: "tf_pending ticked_store = [CallListJobs, CallListBatches]"
    by (simp add: ticked_store_def polled_store_def tick_def loadJobs_def fetchBatches_def call_def
        createTransferStore_def)
  have answered: "poll_run plain_runtime polled_store
      (transfer_apply plain_runtime (TvReply 0 offline) ticked_store)"
    by (rule poll_step [OF twice transfer_stepI]) (simp_all add: sent)
  have idle: "count_list (tf_pending polled_store) CallListJobs = 0" "\<not> tf_loading polled_store"
    by (simp_all add: polled_store_def createTransferStore_def)
  show ?thesis
    using ticks_do_not_stack [OF twice] ticks_do_not_stack [OF answered] idle sent by simp
qed

text \<open>C13: polling ends by itself: once the two lists come back without an active job or batch the timer
  is gone.\<close>

theorem polling_stops:
  assumes "transfer_reach rt s" "\<not> any_active (s\<lparr>tf_jobs := js, tf_batches := bs\<rparr>)"
  shows "\<not> tf_polling (fetchBatches_done (Inr bs) (loadJobs_done (Inr js) s))"
  using polling_ends [OF transfer_inv_reach [OF assms(1)] assms(2)] .

lemma polling_stops_witness:
  "\<not> tf_polling (fetchBatches_done (Inr []) (loadJobs_done (Inr []) (createTransferStore ''#/fleet'')))"
  by (rule polling_stops [OF transfer_reach_init [of plain_runtime]]) (simp add: any_active_def)

section \<open>The workspace\<close>

lemma workspace_steps:
  "workspace_reach rt s \<Longrightarrow> workspace_enabled e s \<Longrightarrow> workspace_reach rt (workspace_apply rt e s)"
  by (rule workspace_reach_step [OF _ workspace_stepI])

text \<open>C14: no loading indicator of the workspace, of a list, a server's roots, a placement, a project,
  the sync plan or the sync itself, stays up when every request has been answered.\<close>

theorem workspace_idle:
  assumes "workspace_reach rt s" "wk_pending s = []"
  shows "\<not> raised f s"
  using assms by (rule idle_when_answered)

lemma workspace_idle_witness:
  "\<not> raised FlProjects (ws_answer plain_runtime 0 offline (ws_start WcListProjects createWorkspaceStore))"
proof -
  have 1: "workspace_reach plain_runtime (ws_start WcListProjects createWorkspaceStore)"
    using workspace_steps [OF workspace_reach_init, of "WvStart WcListProjects"] by simp
  have 2: "workspace_reach plain_runtime
      (ws_answer plain_runtime 0 offline (ws_start WcListProjects createWorkspaceStore))"
    using workspace_steps [OF 1, of "WvReply 0 offline"]
    by (simp add: loadProjects_def ws_call_def createWorkspaceStore_def)
  show ?thesis
    by (rule workspace_idle [OF 2])
      (simp add: ws_answer_def workspace_reply_def loadProjects_def ws_call_def createWorkspaceStore_def
        loadProjects_done_def split: sum.split)
qed

text \<open>C15: the placement table loses nothing and repeats nothing: the rows under all its kinds and
  artifacts are, in some order, the lines of exactly those placements whose artifact the project lists,
  each once. Artifact ids are keys of the backend's table, so they are distinct.\<close>

theorem placement_rows_complete:
  assumes "distinct (map art_artifact_id artifacts)"
  shows "mset (concat (map (\<lambda>(head, groups). concat (map ats_rows groups))
      (PlacementTable rt t now servers w can_sync artifacts placements))) =
    mset (map (placement_line rt t now servers w can_sync)
      (filter (\<lambda>p. plc_artifact_id p \<in> art_artifact_id ` set artifacts) placements))"
  unfolding table_rows_shown using placements_shown_once [OF assms] by simp

definition table_artifact :: "string \<Rightarrow> artifact_kind \<Rightarrow> artifact_record" where
  "table_artifact i kind =
     \<lparr>art_artifact_id = i, art_kind = kind, art_name = i, art_version = None, art_description = '''',
      art_immutable = True, art_created_at = '''', art_updated_at = ''''\<rparr>"

definition table_placement :: "string \<Rightarrow> string \<Rightarrow> placement_record" where
  "table_placement i artifact =
     \<lparr>plc_placement_id = i, plc_artifact_id = artifact, plc_server_id = ''alpha'',
      plc_remote_path = ''/data'', plc_created_at = '''', plc_updated_at = ''''\<rparr>"

lemma placement_rows_complete_witness:
  "mset (concat (map (\<lambda>(head, groups). concat (map ats_rows groups))
      (PlacementTable plain_runtime (\<lambda>path. path) 0 [] createWorkspaceStore True
        [table_artifact ''weights'' Kind_Model, table_artifact ''trainer'' Kind_Code]
        [table_placement ''1'' ''weights'', table_placement ''2'' ''trainer'', table_placement ''3'' ''gone'']))) =
   {#placement_line plain_runtime (\<lambda>path. path) 0 [] createWorkspaceStore True (table_placement ''1'' ''weights''),
     placement_line plain_runtime (\<lambda>path. path) 0 [] createWorkspaceStore True (table_placement ''2'' ''trainer'')#}"
proof -
  have "distinct (map art_artifact_id [table_artifact ''weights'' Kind_Model, table_artifact ''trainer'' Kind_Code])"
    by (simp add: table_artifact_def)
  from placement_rows_complete [OF this, of plain_runtime "\<lambda>path. path" 0 "[]" createWorkspaceStore True
      "[table_placement ''1'' ''weights'', table_placement ''2'' ''trainer'', table_placement ''3'' ''gone'']"]
  show ?thesis by (simp add: table_artifact_def table_placement_def)
qed

text \<open>C16: deleting an artifact removes its placements and their inspections and leaves the other
  placements and inspections as they are.\<close>

theorem artifact_deletion:
  assumes "p \<in> set (wk_placements s)" "distinct (map plc_placement_id (wk_placements s))"
  shows "if plc_artifact_id p = a
    then p \<notin> set (wk_placements (deleteArtifact_done a s))
         \<and> wk_inspections (deleteArtifact_done a s) (plc_placement_id p) = None
    else p \<in> set (wk_placements (deleteArtifact_done a s))
         \<and> wk_inspections (deleteArtifact_done a s) (plc_placement_id p) = wk_inspections s (plc_placement_id p)"
  using deleteArtifact_cascade [OF assms(1), of a] deleteArtifact_keeps [OF assms(1) _ assms(2), of a]
  by (cases "plc_artifact_id p = a") simp_all

definition sample_placement :: "string \<Rightarrow> string \<Rightarrow> placement_record" where
  "sample_placement i a =
     \<lparr>plc_placement_id = i, plc_artifact_id = a, plc_server_id = ''alpha'', plc_remote_path = ''/data'',
      plc_created_at = '''', plc_updated_at = ''''\<rparr>"

definition two_placements :: workspace_store where
  "two_placements = createWorkspaceStore\<lparr>wk_placements := [sample_placement ''p1'' ''a1'', sample_placement ''p2'' ''a2'']\<rparr>"

lemma artifact_deletion_witness:
  "sample_placement ''p2'' ''a2'' \<in> set (wk_placements (deleteArtifact_done ''a1'' two_placements))"
  using artifact_deletion [of "sample_placement ''p2'' ''a2''" two_placements "''a1''"]
  by (simp add: two_placements_def sample_placement_def)

text \<open>C17: \<open>confirm\<close> is only offered for a valid plan of the store without an unresolved item and
  with something to transfer, and a second press while the sync runs changes nothing.\<close>

theorem confirm_needs_plan:
  "if canConfirm (sy_store d)
   then (case wk_syncPlan (sy_store d) of
           None \<Rightarrow> False
         | Some plan \<Rightarrow> psp_valid plan \<and> psp_error plan = ''''
             \<and> filter (\<lambda>item. asi_action item = Act_Unresolved) (psp_items plan) = []
             \<and> filter (\<lambda>item. asi_action item = Act_Transfer) (psp_items plan) \<noteq> [])
        \<and> (sy_targetServerId d = '''' \<or> press_confirm (press_confirm d) = press_confirm d)
   else press_confirm d = d"
proof (cases "canConfirm (sy_store d)")
  case True
  have "sy_targetServerId d = '''' \<or> press_confirm (press_confirm d) = press_confirm d"
    using confirm_once [of d] by blast
  then show ?thesis using True canConfirm_plan [OF True] by (auto simp: filter_empty_conv)
qed (simp add: press_confirm_def)

text \<open>C18: two plan requests that overlap leave the older one's plan next to the newer target: the dialog
  shows target \<open>b\<close>, offers to confirm the plan that was built for target \<open>a\<close>, and confirming
  it starts a sync to \<open>b\<close>.\<close>

theorem overlapping_plans:
  fixes d :: sync_dialog and plan :: project_sync_plan
  assumes "sy_open d" "b \<noteq> ''''" "a \<noteq> ''''" "a \<noteq> b" "sy_targetServerId d \<noteq> a" "\<not> wk_syncRunning (sy_store d)"
    and "psp_valid plan" "psp_error plan = ''''"
      "filter (\<lambda>item. asi_action item = Act_Unresolved) (psp_items plan) = []"
      "filter (\<lambda>item. asi_action item = Act_Transfer) (psp_items plan) \<noteq> []"
  defines "d' \<equiv> in_store (buildSyncPlan_done (Inr plan)) (choose_target b (choose_target a d))"
  shows "wk_syncPlan (sy_store d') = Some plan \<and> sy_targetServerId d' = b \<and> canConfirm (sy_store d')
     \<and> (\<exists>rest. wk_pending (sy_store (press_confirm d')) =
          rest @ [WcSyncPlan (sy_projectId d) (target_request a), WcSyncPlan (sy_projectId d) (target_request b),
                  WcSync (sy_projectId d) (target_request b)])"
  unfolding d'_def using assms(1-10) by (rule overlapping_choices)

definition sample_plan :: project_sync_plan where
  "sample_plan =
     \<lparr>psp_project_id = ''p'', psp_target_server_id = ''a'', psp_generated_at = '''', psp_refresh_code = False,
      psp_items =
        [\<lparr>asi_artifact_id = ''x'', asi_artifact_label = ''x'', asi_artifact_kind = ''dataset'',
          asi_target_status = D_Missing, asi_action = Act_Transfer, asi_reason = '''',
          asi_source_placement_id = None, asi_source_server_id = None, asi_source_path = None,
          asi_target_path = None, asi_strategy_selected = None, asi_alternatives = [], asi_warnings = []\<rparr>],
      psp_valid = True, psp_error = ''''\<rparr>"

definition open_dialog :: sync_dialog where
  "open_dialog = set_open True (SyncDialog ''p'' createWorkspaceStore (createTransferStore ''#/workspace''))"

definition overlapped_dialog :: sync_dialog where
  "overlapped_dialog = in_store (buildSyncPlan_done (Inr sample_plan)) (choose_target ''b'' (choose_target ''a'' open_dialog))"

lemma overlapping_plans_witness:
  "wk_syncPlan (sy_store overlapped_dialog) = Some sample_plan \<and> sy_targetServerId overlapped_dialog = ''b''"
proof -
  have "sy_open open_dialog" "sy_targetServerId open_dialog = ''''" "\<not> wk_syncRunning (sy_store open_dialog)"
    by (simp_all add: open_dialog_def set_open_def SyncDialog_def sync_opened_def sync_target_changed_def
        in_store_def createWorkspaceStore_def resetSyncPlan_def Let_def)
  then show ?thesis unfolding overlapped_dialog_def
    using overlapping_plans [of open_dialog "''b''" "''a''" sample_plan] by (simp add: sample_plan_def)
qed

text \<open>Reopening the dialog asks for a plan for the target of the previous session although the
  select is empty again; when the answer arrives its plan is shown while no target is chosen.\<close>

theorem stale_plan_on_reopen:
  fixes d :: sync_dialog and plan :: project_sync_plan
  assumes "\<not> sy_open d" "sy_targetServerId d \<noteq> ''''"
  defines "d' \<equiv> in_store (buildSyncPlan_done (Inr plan)) (set_open True d)"
  shows "WcSyncPlan (sy_projectId d) (target_request (sy_targetServerId d)) \<in> set (wk_pending (sy_store d'))
     \<and> sy_targetServerId d' = '''' \<and> wk_syncPlan (sy_store d') = Some plan \<and> press_confirm d' = d'"
  unfolding d'_def using assms(1,2) by (rule reopened_dialog)

definition closed_dialog :: sync_dialog where
  "closed_dialog = (SyncDialog ''p'' createWorkspaceStore (createTransferStore ''#/workspace''))\<lparr>sy_targetServerId := ''a''\<rparr>"

lemma stale_plan_on_reopen_witness:
  "wk_syncPlan (sy_store (in_store (buildSyncPlan_done (Inr sample_plan)) (set_open True closed_dialog))) = Some sample_plan"
  using stale_plan_on_reopen [of closed_dialog sample_plan] by (simp add: closed_dialog_def SyncDialog_def)

text \<open>\<open>stopPolling\<close> does not stop the polling when a load is in flight: its answer arms the timer
  again.\<close>

theorem stop_is_undone:
  assumes "transfer_reach rt s" "list_ex (\<lambda>job. isActiveTransferState (job_state job)) js"
  shows "\<not> tf_polling (stopPolling s) \<and> tf_polling (loadJobs_done (Inr js) (stopPolling s))"
  using stop_undone [OF transfer_inv_reach [OF assms(1)] assms(2)]
  by (simp add: stopPolling_def)

definition sample_job :: transfer_job where
  "sample_job =
     \<lparr>job_job_id = ''j'', job_artifact_id = ''x'', job_artifact_label = ''x'', job_source_server_id = ''a'',
      job_source_path = ''/x'', job_target_server_id = ''b'', job_target_path = ''/x'',
      job_strategy_requested = TS_Auto, job_strategy_used = None, job_state = J_Running,
      job_excludes = [], job_immutable = False, job_strategy_reason = '''', job_resumed_bytes = Fin 0,
      job_files_skipped = Fin 0, job_bytes_skipped = Fin 0, job_warnings = [], job_bytes_total = None,
      job_bytes_done = Fin 0, job_files_total = None, job_files_done = Fin 0, job_rate_bps = None,
      job_eta_s = None, job_current_path = None, job_created_at = '''', job_started_at = None,
      job_finished_at = None, job_error_code = None, job_error_message = ''''\<rparr>"

lemma stop_is_undone_witness:
  "tf_polling (loadJobs_done (Inr [sample_job]) (stopPolling (loadJobs (createTransferStore ''#/transfers''))))"
proof -
  have "transfer_reach plain_runtime (loadJobs (createTransferStore ''#/transfers''))"
    using transfer_steps [OF transfer_reach_init, of TvLoadJobs] by simp
  from stop_is_undone [OF this, of "[sample_job]"] show ?thesis
    by (simp add: sample_job_def isActiveTransferState_def ACTIVE_TRANSFER_STATES_def)
qed

section \<open>Formatting and time\<close>

text \<open>The formatters never invent a reading: each answers \<open>N/A\<close> exactly when its value is
  missing or not finite, whatever the runtime prints for a number.\<close>

theorem missing_is_NA:
  "(formatBytes rt v = NA \<longleftrightarrow> finite_value v = None) \<and> (formatBps rt v = NA \<longleftrightarrow> finite_value v = None)
   \<and> (formatPercent rt v d = NA \<longleftrightarrow> finite_value v = None)
   \<and> (formatTemperature rt v = NA \<longleftrightarrow> finite_value v = None)
   \<and> (formatPower rt v l = NA \<longleftrightarrow> finite_value v = None)
   \<and> (formatLatency rt v = NA \<longleftrightarrow> finite_value v = None)"
  by (simp add: formatters_NA)

text \<open>The byte unit is the largest that leaves at least one unit: the scaled value lies in
  \<open>[1, 1024)\<close>, except below one byte-unit and beyond the last unit.\<close>

theorem byte_unit:
  "unitIndexFor q \<le> 5
   \<and> (unitIndexFor q = 0 \<or> 1 \<le> \<bar>q\<bar> / 1024 ^ unitIndexFor q)
   \<and> (unitIndexFor q = 5 \<or> \<bar>q\<bar> / 1024 ^ unitIndexFor q < 1024)"
  by (rule unitIndexFor_scale)

text \<open>C25: every freshness label computed from \<open>useNow()\<close> reads \<open>now\<close>: the shared clock is a tick
  counter, so for any timestamp after the epoch's first \<open>n\<close> milliseconds the elapsed time is zero.\<close>

theorem freshness_always_now:
  assumes "clock_reach c n" "timestamp_ms rt ts = Some time" "of_nat n \<le> time"
  shows "relative_label rt t ts (useNow c) = t ''relative.now''"
  using assms by (rule tick_label)

lemma freshness_always_now_witness:
  "relative_label plain_runtime (\<lambda>key. key) (Some (TsNumber (Fin 1700000000))) (useNow (clock_subscribe 0 clock_init))
     = ''relative.now''"
proof (rule freshness_always_now)
  show "clock_reach (clock_subscribe 0 clock_init) (Suc 0)"
    using clock_reach_step [OF clock_reach_init, of "CkSubscribe 0"] by simp
  show "timestamp_ms plain_runtime (Some (TsNumber (Fin 1700000000))) = Some 1700000000"
    by (simp add: timestamp_ms_def finite_value_def)
qed simp

section \<open>Preferences\<close>

text \<open>Whatever sequence of themes was picked, reloading the page finds the last one, when the
  storage works.\<close>

theorem theme_survives_reload:
  assumes "\<not> pf_blocked s" "theme_load (Some (pf_stored s)) = pf_current s"
  shows "theme_load (Some (pf_stored (fold theme_change ps s))) = pf_current (fold theme_change ps s)"
  using theme.reload [of s ps] assms by simp

definition dark_theme :: "theme_preference preference" where
  "dark_theme = \<lparr>pf_current = Th_Dark, pf_stored = None, pf_blocked = False, pf_listeners = [], pf_notified = []\<rparr>"

lemma theme_survives_reload_witness:
  "theme_load (Some (pf_stored (fold theme_change [Th_Warm, Th_System] dark_theme))) =
         pf_current (fold theme_change [Th_Warm, Th_System] dark_theme)"
  by (rule theme_survives_reload) (simp_all add: dark_theme_def theme_load_def)

text \<open>With the system theme chosen and no subscriber left, a change of the system's colour scheme
  leaves the document with the old theme.\<close>

theorem system_theme_untracked:
  assumes "\<not> ths_tracking s" "theme_shown s" "pf_current (ths_pref s) = Th_System" "ths_media s = Some m"
  shows "\<not> theme_shown (media_changed (\<not> m) s)"
  using assms by (rule media_untracked)

definition system_theme :: theme_state where
  "system_theme = unsubscribeTheme 1 (subscribeTheme 2 (subscribeTheme 1 (initTheme
     \<lparr>ths_pref = \<lparr>pf_current = Th_System, pf_stored = Some ''system'', pf_blocked = False, pf_listeners = [],
                  pf_notified = []\<rparr>,
      ths_attr = None, ths_media = Some True, ths_tracking = False\<rparr>)))"

lemma system_theme_untracked_witness:
  "pf_listeners (ths_pref system_theme) = [2] \<and> \<not> theme_shown (media_changed (\<not> True) system_theme)"
proof
  show "pf_listeners (ths_pref system_theme) = [2]"
    by (simp add: system_theme_def unsubscribeTheme_def subscribeTheme_def initTheme_def theme_apply_def
        pref_subscribe_def pref_unsubscribe_def notify_all_def storage_set_def)
  show "\<not> theme_shown (media_changed (\<not> True) system_theme)"
    by (rule system_theme_untracked)
      (simp_all add: system_theme_def theme_shown_ops unsubscribeTheme_def subscribeTheme_def initTheme_def
        theme_apply_def pref_subscribe_def pref_unsubscribe_def theme_shown_def getResolvedTheme_def)
qed

text \<open>The hidden sections are saved and loaded back as they were, and whatever the storage holds
  the Overview and GPU sections stay visible.\<close>

theorem sections_reload:
  assumes "rt_json_parse rt (rt_json_stringify rt (sections_json tabs)) = Some (sections_json tabs)"
    and "hidden_ok tabs"
  shows "sections_load rt (Some (Some (rt_json_stringify rt (sections_json tabs)))) = tabs
    \<and> hidden_ok (sections_load rt storage)"
  using sections_roundtrip [OF assms] hidden_ok_load by blast

definition sections_runtime :: js_runtime where
  "sections_runtime = plain_runtime\<lparr>rt_json_parse := (\<lambda>s. if s = '''' then Some (sections_json [Tab_Network, Tab_Storage]) else None)\<rparr>"

lemma sections_reload_witness:
  "sections_load sections_runtime (Some (Some (rt_json_stringify sections_runtime (sections_json [Tab_Network, Tab_Storage])))) =
         [Tab_Network, Tab_Storage]"
proof -
  have "rt_json_parse sections_runtime (rt_json_stringify sections_runtime (sections_json [Tab_Network, Tab_Storage])) =
      Some (sections_json [Tab_Network, Tab_Storage])"
    by (simp add: sections_runtime_def plain_runtime_def)
  moreover have "hidden_ok [Tab_Network, Tab_Storage]"
    by (simp add: hidden_ok_def TOGGLEABLE_SECTIONS_def)
  ultimately show ?thesis using sections_reload by blast
qed

section \<open>Display primitives and the fleet\<close>

text \<open>C26: Escape closes exactly the dialog opened last among those open, however dialogs were opened
  and closed before.\<close>

theorem escape_top_dialog:
  assumes "dialogs_reach s" "dl_open s \<noteq> []"
  shows "dl_closed (escape_pressed s) = dl_closed s @ [last (dl_open s)]"
  using assms by (rule escape_closes_top)

lemma escape_top_dialog_witness:
  "dl_closed (escape_pressed (dialog_opened 7 (dialog_opened 3 dialogs_init))) = [7]"
proof -
  have 1: "dialogs_reach (dialog_opened 3 dialogs_init)"
    by (rule dialogs_reach_open [OF dialogs_reach_init]) (simp add: dialogs_init_def)
  have 2: "dialogs_reach (dialog_opened 7 (dialog_opened 3 dialogs_init))"
    by (rule dialogs_reach_open [OF 1]) (simp add: dialog_opened_def dialogs_init_def Let_def)
  have "dl_closed (escape_pressed (dialog_opened 7 (dialog_opened 3 dialogs_init))) =
      dl_closed (dialog_opened 7 (dialog_opened 3 dialogs_init))
        @ [last (dl_open (dialog_opened 7 (dialog_opened 3 dialogs_init)))]"
    by (rule escape_top_dialog [OF 2]) (simp add: dialog_opened_def dialogs_init_def Let_def)
  then show ?thesis by (simp add: dialog_opened_def dialogs_init_def Let_def)
qed

text \<open>A meter never leaves its scale: the value is clamped to the range, between none and all of
  the segments are filled, and the fill is between 0 and 100 percent.\<close>

theorem meter_in_range:
  assumes "0 \<le> max_value"
  shows "0 \<le> mv_bounded (SegmentedMeter v max_value segments state)
     \<and> mv_bounded (SegmentedMeter v max_value segments state) \<le> max_value
     \<and> count_list (meter_segments (SegmentedMeter v max_value segments state) segments) True =
         nat (mv_filled (SegmentedMeter v max_value segments state))
     \<and> mv_filled (SegmentedMeter v max_value segments state) \<le> int segments
     \<and> 0 \<le> mv_fill_percent (SegmentedMeter v max_value segments state)
     \<and> mv_fill_percent (SegmentedMeter v max_value segments state) \<le> 100"
  using meter_bounds [OF assms, of v segments state]
    segments_filled [of "SegmentedMeter v max_value segments state" segments] by blast

lemma meter_in_range_witness:
  "mv_filled (SegmentedMeter (Some 250) 100 16 None) \<le> 16"
  using meter_in_range [of 100 "Some 250" 16 None] by simp

text \<open>C27: sorted by status, a machine that is worse off never comes after one that is better off, and
  machines of the same status are in name order.\<close>

theorem fleet_severity_order:
  assumes "collation lc" "list_all wfFleetEntry xs"
    "ys = sortFleetEntries lc xs \<lparr>fst_key = Key_Status, fst_direction = Dir_Asc\<rparr>" "i < j" "j < length ys"
  shows "num_le (statusSeverity (fle_status (ys ! i))) (statusSeverity (fle_status (ys ! j)))
    \<and> (fle_status (ys ! i) = fle_status (ys ! j) \<longrightarrow>
         lc (fle_display_name (ys ! i)) (fle_display_name (ys ! j)) \<le> 0)"
  using assms by (rule severity_first)

definition sample_entry :: "string \<Rightarrow> server_status \<Rightarrow> fleet_entry" where
  "sample_entry name status =
     \<lparr>fle_server_id = name, fle_display_name = name, fle_ssh_endpoint = None, fle_status = status,
      fle_enabled = True, fle_os_pretty = None, fle_gpu_model = None, fle_gpu_count = Fin 0,
      fle_gpu_busy = Fin 0, fle_gpu_free = Fin 0, fle_cpu_percent = None, fle_memory_percent = None,
      fle_vram_used_b = None, fle_vram_total_b = None, fle_disk_warning = False, fle_gpus = [],
      fle_updated_at = None\<rparr>"

text \<open>A collation for the witnesses: by the first code unit.\<close>

definition first_unit :: collator where
  "first_unit a b =
     (case a of [] \<Rightarrow> -1 | c # _ \<Rightarrow> int (byte c)) - (case b of [] \<Rightarrow> -1 | c # _ \<Rightarrow> int (byte c))"

lemma first_unit_collation: "collation first_unit"
  by (auto simp: collation_def first_unit_def sgn_if)

definition two_machines :: "fleet_entry list" where
  "two_machines = sortFleetEntries first_unit [sample_entry ''b'' S_Online, sample_entry ''a'' S_Offline]
     \<lparr>fst_key = Key_Status, fst_direction = Dir_Asc\<rparr>"

lemma fleet_severity_order_witness:
  "num_le (statusSeverity (fle_status (two_machines ! 0))) (statusSeverity (fle_status (two_machines ! 1)))"
proof -
  have "list_all wfFleetEntry [sample_entry ''b'' S_Online, sample_entry ''a'' S_Offline]"
    by (simp add: wfFleetEntry_def sample_entry_def)
  moreover have "1 < length two_machines" by (simp add: two_machines_def sortFleetEntries_def)
  ultimately show ?thesis
    using fleet_severity_order [OF first_unit_collation _ two_machines_def, of 0 1] by simp
qed

text \<open>C28: when no two machines have the same name for the collation, the order shown does not depend
  on the order the backend listed them in.\<close>

theorem fleet_order_deterministic:
  assumes "collation lc" "list_all wfFleetEntry xs" "distinct xs" "mset ys = mset xs"
    "\<forall>a \<in> set xs. \<forall>b \<in> set xs. lc (fle_display_name a) (fle_display_name b) = 0 \<longrightarrow> a = b"
  shows "sortFleetEntries lc ys s = sortFleetEntries lc xs s"
  using assms by (rule order_deterministic)

lemma fleet_order_deterministic_witness:
  "sortFleetEntries first_unit [sample_entry ''b'' S_Online, sample_entry ''a'' S_Offline] \<lparr>fst_key = Key_Gpus, fst_direction = Dir_Desc\<rparr> =
   sortFleetEntries first_unit [sample_entry ''a'' S_Offline, sample_entry ''b'' S_Online] \<lparr>fst_key = Key_Gpus, fst_direction = Dir_Desc\<rparr>"
  by (rule fleet_order_deterministic [OF first_unit_collation])
    (simp_all add: wfFleetEntry_def sample_entry_def first_unit_def byte_def)

text \<open>A machine panel shows at most four GPU lanes, and the lanes shown plus the number it says are
  hidden are all the GPUs reported.\<close>

theorem lanes_add_up:
  assumes "fle_gpu_count entry = num_of_int n"
  shows "length (visible_lanes entry snapshot) \<le> 4
    \<and> num_plus (num_of_nat (length (visible_lanes entry snapshot))) (hidden_lanes entry snapshot)
      = num_of_int (max n (int (lane_count entry snapshot)))"
  using lanes_account [OF assms, of snapshot] by (simp add: lane_bound MAX_LANES_def)

lemma lanes_add_up_witness:
  "num_plus (num_of_nat (length (visible_lanes (sample_entry ''a'' S_Online) None)))
     (hidden_lanes (sample_entry ''a'' S_Online) None) = num_of_int 0"
  using lanes_add_up [of "sample_entry ''a'' S_Online" 0 None]
  by (simp add: sample_entry_def num_of_int_def lane_count_def lane_snapshot_def)

text \<open>The disk warning quotes the fullest mount: the largest percentage any mount of the snapshot
  reports, and nothing when none does.\<close>

theorem disk_warning_widest:
  assumes "wfServerSnapshot snap"
  shows "is_widest (disk_percents None (snap_storage snap)) (maxDiskPercent (Some snap))"
  using assms by (rule maxDiskPercent_widest)

lemma disk_warning_widest_witness:
  "is_widest (disk_percents None (snap_storage sample_snapshot)) (maxDiskPercent (Some sample_snapshot))"
  by (rule disk_warning_widest) (simp add: sample_snapshot_def wfServerSnapshot_def)

section \<open>The connection, the dialogs and the pages\<close>

text \<open>C3: every step of the realtime client is, for each registered status listener, a step of the
  abstract connection machine, or changes neither the connection nor what the listener believes.\<close>

theorem connection_refines:
  assumes "rt_reach rt url c" "rt_step rt c e c'" "l \<in> set (rc_stateListeners c)"
  shows "connection_view l c' = connection_view l c \<or>
    connection_step (connection_view l c) (connection_view l c')"
  using rt_refines [OF rt_inv_reach [OF assms(1)] assms(2,3)] by (simp add: refines_step_def)

definition heard_client :: realtime_client where
  "heard_client = onState 7 (RealtimeClient None ''ws://host'')"

lemma connection_refines_witness:
  "connection_step (connection_view 7 heard_client) (connection_view 7 (start False heard_client))"
proof -
  have "rt_step plain_runtime (RealtimeClient None ''ws://host'') (EvOnState 7)
      (rt_apply plain_runtime (EvOnState 7) (RealtimeClient None ''ws://host''))"
    by (rule rt_stepI) simp
  then have reach: "rt_reach plain_runtime ''ws://host'' heard_client"
    unfolding heard_client_def using rt_next [OF rt_init] by fastforce
  have step: "rt_step plain_runtime heard_client (EvStart False) (start False heard_client)"
    using rt_stepI [of "EvStart False" heard_client] by simp
  have "7 \<in> set (rc_stateListeners heard_client)"
    by (simp add: heard_client_def onState_def set_add_def RealtimeClient_def)
  moreover have "connection_view 7 (start False heard_client) \<noteq> connection_view 7 heard_client"
    by (simp add: connection_view_def connection_def heard_client_def onState_def RealtimeClient_def start_def
        open_socket_def emitState_def ready_def)
  ultimately show ?thesis using connection_refines [OF reach step] by blast
qed

text \<open>The dialog that opens on a record, and its alias list answered.\<close>

lemma opened_dialog:
  assumes "\<not> sd_open d" and "shown = dialog_apply (Ev_Open (Some server)) d"
    and "d' = shown \<or> d' = dialog_apply (Ev_Answer (length (sd_pending shown) - 1) net) shown"
  shows "sd_open d' \<and> sd_step d' = Step_Form \<and> sd_server d' = Some server \<and> \<not> sd_saving d' \<and> \<not> sd_trusting d' \<and>
    (sd_form d' = formFromServer server \<or> sd_form d' = (formFromServer server)\<lparr>fs_source := Src_Alias\<rparr>)"
proof -
  have snapped: "snap_alias (Some server) es (formFromServer server) =
      (if list_ex (\<lambda>e. ali_alias e = srv_ssh_host server) es
       then (formFromServer server)\<lparr>fs_source := Src_Alias\<rparr> else formFromServer server)" for es
    by (simp add: snap_alias_def formFromServer_def)
  show ?thesis
    using assms
    by (auto simp: set_props_def open_effect_def reset_dialog_def loadAuth_def dialog_request_def
        dialog_answer_def dialog_reply_def aliases_done_def Let_def nth_append snapped split: sum.splits)
qed

text \<open>C20: opening a server in the dialog and submitting it unedited, before or after its alias list came,
  either does nothing, when the form is not valid or the browser holds it back, or sends one patch;
  that patch leaves the record as it is exactly when the form can show it: names without outer
  blanks, a port and an interval in bounds, tags without a comma. Other records are changed by it.
  The interval came from JSON, so it is a double.\<close>

theorem edit_without_change:
  assumes "\<not> sd_open d" "opt_ok is_double (srv_sample_interval_s server)"
    and "shown = dialog_apply (Ev_Open (Some server)) d"
    and "d' = shown \<or> d' = dialog_apply (Ev_Answer (length (sd_pending shown) - 1) net) shown"
  shows "dialog_enabled Ev_Submit d' \<and>
    (if form_valid (sd_form d') \<and> server_native_ok (sd_form d')
     then \<exists>patch. sd_pending (dialog_apply Ev_Submit d') =
            sd_pending d' @ [Call_Patch (srv_server_id server) patch] \<and>
            (patch = identity_patch server \<longleftrightarrow> editable server)
     else dialog_apply Ev_Submit d' = d')"
  using opened_dialog [OF assms(1,3,4)] saved_unchanged_iff [OF _ assms(2), of "sd_form d'"]
  by (auto simp: canSubmit_def submit_def dialog_request_def)

definition sample_server :: "string \<Rightarrow> server_record" where
  "sample_server name =
     \<lparr>srv_server_id = name, srv_display_name = name, srv_ssh_host = name, srv_username = None,
      srv_port = Some (num_of_nat 22), srv_tags = [name, ''gpu''], srv_enabled = True,
      srv_sample_interval_s = None\<rparr>"

definition alpha :: server_record where
  "alpha = sample_server ''alpha''"

definition opened_alpha :: server_dialog where
  "opened_alpha = dialog_apply (Ev_Open (Some alpha)) dialog_init"

lemma alpha_form:
  "sd_form opened_alpha =
     \<lparr>fs_name = ''alpha'', fs_source = Src_Manual, fs_alias = ''alpha'', fs_host = ''alpha'',
      fs_username = '''', fs_port = number_string (num_of_nat 22), fs_tags = ''alpha, gpu'',
      fs_sampleInterval = '''', fs_enabled = True\<rparr>"
  by (simp add: opened_alpha_def alpha_def sample_server_def dialog_init_def dialog_ops formFromServer_def
      or_empty_def number_field_def del: number_string.simps)

lemma port_22: "port_ok (num_of_nat 22)"
  by (simp add: port_ok_def num_of_nat_def)

lemma alpha_native: "server_native_ok (sd_form opened_alpha)"
proof -
  obtain a where a: "list_all is_digit a" "a \<noteq> []" "number_string (num_of_nat 22) = a" "parse_nat a = 22"
    by (rule integer_string [of 22]) auto
  have "number_input_ok (of_nat 1) (Some 65535) 1 a"
    using number_input_digits [OF a(1,2), of 1 "Some 65535"] a(4) by simp
  then show ?thesis using a(3) by (simp add: alpha_form server_native_ok_def)
qed

lemma alpha_submittable: "form_valid (sd_form opened_alpha)"
  using parse_shown_port [OF port_22]
  by (simp add: alpha_form form_valid_def ssh_host_of_def parseSampleInterval_def trim_graphic graphic_def
      byte_def del: number_string.simps)

lemma alpha_editable: "editable alpha"
proof -
  have "tag_shown ''alpha''" "tag_shown ''gpu''" by (simp_all add: tag_shown_def trim_graphic graphic_def byte_def)
  then show ?thesis using port_22 by (simp add: alpha_def editable_def sample_server_def tag_shown_def)
qed

lemma edit_without_change_witness:
  "sd_pending (dialog_apply Ev_Submit opened_alpha) =
   sd_pending opened_alpha @ [Call_Patch ''alpha'' (identity_patch alpha)]"
proof -
  have "\<not> sd_open dialog_init" by (simp add: dialog_init_def)
  moreover have "opt_ok is_double (srv_sample_interval_s alpha)" by (simp add: alpha_def sample_server_def)
  ultimately have "dialog_enabled Ev_Submit opened_alpha \<and>
    (if form_valid (sd_form opened_alpha) \<and> server_native_ok (sd_form opened_alpha)
     then \<exists>patch. sd_pending (dialog_apply Ev_Submit opened_alpha) =
            sd_pending opened_alpha @ [Call_Patch (srv_server_id alpha) patch] \<and>
            (patch = identity_patch alpha \<longleftrightarrow> editable alpha)
     else dialog_apply Ev_Submit opened_alpha = opened_alpha)"
    by (rule edit_without_change [OF _ _ opened_alpha_def]) simp
  then show ?thesis
    using alpha_native alpha_submittable alpha_editable by (auto simp: alpha_def sample_server_def)
qed

text \<open>C21: the server dialog cannot hang: once every request it started was answered it is neither saving,
  testing nor trusting, and an open dialog shows its aliases, or why there are none.\<close>

theorem dialog_never_stuck:
  assumes "dialog_reach d" "sd_pending d = []"
  shows "\<not> sd_saving d \<and> sd_step d \<noteq> Step_Testing \<and> \<not> sd_trusting d \<and>
    (if sd_open d then alias_view d \<noteq> Alias_Loading else True)"
  using dialog_backed_reach [OF assms(1)] assms(2)
  by (auto simp: dialog_backed_def alias_view_def split: option.splits)

lemma dialog_run:
  "dialog_reach d \<Longrightarrow> dialog_enabled e d \<Longrightarrow> dialog_reach (dialog_apply e d)"
  by (rule dialog_reach_step [OF _ dialog_stepI])

definition offline_dialog :: server_dialog where
  "offline_dialog = dialog_apply (Ev_Answer 0 offline) (dialog_apply (Ev_Open None) dialog_init)"

lemma dialog_never_stuck_witness:
  "sd_open offline_dialog \<and> alias_view offline_dialog \<noteq> Alias_Loading"
proof -
  have 1: "dialog_reach (dialog_apply (Ev_Open None) dialog_init)"
    by (rule dialog_run [OF dialog_reach_init]) (simp add: dialog_init_def)
  have 2: "dialog_reach offline_dialog" unfolding offline_dialog_def
    by (rule dialog_run [OF 1]) (simp add: dialog_init_def dialog_ops)
  have "sd_open offline_dialog" "sd_pending offline_dialog = []"
    by (simp_all add: offline_dialog_def dialog_init_def dialog_ops dialog_answer_def dialog_reply_def
        split: sum.split)
  then show ?thesis using dialog_never_stuck [OF 2] by simp
qed

text \<open>C22: whatever is typed and pressed, every new record and every patch the server dialog has sent
  names a server and a host, trimmed, a trimmed user or none, a port between 1 and 65535 or none, a
  sampling interval between half a second and ten minutes or none, and trimmed, non-empty tags
  without a comma.\<close>

theorem sent_bodies_valid:
  assumes "dialog_reach d"
  shows "list_all call_ok (sd_pending d)"
  using assms by (rule calls_ok_reach)

definition typed_dialog :: server_dialog where
  "typed_dialog =
     dialog_apply Ev_Submit (dialog_apply (Ev_Edit (Edit_Alias None ''alpha''))
       (dialog_apply (Ev_Edit (Edit_Name ''Alpha'')) (dialog_apply (Ev_Open None) dialog_init)))"

definition typed_body :: server_create where
  "typed_body = buildBody None (EMPTY_FORM\<lparr>fs_name := ''Alpha'', fs_alias := ''alpha''\<rparr>)"

lemma typed_valid:
  "form_valid (EMPTY_FORM\<lparr>fs_name := ''Alpha'', fs_alias := ''alpha''\<rparr>)"
  "server_native_ok (EMPTY_FORM\<lparr>fs_name := ''Alpha'', fs_alias := ''alpha''\<rparr>)"
  by (simp_all add: form_valid_def server_native_ok_def EMPTY_FORM_def ssh_host_of_def trim_graphic graphic_def
      byte_def parsePort_def parseSampleInterval_def)

lemma typed_reach: "dialog_reach typed_dialog" "Call_Create typed_body \<in> set (sd_pending typed_dialog)"
proof -
  have 1: "dialog_reach (dialog_apply (Ev_Open None) dialog_init)"
    by (rule dialog_run [OF dialog_reach_init]) (simp add: dialog_init_def)
  have 2: "dialog_reach (dialog_apply (Ev_Edit (Edit_Name ''Alpha'')) (dialog_apply (Ev_Open None) dialog_init))"
    by (rule dialog_run [OF 1]) (simp add: dialog_init_def dialog_ops)
  have 3: "dialog_reach (dialog_apply (Ev_Edit (Edit_Alias None ''alpha''))
      (dialog_apply (Ev_Edit (Edit_Name ''Alpha'')) (dialog_apply (Ev_Open None) dialog_init)))"
    by (rule dialog_run [OF 2]) (simp add: dialog_init_def dialog_ops)
  show "dialog_reach typed_dialog" unfolding typed_dialog_def
    by (rule dialog_run [OF 3]) (simp add: dialog_init_def dialog_ops)
  show "Call_Create typed_body \<in> set (sd_pending typed_dialog)"
    using typed_valid
    by (simp add: typed_dialog_def dialog_init_def dialog_ops canSubmit_def applyAlias_def typed_body_def)
qed

text \<open>The sample server opened, renamed and submitted.\<close>

definition renamed_alpha :: server_dialog where
  "renamed_alpha = dialog_apply Ev_Submit (dialog_apply (Ev_Edit (Edit_Name ''Beta'')) opened_alpha)"

definition rename_patch :: server_patch where
  "rename_patch = patch_of_body (buildBody (Some alpha) ((sd_form opened_alpha)\<lparr>fs_name := ''Beta''\<rparr>))"

lemma renamed_reach: "dialog_reach renamed_alpha" "Call_Patch ''alpha'' rename_patch \<in> set (sd_pending renamed_alpha)"
proof -
  have 1: "dialog_reach opened_alpha" unfolding opened_alpha_def
    by (rule dialog_run [OF dialog_reach_init]) (simp add: dialog_init_def)
  have shown: "sd_open opened_alpha \<and> sd_step opened_alpha = Step_Form \<and> sd_server opened_alpha = Some alpha
      \<and> \<not> sd_saving opened_alpha \<and> \<not> sd_trusting opened_alpha"
    using opened_dialog [OF _ opened_alpha_def, of opened_alpha offline] by (simp add: dialog_init_def)
  have 2: "dialog_reach (dialog_apply (Ev_Edit (Edit_Name ''Beta'')) opened_alpha)"
    by (rule dialog_run [OF 1]) (simp add: shown)
  show "dialog_reach renamed_alpha" unfolding renamed_alpha_def by (rule dialog_run [OF 2]) (simp add: shown)
  have "form_valid ((sd_form opened_alpha)\<lparr>fs_name := ''Beta''\<rparr>)"
    using alpha_submittable
    by (simp add: alpha_form form_valid_def ssh_host_of_def trim_graphic graphic_def byte_def del: number_string.simps)
  moreover have "server_native_ok ((sd_form opened_alpha)\<lparr>fs_name := ''Beta''\<rparr>)"
    using alpha_native by (simp add: server_native_ok_def)
  ultimately show "Call_Patch ''alpha'' rename_patch \<in> set (sd_pending renamed_alpha)"
    using shown
    by (simp add: renamed_alpha_def rename_patch_def canSubmit_def submit_def dialog_request_def Let_def)
      (simp add: alpha_def sample_server_def)
qed

lemma sent_bodies_valid_witness:
  "sc_display_name typed_body = ''Alpha'' \<and> body_ok typed_body \<and>
   sp_display_name rename_patch = Some (Some ''Beta'') \<and> patch_ok rename_patch"
proof -
  have "body_ok typed_body" using sent_bodies_valid [OF typed_reach(1)] typed_reach(2) by (auto simp: list_all_iff)
  moreover have "patch_ok rename_patch"
    using sent_bodies_valid [OF renamed_reach(1)] renamed_reach(2) by (auto simp: list_all_iff)
  moreover have "sc_display_name typed_body = ''Alpha''" "sp_display_name rename_patch = Some (Some ''Beta'')"
    by (simp_all add: typed_body_def rename_patch_def patch_of_body_def buildBody_def trim_graphic graphic_def byte_def)
  ultimately show ?thesis by blast
qed

text \<open>A connection test of one server that is answered when the dialog shows another one offers its
  host key there, and trusting it registers the key for the wrong server.\<close>

theorem late_test_result:
  assumes "dialog_reach d" "k < length (sd_pending d)" "sd_pending d ! k = Call_Test False a"
    and "sd_open d" "sd_activeId d = Some b" "\<not> sd_trusting d" "sd_testError d = None"
    and "testConnection net a = Inr r" "ctr_pending_host_key r = Some prompt"
  shows "dialog_enabled Ev_Trust (dialog_apply (Ev_Answer k net) d) \<and>
    Call_Trust b prompt \<in> set (sd_pending (dialog_apply Ev_Trust (dialog_apply (Ev_Answer k net) d)))"
  using assms(2-) by (rule late_test)

definition unknown_key :: connection_test_result where
  "unknown_key =
     \<lparr>ctr_ok = False, ctr_status = S_Host_key_error, ctr_detail = '''', ctr_latency_ms = None,
      ctr_pending_host_key =
        Some \<lparr>hkp_host = ''alpha'', hkp_port = None, hkp_key_type = ''ed25519'', hkp_fingerprint = ''f''\<rparr>\<rparr>"

definition asks_key :: network where
  "asks_key = (\<lambda>_. Response 200 '''' (Some (wireConnectionTestResult unknown_key)))"

lemma asks_key_test: "testConnection asks_key i = Inr unknown_key"
proof -
  have "wfConnectionTestResult unknown_key"
    by (simp add: unknown_key_def wfConnectionTestResult_def wfHostKeyPrompt_def)
  then have "normalizeConnectionTestResult (Some (wireConnectionTestResult unknown_key)) = Some unknown_key"
    by (rule wire_connection_test_result.norm_wire)
  then show ?thesis
    by (simp add: testConnection_def read_model_def api_request_def asks_key_def response_ok_def)
qed

definition tested_dialog :: server_dialog where
  "tested_dialog =
     dialog_apply (Ev_Open (Some (sample_server ''beta''))) (dialog_apply Ev_Close
       (dialog_apply Ev_Test (dialog_apply (Ev_Open (Some (sample_server ''alpha''))) dialog_init)))"

lemma late_test_result_witness:
  "Call_Trust ''beta'' (the (ctr_pending_host_key unknown_key)) \<in>
     set (sd_pending (dialog_apply Ev_Trust (dialog_apply (Ev_Answer 2 asks_key) tested_dialog)))"
proof -
  have 1: "dialog_reach (dialog_apply (Ev_Open (Some (sample_server ''alpha''))) dialog_init)"
    by (rule dialog_run [OF dialog_reach_init]) (simp add: dialog_init_def)
  have 2: "dialog_reach (dialog_apply Ev_Test (dialog_apply (Ev_Open (Some (sample_server ''alpha''))) dialog_init))"
    by (rule dialog_run [OF 1]) (simp add: dialog_init_def dialog_ops)
  have 3: "dialog_reach (dialog_apply Ev_Close
      (dialog_apply Ev_Test (dialog_apply (Ev_Open (Some (sample_server ''alpha''))) dialog_init)))"
    by (rule dialog_run [OF 2]) (simp add: dialog_init_def dialog_ops)
  have 4: "dialog_reach tested_dialog" unfolding tested_dialog_def
    by (rule dialog_run [OF 3]) (simp add: dialog_init_def dialog_ops)
  have "sd_open tested_dialog" "sd_activeId tested_dialog = Some ''beta''" "\<not> sd_trusting tested_dialog"
    "sd_testError tested_dialog = None" "2 < length (sd_pending tested_dialog)"
    "sd_pending tested_dialog ! 2 = Call_Test False ''alpha''"
    by (simp_all add: tested_dialog_def dialog_init_def dialog_ops sample_server_def)
  then show ?thesis
    using late_test_result [OF 4 _ _ _ _ _ _ asks_key_test [of "''alpha''"], of 2 "''beta''"]
    by (simp add: unknown_key_def)
qed

text \<open>C23: a typed password exists only while its editor is open; the one in flight is the one in the editor,
  and at most one request of the section is in flight.\<close>

theorem password_confined:
  assumes "la_reach s"
  shows "(if la_editing s then True else la_password s = '''') \<and> length (la_pending s) \<le> 1 \<and>
    (if Call_SetPassword p \<in> set (la_pending s) then la_ui s = Ui_Saving \<and> la_password s = p \<and> p \<noteq> '''' else True)"
  using la_inv_reach [OF assms] by (auto simp: la_inv_def split: password_ui.splits)

definition typed_password :: local_auth where
  "typed_password =
     la_apply La_Save (la_apply (La_Type ''pw'') (la_apply La_Edit (la_apply (La_Facts (Some
       \<lparr>sas_ssh_config_used = False, sas_effective_host = ''alpha'', sas_effective_user = None,
        sas_effective_port = Fin 22, sas_identity_files = Fin 0, sas_agent_available = False,
        sas_proxy_jump_configured = False, sas_password_configured = False, sas_password_storage = None\<rparr>)
       None) (LocalAuthSection ''alpha''))))"

lemma la_run: "la_reach s \<Longrightarrow> la_enabled e s \<Longrightarrow> la_reach (la_apply e s)"
  by (rule la_reach_step [OF _ la_stepI])

lemma password_confined_witness:
  "Call_SetPassword ''pw'' \<in> set (la_pending typed_password) \<and> la_password typed_password = ''pw''"
proof -
  have reach: "la_reach typed_password" unfolding typed_password_def
    by (intro la_run la_reach_init)
      (simp_all add: LocalAuthSection_def la_shown_def la_busy_def edit_password_def)
  have "Call_SetPassword ''pw'' \<in> set (la_pending typed_password)"
    by (simp add: typed_password_def LocalAuthSection_def edit_password_def save_password_def)
  then show ?thesis using password_confined [OF reach, of "''pw''"] by simp
qed

text \<open>C24: the dialog that asks whether to kill a process survives the navigation to another server, and
  confirming it there kills the process of that number on that other server.\<close>

theorem kill_on_other_server:
  assumes "processes_reach lower t p" "pt_confirm p = Some (action, proc)"
    and "page_body t fixtures hidden st b status_word = Page_Tab Tab_Processes snapshot"
  shows "\<exists>p'. processes_mounted t fixtures hidden st b status_word (Some p) = Some p' \<and>
    pt_confirm p' = Some (action, proc) \<and> pt_serverId p' = b \<and>
    \<lparr>pc_action = action, pc_serverId = b, pc_process = proc\<rparr> \<in> set (pt_calls (processes_apply t Pe_Confirm p'))"
  using assms(3,2) by (rule dialog_follows_route)

definition sample_process :: "nat \<Rightarrow> process_info" where
  "sample_process n =
     \<lparr>prc_pid = num_of_nat n, prc_user = None, prc_name = None, prc_cpu_percent = Some (num_of_nat n),
      prc_mem_percent = None, prc_rss_b = None, prc_state = None, prc_command = None, prc_gpu_indexes = [],
      prc_gpu_vram_b = None\<rparr>"

definition asked_tab :: processes_tab where
  "asked_tab = ask_action Pa_Kill (sample_process 4) (ProcessesTab ''alpha'' ''alpha'' [sample_process 4])"

definition beta_console :: console_state where
  "beta_console = createConsoleStore\<lparr>
     cs_route := RServer ''beta'' Tab_Processes,
     cs_snapshots := [''beta'' \<mapsto> sample_snapshot\<lparr>snap_server_id := ''beta''\<rparr>]\<rparr>"

definition no_hidden :: "server_tab list preference" where
  "no_hidden = \<lparr>pf_current = [], pf_stored = None, pf_blocked = False, pf_listeners = [], pf_notified = []\<rparr>"

lemma kill_on_other_server_witness:
  "\<exists>p'. processes_mounted (\<lambda>k. k) (\<lambda>_. None) no_hidden beta_console ''beta'' (\<lambda>_. '''') (Some asked_tab) = Some p' \<and>
    \<lparr>pc_action = Pa_Kill, pc_serverId = ''beta'', pc_process = sample_process 4\<rparr> \<in>
      set (pt_calls (processes_apply (\<lambda>k. k) Pe_Confirm p'))"
proof -
  have "sample_process 4 \<in> set (tab_visible (\<lambda>s. s) (ProcessesTab ''alpha'' ''alpha'' [sample_process 4]))"
    by (simp add: tab_visible_def ProcessesTab_def visible_processes_def sorted_processes_def
        filtered_processes_def process_matches_def ROW_CAP_def js_sort_def)
  then have "processes_reach (\<lambda>s. s) (\<lambda>k. k) (processes_apply (\<lambda>k. k) (Pe_Ask Pa_Kill (sample_process 4))
      (ProcessesTab ''alpha'' ''alpha'' [sample_process 4]))"
    by (intro processes_reach_step [OF processes_reach_init processes_stepI]) (simp add: ProcessesTab_def)
  then have reach: "processes_reach (\<lambda>s. s) (\<lambda>k. k) asked_tab" by (simp add: asked_tab_def)
  have ask: "pt_confirm asked_tab = Some (Pa_Kill, sample_process 4)"
    by (simp add: asked_tab_def ask_action_def ProcessesTab_def)
  have "page_body (\<lambda>k. k) (\<lambda>_. None) no_hidden beta_console ''beta'' (\<lambda>_. '''') =
      Page_Tab Tab_Processes (sample_snapshot\<lparr>snap_server_id := ''beta''\<rparr>)"
    by (simp add: page_body_def page_snapshot_def beta_console_def page_status_def sample_snapshot_def
        UNREACHABLE_STATUSES_def effectiveTab_def page_tab_def isSectionHidden_def no_hidden_def)
  from kill_on_other_server [OF reach ask this] show ?thesis by blast
qed

text \<open>Sorted by a column from the largest down, the cap of the process table never hides a row that
  reports more than a row it shows.\<close>

theorem process_cap_keeps_largest:
  assumes "list_all process_finite ps"
    and "v \<in> set (visible_processes lower g q \<lparr>psr_key = key, psr_desc = True\<rparr> ps)"
    and "h \<in> set (filtered_processes lower g q ps)"
    and "h \<notin> set (visible_processes lower g q \<lparr>psr_key = key, psr_desc = True\<rparr> ps)"
    and "sortValue h key = Some y"
  shows "\<exists>x. sortValue v key = Some x \<and> num_le y x"
  using assms by (rule cap_keeps_largest)

definition many_processes :: "process_info list" where
  "many_processes = map sample_process [0..<Suc ROW_CAP]"

definition shown_processes :: "process_info list" where
  "shown_processes = visible_processes (\<lambda>s. s) False '''' \<lparr>psr_key = Ps_Cpu, psr_desc = True\<rparr> many_processes"

lemma process_cap_keeps_largest_witness:
  "\<exists>h \<in> set many_processes. \<exists>y. h \<notin> set shown_processes \<and> sortValue h Ps_Cpu = Some y \<and>
     list_all (\<lambda>v. \<exists>x. sortValue v Ps_Cpu = Some x \<and> num_le y x) shown_processes"
proof -
  have all: "filtered_processes (\<lambda>s. s) False '''' many_processes = many_processes"
    by (simp add: filtered_processes_def process_matches_def)
  have "length shown_processes = ROW_CAP"
    unfolding shown_processes_def visible_count all by (simp add: many_processes_def)
  moreover have "inj_on sample_process {0..<Suc ROW_CAP}"
    by (rule inj_onI) (simp add: sample_process_def num_of_nat_def)
  then have "card (set many_processes) = Suc ROW_CAP"
    unfolding many_processes_def set_map set_upt by (subst card_image) simp_all
  ultimately have "\<not> set many_processes \<subseteq> set shown_processes"
    using card_mono [of "set shown_processes" "set many_processes"] card_length [of shown_processes] by force
  then obtain h where h: "h \<in> set many_processes" "h \<notin> set shown_processes" by blast
  then obtain y where y: "sortValue h Ps_Cpu = Some y" by (auto simp: many_processes_def sample_process_def)
  have finite: "list_all process_finite many_processes"
    by (auto simp: many_processes_def list_all_iff process_finite_def sample_process_def num_of_nat_def)
  have "list_all (\<lambda>v. \<exists>x. sortValue v Ps_Cpu = Some x \<and> num_le y x) shown_processes"
    using process_cap_keeps_largest [OF finite, of _ "\<lambda>s. s" False "''''" Ps_Cpu h y] h y
    by (simp add: list_all_iff all shown_processes_def)
  with h y show ?thesis by blast
qed

text \<open>C19: when the transfer dialog is open on a complete form and says it is not planning, the plan it
  shows is an answer to exactly the request that creating the transfer would send.\<close>

theorem plan_matches_form:
  assumes "nt_reach rt nets d" "nt_open d" "form_request d = Some r" "\<not> nt_planning d" "nt_plan d = Some plan"
  shows "\<exists>net \<in> nets. planTransfer rt net r = Inr plan"
  using shown_plan [OF assms] by (simp add: answers_def)

definition two_servers :: catalogue where
  "two_servers =
     \<lparr>ct_artifacts =
        [\<lparr>art_artifact_id = ''x'', art_kind = Kind_Dataset, art_name = ''x'', art_version = None, art_description = '''',
          art_immutable = False, art_created_at = '''', art_updated_at = ''''\<rparr>],
      ct_placements = [sample_placement ''p'' ''x''], ct_projects = [],
      ct_servers = [sample_server ''alpha'', sample_server ''beta'']\<rparr>"

definition typed_form :: transfer_form where
  "typed_form =
     \<lparr>nt_open = True, nt_prefill = no_prefill, nt_catalogue = two_servers, nt_artifactId = ''x'',
      nt_placementId = ''p'', nt_targetServerId = ''beta'', nt_targetPath = ''/y'', nt_strategy = TS_Auto,
      nt_pathTouched = True, nt_pathHint = False, nt_plan = None, nt_planning = True,
      nt_planError = None, nt_creating = False, nt_createError = None, nt_setupOpen = False,
      nt_directChanged = False, nt_planNonce = 0, nt_planSeq = 1, nt_suggestSeq = 1,
      nt_seededOpen = True,
      nt_timer = Some (1, \<lparr>trq_artifact_id = ''x'', trq_source_placement_id = ''p'',
        trq_target_server_id = ''beta'', trq_target_path = ''/y'', trq_strategy = TS_Auto,
        trq_verify_mode = VM_Quick\<rparr>),
      nt_suggestDeps = (True, True, ''x'', ''beta'', Some ''alpha''),
      nt_planDeps = (True, ''x'', ''p'', ''beta'', ''/y'', TS_Auto, 0),
      nt_pending = [Fetch_Suggest 1 ''x'' ''beta'']\<rparr>"

lemmas form_defs = nt_apply_def settle_def run_effects_def seed_effect_def suggest_effect_def plan_effect_def
  suggest_deps_def plan_deps_def sourceServerId_def selectedPlacement_def form_request_def buildRequest_def
  fetch_def find_or_first_def suggestedTargetServer_def peerServerIds_def projectArtifactIds_def
  firstTargetServer_def Let_def

lemma opened_form:
  "nt_apply rt (NE_Open no_prefill) (NewTransferDialog two_servers) =
   typed_form\<lparr>nt_targetPath := '''', nt_pathTouched := False, nt_planning := False, nt_planSeq := 0, nt_timer := None,
     nt_suggestDeps := (True, False, ''x'', ''beta'', Some ''alpha''),
     nt_planDeps := (True, ''x'', ''p'', ''beta'', '''', TS_Auto, 0)\<rparr>"
  by (simp add: form_defs NewTransferDialog_def typed_form_def two_servers_def no_prefill_def
      sample_placement_def sample_server_def)

lemma path_typed:
  "nt_apply rt (NE_Path ''/y'') (nt_apply rt (NE_Open no_prefill) (NewTransferDialog two_servers)) = typed_form"
proof -
  have "trim ''/y'' = ''/y''" by (simp add: trim_graphic graphic_def byte_def)
  moreover have "utf16_length ''/y'' = 2" by (simp add: utf16_length_def byte_units_def byte_def)
  ultimately show ?thesis unfolding opened_form
    by (simp add: form_defs change_path_def typed_form_def two_servers_def sample_placement_def)
qed

definition sample_transfer_plan :: transfer_plan where
  "sample_transfer_plan =
     \<lparr>pln_artifact_id = ''x'', pln_source_server_id = ''alpha'', pln_source_path = ''/data'',
      pln_target_server_id = ''beta'', pln_target_path = ''/y'', pln_strategy_requested = TS_Auto,
      pln_strategy_available = [(''local_relay'', True)], pln_strategy_selected = Some TS_Local_relay,
      pln_reason = '''', pln_excludes = [], pln_source_exists = Some True, pln_source_size_b = None,
      pln_target_free_b = None, pln_space_warning = '''', pln_direct_auth_reason = None\<rparr>"

definition plans_transfer :: network where
  "plans_transfer = (\<lambda>_. Response 200 '''' (Some (wireTransferPlan sample_transfer_plan)))"

lemma plans_transfer_plan: "planTransfer plain_runtime plans_transfer r = Inr sample_transfer_plan"
proof -
  have "wfTransferPlan sample_transfer_plan"
    by (simp add: sample_transfer_plan_def wfTransferPlan_def record_ok_def)
  then have "normalizeTransferPlan (Some (wireTransferPlan sample_transfer_plan)) = Some sample_transfer_plan"
    by (rule wire_transfer_plan.norm_wire)
  then show ?thesis
    by (simp add: planTransfer_def read_model_def transfers_request_def plans_transfer_def response_ok_def)
qed

lemma nt_run:
  "nt_reach rt nets d \<Longrightarrow> nt_enabled e d \<Longrightarrow> (\<And>k net. e = NE_Answer k net \<Longrightarrow> net \<in> nets) \<Longrightarrow>
   nt_reach rt nets (nt_apply rt e d)"
  by (rule nt_reach_step [OF _ nt_stepI])

lemma opened_form_reach: "nt_reach rt nets (nt_apply rt (NE_Open no_prefill) (NewTransferDialog two_servers))"
  by (rule nt_run [OF nt_reach_init]) simp_all

lemma typed_form_reach: "nt_reach rt nets typed_form"
  unfolding path_typed [of rt, symmetric]
  by (rule nt_run [OF opened_form_reach]) (simp_all add: opened_form typed_form_def)

lemma path_length: "utf16_length ''/y'' = 2"
  by (simp add: utf16_length_def byte_units_def byte_def)

lemma path_trim: "trim ''/y'' = ''/y''"
  by (simp add: trim_graphic graphic_def byte_def)

definition planned_form :: transfer_form where
  "planned_form = nt_apply plain_runtime (NE_Answer 1 plans_transfer) (nt_apply plain_runtime NE_Timer typed_form)"

lemma planned_form_state:
  "nt_open planned_form \<and> nt_plan planned_form = Some sample_transfer_plan \<and> \<not> nt_planning planned_form \<and>
   form_request planned_form = map_option snd (nt_timer typed_form)"
  by (simp add: planned_form_def form_defs typed_form_def nt_fire_def nt_answer_def plan_done_def
      plans_transfer_plan two_servers_def sample_placement_def path_length path_trim)

lemma plan_matches_form_witness:
  "\<exists>net \<in> {plans_transfer}. planTransfer plain_runtime net (snd (the (nt_timer typed_form))) = Inr sample_transfer_plan"
proof -
  have 1: "nt_reach plain_runtime {plans_transfer} (nt_apply plain_runtime NE_Timer typed_form)"
    by (rule nt_run [OF typed_form_reach]) (simp_all add: typed_form_def)
  have 2: "nt_reach plain_runtime {plans_transfer} planned_form" unfolding planned_form_def
    by (rule nt_run [OF 1]) (simp_all add: form_defs typed_form_def nt_fire_def two_servers_def
        sample_placement_def path_length path_trim)
  have "form_request planned_form = Some (snd (the (nt_timer typed_form)))"
    using planned_form_state by (simp add: typed_form_def)
  then show ?thesis using plan_matches_form [OF 2] planned_form_state by blast
qed

text \<open>A target path typed while the suggested one is being fetched is replaced by the suggestion when
  it arrives.\<close>

theorem typed_path_overwritten:
  assumes "nt_reach rt nets d" "nt_open d" "k < length (nt_pending d)"
    and "nt_pending d ! k = Fetch_Suggest (nt_suggestSeq d) a b"
    and "suggestTargetPath rt net a b = Inr r" "stp_target_path r = Some q"
  shows "nt_targetPath (nt_apply rt (NE_Path p) d) = p \<and>
    nt_targetPath (nt_apply rt (NE_Answer k net) (nt_apply rt (NE_Path p) d)) = q"
proof
  have d: "settled d" using plan_inv_reach [OF assms(1)] by simp
  then show "nt_targetPath (nt_apply rt (NE_Path p) d) = p"
    by (simp add: nt_apply_def settle_form settled_def) (simp add: change_path_def)
  show "nt_targetPath (nt_apply rt (NE_Answer k net) (nt_apply rt (NE_Path p) d)) = q"
    by (rule late_suggestion [OF d assms(3-6)])
qed

definition suggests_path :: network where
  "suggests_path = (\<lambda>_. Response 200 '''' (Some (JObj [(''target_path'', JStr ''/srv/x''), (''reason'', JNull)])))"

lemma typed_path_overwritten_witness:
  "nt_targetPath (nt_apply plain_runtime (NE_Answer 0 suggests_path) typed_form) = ''/srv/x''"
proof -
  let ?d = "nt_apply plain_runtime (NE_Open no_prefill) (NewTransferDialog two_servers)"
  have "suggestTargetPath plain_runtime suggests_path ''x'' ''beta'' =
      Inr \<lparr>stp_target_path = Some ''/srv/x'', stp_reason = None\<rparr>"
    by (simp add: suggestTargetPath_def read_model_def workspace_request_def suggests_path_def response_ok_def
        readSuggestion_def isRecord_iff ws_optionalStr_def str_def)
  moreover have "nt_open ?d" "0 < length (nt_pending ?d)" "nt_suggestSeq ?d = 1"
    "nt_pending ?d ! 0 = Fetch_Suggest 1 ''x'' ''beta''"
    unfolding opened_form by (simp_all add: typed_form_def)
  ultimately show ?thesis
    using typed_path_overwritten [OF opened_form_reach [of plain_runtime "{}"], of 0 "''x''" "''beta''" suggests_path _ "''/srv/x''" "''/y''"]
    by (simp add: path_typed)
qed

end
